(* ===== verification/Prelude.thy ===== *)
theory Prelude
  imports Main "HOL-Library.Word" "HOL-Library.Char_ord" "HOL-Library.List_Lexorder"
    "HOL-Library.Monad_Syntax"
begin

text \<open>
  What every component shares: the machine integers of the Rust sources as mathematical
  integers with their ranges written out, the checked operations on them, and lemmas on
  lists and options.  The release profile of the workspace builds with
  overflow-checks off, so plain arithmetic wraps and only the checked operations report an
  overflow; both are written out where the source uses them.
\<close>

named_theorems ranges \<open>membership in the ranges of the machine integer types\<close>
named_theorems checked_ops \<open>when a checked operation succeeds, and with what value\<close>

subsection \<open>Ranges of the machine integers\<close>

abbreviation i128_max :: int where "i128_max \<equiv> 170141183460469231731687303715884105727"
abbreviation i128_min :: int where "i128_min \<equiv> - 170141183460469231731687303715884105728"
abbreviation i64_max :: int where "i64_max \<equiv> 9223372036854775807"
abbreviation i64_min :: int where "i64_min \<equiv> - 9223372036854775808"
abbreviation u64_max :: int where "u64_max \<equiv> 18446744073709551615"
abbreviation u32_max :: int where "u32_max \<equiv> 4294967295"
abbreviation i16_max :: int where "i16_max \<equiv> 32767"

lemma i128_bounds: "i128_max = 2 ^ 127 - 1" "i128_min = - (2 ^ 127)"
  by simp_all

definition fits_i128 :: "int \<Rightarrow> bool" where
  "fits_i128 x \<longleftrightarrow> i128_min \<le> x \<and> x \<le> i128_max"

definition fits_i64 :: "int \<Rightarrow> bool" where
  "fits_i64 x \<longleftrightarrow> i64_min \<le> x \<and> x \<le> i64_max"

definition fits_u64 :: "int \<Rightarrow> bool" where
  "fits_u64 x \<longleftrightarrow> 0 \<le> x \<and> x \<le> u64_max"

definition fits_u32 :: "int \<Rightarrow> bool" where
  "fits_u32 x \<longleftrightarrow> 0 \<le> x \<and> x \<le> u32_max"

lemmas fits_defs [ranges] = fits_i128_def fits_i64_def fits_u64_def fits_u32_def

lemma fits_i128_0 [simp]: "fits_i128 0"
  by (simp add: ranges)

lemma fits_i64_i128: "fits_i64 x \<Longrightarrow> fits_i128 x"
  by (simp add: ranges)

lemma fits_i128_between: "fits_i128 a \<Longrightarrow> fits_i128 b \<Longrightarrow> a \<le> x \<Longrightarrow> x \<le> b \<Longrightarrow> fits_i128 x"
  by (simp add: ranges)

subsection \<open>Checked arithmetic\<close>

text \<open>The checked operations of \<open>i128\<close>: the exact result, or \<open>None\<close> when it does not fit.\<close>

definition checked_i128 :: "int \<Rightarrow> int option" where
  "checked_i128 x = (if fits_i128 x then Some x else None)"

definition checked_add :: "int \<Rightarrow> int \<Rightarrow> int option" where
  "checked_add a b = checked_i128 (a + b)"

definition checked_sub :: "int \<Rightarrow> int \<Rightarrow> int option" where
  "checked_sub a b = checked_i128 (a - b)"

definition checked_neg :: "int \<Rightarrow> int option" where
  "checked_neg a = checked_i128 (- a)"

lemma checked_i128_Some [checked_ops]: "checked_i128 x = Some y \<longleftrightarrow> y = x \<and> fits_i128 x"
  by (auto simp: checked_i128_def)

lemma checked_i128_None [checked_ops]: "checked_i128 x = None \<longleftrightarrow> \<not> fits_i128 x"
  by (auto simp: checked_i128_def)

lemma checked_add_Some [checked_ops]: "checked_add a b = Some c \<longleftrightarrow> c = a + b \<and> fits_i128 (a + b)"
  by (simp add: checked_add_def checked_ops)

lemma checked_sub_Some [checked_ops]: "checked_sub a b = Some c \<longleftrightarrow> c = a - b \<and> fits_i128 (a - b)"
  by (simp add: checked_sub_def checked_ops)

lemma checked_neg_Some [checked_ops]: "checked_neg a = Some c \<longleftrightarrow> c = - a \<and> fits_i128 (- a)"
  by (simp add: checked_neg_def checked_ops)

text \<open>Two's-complement reading of the low 64 bits, the Rust \<open>as i64\<close> on a wider integer.\<close>

definition wrap_i64 :: "int \<Rightarrow> int" where
  "wrap_i64 x = (x + 2 ^ 63) mod 2 ^ 64 - 2 ^ 63"

lemma wrap_i64_fits: "fits_i64 (wrap_i64 x)"
proof -
  have "0 \<le> (x + 2 ^ 63) mod 2 ^ 64" and "(x + 2 ^ 63) mod 2 ^ 64 < 2 ^ 64"
    by simp_all
  then show ?thesis by (simp add: wrap_i64_def ranges)
qed

lemma wrap_i64_id: "fits_i64 x \<Longrightarrow> wrap_i64 x = x"
  by (simp add: wrap_i64_def ranges)

text \<open>The unsigned 32-bit reading, the Rust \<open>as u32\<close>.\<close>

definition wrap_u32 :: "int \<Rightarrow> int" where
  "wrap_u32 x = x mod 2 ^ 32"

lemma wrap_u32_fits: "fits_u32 (wrap_u32 x)"
proof -
  have "0 \<le> x mod 2 ^ 32" and "x mod 2 ^ 32 < 2 ^ 32"
    by simp_all
  then show ?thesis by (simp add: wrap_u32_def ranges)
qed

lemma wrap_u32_id: "fits_u32 x \<Longrightarrow> wrap_u32 x = x"
  by (simp add: wrap_u32_def ranges)

subsection \<open>Options and lists\<close>

lemma foldl_inv: "P a \<Longrightarrow> (\<And>a x. P a \<Longrightarrow> P (f a x)) \<Longrightarrow> P (foldl f a xs)"
  by (induction xs arbitrary: a) auto

text \<open>Rust's \<open>Option::filter\<close> and \<open>Option::or_else\<close>.\<close>

definition opt_filter :: "('a \<Rightarrow> bool) \<Rightarrow> 'a option \<Rightarrow> 'a option" where
  "opt_filter P x = (case x of Some y \<Rightarrow> if P y then Some y else None | None \<Rightarrow> None)"

definition opt_or :: "'a option \<Rightarrow> 'a option \<Rightarrow> 'a option" where
  "opt_or x y = (case x of Some z \<Rightarrow> Some z | None \<Rightarrow> y)"

definition unwrap_or :: "'a option \<Rightarrow> 'a \<Rightarrow> 'a" where
  "unwrap_or x d = (case x of Some z \<Rightarrow> z | None \<Rightarrow> d)"

lemma opt_filter_simps [simp]:
  "opt_filter P None = None" "opt_filter P (Some y) = (if P y then Some y else None)"
  by (simp_all add: opt_filter_def)

lemma opt_or_simps [simp]: "opt_or None y = y" "opt_or (Some z) y = Some z"
  by (simp_all add: opt_or_def)

lemma unwrap_or_simps [simp]: "unwrap_or None d = d" "unwrap_or (Some z) d = z"
  by (simp_all add: unwrap_or_def)

lemma opt_filter_Some: "opt_filter P x = Some y \<longleftrightarrow> x = Some y \<and> P y"
  by (cases x) auto

text \<open>Rust's \<open>slice::get\<close>: the element, or \<open>None\<close> past the end.\<close>

definition nth_opt :: "'a list \<Rightarrow> nat \<Rightarrow> 'a option" where
  "nth_opt xs i = (if i < length xs then Some (xs ! i) else None)"

lemma nth_opt_simps [simp]:
  "nth_opt [] i = None" "nth_opt (x # xs) 0 = Some x" "nth_opt (x # xs) (Suc i) = nth_opt xs i"
  by (simp_all add: nth_opt_def)

lemma nth_opt_numeral [simp]: "nth_opt (x # xs) (numeral k) = nth_opt xs (pred_numeral k)"
  by (simp add: numeral_eq_Suc)

lemma nth_opt_Some: "nth_opt xs i = Some x \<longleftrightarrow> i < length xs \<and> x = xs ! i"
  by (auto simp: nth_opt_def)

definition first_opt :: "'a list \<Rightarrow> 'a option" where
  "first_opt xs = (case xs of [] \<Rightarrow> None | x # _ \<Rightarrow> Some x)"

definition last_opt :: "'a list \<Rightarrow> 'a option" where
  "last_opt xs = (if xs = [] then None else Some (last xs))"

lemma first_opt_hd: "xs \<noteq> [] \<Longrightarrow> first_opt xs = Some (hd xs)"
  by (cases xs) (simp_all add: first_opt_def)

lemma first_opt_simps [simp]: "first_opt [] = None" "first_opt (x # xs) = Some x"
  by (simp_all add: first_opt_def)

lemma last_opt_simps [simp]: "last_opt [] = None" "last_opt (xs @ [x]) = Some x"
  by (simp_all add: last_opt_def)

text \<open>
  \<open>iter().map(f).collect::<Option<Vec<_>>>()\<close>: all results, or \<open>None\<close> at the first failure.
\<close>

fun mapM_opt :: "('a \<Rightarrow> 'b option) \<Rightarrow> 'a list \<Rightarrow> 'b list option" where
  "mapM_opt f [] = Some []"
| "mapM_opt f (x # xs) =
     (case f x of None \<Rightarrow> None
      | Some y \<Rightarrow> (case mapM_opt f xs of None \<Rightarrow> None | Some ys \<Rightarrow> Some (y # ys)))"

lemma mapM_opt_Cons_Some:
  "mapM_opt f (x # xs) = Some ys \<longleftrightarrow> (\<exists>y r. f x = Some y \<and> mapM_opt f xs = Some r \<and> ys = y # r)"
  by (auto split: option.splits)

lemma mapM_opt_total: "(\<And>x. x \<in> set xs \<Longrightarrow> \<exists>y. f x = Some y) \<Longrightarrow> \<exists>ys. mapM_opt f xs = Some ys"
proof (induction xs)
  case (Cons x xs)
  then obtain y ys where "f x = Some y" "mapM_opt f xs = Some ys" by force
  then show ?case by simp
qed simp

lemma mapM_opt_Some_length: "mapM_opt f xs = Some ys \<Longrightarrow> length ys = length xs"
  by (induction xs arbitrary: ys) (auto split: option.splits)

lemma mapM_opt_Some_nth: "mapM_opt f xs = Some ys \<Longrightarrow> i < length xs \<Longrightarrow> f (xs ! i) = Some (ys ! i)"
proof (induction xs arbitrary: ys i)
  case Nil
  then show ?case by simp
next
  case (Cons x xs)
  then show ?case by (cases i) (auto split: option.splits)
qed

lemma mapM_opt_map: "(\<And>x. x \<in> set xs \<Longrightarrow> f x = Some (g x)) \<Longrightarrow> mapM_opt f xs = Some (map g xs)"
  by (induction xs) auto

text \<open>Rust's \<open>find_map\<close> and \<open>filter_map\<close>.\<close>

fun find_map :: "('a \<Rightarrow> 'b option) \<Rightarrow> 'a list \<Rightarrow> 'b option" where
  "find_map f [] = None"
| "find_map f (x # xs) = (case f x of Some y \<Rightarrow> Some y | None \<Rightarrow> find_map f xs)"

definition filter_map :: "('a \<Rightarrow> 'b option) \<Rightarrow> 'a list \<Rightarrow> 'b list" where
  "filter_map f xs = List.map_filter f xs"

lemma filter_map_simps [simp]:
  "filter_map f [] = []"
  "filter_map f (x # xs) = (case f x of Some y \<Rightarrow> y # filter_map f xs | None \<Rightarrow> filter_map f xs)"
  by (auto simp: filter_map_def List.map_filter_simps split: option.splits)

lemma filter_map_append [simp]: "filter_map f (xs @ ys) = filter_map f xs @ filter_map f ys"
  by (induction xs) (auto split: option.splits)

lemma set_filter_map: "set (filter_map f xs) = {y. \<exists>x \<in> set xs. f x = Some y}"
  by (induction xs) (auto split: option.splits)

lemma find_map_Some: "find_map f xs = Some y \<Longrightarrow> \<exists>x \<in> set xs. f x = Some y"
  by (induction xs) (auto split: option.splits)

lemma find_map_None: "find_map f xs = None \<longleftrightarrow> (\<forall>x \<in> set xs. f x = None)"
  by (induction xs) (auto split: option.splits)

text \<open>\<open>slice::chunks\<close>: pieces of \<open>n\<close> elements, the last one with what is left.\<close>

function slice_chunks :: "nat \<Rightarrow> 'a list \<Rightarrow> 'a list list" where
  "slice_chunks n xs = (if xs = [] \<or> n = 0 then [] else take n xs # slice_chunks n (drop n xs))"
  by pat_completeness auto

termination
  by (relation "measure (\<lambda>(n, xs). length xs)") auto

declare slice_chunks.simps [simp del]

lemma slice_chunks_concat: "0 < n \<Longrightarrow> concat (slice_chunks n xs) = xs"
  by (induction n xs rule: slice_chunks.induct) (subst slice_chunks.simps, simp)

lemma slice_chunks_length: "c \<in> set (slice_chunks n xs) \<Longrightarrow> length c \<le> n"
proof (induction n xs rule: slice_chunks.induct)
  case (1 n xs)
  show ?case
  proof (cases "xs = [] \<or> n = 0")
    case True
    then show ?thesis using "1.prems" by (subst (asm) slice_chunks.simps) simp
  next
    case False
    have "c = take n xs \<or> c \<in> set (slice_chunks n (drop n xs))"
      using "1.prems" False by (subst (asm) slice_chunks.simps) simp
    then show ?thesis using "1.IH" [OF False] by (auto simp: min_def)
  qed
qed

lemma slice_chunks_nonempty: "c \<in> set (slice_chunks n xs) \<Longrightarrow> c \<noteq> []"
proof (induction n xs rule: slice_chunks.induct)
  case (1 n xs)
  show ?case
  proof (cases "xs = [] \<or> n = 0")
    case True
    then show ?thesis using "1.prems" by (subst (asm) slice_chunks.simps) simp
  next
    case False
    have "c = take n xs \<or> c \<in> set (slice_chunks n (drop n xs))"
      using "1.prems" False by (subst (asm) slice_chunks.simps) simp
    then show ?thesis using "1.IH" [OF False] False by (cases xs; cases n) auto
  qed
qed

text \<open>\<open>sort\<close> and \<open>dedup\<close> of a vector, which also lists a \<open>BTreeSet\<close> collected from it.\<close>

definition sort_dedup :: "'a::linorder list \<Rightarrow> 'a list" where
  "sort_dedup xs = remdups_adj (sort xs)"

lemma set_sort_dedup [simp]: "set (sort_dedup xs) = set xs"
  by (simp add: sort_dedup_def)

lemma sorted_sort_dedup: "sorted (sort_dedup xs)" and distinct_sort_dedup: "distinct (sort_dedup xs)"
proof -
  have "distinct (remdups_adj ys)" if "sorted ys" for ys :: "'a list"
    using that by (induction ys rule: remdups_adj.induct) (auto simp: less_le dest: sym)
  then show "distinct (sort_dedup xs)" by (simp add: sort_dedup_def)
qed (simp add: sort_dedup_def sorted_remdups_adj)

end
