(* ===== verification/OrdMap.thy ===== *)
theory OrdMap
  imports Prelude
begin

text \<open>
  Rust's \<open>BTreeMap\<close> as a list of (key, value) pairs with strictly ascending keys: iterating
  it gives the pairs in key order, which is the order the sources rely on for deterministic
  output.  The interface the clients use is the locale \<open>ordered_map\<close>; its
  interpretation on the sorted lists is the model of the standard library's map.
\<close>

fun ord_lookup :: "('k::linorder \<times> 'v) list \<Rightarrow> 'k \<Rightarrow> 'v option" where
  "ord_lookup [] k = None"
| "ord_lookup ((a, v) # m) k = (if k = a then Some v else ord_lookup m k)"

fun ord_insert :: "'k::linorder \<Rightarrow> 'v \<Rightarrow> ('k \<times> 'v) list \<Rightarrow> ('k \<times> 'v) list" where
  "ord_insert k v [] = [(k, v)]"
| "ord_insert k v ((a, w) # m) =
     (if k < a then (k, v) # (a, w) # m
      else if k = a then (k, v) # m
      else (a, w) # ord_insert k v m)"

definition ord_keys :: "('k \<times> 'v) list \<Rightarrow> 'k list" where
  "ord_keys m = map fst m"

definition ord_invar :: "('k::linorder \<times> 'v) list \<Rightarrow> bool" where
  "ord_invar m \<longleftrightarrow> sorted_wrt (<) (ord_keys m)"

text \<open>
  \<open>entry(k).or_insert(d)\<close> followed by an update of the slot through the returned
  reference: the slot starts as \<open>d\<close> when the key is new.
\<close>

definition ord_entry :: "'k::linorder \<Rightarrow> 'v \<Rightarrow> ('v \<Rightarrow> 'v) \<Rightarrow> ('k \<times> 'v) list \<Rightarrow> ('k \<times> 'v) list" where
  "ord_entry k d f m = ord_insert k (f (unwrap_or (ord_lookup m k) d)) m"

text \<open>\<open>iter_mut\<close>: every value rewritten in place, the keys untouched.\<close>

definition ord_update_all :: "('k \<Rightarrow> 'v \<Rightarrow> 'v) \<Rightarrow> ('k \<times> 'v) list \<Rightarrow> ('k \<times> 'v) list" where
  "ord_update_all f m = map (\<lambda>(k, v). (k, f k v)) m"

subsection \<open>The interface\<close>

locale ordered_map =
  fixes lookup :: "'m \<Rightarrow> 'k::linorder \<Rightarrow> 'v option"
    and entry :: "'k \<Rightarrow> 'v \<Rightarrow> ('v \<Rightarrow> 'v) \<Rightarrow> 'm \<Rightarrow> 'm"
    and empty :: "'m"
    and keys :: "'m \<Rightarrow> 'k list"
    and invar :: "'m \<Rightarrow> bool"
  assumes lookup_empty: "lookup empty k = None"
    and invar_empty: "invar empty"
    and lookup_entry: "invar m \<Longrightarrow>
          lookup (entry k d f m) k' =
            (if k' = k then Some (f (unwrap_or (lookup m k) d)) else lookup m k')"
    and invar_entry: "invar m \<Longrightarrow> invar (entry k d f m)"
    and keys_sorted: "invar m \<Longrightarrow> sorted_wrt (<) (keys m)"
    and keys_lookup: "invar m \<Longrightarrow> set (keys m) = {k. lookup m k \<noteq> None}"
begin

text \<open>
  The accumulation loop of the sources: for each item, the slot of its key is updated with
  the item.  A slot ends as the fold over the items of its own key, in their order.
\<close>

definition accumulate :: "('x \<Rightarrow> 'k) \<Rightarrow> 'v \<Rightarrow> ('x \<Rightarrow> 'v \<Rightarrow> 'v) \<Rightarrow> 'x list \<Rightarrow> 'm \<Rightarrow> 'm" where
  "accumulate key d upd xs m = foldl (\<lambda>m x. entry (key x) d (upd x) m) m xs"

lemma invar_accumulate: "invar m \<Longrightarrow> invar (accumulate key d upd xs m)"
  by (induction xs arbitrary: m) (auto simp: accumulate_def invar_entry)

lemma lookup_accumulate:
  "invar m \<Longrightarrow>
   lookup (accumulate key d upd xs m) k =
     (let ys = filter (\<lambda>x. key x = k) xs
      in if ys = [] then lookup m k
         else Some (foldl (\<lambda>v x. upd x v) (unwrap_or (lookup m k) d) ys))"
proof (induction xs arbitrary: m)
  case Nil
  then show ?case by (simp add: accumulate_def)
next
  case (Cons x xs)
  have "invar (entry (key x) d (upd x) m)"
    using Cons.prems by (rule invar_entry)
  from Cons.IH [OF this] show ?case
    using Cons.prems by (auto simp: accumulate_def lookup_entry Let_def)
qed

lemma lookup_accumulate_empty:
  "lookup (accumulate key d upd xs empty) k =
     (let ys = filter (\<lambda>x. key x = k) xs
      in if ys = [] then None else Some (foldl (\<lambda>v x. upd x v) d ys))"
  by (simp add: lookup_accumulate invar_empty lookup_empty Let_def)

lemma keys_accumulate_empty:
  "set (keys (accumulate key d upd xs empty)) = key ` set xs"
  by (auto simp: keys_lookup invar_accumulate invar_empty lookup_accumulate_empty Let_def
      filter_empty_conv split: if_splits)

end

subsection \<open>The sorted lists satisfy it\<close>

lemma set_ord_keys_insert: "set (ord_keys (ord_insert k v m)) = insert k (set (ord_keys m))"
  by (induction k v m rule: ord_insert.induct) (auto simp: ord_keys_def)

lemma ord_invar_Nil [simp]: "ord_invar []"
  by (simp add: ord_invar_def ord_keys_def)

lemma ord_invar_Cons:
  "ord_invar ((a, v) # m) \<longleftrightarrow> (\<forall>k \<in> set (ord_keys m). a < k) \<and> ord_invar m"
  by (simp add: ord_invar_def ord_keys_def)

lemma ord_invar_insert: "ord_invar m \<Longrightarrow> ord_invar (ord_insert k v m)"
proof (induction k v m rule: ord_insert.induct)
  case (1 k v)
  then show ?case by (simp add: ord_invar_def ord_keys_def)
next
  case (2 k v a w m)
  then show ?case
    by (auto simp: ord_invar_Cons set_ord_keys_insert) (auto simp: ord_keys_def)
qed

lemma ord_lookup_insert: "ord_lookup (ord_insert k v m) k' = (if k' = k then Some v else ord_lookup m k')"
  by (induction k v m rule: ord_insert.induct) auto

lemma ord_lookup_keys: "ord_lookup m k \<noteq> None \<longleftrightarrow> k \<in> set (ord_keys m)"
  by (induction m k rule: ord_lookup.induct) (auto simp: ord_keys_def)

lemma ord_lookup_map_of: "ord_lookup m k = map_of m k"
  by (induction m k rule: ord_lookup.induct) auto

lemma ord_lookup_mem: "ord_invar m \<Longrightarrow> ord_lookup m k = Some v \<longleftrightarrow> (k, v) \<in> set m"
proof (induction m k rule: ord_lookup.induct)
  case (2 a w m k)
  then show ?case
    by (auto simp: ord_invar_Cons ord_keys_def)
qed simp

lemma ord_lookup_entry:
  "ord_lookup (ord_entry k d f m) k' =
     (if k' = k then Some (f (unwrap_or (ord_lookup m k) d)) else ord_lookup m k')"
  by (simp add: ord_entry_def ord_lookup_insert)

lemma ord_invar_entry: "ord_invar m \<Longrightarrow> ord_invar (ord_entry k d f m)"
  by (simp add: ord_entry_def ord_invar_insert)

lemma ord_lookup_update_all: "ord_lookup (ord_update_all f m) k = map_option (f k) (ord_lookup m k)"
  by (induction m k rule: ord_lookup.induct) (auto simp: ord_update_all_def)

lemma ord_invar_update_all: "ord_invar m \<Longrightarrow> ord_invar (ord_update_all f m)"
proof -
  have "ord_keys (ord_update_all f m) = ord_keys m"
    by (induction m) (auto simp: ord_update_all_def ord_keys_def)
  then show "ord_invar m \<Longrightarrow> ?thesis" by (simp add: ord_invar_def)
qed

lemma set_ord_keys_lookup: "set (ord_keys m) = {k. ord_lookup m k \<noteq> None}"
  by (simp only: ord_lookup_keys) simp

interpretation bt: ordered_map ord_lookup ord_entry "[]" ord_keys ord_invar
  by (rule ordered_map.intro, simp, simp, rule ord_lookup_entry, erule ord_invar_entry,
      simp only: ord_invar_def, rule set_ord_keys_lookup)

lemma distinct_ord_keys: "ord_invar m \<Longrightarrow> distinct (ord_keys m)"
  by (simp add: ord_invar_def strict_sorted_iff)

lemma sum_list_ord:
  fixes g :: "'k::linorder \<Rightarrow> 'v \<Rightarrow> int"
  assumes "ord_invar m"
  shows "(\<Sum>(k, v) \<leftarrow> m. g k v) = (\<Sum>k \<in> set (ord_keys m). g k (the (ord_lookup m k)))"
  using assms
proof (induction m)
  case Nil
  then show ?case by (simp add: ord_keys_def)
next
  case (Cons p m)
  obtain a v where p: "p = (a, v)" by (cases p)
  have notin: "a \<notin> set (ord_keys m)" and inv: "ord_invar m"
    using Cons.prems by (auto simp: p ord_invar_Cons)
  have "(\<Sum>k \<in> set (ord_keys m). g k (the (ord_lookup (p # m) k))) =
        (\<Sum>k \<in> set (ord_keys m). g k (the (ord_lookup m k)))"
    using notin by (intro sum.cong) (auto simp: p)
  moreover have "set (ord_keys (p # m)) = insert a (set (ord_keys m))"
    by (simp add: p ord_keys_def)
  ultimately show ?case
    using Cons.IH [OF inv] notin by (simp add: p)
qed

end
