(* ===== verification/NetSettled.thy ===== *)
theory NetSettled
  imports OrdMap
begin

text \<open>
  \<open>crates/xdr-parser/src/net_settled.rs\<close>: the value a transaction settles per asset, reduced
  from the signed per-account balance deltas.  The two nested \<open>BTreeMap\<close>s are ordered
  maps, every addition and negation is checked as in the source, and an account whose running
  delta left \<open>i128\<close> is the slot \<open>None\<close> that poisons its asset.
\<close>

subsection \<open>Data and operations\<close>

record account_delta =
  ad_asset_id :: int
  ad_account :: string
  ad_delta :: int

record net_row =
  ns_asset_id :: int
  ns_amount :: "int option"

type_synonym account_map = "(string \<times> int option) list"

text \<open>One account slot: \<open>*acc = acc.and_then(|v| v.checked_add(d.delta))\<close>.\<close>

definition bump_account :: "account_delta \<Rightarrow> int option \<Rightarrow> int option" where
  "bump_account d acc = Option.bind acc (\<lambda>v. checked_add v (ad_delta d))"

definition bump_asset :: "account_delta \<Rightarrow> account_map \<Rightarrow> account_map" where
  "bump_asset d accounts = ord_entry (ad_account d) (Some 0) (bump_account d) accounts"

definition per_asset :: "account_delta list \<Rightarrow> (int \<times> account_map) list" where
  "per_asset ds = foldl (\<lambda>m d. ord_entry (ad_asset_id d) [] (bump_asset d) m) [] ds"

fun reduce_loop :: "int \<Rightarrow> int \<Rightarrow> int option list \<Rightarrow> int option" where
  "reduce_loop gained lost [] = Some (max gained lost)"
| "reduce_loop gained lost (None # ds) = None"
| "reduce_loop gained lost (Some d # ds) =
     (if d > 0 then
        (case checked_add gained d of None \<Rightarrow> None | Some g \<Rightarrow> reduce_loop g lost ds)
      else if d < 0 then
        (case checked_neg d of None \<Rightarrow> None
         | Some n \<Rightarrow> (case checked_add lost n of None \<Rightarrow> None | Some l \<Rightarrow> reduce_loop gained l ds))
      else reduce_loop gained lost ds)"

definition reduce :: "account_map \<Rightarrow> int option" where
  "reduce accounts = reduce_loop 0 0 (map snd accounts)"

definition net_settled :: "account_delta list \<Rightarrow> net_row list" where
  "net_settled ds =
     map (\<lambda>(a, accounts). \<lparr>ns_asset_id = a, ns_amount = reduce accounts\<rparr>) (per_asset ds)"

subsection \<open>The specification over unbounded integers\<close>

text \<open>
  The ideal figures: the exact net delta of an account in an asset, and the two sides of the
  network-flow value of the asset, summed over the accounts that appear.
\<close>

definition asset_deltas :: "account_delta list \<Rightarrow> int \<Rightarrow> account_delta list" where
  "asset_deltas ds a = filter (\<lambda>d. ad_asset_id d = a) ds"

definition account_net :: "account_delta list \<Rightarrow> int \<Rightarrow> string \<Rightarrow> int" where
  "account_net ds a acct =
     (\<Sum>d \<leftarrow> filter (\<lambda>d. ad_account d = acct) (asset_deltas ds a). ad_delta d)"

definition asset_accounts :: "account_delta list \<Rightarrow> int \<Rightarrow> string set" where
  "asset_accounts ds a = ad_account ` set (asset_deltas ds a)"

definition gained_value :: "account_delta list \<Rightarrow> int \<Rightarrow> int" where
  "gained_value ds a = (\<Sum>acct \<in> asset_accounts ds a. max 0 (account_net ds a acct))"

definition lost_value :: "account_delta list \<Rightarrow> int \<Rightarrow> int" where
  "lost_value ds a = (\<Sum>acct \<in> asset_accounts ds a. max 0 (- account_net ds a acct))"

definition flow_value :: "account_delta list \<Rightarrow> int \<Rightarrow> int" where
  "flow_value ds a = max (gained_value ds a) (lost_value ds a)"

definition gross_value :: "account_delta list \<Rightarrow> int \<Rightarrow> int" where
  "gross_value ds a = (\<Sum>d \<leftarrow> asset_deltas ds a. \<bar>ad_delta d\<bar>)"

subsection \<open>The accumulation\<close>

lemma per_asset_accumulate: "per_asset ds = bt.accumulate ad_asset_id [] bump_asset ds []"
  by (simp add: per_asset_def bt.accumulate_def)

lemma bump_accounts_fold:
  "foldl (\<lambda>v d. bump_asset d v) [] ds = bt.accumulate ad_account (Some 0) bump_account ds []"
  by (simp add: bt.accumulate_def bump_asset_def)

lemma lookup_per_asset:
  "ord_lookup (per_asset ds) a =
     (if asset_deltas ds a = [] then None
      else Some (bt.accumulate ad_account (Some 0) bump_account (asset_deltas ds a) []))"
  by (simp add: per_asset_accumulate bt.lookup_accumulate_empty asset_deltas_def bump_accounts_fold Let_def)

lemma per_asset_invar: "ord_invar (per_asset ds)"
  by (simp add: per_asset_accumulate bt.invar_accumulate)

lemma per_asset_keys: "set (ord_keys (per_asset ds)) = ad_asset_id ` set ds"
  by (simp add: per_asset_accumulate bt.keys_accumulate_empty)

text \<open>A slot that is still a number holds the exact sum of its deltas.\<close>

lemma bump_fold_Some:
  "foldl (\<lambda>v d. bump_account d v) acc ds = Some s \<Longrightarrow>
   \<exists>v. acc = Some v \<and> s = v + (\<Sum>d \<leftarrow> ds. ad_delta d)"
proof (induction ds arbitrary: acc)
  case Nil
  then show ?case by simp
next
  case (Cons d ds)
  from Cons.IH [of "bump_account d acc"] Cons.prems
  obtain w where w: "bump_account d acc = Some w" "s = w + (\<Sum>d \<leftarrow> ds. ad_delta d)"
    by auto
  then show ?case
    by (cases acc) (auto simp: bump_account_def checked_ops)
qed

text \<open>
  If the absolute deltas of the slot fit together with what it holds, no prefix overflows.
\<close>

lemma bump_fold_fits:
  "\<bar>v\<bar> + (\<Sum>d \<leftarrow> ds. \<bar>ad_delta d\<bar>) \<le> i128_max \<Longrightarrow>
   foldl (\<lambda>v d. bump_account d v) (Some v) ds = Some (v + (\<Sum>d \<leftarrow> ds. ad_delta d))"
proof (induction ds arbitrary: v)
  case Nil
  then show ?case by simp
next
  case (Cons d ds)
  have nonneg: "0 \<le> (\<Sum>d \<leftarrow> ds. \<bar>ad_delta d\<bar>)"
    by (rule sum_list_nonneg) auto
  have bound: "\<bar>v + ad_delta d\<bar> + (\<Sum>d \<leftarrow> ds. \<bar>ad_delta d\<bar>) \<le> i128_max"
    using Cons.prems by simp
  then have "fits_i128 (v + ad_delta d)"
    using nonneg unfolding fits_i128_def by arith
  then have "bump_account d (Some v) = Some (v + ad_delta d)"
    by (simp add: bump_account_def checked_ops)
  with Cons.IH [OF bound] show ?case by simp
qed

subsection \<open>The reduction\<close>

lemma reduce_loop_Some:
  "reduce_loop g l ds = Some m \<Longrightarrow>
   (\<forall>d \<in> set ds. d \<noteq> None) \<and>
   m = max (g + (\<Sum>d \<leftarrow> ds. max 0 (the d))) (l + (\<Sum>d \<leftarrow> ds. max 0 (- the d)))"
proof (induction g l ds rule: reduce_loop.induct)
  case (3 gained lost d ds)
  show ?case
  proof (cases "d > 0")
    case True
    with 3 show ?thesis by (auto simp: checked_ops split: option.splits)
  next
    case False
    with 3 show ?thesis by (auto simp: checked_ops split: option.splits if_splits)
  qed
qed auto

lemma reduce_loop_fits:
  assumes "\<forall>d \<in> set ds. d \<noteq> None"
    and "0 \<le> g" "0 \<le> l"
    and "g + (\<Sum>d \<leftarrow> ds. max 0 (the d)) \<le> i128_max"
    and "l + (\<Sum>d \<leftarrow> ds. max 0 (- the d)) \<le> i128_max"
  shows "reduce_loop g l ds \<noteq> None"
  using assms
proof (induction g l ds rule: reduce_loop.induct)
  case (3 gained lost d ds)
  have p: "0 \<le> (\<Sum>d \<leftarrow> ds. max 0 (the d))" and n: "0 \<le> (\<Sum>d \<leftarrow> ds. max 0 (- the d))"
    by (rule sum_list_nonneg, auto)+
  have "d > 0 \<Longrightarrow> fits_i128 (gained + d)" and "d < 0 \<Longrightarrow> fits_i128 (- d) \<and> fits_i128 (lost - d)"
    using 3(5-8) p n by (auto simp: ranges)
  with 3 show ?case
    by (auto simp: checked_add_def checked_neg_def checked_i128_def)
qed auto

subsection \<open>Relating a row to the ideal figures\<close>

definition account_slots :: "account_delta list \<Rightarrow> int \<Rightarrow> account_map" where
  "account_slots ds a = bt.accumulate ad_account (Some 0) bump_account (asset_deltas ds a) []"

lemma slots_invar: "ord_invar (account_slots ds a)"
  by (simp add: account_slots_def bt.invar_accumulate)

lemma slots_keys: "set (ord_keys (account_slots ds a)) = asset_accounts ds a"
  by (simp add: account_slots_def bt.keys_accumulate_empty asset_accounts_def)

lemma slots_lookup:
  "acct \<in> asset_accounts ds a \<Longrightarrow>
   ord_lookup (account_slots ds a) acct =
     Some (foldl (\<lambda>v d. bump_account d v) (Some 0)
             (filter (\<lambda>d. ad_account d = acct) (asset_deltas ds a)))"
  by (auto simp: account_slots_def bt.lookup_accumulate_empty asset_accounts_def Let_def
      filter_empty_conv)

lemma net_settled_mem:
  "row \<in> set (net_settled ds) \<longleftrightarrow>
   (\<exists>a. asset_deltas ds a \<noteq> [] \<and>
        row = \<lparr>ns_asset_id = a, ns_amount = reduce (account_slots ds a)\<rparr>)"
proof -
  have mem: "(a, m) \<in> set (per_asset ds) \<longleftrightarrow> asset_deltas ds a \<noteq> [] \<and> m = account_slots ds a" for a m
    by (auto simp: ord_lookup_mem [OF per_asset_invar, symmetric] lookup_per_asset account_slots_def)
  have "row \<in> set (net_settled ds) \<longleftrightarrow>
        (\<exists>a m. (a, m) \<in> set (per_asset ds) \<and> row = \<lparr>ns_asset_id = a, ns_amount = reduce m\<rparr>)"
    by (auto simp: net_settled_def image_iff split_paired_Bex_Sigma split: prod.splits)
  then show ?thesis by (auto simp: mem)
qed

lemma sum_slots:
  fixes f :: "int \<Rightarrow> int"
  assumes "\<forall>acct \<in> asset_accounts ds a.
             ord_lookup (account_slots ds a) acct = Some (Some (account_net ds a acct))"
  shows "(\<Sum>d \<leftarrow> map snd (account_slots ds a). f (the d)) =
         (\<Sum>acct \<in> asset_accounts ds a. f (account_net ds a acct))"
proof -
  have "(\<Sum>d \<leftarrow> map snd (account_slots ds a). f (the d)) =
        (\<Sum>(k, d) \<leftarrow> account_slots ds a. f (the d))"
    by (simp add: comp_def split_def)
  also have "\<dots> = (\<Sum>k \<in> asset_accounts ds a. f (the (the (ord_lookup (account_slots ds a) k))))"
    using sum_list_ord [OF slots_invar, of "\<lambda>_ d. f (the d)" ds a] by (simp add: slots_keys)
  also have "\<dots> = (\<Sum>k \<in> asset_accounts ds a. f (account_net ds a k))"
    using assms by (intro sum.cong) auto
  finally show ?thesis .
qed

lemma slot_value:
  assumes "acct \<in> asset_accounts ds a" and "ord_lookup (account_slots ds a) acct = Some (Some v)"
  shows "v = account_net ds a acct"
  using assms bump_fold_Some [of "Some 0" _ v]
  by (auto simp: slots_lookup account_net_def)

lemma reduce_sound:
  assumes "reduce (account_slots ds a) = Some v"
  shows "v = flow_value ds a"
proof -
  note R = reduce_loop_Some [OF assms [unfolded reduce_def]]
  have slots: "\<forall>acct \<in> asset_accounts ds a.
      ord_lookup (account_slots ds a) acct = Some (Some (account_net ds a acct))"
  proof
    fix acct assume acct: "acct \<in> asset_accounts ds a"
    then obtain d where d: "ord_lookup (account_slots ds a) acct = Some d"
      by (auto simp: slots_lookup)
    then have "(acct, d) \<in> set (account_slots ds a)"
      by (simp add: ord_lookup_mem [OF slots_invar])
    then have "d \<noteq> None" using R by force
    with d slot_value [OF acct] show "ord_lookup (account_slots ds a) acct = Some (Some (account_net ds a acct))"
      by auto
  qed
  show ?thesis
    using R sum_slots [OF slots, of "max 0"] sum_slots [OF slots, of "\<lambda>x. max 0 (- x)"]
    by (simp add: flow_value_def gained_value_def lost_value_def)
qed

subsection \<open>When the reduction is representable\<close>

lemma sum_abs_filter_le:
  "(\<Sum>d \<leftarrow> filter P ds. \<bar>ad_delta d\<bar>) \<le> (\<Sum>d \<leftarrow> ds. \<bar>ad_delta d\<bar>)"
  by (induction ds) auto

lemma abs_sum_list_le: "\<bar>\<Sum>d \<leftarrow> ds. ad_delta d\<bar> \<le> (\<Sum>d \<leftarrow> ds. \<bar>ad_delta d\<bar>)"
  by (induction ds) auto

lemma sum_abs_partition:
  "finite A \<Longrightarrow> ad_account ` set ds \<subseteq> A \<Longrightarrow>
   (\<Sum>acct \<in> A. \<Sum>d \<leftarrow> filter (\<lambda>d. ad_account d = acct) ds. g d) = (\<Sum>d \<leftarrow> ds. g d)"
  for g :: "account_delta \<Rightarrow> int"
proof (induction ds)
  case Nil
  then show ?case by simp
next
  case (Cons d ds)
  have "(\<Sum>acct \<in> A. \<Sum>e \<leftarrow> filter (\<lambda>e. ad_account e = acct) (d # ds). g e) =
        (\<Sum>acct \<in> A. (if acct = ad_account d then g d else 0) +
           (\<Sum>e \<leftarrow> filter (\<lambda>e. ad_account e = acct) ds. g e))"
    by (rule sum.cong) auto
  also have "\<dots> = g d + (\<Sum>e \<leftarrow> ds. g e)"
    using Cons by (simp add: sum.distrib)
  finally show ?case by simp
qed

lemma max_0_le_abs: "max 0 x \<le> \<bar>x\<bar>" "max 0 (- x) \<le> \<bar>x\<bar>" for x :: int
  by auto

lemma sum_side_le_gross:
  assumes "\<And>x. f x \<le> \<bar>x\<bar>"
  shows "(\<Sum>acct \<in> asset_accounts ds a. f (account_net ds a acct)) \<le> gross_value ds a"
proof -
  have "(\<Sum>acct \<in> asset_accounts ds a. f (account_net ds a acct)) \<le>
        (\<Sum>acct \<in> asset_accounts ds a.
           \<Sum>d \<leftarrow> filter (\<lambda>d. ad_account d = acct) (asset_deltas ds a). \<bar>ad_delta d\<bar>)"
    by (intro sum_mono order_trans [OF assms]) (simp add: account_net_def abs_sum_list_le)
  also have "\<dots> = gross_value ds a"
    unfolding gross_value_def by (rule sum_abs_partition) (simp_all add: asset_accounts_def)
  finally show ?thesis .
qed

lemma slots_fit:
  assumes "gross_value ds a \<le> i128_max" and "acct \<in> asset_accounts ds a"
  shows "ord_lookup (account_slots ds a) acct = Some (Some (account_net ds a acct))"
proof -
  have "(\<Sum>d \<leftarrow> filter (\<lambda>d. ad_account d = acct) (asset_deltas ds a). \<bar>ad_delta d\<bar>) \<le> i128_max"
    using sum_abs_filter_le assms(1) unfolding gross_value_def by (rule order_trans)
  then show ?thesis
    using bump_fold_fits [of 0 "filter (\<lambda>d. ad_account d = acct) (asset_deltas ds a)"]
    by (simp add: slots_lookup [OF assms(2)] account_net_def)
qed

lemma reduce_complete:
  assumes "gross_value ds a \<le> i128_max"
  shows "reduce (account_slots ds a) = Some (flow_value ds a)"
proof -
  have slots: "\<forall>acct \<in> asset_accounts ds a.
      ord_lookup (account_slots ds a) acct = Some (Some (account_net ds a acct))"
    using slots_fit [OF assms] by blast
  have some: "\<forall>d \<in> set (map snd (account_slots ds a)). d \<noteq> None"
  proof
    fix d assume "d \<in> set (map snd (account_slots ds a))"
    then obtain acct where "(acct, d) \<in> set (account_slots ds a)" by auto
    then have l: "ord_lookup (account_slots ds a) acct = Some d"
      by (simp add: ord_lookup_mem [OF slots_invar])
    then have "acct \<in> asset_accounts ds a"
      using ord_lookup_keys [of "account_slots ds a" acct] by (simp add: slots_keys)
    with slots l show "d \<noteq> None" by auto
  qed
  have "(\<Sum>d \<leftarrow> map snd (account_slots ds a). max 0 (the d)) \<le> i128_max"
    and "(\<Sum>d \<leftarrow> map snd (account_slots ds a). max 0 (- the d)) \<le> i128_max"
    using sum_slots [OF slots, of "max 0"] sum_slots [OF slots, of "\<lambda>x. max 0 (- x)"]
      sum_side_le_gross [of "max 0" ds a, OF max_0_le_abs(1)]
      sum_side_le_gross [of "\<lambda>x. max 0 (- x)" ds a, OF max_0_le_abs(2)] assms
    by simp_all
  then have "reduce (account_slots ds a) \<noteq> None"
    unfolding reduce_def using some by (intro reduce_loop_fits) simp_all
  then show ?thesis using reduce_sound by auto
qed

subsection \<open>Conservation\<close>

lemma gained_minus_lost:
  "gained_value ds a - lost_value ds a = (\<Sum>d \<leftarrow> asset_deltas ds a. ad_delta d)"
proof -
  have "gained_value ds a - lost_value ds a =
        (\<Sum>acct \<in> asset_accounts ds a. max 0 (account_net ds a acct) - max 0 (- account_net ds a acct))"
    by (simp add: gained_value_def lost_value_def sum_subtractf)
  also have "\<dots> = (\<Sum>acct \<in> asset_accounts ds a. account_net ds a acct)"
    by (rule sum.cong) auto
  also have "\<dots> = (\<Sum>d \<leftarrow> asset_deltas ds a. ad_delta d)"
    unfolding account_net_def by (rule sum_abs_partition) (simp_all add: asset_accounts_def)
  finally show ?thesis .
qed

lemma strict_sorted_map_unique:
  fixes f :: "'a \<Rightarrow> 'b::linorder"
  assumes "set xs = set ys"
    and "sorted_wrt (<) (map f xs)" and "sorted_wrt (<) (map f ys)"
  shows "xs = ys"
proof (rule map_sorted_distinct_set_unique)
  show "inj_on f (set xs \<union> set ys)"
    using assms distinct_map strict_sorted_iff by (metis Un_absorb)
qed (use assms in \<open>auto simp: strict_sorted_iff\<close>)

subsection \<open>Properties\<close>

definition mk_delta :: "int \<Rightarrow> string \<Rightarrow> int \<Rightarrow> account_delta" where
  "mk_delta a acct d = \<lparr>ad_asset_id = a, ad_account = acct, ad_delta = d\<rparr>"

text \<open>The signed deltas of a transfer from one account to another.\<close>

definition transfer_deltas :: "int \<Rightarrow> string \<Rightarrow> string \<Rightarrow> int \<Rightarrow> account_delta list" where
  "transfer_deltas a src dst n = [mk_delta a src (- n), mk_delta a dst n]"

text \<open>C2. The figure is never a fabricated one: whatever a row of \<open>net_settled\<close> reports for
  its asset is exactly the flow value of the deltas over unbounded integers (the larger of
  what accounts gained and what accounts lost, each account netted first), even where sums
  inside the reduction leave \<open>i128\<close>.\<close>

theorem net_settled_sound:
  assumes "row \<in> set (net_settled ds)" and "ns_amount row = Some v"
  shows "v = flow_value ds (ns_asset_id row)"
  using assms reduce_sound by (auto simp: net_settled_mem)

theorem net_settled_sound_witness:
  "flow_value (transfer_deltas 100 ''A'' ''B'' 100 @ transfer_deltas 100 ''B'' ''C'' 100) 100 = 100"
proof -
  let ?ds = "transfer_deltas 100 ''A'' ''B'' 100 @ transfer_deltas 100 ''B'' ''C'' 100"
  have "net_settled ?ds = [\<lparr>ns_asset_id = 100, ns_amount = Some 100\<rparr>]"
    by code_simp
  then show ?thesis
    using net_settled_sound [of "\<lparr>ns_asset_id = 100, ns_amount = Some 100\<rparr>" ?ds 100] by simp
qed

text \<open>One row per asset that occurs, in strictly ascending asset order, and the row of an
  asset depends on the deltas of that asset only: an asset whose sums overflow does not
  disturb the others.\<close>

theorem net_settled_rows:
  "sorted_wrt (<) (map ns_asset_id (net_settled ds)) \<and>
   set (map ns_asset_id (net_settled ds)) = ad_asset_id ` set ds \<and>
   filter (\<lambda>r. ns_asset_id r = a) (net_settled ds) = net_settled (asset_deltas ds a)"
proof -
  have keys: "map ns_asset_id (net_settled es) = ord_keys (per_asset es)" for es
    by (simp add: net_settled_def ord_keys_def comp_def split_def)
  have sorted: "sorted_wrt (<) (map ns_asset_id (net_settled es))" for es
    using per_asset_invar by (simp only: keys ord_invar_def)
  have "set (filter (\<lambda>r. ns_asset_id r = a) (net_settled ds)) = set (net_settled (asset_deltas ds a))"
    by (auto simp: net_settled_mem asset_deltas_def account_slots_def conj_commute
        filter_empty_conv cong: conj_cong split: if_splits)
  moreover have "sorted_wrt (<) (map ns_asset_id (filter (\<lambda>r. ns_asset_id r = a) (net_settled ds)))"
    using sorted [of ds] by (simp add: sorted_wrt_map sorted_wrt_filter)
  ultimately have "filter (\<lambda>r. ns_asset_id r = a) (net_settled ds) = net_settled (asset_deltas ds a)"
    using sorted [of "asset_deltas ds a"] by (intro strict_sorted_map_unique)
  then show ?thesis
    using sorted [of ds] per_asset_keys [of ds] by (simp add: keys)
qed

text \<open>C26. The reduction is computed whenever it is representable: if the gross volume of an
  asset fits in \<open>i128\<close>, its row carries the flow value; and if its deltas balance (every
  movement a transfer), that figure is what the gaining accounts gained and equally what the
  losing accounts lost, so a pure cycle settles zero.\<close>

theorem net_settled_complete:
  assumes "row \<in> set (net_settled ds)" and "gross_value ds (ns_asset_id row) \<le> i128_max"
  shows "ns_amount row = Some (flow_value ds (ns_asset_id row)) \<and>
         ((\<Sum>d \<leftarrow> asset_deltas ds (ns_asset_id row). ad_delta d) = 0 \<longrightarrow>
            ns_amount row = Some (gained_value ds (ns_asset_id row)) \<and>
            ns_amount row = Some (lost_value ds (ns_asset_id row)))"
  using assms reduce_complete gained_minus_lost [of ds "ns_asset_id row"]
  by (auto simp: net_settled_mem flow_value_def)

theorem net_settled_complete_witness:
  "net_settled (transfer_deltas 7 ''A'' ''B'' 100 @ transfer_deltas 7 ''B'' ''A'' 100) =
     [\<lparr>ns_asset_id = 7, ns_amount = Some 0\<rparr>] \<and>
   gained_value (transfer_deltas 7 ''A'' ''B'' 100 @ transfer_deltas 7 ''B'' ''A'' 100) 7 = 0"
proof -
  let ?ds = "transfer_deltas 7 ''A'' ''B'' 100 @ transfer_deltas 7 ''B'' ''A'' 100"
  let ?row = "\<lparr>ns_asset_id = 7, ns_amount = Some 0\<rparr>"
  have eval: "net_settled ?ds = [?row]" by code_simp
  have "gross_value ?ds 7 = 400" and "(\<Sum>d \<leftarrow> asset_deltas ?ds 7. ad_delta d) = 0"
    by code_simp+
  then show ?thesis
    using net_settled_complete [of ?row ?ds] eval by simp
qed

end
