(* ===== verification/RustStr.thy ===== *)
theory RustStr
  imports Prelude "HOL-Library.Sublist"
begin

text \<open>
  The string operations of the Rust standard library the sources use.  A \<open>String\<close> is the list
  of its UTF-8 bytes, one \<open>char\<close> per byte, which is also what \<open>len\<close>, slicing and the
  ordering of strings see.  Decimal and hexadecimal printing and the integer parsers follow
  \<open>format!\<close> and \<open>FromStr\<close>.
\<close>

named_theorems str_ops \<open>equations of the string operations\<close>

subsection \<open>Searching and trimming\<close>

text \<open>\<open>str::split_once\<close> on a character: the parts around the first occurrence.\<close>

fun split_once :: "char \<Rightarrow> string \<Rightarrow> (string \<times> string) option" where
  "split_once c [] = None"
| "split_once c (x # xs) =
     (if x = c then Some ([], xs)
      else map_option (\<lambda>(a, b). (x # a, b)) (split_once c xs))"

lemma split_once_Some: "split_once c s = Some (a, b) \<longleftrightarrow> s = a @ c # b \<and> c \<notin> set a"
proof (induction s arbitrary: a b)
  case Nil
  then show ?case by simp
next
  case (Cons x xs)
  show ?case
    by (cases a) (auto simp: Cons.IH)
qed

lemma split_once_None: "split_once c s = None \<longleftrightarrow> c \<notin> set s"
  by (induction s) (auto split: prod.splits)

lemma split_once_append [str_ops]: "c \<notin> set a \<Longrightarrow> split_once c (a @ c # b) = Some (a, b)"
  by (simp add: split_once_Some)

text \<open>\<open>trim_end_matches\<close> on a character.\<close>

definition trim_end :: "char \<Rightarrow> string \<Rightarrow> string" where
  "trim_end c s = rev (dropWhile (\<lambda>x. x = c) (rev s))"

lemma trim_end_append [str_ops]: "last s \<noteq> c \<Longrightarrow> s \<noteq> [] \<Longrightarrow> trim_end c (s @ replicate n c) = s"
proof -
  assume s: "last s \<noteq> c" "s \<noteq> []"
  have "dropWhile (\<lambda>x. x = c) (replicate n c @ rev s) = dropWhile (\<lambda>x. x = c) (rev s)"
    by (induction n) auto
  moreover have "dropWhile (\<lambda>x. x = c) (rev s) = rev s"
    using s by (cases s rule: rev_cases) auto
  ultimately show ?thesis by (simp add: trim_end_def)
qed

lemma trim_end_replicate [str_ops]: "trim_end c (replicate n c) = []"
  by (simp add: trim_end_def)

lemma trim_end_last: "trim_end c s = [] \<or> last (trim_end c s) \<noteq> c"
proof (cases "dropWhile (\<lambda>x. x = c) (rev s)")
  case Nil
  then show ?thesis by (simp add: trim_end_def)
next
  case (Cons y ys)
  then have "y \<noteq> c" using hd_dropWhile [of "\<lambda>x. x = c" "rev s"] by simp
  with Cons show ?thesis by (simp add: trim_end_def)
qed

text \<open>\<open>strip_prefix\<close> and \<open>starts_with\<close>.\<close>

definition strip_prefix :: "string \<Rightarrow> string \<Rightarrow> string option" where
  "strip_prefix p s = (if prefix p s then Some (drop (length p) s) else None)"

lemma strip_prefix_Some: "strip_prefix p s = Some r \<longleftrightarrow> s = p @ r"
  by (auto simp: strip_prefix_def prefix_def)

subsection \<open>ASCII case\<close>

definition ascii_lower :: "char \<Rightarrow> char" where
  "ascii_lower c = (if CHR ''A'' \<le> c \<and> c \<le> CHR ''Z'' then char_of (of_char c + (32::nat)) else c)"

definition to_ascii_lowercase :: "string \<Rightarrow> string" where
  "to_ascii_lowercase s = map ascii_lower s"

definition eq_ignore_ascii_case :: "string \<Rightarrow> string \<Rightarrow> bool" where
  "eq_ignore_ascii_case a b \<longleftrightarrow> to_ascii_lowercase a = to_ascii_lowercase b"

lemma eq_ignore_ascii_case_refl [simp]: "eq_ignore_ascii_case a a"
  by (simp add: eq_ignore_ascii_case_def)

definition is_ascii_digit :: "char \<Rightarrow> bool" where
  "is_ascii_digit c \<longleftrightarrow> CHR ''0'' \<le> c \<and> c \<le> CHR ''9''"

definition is_ascii_hexdigit :: "char \<Rightarrow> bool" where
  "is_ascii_hexdigit c \<longleftrightarrow> is_ascii_digit c \<or> CHR ''a'' \<le> c \<and> c \<le> CHR ''f''
     \<or> CHR ''A'' \<le> c \<and> c \<le> CHR ''F''"

definition ascii_alphanumeric :: "char \<Rightarrow> bool" where
  "ascii_alphanumeric c \<longleftrightarrow>
     is_ascii_digit c \<or> (CHR ''A'' \<le> c \<and> c \<le> CHR ''Z'') \<or> (CHR ''a'' \<le> c \<and> c \<le> CHR ''z'')"

subsection \<open>Decimal printing and parsing\<close>

definition digit_char :: "nat \<Rightarrow> char" where
  "digit_char d = char_of (48 + d)"

definition digit_value :: "char \<Rightarrow> nat" where
  "digit_value c = of_char c - 48"

fun show_nat :: "nat \<Rightarrow> string" where
  "show_nat n = (if n < 10 then [digit_char n] else show_nat (n div 10) @ [digit_char (n mod 10)])"

declare show_nat.simps [simp del]

definition show_int :: "int \<Rightarrow> string" where
  "show_int i = (if i < 0 then CHR ''-'' # show_nat (nat (- i)) else show_nat (nat i))"

definition digits_value :: "string \<Rightarrow> nat" where
  "digits_value s = foldl (\<lambda>v c. 10 * v + digit_value c) 0 s"

text \<open>The digits of a number: at least one, all decimal; \<open>FromStr\<close> rejects anything else.\<close>

definition parse_digits :: "string \<Rightarrow> nat option" where
  "parse_digits s = (if s \<noteq> [] \<and> list_all is_ascii_digit s then Some (digits_value s) else None)"

text \<open>
  \<open>str::parse\<close> for an unsigned integer accepts a leading plus sign only; for a signed one a
  leading plus or minus sign.  A value out of range is an error.
\<close>

definition parse_unsigned :: "int \<Rightarrow> string \<Rightarrow> int option" where
  "parse_unsigned hi s =
     do { n \<leftarrow> parse_digits (case s of CHR ''+'' # r \<Rightarrow> r | _ \<Rightarrow> s);
          if int n \<le> hi then Some (int n) else None }"

definition parse_signed :: "int \<Rightarrow> int \<Rightarrow> string \<Rightarrow> int option" where
  "parse_signed lo hi s =
     (case s of
        CHR ''-'' # r \<Rightarrow> do { n \<leftarrow> parse_digits r; if lo \<le> - int n then Some (- int n) else None }
      | _ \<Rightarrow> do { n \<leftarrow> parse_digits (case s of CHR ''+'' # r \<Rightarrow> r | _ \<Rightarrow> s);
                  if int n \<le> hi then Some (int n) else None })"

definition parse_u64 :: "string \<Rightarrow> int option" where "parse_u64 = parse_unsigned u64_max"
definition parse_u128 :: "string \<Rightarrow> int option" where
  "parse_u128 = parse_unsigned 340282366920938463463374607431768211455"
definition parse_i128 :: "string \<Rightarrow> int option" where "parse_i128 = parse_signed i128_min i128_max"
definition parse_i64 :: "string \<Rightarrow> int option" where "parse_i64 = parse_signed i64_min i64_max"

lemma digit_value_char [simp]: "d < 10 \<Longrightarrow> digit_value (digit_char d) = d"
  by (simp add: digit_value_def digit_char_def)

lemma is_digit_char [simp]: "d < 10 \<Longrightarrow> is_ascii_digit (digit_char d)"
  by (auto simp: is_ascii_digit_def digit_char_def less_eq_char_def)

lemma digit_char_not_sign: "is_ascii_digit c \<Longrightarrow> c \<noteq> CHR ''+'' \<and> c \<noteq> CHR ''-''"
  by (auto simp: is_ascii_digit_def less_eq_char_def)

lemma show_nat_digits: "list_all is_ascii_digit (show_nat n)"
proof (induction n rule: show_nat.induct)
  case (1 n)
  then show ?case by (subst show_nat.simps) simp
qed

lemma show_nat_nonempty [simp]: "show_nat n \<noteq> []"
  by (subst show_nat.simps) simp

lemma digits_value_show: "digits_value (show_nat n) = n"
proof (induction n rule: show_nat.induct)
  case (1 n)
  show ?case
  proof (cases "n < 10")
    case True
    then show ?thesis by (subst show_nat.simps) (simp add: digits_value_def)
  next
    case False
    with 1 have "digits_value (show_nat (n div 10)) = n div 10" by simp
    with False show ?thesis by (subst show_nat.simps) (simp add: digits_value_def)
  qed
qed

lemma parse_digits_show [simp]: "parse_digits (show_nat n) = Some n"
  by (simp add: parse_digits_def show_nat_digits digits_value_show)

lemma show_nat_hd: "is_ascii_digit (hd (show_nat n))"
  using show_nat_digits [of n] by (cases "show_nat n") auto

lemma show_nat_no_sign: "show_nat n = c # r \<Longrightarrow> c \<noteq> CHR ''+'' \<and> c \<noteq> CHR ''-''"
  using show_nat_hd [of n] digit_char_not_sign by simp

lemma case_sign_show_nat:
  "(case show_nat n of CHR ''+'' # r \<Rightarrow> r | _ \<Rightarrow> show_nat n) = show_nat n"
  using show_nat_no_sign [of n] by (cases "show_nat n") (auto split: list.split char.split bool.split)

lemma parse_unsigned_show: "0 \<le> i \<Longrightarrow> i \<le> hi \<Longrightarrow> parse_unsigned hi (show_int i) = Some i"
  by (simp add: parse_unsigned_def show_int_def case_sign_show_nat)

lemma parse_signed_show:
  assumes "lo \<le> i" and "i \<le> hi"
  shows "parse_signed lo hi (show_int i) = Some i"
proof (cases "i < 0")
  case True
  with assms show ?thesis by (simp add: parse_signed_def show_int_def)
next
  case False
  have "parse_signed lo hi (show_nat n) =
        do { m \<leftarrow> parse_digits (case show_nat n of CHR ''+'' # r \<Rightarrow> r | _ \<Rightarrow> show_nat n);
             if int m \<le> hi then Some (int m) else None }" for n
    using show_nat_no_sign [of n]
    by (cases "show_nat n") (auto simp: parse_signed_def split: list.split char.split bool.split)
  with False assms show ?thesis by (simp add: show_int_def case_sign_show_nat)
qed

lemma parse_i128_show: "fits_i128 i \<Longrightarrow> parse_i128 (show_int i) = Some i"
  unfolding parse_i128_def by (rule parse_signed_show) (simp_all add: ranges)

lemma parse_signed_range: "parse_signed lo hi s = Some i \<Longrightarrow> lo \<le> 0 \<Longrightarrow> 0 \<le> hi \<Longrightarrow> lo \<le> i \<and> i \<le> hi"
  by (auto simp: parse_signed_def Option.bind_eq_Some_conv split: list.splits char.splits bool.splits
      if_splits)

lemma parse_i128_fits: "parse_i128 s = Some i \<Longrightarrow> fits_i128 i"
  using parse_signed_range [of i128_min i128_max s i] by (simp add: parse_i128_def ranges)

lemma show_nat_inject: "show_nat m = show_nat n \<longleftrightarrow> m = n"
  by (metis digits_value_show)

lemma show_int_inject: "show_int i = show_int j \<longleftrightarrow> i = j"
  using show_nat_no_sign by (auto simp: show_int_def show_nat_inject split: if_splits) metis+

subsection \<open>Hexadecimal printing\<close>

definition hex_digit :: "bool \<Rightarrow> nat \<Rightarrow> char" where
  "hex_digit upper d =
     (if d < 10 then char_of (48 + d) else char_of ((if upper then 55 else 87) + d))"

text \<open>\<open>format!("{:0wX}", n)\<close> and its lower-case form for a value below \<open>16 ^ w\<close>.\<close>

fun hex_digits :: "bool \<Rightarrow> nat \<Rightarrow> nat \<Rightarrow> string" where
  "hex_digits upper 0 n = []"
| "hex_digits upper (Suc w) n = hex_digits upper w (n div 16) @ [hex_digit upper (n mod 16)]"

lemma length_hex_digits [simp]: "length (hex_digits u w n) = w"
  by (induction u w n rule: hex_digits.induct) auto

lemma hex_digit_inject: "a < 16 \<Longrightarrow> b < 16 \<Longrightarrow> hex_digit u a = hex_digit u b \<longleftrightarrow> a = b"
  by (auto simp: hex_digit_def split: if_splits)

lemma hex_digits_inject: "m < 16 ^ w \<Longrightarrow> n < 16 ^ w \<Longrightarrow> hex_digits u w m = hex_digits u w n \<longleftrightarrow> m = n"
proof (induction u w m arbitrary: n rule: hex_digits.induct)
  case (1 u m)
  then show ?case by simp
next
  case (2 u w m)
  have "m div 16 < 16 ^ w" and "n div 16 < 16 ^ w"
    using 2(2,3) by (simp_all add: less_mult_imp_div_less mult.commute)
  then have "hex_digits u w (m div 16) = hex_digits u w (n div 16) \<longleftrightarrow> m div 16 = n div 16"
    by (rule 2(1))
  then show ?case
    by (auto simp: hex_digit_inject) (metis div_mult_mod_eq)
qed

subsection \<open>UTF-8\<close>

text \<open>
  \<open>std::str::from_utf8\<close>: the well-formed byte sequences of the Unicode standard (no
  overlong forms, no surrogates, nothing above U+10FFFF).
\<close>

definition cont_byte :: "nat \<Rightarrow> bool" where "cont_byte b \<longleftrightarrow> 128 \<le> b \<and> b \<le> 191"

fun valid_utf8_bytes :: "nat list \<Rightarrow> bool" where
  "valid_utf8_bytes [] = True"
| "valid_utf8_bytes (a # bs) =
     (if a \<le> 127 then valid_utf8_bytes bs
      else case bs of
        [] \<Rightarrow> False
      | b # cs \<Rightarrow>
          if 194 \<le> a \<and> a \<le> 223 then cont_byte b \<and> valid_utf8_bytes cs
          else (case cs of
            [] \<Rightarrow> False
          | c # ds \<Rightarrow>
              if 224 \<le> a \<and> a \<le> 239 then
                (if a = 224 then 160 \<le> b \<and> b \<le> 191
                 else if a = 237 then 128 \<le> b \<and> b \<le> 159 else cont_byte b)
                \<and> cont_byte c \<and> valid_utf8_bytes ds
              else (case ds of
                [] \<Rightarrow> False
              | d # es \<Rightarrow>
                  (if a = 240 then 144 \<le> b \<and> b \<le> 191
                   else if a = 244 then 128 \<le> b \<and> b \<le> 143
                   else 241 \<le> a \<and> a \<le> 243 \<and> cont_byte b)
                  \<and> cont_byte c \<and> cont_byte d \<and> valid_utf8_bytes es)))"

definition valid_utf8 :: "string \<Rightarrow> bool" where
  "valid_utf8 s = valid_utf8_bytes (map of_char s)"

definition from_utf8 :: "string \<Rightarrow> string option" where
  "from_utf8 s = (if valid_utf8 s then Some s else None)"

lemma valid_utf8_ascii: "list_all (\<lambda>c. of_char c \<le> (127::nat)) s \<Longrightarrow> valid_utf8 s"
  by (induction s) (auto simp: valid_utf8_def)

lemma from_utf8_Some: "from_utf8 s = Some t \<longleftrightarrow> t = s \<and> valid_utf8 s"
  by (auto simp: from_utf8_def)

subsection \<open>White space, separators and parse errors\<close>

text \<open>The UTF-8 encodings of the characters with the Unicode property \<open>White_Space\<close>.\<close>

definition white_space :: "string list" where
  "white_space =
     map (\<lambda>b. [char_of b]) [9, 10, 11, 12, 13, 32 :: nat] @
     map (map char_of)
       ([[194, 133], [194, 160], [225, 154, 128], [226, 128, 168], [226, 128, 169], [226, 128, 175],
         [226, 129, 159], [227, 128, 128]] @ map (\<lambda>b. [226, 128, b]) [128 ..< 139 :: nat])"

lemma white_space_nonempty: "[] \<notin> set white_space"
  by (auto simp: white_space_def)

text \<open>\<open>str::trim\<close> strips whole characters off both ends.  In valid UTF-8 the encodings of white space
  are recognized from the right as well: their last bytes are continuation bytes of no other
  character.\<close>

function strip_start :: "string list \<Rightarrow> string \<Rightarrow> string" where
  "strip_start ws s =
     (case find (\<lambda>w. w \<noteq> [] \<and> prefix w s) ws of
        None \<Rightarrow> s
      | Some w \<Rightarrow> strip_start ws (drop (length w) s))"
  by pat_completeness auto

termination
proof (relation "measure (\<lambda>(ws, s). length s)")
  fix ws :: "string list" and s w :: string
  assume "find (\<lambda>w. w \<noteq> [] \<and> prefix w s) ws = Some w"
  then have "w \<noteq> []" and "prefix w s" by (auto simp: find_Some_iff)
  then show "((ws, drop (length w) s), (ws, s)) \<in> measure (\<lambda>(ws, s). length s)"
    by (auto simp: prefix_def)
qed simp

declare strip_start.simps [simp del]

definition trim_ws :: "string \<Rightarrow> string" where
  "trim_ws s = rev (strip_start (map rev white_space) (rev (strip_start white_space s)))"

lemma strip_start_id:
  assumes "s = [] \<or> (\<forall>w \<in> set ws. w \<noteq> [] \<longrightarrow> hd w \<noteq> hd s)"
  shows "strip_start ws s = s"
proof -
  have "\<not> (w \<noteq> [] \<and> prefix w s)" if "w \<in> set ws" for w
    using assms that by (cases w; cases s) auto
  then have "find (\<lambda>w. w \<noteq> [] \<and> prefix w s) ws = None" by (auto simp: find_None_iff)
  then show ?thesis by (subst strip_start.simps) simp
qed

lemma trim_ws_plain:
  assumes "\<forall>w \<in> set white_space. hd w \<noteq> hd s" and "\<forall>w \<in> set white_space. last w \<noteq> last s"
  shows "trim_ws s = s"
proof -
  have first: "strip_start white_space s = s"
    using assms(1) by (intro strip_start_id) blast
  have "hd w \<noteq> hd (rev s)" if "w \<in> set (map rev white_space)" for w
    using that assms(2) white_space_nonempty by (auto simp: hd_rev)
  then have "strip_start (map rev white_space) (rev s) = rev s"
    by (intro strip_start_id) blast
  then show ?thesis by (simp add: trim_ws_def first)
qed

text \<open>\<open>str::split\<close> on a character.\<close>

function split_all :: "char \<Rightarrow> string \<Rightarrow> string list" where
  "split_all c s = (case split_once c s of None \<Rightarrow> [s] | Some (a, b) \<Rightarrow> a # split_all c b)"
  by pat_completeness auto

termination
  by (relation "measure (\<lambda>(c, s). length s)") (auto simp: split_once_Some)

declare split_all.simps [simp del]

lemma split_all_append [str_ops]: "c \<notin> set a \<Longrightarrow> split_all c (a @ c # b) = a # split_all c b"
  by (subst split_all.simps) (simp add: split_once_append)

lemma split_all_single [str_ops]: "c \<notin> set a \<Longrightarrow> split_all c a = [a]"
  by (subst split_all.simps) (simp add: split_once_None [THEN iffD2])

text \<open>The last part of \<open>str::split\<close>, which \<open>rsplit\<close> yields first.\<close>

definition rsplit_next :: "char \<Rightarrow> string \<Rightarrow> string" where
  "rsplit_next c s = rev (takeWhile (\<lambda>x. x \<noteq> c) (rev s))"

lemma rsplit_next_append [str_ops]: "c \<notin> set b \<Longrightarrow> rsplit_next c (a @ c # b) = b"
proof -
  assume "c \<notin> set b"
  then have "takeWhile (\<lambda>x. x \<noteq> c) (rev b @ c # rev a) = rev b"
    by (subst takeWhile_append2) auto
  then show ?thesis by (simp add: rsplit_next_def)
qed

definition strip_suffix :: "string \<Rightarrow> string \<Rightarrow> string option" where
  "strip_suffix p s = (if suffix p s then Some (take (length s - length p) s) else None)"

lemma strip_suffix_append [str_ops]: "strip_suffix p (s @ p) = Some s"
  by (simp add: strip_suffix_def suffix_def)

text \<open>\<open>ParseIntError\<close> of an unsigned type: the digits are read left to right.\<close>

fun scan_error :: "int \<Rightarrow> int \<Rightarrow> string \<Rightarrow> string" where
  "scan_error hi acc [] = []"
| "scan_error hi acc (c # cs) =
     (if \<not> is_ascii_digit c then ''invalid digit found in string''
      else if hi < acc * 10 + int (digit_value c) then ''number too large to fit in target type''
      else scan_error hi (acc * 10 + int (digit_value c)) cs)"

definition parse_int_error :: "int \<Rightarrow> string \<Rightarrow> string" where
  "parse_int_error hi s =
     (if s = [] then ''cannot parse integer from empty string''
      else if s = ''+'' \<or> s = ''-'' then ''invalid digit found in string''
      else scan_error hi 0 (case s of CHR ''+'' # r \<Rightarrow> r | _ \<Rightarrow> s))"

subsection \<open>Lossy decoding\<close>

text \<open>
  \<open>String::from_utf8_lossy\<close>: every maximal piece that starts like a character and does not end
  like one becomes one U+FFFD.  \<open>utf8_step\<close> reads one piece off non-empty bytes: whether it is a
  character, and its length.
\<close>

definition utf8_second_ok :: "nat \<Rightarrow> nat \<Rightarrow> bool" where
  "utf8_second_ok b c \<longleftrightarrow>
     (if b = 224 then 160 \<le> c \<and> c \<le> 191
      else if b = 237 then 128 \<le> c \<and> c \<le> 159
      else if b = 240 then 144 \<le> c \<and> c \<le> 191
      else if b = 244 then 128 \<le> c \<and> c \<le> 143
      else cont_byte c)"

definition utf8_width :: "nat \<Rightarrow> nat" where
  "utf8_width b =
     (if b \<le> 127 then 1 else if 194 \<le> b \<and> b \<le> 223 then 2 else if 224 \<le> b \<and> b \<le> 239 then 3
      else if 240 \<le> b \<and> b \<le> 244 then 4 else 0)"

fun utf8_step :: "nat list \<Rightarrow> bool \<times> nat" where
  "utf8_step [] = (True, 0)"
| "utf8_step (b # bs) =
     (let w = utf8_width b in
      if w = 1 then (True, 1)
      else if w = 0 then (False, 1)
      else (case bs of
              [] \<Rightarrow> (False, 1)
            | c # cs \<Rightarrow>
                if \<not> utf8_second_ok b c then (False, 1)
                else if w = 2 then (True, 2)
                else (case cs of
                        [] \<Rightarrow> (False, 2)
                      | d # ds \<Rightarrow>
                          if \<not> cont_byte d then (False, 2)
                          else if w = 3 then (True, 3)
                          else (case ds of
                                  [] \<Rightarrow> (False, 3)
                                | e # es \<Rightarrow> if cont_byte e then (True, 4) else (False, 3)))))"

lemma utf8_step_pos: "0 < snd (utf8_step (b # bs))"
  by (auto simp: Let_def split: list.split)

function lossy_bytes :: "nat list \<Rightarrow> nat list" where
  "lossy_bytes bs =
     (if bs = [] then []
      else (if fst (utf8_step bs) then take (snd (utf8_step bs)) bs else [239, 191, 189]) @
           lossy_bytes (drop (snd (utf8_step bs)) bs))"
  by pat_completeness auto

termination
proof (relation "measure length")
  fix bs :: "nat list"
  assume "bs \<noteq> []"
  then show "(drop (snd (utf8_step bs)) bs, bs) \<in> measure length"
    using utf8_step_pos by (cases bs) auto
qed simp

declare lossy_bytes.simps [simp del]

definition from_utf8_lossy :: "string \<Rightarrow> string" where
  "from_utf8_lossy s = map char_of (lossy_bytes (map of_char s))"

end
