(* ===== verification/Json.thy ===== *)
theory Json
  imports RustStr
begin

text \<open>
  The JSON values the parser's pipelines exchange (\<open>serde_json::Value\<close>) with the accessors the
  sources call on them.  Numbers are the integers the encoders of this repository write; an
  object is the list of its members.
\<close>

datatype json =
    JNull
  | JBool bool
  | JNum int
  | JStr string
  | JArr "json list"
  | JObj "(string \<times> json) list"

named_theorems json_ops \<open>the accessors on each constructor\<close>

definition as_str :: "json \<Rightarrow> string option" where
  "as_str v = (case v of JStr s \<Rightarrow> Some s | _ \<Rightarrow> None)"

definition as_array :: "json \<Rightarrow> json list option" where
  "as_array v = (case v of JArr xs \<Rightarrow> Some xs | _ \<Rightarrow> None)"

definition as_u64 :: "json \<Rightarrow> int option" where
  "as_u64 v = (case v of JNum n \<Rightarrow> if fits_u64 n then Some n else None | _ \<Rightarrow> None)"

definition as_i64 :: "json \<Rightarrow> int option" where
  "as_i64 v = (case v of JNum n \<Rightarrow> if fits_i64 n then Some n else None | _ \<Rightarrow> None)"

text \<open>\<open>Value::get\<close> with a string key: a member of an object, nothing on any other value.\<close>

definition jget :: "json \<Rightarrow> string \<Rightarrow> json option" where
  "jget v k = (case v of JObj ms \<Rightarrow> map_of ms k | _ \<Rightarrow> None)"

text \<open>\<open>v.get(k).and_then(Value::as_str)\<close>, the most frequent access.\<close>

definition get_str :: "json \<Rightarrow> string \<Rightarrow> string option" where
  "get_str v k = Option.bind (jget v k) as_str"

lemma as_str_simps [json_ops, simp]:
  "as_str (JStr s) = Some s" "as_str JNull = None" "as_str (JBool b) = None" "as_str (JNum n) = None"
  "as_str (JArr xs) = None" "as_str (JObj ms) = None"
  by (simp_all add: as_str_def)

lemma as_array_simps [json_ops, simp]:
  "as_array (JArr xs) = Some xs" "as_array JNull = None" "as_array (JBool b) = None"
  "as_array (JNum n) = None" "as_array (JStr s) = None" "as_array (JObj ms) = None"
  by (simp_all add: as_array_def)

lemma as_u64_simps [json_ops, simp]:
  "as_u64 (JNum n) = (if fits_u64 n then Some n else None)" "as_u64 JNull = None"
  "as_u64 (JBool b) = None" "as_u64 (JStr s) = None" "as_u64 (JArr xs) = None"
  "as_u64 (JObj ms) = None"
  by (simp_all add: as_u64_def)

lemma as_i64_simps [json_ops, simp]:
  "as_i64 (JNum n) = (if fits_i64 n then Some n else None)" "as_i64 JNull = None"
  "as_i64 (JBool b) = None" "as_i64 (JStr s) = None" "as_i64 (JArr xs) = None"
  "as_i64 (JObj ms) = None"
  by (simp_all add: as_i64_def)

lemma jget_simps [json_ops, simp]:
  "jget (JObj ms) k = map_of ms k" "jget JNull k = None" "jget (JBool b) k = None"
  "jget (JNum n) k = None" "jget (JStr s) k = None" "jget (JArr xs) k = None"
  by (simp_all add: jget_def)

lemma as_str_Some: "as_str v = Some s \<longleftrightarrow> v = JStr s"
  by (cases v) auto

lemma as_array_Some: "as_array v = Some xs \<longleftrightarrow> v = JArr xs"
  by (cases v) auto

lemma as_u64_Some: "as_u64 v = Some n \<longleftrightarrow> v = JNum n \<and> fits_u64 n"
  by (cases v) auto

lemma get_str_Some: "get_str v k = Some s \<longleftrightarrow> jget v k = Some (JStr s)"
  by (auto simp: get_str_def Option.bind_eq_Some_conv as_str_Some)

lemma get_str_obj [json_ops, simp]: "get_str (JObj ms) k = Option.bind (map_of ms k) as_str"
  by (simp add: get_str_def)

end
