(* ===== verification/Xdr.thy ===== *)
theory Xdr
  imports Json
begin

text \<open>
  The Stellar XDR data the parser matches on, constructor by constructor as the sources name
  them, with the payloads the sources read.  The wire codec and the StrKey, base64 and hex
  renderings belong to third-party crates: they are the parameter \<open>ext\<close> of every definition
  that renders such a value, and nothing is assumed about them unless a lemma says so.
  Raw bytes are strings of \<open>char\<close>.
\<close>

type_synonym bytes = string

datatype sc_address =
    AddrAccount bytes
  | AddrContract bytes
  | AddrMuxedAccount "64 word" bytes
  | AddrClaimableBalance bytes
  | AddrLiquidityPool bytes
  | AddrMuxedContract "64 word" bytes

datatype executable =
    ExecWasm bytes
  | ExecStellarAsset
  | ExecExternalRef sc_address bytes

datatype scerror_code =
    ArithDomain | IndexBounds | InvalidInput | MissingValue | ExistingValue
  | ExceededLimit | InvalidAction | InternalError | UnexpectedType | UnexpectedSize

datatype scerror =
    SceContract "32 word"
  | SceWasmVm scerror_code
  | SceContext scerror_code
  | SceStorage scerror_code
  | SceObject scerror_code
  | SceCrypto scerror_code
  | SceEvents scerror_code
  | SceBudget scerror_code
  | SceValue scerror_code
  | SceAuth scerror_code

text \<open>The variant name of an error value (\<open>ScError::name()\<close>), without the code it carries.\<close>

fun scerror_name :: "scerror \<Rightarrow> string" where
  "scerror_name (SceContract _) = ''Contract''"
| "scerror_name (SceWasmVm _) = ''WasmVm''"
| "scerror_name (SceContext _) = ''Context''"
| "scerror_name (SceStorage _) = ''Storage''"
| "scerror_name (SceObject _) = ''Object''"
| "scerror_name (SceCrypto _) = ''Crypto''"
| "scerror_name (SceEvents _) = ''Events''"
| "scerror_name (SceBudget _) = ''Budget''"
| "scerror_name (SceValue _) = ''Value''"
| "scerror_name (SceAuth _) = ''Auth''"

datatype scval =
    ScBool bool
  | ScVoid
  | ScError scerror
  | ScU32 "32 word"
  | ScI32 "32 word"
  | ScU64 "64 word"
  | ScI64 "64 word"
  | ScTimepoint "64 word"
  | ScDuration "64 word"
  | ScU128 "64 word" "64 word"
  | ScI128 "64 word" "64 word"
  | ScU256 "64 word" "64 word" "64 word" "64 word"
  | ScI256 "64 word" "64 word" "64 word" "64 word"
  | ScBytes bytes
  | ScString bytes
  | ScSymbol bytes
  | ScVec "scval list option"
  | ScMap "(scval \<times> scval) list option"
  | ScAddress sc_address
  | ScContractInstance executable "(scval \<times> scval) list option"
  | ScLedgerKeyContractInstance
  | ScLedgerKeyNonce "64 word"
  | ScExecutableTag bytes

record xdr_ext =
  x_address :: "sc_address \<Rightarrow> string"
  x_account :: "bytes \<Rightarrow> string"
  x_b64 :: "bytes \<Rightarrow> string"
  x_hex :: "bytes \<Rightarrow> string"

subsection \<open>128-bit values from their halves\<close>

text \<open>\<open>(i128::from(p.hi) << 64) | i128::from(p.lo)\<close>: sign-extended high half, zero-extended low half.\<close>

definition i128_of_parts :: "64 word \<Rightarrow> 64 word \<Rightarrow> int" where
  "i128_of_parts hi lo =
     (sint (or (push_bit 64 (scast hi :: 128 word)) (ucast lo :: 128 word)))"

definition u128_of_parts :: "64 word \<Rightarrow> 64 word \<Rightarrow> int" where
  "u128_of_parts hi lo = uint (or (push_bit 64 (ucast hi :: 128 word)) (ucast lo :: 128 word))"

lemma or_push_bit_64: "or (push_bit 64 w) (ucast lo) = push_bit 64 w + (ucast lo :: 128 word)"
  for lo :: "64 word" and w :: "128 word"
proof -
  have "and (push_bit 64 w) (ucast lo :: 128 word) = 0"
    by (rule bit_word_eqI) (auto simp: bit_simps dest: bit_imp_le_length)
  then show ?thesis by (metis add.right_neutral word_plus_and_or add.commute)
qed

lemma sint_64_bounds: "- (2 ^ 63) \<le> sint w" "sint w < 2 ^ 63" for w :: "64 word"
  using sint_greater_eq [of w] sint_less [of w] by simp_all

lemma uint_64_bounds: "0 \<le> uint w" "uint w < 2 ^ 64" for w :: "64 word"
  using uint_lt2p [of w] by simp_all

lemma push_bit_word_of_int: "push_bit 64 (word_of_int x :: 128 word) = word_of_int (x * 2 ^ 64)"
  by (simp add: push_bit_of_int push_bit_eq_mult)

lemma parts_word: "or (push_bit 64 (scast hi :: 128 word)) (ucast lo) =
    word_of_int (sint hi * 2 ^ 64 + uint lo)" for hi lo :: "64 word"
  by (simp only: or_push_bit_64) (simp only: scast_eq ucast_eq push_bit_word_of_int of_int_add)

lemma i128_parts_bounds:
  "- (2 ^ 127) \<le> sint hi * 2 ^ 64 + uint lo" "sint hi * 2 ^ 64 + uint lo < 2 ^ 127"
  for hi lo :: "64 word"
  using sint_64_bounds [of hi] uint_64_bounds [of lo] by (simp_all, linarith+)

lemma i128_of_parts_eq: "i128_of_parts hi lo = sint hi * 2 ^ 64 + uint lo"
proof -
  have "sint (word_of_int (sint hi * 2 ^ 64 + uint lo) :: 128 word) = sint hi * 2 ^ 64 + uint lo"
    unfolding sint_sbintrunc' using i128_parts_bounds [of hi lo]
    by (intro signed_take_bit_int_eq_self) simp_all
  then show ?thesis by (simp only: i128_of_parts_def parts_word)
qed

lemma i128_of_parts_fits: "fits_i128 (i128_of_parts hi lo)"
  using i128_parts_bounds [of hi lo] by (simp add: i128_of_parts_eq ranges)

lemma u128_of_parts_eq: "u128_of_parts hi lo = uint hi * 2 ^ 64 + uint lo"
proof -
  have w: "or (push_bit 64 (ucast hi :: 128 word)) (ucast lo) = word_of_int (uint hi * 2 ^ 64 + uint lo)"
    by (simp only: or_push_bit_64) (simp only: ucast_eq push_bit_word_of_int of_int_add)
  have "0 \<le> uint hi * 2 ^ 64 + uint lo" and "uint hi * 2 ^ 64 + uint lo < 2 ^ 128"
    using uint_64_bounds [of hi] uint_64_bounds [of lo] by simp_all
  then have "uint (word_of_int (uint hi * 2 ^ 64 + uint lo) :: 128 word) = uint hi * 2 ^ 64 + uint lo"
    by (subst uint_word_of_int_eq) (simp add: take_bit_int_eq_self)
  then show ?thesis by (simp only: u128_of_parts_def w)
qed

end
