(* ===== verification/ScVal.thy ===== *)
theory ScVal
  imports Xdr
begin

text \<open>
  \<open>crates/xdr-parser/src/scval.rs\<close>: the typed JSON every contract value is decoded to, and the
  readers of that format.  The round trips below are the contract between the two halves: the
  readers give back what the writer wrote, and nothing on a value of another type.
\<close>

subsection \<open>The writer\<close>

definition tagged :: "string \<Rightarrow> json \<Rightarrow> json" where
  "tagged ty v = JObj [(''type'', JStr ty), (''value'', v)]"

definition utf8_or_invalid :: "bytes \<Rightarrow> json" where
  "utf8_or_invalid s = JStr (unwrap_or (from_utf8 s) ''<invalid-utf8>'')"

definition hex64 :: "64 word \<Rightarrow> string" where
  "hex64 w = hex_digits False 16 (unat w)"

definition hex256 :: "64 word \<Rightarrow> 64 word \<Rightarrow> 64 word \<Rightarrow> 64 word \<Rightarrow> json" where
  "hex256 a b c d = JStr (hex64 a @ hex64 b @ hex64 c @ hex64 d)"

definition executable_json :: "xdr_ext \<Rightarrow> executable \<Rightarrow> json" where
  "executable_json x e =
     (case e of
        ExecWasm h \<Rightarrow> JObj [(''type'', JStr ''wasm''), (''hash'', JStr (x_hex x h))]
      | ExecStellarAsset \<Rightarrow> JObj [(''type'', JStr ''stellar_asset'')]
      | ExecExternalRef owner tag \<Rightarrow>
          JObj [(''type'', JStr ''external_ref''), (''owner'', JStr (x_address x owner)),
                (''tag'', utf8_or_invalid tag)])"

definition entry_json :: "json \<Rightarrow> json \<Rightarrow> json" where
  "entry_json k v = JObj [(''key'', k), (''value'', v)]"

lemma scval_size_simps [termination_simp]:
  "e \<in> set m \<Longrightarrow> size (fst e) < Suc (size_list (size_prod size size) m)"
  "e \<in> set m \<Longrightarrow> size (snd e) < Suc (size_list (size_prod size size) m)"
  for m :: "('a::size \<times> 'b::size) list"
  by (induction m) auto

fun scval_to_typed_json :: "xdr_ext \<Rightarrow> scval \<Rightarrow> json" where
  "scval_to_typed_json x (ScBool b) = tagged ''bool'' (JBool b)"
| "scval_to_typed_json x ScVoid = tagged ''void'' JNull"
| "scval_to_typed_json x (ScError e) = tagged ''error'' (JStr (scerror_name e))"
| "scval_to_typed_json x (ScU32 n) = tagged ''u32'' (JNum (uint n))"
| "scval_to_typed_json x (ScI32 n) = tagged ''i32'' (JNum (sint n))"
| "scval_to_typed_json x (ScU64 n) = tagged ''u64'' (JNum (uint n))"
| "scval_to_typed_json x (ScI64 n) = tagged ''i64'' (JNum (sint n))"
| "scval_to_typed_json x (ScTimepoint t) = tagged ''timepoint'' (JNum (uint t))"
| "scval_to_typed_json x (ScDuration d) = tagged ''duration'' (JNum (uint d))"
| "scval_to_typed_json x (ScU128 hi lo) = tagged ''u128'' (JStr (show_int (u128_of_parts hi lo)))"
| "scval_to_typed_json x (ScI128 hi lo) = tagged ''i128'' (JStr (show_int (i128_of_parts hi lo)))"
| "scval_to_typed_json x (ScU256 a b c d) = tagged ''u256'' (hex256 a b c d)"
| "scval_to_typed_json x (ScI256 a b c d) = tagged ''i256'' (hex256 a b c d)"
| "scval_to_typed_json x (ScBytes b) = tagged ''bytes'' (JStr (x_b64 x b))"
| "scval_to_typed_json x (ScString s) = tagged ''string'' (utf8_or_invalid s)"
| "scval_to_typed_json x (ScSymbol s) = tagged ''sym'' (utf8_or_invalid s)"
| "scval_to_typed_json x (ScVec (Some vs)) = tagged ''vec'' (JArr (map (scval_to_typed_json x) vs))"
| "scval_to_typed_json x (ScVec None) = tagged ''vec'' JNull"
| "scval_to_typed_json x (ScMap (Some m)) =
     tagged ''map''
       (JArr (map (\<lambda>e. entry_json (scval_to_typed_json x (fst e)) (scval_to_typed_json x (snd e))) m))"
| "scval_to_typed_json x (ScMap None) = tagged ''map'' JNull"
| "scval_to_typed_json x (ScAddress a) = tagged ''address'' (JStr (x_address x a))"
| "scval_to_typed_json x (ScContractInstance e (Some m)) =
     tagged ''contract_instance''
       (JObj [(''executable'', executable_json x e),
              (''storage'', JArr (map (\<lambda>e. entry_json (scval_to_typed_json x (fst e))
                                              (scval_to_typed_json x (snd e))) m))])"
| "scval_to_typed_json x (ScContractInstance e None) =
     tagged ''contract_instance''
       (JObj [(''executable'', executable_json x e), (''storage'', JNull)])"
| "scval_to_typed_json x ScLedgerKeyContractInstance = tagged ''ledger_key_contract_instance'' JNull"
| "scval_to_typed_json x (ScLedgerKeyNonce n) = tagged ''ledger_key_nonce'' (JNum (sint n))"
| "scval_to_typed_json x (ScExecutableTag s) = tagged ''executable_tag'' (utf8_or_invalid s)"

subsection \<open>The readers\<close>

definition typed :: "json \<Rightarrow> string \<Rightarrow> json option" where
  "typed v tag =
     do { ty \<leftarrow> jget v ''type''; s \<leftarrow> as_str ty;
          if s = tag then jget v ''value'' else None }"

definition typed_str :: "json \<Rightarrow> string \<Rightarrow> string option" where
  "typed_str v tag = do { w \<leftarrow> typed v tag; as_str w }"

definition vec_elements :: "json \<Rightarrow> json list option" where
  "vec_elements v = do { w \<leftarrow> typed v ''vec''; as_array w }"

definition address :: "json \<Rightarrow> string option" where
  "address v = opt_filter (\<lambda>s. s \<noteq> []) (typed_str v ''address'')"

definition symbol :: "json \<Rightarrow> string option" where
  "symbol v = opt_filter (\<lambda>s. s \<noteq> []) (typed_str v ''sym'')"

definition map_get :: "json \<Rightarrow> string \<Rightarrow> json option" where
  "map_get data key =
     (if get_str data ''type'' \<noteq> Some ''map'' then None
      else do {
        v \<leftarrow> jget data ''value'';
        entries \<leftarrow> as_array v;
        find_map (\<lambda>entry.
          do { k \<leftarrow> jget entry ''key'';
               if get_str k ''type'' = Some ''sym'' \<and> get_str k ''value'' = Some key
               then jget entry ''value'' else None }) entries })"

subsection \<open>The readers on tagged values\<close>

lemma typed_tagged [simp]: "typed (tagged ty v) tag = (if ty = tag then Some v else None)"
  by (simp add: typed_def tagged_def)

lemma typed_str_tagged [simp]: "typed_str (tagged ty v) tag = (if ty = tag then as_str v else None)"
  by (simp add: typed_str_def)

lemma get_str_tagged [simp]: "get_str (tagged ty v) ''type'' = Some ty" "get_str (tagged ty v) ''value'' = as_str v"
  by (simp_all add: tagged_def)

lemma jget_tagged [simp]: "jget (tagged ty v) ''value'' = Some v" "jget (tagged ty v) ''type'' = Some (JStr ty)"
  by (simp_all add: tagged_def)

lemma utf8_or_invalid_valid [simp]: "valid_utf8 s \<Longrightarrow> utf8_or_invalid s = JStr s"
  by (simp add: utf8_or_invalid_def from_utf8_def)

lemma as_str_utf8 [simp]: "as_str (utf8_or_invalid s) = Some (unwrap_or (from_utf8 s) ''<invalid-utf8>'')"
  by (simp add: utf8_or_invalid_def)

text \<open>The tag the writer gives to each constructor.\<close>

fun scval_tag :: "scval \<Rightarrow> string" where
  "scval_tag (ScBool _) = ''bool''" | "scval_tag ScVoid = ''void''" | "scval_tag (ScError _) = ''error''"
| "scval_tag (ScU32 _) = ''u32''" | "scval_tag (ScI32 _) = ''i32''" | "scval_tag (ScU64 _) = ''u64''"
| "scval_tag (ScI64 _) = ''i64''" | "scval_tag (ScTimepoint _) = ''timepoint''"
| "scval_tag (ScDuration _) = ''duration''" | "scval_tag (ScU128 _ _) = ''u128''"
| "scval_tag (ScI128 _ _) = ''i128''" | "scval_tag (ScU256 _ _ _ _) = ''u256''"
| "scval_tag (ScI256 _ _ _ _) = ''i256''" | "scval_tag (ScBytes _) = ''bytes''"
| "scval_tag (ScString _) = ''string''" | "scval_tag (ScSymbol _) = ''sym''"
| "scval_tag (ScVec _) = ''vec''" | "scval_tag (ScMap _) = ''map''" | "scval_tag (ScAddress _) = ''address''"
| "scval_tag (ScContractInstance _ _) = ''contract_instance''"
| "scval_tag ScLedgerKeyContractInstance = ''ledger_key_contract_instance''"
| "scval_tag (ScLedgerKeyNonce _) = ''ledger_key_nonce''"
| "scval_tag (ScExecutableTag _) = ''executable_tag''"

text \<open>Every contract value is written as an object with its tag and a value, and no other members.\<close>

lemma scval_to_typed_json_tagged: "\<exists>w. scval_to_typed_json x v = tagged (scval_tag v) w"
  by (cases "(x, v)" rule: scval_to_typed_json.cases) (auto intro: exI)

lemma typed_scval_to_typed_json:
  "typed (scval_to_typed_json x v) tag = (if tag = scval_tag v then jget (scval_to_typed_json x v) ''value'' else None)"
  using scval_to_typed_json_tagged [of x v] by auto

subsection \<open>What the writer keeps\<close>

text \<open>
  A value is printable when every piece of text in it is UTF-8 (the writer replaces the rest
  by a fixed marker); the renderings of the third-party crates are assumed injective.
  Of an error value the writer keeps the kind only; \<open>without_codes\<close> puts one fixed code in the
  place of every code an error in the value carries.
\<close>

fun without_code :: "scerror \<Rightarrow> scerror" where
  "without_code (SceContract _) = SceContract 0"
| "without_code (SceWasmVm _) = SceWasmVm ArithDomain"
| "without_code (SceContext _) = SceContext ArithDomain"
| "without_code (SceStorage _) = SceStorage ArithDomain"
| "without_code (SceObject _) = SceObject ArithDomain"
| "without_code (SceCrypto _) = SceCrypto ArithDomain"
| "without_code (SceEvents _) = SceEvents ArithDomain"
| "without_code (SceBudget _) = SceBudget ArithDomain"
| "without_code (SceValue _) = SceValue ArithDomain"
| "without_code (SceAuth _) = SceAuth ArithDomain"

fun without_codes :: "scval \<Rightarrow> scval" where
  "without_codes (ScError e) = ScError (without_code e)"
| "without_codes (ScVec (Some vs)) = ScVec (Some (map without_codes vs))"
| "without_codes (ScMap (Some m)) =
     ScMap (Some (map (\<lambda>e. (without_codes (fst e), without_codes (snd e))) m))"
| "without_codes (ScContractInstance i (Some m)) =
     ScContractInstance i (Some (map (\<lambda>e. (without_codes (fst e), without_codes (snd e))) m))"
| "without_codes v = v"

lemma scerror_name_inject: "scerror_name d = scerror_name e \<longleftrightarrow> without_code d = without_code e"
  by (cases d; cases e) simp_all

lemma scerror_name_without_code [simp]: "scerror_name (without_code e) = scerror_name e"
  by (cases e) simp_all

lemma scval_to_typed_json_without_codes [simp]:
  "scval_to_typed_json x (without_codes v) = scval_to_typed_json x v"
  by (induction v rule: without_codes.induct) (simp_all add: comp_def cong: map_cong)

definition printable_executable :: "executable \<Rightarrow> bool" where
  "printable_executable e = (case e of ExecExternalRef _ tag \<Rightarrow> valid_utf8 tag | _ \<Rightarrow> True)"

fun printable :: "scval \<Rightarrow> bool" where
  "printable (ScString s) = valid_utf8 s"
| "printable (ScSymbol s) = valid_utf8 s"
| "printable (ScExecutableTag s) = valid_utf8 s"
| "printable (ScVec (Some vs)) = list_all printable vs"
| "printable (ScMap (Some m)) = list_all (\<lambda>e. printable (fst e) \<and> printable (snd e)) m"
| "printable (ScContractInstance e (Some m)) =
     (printable_executable e \<and> list_all (\<lambda>e. printable (fst e) \<and> printable (snd e)) m)"
| "printable (ScContractInstance e None) = printable_executable e"
| "printable _ = True"

definition inj_renderings :: "xdr_ext \<Rightarrow> bool" where
  "inj_renderings x \<longleftrightarrow> inj (x_address x) \<and> inj (x_b64 x) \<and> inj (x_hex x)"

lemma tagged_inject [simp]: "tagged a v = tagged b w \<longleftrightarrow> a = b \<and> v = w"
  by (simp add: tagged_def)

lemma entry_json_inject [simp]: "entry_json a b = entry_json c d \<longleftrightarrow> a = c \<and> b = d"
  by (simp add: entry_json_def)

lemma hex64_inject [simp]: "hex64 v = hex64 w \<longleftrightarrow> v = w"
proof -
  have "unat u < 16 ^ 16" for u :: "64 word"
    using unsigned_less [of u, where 'a = nat] by simp
  then show ?thesis by (simp add: hex64_def hex_digits_inject word_unat_eq_iff)
qed

lemma length_hex64 [simp]: "length (hex64 w) = 16"
  by (simp add: hex64_def)

lemma hex256_inject [simp]:
  "hex256 a b c d = hex256 a' b' c' d' \<longleftrightarrow> a = a' \<and> b = b' \<and> c = c' \<and> d = d'"
  by (simp add: hex256_def append_eq_append_conv)

lemma parts_eqD:
  fixes lo lo' :: "64 word"
  assumes "a * 2 ^ 64 + uint lo = b * 2 ^ 64 + uint lo'"
  shows "a = b \<and> lo = lo'"
proof -
  have q: "(x * 2 ^ 64 + uint l) div 2 ^ 64 = x" and r: "(x * 2 ^ 64 + uint l) mod 2 ^ 64 = uint l"
    for x and l :: "64 word"
    using uint_64_bounds [of l] by simp_all
  have "a = b" using arg_cong [OF assms, of "\<lambda>z. z div 2 ^ 64"] unfolding q .
  moreover have "uint lo = uint lo'" using arg_cong [OF assms, of "\<lambda>z. z mod 2 ^ 64"] unfolding r .
  ultimately show ?thesis by (simp add: word_uint_eq_iff)
qed

lemma sint_inj: "sint v = sint w \<longleftrightarrow> v = w"
  by (rule word_eq_iff_signed [symmetric])

lemma uint_inj: "uint v = uint w \<longleftrightarrow> v = w"
  by (rule word_uint_eq_iff [symmetric])

lemma i128_of_parts_inject [simp]:
  "i128_of_parts hi lo = i128_of_parts hi' lo' \<longleftrightarrow> hi = hi' \<and> lo = lo'"
proof
  assume "i128_of_parts hi lo = i128_of_parts hi' lo'"
  from parts_eqD [OF this [unfolded i128_of_parts_eq]]
  show "hi = hi' \<and> lo = lo'" by (simp add: sint_inj)
qed simp

lemma u128_of_parts_inject [simp]:
  "u128_of_parts hi lo = u128_of_parts hi' lo' \<longleftrightarrow> hi = hi' \<and> lo = lo'"
proof
  assume "u128_of_parts hi lo = u128_of_parts hi' lo'"
  from parts_eqD [OF this [unfolded u128_of_parts_eq]]
  show "hi = hi' \<and> lo = lo'" by (simp add: word_uint_eq_iff)
qed simp

lemma renderings_inject:
  assumes "inj_renderings x"
  shows "x_address x a = x_address x b \<longleftrightarrow> a = b" "x_b64 x c = x_b64 x d \<longleftrightarrow> c = d"
    "x_hex x c = x_hex x d \<longleftrightarrow> c = d"
  using assms by (auto simp: inj_renderings_def dest: injD)

lemma executable_json_inject:
  "inj_renderings x \<Longrightarrow> printable_executable e \<Longrightarrow> printable_executable e' \<Longrightarrow>
   executable_json x e = executable_json x e' \<longleftrightarrow> e = e'"
  by (cases e; cases e')
    (auto simp: executable_json_def printable_executable_def renderings_inject)

lemma map_injective_on:
  "map f xs = map f ys \<Longrightarrow> (\<And>a b. a \<in> set xs \<Longrightarrow> b \<in> set ys \<Longrightarrow> f a = f b \<Longrightarrow> g a = g b) \<Longrightarrow>
   map g xs = map g ys"
proof (induction xs arbitrary: ys)
  case Nil
  then show ?case by simp
next
  case (Cons a xs)
  then obtain b zs where "ys = b # zs" by (cases ys) auto
  with Cons show ?case by auto
qed

lemma scval_entries_inject:
  assumes "map (\<lambda>e. entry_json (f (fst e)) (f (snd e))) m = map (\<lambda>e. entry_json (f (fst e)) (f (snd e))) m'"
    and "\<And>e w. e \<in> set m \<Longrightarrow> P w \<Longrightarrow> f (fst e) = f w \<Longrightarrow> g (fst e) = g w"
    and "\<And>e w. e \<in> set m \<Longrightarrow> P w \<Longrightarrow> f (snd e) = f w \<Longrightarrow> g (snd e) = g w"
    and "list_all (\<lambda>e. P (fst e) \<and> P (snd e)) m'"
  shows "map (\<lambda>e. (g (fst e), g (snd e))) m = map (\<lambda>e. (g (fst e), g (snd e))) m'"
  using assms(1)
proof (rule map_injective_on)
  fix a b assume "a \<in> set m" "b \<in> set m'"
    and "entry_json (f (fst a)) (f (snd a)) = entry_json (f (fst b)) (f (snd b))"
  with assms(2,3) [of a] assms(4) show "(g (fst a), g (snd a)) = (g (fst b), g (snd b))"
    by (auto simp: list_all_iff)
qed

lemma scval_to_typed_json_inject:
  assumes x: "inj_renderings x"
  shows "printable v \<Longrightarrow> printable v' \<Longrightarrow>
         scval_to_typed_json x v = scval_to_typed_json x v' \<Longrightarrow> without_codes v = without_codes v'"
proof (induction v arbitrary: v' rule: printable.induct)
  case (4 vs)
  from "4.prems" obtain ws where v': "v' = ScVec (Some ws)"
    by (cases "(x, v')" rule: scval_to_typed_json.cases) simp_all
  have "map (scval_to_typed_json x) vs = map (scval_to_typed_json x) ws"
    using "4.prems"(3) v' by simp
  then have "map without_codes vs = map without_codes ws"
  proof (rule map_injective_on)
    fix a b assume a: "a \<in> set vs" and "b \<in> set ws"
    then have "printable a" "printable b" using "4.prems" v' by (simp_all add: list_all_iff)
    then show "scval_to_typed_json x a = scval_to_typed_json x b \<Longrightarrow> without_codes a = without_codes b"
      by (rule "4.IH" [OF a])
  qed
  with v' show ?case by simp
next
  case (5 m)
  from "5.prems" obtain m' where v': "v' = ScMap (Some m')"
    by (cases "(x, v')" rule: scval_to_typed_json.cases) simp_all
  have "map (\<lambda>e. (without_codes (fst e), without_codes (snd e))) m =
        map (\<lambda>e. (without_codes (fst e), without_codes (snd e))) m'"
  proof (rule scval_entries_inject [where f = "scval_to_typed_json x" and P = printable])
    fix e w assume e: "e \<in> set m" and w: "printable w"
    then have "printable (fst e)" "printable (snd e)" using "5.prems"(1) by (simp_all add: list_all_iff)
    then show "scval_to_typed_json x (fst e) = scval_to_typed_json x w \<Longrightarrow>
               without_codes (fst e) = without_codes w"
      and "scval_to_typed_json x (snd e) = scval_to_typed_json x w \<Longrightarrow>
           without_codes (snd e) = without_codes w"
      using "5.IH"(1,2) [OF e _ w] by blast+
  qed (use "5.prems" v' in simp_all)
  with v' show ?case by simp
next
  case (6 e m)
  from "6.prems" obtain e' m' where v': "v' = ScContractInstance e' (Some m')"
    by (cases "(x, v')" rule: scval_to_typed_json.cases) simp_all
  have "map (\<lambda>e. (without_codes (fst e), without_codes (snd e))) m =
        map (\<lambda>e. (without_codes (fst e), without_codes (snd e))) m'"
  proof (rule scval_entries_inject [where f = "scval_to_typed_json x" and P = printable])
    fix e w assume e: "e \<in> set m" and w: "printable w"
    then have "printable (fst e)" "printable (snd e)" using "6.prems"(1) by (simp_all add: list_all_iff)
    then show "scval_to_typed_json x (fst e) = scval_to_typed_json x w \<Longrightarrow>
               without_codes (fst e) = without_codes w"
      and "scval_to_typed_json x (snd e) = scval_to_typed_json x w \<Longrightarrow>
           without_codes (snd e) = without_codes w"
      using "6.IH"(1,2) [OF e _ w] by blast+
  qed (use "6.prems" v' in simp_all)
  with v' "6.prems" show ?case by (simp add: executable_json_inject [OF x])
next
  case (7 e)
  then show ?case
    by (cases "(x, v')" rule: scval_to_typed_json.cases)
      (simp_all add: executable_json_inject [OF x])
qed (case_tac [!] "(x, v')" rule: scval_to_typed_json.cases,
      simp_all add: renderings_inject [OF x] show_int_inject sint_inj uint_inj scerror_name_inject)

subsection \<open>Reading a map by key\<close>

text \<open>What \<open>map_get\<close> promises: the value of the first entry whose key is that symbol.\<close>

definition symbol_entry :: "string \<Rightarrow> (scval \<times> scval) list \<Rightarrow> scval option" where
  "symbol_entry key m = find_map (\<lambda>e. if fst e = ScSymbol key then Some (snd e) else None) m"

lemma symbol_key_json:
  assumes "key \<noteq> ''<invalid-utf8>''" and "valid_utf8 key"
  shows "get_str (scval_to_typed_json x k) ''type'' = Some ''sym'' \<and>
         get_str (scval_to_typed_json x k) ''value'' = Some key \<longleftrightarrow> k = ScSymbol key"
proof (cases "\<exists>s. k = ScSymbol s")
  case True
  with assms show ?thesis
    by (auto simp: utf8_or_invalid_def from_utf8_def split: if_splits)
next
  case False
  have "scval_tag k \<noteq> ''sym''"
    using False by (cases k) auto
  moreover obtain w where "scval_to_typed_json x k = tagged (scval_tag k) w"
    using scval_to_typed_json_tagged by blast
  ultimately show ?thesis using False by auto
qed

lemma find_map_map: "find_map f (map g xs) = find_map (\<lambda>a. f (g a)) xs"
  by (induction xs) (auto split: option.splits)

lemma find_map_cong: "(\<And>a. a \<in> set xs \<Longrightarrow> f a = g a) \<Longrightarrow> find_map f xs = find_map g xs"
  by (induction xs) (auto split: option.splits)

lemma map_option_find_map: "map_option h (find_map f xs) = find_map (\<lambda>a. map_option h (f a)) xs"
  by (induction xs) (auto split: option.splits)

lemma entry_json_gets [simp]:
  "jget (entry_json k v) ''key'' = Some k" "jget (entry_json k v) ''value'' = Some v"
  by (simp_all add: entry_json_def)

lemma map_get_map_json:
  assumes "key \<noteq> ''<invalid-utf8>''" and "valid_utf8 key"
  shows "map_get (scval_to_typed_json x (ScMap (Some m))) key =
         map_option (scval_to_typed_json x) (symbol_entry key m)"
proof -
  have "map_get (scval_to_typed_json x (ScMap (Some m))) key =
        find_map (\<lambda>e. if get_str (scval_to_typed_json x (fst e)) ''type'' = Some ''sym'' \<and>
                        get_str (scval_to_typed_json x (fst e)) ''value'' = Some key
                     then Some (scval_to_typed_json x (snd e)) else None) m"
    by (simp add: map_get_def find_map_map cong: if_cong)
  also have "\<dots> = find_map (\<lambda>e. if fst e = ScSymbol key then Some (scval_to_typed_json x (snd e)) else None) m"
    by (simp only: symbol_key_json [OF assms])
  finally show ?thesis
    by (simp add: symbol_entry_def map_option_find_map if_distrib cong: if_cong)
qed

lemma map_get_non_map: "scval_tag v \<noteq> ''map'' \<Longrightarrow> map_get (scval_to_typed_json x v) key = None"
  using scval_to_typed_json_tagged [of x v] by (auto simp: map_get_def)

lemma map_get_tagged_non_map [simp]: "ty \<noteq> ''map'' \<Longrightarrow> map_get (tagged ty v) key = None"
  by (simp add: map_get_def)

subsection \<open>Properties\<close>

text \<open>C27. What the encoding of contract values keeps and what it loses: two printable values have
  the same typed JSON exactly when they are equal up to the codes of the error values in them,
  whatever injective StrKey, base64 and hex renderings are plugged in.  So two values of different
  types or contents are never confused downstream, and the contract code or system error code of
  an error value is the one thing that cannot be read back from its JSON.\<close>

theorem scval_to_typed_json_lossless:
  assumes "inj_renderings x" and "printable v" and "printable v'"
  shows "scval_to_typed_json x v = scval_to_typed_json x v' \<longleftrightarrow> without_codes v = without_codes v'"
  using scval_to_typed_json_inject [OF assms] scval_to_typed_json_without_codes by metis

text \<open>The loss is real: the errors 1 and 2 of a contract have one rendering.\<close>

lemma scval_error_code_lost:
  "scval_to_typed_json x (ScError (SceContract 1)) = scval_to_typed_json x (ScError (SceContract 2)) \<and>
   ScError (SceContract 1) \<noteq> ScError (SceContract 2)"
  by simp

fun demo_address :: "sc_address \<Rightarrow> string" where
  "demo_address (AddrAccount b) = CHR ''G'' # b"
| "demo_address (AddrContract b) = CHR ''C'' # b"
| "demo_address (AddrMuxedAccount i b) = CHR ''M'' # hex64 i @ b"
| "demo_address (AddrClaimableBalance b) = CHR ''B'' # b"
| "demo_address (AddrLiquidityPool b) = CHR ''L'' # b"
| "demo_address (AddrMuxedContract i b) = CHR ''W'' # hex64 i @ b"

definition demo_ext :: xdr_ext where
  "demo_ext = \<lparr>x_address = demo_address, x_account = (\<lambda>b. CHR ''G'' # b),
               x_b64 = (\<lambda>b. b), x_hex = (\<lambda>b. b)\<rparr>"

lemma demo_ext_inj: "inj_renderings demo_ext"
proof -
  have "demo_address a = demo_address b \<Longrightarrow> a = b" for a b
    by (cases a; cases b) auto
  then show ?thesis by (simp add: inj_renderings_def demo_ext_def inj_def)
qed

theorem scval_to_typed_json_lossless_witness:
  "scval_to_typed_json demo_ext (ScVec (Some [ScError (SceContract 7), ScI128 0 5])) \<noteq>
   scval_to_typed_json demo_ext (ScVec (Some [ScError (SceStorage MissingValue), ScI128 0 5]))"
proof -
  have "printable (ScVec (Some [ScError (SceContract 7), ScI128 0 5]))"
    and "printable (ScVec (Some [ScError (SceStorage MissingValue), ScI128 0 5]))"
    by simp_all
  from scval_to_typed_json_lossless [OF demo_ext_inj this] show ?thesis by simp
qed

text \<open>Maps are read by key, never positionally: on the JSON the writer produces for a map,
  \<open>map_get\<close> yields the JSON of the value under the first entry whose key is that symbol, and
  nothing when no entry has it.\<close>

theorem map_get_reads_by_key:
  assumes "key \<noteq> ''<invalid-utf8>''" and "valid_utf8 key"
  shows "map_get (scval_to_typed_json x (ScMap (Some m))) key =
         map_option (scval_to_typed_json x) (symbol_entry key m)"
  using assms by (rule map_get_map_json)

theorem map_get_reads_by_key_witness:
  "map_get (scval_to_typed_json demo_ext
     (ScMap (Some [(ScSymbol ''to_muxed_id'', ScU64 7), (ScSymbol ''amount'', ScI128 0 42)]))) ''amount'' =
   Some (tagged ''i128'' (JStr ''42''))"
proof -
  have "valid_utf8 ''amount''" by (simp add: valid_utf8_ascii)
  moreover have "show_int (i128_of_parts 0 42) = ''42''"
    by (simp add: i128_of_parts_eq) code_simp
  ultimately show ?thesis
    using map_get_reads_by_key [of "''amount''" demo_ext
      "[(ScSymbol ''to_muxed_id'', ScU64 7), (ScSymbol ''amount'', ScI128 0 42)]"]
    by (simp add: symbol_entry_def)
qed

end
