(* ===== verification/Meta.thy ===== *)
theory Meta
  imports ScVal
begin

text \<open>
  Ledger entries, their changes and the transaction metas that carry them, with the walk of
  \<open>crates/xdr-parser/src/meta.rs\<close> over a meta's changes.  Metas before V3 carry nothing the
  parser reads; V3 keeps the contract events and the return value inside its Soroban part, V4
  keeps events per operation, transaction events and diagnostic events at its top level.
\<close>

datatype asset =
    AssetNative
  | AssetCredit4 bytes bytes
  | AssetCredit12 bytes bytes

datatype trustline_asset =
    TlNative
  | TlCredit4 bytes bytes
  | TlCredit12 bytes bytes
  | TlPoolShare bytes

datatype signer_key =
    SkEd25519 bytes
  | SkPreAuthTx bytes
  | SkHashX bytes
  | SkEd25519SignedPayload bytes bytes

text \<open>The second version of an account's extension counts its sponsored and sponsoring reserves.\<close>

datatype account_ext_v1 = AccExtV1V0 | AccExtV1V2 (num_sponsored_v2: "32 word") (num_sponsoring_v2: "32 word")

datatype account_ext = AccExtV0 | AccExtV1 account_ext_v1

record account_rest =
  ac_seq_num :: "64 word"
  ac_num_sub_entries :: "32 word"
  ac_home_domain :: bytes
  ac_thresholds :: bytes
  ac_flags :: "32 word"
  ac_ext :: account_ext
  ac_signers :: "(signer_key \<times> 32 word) list"

record offer_entry =
  of_seller_id :: bytes
  of_offer_id :: "64 word"
  of_selling :: asset
  of_buying :: asset
  of_amount :: "64 word"
  of_price :: "32 word \<times> 32 word"
  of_flags :: "32 word"

record pool_rest =
  pl_fee :: "32 word"
  pl_total_shares :: "64 word"
  pl_trust_line_count :: "64 word"

datatype durability = Temporary | Persistent

datatype config_setting_id =
    ContractMaxSizeBytes | ContractComputeV0 | ContractLedgerCostV0 | ContractHistoricalDataV0
  | ContractEventsV0 | ContractBandwidthV0 | ContractCostParamsCpuInstructions
  | ContractCostParamsMemoryBytes | ContractDataKeySizeBytes | ContractDataEntrySizeBytes
  | StateArchival | ContractExecutionLanes | EvictionIterator | LiveSorobanStateSizeWindow
  | ContractParallelComputeV0 | ContractLedgerCostExtV0 | ScpTiming | FrozenLedgerKeys
  | FrozenLedgerKeysDelta | FreezeBypassTxs | FreezeBypassTxsDelta

datatype ledger_entry =
    EntryAccount bytes "64 word" account_rest
  | EntryTrustline bytes trustline_asset "64 word" "64 word" "32 word"
  | EntryOffer offer_entry
  | EntryData bytes bytes bytes
  | EntryClaimableBalance bytes asset "64 word" "bytes list"
  | EntryLiquidityPool bytes asset asset "64 word" "64 word" pool_rest
  | EntryContractData sc_address scval scval durability
  | EntryContractCode bytes bytes
  | EntryConfigSetting config_setting_id
  | EntryTtl bytes "32 word"

datatype ledger_key =
    KeyAccount bytes
  | KeyTrustline bytes trustline_asset
  | KeyOffer bytes "64 word"
  | KeyData bytes bytes
  | KeyClaimableBalance bytes
  | KeyLiquidityPool bytes
  | KeyContractData sc_address scval durability
  | KeyContractCode bytes
  | KeyConfigSetting config_setting_id
  | KeyTtl bytes

datatype ledger_entry_change =
    ChState ledger_entry
  | ChRestored ledger_entry
  | ChCreated ledger_entry
  | ChUpdated ledger_entry
  | ChRemoved ledger_key

datatype xdr_event_type = XdrSystem | XdrContract | XdrDiagnostic

record contract_event =
  ce_type :: xdr_event_type
  ce_contract_id :: "bytes option"
  ce_topics :: "scval list"
  ce_data :: scval

datatype event_stage = BeforeAllTxs | AfterTx | AfterAllTxs

record transaction_event =
  te_stage :: event_stage
  te_event :: contract_event

record soroban_meta_v3 =
  s3_events :: "contract_event list"
  s3_diagnostic :: "contract_event list"
  s3_return_value :: scval

record meta_v3 =
  m3_changes_before :: "ledger_entry_change list"
  m3_operations :: "ledger_entry_change list list"
  m3_changes_after :: "ledger_entry_change list"
  m3_soroban :: "soroban_meta_v3 option"

record operation_meta_v4 =
  o4_changes :: "ledger_entry_change list"
  o4_events :: "contract_event list"

record meta_v4 =
  m4_changes_before :: "ledger_entry_change list"
  m4_operations :: "operation_meta_v4 list"
  m4_changes_after :: "ledger_entry_change list"
  m4_soroban :: "scval option option"
  m4_events :: "transaction_event list"
  m4_diagnostic :: "contract_event list"

datatype tx_meta = MetaOld | MetaV3 meta_v3 | MetaV4 meta_v4

subsection \<open>The changes of a transaction\<close>

definition collect_changes ::
  "ledger_entry_change list \<Rightarrow> ledger_entry_change list list \<Rightarrow> ledger_entry_change list \<Rightarrow>
   ledger_entry_change list" where
  "collect_changes prior op_changes after = prior @ concat op_changes @ after"

fun ledger_changes :: "tx_meta \<Rightarrow> ledger_entry_change list" where
  "ledger_changes (MetaV3 m) = collect_changes (m3_changes_before m) (m3_operations m) (m3_changes_after m)"
| "ledger_changes (MetaV4 m) =
     collect_changes (m4_changes_before m) (map o4_changes (m4_operations m)) (m4_changes_after m)"
| "ledger_changes MetaOld = []"

fun operation_changes :: "tx_meta \<Rightarrow> ledger_entry_change list" where
  "operation_changes (MetaV3 m) = m3_changes_before m @ concat (m3_operations m)"
| "operation_changes (MetaV4 m) = m4_changes_before m @ concat (map o4_changes (m4_operations m))"
| "operation_changes MetaOld = []"

fun soroban_return_value :: "tx_meta \<Rightarrow> scval option" where
  "soroban_return_value (MetaV3 m) = map_option s3_return_value (m3_soroban m)"
| "soroban_return_value (MetaV4 m) = Option.bind (m4_soroban m) (\<lambda>r. r)"
| "soroban_return_value MetaOld = None"

fun changes_after :: "tx_meta \<Rightarrow> ledger_entry_change list" where
  "changes_after (MetaV3 m) = m3_changes_after m"
| "changes_after (MetaV4 m) = m4_changes_after m"
| "changes_after MetaOld = []"

text \<open>The two views of the changes differ only by what the transaction does after its operations.\<close>

lemma ledger_changes_split: "ledger_changes m = operation_changes m @ changes_after m"
  by (cases m) (simp_all add: collect_changes_def)

end
