(* ===== verification/EntryChanges.thy ===== *)
theory EntryChanges
  imports LedgerValue
begin

text \<open>
  \<open>crates/xdr-parser/src/ledger_entry_changes.rs\<close>: the changes of a transaction as rows with a typed
  JSON key and, but for a removal, the entry's data.  The text of a signer key and the
  derived \<open>Debug\<close> name of a setting come from the XDR crate: they are the parameter \<open>n\<close>.
\<close>

record entry_names =
  en_signer :: "signer_key \<Rightarrow> string"
  en_setting_debug :: "config_setting_id \<Rightarrow> string"

record entry_change =
  xc_transaction_hash :: string
  xc_change_type :: string
  xc_entry_type :: string
  xc_key :: json
  xc_data :: "json option"
  xc_change_index :: int
  xc_operation_index :: "int option"
  xc_ledger_sequence :: int
  xc_created_at :: int

subsection \<open>Pieces\<close>

fun entry_format_asset :: "xdr_ext \<Rightarrow> asset \<Rightarrow> json" where
  "entry_format_asset x AssetNative = JStr ''native''"
| "entry_format_asset x (AssetCredit4 code issuer) =
     JObj [(''type'', JStr ''credit_alphanum4''), (''code'', JStr (asset_code_str x code)),
           (''issuer'', JStr (x_account x issuer))]"
| "entry_format_asset x (AssetCredit12 code issuer) =
     JObj [(''type'', JStr ''credit_alphanum12''), (''code'', JStr (asset_code_str x code)),
           (''issuer'', JStr (x_account x issuer))]"

fun format_trustline_asset :: "xdr_ext \<Rightarrow> trustline_asset \<Rightarrow> json" where
  "format_trustline_asset x TlNative = JStr ''native''"
| "format_trustline_asset x (TlCredit4 code issuer) =
     JObj [(''type'', JStr ''credit_alphanum4''), (''code'', JStr (asset_code_str x code)),
           (''issuer'', JStr (x_account x issuer))]"
| "format_trustline_asset x (TlCredit12 code issuer) =
     JObj [(''type'', JStr ''credit_alphanum12''), (''code'', JStr (asset_code_str x code)),
           (''issuer'', JStr (x_account x issuer))]"
| "format_trustline_asset x (TlPoolShare pool) =
     JObj [(''type'', JStr ''pool_share''), (''pool_id'', JStr (x_hex x pool))]"

definition format_trustline_asset_key :: "xdr_ext \<Rightarrow> trustline_asset \<Rightarrow> json" where
  "format_trustline_asset_key x a = format_trustline_asset x a"

fun format_durability :: "durability \<Rightarrow> string" where
  "format_durability Temporary = ''temporary''"
| "format_durability Persistent = ''persistent''"

fun signer_type_name :: "signer_key \<Rightarrow> string" where
  "signer_type_name (SkEd25519 _) = ''ed25519''"
| "signer_type_name (SkPreAuthTx _) = ''preauth_tx''"
| "signer_type_name (SkHashX _) = ''hash_x''"
| "signer_type_name (SkEd25519SignedPayload _ _) = ''ed25519_signed_payload''"

fun sponsorship_extension :: "account_ext \<Rightarrow> ((32 word) \<times> (32 word)) option" where
  "sponsorship_extension (AccExtV1 (AccExtV1V2 sponsored sponsoring)) = Some (sponsored, sponsoring)"
| "sponsorship_extension (AccExtV1 AccExtV1V0) = None"
| "sponsorship_extension AccExtV0 = None"

definition num_sponsoring :: "account_rest \<Rightarrow> int" where
  "num_sponsoring a = (case sponsorship_extension (ac_ext a) of Some (_, n) \<Rightarrow> uint n | None \<Rightarrow> 0)"

definition num_sponsored :: "account_rest \<Rightarrow> int" where
  "num_sponsored a = (case sponsorship_extension (ac_ext a) of Some (n, _) \<Rightarrow> uint n | None \<Rightarrow> 0)"

fun config_setting_id_name :: "config_setting_id \<Rightarrow> string" where
  "config_setting_id_name ContractMaxSizeBytes = ''contract_max_size_bytes''"
| "config_setting_id_name ContractComputeV0 = ''contract_compute_v0''"
| "config_setting_id_name ContractLedgerCostV0 = ''contract_ledger_cost_v0''"
| "config_setting_id_name ContractHistoricalDataV0 = ''contract_historical_data_v0''"
| "config_setting_id_name ContractEventsV0 = ''contract_events_v0''"
| "config_setting_id_name ContractBandwidthV0 = ''contract_bandwidth_v0''"
| "config_setting_id_name ContractCostParamsCpuInstructions = ''contract_cost_params_cpu''"
| "config_setting_id_name ContractCostParamsMemoryBytes = ''contract_cost_params_memory''"
| "config_setting_id_name ContractDataKeySizeBytes = ''contract_data_key_size_bytes''"
| "config_setting_id_name ContractDataEntrySizeBytes = ''contract_data_entry_size_bytes''"
| "config_setting_id_name StateArchival = ''state_archival''"
| "config_setting_id_name ContractExecutionLanes = ''contract_execution_lanes''"
| "config_setting_id_name EvictionIterator = ''eviction_iterator''"
| "config_setting_id_name LiveSorobanStateSizeWindow = ''live_soroban_state_size_window''"
| "config_setting_id_name ContractParallelComputeV0 = ''contract_parallel_compute_v0''"
| "config_setting_id_name ContractLedgerCostExtV0 = ''contract_ledger_cost_ext_v0''"
| "config_setting_id_name ScpTiming = ''scp_timing''"
| "config_setting_id_name FrozenLedgerKeys = ''frozen_ledger_keys''"
| "config_setting_id_name FrozenLedgerKeysDelta = ''frozen_ledger_keys_delta''"
| "config_setting_id_name FreezeBypassTxs = ''freeze_bypass_txs''"
| "config_setting_id_name FreezeBypassTxsDelta = ''freeze_bypass_txs_delta''"

subsection \<open>Keys and data of the entries\<close>

definition account_key :: "xdr_ext \<Rightarrow> bytes \<Rightarrow> json" where
  "account_key x acct = JObj [(''account_id'', JStr (x_account x acct))]"

definition account_data :: "xdr_ext \<Rightarrow> entry_names \<Rightarrow> bytes \<Rightarrow> 64 word \<Rightarrow> account_rest \<Rightarrow> json" where
  "account_data x n acct balance a =
     JObj [(''account_id'', JStr (x_account x acct)),
           (''balance'', JNum (sint balance)),
           (''seq_num'', JNum (sint (ac_seq_num a))),
           (''num_sub_entries'', JNum (uint (ac_num_sub_entries a))),
           (''home_domain'', JStr (from_utf8_lossy (ac_home_domain a))),
           (''thresholds'', JStr (x_hex x (ac_thresholds a))),
           (''flags'', JNum (uint (ac_flags a))),
           (''num_sponsoring'', JNum (num_sponsoring a)),
           (''num_sponsored'', JNum (num_sponsored a)),
           (''signers'', JArr (map (\<lambda>s. JObj [(''key'', JStr (en_signer n (fst s))),
                                               (''weight'', JNum (uint (snd s))),
                                               (''type'', JStr (signer_type_name (fst s)))]) (ac_signers a)))]"

definition trustline_key :: "xdr_ext \<Rightarrow> bytes \<Rightarrow> trustline_asset \<Rightarrow> json" where
  "trustline_key x acct asset =
     JObj [(''account_id'', JStr (x_account x acct)), (''asset'', format_trustline_asset x asset)]"

definition trustline_data ::
  "xdr_ext \<Rightarrow> bytes \<Rightarrow> trustline_asset \<Rightarrow> 64 word \<Rightarrow> 64 word \<Rightarrow> 32 word \<Rightarrow> json" where
  "trustline_data x acct asset balance limit flags =
     JObj [(''account_id'', JStr (x_account x acct)), (''asset'', format_trustline_asset x asset),
           (''balance'', JNum (sint balance)), (''limit'', JNum (sint limit)), (''flags'', JNum (uint flags))]"

definition offer_key :: "xdr_ext \<Rightarrow> offer_entry \<Rightarrow> json" where
  "offer_key x o' =
     JObj [(''seller_id'', JStr (x_account x (of_seller_id o'))), (''offer_id'', JNum (sint (of_offer_id o')))]"

definition offer_data :: "xdr_ext \<Rightarrow> offer_entry \<Rightarrow> json" where
  "offer_data x o' =
     JObj [(''seller_id'', JStr (x_account x (of_seller_id o'))), (''offer_id'', JNum (sint (of_offer_id o'))),
           (''selling'', entry_format_asset x (of_selling o')), (''buying'', entry_format_asset x (of_buying o')),
           (''amount'', JNum (sint (of_amount o'))),
           (''price'', JObj [(''n'', JNum (sint (fst (of_price o')))), (''d'', JNum (sint (snd (of_price o'))))]),
           (''flags'', JNum (uint (of_flags o')))]"

definition data_entry_key :: "xdr_ext \<Rightarrow> bytes \<Rightarrow> bytes \<Rightarrow> json" where
  "data_entry_key x acct name =
     JObj [(''account_id'', JStr (x_account x acct)), (''data_name'', JStr (from_utf8_lossy name))]"

definition data_entry_data :: "xdr_ext \<Rightarrow> bytes \<Rightarrow> bytes \<Rightarrow> bytes \<Rightarrow> json" where
  "data_entry_data x acct name val =
     JObj [(''account_id'', JStr (x_account x acct)), (''data_name'', JStr (from_utf8_lossy name)),
           (''data_value'', JStr (x_hex x val))]"

definition format_claimable_balance_id :: "xdr_ext \<Rightarrow> bytes \<Rightarrow> string" where
  "format_claimable_balance_id x bid = x_hex x bid"

definition format_claimant :: "xdr_ext \<Rightarrow> bytes \<Rightarrow> json" where
  "format_claimant x dest = JObj [(''destination'', JStr (x_account x dest))]"

definition claimable_balance_key :: "xdr_ext \<Rightarrow> bytes \<Rightarrow> json" where
  "claimable_balance_key x bid = JObj [(''balance_id'', JStr (format_claimable_balance_id x bid))]"

definition claimable_balance_data :: "xdr_ext \<Rightarrow> bytes \<Rightarrow> asset \<Rightarrow> 64 word \<Rightarrow> bytes list \<Rightarrow> json" where
  "claimable_balance_data x bid asset amount claimants =
     JObj [(''balance_id'', JStr (format_claimable_balance_id x bid)), (''asset'', entry_format_asset x asset),
           (''amount'', JNum (sint amount)), (''claimants'', JArr (map (format_claimant x) claimants))]"

definition liquidity_pool_key :: "xdr_ext \<Rightarrow> bytes \<Rightarrow> json" where
  "liquidity_pool_key x pool = JObj [(''pool_id'', JStr (x_hex x pool))]"

definition liquidity_pool_data ::
  "xdr_ext \<Rightarrow> bytes \<Rightarrow> asset \<Rightarrow> asset \<Rightarrow> 64 word \<Rightarrow> 64 word \<Rightarrow> pool_rest \<Rightarrow> json" where
  "liquidity_pool_data x pool a b ra rb q =
     JObj [(''pool_id'', JStr (x_hex x pool)), (''type'', JStr ''constant_product''),
           (''params'', JObj [(''asset_a'', entry_format_asset x a), (''asset_b'', entry_format_asset x b),
                              (''fee'', JNum (sint (pl_fee q)))]),
           (''reserve_a'', JNum (sint ra)), (''reserve_b'', JNum (sint rb)),
           (''total_pool_shares'', JNum (sint (pl_total_shares q))),
           (''pool_shares_trust_line_count'', JNum (sint (pl_trust_line_count q)))]"

definition contract_data_key :: "xdr_ext \<Rightarrow> sc_address \<Rightarrow> scval \<Rightarrow> durability \<Rightarrow> json" where
  "contract_data_key x contract key d =
     JObj [(''contract'', JStr (x_address x contract)), (''key'', scval_to_typed_json x key),
           (''durability'', JStr (format_durability d))]"

definition contract_data_data :: "xdr_ext \<Rightarrow> sc_address \<Rightarrow> scval \<Rightarrow> scval \<Rightarrow> durability \<Rightarrow> json" where
  "contract_data_data x contract key val d =
     JObj [(''contract'', JStr (x_address x contract)), (''key'', scval_to_typed_json x key),
           (''durability'', JStr (format_durability d)), (''val'', scval_to_typed_json x val)]"

definition contract_code_key :: "xdr_ext \<Rightarrow> bytes \<Rightarrow> json" where
  "contract_code_key x hash = JObj [(''hash'', JStr (x_hex x hash))]"

definition contract_code_data :: "xdr_ext \<Rightarrow> bytes \<Rightarrow> bytes \<Rightarrow> json" where
  "contract_code_data x hash code =
     JObj [(''hash'', JStr (x_hex x hash)), (''code_byte_len'', JNum (int (length code)))]"

definition config_setting_key :: "config_setting_id \<Rightarrow> json" where
  "config_setting_key i = JObj [(''config_setting_id'', JStr (config_setting_id_name i))]"

definition ttl_key :: "xdr_ext \<Rightarrow> bytes \<Rightarrow> json" where
  "ttl_key x h = JObj [(''key_hash'', JStr (x_hex x h))]"

definition ttl_data :: "xdr_ext \<Rightarrow> bytes \<Rightarrow> 32 word \<Rightarrow> json" where
  "ttl_data x h live = JObj [(''key_hash'', JStr (x_hex x h)), (''live_until_ledger_seq'', JNum (uint live))]"

fun extract_entry_info :: "xdr_ext \<Rightarrow> entry_names \<Rightarrow> ledger_entry \<Rightarrow> string \<times> json \<times> json" where
  "extract_entry_info x n (EntryAccount acct balance a) =
     (''account'', account_key x acct, account_data x n acct balance a)"
| "extract_entry_info x n (EntryTrustline acct asset balance limit flags) =
     (''trustline'', trustline_key x acct asset, trustline_data x acct asset balance limit flags)"
| "extract_entry_info x n (EntryOffer o') = (''offer'', offer_key x o', offer_data x o')"
| "extract_entry_info x n (EntryData acct name val) =
     (''data'', data_entry_key x acct name, data_entry_data x acct name val)"
| "extract_entry_info x n (EntryClaimableBalance bid asset amount claimants) =
     (''claimable_balance'', claimable_balance_key x bid, claimable_balance_data x bid asset amount claimants)"
| "extract_entry_info x n (EntryLiquidityPool pool a b ra rb q) =
     (''liquidity_pool'', liquidity_pool_key x pool, liquidity_pool_data x pool a b ra rb q)"
| "extract_entry_info x n (EntryContractData contract key val d) =
     (''contract_data'', contract_data_key x contract key d, contract_data_data x contract key val d)"
| "extract_entry_info x n (EntryContractCode hash code) =
     (''contract_code'', contract_code_key x hash, contract_code_data x hash code)"
| "extract_entry_info x n (EntryConfigSetting i) = (''config_setting'', config_setting_key i, JObj [])"
| "extract_entry_info x n (EntryTtl h live) = (''ttl'', ttl_key x h, ttl_data x h live)"

fun extract_key_info :: "xdr_ext \<Rightarrow> entry_names \<Rightarrow> ledger_key \<Rightarrow> string \<times> json" where
  "extract_key_info x n (KeyAccount acct) = (''account'', JObj [(''account_id'', JStr (x_account x acct))])"
| "extract_key_info x n (KeyTrustline acct asset) =
     (''trustline'', JObj [(''account_id'', JStr (x_account x acct)), (''asset'', format_trustline_asset_key x asset)])"
| "extract_key_info x n (KeyOffer seller offer_id) =
     (''offer'', JObj [(''seller_id'', JStr (x_account x seller)), (''offer_id'', JNum (sint offer_id))])"
| "extract_key_info x n (KeyData acct name) =
     (''data'', JObj [(''account_id'', JStr (x_account x acct)), (''data_name'', JStr (from_utf8_lossy name))])"
| "extract_key_info x n (KeyClaimableBalance bid) =
     (''claimable_balance'', JObj [(''balance_id'', JStr (format_claimable_balance_id x bid))])"
| "extract_key_info x n (KeyLiquidityPool pool) = (''liquidity_pool'', JObj [(''pool_id'', JStr (x_hex x pool))])"
| "extract_key_info x n (KeyContractData contract key d) =
     (''contract_data'', JObj [(''contract'', JStr (x_address x contract)), (''key'', scval_to_typed_json x key),
                               (''durability'', JStr (format_durability d))])"
| "extract_key_info x n (KeyContractCode hash) = (''contract_code'', JObj [(''hash'', JStr (x_hex x hash))])"
| "extract_key_info x n (KeyConfigSetting i) =
     (''config_setting'', JObj [(''config_setting_id'', JStr (en_setting_debug n i))])"
| "extract_key_info x n (KeyTtl h) = (''ttl'', JObj [(''key_hash'', JStr (x_hex x h))])"

subsection \<open>The walk\<close>

definition change_parts ::
  "xdr_ext \<Rightarrow> entry_names \<Rightarrow> ledger_entry_change \<Rightarrow> string \<times> string \<times> json \<times> json option" where
  "change_parts x n change =
     (case change of
        ChCreated e \<Rightarrow> (let (et, k, d) = extract_entry_info x n e in (''created'', et, k, Some d))
      | ChUpdated e \<Rightarrow> (let (et, k, d) = extract_entry_info x n e in (''updated'', et, k, Some d))
      | ChRemoved key \<Rightarrow> (let (et, k) = extract_key_info x n key in (''removed'', et, k, None))
      | ChState e \<Rightarrow> (let (et, k, d) = extract_entry_info x n e in (''state'', et, k, Some d))
      | ChRestored e \<Rightarrow> (let (et, k, d) = extract_entry_info x n e in (''restored'', et, k, Some d)))"

definition extract_single_change ::
  "xdr_ext \<Rightarrow> entry_names \<Rightarrow> ledger_entry_change \<Rightarrow> int option \<Rightarrow> string \<Rightarrow> int \<Rightarrow> int \<Rightarrow> int \<Rightarrow>
   entry_change option" where
  "extract_single_change x n change op_index tx_hash ledger_sequence created_at change_index =
     (let (change_type, entry_type, key, data) = change_parts x n change
      in Some \<lparr>xc_transaction_hash = tx_hash, xc_change_type = change_type, xc_entry_type = entry_type,
               xc_key = key, xc_data = data, xc_change_index = change_index,
               xc_operation_index = op_index, xc_ledger_sequence = ledger_sequence,
               xc_created_at = created_at\<rparr>)"

fun extract_from_changes ::
  "xdr_ext \<Rightarrow> entry_names \<Rightarrow> ledger_entry_change list \<Rightarrow> int option \<Rightarrow> string \<Rightarrow> int \<Rightarrow> int \<Rightarrow>
   int \<times> entry_change list \<Rightarrow> int \<times> entry_change list" where
  "extract_from_changes x n [] op_index h seq at st = st"
| "extract_from_changes x n (c # cs) op_index h seq at (index, results) =
     extract_from_changes x n cs op_index h seq at
       (wrap_u32 (index + 1),
        case extract_single_change x n c op_index h seq at index of
          Some r \<Rightarrow> results @ [r] | None \<Rightarrow> results)"

definition extract_meta_changes ::
  "xdr_ext \<Rightarrow> entry_names \<Rightarrow> ledger_entry_change list \<Rightarrow> ledger_entry_change list list \<Rightarrow>
   ledger_entry_change list \<Rightarrow> string \<Rightarrow> int \<Rightarrow> int \<Rightarrow> entry_change list" where
  "extract_meta_changes x n prior ops after h seq at =
     (let st = extract_from_changes x n prior None h seq at (0, []);
          st = foldl (\<lambda>st (i, cs). extract_from_changes x n cs (Some (int i)) h seq at st) st (enumerate 0 ops)
      in snd (extract_from_changes x n after None h seq at st))"

fun extract_ledger_entry_changes ::
  "xdr_ext \<Rightarrow> entry_names \<Rightarrow> tx_meta \<Rightarrow> string \<Rightarrow> int \<Rightarrow> int \<Rightarrow> entry_change list" where
  "extract_ledger_entry_changes x n (MetaV3 m) h seq at =
     extract_meta_changes x n (m3_changes_before m) (m3_operations m) (m3_changes_after m) h seq at"
| "extract_ledger_entry_changes x n (MetaV4 m) h seq at =
     extract_meta_changes x n (m4_changes_before m) (map o4_changes (m4_operations m)) (m4_changes_after m) h seq at"
| "extract_ledger_entry_changes x n MetaOld h seq at = []"

text \<open>An entry on its own, as a row without a transaction.\<close>

definition entry_as_current_change ::
  "xdr_ext \<Rightarrow> entry_names \<Rightarrow> int \<Rightarrow> ledger_entry \<Rightarrow> entry_change option" where
  "entry_as_current_change x n last_modified e =
     extract_single_change x n (ChUpdated e) None [] last_modified 0 0"

subsection \<open>Facts\<close>

text \<open>The JSON key of a removed entry is the key its image had.\<close>

fun key_of_entry :: "ledger_entry \<Rightarrow> ledger_key" where
  "key_of_entry (EntryAccount acct _ _) = KeyAccount acct"
| "key_of_entry (EntryTrustline acct asset _ _ _) = KeyTrustline acct asset"
| "key_of_entry (EntryOffer o') = KeyOffer (of_seller_id o') (of_offer_id o')"
| "key_of_entry (EntryData acct name _) = KeyData acct name"
| "key_of_entry (EntryClaimableBalance bid _ _ _) = KeyClaimableBalance bid"
| "key_of_entry (EntryLiquidityPool pool _ _ _ _ _) = KeyLiquidityPool pool"
| "key_of_entry (EntryContractData contract key _ d) = KeyContractData contract key d"
| "key_of_entry (EntryContractCode hash _) = KeyContractCode hash"
| "key_of_entry (EntryConfigSetting i) = KeyConfigSetting i"
| "key_of_entry (EntryTtl h _) = KeyTtl h"

lemmas entry_json_defs =
  account_key_def account_data_def trustline_key_def trustline_data_def offer_key_def offer_data_def
  data_entry_key_def data_entry_data_def claimable_balance_key_def claimable_balance_data_def
  liquidity_pool_key_def liquidity_pool_data_def contract_data_key_def contract_data_data_def
  contract_code_key_def contract_code_data_def config_setting_key_def ttl_key_def ttl_data_def
  format_claimable_balance_id_def format_trustline_asset_key_def

lemma removed_key_matches:
  "\<forall>i. e \<noteq> EntryConfigSetting i \<Longrightarrow> extract_key_info x n (key_of_entry e) =
     (fst (extract_entry_info x n e), fst (snd (extract_entry_info x n e)))"
  by (cases e) (simp_all add: entry_json_defs)

end
