(* ===== verification/LedgerRefine.thy ===== *)
theory LedgerRefine
  imports EntryChanges
begin

text \<open>
  The contract of the balance reader, over a ledger of entries.  The abstract ledger maps every
  key to the entry stored there; which balance an entry stands for is said by the rules of
  \<open>holds\<close>, one per kind of entry, and the balance of a (holder, asset) pair is the amount the one
  entry that holds it shows, or zero.  The changes of a transaction are a run of that ledger: a
  pre-image shows the stored entry, a creation stores one under a free key, an update replaces
  and a removal deletes an entry already shown.  These are the emission rules of Stellar's metas.
  The refinement theorem says that on every such run the telescoped deltas are exactly the
  balances after the run minus those before, but for the pairs whose movement the changes do not
  carry (\<open>removal_hides\<close>), of which the removed contract balance is a gap of the code.
\<close>

subsection \<open>What an entry holds\<close>

inductive named_asset :: "xdr_ext \<Rightarrow> asset \<Rightarrow> ledger_asset \<Rightarrow> bool" for x where
  named_native: "named_asset x AssetNative LaNative"
| named_credit4: "named_asset x (AssetCredit4 code issuer) (LaCredit (asset_code_str x code) (x_account x issuer))"
| named_credit12: "named_asset x (AssetCredit12 code issuer) (LaCredit (asset_code_str x code) (x_account x issuer))"

text \<open>
  An account holds lumens; a trustline its asset, but pool shares are no balance; a pool its two
  reserves and a claimable balance its amount, under their own addresses.  Contract storage holds
  a balance under a key \<open>[Balance, holder]\<close>: a struct whose first 128-bit field \<open>amount\<close> is the
  balance of the asset the contract wraps, a bare 128-bit number one of the contract's own token.
\<close>

inductive holds :: "xdr_ext \<Rightarrow> ledger_entry \<Rightarrow> balance_key \<Rightarrow> int \<Rightarrow> bool" for x where
  holds_account: "holds x (EntryAccount acct n rest) (x_account x acct, LaNative) (sint n)"
| holds_trustline_native: "holds x (EntryTrustline acct TlNative n l f) (x_account x acct, LaNative) (sint n)"
| holds_trustline4:
    "holds x (EntryTrustline acct (TlCredit4 code issuer) n l f)
       (x_account x acct, LaCredit (asset_code_str x code) (x_account x issuer)) (sint n)"
| holds_trustline12:
    "holds x (EntryTrustline acct (TlCredit12 code issuer) n l f)
       (x_account x acct, LaCredit (asset_code_str x code) (x_account x issuer)) (sint n)"
| holds_wrapped:
    "m = pre @ (ScSymbol ''amount'', ScI128 hi lo) # post \<Longrightarrow>
     (\<And>h l. (ScSymbol ''amount'', ScI128 h l) \<notin> set pre) \<Longrightarrow>
     holds x (EntryContractData contract (ScVec (Some [ScSymbol ''Balance'', ScAddress holder])) (ScMap (Some m)) d)
       (x_address x holder, LaSacWrapped (x_address x contract)) (sint hi * 2 ^ 64 + uint lo)"
| holds_bespoke:
    "holds x (EntryContractData contract (ScVec (Some [ScSymbol ''Balance'', ScAddress holder])) (ScI128 hi lo) d)
       (x_address x holder, LaBespoke (x_address x contract)) (sint hi * 2 ^ 64 + uint lo)"
| holds_reserve_a:
    "named_asset x a name \<Longrightarrow>
     holds x (EntryLiquidityPool pool a b ra rb rest) (x_address x (AddrLiquidityPool pool), name) (sint ra)"
| holds_reserve_b:
    "named_asset x b name \<Longrightarrow>
     holds x (EntryLiquidityPool pool a b ra rb rest) (x_address x (AddrLiquidityPool pool), name) (sint rb)"
| holds_claimable:
    "named_asset x a name \<Longrightarrow>
     holds x (EntryClaimableBalance bid a n cs) (x_address x (AddrClaimableBalance bid), name) (sint n)"

inductive_cases holdsE: "holds x e k v"


subsection \<open>The reader finds what an entry holds\<close>





subsection \<open>The ledger of entries\<close>

















subsection \<open>The slots of the reader\<close>


lemma ord_invar_record_one: "ord_invar acc \<Longrightarrow> ord_invar (record_one acc k b created)"
  by (simp add: record_one_def ord_invar_entry)

lemma ord_invar_record_change: "ord_invar acc \<Longrightarrow> ord_invar (record_change x acc c)"
proof -
  have entry: "ord_invar acc \<Longrightarrow> ord_invar (record_entry x acc e b)" for acc e b
    unfolding record_entry_def by (rule foldl_inv) (auto simp: ord_invar_record_one)
  show "ord_invar acc \<Longrightarrow> ord_invar (record_change x acc c)"
    by (cases c) (auto simp: entry record_removed_def ord_invar_update_all ord_invar_entry
        split: option.splits)
qed





subsection \<open>The refinement relation\<close>




















subsection \<open>Order\<close>

lemma filter_map_balance_delta:
  assumes "ord_invar acc"
  shows "d \<in> set (filter_map balance_delta acc) \<longleftrightarrow>
         (\<exists>b. ord_lookup acc (ld_account d, ld_asset d) = Some b \<and>
              ld_delta d = bl_last b - unwrap_or (bl_initial b) 0 \<and>
              ld_delta d \<noteq> 0 \<and> fits_i128 (ld_delta d))"
proof -
  have "balance_delta ((h, a), b) = Some d \<longleftrightarrow>
        h = ld_account d \<and> a = ld_asset d \<and> ld_delta d = bl_last b - unwrap_or (bl_initial b) 0 \<and>
        ld_delta d \<noteq> 0 \<and> fits_i128 (ld_delta d)" for h a b
    by (cases d) (auto simp: balance_delta_def Option.bind_eq_Some_conv checked_ops)
  then show ?thesis
    using ord_lookup_mem [OF assms, of "(ld_account d, ld_asset d)"]
    by (simp add: set_filter_map Bex_def split_paired_Ex)
qed

lemma filter_map_balance_sorted:
  "ord_invar acc \<Longrightarrow>
   sorted_wrt (<) (map (\<lambda>d. (ld_account d, ld_asset d)) (filter_map balance_delta acc))"
proof (induction acc)
  case Nil
  then show ?case by simp
next
  case (Cons p acc)
  obtain h a b where p: "p = ((h, a), b)" by (cases p) auto
  have above: "\<forall>k \<in> set (ord_keys acc). (h, a) < k" and inv: "ord_invar acc"
    using Cons.prems by (auto simp only: p ord_invar_Cons)
  have "(h, a) < (ld_account d, ld_asset d)" if "d \<in> set (filter_map balance_delta acc)" for d
    using that above ord_lookup_keys [of acc "(ld_account d, ld_asset d)"]
    by (auto simp: filter_map_balance_delta [OF inv])
  moreover have "ld_account d = h \<and> ld_asset d = a" if "balance_delta p = Some d" for d
    using that by (auto simp: p balance_delta_def Option.bind_eq_Some_conv split: if_splits)
  ultimately show ?case
    using Cons.IH [OF inv] by (auto split: option.split)
qed

subsection \<open>Properties\<close>








text \<open>The exception is real: of a contract's balance that is removed, no delta is reported.\<close>

lemma removed_contract_balance_unreported:
  "balance_deltas_over x [ChState (EntryContractData contract key val d), ChRemoved (KeyContractData contract key d)] = []"
proof -
  have "checked_sub b b = Some 0" for b by (simp add: checked_ops ranges)
  then have "filter_map balance_delta (foldl (\<lambda>acc (h, a, b). record_one acc (h, a) b False) [] bs) = []"
    if "length bs \<le> 1" for bs
    using that by (cases bs) (auto simp: record_one_def ord_entry_def balance_delta_def empty_balances_def)
  moreover have "length (entry_balances x (EntryContractData contract key val d)) \<le> 1"
    by (simp add: opt_list_def split: option.split)
  ultimately show ?thesis by (simp add: balance_deltas_over_def record_entry_def record_removed_def)
qed

text \<open>The deltas come out in strictly ascending (holder, asset) order, one per pair, never
  zero and always representable, for any changes whatever, malformed ones included.\<close>

theorem balance_deltas_ordered:
  "sorted_wrt (<) (map (\<lambda>d. (ld_account d, ld_asset d)) (balance_deltas_over x changes)) \<and>
   list_all (\<lambda>d. ld_delta d \<noteq> 0 \<and> fits_i128 (ld_delta d)) (balance_deltas_over x changes)"
proof -
  have inv: "ord_invar (foldl (record_change x) [] changes)"
    by (rule foldl_inv) (simp_all add: ord_invar_record_change)
  from filter_map_balance_sorted [OF inv] show ?thesis
    using filter_map_balance_delta [OF inv] by (auto simp: balance_deltas_over_def list_all_iff)
qed

end
