(* ===== verification/Domain.thy ===== *)
theory Domain
  imports RustStr
begin

text \<open>
  \<open>crates/domain/src/enums\<close>: the enumerations stored as small integers in the tables and written
  as labels in the API.  Each has its discriminants, its decoder from a stored integer and its
  labels; the locale states once what the pair of codecs promises.
\<close>

datatype enum_decode_error =
    UnknownDiscriminant string int
  | UnknownLabel string string

definition from_label :: "string \<Rightarrow> 'a list \<Rightarrow> ('a \<Rightarrow> string) \<Rightarrow> string \<Rightarrow> enum_decode_error + 'a" where
  "from_label name variants as_label s =
     (case List.find (\<lambda>v. as_label v = s) variants of
        Some v \<Rightarrow> Inr v
      | None \<Rightarrow> Inl (UnknownLabel name s))"

locale coded_enum =
  fixes variants :: "'a list"
    and label :: "'a \<Rightarrow> string"
    and code :: "'a \<Rightarrow> int"
    and decode :: "int \<Rightarrow> enum_decode_error + 'a"
  assumes all_variants: "v \<in> set variants"
    and labels: "distinct (map label variants)"
    and decode_code: "decode (code v) = Inr v"
    and decode_sound: "decode n = Inr v \<Longrightarrow> code v = n"
begin

lemma label_inject: "label v = label w \<longleftrightarrow> v = w"
  using labels all_variants by (auto simp: distinct_map inj_on_def)

lemma from_label_label: "from_label name variants label (label v) = Inr v"
proof -
  have "List.find (\<lambda>w. label w = label v) variants \<noteq> None"
    using all_variants [of v] by (auto simp: find_None_iff)
  then obtain w where "List.find (\<lambda>w. label w = label v) variants = Some w" by blast
  moreover from this have "w = v" by (auto simp: find_Some_iff label_inject)
  ultimately show ?thesis by (simp add: from_label_def)
qed

lemma from_label_sound: "from_label name variants label s = Inr v \<Longrightarrow> label v = s"
  by (auto simp: from_label_def find_Some_iff split: option.splits)

lemma decode_iff: "decode n = Inr v \<longleftrightarrow> n = code v"
  using decode_code decode_sound by blast

lemma label_iff: "from_label name variants label s = Inr v \<longleftrightarrow> s = label v"
  using from_label_label from_label_sound by blast

end

subsection \<open>OperationType\<close>

datatype operation_type =
    OpCreateAccount
  | OpPayment
  | OpPathPaymentStrictReceive
  | OpManageSellOffer
  | OpCreatePassiveSellOffer
  | OpSetOptions
  | OpChangeTrust
  | OpAllowTrust
  | OpAccountMerge
  | OpInflation
  | OpManageData
  | OpBumpSequence
  | OpManageBuyOffer
  | OpPathPaymentStrictSend
  | OpCreateClaimableBalance
  | OpClaimClaimableBalance
  | OpBeginSponsoringFutureReserves
  | OpEndSponsoringFutureReserves
  | OpRevokeSponsorship
  | OpClawback
  | OpClawbackClaimableBalance
  | OpSetTrustLineFlags
  | OpLiquidityPoolDeposit
  | OpLiquidityPoolWithdraw
  | OpInvokeHostFunction
  | OpExtendFootprintTtl
  | OpRestoreFootprint

definition operation_type_variants :: "operation_type list" where
  "operation_type_variants =
     [OpCreateAccount, OpPayment, OpPathPaymentStrictReceive,
      OpManageSellOffer, OpCreatePassiveSellOffer, OpSetOptions,
      OpChangeTrust, OpAllowTrust, OpAccountMerge,
      OpInflation, OpManageData, OpBumpSequence,
      OpManageBuyOffer, OpPathPaymentStrictSend, OpCreateClaimableBalance,
      OpClaimClaimableBalance, OpBeginSponsoringFutureReserves, OpEndSponsoringFutureReserves,
      OpRevokeSponsorship, OpClawback, OpClawbackClaimableBalance,
      OpSetTrustLineFlags, OpLiquidityPoolDeposit, OpLiquidityPoolWithdraw,
      OpInvokeHostFunction, OpExtendFootprintTtl, OpRestoreFootprint]"

fun operation_type_str :: "operation_type \<Rightarrow> string" where
  "operation_type_str OpCreateAccount = ''CREATE_ACCOUNT''"
| "operation_type_str OpPayment = ''PAYMENT''"
| "operation_type_str OpPathPaymentStrictReceive = ''PATH_PAYMENT_STRICT_RECEIVE''"
| "operation_type_str OpManageSellOffer = ''MANAGE_SELL_OFFER''"
| "operation_type_str OpCreatePassiveSellOffer = ''CREATE_PASSIVE_SELL_OFFER''"
| "operation_type_str OpSetOptions = ''SET_OPTIONS''"
| "operation_type_str OpChangeTrust = ''CHANGE_TRUST''"
| "operation_type_str OpAllowTrust = ''ALLOW_TRUST''"
| "operation_type_str OpAccountMerge = ''ACCOUNT_MERGE''"
| "operation_type_str OpInflation = ''INFLATION''"
| "operation_type_str OpManageData = ''MANAGE_DATA''"
| "operation_type_str OpBumpSequence = ''BUMP_SEQUENCE''"
| "operation_type_str OpManageBuyOffer = ''MANAGE_BUY_OFFER''"
| "operation_type_str OpPathPaymentStrictSend = ''PATH_PAYMENT_STRICT_SEND''"
| "operation_type_str OpCreateClaimableBalance = ''CREATE_CLAIMABLE_BALANCE''"
| "operation_type_str OpClaimClaimableBalance = ''CLAIM_CLAIMABLE_BALANCE''"
| "operation_type_str OpBeginSponsoringFutureReserves = ''BEGIN_SPONSORING_FUTURE_RESERVES''"
| "operation_type_str OpEndSponsoringFutureReserves = ''END_SPONSORING_FUTURE_RESERVES''"
| "operation_type_str OpRevokeSponsorship = ''REVOKE_SPONSORSHIP''"
| "operation_type_str OpClawback = ''CLAWBACK''"
| "operation_type_str OpClawbackClaimableBalance = ''CLAWBACK_CLAIMABLE_BALANCE''"
| "operation_type_str OpSetTrustLineFlags = ''SET_TRUST_LINE_FLAGS''"
| "operation_type_str OpLiquidityPoolDeposit = ''LIQUIDITY_POOL_DEPOSIT''"
| "operation_type_str OpLiquidityPoolWithdraw = ''LIQUIDITY_POOL_WITHDRAW''"
| "operation_type_str OpInvokeHostFunction = ''INVOKE_HOST_FUNCTION''"
| "operation_type_str OpExtendFootprintTtl = ''EXTEND_FOOTPRINT_TTL''"
| "operation_type_str OpRestoreFootprint = ''RESTORE_FOOTPRINT''"

fun operation_type_code :: "operation_type \<Rightarrow> int" where
  "operation_type_code OpCreateAccount = 0"
| "operation_type_code OpPayment = 1"
| "operation_type_code OpPathPaymentStrictReceive = 2"
| "operation_type_code OpManageSellOffer = 3"
| "operation_type_code OpCreatePassiveSellOffer = 4"
| "operation_type_code OpSetOptions = 5"
| "operation_type_code OpChangeTrust = 6"
| "operation_type_code OpAllowTrust = 7"
| "operation_type_code OpAccountMerge = 8"
| "operation_type_code OpInflation = 9"
| "operation_type_code OpManageData = 10"
| "operation_type_code OpBumpSequence = 11"
| "operation_type_code OpManageBuyOffer = 12"
| "operation_type_code OpPathPaymentStrictSend = 13"
| "operation_type_code OpCreateClaimableBalance = 14"
| "operation_type_code OpClaimClaimableBalance = 15"
| "operation_type_code OpBeginSponsoringFutureReserves = 16"
| "operation_type_code OpEndSponsoringFutureReserves = 17"
| "operation_type_code OpRevokeSponsorship = 18"
| "operation_type_code OpClawback = 19"
| "operation_type_code OpClawbackClaimableBalance = 20"
| "operation_type_code OpSetTrustLineFlags = 21"
| "operation_type_code OpLiquidityPoolDeposit = 22"
| "operation_type_code OpLiquidityPoolWithdraw = 23"
| "operation_type_code OpInvokeHostFunction = 24"
| "operation_type_code OpExtendFootprintTtl = 25"
| "operation_type_code OpRestoreFootprint = 26"

definition operation_type_try_from :: "int \<Rightarrow> enum_decode_error + operation_type" where
  "operation_type_try_from v =
     (if v = 0 then Inr OpCreateAccount else
      if v = 1 then Inr OpPayment else
      if v = 2 then Inr OpPathPaymentStrictReceive else
      if v = 3 then Inr OpManageSellOffer else
      if v = 4 then Inr OpCreatePassiveSellOffer else
      if v = 5 then Inr OpSetOptions else
      if v = 6 then Inr OpChangeTrust else
      if v = 7 then Inr OpAllowTrust else
      if v = 8 then Inr OpAccountMerge else
      if v = 9 then Inr OpInflation else
      if v = 10 then Inr OpManageData else
      if v = 11 then Inr OpBumpSequence else
      if v = 12 then Inr OpManageBuyOffer else
      if v = 13 then Inr OpPathPaymentStrictSend else
      if v = 14 then Inr OpCreateClaimableBalance else
      if v = 15 then Inr OpClaimClaimableBalance else
      if v = 16 then Inr OpBeginSponsoringFutureReserves else
      if v = 17 then Inr OpEndSponsoringFutureReserves else
      if v = 18 then Inr OpRevokeSponsorship else
      if v = 19 then Inr OpClawback else
      if v = 20 then Inr OpClawbackClaimableBalance else
      if v = 21 then Inr OpSetTrustLineFlags else
      if v = 22 then Inr OpLiquidityPoolDeposit else
      if v = 23 then Inr OpLiquidityPoolWithdraw else
      if v = 24 then Inr OpInvokeHostFunction else
      if v = 25 then Inr OpExtendFootprintTtl else
      if v = 26 then Inr OpRestoreFootprint else
      Inl (UnknownDiscriminant ''OperationType'' v))"

definition operation_type_from_str :: "string \<Rightarrow> enum_decode_error + operation_type" where
  "operation_type_from_str = from_label ''OperationType'' operation_type_variants operation_type_str"

interpretation operation_type_enum: coded_enum operation_type_variants operation_type_str operation_type_code operation_type_try_from
proof
  fix v n
  show "v \<in> set operation_type_variants" by (cases v) (simp_all add: operation_type_variants_def)
  show "distinct (map operation_type_str operation_type_variants)" by (simp add: operation_type_variants_def)
  show "operation_type_try_from (operation_type_code v) = Inr v" by (cases v) (simp_all add: operation_type_try_from_def)
  show "operation_type_try_from n = Inr v \<Longrightarrow> operation_type_code v = n" by (auto simp: operation_type_try_from_def split: if_splits)
qed

subsection \<open>AssetFamily\<close>

datatype asset_family =
    FamNative
  | FamClassicCredit
  | FamSoroban

definition asset_family_variants :: "asset_family list" where
  "asset_family_variants =
     [FamNative, FamClassicCredit, FamSoroban]"

fun asset_family_str :: "asset_family \<Rightarrow> string" where
  "asset_family_str FamNative = ''native''"
| "asset_family_str FamClassicCredit = ''classic_credit''"
| "asset_family_str FamSoroban = ''soroban''"

fun asset_family_code :: "asset_family \<Rightarrow> int" where
  "asset_family_code FamNative = 0"
| "asset_family_code FamClassicCredit = 1"
| "asset_family_code FamSoroban = 3"

definition asset_family_try_from :: "int \<Rightarrow> enum_decode_error + asset_family" where
  "asset_family_try_from v =
     (if v = 0 then Inr FamNative else
      if v = 1 then Inr FamClassicCredit else
      if v = 3 then Inr FamSoroban else
      Inl (UnknownDiscriminant ''AssetFamily'' v))"

definition asset_family_from_str :: "string \<Rightarrow> enum_decode_error + asset_family" where
  "asset_family_from_str = from_label ''AssetFamily'' asset_family_variants asset_family_str"

interpretation asset_family_enum: coded_enum asset_family_variants asset_family_str asset_family_code asset_family_try_from
proof
  fix v n
  show "v \<in> set asset_family_variants" by (cases v) (simp_all add: asset_family_variants_def)
  show "distinct (map asset_family_str asset_family_variants)" by (simp add: asset_family_variants_def)
  show "asset_family_try_from (asset_family_code v) = Inr v" by (cases v) (simp_all add: asset_family_try_from_def)
  show "asset_family_try_from n = Inr v \<Longrightarrow> asset_family_code v = n" by (auto simp: asset_family_try_from_def split: if_splits)
qed

subsection \<open>AssetType\<close>

datatype asset_type =
    AtNative
  | AtCreditAlphanum4
  | AtCreditAlphanum12
  | AtPoolShare

definition asset_type_variants :: "asset_type list" where
  "asset_type_variants =
     [AtNative, AtCreditAlphanum4, AtCreditAlphanum12,
      AtPoolShare]"

fun asset_type_str :: "asset_type \<Rightarrow> string" where
  "asset_type_str AtNative = ''native''"
| "asset_type_str AtCreditAlphanum4 = ''credit_alphanum4''"
| "asset_type_str AtCreditAlphanum12 = ''credit_alphanum12''"
| "asset_type_str AtPoolShare = ''pool_share''"

fun asset_type_code :: "asset_type \<Rightarrow> int" where
  "asset_type_code AtNative = 0"
| "asset_type_code AtCreditAlphanum4 = 1"
| "asset_type_code AtCreditAlphanum12 = 2"
| "asset_type_code AtPoolShare = 3"

definition asset_type_try_from :: "int \<Rightarrow> enum_decode_error + asset_type" where
  "asset_type_try_from v =
     (if v = 0 then Inr AtNative else
      if v = 1 then Inr AtCreditAlphanum4 else
      if v = 2 then Inr AtCreditAlphanum12 else
      if v = 3 then Inr AtPoolShare else
      Inl (UnknownDiscriminant ''AssetType'' v))"

definition asset_type_from_str :: "string \<Rightarrow> enum_decode_error + asset_type" where
  "asset_type_from_str = from_label ''AssetType'' asset_type_variants asset_type_str"

interpretation asset_type_enum: coded_enum asset_type_variants asset_type_str asset_type_code asset_type_try_from
proof
  fix v n
  show "v \<in> set asset_type_variants" by (cases v) (simp_all add: asset_type_variants_def)
  show "distinct (map asset_type_str asset_type_variants)" by (simp add: asset_type_variants_def)
  show "asset_type_try_from (asset_type_code v) = Inr v" by (cases v) (simp_all add: asset_type_try_from_def)
  show "asset_type_try_from n = Inr v \<Longrightarrow> asset_type_code v = n" by (auto simp: asset_type_try_from_def split: if_splits)
qed

subsection \<open>ContractEventType\<close>

datatype contract_event_type =
    EvSystem
  | EvContract
  | EvDiagnostic

definition contract_event_type_variants :: "contract_event_type list" where
  "contract_event_type_variants =
     [EvSystem, EvContract, EvDiagnostic]"

fun contract_event_type_str :: "contract_event_type \<Rightarrow> string" where
  "contract_event_type_str EvSystem = ''system''"
| "contract_event_type_str EvContract = ''contract''"
| "contract_event_type_str EvDiagnostic = ''diagnostic''"

fun contract_event_type_code :: "contract_event_type \<Rightarrow> int" where
  "contract_event_type_code EvSystem = 0"
| "contract_event_type_code EvContract = 1"
| "contract_event_type_code EvDiagnostic = 2"

definition contract_event_type_try_from :: "int \<Rightarrow> enum_decode_error + contract_event_type" where
  "contract_event_type_try_from v =
     (if v = 0 then Inr EvSystem else
      if v = 1 then Inr EvContract else
      if v = 2 then Inr EvDiagnostic else
      Inl (UnknownDiscriminant ''ContractEventType'' v))"

definition contract_event_type_from_str :: "string \<Rightarrow> enum_decode_error + contract_event_type" where
  "contract_event_type_from_str = from_label ''ContractEventType'' contract_event_type_variants contract_event_type_str"

interpretation contract_event_type_enum: coded_enum contract_event_type_variants contract_event_type_str contract_event_type_code contract_event_type_try_from
proof
  fix v n
  show "v \<in> set contract_event_type_variants" by (cases v) (simp_all add: contract_event_type_variants_def)
  show "distinct (map contract_event_type_str contract_event_type_variants)" by (simp add: contract_event_type_variants_def)
  show "contract_event_type_try_from (contract_event_type_code v) = Inr v" by (cases v) (simp_all add: contract_event_type_try_from_def)
  show "contract_event_type_try_from n = Inr v \<Longrightarrow> contract_event_type_code v = n" by (auto simp: contract_event_type_try_from_def split: if_splits)
qed

subsection \<open>ContractType\<close>

datatype contract_type =
    CtToken
  | CtOther
  | CtNft
  | CtFungible

definition contract_type_variants :: "contract_type list" where
  "contract_type_variants =
     [CtToken, CtOther, CtNft,
      CtFungible]"

fun contract_type_str :: "contract_type \<Rightarrow> string" where
  "contract_type_str CtToken = ''token''"
| "contract_type_str CtOther = ''other''"
| "contract_type_str CtNft = ''nft''"
| "contract_type_str CtFungible = ''fungible''"

fun contract_type_code :: "contract_type \<Rightarrow> int" where
  "contract_type_code CtToken = 0"
| "contract_type_code CtOther = 1"
| "contract_type_code CtNft = 2"
| "contract_type_code CtFungible = 3"

definition contract_type_try_from :: "int \<Rightarrow> enum_decode_error + contract_type" where
  "contract_type_try_from v =
     (if v = 0 then Inr CtToken else
      if v = 1 then Inr CtOther else
      if v = 2 then Inr CtNft else
      if v = 3 then Inr CtFungible else
      Inl (UnknownDiscriminant ''ContractType'' v))"

definition contract_type_from_str :: "string \<Rightarrow> enum_decode_error + contract_type" where
  "contract_type_from_str = from_label ''ContractType'' contract_type_variants contract_type_str"

interpretation contract_type_enum: coded_enum contract_type_variants contract_type_str contract_type_code contract_type_try_from
proof
  fix v n
  show "v \<in> set contract_type_variants" by (cases v) (simp_all add: contract_type_variants_def)
  show "distinct (map contract_type_str contract_type_variants)" by (simp add: contract_type_variants_def)
  show "contract_type_try_from (contract_type_code v) = Inr v" by (cases v) (simp_all add: contract_type_try_from_def)
  show "contract_type_try_from n = Inr v \<Longrightarrow> contract_type_code v = n" by (auto simp: contract_type_try_from_def split: if_splits)
qed

subsection \<open>NftEventType\<close>

datatype nft_event_type =
    NeMint
  | NeTransfer
  | NeBurn

definition nft_event_type_variants :: "nft_event_type list" where
  "nft_event_type_variants =
     [NeMint, NeTransfer, NeBurn]"

fun nft_event_type_str :: "nft_event_type \<Rightarrow> string" where
  "nft_event_type_str NeMint = ''mint''"
| "nft_event_type_str NeTransfer = ''transfer''"
| "nft_event_type_str NeBurn = ''burn''"

fun nft_event_type_code :: "nft_event_type \<Rightarrow> int" where
  "nft_event_type_code NeMint = 0"
| "nft_event_type_code NeTransfer = 1"
| "nft_event_type_code NeBurn = 2"

definition nft_event_type_try_from :: "int \<Rightarrow> enum_decode_error + nft_event_type" where
  "nft_event_type_try_from v =
     (if v = 0 then Inr NeMint else
      if v = 1 then Inr NeTransfer else
      if v = 2 then Inr NeBurn else
      Inl (UnknownDiscriminant ''NftEventType'' v))"

definition nft_event_type_from_str :: "string \<Rightarrow> enum_decode_error + nft_event_type" where
  "nft_event_type_from_str = from_label ''NftEventType'' nft_event_type_variants nft_event_type_str"

interpretation nft_event_type_enum: coded_enum nft_event_type_variants nft_event_type_str nft_event_type_code nft_event_type_try_from
proof
  fix v n
  show "v \<in> set nft_event_type_variants" by (cases v) (simp_all add: nft_event_type_variants_def)
  show "distinct (map nft_event_type_str nft_event_type_variants)" by (simp add: nft_event_type_variants_def)
  show "nft_event_type_try_from (nft_event_type_code v) = Inr v" by (cases v) (simp_all add: nft_event_type_try_from_def)
  show "nft_event_type_try_from n = Inr v \<Longrightarrow> nft_event_type_code v = n" by (auto simp: nft_event_type_try_from_def split: if_splits)
qed

subsection \<open>PoolKind\<close>

datatype pool_kind =
    PkClassic
  | PkSoroban

definition pool_kind_variants :: "pool_kind list" where
  "pool_kind_variants =
     [PkClassic, PkSoroban]"

fun pool_kind_str :: "pool_kind \<Rightarrow> string" where
  "pool_kind_str PkClassic = ''classic''"
| "pool_kind_str PkSoroban = ''soroban''"

fun pool_kind_code :: "pool_kind \<Rightarrow> int" where
  "pool_kind_code PkClassic = 0"
| "pool_kind_code PkSoroban = 1"

definition pool_kind_try_from :: "int \<Rightarrow> enum_decode_error + pool_kind" where
  "pool_kind_try_from v =
     (if v = 0 then Inr PkClassic else
      if v = 1 then Inr PkSoroban else
      Inl (UnknownDiscriminant ''PoolKind'' v))"

definition pool_kind_from_str :: "string \<Rightarrow> enum_decode_error + pool_kind" where
  "pool_kind_from_str = from_label ''PoolKind'' pool_kind_variants pool_kind_str"

interpretation pool_kind_enum: coded_enum pool_kind_variants pool_kind_str pool_kind_code pool_kind_try_from
proof
  fix v n
  show "v \<in> set pool_kind_variants" by (cases v) (simp_all add: pool_kind_variants_def)
  show "distinct (map pool_kind_str pool_kind_variants)" by (simp add: pool_kind_variants_def)
  show "pool_kind_try_from (pool_kind_code v) = Inr v" by (cases v) (simp_all add: pool_kind_try_from_def)
  show "pool_kind_try_from n = Inr v \<Longrightarrow> pool_kind_code v = n" by (auto simp: pool_kind_try_from_def split: if_splits)
qed

subsection \<open>PoolEvent\<close>

datatype pool_event =
    PeTrade
  | PeDeposit
  | PeWithdrawal

definition pool_event_variants :: "pool_event list" where
  "pool_event_variants =
     [PeTrade, PeDeposit, PeWithdrawal]"

fun pool_event_str :: "pool_event \<Rightarrow> string" where
  "pool_event_str PeTrade = ''trade''"
| "pool_event_str PeDeposit = ''deposit''"
| "pool_event_str PeWithdrawal = ''withdrawal''"

fun pool_event_code :: "pool_event \<Rightarrow> int" where
  "pool_event_code PeTrade = 0"
| "pool_event_code PeDeposit = 1"
| "pool_event_code PeWithdrawal = 2"

definition pool_event_try_from :: "int \<Rightarrow> enum_decode_error + pool_event" where
  "pool_event_try_from v =
     (if v = 0 then Inr PeTrade else
      if v = 1 then Inr PeDeposit else
      if v = 2 then Inr PeWithdrawal else
      Inl (UnknownDiscriminant ''PoolEvent'' v))"

definition pool_event_from_param :: "string \<Rightarrow> pool_event option" where
  "pool_event_from_param s = List.find (\<lambda>v. pool_event_str v = s) pool_event_variants"

definition pool_event_from_signs :: "int list \<Rightarrow> pool_event" where
  "pool_event_from_signs amounts =
     (if \<forall>a \<in> set amounts. a > 0 then PeDeposit
      else if \<forall>a \<in> set amounts. a < 0 then PeWithdrawal
      else PeTrade)"

interpretation pool_event_enum: coded_enum pool_event_variants pool_event_str pool_event_code pool_event_try_from
proof
  fix v n
  show "v \<in> set pool_event_variants" by (cases v) (simp_all add: pool_event_variants_def)
  show "distinct (map pool_event_str pool_event_variants)" by (simp add: pool_event_variants_def)
  show "pool_event_try_from (pool_event_code v) = Inr v" by (cases v) (simp_all add: pool_event_try_from_def)
  show "pool_event_try_from n = Inr v \<Longrightarrow> pool_event_code v = n" by (auto simp: pool_event_try_from_def split: if_splits)
qed

subsection \<open>Properties\<close>

text \<open>C29. Stored codes and labels of every enumeration round trip, both ways: decoding a code or
  a label gives a variant exactly when it is the code or the label of that variant, so every
  other integer (the retired asset family 2 among them) and every other text is refused.\<close>

theorem enum_codecs_exact:
  "(operation_type_try_from n = Inr op \<longleftrightarrow> n = operation_type_code op) \<and>
   (operation_type_from_str s = Inr op \<longleftrightarrow> s = operation_type_str op) \<and>
   (asset_family_try_from n = Inr fam \<longleftrightarrow> n = asset_family_code fam) \<and>
   (asset_family_from_str s = Inr fam \<longleftrightarrow> s = asset_family_str fam) \<and>
   (asset_type_try_from n = Inr ty \<longleftrightarrow> n = asset_type_code ty) \<and>
   (asset_type_from_str s = Inr ty \<longleftrightarrow> s = asset_type_str ty) \<and>
   (contract_event_type_try_from n = Inr ev \<longleftrightarrow> n = contract_event_type_code ev) \<and>
   (contract_event_type_from_str s = Inr ev \<longleftrightarrow> s = contract_event_type_str ev) \<and>
   (contract_type_try_from n = Inr ct \<longleftrightarrow> n = contract_type_code ct) \<and>
   (contract_type_from_str s = Inr ct \<longleftrightarrow> s = contract_type_str ct) \<and>
   (nft_event_type_try_from n = Inr ne \<longleftrightarrow> n = nft_event_type_code ne) \<and>
   (nft_event_type_from_str s = Inr ne \<longleftrightarrow> s = nft_event_type_str ne) \<and>
   (pool_kind_try_from n = Inr pk \<longleftrightarrow> n = pool_kind_code pk) \<and>
   (pool_kind_from_str s = Inr pk \<longleftrightarrow> s = pool_kind_str pk) \<and>
   (pool_event_try_from n = Inr pe \<longleftrightarrow> n = pool_event_code pe) \<and>
   (pool_event_from_param s = Some pe \<longleftrightarrow> s = pool_event_str pe)"
proof -
  have "pool_event_from_param s = Some pe \<longleftrightarrow> from_label [] pool_event_variants pool_event_str s = Inr pe"
    by (simp add: pool_event_from_param_def from_label_def split: option.splits)
  then show ?thesis
    by (simp add: operation_type_from_str_def asset_family_from_str_def asset_type_from_str_def
        contract_event_type_from_str_def contract_type_from_str_def nft_event_type_from_str_def
        pool_kind_from_str_def operation_type_enum.label_iff operation_type_enum.decode_iff
        asset_family_enum.label_iff asset_family_enum.decode_iff asset_type_enum.label_iff
        asset_type_enum.decode_iff contract_event_type_enum.label_iff
        contract_event_type_enum.decode_iff contract_type_enum.label_iff
        contract_type_enum.decode_iff nft_event_type_enum.label_iff nft_event_type_enum.decode_iff
        pool_kind_enum.label_iff pool_kind_enum.decode_iff pool_event_enum.label_iff
        pool_event_enum.decode_iff)
qed

end
