(* ===== verification/Events.thy ===== *)
theory Events
  imports Meta Domain
begin

text \<open>
  \<open>crates/xdr-parser/src/event.rs\<close> and the event types of \<open>types.rs\<close>: one pass over the
  transactions of a ledger that numbers every consensus event.  Ledger-wide counters run
  through the transactions for the events before and after all of them; a transaction's own
  events after it, and those of its operations, are numbered within the transaction.  A panic
  of the source (\<open>expect\<close>) is \<open>None\<close>.
\<close>

datatype event_origin = OriginTransaction event_stage | OriginOperation nat

record event_id =
  ei_ledger_sequence :: nat
  ei_transaction_index :: nat
  ei_operation_index :: nat
  ei_event_index :: nat

record event_body =
  eb_event_type :: contract_event_type
  eb_contract_id :: "string option"
  eb_topics :: json
  eb_data :: json

record extracted_event =
  ev_transaction_hash :: string
  ev_event_id :: event_id
  ev_origin :: event_origin
  ev_body :: event_body
  ev_created_at :: int

record tx_events =
  te_events :: "extracted_event list"
  te_diagnostic :: "event_body list"

subsection \<open>Event ids\<close>

definition before_all_txs :: nat where "before_all_txs = 0"
definition after_all_txs :: nat where "after_all_txs = 2 ^ 20 - 1"
definition after_tx_operation :: nat where "after_tx_operation = 2 ^ 12 - 1"

definition mk_event_id :: "nat \<Rightarrow> nat \<Rightarrow> nat \<Rightarrow> nat \<Rightarrow> event_id" where
  "mk_event_id l t p e = \<lparr>ei_ledger_sequence = l, ei_transaction_index = t, ei_operation_index = p,
     ei_event_index = e\<rparr>"

text \<open>The total order id of the ledger: the three fields packed into 64 bits.\<close>

definition toid :: "event_id \<Rightarrow> 64 word" where
  "toid i = or (or (push_bit 32 (word_of_nat (ei_ledger_sequence i)))
                   (push_bit 12 (word_of_nat (ei_transaction_index i))))
               (word_of_nat (ei_operation_index i))"

definition pad_decimal :: "nat \<Rightarrow> nat \<Rightarrow> string" where
  "pad_decimal w n = replicate (w - length (show_nat n)) CHR ''0'' @ show_nat n"

definition to_rpc_string :: "event_id \<Rightarrow> string" where
  "to_rpc_string i = pad_decimal 19 (unat (toid i)) @ ''-'' @ pad_decimal 10 (ei_event_index i)"

subsection \<open>The containers of a meta\<close>

record containers =
  ct_transaction :: "transaction_event list"
  ct_operations :: "contract_event list list"
  ct_diagnostic :: "contract_event list"

definition no_containers :: containers where
  "no_containers = \<lparr>ct_transaction = [], ct_operations = [], ct_diagnostic = []\<rparr>"

fun containers_of :: "tx_meta \<Rightarrow> containers" where
  "containers_of (MetaV3 v3) =
     (case m3_soroban v3 of
        Some s \<Rightarrow> \<lparr>ct_transaction = [], ct_operations = [s3_events s], ct_diagnostic = s3_diagnostic s\<rparr>
      | None \<Rightarrow> no_containers)"
| "containers_of (MetaV4 v4) =
     \<lparr>ct_transaction = m4_events v4, ct_operations = map o4_events (m4_operations v4),
      ct_diagnostic = m4_diagnostic v4\<rparr>"
| "containers_of MetaOld = no_containers"

definition diagnostic_events :: "tx_meta \<Rightarrow> contract_event list" where
  "diagnostic_events meta = ct_diagnostic (containers_of meta)"

definition decode_event :: "xdr_ext \<Rightarrow> contract_event \<Rightarrow> event_body" where
  "decode_event x e =
     \<lparr>eb_event_type = (case ce_type e of XdrSystem \<Rightarrow> EvSystem | XdrContract \<Rightarrow> EvContract
                        | XdrDiagnostic \<Rightarrow> EvDiagnostic),
      eb_contract_id = map_option (\<lambda>c. x_address x (AddrContract c)) (ce_contract_id e),
      eb_topics = JArr (map (scval_to_typed_json x) (ce_topics e)),
      eb_data = scval_to_typed_json x (ce_data e)\<rparr>"

subsection \<open>The ledger-wide pass\<close>

record ledger_events =
  le_ledger_sequence :: nat
  le_created_at :: int
  le_tx_metas :: "tx_meta list"
  le_starts :: "(nat \<times> nat) list"

fun count_stages :: "nat \<times> nat \<Rightarrow> transaction_event list \<Rightarrow> nat \<times> nat" where
  "count_stages c [] = c"
| "count_stages (before_all, after_all) (e # es) =
     count_stages (case te_stage e of
        BeforeAllTxs \<Rightarrow> (Suc before_all, after_all)
      | AfterAllTxs \<Rightarrow> (before_all, Suc after_all)
      | AfterTx \<Rightarrow> (before_all, after_all)) es"

fun starts_from :: "nat \<times> nat \<Rightarrow> tx_meta list \<Rightarrow> (nat \<times> nat) list" where
  "starts_from c [] = []"
| "starts_from c (m # ms) = c # starts_from (count_stages c (ct_transaction (containers_of m))) ms"

definition ledger_events_new :: "nat \<Rightarrow> int \<Rightarrow> tx_meta list \<Rightarrow> ledger_events" where
  "ledger_events_new ledger created_at metas =
     \<lparr>le_ledger_sequence = ledger, le_created_at = created_at, le_tx_metas = metas,
      le_starts = starts_from (0, 0) metas\<rparr>"

definition consensus_event ::
  "xdr_ext \<Rightarrow> ledger_events \<Rightarrow> string \<Rightarrow> event_id \<Rightarrow> event_origin \<Rightarrow> contract_event \<Rightarrow> extracted_event" where
  "consensus_event x le hash i origin e =
     \<lparr>ev_transaction_hash = hash, ev_event_id = i, ev_origin = origin,
      ev_body = decode_event x e, ev_created_at = le_created_at le\<rparr>"

fun transaction_events_loop ::
  "xdr_ext \<Rightarrow> ledger_events \<Rightarrow> string \<Rightarrow> nat \<Rightarrow> nat \<times> nat \<times> nat \<Rightarrow> transaction_event list \<Rightarrow>
   extracted_event list" where
  "transaction_events_loop x le hash app c [] = []"
| "transaction_events_loop x le hash app (before_all, after_all, after_tx) (e # es) =
     (let l = le_ledger_sequence le;
          (i, c') = (case te_stage e of
             BeforeAllTxs \<Rightarrow> (mk_event_id l before_all_txs 0 before_all, (Suc before_all, after_all, after_tx))
           | AfterAllTxs \<Rightarrow> (mk_event_id l after_all_txs 0 after_all, (before_all, Suc after_all, after_tx))
           | AfterTx \<Rightarrow> (mk_event_id l app after_tx_operation after_tx, (before_all, after_all, Suc after_tx)))
      in consensus_event x le hash i (OriginTransaction (te_stage e)) (te_event e)
         # transaction_events_loop x le hash app c' es)"

definition operation_events ::
  "xdr_ext \<Rightarrow> ledger_events \<Rightarrow> string \<Rightarrow> nat \<Rightarrow> nat \<Rightarrow> contract_event list \<Rightarrow> extracted_event list option" where
  "operation_events x le hash app p es =
     (if p < 2 ^ 16 \<and> length es \<le> 2 ^ 32
      then Some (map (\<lambda>(n, e). consensus_event x le hash (mk_event_id (le_ledger_sequence le) app p n)
                                 (OriginOperation p) e)
                   (List.enumerate 0 es))
      else None)"

definition extract_events :: "xdr_ext \<Rightarrow> ledger_events \<Rightarrow> nat \<Rightarrow> string \<Rightarrow> tx_events option" where
  "extract_events x le tx_index hash =
     (case nth_opt (le_tx_metas le) tx_index of
        None \<Rightarrow> Some \<lparr>te_events = [], te_diagnostic = []\<rparr>
      | Some meta \<Rightarrow>
          if Suc tx_index < 2 ^ 32 then
            do {
              (before_all, after_all) \<leftarrow> nth_opt (le_starts le) tx_index;
              let ct = containers_of meta;
              ops \<leftarrow> mapM_opt (\<lambda>(p, es). operation_events x le hash (Suc tx_index) p es)
                       (List.enumerate 0 (ct_operations ct));
              Some \<lparr>te_events =
                      transaction_events_loop x le hash (Suc tx_index) (before_all, after_all, 0)
                        (ct_transaction ct) @ concat ops,
                    te_diagnostic = map (decode_event x) (ct_diagnostic ct)\<rparr>
            }
          else None)"

end
