(* ===== verification/EventIds.thy ===== *)
theory EventIds
  imports Events
begin

text \<open>
  The identity of an event: within a ledger no two consensus events get the same id, because
  the ledger-wide counters hand disjoint intervals to consecutive transactions and the three
  shapes of id cannot meet.
\<close>

definition stage_ids :: "nat \<Rightarrow> nat \<Rightarrow> nat \<times> nat \<Rightarrow> nat \<times> nat \<Rightarrow> nat \<Rightarrow> event_id set" where
  "stage_ids l app lo hi t =
     {mk_event_id l before_all_txs 0 n | n. fst lo \<le> n \<and> n < fst hi}
     \<union> {mk_event_id l after_all_txs 0 n | n. snd lo \<le> n \<and> n < snd hi}
     \<union> {mk_event_id l app after_tx_operation n | n. t \<le> n}"

definition operation_ids :: "nat \<Rightarrow> nat \<Rightarrow> nat \<Rightarrow> event_id set" where
  "operation_ids l app bound = {mk_event_id l app p n | p n. p < bound}"

lemma mk_event_id_inject [simp]:
  "mk_event_id l t p e = mk_event_id l' t' p' e' \<longleftrightarrow> l = l' \<and> t = t' \<and> p = p' \<and> e = e'"
  by (simp add: mk_event_id_def)

lemma id_consensus_event [simp]: "ev_event_id (consensus_event x le hash i org e) = i"
  by (simp add: consensus_event_def)

lemma count_stages_mono: "fst c \<le> fst (count_stages c es) \<and> snd c \<le> snd (count_stages c es)"
proof (induction c es rule: count_stages.induct)
  case (2 b a e es)
  then show ?case by (cases "te_stage e") auto
qed simp

lemma stage_ids_mono:
  "fst lo' \<le> fst lo \<Longrightarrow> snd lo' \<le> snd lo \<Longrightarrow> t' \<le> t \<Longrightarrow> stage_ids l app lo hi t \<subseteq> stage_ids l app lo' hi t'"
  unfolding stage_ids_def by (auto simp: subset_iff)

lemma stage_ids_iff:
  "mk_event_id l' i p n \<in> stage_ids l app lo hi t \<longleftrightarrow> l' = l \<and>
     (i = before_all_txs \<and> p = 0 \<and> fst lo \<le> n \<and> n < fst hi \<or>
      i = after_all_txs \<and> p = 0 \<and> snd lo \<le> n \<and> n < snd hi \<or>
      i = app \<and> p = after_tx_operation \<and> t \<le> n)"
  unfolding stage_ids_def by auto

lemma ids_insert:
  assumes "ids \<subseteq> S \<and> distinct js" and "ids = set js" and "S \<subseteq> S'" and "j \<in> S'" and "j \<notin> S"
  shows "insert j ids \<subseteq> S' \<and> distinct (j # js)"
  using assms by auto

lemma loop_ids:
  assumes "app \<noteq> before_all_txs" and "app \<noteq> after_all_txs"
  shows "ev_event_id ` set (transaction_events_loop x le hash app (b, a, t) es)
           \<subseteq> stage_ids (le_ledger_sequence le) app (b, a) (count_stages (b, a) es) t \<and>
         distinct (map ev_event_id (transaction_events_loop x le hash app (b, a, t) es))"
proof (induction es arbitrary: b a t)
  case Nil
  then show ?case by simp
next
  case (Cons e es)
  let ?l = "le_ledger_sequence le"
  have ne: "before_all_txs \<noteq> after_all_txs" by (simp add: before_all_txs_def after_all_txs_def)
  have m1: "Suc b \<le> fst (count_stages (Suc b, a) es)" and m2: "Suc a \<le> snd (count_stages (b, Suc a) es)"
    using count_stages_mono [of "(Suc b, a)" es] count_stages_mono [of "(b, Suc a)" es] by simp_all
  show ?case
  proof (cases "te_stage e")
    case BeforeAllTxs
    have "insert (mk_event_id ?l before_all_txs 0 b)
            (ev_event_id ` set (transaction_events_loop x le hash app (Suc b, a, t) es))
          \<subseteq> stage_ids ?l app (b, a) (count_stages (Suc b, a) es) t \<and>
          distinct (mk_event_id ?l before_all_txs 0 b #
            map ev_event_id (transaction_events_loop x le hash app (Suc b, a, t) es))"
      by (rule ids_insert [OF Cons.IH]) (use m1 ne assms in \<open>simp_all add: stage_ids_mono stage_ids_iff\<close>)
    with BeforeAllTxs show ?thesis by (simp add: Let_def)
  next
    case AfterAllTxs
    have "insert (mk_event_id ?l after_all_txs 0 a)
            (ev_event_id ` set (transaction_events_loop x le hash app (b, Suc a, t) es))
          \<subseteq> stage_ids ?l app (b, a) (count_stages (b, Suc a) es) t \<and>
          distinct (mk_event_id ?l after_all_txs 0 a #
            map ev_event_id (transaction_events_loop x le hash app (b, Suc a, t) es))"
      by (rule ids_insert [OF Cons.IH]) (use m2 ne assms in \<open>simp_all add: stage_ids_mono stage_ids_iff\<close>)
    with AfterAllTxs show ?thesis by (simp add: Let_def)
  next
    case AfterTx
    have "insert (mk_event_id ?l app after_tx_operation t)
            (ev_event_id ` set (transaction_events_loop x le hash app (b, a, Suc t) es))
          \<subseteq> stage_ids ?l app (b, a) (count_stages (b, a) es) t \<and>
          distinct (mk_event_id ?l app after_tx_operation t #
            map ev_event_id (transaction_events_loop x le hash app (b, a, Suc t) es))"
      by (rule ids_insert [OF Cons.IH]) (use assms in \<open>simp_all add: stage_ids_mono stage_ids_iff\<close>)
    with AfterTx show ?thesis by (simp add: Let_def)
  qed
qed

lemma operation_events_ids:
  assumes "operation_events x le hash app p es = Some evs"
  shows "map ev_event_id evs = map (mk_event_id (le_ledger_sequence le) app p) [0..<length es]"
proof -
  have "evs = map (\<lambda>(n, e). consensus_event x le hash (mk_event_id (le_ledger_sequence le) app p n)
                (OriginOperation p) e) (List.enumerate 0 es)"
    using assms by (simp add: operation_events_def split: if_splits)
  then show ?thesis by (intro nth_equalityI) (simp_all add: nth_enumerate_eq)
qed

lemma all_operation_ids:
  assumes "mapM_opt (\<lambda>(p, es). operation_events x le hash app p es) (List.enumerate k ops) = Some evss"
  shows "ev_event_id ` set (concat evss) \<subseteq> {mk_event_id (le_ledger_sequence le) app p n | p n. k \<le> p \<and> p < k + length ops} \<and>
         distinct (map ev_event_id (concat evss))"
  using assms
proof (induction ops arbitrary: k evss)
  case Nil
  then show ?case by simp
next
  case (Cons es ops)
  let ?mk = "mk_event_id (le_ledger_sequence le) app"
  obtain evs rest where
    evs: "operation_events x le hash app k es = Some evs" and
    rest: "mapM_opt (\<lambda>(p, es). operation_events x le hash app p es) (List.enumerate (Suc k) ops) = Some rest" and
    evss: "evss = evs # rest"
    using Cons.prems unfolding enumerate_simps mapM_opt_Cons_Some prod.case by blast
  have ids: "map ev_event_id evs = map (?mk k) [0..<length es]"
    by (rule operation_events_ids [OF evs])
  have img: "ev_event_id ` set evs = ?mk k ` {0..<length es}"
    using arg_cong [OF ids, of set] by simp
  have d: "distinct (map ev_event_id evs)"
    unfolding ids by (simp add: distinct_map inj_on_def)
  let ?ids = "\<lambda>k n. {?mk p m | p m. k \<le> p \<and> p < k + n}"
  have IH: "ev_event_id ` set (concat rest) \<subseteq> ?ids (Suc k) (length ops)"
    and IHd: "distinct (map ev_event_id (concat rest))"
    using Cons.IH [OF rest] by simp_all
  have "?mk k ` {0..<length es} \<inter> ?ids (Suc k) (length ops) = {}" by auto
  then have "ev_event_id ` set evs \<inter> ev_event_id ` set (concat rest) = {}"
    using IH unfolding img by blast
  moreover have "?mk k ` {0..<length es} \<subseteq> ?ids k (length (es # ops))"
    and "?ids (Suc k) (length ops) \<subseteq> ?ids k (length (es # ops))" by auto
  ultimately show ?case
    unfolding evss using d IH IHd
    by (simp add: image_Un img)
qed

lemma extract_events_ids:
  assumes ext: "extract_events x le i hash = Some out"
    and i: "i < length (le_tx_metas le)" "i < length (le_starts le)"
    and app: "Suc i < after_all_txs"
    and ops: "length (ct_operations (containers_of (le_tx_metas le ! i))) \<le> after_tx_operation"
  shows "ev_event_id ` set (te_events out)
           \<subseteq> stage_ids (le_ledger_sequence le) (Suc i) (le_starts le ! i)
               (count_stages (le_starts le ! i) (ct_transaction (containers_of (le_tx_metas le ! i)))) 0
             \<union> operation_ids (le_ledger_sequence le) (Suc i) after_tx_operation \<and>
         distinct (map ev_event_id (te_events out))"
proof -
  let ?ct = "containers_of (le_tx_metas le ! i)"
  obtain b a where start: "le_starts le ! i = (b, a)" by (cases "le_starts le ! i")
  have "Option.bind (mapM_opt (\<lambda>(p, es). operation_events x le hash (Suc i) p es) (List.enumerate 0 (ct_operations ?ct)))
      (\<lambda>ops. Some \<lparr>te_events = transaction_events_loop x le hash (Suc i) (b, a, 0) (ct_transaction ?ct) @ concat ops,
        te_diagnostic = map (decode_event x) (ct_diagnostic ?ct)\<rparr>) = Some out"
    using ext i start by (simp add: extract_events_def nth_opt_def Let_def split: if_splits)
  then obtain evss where
    evss: "mapM_opt (\<lambda>(p, es). operation_events x le hash (Suc i) p es) (List.enumerate 0 (ct_operations ?ct)) = Some evss" and
    out: "te_events out = transaction_events_loop x le hash (Suc i) (b, a, 0) (ct_transaction ?ct) @ concat evss"
    unfolding Option.bind_eq_Some_conv option.inject by (metis tx_events.select_convs(1))
  have "Suc i \<noteq> before_all_txs" "Suc i \<noteq> after_all_txs"
    using app by (simp_all add: before_all_txs_def)
  note stage = loop_ids [OF this, of x le hash b a 0 "ct_transaction ?ct"]
  note op = all_operation_ids [OF evss]
  let ?S = "stage_ids (le_ledger_sequence le) (Suc i) (b, a) (count_stages (b, a) (ct_transaction ?ct)) 0"
  let ?O = "operation_ids (le_ledger_sequence le) (Suc i) after_tx_operation"
  have "{mk_event_id (le_ledger_sequence le) (Suc i) p n | p n. 0 \<le> p \<and> p < 0 + length (ct_operations ?ct)} \<subseteq> ?O"
    unfolding operation_ids_def using ops less_le_trans by (simp add: subset_iff) blast
  then have opO: "ev_event_id ` set (concat evss) \<subseteq> ?O"
    using op by (meson order_trans)
  have "?S \<inter> ?O = {}"
    using app by (auto simp: operation_ids_def stage_ids_iff before_all_txs_def)
  then have "ev_event_id ` set (transaction_events_loop x le hash (Suc i) (b, a, 0) (ct_transaction ?ct))
      \<inter> ev_event_id ` set (concat evss) = {}"
    using stage opO by blast
  then show ?thesis
    using stage op opO unfolding out start by (simp add: image_Un le_supI1 le_supI2)
qed

subsection \<open>Consecutive transactions\<close>

lemma length_starts [simp]: "length (starts_from c ms) = length ms"
  by (induction ms arbitrary: c) auto

lemma starts_above: "i < length ms \<Longrightarrow> fst c \<le> fst (starts_from c ms ! i) \<and> snd c \<le> snd (starts_from c ms ! i)"
proof (induction ms arbitrary: c i)
  case (Cons m ms)
  let ?c = "count_stages c (ct_transaction (containers_of m))"
  show ?case
  proof (cases i)
    case (Suc i')
    then have "fst ?c \<le> fst (starts_from ?c ms ! i') \<and> snd ?c \<le> snd (starts_from ?c ms ! i')"
      using Cons by simp
    with Suc count_stages_mono [of c "ct_transaction (containers_of m)"] show ?thesis by simp
  qed simp
qed simp

lemma starts_increase:
  "i < j \<Longrightarrow> j < length ms \<Longrightarrow>
   fst (count_stages (starts_from c ms ! i) (ct_transaction (containers_of (ms ! i)))) \<le> fst (starts_from c ms ! j) \<and>
   snd (count_stages (starts_from c ms ! i) (ct_transaction (containers_of (ms ! i)))) \<le> snd (starts_from c ms ! j)"
proof (induction ms arbitrary: c i j)
  case (Cons m ms)
  then obtain j' where j: "j = Suc j'" "j' < length ms" by (cases j) auto
  show ?case
  proof (cases i)
    case 0
    with j show ?thesis using starts_above [of j' ms] by simp
  next
    case (Suc i')
    with Cons j show ?thesis by simp
  qed
qed simp

lemma stage_ids_disjoint:
  assumes "i < j" and "fst hi \<le> fst lo'" and "snd hi \<le> snd lo'" and "Suc j < after_all_txs"
  shows "(stage_ids l (Suc i) lo hi 0 \<union> operation_ids l (Suc i) b) \<inter>
         (stage_ids l (Suc j) lo' hi' 0 \<union> operation_ids l (Suc j) b) = {}"
  using assms by (auto simp: stage_ids_def operation_ids_def before_all_txs_def)

lemma distinct_concat_map:
  assumes "\<And>i. i < n \<Longrightarrow> distinct (f i)"
    and "\<And>i j. i < j \<Longrightarrow> j < n \<Longrightarrow> set (f i) \<inter> set (f j) = {}"
  shows "distinct (concat (map f [0..<n]))"
  using assms
proof (induction n)
  case (Suc n)
  then have "distinct (concat (map f [0..<n]))" by simp
  moreover have "set (concat (map f [0..<n])) \<inter> set (f n) = {}"
    using Suc.prems(2) by fastforce
  ultimately show ?case using Suc.prems(1) [of n] by simp
qed simp

subsection \<open>The pass does not panic\<close>

lemma extract_events_total:
  assumes "i < length (le_tx_metas le)" and "length (le_starts le) = length (le_tx_metas le)"
    and "Suc i < 2 ^ 32"
    and "length (ct_operations (containers_of (le_tx_metas le ! i))) \<le> after_tx_operation"
    and "\<forall>es \<in> set (ct_operations (containers_of (le_tx_metas le ! i))). length es \<le> 2 ^ 32"
  shows "\<exists>out. extract_events x le i hash = Some out"
proof -
  let ?ops = "ct_operations (containers_of (le_tx_metas le ! i))"
  have "\<exists>evss. mapM_opt (\<lambda>(p, es). operation_events x le hash (Suc i) p es) (List.enumerate 0 ?ops) = Some evss"
  proof (rule mapM_opt_total)
    fix pe assume "pe \<in> set (List.enumerate 0 ?ops)"
    obtain p es where pe: "pe = (p, es)" by (rule prod.exhaust)
    with \<open>pe \<in> _\<close> have p: "p < length ?ops" and "?ops ! p = es"
      by (simp_all add: in_set_enumerate_eq)
    then have "es \<in> set ?ops" using nth_mem by blast
    with p have "p < 2 ^ 16" "length es \<le> 2 ^ 32"
      using assms(4, 5) by (auto simp: after_tx_operation_def)
    then show "\<exists>y. (\<lambda>(p, es). operation_events x le hash (Suc i) p es) pe = Some y"
      by (simp add: pe operation_events_def)
  qed
  then obtain evss where "mapM_opt (\<lambda>(p, es). operation_events x le hash (Suc i) p es) (List.enumerate 0 ?ops) = Some evss" ..
  with assms(1-3) show ?thesis
    by (cases "le_starts le ! i") (simp add: extract_events_def nth_opt_def Let_def)
qed

subsection \<open>Properties\<close>

text \<open>The bounds within which a ledger can be numbered.\<close>

definition numbered_within :: "tx_meta list \<Rightarrow> bool" where
  "numbered_within metas \<longleftrightarrow> length metas < after_all_txs \<and>
     list_all (\<lambda>m. length (ct_operations (containers_of m)) \<le> after_tx_operation \<and>
                   list_all (\<lambda>es. length es \<le> 2 ^ 32) (ct_operations (containers_of m))) metas"

lemma ledger_event_ids:
  fixes x l c metas hash
  assumes within: "numbered_within metas"
  defines "out \<equiv> \<lambda>i. the (extract_events x (ledger_events_new l c metas) i (hash i))"
  shows "i < length metas \<Longrightarrow> extract_events x (ledger_events_new l c metas) i (hash i) = Some (out i)"
    and "distinct (map ev_event_id (concat (map (\<lambda>i. te_events (out i)) [0..<length metas])))"
proof -
  have assms: "length metas < after_all_txs"
    "\<forall>m \<in> set metas. length (ct_operations (containers_of m)) \<le> after_tx_operation"
    "\<forall>m \<in> set metas. \<forall>es \<in> set (ct_operations (containers_of m)). length es \<le> 2 ^ 32"
    using within by (auto simp: numbered_within_def list_all_iff)
  let ?le = "ledger_events_new l c metas"
  let ?starts = "starts_from (0, 0) metas"
  let ?ids = "\<lambda>i. stage_ids l (Suc i) (?starts ! i)
      (count_stages (?starts ! i) (ct_transaction (containers_of (metas ! i)))) 0
      \<union> operation_ids l (Suc i) after_tx_operation"
  show ext: "extract_events x ?le i (hash i) = Some (out i)" if "i < length metas" for i
  proof -
    have m: "metas ! i \<in> set metas" and n: "Suc i < 2 ^ 32"
      using that assms(1) by (simp_all add: after_all_txs_def)
    have "\<exists>out. extract_events x ?le i (hash i) = Some out"
      by (rule extract_events_total) (use that n bspec [OF assms(2) m] bspec [OF assms(3) m] in \<open>simp_all add: ledger_events_new_def\<close>)
    then show ?thesis by (force simp: out_def)
  qed
  have tx: "ev_event_id ` set (te_events (out i)) \<subseteq> ?ids i \<and> distinct (map ev_event_id (te_events (out i)))"
    if "i < length metas" for i
    using extract_events_ids [OF ext [OF that]] that assms(1) bspec [OF assms(2) nth_mem [OF that]]
    by (simp add: ledger_events_new_def)
  have "distinct (concat (map (\<lambda>i. map ev_event_id (te_events (out i))) [0..<length metas]))"
  proof (rule distinct_concat_map)
    fix i j assume ij: "i < j" "j < length metas"
    have "?ids i \<inter> ?ids j = {}"
      using starts_increase [OF ij, of "(0, 0)"] assms(1) ij by (intro stage_ids_disjoint) simp_all
    then show "set (map ev_event_id (te_events (out i))) \<inter> set (map ev_event_id (te_events (out j))) = {}"
      using tx [OF less_trans [OF ij]] tx [OF ij(2)] unfolding set_map by blast
  qed (use tx in blast)
  then show "distinct (map ev_event_id (concat (map (\<lambda>i. te_events (out i)) [0..<length metas])))"
    by (simp add: map_concat comp_def)
qed

text \<open>C16. Event ids are unique in a ledger: over a ledger of fewer than \<open>2 ^ 20 - 1\<close>
  transactions, of at most \<open>2 ^ 12 - 1\<close> operations each, the pass does not panic on any
  transaction, and the consensus events it extracts over all of them carry pairwise different
  ids: no application order or operation index meets a reserved one, and the ledger-wide
  counters hand disjoint intervals to the transactions.\<close>

theorem event_ids_unique:
  assumes "numbered_within metas"
  shows "\<exists>out. (\<forall>i < length metas. extract_events x (ledger_events_new l c metas) i (hash i) = Some (out i)) \<and>
           distinct (map ev_event_id (concat (map (\<lambda>i. te_events (out i)) [0..<length metas])))"
  by (rule exI [of _ "\<lambda>i. the (extract_events x (ledger_events_new l c metas) i (hash i))"])
     (use ledger_event_ids [OF assms, where x = x and l = l and c = c and hash = hash] in blast)

definition demo_event :: contract_event where
  "demo_event = \<lparr>ce_type = XdrContract, ce_contract_id = None, ce_topics = [], ce_data = ScVoid\<rparr>"

definition demo_meta :: tx_meta where
  "demo_meta = MetaV4 \<lparr>m4_changes_before = [], m4_operations = [], m4_changes_after = [],
     m4_soroban = None, m4_events = [\<lparr>te_stage = BeforeAllTxs, te_event = demo_event\<rparr>, \<lparr>te_stage = AfterTx, te_event = demo_event\<rparr>], m4_diagnostic = []\<rparr>"

theorem event_ids_unique_witness:
  "\<exists>out. (\<forall>i < length [demo_meta, demo_meta].
       extract_events demo_ext (ledger_events_new 7 0 [demo_meta, demo_meta]) i ''h'' = Some (out i)) \<and>
     distinct (map ev_event_id (concat (map (\<lambda>i. te_events (out i)) [0..<length [demo_meta, demo_meta]])))"
  by (rule event_ids_unique [of "[demo_meta, demo_meta]" demo_ext 7 0 "\<lambda>_. ''h''"])
     (simp_all add: demo_meta_def numbered_within_def after_all_txs_def)

end
