(* ===== verification/Sac.thy ===== *)
theory Sac
  imports Events LedgerValue
begin

text \<open>
  \<open>crates/xdr-parser/src/event_filters.rs\<close> and \<open>sac.rs\<close>: what a contract's event says when it
  speaks the token interface (SEP-41, CAP-67), and the check that ties a contract to the classic
  asset it claims to wrap.  Deriving the contract id of an asset hashes its XDR, which is not
  code of the repository: it is a parameter, like the readers of
  addresses.
\<close>

datatype strkey =
    SkMuxedAccount bytes int
  | SkMuxedContract bytes int
  | SkOther

datatype contract_id_preimage =
    PreimageAddress sc_address bytes
  | PreimageAsset asset

record strkey_ext =
  k_account_from_str :: "string \<Rightarrow> bytes option"
  k_strkey :: "string \<Rightarrow> strkey option"
  k_derive :: "contract_id_preimage \<Rightarrow> bytes \<Rightarrow> string option"

subsection \<open>Token events\<close>

datatype event_asset =
    EaNative
  | EaCredit string string
  | EaBespoke

datatype token_event_kind = TkTransfer | TkMint | TkBurn | TkClawback

record token_event =
  tk_kind :: token_event_kind
  tk_from :: "string option"
  tk_to :: "string option"
  tk_asset :: event_asset

definition token_verb :: "json \<Rightarrow> token_event_kind option" where
  "token_verb topics =
     do {
       arr \<leftarrow> as_array topics;
       verb \<leftarrow> first_opt arr;
       ty \<leftarrow> get_str verb ''type'';
       if ty \<noteq> ''sym'' then None
       else do {
         sym \<leftarrow> get_str verb ''value'';
         if eq_ignore_ascii_case sym ''transfer'' then Some TkTransfer
         else if eq_ignore_ascii_case sym ''mint'' then Some TkMint
         else if eq_ignore_ascii_case sym ''burn'' then Some TkBurn
         else if eq_ignore_ascii_case sym ''clawback'' then Some TkClawback
         else None
       }
     }"

definition string_topic :: "json \<Rightarrow> string option" where
  "string_topic topic = typed_str topic ''string''"

definition address_topic :: "json \<Rightarrow> string option" where
  "address_topic topic = address topic"

definition operand_after_optional_admin :: "json list \<Rightarrow> (string \<times> nat) option" where
  "operand_after_optional_admin arr =
     do {
       t \<leftarrow> nth_opt arr 1;
       first \<leftarrow> address_topic t;
       case Option.bind (nth_opt arr 2) address_topic of
         Some operand \<Rightarrow> Some (operand, 3)
       | None \<Rightarrow> Some (first, 2)
     }"

definition event_asset :: "json option \<Rightarrow> event_asset" where
  "event_asset topic =
     (case Option.bind topic string_topic of
        None \<Rightarrow> EaBespoke
      | Some s \<Rightarrow>
          if s = ''native'' then EaNative
          else (case split_once CHR '':'' s of
                  Some (code, issuer) \<Rightarrow>
                    if code \<noteq> [] \<and> issuer \<noteq> [] then EaCredit code issuer else EaBespoke
                | None \<Rightarrow> EaBespoke))"

text \<open>The operands with the position of the asset topic after them.\<close>

definition token_operands ::
  "token_event_kind \<Rightarrow> json list \<Rightarrow> (string option \<times> string option \<times> nat) option" where
  "token_operands kind arr =
     (case kind of
        TkTransfer \<Rightarrow>
          do { t1 \<leftarrow> nth_opt arr 1; from \<leftarrow> address_topic t1;
               t2 \<leftarrow> nth_opt arr 2; to \<leftarrow> address_topic t2;
               Some (Some from, Some to, 3) }
      | TkMint \<Rightarrow>
          do { (to, i) \<leftarrow> operand_after_optional_admin arr; Some (None, Some to, i) }
      | TkBurn \<Rightarrow>
          do { t1 \<leftarrow> nth_opt arr 1; from \<leftarrow> address_topic t1; Some (Some from, None, 2) }
      | TkClawback \<Rightarrow>
          do { (from, i) \<leftarrow> operand_after_optional_admin arr; Some (Some from, None, i) })"

definition parse_token_event :: "json \<Rightarrow> token_event option" where
  "parse_token_event topics =
     do {
       arr \<leftarrow> as_array topics;
       kind \<leftarrow> token_verb topics;
       (from, to, asset_idx) \<leftarrow> token_operands kind arr;
       Some \<lparr>tk_kind = kind, tk_from = from, tk_to = to, tk_asset = event_asset (nth_opt arr asset_idx)\<rparr>
     }"

subsection \<open>The asset a contract wraps\<close>

datatype sac_identity = SacNative | SacCredit string string

record sac_override =
  so_contract_id :: string
  so_identity :: sac_identity

definition mainnet_passphrase :: string where
  "mainnet_passphrase = ''Public Global Stellar Network ; September 2015''"
definition testnet_passphrase :: string where
  "testnet_passphrase = ''Test SDF Network ; September 2015''"
definition futurenet_passphrase :: string where
  "futurenet_passphrase = ''Test SDF Future Network ; October 2022''"

definition passphrase_for :: "string \<Rightarrow> string option" where
  "passphrase_for network =
     (let n = to_ascii_lowercase network in
      if n \<in> {''mainnet'', ''public'', ''pubnet''} then Some mainnet_passphrase
      else if n = ''testnet'' then Some testnet_passphrase
      else if n = ''futurenet'' then Some futurenet_passphrase
      else None)"

definition sac_control_event_signatures :: "string list" where
  "sac_control_event_signatures = [''transfer'', ''mint'', ''burn'', ''clawback'', ''set_authorized'']"

definition topic_symbol_value :: "json \<Rightarrow> string" where
  "topic_symbol_value topic =
     (if get_str topic ''type'' = Some ''sym'' then unwrap_or (get_str topic ''value'') [] else [])"

definition topic_string_value :: "json \<Rightarrow> string option" where
  "topic_string_value topic =
     (if get_str topic ''type'' = Some ''string''
      then opt_filter (\<lambda>s. s \<noteq> []) (get_str topic ''value'') else None)"

definition zero_padded :: "nat \<Rightarrow> string \<Rightarrow> bytes" where
  "zero_padded n s = s @ replicate (n - length s) CHR 0x00"

definition build_credit_asset :: "string \<Rightarrow> bytes \<Rightarrow> asset option" where
  "build_credit_asset code issuer =
     (if length code \<le> 4 then Some (AssetCredit4 (zero_padded 4 code) issuer)
      else if length code \<le> 12 then Some (AssetCredit12 (zero_padded 12 code) issuer)
      else None)"

definition derive_sac_strkey :: "strkey_ext \<Rightarrow> string \<Rightarrow> string \<Rightarrow> bytes \<Rightarrow> string option" where
  "derive_sac_strkey k asset_code issuer network_id =
     do {
       a \<leftarrow> (if asset_code = [] \<and> issuer = [] then Some AssetNative
            else do { acct \<leftarrow> k_account_from_str k issuer; build_credit_asset asset_code acct });
       k_derive k (PreimageAsset a) network_id
     }"

definition parse_sac_asset_string :: "strkey_ext \<Rightarrow> string \<Rightarrow> asset option" where
  "parse_sac_asset_string k s =
     (if s = ''native'' then Some AssetNative
      else do {
        (code, issuer) \<leftarrow> split_once CHR '':'' s;
        if code = [] then None
        else do { acct \<leftarrow> k_account_from_str k issuer; build_credit_asset code acct }
      })"

definition asset_to_identity :: "xdr_ext \<Rightarrow> asset \<Rightarrow> sac_identity" where
  "asset_to_identity x a =
     (case a of
        AssetNative \<Rightarrow> SacNative
      | AssetCredit4 code issuer \<Rightarrow> SacCredit (asset_code_str x code) (x_account x issuer)
      | AssetCredit12 code issuer \<Rightarrow> SacCredit (asset_code_str x code) (x_account x issuer))"

definition sac_override_from_event_topics ::
  "xdr_ext \<Rightarrow> strkey_ext \<Rightarrow> string \<Rightarrow> json \<Rightarrow> bytes \<Rightarrow> sac_override option" where
  "sac_override_from_event_topics x k emitter topics net_id =
     do {
       ts \<leftarrow> as_array topics;
       if length ts < 2 then None
       else if \<not> (\<exists>sig \<in> set sac_control_event_signatures.
                      eq_ignore_ascii_case (topic_symbol_value (hd ts)) sig) then None
       else do {
         last_topic \<leftarrow> last_opt ts;
         asset_str \<leftarrow> topic_string_value last_topic;
         asset \<leftarrow> parse_sac_asset_string k asset_str;
         derived \<leftarrow> k_derive k (PreimageAsset asset) net_id;
         if derived \<noteq> emitter then None
         else Some \<lparr>so_contract_id = derived, so_identity = asset_to_identity x asset\<rparr>
       }
     }"

definition sac_identity_from_instance ::
  "xdr_ext \<Rightarrow> strkey_ext \<Rightarrow> string \<Rightarrow> json \<Rightarrow> bytes \<Rightarrow> sac_identity option" where
  "sac_identity_from_instance x k contract_id instance_json network_id =
     do {
       inst \<leftarrow> typed instance_json ''contract_instance'';
       st \<leftarrow> jget inst ''storage'';
       storage \<leftarrow> as_array st;
       metadata \<leftarrow> List.find (\<lambda>e. Option.bind (jget e ''key'') symbol = Some ''METADATA'') storage;
       v \<leftarrow> jget metadata ''value'';
       n \<leftarrow> map_get v ''name'';
       name \<leftarrow> typed_str n ''string'';
       asset \<leftarrow> parse_sac_asset_string k name;
       derived \<leftarrow> k_derive k (PreimageAsset asset) network_id;
       if derived \<noteq> contract_id then None else Some (asset_to_identity x asset)
     }"

subsection \<open>Facts on the gate\<close>

lemma build_credit_asset_Some:
  "build_credit_asset code issuer = Some a \<Longrightarrow>
     a = AssetCredit4 (zero_padded 4 code) issuer \<and> length code \<le> 4 \<or>
     a = AssetCredit12 (zero_padded 12 code) issuer \<and> 4 < length code \<and> length code \<le> 12"
  by (auto simp: build_credit_asset_def split: if_splits)

lemma sac_override_Some:
  assumes "sac_override_from_event_topics x k emitter topics net_id = Some ov"
  shows "\<exists>ts s a. topics = JArr ts \<and> 2 \<le> length ts \<and> topic_string_value (last ts) = Some s \<and>
           parse_sac_asset_string k s = Some a \<and> k_derive k (PreimageAsset a) net_id = Some emitter \<and>
           ov = \<lparr>so_contract_id = emitter, so_identity = asset_to_identity x a\<rparr>"
  using assms
  by (cases topics)
     (auto simp: sac_override_from_event_topics_def Option.bind_eq_Some_conv last_opt_def split: if_splits)

text \<open>The text of a labelled asset topic.\<close>

fun asset_label :: "event_asset \<Rightarrow> string" where
  "asset_label EaNative = ''native''"
| "asset_label (EaCredit code issuer) = code @ CHR '':'' # issuer"
| "asset_label EaBespoke = []"

lemma event_asset_label:
  "event_asset (Some t) = a \<Longrightarrow> a \<noteq> EaBespoke \<Longrightarrow> typed_str t ''string'' = Some (asset_label a)"
  by (auto simp: event_asset_def string_topic_def split_once_Some split: option.splits if_splits prod.splits)

lemma topic_string_value_typed: "typed_str t ''string'' = Some s \<Longrightarrow> s \<noteq> [] \<Longrightarrow> topic_string_value t = Some s"
  by (auto simp: typed_str_def typed_def topic_string_value_def get_str_def Option.bind_eq_Some_conv split: if_splits)

text \<open>The position of the asset topic is inside \<open>2..3\<close>, and the operands before it are addresses.\<close>

lemma token_operands_Some:
  "token_operands kind arr = Some (from, to, i) \<Longrightarrow>
     (i = 2 \<or> i = 3) \<and> (from \<noteq> None \<or> to \<noteq> None) \<and>
     (case kind of TkTransfer \<Rightarrow> from \<noteq> None \<and> to \<noteq> None
      | TkMint \<Rightarrow> from = None \<and> to \<noteq> None
      | _ \<Rightarrow> from \<noteq> None \<and> to = None)"
  by (cases kind)
     (auto simp: token_operands_def operand_after_optional_admin_def Option.bind_eq_Some_conv split: option.splits)

lemma parse_token_event_kind: "parse_token_event topics = Some tk \<Longrightarrow> token_verb topics = Some (tk_kind tk)"
  by (auto simp: parse_token_event_def Option.bind_eq_Some_conv)

lemma parse_token_event_Some:
  assumes "parse_token_event topics = Some tk"
  shows "\<exists>ts i. topics = JArr ts \<and> token_operands (tk_kind tk) ts = Some (tk_from tk, tk_to tk, i) \<and>
           tk_asset tk = event_asset (nth_opt ts i)"
  using assms by (cases topics) (auto simp: parse_token_event_def Option.bind_eq_Some_conv)

end
