(* ===== verification/AssetTransfers.thy ===== *)
theory AssetTransfers
  imports Sac
begin

text \<open>
  \<open>crates/xdr-parser/src/asset_transfers.rs\<close> with its submodule \<open>muxed.rs\<close>: every consensus event
  that carries a token verb becomes one transfer row or one reject, in the order of the events.
\<close>

subsection \<open>The payload of a token event\<close>

datatype token_amount = Fungible int | NonFungible | Unrecognised

definition unsigned_token_id :: "json \<Rightarrow> bool" where
  "unsigned_token_id v =
     (case get_str v ''type'' of
        Some ty \<Rightarrow>
          if ty = ''u32'' then
            (case Option.bind (typed v ''u32'') as_u64 of Some n \<Rightarrow> fits_u32 n | None \<Rightarrow> False)
          else if ty = ''u64'' then Option.bind (typed v ''u64'') as_u64 \<noteq> None
          else if ty = ''u128'' then
            (case typed_str v ''u128'' of Some s \<Rightarrow> parse_u128 s \<noteq> None | None \<Rightarrow> False)
          else if ty = ''u256'' then
            (case typed_str v ''u256'' of Some s \<Rightarrow> length s = 64 \<and> list_all is_ascii_hexdigit s | None \<Rightarrow> False)
          else False
      | None \<Rightarrow> False)"

definition i128_of_u128 :: "int \<Rightarrow> int option" where
  "i128_of_u128 n = (if fits_i128 n then Some n else None)"

definition scalar_i128 :: "json \<Rightarrow> int option" where
  "scalar_i128 v =
     (case typed_str v ''i128'' of
        Some s \<Rightarrow> parse_i128 s
      | None \<Rightarrow> do { s \<leftarrow> typed_str v ''u128''; n \<leftarrow> parse_u128 s; i128_of_u128 n })"

definition token_event_amount :: "json \<Rightarrow> token_amount" where
  "token_event_amount data =
     (case Option.bind (typed_str data ''i128'') parse_i128 of
        Some n \<Rightarrow> Fungible n
      | None \<Rightarrow>
          if unsigned_token_id data then NonFungible
          else
            let amount = map_get data ''amount'' in
            case map_get data ''token_id'' of
              Some token_id \<Rightarrow>
                if amount = None \<and> unsigned_token_id token_id then NonFungible else Unrecognised
            | None \<Rightarrow>
                (case amount of
                   Some a \<Rightarrow> (case scalar_i128 a of Some n \<Rightarrow> Fungible n | None \<Rightarrow> Unrecognised)
                 | None \<Rightarrow> Unrecognised))"

definition event_to_muxed_id :: "json \<Rightarrow> int option" where
  "event_to_muxed_id data =
     do { i \<leftarrow> map_get data ''to_muxed_id''; v \<leftarrow> typed i ''u64''; as_u64 v }"

subsection \<open>Operations, as far as a transfer needs them\<close>

datatype asset_ref = ArNative | ArCredit string string

record extracted_operation =
  xo_transaction_hash :: string
  xo_operation_index :: nat
  xo_op_type :: operation_type
  xo_source_account :: "string option"
  xo_details :: json
  xo_asset_appearances :: "asset_ref list"
  xo_counterparties :: "string list"
  xo_source_muxed_id :: "int option"
  xo_destination_muxed_id :: "int option"

subsection \<open>Sub-account ids of the two ends\<close>

definition sender_id ::
  "extracted_operation option \<Rightarrow> string \<Rightarrow> int option \<Rightarrow> string \<Rightarrow> int option" where
  "sender_id op tx_source_account tx_source_muxed_id g =
     (case op of
        Some op' \<Rightarrow>
          (case xo_source_account op' of
             Some src \<Rightarrow> if src = g then xo_source_muxed_id op' else None
           | None \<Rightarrow> if tx_source_account = g then tx_source_muxed_id else None)
      | None \<Rightarrow> if tx_source_account = g then tx_source_muxed_id else None)"

definition op_delivers :: "extracted_operation \<Rightarrow> event_asset \<Rightarrow> bool" where
  "op_delivers op a =
     (let delivered = Option.bind (opt_or (jget (xo_details op) ''destAsset'') (jget (xo_details op) ''asset'')) as_str in
      case a of
        EaNative \<Rightarrow> delivered = None \<or> delivered = Some ''native''
      | EaCredit code issuer \<Rightarrow>
          (case delivered of Some s \<Rightarrow> split_once CHR '':'' s = Some (code, issuer) | None \<Rightarrow> False)
      | EaBespoke \<Rightarrow> False)"

definition recipient_id ::
  "extracted_operation option \<Rightarrow> event_asset \<Rightarrow> int option \<Rightarrow> string \<Rightarrow> int option" where
  "recipient_id op a event_to_muxed g =
     (if (case op of Some op' \<Rightarrow> xo_op_type op' = OpInvokeHostFunction | None \<Rightarrow> False) then event_to_muxed
      else Option.bind
        (opt_filter (\<lambda>op'. op_delivers op' a)
          (opt_filter (\<lambda>op'. get_str (xo_details op') ''destination'' = Some g) op))
        xo_destination_muxed_id)"

definition split_muxed :: "xdr_ext \<Rightarrow> strkey_ext \<Rightarrow> string \<Rightarrow> string \<times> int option" where
  "split_muxed x k s =
     (if first_opt s \<noteq> Some CHR ''M'' \<and> first_opt s \<noteq> Some CHR ''W'' then (s, None)
      else (case k_strkey k s of
              Some (SkMuxedAccount key i) \<Rightarrow> (x_account x key, Some i)
            | Some (SkMuxedContract c i) \<Rightarrow> (x_address x (AddrContract c), Some i)
            | _ \<Rightarrow> (s, None)))"

definition muxed_endpoint ::
  "xdr_ext \<Rightarrow> strkey_ext \<Rightarrow> string option \<Rightarrow> (string \<Rightarrow> int option) \<Rightarrow> string option \<times> int option" where
  "muxed_endpoint x k strkey id_outside_topic =
     (case strkey of
        None \<Rightarrow> (None, None)
      | Some s \<Rightarrow>
          let (g, topic_muxed_id) = split_muxed x k s
          in (Some g, opt_or topic_muxed_id (id_outside_topic g)))"

subsection \<open>Rows and rejects\<close>

record asset_transfer =
  tr_transaction_hash :: string
  tr_op_index :: nat
  tr_event_pos_in_op :: nat
  tr_kind :: token_event_kind
  tr_from :: "string option"
  tr_to :: "string option"
  tr_asset :: event_asset
  tr_emitter :: string
  tr_amount :: "int option"
  tr_from_muxed_id :: "int option"
  tr_to_muxed_id :: "int option"

datatype reject_kind =
    EmitterNotSac string
  | UnrecognisedPayload token_event_kind string
  | NoOperation
  | UnrecognisedTopics token_event_kind nat
  | NoEmitter

record transfer_reject =
  rj_transaction_hash :: string
  rj_event_id :: event_id
  rj_emitter :: "string option"
  rj_kind :: reject_kind

record reject_counts =
  rc_emitter_not_sac :: nat
  rc_unrecognised_payload :: nat
  rc_no_operation :: nat
  rc_unrecognised_topics :: nat
  rc_no_emitter :: nat

definition no_rejects :: reject_counts where
  "no_rejects = \<lparr>rc_emitter_not_sac = 0, rc_unrecognised_payload = 0, rc_no_operation = 0,
     rc_unrecognised_topics = 0, rc_no_emitter = 0\<rparr>"

definition rejects_total :: "reject_counts \<Rightarrow> nat" where
  "rejects_total c = rc_emitter_not_sac c + rc_unrecognised_payload c + rc_no_operation c
     + rc_unrecognised_topics c + rc_no_emitter c"

definition rejects_add :: "reject_counts \<Rightarrow> transfer_reject \<Rightarrow> reject_counts" where
  "rejects_add c r =
     (case rj_kind r of
        EmitterNotSac _ \<Rightarrow> c\<lparr>rc_emitter_not_sac := Suc (rc_emitter_not_sac c)\<rparr>
      | UnrecognisedPayload _ _ \<Rightarrow> c\<lparr>rc_unrecognised_payload := Suc (rc_unrecognised_payload c)\<rparr>
      | NoOperation \<Rightarrow> c\<lparr>rc_no_operation := Suc (rc_no_operation c)\<rparr>
      | UnrecognisedTopics _ _ \<Rightarrow> c\<lparr>rc_unrecognised_topics := Suc (rc_unrecognised_topics c)\<rparr>
      | NoEmitter \<Rightarrow> c\<lparr>rc_no_emitter := Suc (rc_no_emitter c)\<rparr>)"

definition rejects_absorb :: "reject_counts \<Rightarrow> reject_counts \<Rightarrow> reject_counts" where
  "rejects_absorb c d =
     \<lparr>rc_emitter_not_sac = rc_emitter_not_sac c + rc_emitter_not_sac d,
      rc_unrecognised_payload = rc_unrecognised_payload c + rc_unrecognised_payload d,
      rc_no_operation = rc_no_operation c + rc_no_operation d,
      rc_unrecognised_topics = rc_unrecognised_topics c + rc_unrecognised_topics d,
      rc_no_emitter = rc_no_emitter c + rc_no_emitter d\<rparr>"

record transfer_extraction =
  tx_transfers :: "asset_transfer list"
  tx_rejects :: "transfer_reject list"

definition reject_counts_of :: "transfer_extraction \<Rightarrow> reject_counts" where
  "reject_counts_of out = foldl rejects_add no_rejects (tx_rejects out)"

subsection \<open>The loop\<close>

definition push_reject :: "extracted_event \<Rightarrow> string option \<Rightarrow> reject_kind \<Rightarrow> transfer_extraction \<Rightarrow> transfer_extraction" where
  "push_reject ev emitter kind out =
     out\<lparr>tx_rejects := tx_rejects out @
       [\<lparr>rj_transaction_hash = ev_transaction_hash ev, rj_event_id = ev_event_id ev,
         rj_emitter = emitter, rj_kind = kind\<rparr>]\<rparr>"

definition last_topic_text :: "json \<Rightarrow> string" where
  "last_topic_text topics =
     unwrap_or (do { ts \<leftarrow> as_array topics; t \<leftarrow> last_opt ts; v \<leftarrow> jget t ''value''; as_str v }) []"

definition transfer_row ::
  "xdr_ext \<Rightarrow> strkey_ext \<Rightarrow> extracted_operation list \<Rightarrow> string \<Rightarrow> int option \<Rightarrow> extracted_event \<Rightarrow>
   string \<Rightarrow> token_event \<Rightarrow> nat \<Rightarrow> int option \<Rightarrow> asset_transfer" where
  "transfer_row x k operations tx_source_account tx_source_muxed_id ev emitter token operation_index amount =
     (let op = opt_filter (\<lambda>op. xo_operation_index op = operation_index) (nth_opt operations operation_index);
          (from, from_muxed_id) =
            muxed_endpoint x k (tk_from token) (sender_id op tx_source_account tx_source_muxed_id);
          event_muxed_id = event_to_muxed_id (eb_data (ev_body ev));
          (to, to_muxed_id) =
            muxed_endpoint x k (tk_to token) (recipient_id op (tk_asset token) event_muxed_id)
      in \<lparr>tr_transaction_hash = ev_transaction_hash ev, tr_op_index = operation_index,
          tr_event_pos_in_op = ei_event_index (ev_event_id ev), tr_kind = tk_kind token,
          tr_from = from, tr_to = to, tr_asset = tk_asset token, tr_emitter = emitter,
          tr_amount = amount, tr_from_muxed_id = from_muxed_id, tr_to_muxed_id = to_muxed_id\<rparr>)"

definition push_transfer :: "asset_transfer \<Rightarrow> transfer_extraction \<Rightarrow> transfer_extraction" where
  "push_transfer t out = out\<lparr>tx_transfers := tx_transfers out @ [t]\<rparr>"

definition extract_one ::
  "xdr_ext \<Rightarrow> strkey_ext \<Rightarrow> extracted_operation list \<Rightarrow> string \<Rightarrow> int option \<Rightarrow> bytes \<Rightarrow>
   transfer_extraction \<Rightarrow> extracted_event \<Rightarrow> transfer_extraction" where
  "extract_one x k operations tx_source_account tx_source_muxed_id net_id out ev =
     (let topics = eb_topics (ev_body ev); data = eb_data (ev_body ev) in
      case token_verb topics of
        None \<Rightarrow> out
      | Some kind \<Rightarrow>
        (case eb_contract_id (ev_body ev) of
           None \<Rightarrow> push_reject ev None NoEmitter out
         | Some emitter \<Rightarrow>
           (case parse_token_event topics of
              None \<Rightarrow>
                push_reject ev (Some emitter)
                  (UnrecognisedTopics kind (case as_array topics of Some ts \<Rightarrow> length ts | None \<Rightarrow> 0)) out
            | Some token \<Rightarrow>
              (case ev_origin ev of
                 OriginTransaction _ \<Rightarrow> push_reject ev (Some emitter) NoOperation out
               | OriginOperation operation_index \<Rightarrow>
                 if tk_asset token \<noteq> EaBespoke \<and>
                    sac_override_from_event_topics x k emitter topics net_id = None
                 then push_reject ev (Some emitter) (EmitterNotSac (last_topic_text topics)) out
                 else
                   (case token_event_amount data of
                      Fungible n \<Rightarrow>
                        push_transfer (transfer_row x k operations tx_source_account tx_source_muxed_id ev emitter
                          token operation_index (Some n)) out
                    | NonFungible \<Rightarrow>
                        push_transfer (transfer_row x k operations tx_source_account tx_source_muxed_id ev emitter
                          token operation_index None) out
                    | Unrecognised \<Rightarrow>
                        push_reject ev (Some emitter)
                          (UnrecognisedPayload (tk_kind token) (unwrap_or (get_str data ''type'') ''?'')) out)))))"

definition extract_asset_transfers ::
  "xdr_ext \<Rightarrow> strkey_ext \<Rightarrow> extracted_event list \<Rightarrow> extracted_operation list \<Rightarrow> string \<Rightarrow> int option \<Rightarrow>
   bytes \<Rightarrow> transfer_extraction" where
  "extract_asset_transfers x k events operations tx_source_account tx_source_muxed_id net_id =
     foldl (extract_one x k operations tx_source_account tx_source_muxed_id net_id)
       \<lparr>tx_transfers = [], tx_rejects = []\<rparr> events"

end
