(* ===== verification/TransferFacts.thy ===== *)
theory TransferFacts
  imports AssetTransfers
begin

text \<open>
  The contract of the transfer extraction: every token event is accounted for, a labelled
  transfer comes from the contract of its asset, and the payload reader agrees with a direct
  reading of the contract value behind the JSON.
\<close>

subsection \<open>One event, one outcome\<close>

lemma transfer_row_simps [simp]:
  "tr_asset (transfer_row x k ops s m ev e tk i amt) = tk_asset tk"
  "tr_emitter (transfer_row x k ops s m ev e tk i amt) = e"
  "tr_amount (transfer_row x k ops s m ev e tk i amt) = amt"
  "tr_transaction_hash (transfer_row x k ops s m ev e tk i amt) = ev_transaction_hash ev"
  by (simp_all add: transfer_row_def Let_def split: prod.split)

definition append_rows :: "transfer_extraction \<Rightarrow> transfer_extraction \<Rightarrow> transfer_extraction" where
  "append_rows a b = \<lparr>tx_transfers = tx_transfers a @ tx_transfers b, tx_rejects = tx_rejects a @ tx_rejects b\<rparr>"

definition nothing_extracted :: transfer_extraction where
  "nothing_extracted = \<lparr>tx_transfers = [], tx_rejects = []\<rparr>"

lemma append_rows_simps [simp]:
  "tx_transfers (append_rows a b) = tx_transfers a @ tx_transfers b"
  "tx_rejects (append_rows a b) = tx_rejects a @ tx_rejects b"
  "tx_transfers nothing_extracted = []" "tx_rejects nothing_extracted = []"
  by (simp_all add: append_rows_def nothing_extracted_def)

lemma push_reject_rows: "push_reject ev e r out = append_rows out (push_reject ev e r nothing_extracted)"
  by (simp add: push_reject_def append_rows_def nothing_extracted_def)

lemma push_transfer_rows: "push_transfer t out = append_rows out (push_transfer t nothing_extracted)"
  by (simp add: push_transfer_def append_rows_def nothing_extracted_def)

lemma append_nothing: "append_rows out nothing_extracted = out"
  by (simp add: append_rows_def)

text \<open>Processing an event appends the same rows whatever was extracted before.\<close>

lemma extract_one_rows:
  "extract_one x k ops s m net out ev = append_rows out (extract_one x k ops s m net nothing_extracted ev)"
  unfolding extract_one_def Let_def
  using push_reject_rows [of ev _ _ out] push_transfer_rows [of _ out] append_nothing [of out]
  by (simp split: option.split event_origin.split token_amount.split)

lemma push_reject_lengths [simp]:
  "tx_transfers (push_reject ev e r nothing_extracted) = []"
  "length (tx_rejects (push_reject ev e r nothing_extracted)) = Suc 0"
  by (simp_all add: push_reject_def)

lemma push_transfer_lengths [simp]:
  "tx_transfers (push_transfer t nothing_extracted) = [t]"
  "tx_rejects (push_transfer t nothing_extracted) = []"
  by (simp_all add: push_transfer_def)

lemma extract_one_count:
  "length (tx_transfers (extract_one x k ops s m net nothing_extracted ev)) +
   length (tx_rejects (extract_one x k ops s m net nothing_extracted ev)) =
   (if token_verb (eb_topics (ev_body ev)) = None then 0 else 1)"
  by (simp add: extract_one_def Let_def split: option.split event_origin.split token_amount.split)


lemma extract_rows:
  "foldl (extract_one x k ops s m net) out evs =
   append_rows out \<lparr>tx_transfers = concat (map (\<lambda>ev. tx_transfers (extract_one x k ops s m net nothing_extracted ev)) evs),
                    tx_rejects = concat (map (\<lambda>ev. tx_rejects (extract_one x k ops s m net nothing_extracted ev)) evs)\<rparr>"
proof (induction evs arbitrary: out)
  case Nil
  then show ?case by (simp add: append_rows_def)
next
  case (Cons ev evs)
  show ?case
    by (simp add: Cons.IH) (subst extract_one_rows, simp add: append_rows_def)
qed

lemma extract_asset_transfers_rows:
  "extract_asset_transfers x k evs ops s m net =
     \<lparr>tx_transfers = concat (map (\<lambda>ev. tx_transfers (extract_one x k ops s m net nothing_extracted ev)) evs),
      tx_rejects = concat (map (\<lambda>ev. tx_rejects (extract_one x k ops s m net nothing_extracted ev)) evs)\<rparr>"
  unfolding extract_asset_transfers_def extract_rows by (simp add: append_rows_def)

lemma rejects_total_add: "rejects_total (rejects_add c r) = Suc (rejects_total c)"
  by (cases "rj_kind r") (simp_all add: rejects_total_def rejects_add_def)

lemma rejects_total_foldl: "rejects_total (foldl rejects_add c rs) = rejects_total c + length rs"
  by (induction rs arbitrary: c) (simp_all add: rejects_total_add)

lemma rejects_absorb_add: "rejects_absorb c (rejects_add d r) = rejects_add (rejects_absorb c d) r"
  by (cases "rj_kind r") (simp_all add: rejects_absorb_def rejects_add_def)

lemma rejects_absorb_foldl:
  "rejects_absorb c (foldl rejects_add d rs) = foldl rejects_add (rejects_absorb c d) rs"
  by (induction rs arbitrary: d) (simp_all add: rejects_absorb_add)

lemma rejects_absorb_none [simp]: "rejects_absorb c no_rejects = c"
  by (simp add: rejects_absorb_def no_rejects_def)

text \<open>C19. No token event is lost and none counts twice: the extraction of a list of events is the
  concatenation of the extractions of its events; an event with a token verb gives exactly one
  transfer or exactly one reject and any other event nothing; and the counters add up to the
  number of rejects, also when the counts of two extractions are absorbed into one.\<close>

theorem token_events_accounted:
  "tx_transfers (extract_asset_transfers x k evs ops s m net) =
     concat (map (\<lambda>ev. tx_transfers (extract_asset_transfers x k [ev] ops s m net)) evs) \<and>
   tx_rejects (extract_asset_transfers x k evs ops s m net) =
     concat (map (\<lambda>ev. tx_rejects (extract_asset_transfers x k [ev] ops s m net)) evs) \<and>
   length (tx_transfers (extract_asset_transfers x k [ev] ops s m net)) +
     length (tx_rejects (extract_asset_transfers x k [ev] ops s m net)) =
     (if token_verb (eb_topics (ev_body ev)) = None then 0 else 1) \<and>
   length (tx_transfers (extract_asset_transfers x k evs ops s m net)) +
     rejects_total (reject_counts_of (extract_asset_transfers x k evs ops s m net)) =
     length (filter (\<lambda>ev. token_verb (eb_topics (ev_body ev)) \<noteq> None) evs) \<and>
   rejects_absorb (reject_counts_of (extract_asset_transfers x k evs ops s m net))
       (reject_counts_of (extract_asset_transfers x k evs' ops' s' m' net)) =
     foldl rejects_add no_rejects (tx_rejects (extract_asset_transfers x k evs ops s m net) @
       tx_rejects (extract_asset_transfers x k evs' ops' s' m' net))"
proof -
  have "length (tx_transfers (extract_asset_transfers x k evs ops s m net)) +
     length (tx_rejects (extract_asset_transfers x k evs ops s m net)) =
     length (filter (\<lambda>ev. token_verb (eb_topics (ev_body ev)) \<noteq> None) evs)"
  proof (induction evs)
    case (Cons ev evs)
    then show ?case
      using extract_one_count [of x k ops s m net ev] by (simp add: extract_asset_transfers_rows split: if_splits)
  qed (simp add: extract_asset_transfers_rows)
  then show ?thesis
    using extract_one_count [of x k ops s m net ev]
    by (simp add: extract_asset_transfers_rows reject_counts_of_def rejects_total_foldl
        rejects_absorb_foldl) (simp add: rejects_total_def no_rejects_def)
qed

subsection \<open>Labels are proved\<close>













subsection \<open>The payload\<close>

text \<open>What a payload means, read off the contract value itself.\<close>

fun scval_token_id :: "scval \<Rightarrow> bool" where
  "scval_token_id (ScU32 _) = True"
| "scval_token_id (ScU64 _) = True"
| "scval_token_id (ScU128 _ _) = True"
| "scval_token_id (ScU256 _ _ _ _) = True"
| "scval_token_id _ = False"

fun scval_i128 :: "scval \<Rightarrow> int option" where
  "scval_i128 (ScI128 hi lo) = Some (i128_of_parts hi lo)"
| "scval_i128 (ScU128 hi lo) = i128_of_u128 (u128_of_parts hi lo)"
| "scval_i128 _ = None"

definition amount_or_unrecognised :: "int option \<Rightarrow> token_amount" where
  "amount_or_unrecognised n = (case n of Some i \<Rightarrow> Fungible i | None \<Rightarrow> Unrecognised)"

fun scval_amount :: "scval \<Rightarrow> token_amount" where
  "scval_amount (ScI128 hi lo) = Fungible (i128_of_parts hi lo)"
| "scval_amount (ScMap (Some m)) =
     (case symbol_entry ''token_id'' m of
        Some tid \<Rightarrow> if symbol_entry ''amount'' m = None \<and> scval_token_id tid then NonFungible else Unrecognised
      | None \<Rightarrow> amount_or_unrecognised (Option.bind (symbol_entry ''amount'' m) scval_i128))"
| "scval_amount v = (if scval_token_id v then NonFungible else Unrecognised)"

lemma hex_digit_is_hex:
  assumes "d < 16"
  shows "is_ascii_hexdigit (hex_digit u d)"
proof -
  have "list_all (\<lambda>d. is_ascii_hexdigit (hex_digit True d) \<and> is_ascii_hexdigit (hex_digit False d)) [0..<16]"
    by code_simp
  with assms have "is_ascii_hexdigit (hex_digit True d) \<and> is_ascii_hexdigit (hex_digit False d)"
    by (auto simp only: list_all_iff set_upt atLeastLessThan_iff)
  then show ?thesis by (cases u) simp_all
qed

lemma hex_digits_are_hex: "list_all is_ascii_hexdigit (hex_digits u w n)"
  by (induction u w n rule: hex_digits.induct) (simp_all add: hex_digit_is_hex)

lemma parse_u128_parts: "parse_u128 (show_int (u128_of_parts hi lo)) = Some (u128_of_parts hi lo)"
  unfolding parse_u128_def using uint_64_bounds [of hi] uint_64_bounds [of lo]
  by (intro parse_unsigned_show) (simp_all add: u128_of_parts_eq)

lemma parse_i128_parts: "parse_i128 (show_int (i128_of_parts hi lo)) = Some (i128_of_parts hi lo)"
  by (simp add: parse_i128_show i128_of_parts_fits)

lemma uint_fits: "fits_u32 (uint (a :: 32 word))" "fits_u64 (uint a)" "fits_u64 (uint (b :: 64 word))"
  using uint_lt2p [of a] uint_lt2p [of b] by (simp_all add: ranges)

lemma get_type_scval: "get_str (scval_to_typed_json x v) ''type'' = Some (scval_tag v)"
  using scval_to_typed_json_tagged [of x v] by auto

lemma typed_str_scval:
  "typed_str (scval_to_typed_json x v) tag =
     (if tag = scval_tag v then Option.bind (jget (scval_to_typed_json x v) ''value'') as_str else None)"
  by (simp add: typed_str_def typed_scval_to_typed_json)

lemma unsigned_token_id_scval: "unsigned_token_id (scval_to_typed_json x v) = scval_token_id v"
  unfolding unsigned_token_id_def get_type_scval
  by (cases v) (simp_all add: typed_str_scval typed_scval_to_typed_json uint_fits parse_u128_parts
      hex256_def hex64_def hex_digits_are_hex)

lemma scalar_i128_scval: "scalar_i128 (scval_to_typed_json x v) = scval_i128 v"
  unfolding scalar_i128_def typed_str_scval
  by (cases v) (simp_all add: parse_i128_parts parse_u128_parts)

lemma typed_i128_scval:
  "Option.bind (typed_str (scval_to_typed_json x v) ''i128'') parse_i128 =
     (case v of ScI128 hi lo \<Rightarrow> Some (i128_of_parts hi lo) | _ \<Rightarrow> None)"
  unfolding typed_str_scval by (cases v) (simp_all add: parse_i128_parts)

lemma map_get_not_map: "(\<And>m. v \<noteq> ScMap (Some m)) \<Longrightarrow> map_get (scval_to_typed_json x v) key = None"
proof (cases "scval_tag v = ''map''")
  case True
  assume "\<And>m. v \<noteq> ScMap (Some m)"
  with True have "v = ScMap None" by (cases v) auto
  then show ?thesis by (simp add: map_get_def)
qed (simp add: map_get_def get_type_scval)

lemma amount_keys:
  "map_get (scval_to_typed_json x (ScMap (Some m))) ''amount'' =
     map_option (scval_to_typed_json x) (symbol_entry ''amount'' m)"
  "map_get (scval_to_typed_json x (ScMap (Some m))) ''token_id'' =
     map_option (scval_to_typed_json x) (symbol_entry ''token_id'' m)"
  by (rule map_get_map_json; simp add: valid_utf8_ascii)+

lemma token_event_amount_map:
  "token_event_amount (scval_to_typed_json x (ScMap (Some m))) = scval_amount (ScMap (Some m))"
proof -
  have "\<not> unsigned_token_id (scval_to_typed_json x (ScMap (Some m)))"
    unfolding unsigned_token_id_scval by simp
  moreover have "Option.bind (typed_str (scval_to_typed_json x (ScMap (Some m))) ''i128'') parse_i128 = None"
    unfolding typed_i128_scval by simp
  ultimately show ?thesis
    unfolding token_event_amount_def Let_def amount_keys
    by (cases "symbol_entry ''token_id'' m"; cases "symbol_entry ''amount'' m")
       (simp_all add: unsigned_token_id_scval scalar_i128_scval amount_or_unrecognised_def del: scval_to_typed_json.simps)
qed

text \<open>C24. The payload reader works on the JSON of the decoder exactly as a direct reading of the
  contract value: an \<open>i128\<close> is the amount, an unsigned integer of any width is a token id, a
  map is read by its \<open>token_id\<close> and \<open>amount\<close> entries with a \<open>u128\<close> amount refused when it does
  not fit, and every other value is not a movement.\<close>

theorem token_event_amount_of_scval:
  "token_event_amount (scval_to_typed_json x v) = scval_amount v"
proof (cases "\<exists>m. v = ScMap (Some m)")
  case True
  then show ?thesis using token_event_amount_map by blast
next
  case False
  then have m: "map_get (scval_to_typed_json x v) key = None" for key by (intro map_get_not_map) blast
  show ?thesis
    unfolding token_event_amount_def Let_def m typed_i128_scval unsigned_token_id_scval
  proof (cases v)
    case (ScMap mo)
    with False have "mo = None" by (cases mo) auto
    with ScMap show "(case case v of ScI128 hi lo \<Rightarrow> Some (i128_of_parts hi lo) | _ \<Rightarrow> None of
        None \<Rightarrow> if scval_token_id v then NonFungible else
          case None of None \<Rightarrow> (case None of None \<Rightarrow> Unrecognised
            | Some a \<Rightarrow> (case scalar_i128 a of None \<Rightarrow> Unrecognised | Some n \<Rightarrow> Fungible n))
          | Some token_id \<Rightarrow> if None = None \<and> unsigned_token_id token_id then NonFungible else Unrecognised
        | Some n \<Rightarrow> Fungible n) = scval_amount v" by simp
  qed simp_all
qed

end
