(* ===== verification/Nft.thy ===== *)
theory Nft
  imports Sac
begin

text \<open>
  \<open>crates/xdr-parser/src/nft.rs\<close>: NFT movements recognised in contract events.  Events of a
  contract proved to be a classic asset's own are dropped first; the arguments are then read in
  the three layouts seen on the network, and a consecutive mint is expanded within a cap.
  The warnings for unknown layouts are not modelled.
\<close>

record nft_event =
  ne_transaction_hash :: string
  ne_contract_id :: string
  ne_event_kind :: string
  ne_token_id :: json
  ne_from :: "string option"
  ne_to :: "string option"
  ne_created_at :: int
  ne_event_id :: event_id

subsection \<open>Reading the arguments\<close>

definition looks_like_token_id :: "json \<Rightarrow> bool" where
  "looks_like_token_id data =
     (unwrap_or (get_str data ''type'') [] \<notin> {''void'', ''map'', ''vec'', ''error''})"

definition data_vec_elements :: "json \<Rightarrow> json list option" where
  "data_vec_elements data =
     (if get_str data ''type'' \<noteq> Some ''vec'' then None
      else Option.bind (jget data ''value'') as_array)"

definition topic_address_value :: "json \<Rightarrow> string option" where
  "topic_address_value topic =
     (if get_str topic ''type'' = Some ''address''
      then opt_filter (\<lambda>s. s \<noteq> []) (get_str topic ''value'') else None)"

definition collect_addresses :: "json list \<Rightarrow> string list option" where
  "collect_addresses items = mapM_opt topic_address_value items"

definition shape_a :: "json list \<Rightarrow> json \<Rightarrow> nat \<Rightarrow> (string list \<times> json) option" where
  "shape_a remaining_topics data n =
     (if n \<le> length remaining_topics \<and> looks_like_token_id data
      then map_option (\<lambda>addrs. (addrs, data)) (collect_addresses (take n remaining_topics)) else None)"

definition shape_b :: "json \<Rightarrow> nat \<Rightarrow> (string list \<times> json) option" where
  "shape_b data n =
     (case data_vec_elements data of
        Some elems \<Rightarrow>
          if length elems = n + 1 \<and> looks_like_token_id (elems ! n)
          then map_option (\<lambda>addrs. (addrs, elems ! n)) (collect_addresses (take n elems)) else None
      | None \<Rightarrow> None)"

definition shape_c :: "json list \<Rightarrow> json \<Rightarrow> nat \<Rightarrow> (string list \<times> json) option" where
  "shape_c remaining_topics data n =
     (case map_get data ''token_id'' of
        Some token_id \<Rightarrow>
          if n \<le> length remaining_topics \<and> looks_like_token_id token_id
          then map_option (\<lambda>addrs. (addrs, token_id)) (collect_addresses (take n remaining_topics)) else None
      | None \<Rightarrow> None)"

definition extract_args :: "json list \<Rightarrow> json \<Rightarrow> nat \<Rightarrow> (string list \<times> json) option" where
  "extract_args remaining_topics data n =
     opt_or (shape_a remaining_topics data n) (opt_or (shape_b data n) (shape_c remaining_topics data n))"

definition nft_row ::
  "string \<Rightarrow> extracted_event \<Rightarrow> string \<Rightarrow> json \<Rightarrow> string option \<Rightarrow> string option \<Rightarrow> nft_event" where
  "nft_row contract_id event kind token_id from to =
     \<lparr>ne_transaction_hash = ev_transaction_hash event, ne_contract_id = contract_id, ne_event_kind = kind,
      ne_token_id = token_id, ne_from = from, ne_to = to, ne_created_at = ev_created_at event,
      ne_event_id = ev_event_id event\<rparr>"

definition try_parse_transfer :: "string \<Rightarrow> json list \<Rightarrow> json \<Rightarrow> extracted_event \<Rightarrow> nft_event option" where
  "try_parse_transfer contract_id remaining_topics data event =
     do { (addrs, token_id) \<leftarrow> extract_args remaining_topics data 2;
          Some (nft_row contract_id event ''transfer'' token_id (Some (addrs ! 0)) (Some (addrs ! 1))) }"

definition try_parse_mint :: "string \<Rightarrow> json list \<Rightarrow> json \<Rightarrow> extracted_event \<Rightarrow> nft_event option" where
  "try_parse_mint contract_id remaining_topics data event =
     do { (addrs, token_id) \<leftarrow> extract_args remaining_topics data 1;
          Some (nft_row contract_id event ''mint'' token_id None (Some (addrs ! 0))) }"

definition try_parse_burn :: "string \<Rightarrow> json list \<Rightarrow> json \<Rightarrow> extracted_event \<Rightarrow> nft_event option" where
  "try_parse_burn contract_id remaining_topics data event =
     do { (addrs, token_id) \<leftarrow> extract_args remaining_topics data 1;
          Some (nft_row contract_id event ''burn'' token_id (Some (addrs ! 0)) None) }"

subsection \<open>Consecutive mints\<close>

definition max_consecutive_range :: int where "max_consecutive_range = 65535"

definition consecutive_range :: "json \<Rightarrow> json \<Rightarrow> (int \<times> int) option" where
  "consecutive_range from_v to_v =
     do {
       from_ty \<leftarrow> get_str from_v ''type'';
       to_ty \<leftarrow> get_str to_v ''type'';
       if from_ty \<notin> {''u32'', ''u64''} \<or> to_ty \<notin> {''u32'', ''u64''} then None
       else do {
         fv \<leftarrow> jget from_v ''value''; from \<leftarrow> as_u64 fv;
         tv \<leftarrow> jget to_v ''value''; to \<leftarrow> as_u64 tv;
         Some (from, to)
       }
     }"

definition range_bounds :: "json \<Rightarrow> (json \<times> json) option" where
  "range_bounds data =
     (case data_vec_elements data of
        Some elems \<Rightarrow> do { a \<leftarrow> nth_opt elems 0; b \<leftarrow> nth_opt elems 1; Some (a, b) }
      | None \<Rightarrow> do { a \<leftarrow> map_get data ''from_token_id''; b \<leftarrow> map_get data ''to_token_id''; Some (a, b) })"

definition try_parse_consecutive_mint ::
  "string \<Rightarrow> json list \<Rightarrow> json \<Rightarrow> extracted_event \<Rightarrow> nft_event list option" where
  "try_parse_consecutive_mint contract_id remaining_topics data event =
     do {
       to \<leftarrow> Option.bind (first_opt remaining_topics) topic_address_value;
       (from_v, to_v) \<leftarrow> range_bounds data;
       (from_id, to_id) \<leftarrow> consecutive_range from_v to_v;
       if to_id < from_id \<or> max_consecutive_range \<le> to_id - from_id then None
       else Some (map (\<lambda>i. nft_row contract_id event ''mint''
                        (JObj [(''type'', JStr ''u64''), (''value'', JNum i)]) None (Some to))
                    [from_id..to_id])
     }"

subsection \<open>The loop\<close>

definition nft_events_of :: "xdr_ext \<Rightarrow> strkey_ext \<Rightarrow> bytes \<Rightarrow> extracted_event \<Rightarrow> nft_event list" where
  "nft_events_of x k net_id event =
     (let data = eb_data (ev_body event) in
      if eb_event_type (ev_body event) \<noteq> EvContract then []
      else case eb_contract_id (ev_body event) of
        None \<Rightarrow> []
      | Some contract_id \<Rightarrow>
        (case as_array (eb_topics (ev_body event)) of
           None \<Rightarrow> []
         | Some [] \<Rightarrow> []
         | Some (first_topic # rest) \<Rightarrow>
             if sac_override_from_event_topics x k contract_id (eb_topics (ev_body event)) net_id \<noteq> None then []
             else
               let first_lower = to_ascii_lowercase (topic_symbol_value first_topic) in
               if first_lower = ''consecutive_mint'' then
                 unwrap_or (try_parse_consecutive_mint contract_id rest data event) []
               else if first_lower = ''transfer'' then
                 (case try_parse_transfer contract_id rest data event of Some n \<Rightarrow> [n] | None \<Rightarrow> [])
               else if first_lower = ''mint'' then
                 (case try_parse_mint contract_id rest data event of Some n \<Rightarrow> [n] | None \<Rightarrow> [])
               else if first_lower = ''burn'' then
                 (case try_parse_burn contract_id rest data event of Some n \<Rightarrow> [n] | None \<Rightarrow> [])
               else []))"

definition detect_nft_events :: "xdr_ext \<Rightarrow> strkey_ext \<Rightarrow> extracted_event list \<Rightarrow> bytes \<Rightarrow> nft_event list" where
  "detect_nft_events x k events net_id = foldl (\<lambda>out e. out @ nft_events_of x k net_id e) [] events"

text \<open>The overrides of contracts seen only in events, by contract id: the first event that proves one.\<close>

definition collect_override ::
  "xdr_ext \<Rightarrow> strkey_ext \<Rightarrow> bytes \<Rightarrow> (string \<rightharpoonup> sac_override) \<Rightarrow> extracted_event \<Rightarrow> (string \<rightharpoonup> sac_override)" where
  "collect_override x k net_id by_cid ev =
     (case eb_contract_id (ev_body ev) of
        None \<Rightarrow> by_cid
      | Some cid \<Rightarrow>
          if by_cid cid \<noteq> None then by_cid
          else case sac_override_from_event_topics x k cid (eb_topics (ev_body ev)) net_id of
                 Some ov \<Rightarrow> by_cid(cid \<mapsto> ov)
               | None \<Rightarrow> by_cid)"

definition detect_undeployed_sac_overrides ::
  "xdr_ext \<Rightarrow> strkey_ext \<Rightarrow> (string \<times> extracted_event list) list \<Rightarrow> bytes \<Rightarrow> (string \<rightharpoonup> sac_override)" where
  "detect_undeployed_sac_overrides x k events net_id =
     foldl (\<lambda>m te. foldl (collect_override x k net_id) m (snd te)) Map.empty events"

subsection \<open>Facts\<close>

lemma foldl_append_map: "foldl (\<lambda>out e. out @ f e) acc es = acc @ concat (map f es)"
  by (induction es arbitrary: acc) auto

lemma detect_nft_events_concat: "detect_nft_events x k events net_id = concat (map (nft_events_of x k net_id) events)"
  by (simp add: detect_nft_events_def foldl_append_map)

lemma extract_args_length: "extract_args ts data n = Some (addrs, t) \<Longrightarrow> length addrs = n"
  by (auto simp: extract_args_def shape_a_def shape_b_def shape_c_def opt_or_def collect_addresses_def
      dest!: mapM_opt_Some_length split: option.splits if_splits)

lemma consecutive_length:
  "try_parse_consecutive_mint c ts data ev = Some rows \<Longrightarrow> length rows \<le> 65535"
  by (auto simp: try_parse_consecutive_mint_def max_consecutive_range_def Option.bind_eq_Some_conv split: if_splits)

lemma nft_events_of_length: "length (nft_events_of x k net ev) \<le> 65535"
proof -
  have "length (unwrap_or (try_parse_consecutive_mint c ts data ev) []) \<le> 65535" for c ts data
    using consecutive_length [of c ts data ev] by (cases "try_parse_consecutive_mint c ts data ev") auto
  then show ?thesis
    by (simp add: nft_events_of_def Let_def split: option.split list.split)
qed

lemma nft_row_simps [simp]:
  "ne_contract_id (nft_row c ev kd t f to) = c" "ne_event_kind (nft_row c ev kd t f to) = kd"
  "ne_from (nft_row c ev kd t f to) = f" "ne_to (nft_row c ev kd t f to) = to"
  "ne_token_id (nft_row c ev kd t f to) = t" "ne_event_id (nft_row c ev kd t f to) = ev_event_id ev"
  by (simp_all add: nft_row_def)

definition row_shape :: "nft_event \<Rightarrow> bool" where
  "row_shape n \<longleftrightarrow>
     (ne_event_kind n = ''transfer'' \<and> ne_from n \<noteq> None \<and> ne_to n \<noteq> None) \<or>
     (ne_event_kind n = ''mint'' \<and> ne_from n = None \<and> ne_to n \<noteq> None) \<or>
     (ne_event_kind n = ''burn'' \<and> ne_from n \<noteq> None \<and> ne_to n = None)"

lemma parse_rows:
  "try_parse_transfer c ts data ev = Some n \<Longrightarrow> row_shape n \<and> ne_contract_id n = c \<and> ne_event_id n = ev_event_id ev"
  "try_parse_mint c ts data ev = Some n \<Longrightarrow> row_shape n \<and> ne_contract_id n = c \<and> ne_event_id n = ev_event_id ev"
  "try_parse_burn c ts data ev = Some n \<Longrightarrow> row_shape n \<and> ne_contract_id n = c \<and> ne_event_id n = ev_event_id ev"
  by (auto simp: try_parse_transfer_def try_parse_mint_def try_parse_burn_def row_shape_def Option.bind_eq_Some_conv)

lemma parse_consecutive_rows:
  "try_parse_consecutive_mint c ts data ev = Some rows \<Longrightarrow> n \<in> set rows \<Longrightarrow>
     row_shape n \<and> ne_contract_id n = c \<and> ne_event_id n = ev_event_id ev"
  by (auto simp: try_parse_consecutive_mint_def row_shape_def Option.bind_eq_Some_conv split: if_splits)

lemma nft_events_of_rows:
  assumes "n \<in> set (nft_events_of x k net ev)"
  shows "row_shape n \<and> eb_event_type (ev_body ev) = EvContract \<and> eb_contract_id (ev_body ev) = Some (ne_contract_id n) \<and>
         sac_override_from_event_topics x k (ne_contract_id n) (eb_topics (ev_body ev)) net = None \<and>
         ne_event_id n = ev_event_id ev"
proof -
  let ?data = "eb_data (ev_body ev)"
  have ty: "eb_event_type (ev_body ev) = EvContract"
    using assms by (cases "eb_event_type (ev_body ev) = EvContract") (simp_all add: nft_events_of_def Let_def)
  obtain c where c: "eb_contract_id (ev_body ev) = Some c"
    using assms by (cases "eb_contract_id (ev_body ev)") (simp_all add: nft_events_of_def Let_def ty)
  obtain ts' where ts': "as_array (eb_topics (ev_body ev)) = Some ts'"
    using assms by (cases "as_array (eb_topics (ev_body ev))") (simp_all add: nft_events_of_def Let_def ty c)
  obtain t ts where ts: "as_array (eb_topics (ev_body ev)) = Some (t # ts)"
    using assms by (cases ts') (simp_all add: nft_events_of_def Let_def ty c ts')
  have sac: "sac_override_from_event_topics x k c (eb_topics (ev_body ev)) net = None"
    using assms by (cases "sac_override_from_event_topics x k c (eb_topics (ev_body ev)) net")
      (simp_all add: nft_events_of_def Let_def ty c ts)
  have "n \<in> set (unwrap_or (try_parse_consecutive_mint c ts ?data ev) []) \<or>
        try_parse_transfer c ts ?data ev = Some n \<or> try_parse_mint c ts ?data ev = Some n \<or>
        try_parse_burn c ts ?data ev = Some n"
  proof -
    define verb where "verb = to_ascii_lowercase (topic_symbol_value t)"
    have rows: "nft_events_of x k net ev =
        (if verb = ''consecutive_mint'' then unwrap_or (try_parse_consecutive_mint c ts ?data ev) []
         else if verb = ''transfer'' then case_option [] (\<lambda>n. [n]) (try_parse_transfer c ts ?data ev)
         else if verb = ''mint'' then case_option [] (\<lambda>n. [n]) (try_parse_mint c ts ?data ev)
         else if verb = ''burn'' then case_option [] (\<lambda>n. [n]) (try_parse_burn c ts ?data ev) else [])"
      by (simp add: nft_events_of_def Let_def ty c ts sac verb_def)
    have one: "n \<in> set (case_option [] (\<lambda>n. [n]) m) \<Longrightarrow> m = Some n" for m by (cases m) simp_all
    consider "verb = ''consecutive_mint''" | "verb = ''transfer''" | "verb = ''mint''" | "verb = ''burn''"
      | "verb \<notin> {''consecutive_mint'', ''transfer'', ''mint'', ''burn''}" by blast
    then show ?thesis
    proof cases
      case 1
      then have "nft_events_of x k net ev = unwrap_or (try_parse_consecutive_mint c ts ?data ev) []"
        unfolding rows by simp
      with assms show ?thesis by simp
    next
      case 2
      then have "nft_events_of x k net ev = case_option [] (\<lambda>n. [n]) (try_parse_transfer c ts ?data ev)"
        unfolding rows by simp
      with assms one show ?thesis by metis
    next
      case 3
      then have "nft_events_of x k net ev = case_option [] (\<lambda>n. [n]) (try_parse_mint c ts ?data ev)"
        unfolding rows by simp
      with assms one show ?thesis by metis
    next
      case 4
      then have "nft_events_of x k net ev = case_option [] (\<lambda>n. [n]) (try_parse_burn c ts ?data ev)"
        unfolding rows by simp
      with assms one show ?thesis by metis
    next
      case 5
      then have "nft_events_of x k net ev = []" unfolding rows by simp
      with assms show ?thesis by simp
    qed
  qed
  then have "row_shape n \<and> ne_contract_id n = c \<and> ne_event_id n = ev_event_id ev"
    using parse_rows [of c ts ?data ev n] parse_consecutive_rows [of c ts ?data ev _ n]
    by (cases "try_parse_consecutive_mint c ts ?data ev") auto
  with c ty sac show ?thesis by simp
qed

subsection \<open>Properties\<close>

text \<open>C28. Every NFT row is the movement its kind says, of a contract event that is not an event of
  a classic asset's own contract; and whatever range a hostile consecutive mint announces, an
  event expands to at most 65,535 rows.\<close>

theorem nft_rows_gated_and_bounded:
  "set (detect_nft_events x k events net) \<subseteq>
     {n. row_shape n \<and> (\<exists>ev. ev \<in> set events \<and> eb_event_type (ev_body ev) = EvContract \<and>
           eb_contract_id (ev_body ev) = Some (ne_contract_id n) \<and> ne_event_id n = ev_event_id ev \<and>
           sac_override_from_event_topics x k (ne_contract_id n) (eb_topics (ev_body ev)) net = None)} \<and>
   length (detect_nft_events x k events net) \<le> 65535 * length events"
proof
  have "length (concat (map (nft_events_of x k net) events)) \<le> 65535 * length events"
  proof (induction events)
    case (Cons e es)
    then show ?case using nft_events_of_length [of x k net e] by simp
  qed simp
  then show "length (detect_nft_events x k events net) \<le> 65535 * length events"
    by (simp add: detect_nft_events_concat)
next
  show "set (detect_nft_events x k events net) \<subseteq> {n. row_shape n \<and> (\<exists>ev. ev \<in> set events \<and> eb_event_type (ev_body ev) = EvContract \<and>
           eb_contract_id (ev_body ev) = Some (ne_contract_id n) \<and> ne_event_id n = ev_event_id ev \<and>
           sac_override_from_event_topics x k (ne_contract_id n) (eb_topics (ev_body ev)) net = None)}"
    using nft_events_of_rows unfolding detect_nft_events_concat by fastforce
qed

lemma collect_override_lookup:
  "foldl (collect_override x k net) m evs cid =
     (case m cid of
        Some ov \<Rightarrow> Some ov
      | None \<Rightarrow> find_map (\<lambda>ev. if eb_contract_id (ev_body ev) = Some cid
                  then sac_override_from_event_topics x k cid (eb_topics (ev_body ev)) net else None) evs)"
proof (induction evs arbitrary: m)
  case (Cons ev evs)
  show ?case
    unfolding foldl_Cons Cons.IH
    by (cases "eb_contract_id (ev_body ev)") (auto simp: collect_override_def split: option.split)
qed (simp split: option.split)

lemma foldl_snd_concat: "foldl (\<lambda>m te. foldl f m (snd te)) m tes = foldl f m (concat (map snd tes))"
  by (induction tes arbitrary: m) auto

text \<open>A contract seen only in events is overridden by the first of its events, over all
  transactions in order, that proves the asset; no other contract gets an override.\<close>

theorem undeployed_override_first_proof:
  "detect_undeployed_sac_overrides x k events net cid =
     find_map (\<lambda>ev. if eb_contract_id (ev_body ev) = Some cid
                then sac_override_from_event_topics x k cid (eb_topics (ev_body ev)) net else None)
       (concat (map snd events))"
  unfolding detect_undeployed_sac_overrides_def foldl_snd_concat collect_override_lookup by simp

end
