(* ===== verification/Tx.thy ===== *)
theory Tx
  imports Sac
begin

text \<open>
  Transactions as the parser sees them: the operation bodies and results of the XDR schema with
  the fields the sources read, and \<open>crates/xdr-parser/src/envelope.rs\<close> and \<open>memo.rs\<close> over
  them.  What an XDR type prints as (\<open>name()\<close>, a signer key) is a parameter or a field.
\<close>

datatype muxed_account =
    MuxEd25519 bytes
  | MuxMed25519 "64 word" bytes

fun muxed_to_g_strkey :: "xdr_ext \<Rightarrow> muxed_account \<Rightarrow> string" where
  "muxed_to_g_strkey x (MuxEd25519 pk) = x_account x pk"
| "muxed_to_g_strkey x (MuxMed25519 _ pk) = x_account x pk"

fun muxed_id :: "muxed_account \<Rightarrow> int option" where
  "muxed_id (MuxEd25519 _) = None"
| "muxed_id (MuxMed25519 i _) = Some (uint i)"

datatype memo =
    MemoNone
  | MemoText bytes
  | MemoId "64 word"
  | MemoHash bytes
  | MemoReturn bytes

fun extract_memo :: "xdr_ext \<Rightarrow> memo \<Rightarrow> string option \<times> string option" where
  "extract_memo x MemoNone = (None, None)"
| "extract_memo x (MemoText t) =
     (case from_utf8 t of
        Some s \<Rightarrow> (Some ''text'', Some s)
      | None \<Rightarrow> (Some ''text_hex'', Some (x_hex x t)))"
| "extract_memo x (MemoId i) = (Some ''id'', Some (show_int (uint i)))"
| "extract_memo x (MemoHash h) = (Some ''hash'', Some (x_hex x h))"
| "extract_memo x (MemoReturn h) = (Some ''return'', Some (x_hex x h))"

subsection \<open>Operation bodies\<close>

type_synonym price = "32 word \<times> 32 word"

datatype change_trust_asset =
    CtaNative
  | CtaCredit4 bytes bytes
  | CtaCredit12 bytes bytes
  | CtaPoolShare asset asset

datatype asset_code = Code4 bytes | Code12 bytes

datatype claim_predicate =
    PredUnconditional
  | PredAnd "claim_predicate list"
  | PredOr "claim_predicate list"
  | PredNot "claim_predicate option"
  | PredBeforeAbsolute "64 word"
  | PredBeforeRelative "64 word"

record set_options_op =
  opt_inflation_dest :: "bytes option"
  opt_clear_flags :: "32 word option"
  opt_set_flags :: "32 word option"
  opt_master_weight :: "32 word option"
  opt_low_threshold :: "32 word option"
  opt_med_threshold :: "32 word option"
  opt_high_threshold :: "32 word option"
  opt_home_domain :: "bytes option"
  opt_signer :: "(bytes \<times> 32 word) option"

datatype revoke_sponsorship_op =
    RevokeLedgerEntry ledger_key
  | RevokeSigner bytes bytes

datatype authorized_function =
    AuthContractFn sc_address bytes "scval list"
  | AuthCreateContract contract_id_preimage executable
  | AuthCreateContractV2 contract_id_preimage executable "scval list"

datatype auth_invocation = AuthInvocation (ai_function: authorized_function) (ai_subs: "auth_invocation list")

datatype soroban_credentials =
    CredSourceAccount
  | CredAddress sc_address
  | CredAddressV2 sc_address
  | CredAddressWithDelegates sc_address

datatype host_function =
    HostInvokeContract sc_address bytes "scval list"
  | HostCreateContract contract_id_preimage executable
  | HostUploadWasm bytes
  | HostCreateContractV2 contract_id_preimage executable "scval list"

datatype operation_body =
    BodyCreateAccount bytes "64 word"
  | BodyPayment muxed_account asset "64 word"
  | BodyPathPaymentStrictReceive asset "64 word" muxed_account asset "64 word" "asset list"
  | BodyManageSellOffer asset asset "64 word" price "64 word"
  | BodyCreatePassiveSellOffer asset asset "64 word" price
  | BodySetOptions set_options_op
  | BodyChangeTrust change_trust_asset "64 word"
  | BodyAllowTrust bytes asset_code "32 word"
  | BodyAccountMerge muxed_account
  | BodyInflation
  | BodyManageData bytes "bytes option"
  | BodyBumpSequence "64 word"
  | BodyManageBuyOffer asset asset "64 word" price "64 word"
  | BodyPathPaymentStrictSend asset "64 word" muxed_account asset "64 word" "asset list"
  | BodyCreateClaimableBalance asset "64 word" "(bytes \<times> claim_predicate) list"
  | BodyClaimClaimableBalance bytes
  | BodyBeginSponsoringFutureReserves bytes
  | BodyEndSponsoringFutureReserves
  | BodyRevokeSponsorship revoke_sponsorship_op
  | BodyClawback asset muxed_account "64 word"
  | BodyClawbackClaimableBalance bytes
  | BodySetTrustLineFlags bytes asset "32 word" "32 word"
  | BodyLiquidityPoolDeposit bytes "64 word" "64 word" price price
  | BodyLiquidityPoolWithdraw bytes "64 word" "64 word" "64 word"
  | BodyInvokeHostFunction host_function "(soroban_credentials \<times> auth_invocation) list"
  | BodyExtendFootprintTtl "32 word"
  | BodyRestoreFootprint

record operation =
  op_source_account :: "muxed_account option"
  op_body :: operation_body

subsection \<open>Operation results\<close>

record claim_liquidity_atom =
  cl_pool_id :: bytes
  cl_asset_sold :: asset
  cl_amount_sold :: "64 word"
  cl_asset_bought :: asset
  cl_amount_bought :: "64 word"

datatype claim_atom =
    AtomV0 bytes
  | AtomOrderBook bytes
  | AtomLiquidityPool claim_liquidity_atom

datatype offers_result =
    OffersSuccess "claim_atom list"
  | OffersFailure string

datatype operation_result_tr =
    TrPathPaymentStrictReceive offers_result
  | TrPathPaymentStrictSend offers_result
  | TrManageSellOffer offers_result
  | TrCreatePassiveSellOffer offers_result
  | TrManageBuyOffer offers_result
  | TrOther operation_type string

datatype operation_result =
    OpInner operation_result_tr
  | OpNotApplied string

datatype inner_tx_result =
    InnerSuccess "operation_result list"
  | InnerFailed "operation_result list"
  | InnerOther

datatype tx_result =
    TxSuccess "operation_result list"
  | TxFailed "operation_result list"
  | TxFeeBumpInnerSuccess inner_tx_result
  | TxFeeBumpInnerFailed inner_tx_result
  | TxOther string

subsection \<open>Envelopes\<close>

datatype inner_tx =
    InnerV0 bytes memo "operation list"
  | InnerV1 muxed_account memo "operation list"

datatype tx_envelope =
    EnvV0 bytes memo "operation list"
  | EnvV1 muxed_account memo "operation list"
  | EnvFeeBump muxed_account muxed_account memo "operation list"

fun inner_transaction :: "tx_envelope \<Rightarrow> inner_tx" where
  "inner_transaction (EnvV0 src m ops) = InnerV0 src m ops"
| "inner_transaction (EnvV1 src m ops) = InnerV1 src m ops"
| "inner_transaction (EnvFeeBump _ src m ops) = InnerV1 src m ops"

fun inner_memo :: "inner_tx \<Rightarrow> memo" where
  "inner_memo (InnerV0 _ m _) = m"
| "inner_memo (InnerV1 _ m _) = m"

fun inner_source_account :: "xdr_ext \<Rightarrow> inner_tx \<Rightarrow> string" where
  "inner_source_account x (InnerV0 src _ _) = x_account x src"
| "inner_source_account x (InnerV1 src _ _) = muxed_to_g_strkey x src"

fun inner_source_muxed_id :: "inner_tx \<Rightarrow> int option" where
  "inner_source_muxed_id (InnerV0 _ _ _) = None"
| "inner_source_muxed_id (InnerV1 src _ _) = muxed_id src"

fun inner_operations :: "inner_tx \<Rightarrow> operation list" where
  "inner_operations (InnerV0 _ _ ops) = ops"
| "inner_operations (InnerV1 _ _ ops) = ops"

definition envelope_source :: "xdr_ext \<Rightarrow> tx_envelope \<Rightarrow> string" where
  "envelope_source x env = inner_source_account x (inner_transaction env)"

fun envelope_fee_source :: "xdr_ext \<Rightarrow> tx_envelope \<Rightarrow> string option" where
  "envelope_fee_source x (EnvFeeBump fee _ _ _) = Some (muxed_to_g_strkey x fee)"
| "envelope_fee_source x (EnvV0 _ _ _) = None"
| "envelope_fee_source x (EnvV1 _ _ _) = None"

text \<open>
  Envelopes arrive in the order of the transaction set and are put in the order of processing by
  their hash: \<open>HashMap::remove\<close> takes each envelope at most once.
\<close>

fun align_envelopes :: "(bytes \<rightharpoonup> 'e) \<Rightarrow> bytes list \<Rightarrow> 'e option list" where
  "align_envelopes by_hash [] = []"
| "align_envelopes by_hash (h # hs) = by_hash h # align_envelopes (by_hash(h := None)) hs"

definition extract_envelopes :: "('e \<Rightarrow> bytes) \<Rightarrow> 'e list \<Rightarrow> bytes list \<Rightarrow> 'e option list" where
  "extract_envelopes env_hash raw processing =
     align_envelopes (foldl (\<lambda>m e. m(env_hash e \<mapsto> e)) Map.empty raw) processing"

text \<open>
  The two representations of an operation's source: the \<open>G\<close> key of the account and the id that
  only a muxed address has keep everything the muxed address says.
\<close>

lemma muxed_account_lossless:
  assumes "inj (x_account x)"
  shows "(muxed_to_g_strkey x a, muxed_id a) = (muxed_to_g_strkey x b, muxed_id b) \<longleftrightarrow> a = b"
  by (cases a; cases b) (simp_all add: inj_eq [OF assms] uint_inj conj_commute)

lemma align_envelopes_distinct:
  "distinct hs \<Longrightarrow> align_envelopes m hs = map m hs"
proof (induction hs arbitrary: m)
  case (Cons h hs)
  have "map (m(h := None)) hs = map m hs" using Cons.prems by (simp add: map_fun_upd)
  with Cons.IH [of "m(h := None)"] Cons.prems show ?case by (simp del: fun_upd_apply)
qed simp

lemma index_by_hash:
  "distinct (map env_hash raw) \<Longrightarrow> e \<in> set raw \<Longrightarrow>
     foldl (\<lambda>m e. m(env_hash e \<mapsto> e)) m0 raw (env_hash e) = Some e"
proof (induction raw arbitrary: m0)
  case (Cons a raw)
  have keep: "foldl (\<lambda>m e. m(env_hash e \<mapsto> e)) m raw h = m h" if "h \<notin> env_hash ` set raw" for m h
    using that by (induction raw arbitrary: m) auto
  show ?case
  proof (cases "e = a")
    case True
    with Cons.prems have "env_hash a \<notin> env_hash ` set raw" by simp
    then have "foldl (\<lambda>m e. m(env_hash e \<mapsto> e)) (m0(env_hash a \<mapsto> a)) raw (env_hash a) =
        (m0(env_hash a \<mapsto> a)) (env_hash a)" by (rule keep)
    with True show ?thesis by (simp only: foldl_Cons fun_upd_same)
  next
    case False
    then have "foldl (\<lambda>m e. m(env_hash e \<mapsto> e)) (m0(env_hash a \<mapsto> a)) raw (env_hash e) = Some e"
      using Cons.prems by (intro Cons.IH) simp_all
    then show ?thesis by (simp only: foldl_Cons)
  qed
qed simp

end
