(* ===== verification/Operation.thy ===== *)
theory Operation
  imports Tx AssetTransfers
begin

text \<open>
  \<open>crates/xdr-parser/src/operation.rs\<close>, \<open>asset_appearances.rs\<close> and \<open>op_participants.rs\<close>: each
  operation of a transaction with its type, the JSON of its details, the assets it declares and
  the accounts it touches.  The names of XDR variants are parameters.
\<close>

record op_names =
  n_ledger_key :: "ledger_key \<Rightarrow> string"
  n_signer_key :: "bytes \<Rightarrow> string"
  n_pool_params :: string

subsection \<open>Results\<close>

fun tx_op_results :: "tx_result \<Rightarrow> operation_result list option" where
  "tx_op_results (TxSuccess ops) = Some ops"
| "tx_op_results (TxFeeBumpInnerSuccess (InnerSuccess ops)) = Some ops"
| "tx_op_results _ = None"

fun inner_results_any :: "inner_tx_result \<Rightarrow> operation_result list option" where
  "inner_results_any (InnerSuccess ops) = Some ops"
| "inner_results_any (InnerFailed ops) = Some ops"
| "inner_results_any InnerOther = None"

fun tx_op_results_any :: "tx_result \<Rightarrow> operation_result list option" where
  "tx_op_results_any (TxSuccess ops) = Some ops"
| "tx_op_results_any (TxFailed ops) = Some ops"
| "tx_op_results_any (TxFeeBumpInnerSuccess r) = inner_results_any r"
| "tx_op_results_any (TxFeeBumpInnerFailed r) = inner_results_any r"
| "tx_op_results_any (TxOther _) = None"

fun offers_result_name :: "offers_result \<Rightarrow> string" where
  "offers_result_name (OffersSuccess _) = ''Success''"
| "offers_result_name (OffersFailure n) = n"

fun op_result_code :: "operation_result \<Rightarrow> string" where
  "op_result_code (OpInner (TrPathPaymentStrictReceive r)) = offers_result_name r"
| "op_result_code (OpInner (TrPathPaymentStrictSend r)) = offers_result_name r"
| "op_result_code (OpInner (TrManageSellOffer r)) = offers_result_name r"
| "op_result_code (OpInner (TrCreatePassiveSellOffer r)) = offers_result_name r"
| "op_result_code (OpInner (TrManageBuyOffer r)) = offers_result_name r"
| "op_result_code (OpInner (TrOther _ n)) = n"
| "op_result_code (OpNotApplied n) = n"

fun claim_atoms :: "operation_result \<Rightarrow> claim_atom list" where
  "claim_atoms (OpInner (TrPathPaymentStrictSend (OffersSuccess s))) = s"
| "claim_atoms (OpInner (TrPathPaymentStrictReceive (OffersSuccess s))) = s"
| "claim_atoms (OpInner (TrManageSellOffer (OffersSuccess m))) = m"
| "claim_atoms (OpInner (TrCreatePassiveSellOffer (OffersSuccess m))) = m"
| "claim_atoms (OpInner (TrManageBuyOffer (OffersSuccess m))) = m"
| "claim_atoms _ = []"

definition claim_lp_atoms :: "operation_result \<Rightarrow> claim_liquidity_atom list" where
  "claim_lp_atoms r = filter_map (\<lambda>a. case a of AtomLiquidityPool lp \<Rightarrow> Some lp | _ \<Rightarrow> None) (claim_atoms r)"

subsection \<open>Formatting\<close>

abbreviation jstr :: "string \<Rightarrow> json" where "jstr \<equiv> JStr"

definition jopt :: "('a \<Rightarrow> json) \<Rightarrow> 'a option \<Rightarrow> json" where
  "jopt f v = (case v of Some a \<Rightarrow> f a | None \<Rightarrow> JNull)"

definition ji64 :: "64 word \<Rightarrow> json" where "ji64 w = JNum (sint w)"
definition ju32 :: "32 word \<Rightarrow> json" where "ju32 w = JNum (uint w)"

text \<open>\<open>Map::insert\<close>: a key keeps its place, a new one goes to the end.\<close>

fun jinsert :: "string \<Rightarrow> json \<Rightarrow> (string \<times> json) list \<Rightarrow> (string \<times> json) list" where
  "jinsert k v [] = [(k, v)]"
| "jinsert k v ((k', v') # ms) = (if k' = k then (k, v) # ms else (k', v') # jinsert k v ms)"

definition jset :: "string \<Rightarrow> json \<Rightarrow> json \<Rightarrow> json" where
  "jset k v d = (case d of JObj ms \<Rightarrow> JObj (jinsert k v ms) | _ \<Rightarrow> d)"

definition credit_text :: "xdr_ext \<Rightarrow> bytes \<Rightarrow> bytes \<Rightarrow> string" where
  "credit_text x code issuer = asset_code_str x code @ CHR '':'' # x_account x issuer"

fun format_asset :: "xdr_ext \<Rightarrow> asset \<Rightarrow> json" where
  "format_asset x AssetNative = JStr ''native''"
| "format_asset x (AssetCredit4 code issuer) = JStr (credit_text x code issuer)"
| "format_asset x (AssetCredit12 code issuer) = JStr (credit_text x code issuer)"

fun format_change_trust_asset :: "xdr_ext \<Rightarrow> op_names \<Rightarrow> change_trust_asset \<Rightarrow> json" where
  "format_change_trust_asset x n CtaNative = JStr ''native''"
| "format_change_trust_asset x n (CtaCredit4 code issuer) = JStr (credit_text x code issuer)"
| "format_change_trust_asset x n (CtaCredit12 code issuer) = JStr (credit_text x code issuer)"
| "format_change_trust_asset x n (CtaPoolShare _ _) =
     JObj [(''type'', JStr ''liquidityPool''), (''params'', JStr (n_pool_params n))]"

fun asset_code_bytes :: "asset_code \<Rightarrow> bytes" where
  "asset_code_bytes (Code4 b) = b"
| "asset_code_bytes (Code12 b) = b"

definition format_asset_code :: "xdr_ext \<Rightarrow> asset_code \<Rightarrow> json" where
  "format_asset_code x code = JStr (asset_code_str x (asset_code_bytes code))"

definition format_price :: "price \<Rightarrow> json" where
  "format_price p = JObj [(''n'', JNum (sint (fst p))), (''d'', JNum (sint (snd p)))]"

fun claim_predicate_json :: "claim_predicate \<Rightarrow> json" where
  "claim_predicate_json PredUnconditional = JObj [(''type'', JStr ''unconditional'')]"
| "claim_predicate_json (PredAnd ps) =
     JObj [(''type'', JStr ''and''), (''predicates'', JArr (map claim_predicate_json ps))]"
| "claim_predicate_json (PredOr ps) =
     JObj [(''type'', JStr ''or''), (''predicates'', JArr (map claim_predicate_json ps))]"
| "claim_predicate_json (PredNot None) = JObj [(''type'', JStr ''not''), (''predicate'', JNull)]"
| "claim_predicate_json (PredNot (Some p)) =
     JObj [(''type'', JStr ''not''), (''predicate'', claim_predicate_json p)]"
| "claim_predicate_json (PredBeforeAbsolute t) =
     JObj [(''type'', JStr ''beforeAbsoluteTime''), (''timePoint'', ji64 t)]"
| "claim_predicate_json (PredBeforeRelative s) =
     JObj [(''type'', JStr ''beforeRelativeTime''), (''seconds'', ji64 s)]"

definition claimant_json :: "xdr_ext \<Rightarrow> bytes \<times> claim_predicate \<Rightarrow> json" where
  "claimant_json x c =
     JObj [(''destination'', JStr (x_account x (fst c))), (''predicate'', claim_predicate_json (snd c))]"

definition format_contract_executable :: "xdr_ext \<Rightarrow> executable \<Rightarrow> json" where
  "format_contract_executable x e =
     (case e of
        ExecWasm h \<Rightarrow> JObj [(''type'', JStr ''wasm''), (''hash'', JStr (x_hex x h))]
      | ExecStellarAsset \<Rightarrow> JObj [(''type'', JStr ''stellar_asset'')]
      | ExecExternalRef owner tag \<Rightarrow>
          JObj [(''type'', JStr ''external_ref''), (''owner'', JStr (x_address x owner)),
                (''tag'', utf8_or_invalid tag)])"

subsection \<open>The operation's own ledger changes\<close>

fun op_meta_changes :: "tx_meta option \<Rightarrow> nat \<Rightarrow> ledger_entry_change list" where
  "op_meta_changes None i = []"
| "op_meta_changes (Some MetaOld) i = []"
| "op_meta_changes (Some (MetaV3 v3)) i = unwrap_or (nth_opt (m3_operations v3) i) []"
| "op_meta_changes (Some (MetaV4 v4)) i = unwrap_or (map_option o4_changes (nth_opt (m4_operations v4) i)) []"

fun present_entry :: "ledger_entry_change \<Rightarrow> ledger_entry option" where
  "present_entry (ChState e) = Some e"
| "present_entry (ChCreated e) = Some e"
| "present_entry (ChUpdated e) = Some e"
| "present_entry (ChRestored e) = Some e"
| "present_entry (ChRemoved _) = None"

definition claimed_cb_asset_amount :: "ledger_entry_change list \<Rightarrow> bytes \<Rightarrow> (asset \<times> 64 word) option" where
  "claimed_cb_asset_amount changes balance_id =
     find_map (\<lambda>c. case present_entry c of
        Some (EntryClaimableBalance i a amt _) \<Rightarrow> if i = balance_id then Some (a, amt) else None
      | _ \<Rightarrow> None) changes"

definition cb_details :: "xdr_ext \<Rightarrow> ledger_entry_change list \<Rightarrow> bytes \<Rightarrow> json" where
  "cb_details x op_changes balance_id =
     (let d = JObj [(''balanceId'', JStr (x_hex x balance_id))] in
      case claimed_cb_asset_amount op_changes balance_id of
        Some (a, amount) \<Rightarrow> jset ''amount'' (ji64 amount) (jset ''asset'' (format_asset x a) d)
      | None \<Rightarrow> d)"

record constant_product =
  cp_asset_a :: asset
  cp_asset_b :: asset
  cp_reserve_a :: "64 word"
  cp_reserve_b :: "64 word"

fun pool_constant_product :: "ledger_entry \<Rightarrow> bytes \<Rightarrow> constant_product option" where
  "pool_constant_product (EntryLiquidityPool i a b ra rb _) pool_id =
     (if i = pool_id
      then Some \<lparr>cp_asset_a = a, cp_asset_b = b, cp_reserve_a = ra, cp_reserve_b = rb\<rparr> else None)"
| "pool_constant_product _ pool_id = None"

record pool_images =
  pi_before :: "constant_product option"
  pi_after :: "constant_product option"
  pi_removed :: bool

definition pool_image_step :: "bytes \<Rightarrow> pool_images \<Rightarrow> ledger_entry_change \<Rightarrow> pool_images" where
  "pool_image_step pool_id s change =
     (case change of
        ChState e \<Rightarrow> s\<lparr>pi_before := opt_or (pi_before s) (pool_constant_product e pool_id)\<rparr>
      | ChCreated e \<Rightarrow> s\<lparr>pi_after := opt_or (pool_constant_product e pool_id) (pi_after s)\<rparr>
      | ChUpdated e \<Rightarrow> s\<lparr>pi_after := opt_or (pool_constant_product e pool_id) (pi_after s)\<rparr>
      | ChRestored e \<Rightarrow> s\<lparr>pi_after := opt_or (pool_constant_product e pool_id) (pi_after s)\<rparr>
      | ChRemoved (KeyLiquidityPool k) \<Rightarrow> s\<lparr>pi_removed := (pi_removed s \<or> k = pool_id)\<rparr>
      | ChRemoved _ \<Rightarrow> s)"

definition pool_images_of :: "ledger_entry_change list \<Rightarrow> bytes \<Rightarrow> pool_images" where
  "pool_images_of op_changes pool_id =
     foldl (pool_image_step pool_id) \<lparr>pi_before = None, pi_after = None, pi_removed = False\<rparr> op_changes"

text \<open>The two legs of the delta with the pool's assets, before they are written as JSON.\<close>

definition pool_delta :: "ledger_entry_change list \<Rightarrow> bytes \<Rightarrow> (asset \<times> 64 word \<times> asset \<times> 64 word) option" where
  "pool_delta op_changes pool_id =
     (let s = pool_images_of op_changes pool_id in
      do {
        params \<leftarrow> opt_or (pi_after s) (pi_before s);
        let (before_a, before_b) =
          (case pi_before s of Some cp \<Rightarrow> (cp_reserve_a cp, cp_reserve_b cp) | None \<Rightarrow> (0, 0));
        (after_a, after_b) \<leftarrow>
          (if pi_removed s then Some (0, 0)
           else map_option (\<lambda>cp. (cp_reserve_a cp, cp_reserve_b cp)) (pi_after s));
        let (delta_a, delta_b) = (after_a - before_a, after_b - before_b);
        if delta_a = 0 \<and> delta_b = 0 then None
        else Some (cp_asset_a params, delta_a, cp_asset_b params, delta_b)
      })"

definition pool_delta_details :: "xdr_ext \<Rightarrow> ledger_entry_change list \<Rightarrow> bytes \<Rightarrow> json option" where
  "pool_delta_details x op_changes pool_id =
     map_option (\<lambda>(a, delta_a, b, delta_b).
        JObj [(''poolId'', JStr (x_hex x pool_id)), (''assetA'', format_asset x a),
              (''amountA'', ji64 delta_a), (''assetB'', format_asset x b), (''amountB'', ji64 delta_b)])
       (pool_delta op_changes pool_id)"

subsection \<open>Pool crossings\<close>

fun asset_key :: "asset \<Rightarrow> nat \<times> bytes \<times> bytes" where
  "asset_key AssetNative = (0, [], [])"
| "asset_key (AssetCredit4 code issuer) = (1, code, issuer)"
| "asset_key (AssetCredit12 code issuer) = (2, code, issuer)"

definition amount_a :: "claim_liquidity_atom \<Rightarrow> 64 word" where
  "amount_a atom =
     (if asset_key (cl_asset_sold atom) \<le> asset_key (cl_asset_bought atom)
      then cl_amount_sold atom else cl_amount_bought atom)"

definition claimed_atom_json :: "xdr_ext \<Rightarrow> claim_liquidity_atom \<Rightarrow> json" where
  "claimed_atom_json x atom =
     JObj [(''poolId'', JStr (x_hex x (cl_pool_id atom))),
           (''assetSold'', format_asset x (cl_asset_sold atom)), (''amountSold'', ji64 (cl_amount_sold atom)),
           (''assetBought'', format_asset x (cl_asset_bought atom)), (''amountBought'', ji64 (cl_amount_bought atom)),
           (''amountA'', ji64 (amount_a atom))]"

definition push_pool_id :: "xdr_ext \<Rightarrow> string list \<Rightarrow> claim_liquidity_atom \<Rightarrow> string list" where
  "push_pool_id x ids atom =
     (let i = x_hex x (cl_pool_id atom) in if i \<in> set ids then ids else ids @ [i])"

definition append_pool_claims :: "xdr_ext \<Rightarrow> json \<Rightarrow> operation_result option \<Rightarrow> json" where
  "append_pool_claims x details op_result =
     (case op_result of
        None \<Rightarrow> details
      | Some r \<Rightarrow>
          let atoms = claim_lp_atoms r in
          if atoms = [] then details
          else jset ''claimedAtoms'' (JArr (map (claimed_atom_json x) atoms))
                 (jset ''poolIds'' (JArr (map JStr (foldl (push_pool_id x) [] atoms))) details))"

subsection \<open>Details\<close>

definition opt_member :: "string \<Rightarrow> ('a \<Rightarrow> json) \<Rightarrow> 'a option \<Rightarrow> (string \<times> json) list \<Rightarrow> (string \<times> json) list" where
  "opt_member k f v ms = (case v of Some a \<Rightarrow> jinsert k (f a) ms | None \<Rightarrow> ms)"

definition set_options_details :: "xdr_ext \<Rightarrow> op_names \<Rightarrow> set_options_op \<Rightarrow> json" where
  "set_options_details x n op =
     JObj
      (opt_member ''signerWeight'' (\<lambda>s. ju32 (snd s)) (opt_signer op)
      (opt_member ''signerKey'' (\<lambda>s. JStr (n_signer_key n (fst s))) (opt_signer op)
      (opt_member ''homeDomain'' utf8_or_invalid (opt_home_domain op)
      (opt_member ''highThreshold'' ju32 (opt_high_threshold op)
      (opt_member ''medThreshold'' ju32 (opt_med_threshold op)
      (opt_member ''lowThreshold'' ju32 (opt_low_threshold op)
      (opt_member ''masterWeight'' ju32 (opt_master_weight op)
      (opt_member ''setFlags'' ju32 (opt_set_flags op)
      (opt_member ''clearFlags'' ju32 (opt_clear_flags op)
      (opt_member ''inflationDest'' (\<lambda>a. JStr (x_account x a)) (opt_inflation_dest op) []))))))))))"

definition extract_invoke_host_function :: "xdr_ext \<Rightarrow> host_function \<Rightarrow> scval option \<Rightarrow> json" where
  "extract_invoke_host_function x f return_value =
     (case f of
        HostInvokeContract addr name args \<Rightarrow>
          JObj [(''hostFunctionType'', JStr ''invokeContract''), (''contractId'', JStr (x_address x addr)),
                (''functionName'', utf8_or_invalid name),
                (''functionArgs'', JArr (map (scval_to_typed_json x) args)),
                (''returnValue'', jopt (scval_to_typed_json x) return_value)]
      | HostCreateContract _ e \<Rightarrow>
          JObj [(''hostFunctionType'', JStr ''createContract''), (''executable'', format_contract_executable x e)]
      | HostUploadWasm wasm \<Rightarrow>
          JObj [(''hostFunctionType'', JStr ''uploadContractWasm''), (''wasmLength'', JNum (int (length wasm)))]
      | HostCreateContractV2 _ e args \<Rightarrow>
          JObj [(''hostFunctionType'', JStr ''createContractV2''), (''executable'', format_contract_executable x e),
                (''constructorArgs'', JArr (map (scval_to_typed_json x) args))])"

definition with_pool_delta :: "xdr_ext \<Rightarrow> ledger_entry_change list \<Rightarrow> bytes \<Rightarrow> json \<Rightarrow> json" where
  "with_pool_delta x op_changes pool_id d =
     (case pool_delta_details x op_changes pool_id of Some delta \<Rightarrow> jset ''poolDelta'' delta d | None \<Rightarrow> d)"

fun op_type_details ::
  "xdr_ext \<Rightarrow> op_names \<Rightarrow> scval option \<Rightarrow> ledger_entry_change list \<Rightarrow> operation_body \<Rightarrow> operation_type \<times> json" where
  "op_type_details x n rv ch (BodyCreateAccount dest bal) =
     (OpCreateAccount, JObj [(''destination'', JStr (x_account x dest)), (''startingBalance'', ji64 bal)])"
| "op_type_details x n rv ch (BodyPayment dest a amt) =
     (OpPayment, JObj [(''destination'', JStr (muxed_to_g_strkey x dest)), (''asset'', format_asset x a),
                       (''amount'', ji64 amt)])"
| "op_type_details x n rv ch (BodyPathPaymentStrictReceive sa smax dest da damt path) =
     (OpPathPaymentStrictReceive,
      JObj [(''sendAsset'', format_asset x sa), (''sendMax'', ji64 smax),
            (''destination'', JStr (muxed_to_g_strkey x dest)), (''destAsset'', format_asset x da),
            (''destAmount'', ji64 damt), (''path'', JArr (map (format_asset x) path))])"
| "op_type_details x n rv ch (BodyPathPaymentStrictSend sa samt dest da dmin path) =
     (OpPathPaymentStrictSend,
      JObj [(''sendAsset'', format_asset x sa), (''sendAmount'', ji64 samt),
            (''destination'', JStr (muxed_to_g_strkey x dest)), (''destAsset'', format_asset x da),
            (''destMin'', ji64 dmin), (''path'', JArr (map (format_asset x) path))])"
| "op_type_details x n rv ch (BodyManageSellOffer s b amt p i) =
     (OpManageSellOffer,
      JObj [(''selling'', format_asset x s), (''buying'', format_asset x b), (''amount'', ji64 amt),
            (''price'', format_price p), (''offerId'', ji64 i)])"
| "op_type_details x n rv ch (BodyManageBuyOffer s b amt p i) =
     (OpManageBuyOffer,
      JObj [(''selling'', format_asset x s), (''buying'', format_asset x b), (''buyAmount'', ji64 amt),
            (''price'', format_price p), (''offerId'', ji64 i)])"
| "op_type_details x n rv ch (BodyCreatePassiveSellOffer s b amt p) =
     (OpCreatePassiveSellOffer,
      JObj [(''selling'', format_asset x s), (''buying'', format_asset x b), (''amount'', ji64 amt),
            (''price'', format_price p)])"
| "op_type_details x n rv ch (BodySetOptions op) = (OpSetOptions, set_options_details x n op)"
| "op_type_details x n rv ch (BodyChangeTrust line limit) =
     (OpChangeTrust, JObj [(''asset'', format_change_trust_asset x n line), (''limit'', ji64 limit)])"
| "op_type_details x n rv ch (BodyAllowTrust trustor code auth) =
     (OpAllowTrust, JObj [(''trustor'', JStr (x_account x trustor)), (''asset'', format_asset_code x code),
                          (''authorize'', ju32 auth)])"
| "op_type_details x n rv ch (BodyAccountMerge dest) =
     (OpAccountMerge, JObj [(''destination'', JStr (muxed_to_g_strkey x dest))])"
| "op_type_details x n rv ch BodyInflation = (OpInflation, JObj [])"
| "op_type_details x n rv ch (BodyManageData name v) =
     (OpManageData, JObj [(''name'', utf8_or_invalid name), (''value'', jopt (\<lambda>b. JStr (x_b64 x b)) v)])"
| "op_type_details x n rv ch (BodyBumpSequence to) = (OpBumpSequence, JObj [(''bumpTo'', ji64 to)])"
| "op_type_details x n rv ch (BodyCreateClaimableBalance a amt cs) =
     (OpCreateClaimableBalance,
      JObj [(''asset'', format_asset x a), (''amount'', ji64 amt), (''claimants'', JArr (map (claimant_json x) cs))])"
| "op_type_details x n rv ch (BodyClaimClaimableBalance i) = (OpClaimClaimableBalance, cb_details x ch i)"
| "op_type_details x n rv ch (BodyBeginSponsoringFutureReserves a) =
     (OpBeginSponsoringFutureReserves, JObj [(''sponsoredId'', JStr (x_account x a))])"
| "op_type_details x n rv ch BodyEndSponsoringFutureReserves = (OpEndSponsoringFutureReserves, JObj [])"
| "op_type_details x n rv ch (BodyRevokeSponsorship (RevokeLedgerEntry key)) =
     (OpRevokeSponsorship, JObj [(''kind'', JStr ''ledgerEntry''), (''ledgerKeyType'', JStr (n_ledger_key n key))])"
| "op_type_details x n rv ch (BodyRevokeSponsorship (RevokeSigner a k)) =
     (OpRevokeSponsorship, JObj [(''kind'', JStr ''signer''), (''accountId'', JStr (x_account x a)),
                                 (''signerKey'', JStr (n_signer_key n k))])"
| "op_type_details x n rv ch (BodyClawback a from amt) =
     (OpClawback, JObj [(''asset'', format_asset x a), (''from'', JStr (muxed_to_g_strkey x from)),
                        (''amount'', ji64 amt)])"
| "op_type_details x n rv ch (BodyClawbackClaimableBalance i) = (OpClawbackClaimableBalance, cb_details x ch i)"
| "op_type_details x n rv ch (BodySetTrustLineFlags trustor a clear st) =
     (OpSetTrustLineFlags,
      JObj [(''trustor'', JStr (x_account x trustor)), (''asset'', format_asset x a),
            (''clearFlags'', ju32 clear), (''setFlags'', ju32 st)])"
| "op_type_details x n rv ch (BodyLiquidityPoolDeposit pool maxa maxb pmin pmax) =
     (OpLiquidityPoolDeposit,
      with_pool_delta x ch pool
        (JObj [(''liquidityPoolId'', JStr (x_hex x pool)), (''maxAmountA'', ji64 maxa), (''maxAmountB'', ji64 maxb),
               (''minPrice'', format_price pmin), (''maxPrice'', format_price pmax)]))"
| "op_type_details x n rv ch (BodyLiquidityPoolWithdraw pool amt mina minb) =
     (OpLiquidityPoolWithdraw,
      with_pool_delta x ch pool
        (JObj [(''liquidityPoolId'', JStr (x_hex x pool)), (''amount'', ji64 amt),
               (''minAmountA'', ji64 mina), (''minAmountB'', ji64 minb)]))"
| "op_type_details x n rv ch (BodyInvokeHostFunction f auth) =
     (OpInvokeHostFunction, extract_invoke_host_function x f rv)"
| "op_type_details x n rv ch (BodyExtendFootprintTtl to) = (OpExtendFootprintTtl, JObj [(''extendTo'', ju32 to)])"
| "op_type_details x n rv ch BodyRestoreFootprint = (OpRestoreFootprint, JObj [])"

definition extract_op_details ::
  "xdr_ext \<Rightarrow> op_names \<Rightarrow> operation_body \<Rightarrow> scval option \<Rightarrow> operation_result option \<Rightarrow>
   ledger_entry_change list \<Rightarrow> operation_type \<times> json" where
  "extract_op_details x n body return_value op_result op_changes =
     (case op_type_details x n return_value op_changes body of
        (op_type, details) \<Rightarrow> (op_type, append_pool_claims x details op_result))"

subsection \<open>Assets and accounts an operation declares\<close>

definition credit_ref :: "xdr_ext \<Rightarrow> bytes \<Rightarrow> string \<Rightarrow> asset_ref" where
  "credit_ref x code issuer = ArCredit (asset_code_str x code) issuer"

fun asset_ref_of :: "xdr_ext \<Rightarrow> asset \<Rightarrow> asset_ref" where
  "asset_ref_of x AssetNative = ArNative"
| "asset_ref_of x (AssetCredit4 code issuer) = credit_ref x code (x_account x issuer)"
| "asset_ref_of x (AssetCredit12 code issuer) = credit_ref x code (x_account x issuer)"

fun trustline_asset_ref :: "xdr_ext \<Rightarrow> trustline_asset \<Rightarrow> asset_ref option" where
  "trustline_asset_ref x TlNative = Some ArNative"
| "trustline_asset_ref x (TlCredit4 code issuer) = Some (credit_ref x code (x_account x issuer))"
| "trustline_asset_ref x (TlCredit12 code issuer) = Some (credit_ref x code (x_account x issuer))"
| "trustline_asset_ref x (TlPoolShare _) = None"

definition claimed_cb_asset :: "xdr_ext \<Rightarrow> ledger_entry_change list \<Rightarrow> bytes \<Rightarrow> asset_ref option" where
  "claimed_cb_asset x changes balance_id =
     map_option (\<lambda>(a, _). asset_ref_of x a) (claimed_cb_asset_amount changes balance_id)"

definition lp_pool_assets :: "xdr_ext \<Rightarrow> ledger_entry_change list \<Rightarrow> bytes \<Rightarrow> (asset_ref \<times> asset_ref) option" where
  "lp_pool_assets x changes pool_id =
     find_map (\<lambda>c. case present_entry c of
        Some (EntryLiquidityPool i a b _ _ _) \<Rightarrow>
          if i = pool_id then Some (asset_ref_of x a, asset_ref_of x b) else None
      | _ \<Rightarrow> None) changes"

fun emit_asset_appearances ::
  "xdr_ext \<Rightarrow> string \<Rightarrow> ledger_entry_change list \<Rightarrow> operation_body \<Rightarrow> asset_ref list" where
  "emit_asset_appearances x src ch (BodyPayment _ a _) = [asset_ref_of x a]"
| "emit_asset_appearances x src ch (BodyPathPaymentStrictReceive sa _ _ da _ path) =
     asset_ref_of x sa # map (asset_ref_of x) path @ [asset_ref_of x da]"
| "emit_asset_appearances x src ch (BodyPathPaymentStrictSend sa _ _ da _ path) =
     asset_ref_of x sa # map (asset_ref_of x) path @ [asset_ref_of x da]"
| "emit_asset_appearances x src ch (BodyManageSellOffer s b _ _ _) = [asset_ref_of x s, asset_ref_of x b]"
| "emit_asset_appearances x src ch (BodyManageBuyOffer s b _ _ _) = [asset_ref_of x s, asset_ref_of x b]"
| "emit_asset_appearances x src ch (BodyCreatePassiveSellOffer s b _ _) = [asset_ref_of x s, asset_ref_of x b]"
| "emit_asset_appearances x src ch (BodyChangeTrust CtaNative _) = [ArNative]"
| "emit_asset_appearances x src ch (BodyChangeTrust (CtaCredit4 code issuer) _) = [credit_ref x code (x_account x issuer)]"
| "emit_asset_appearances x src ch (BodyChangeTrust (CtaCredit12 code issuer) _) = [credit_ref x code (x_account x issuer)]"
| "emit_asset_appearances x src ch (BodyChangeTrust (CtaPoolShare a b) _) = [asset_ref_of x a, asset_ref_of x b]"
| "emit_asset_appearances x src ch (BodyCreateClaimableBalance a _ _) = [asset_ref_of x a]"
| "emit_asset_appearances x src ch (BodyClawback a _ _) = [asset_ref_of x a]"
| "emit_asset_appearances x src ch (BodyCreateAccount _ _) = [ArNative]"
| "emit_asset_appearances x src ch (BodyAccountMerge _) = [ArNative]"
| "emit_asset_appearances x src ch (BodySetTrustLineFlags _ a _ _) = [asset_ref_of x a]"
| "emit_asset_appearances x src ch (BodyAllowTrust _ code _) = [credit_ref x (asset_code_bytes code) src]"
| "emit_asset_appearances x src ch (BodyRevokeSponsorship (RevokeLedgerEntry (KeyTrustline _ a))) =
     opt_list (trustline_asset_ref x a)"
| "emit_asset_appearances x src ch (BodyClaimClaimableBalance i) = opt_list (claimed_cb_asset x ch i)"
| "emit_asset_appearances x src ch (BodyClawbackClaimableBalance i) = opt_list (claimed_cb_asset x ch i)"
| "emit_asset_appearances x src ch (BodyLiquidityPoolDeposit i _ _ _ _) =
     (case lp_pool_assets x ch i of Some (a, b) \<Rightarrow> [a, b] | None \<Rightarrow> [])"
| "emit_asset_appearances x src ch (BodyLiquidityPoolWithdraw i _ _ _) =
     (case lp_pool_assets x ch i of Some (a, b) \<Rightarrow> [a, b] | None \<Rightarrow> [])"
| "emit_asset_appearances x src ch _ = []"

fun ledger_key_owner :: "xdr_ext \<Rightarrow> ledger_key \<Rightarrow> string option" where
  "ledger_key_owner x (KeyAccount a) = Some (x_account x a)"
| "ledger_key_owner x (KeyTrustline a _) = Some (x_account x a)"
| "ledger_key_owner x (KeyOffer a _) = Some (x_account x a)"
| "ledger_key_owner x (KeyData a _) = Some (x_account x a)"
| "ledger_key_owner x _ = None"

fun body_counterparties :: "xdr_ext \<Rightarrow> operation_body \<Rightarrow> string list" where
  "body_counterparties x (BodyPayment dest _ _) = [muxed_to_g_strkey x dest]"
| "body_counterparties x (BodyPathPaymentStrictReceive _ _ dest _ _ _) = [muxed_to_g_strkey x dest]"
| "body_counterparties x (BodyPathPaymentStrictSend _ _ dest _ _ _) = [muxed_to_g_strkey x dest]"
| "body_counterparties x (BodyCreateAccount dest _) = [x_account x dest]"
| "body_counterparties x (BodyAccountMerge dest) = [muxed_to_g_strkey x dest]"
| "body_counterparties x (BodyClawback _ from _) = [muxed_to_g_strkey x from]"
| "body_counterparties x (BodyAllowTrust trustor _ _) = [x_account x trustor]"
| "body_counterparties x (BodySetTrustLineFlags trustor _ _ _) = [x_account x trustor]"
| "body_counterparties x (BodyBeginSponsoringFutureReserves a) = [x_account x a]"
| "body_counterparties x (BodyCreateClaimableBalance _ _ cs) = map (\<lambda>c. x_account x (fst c)) cs"
| "body_counterparties x (BodySetOptions op) = map (x_account x) (opt_list (opt_inflation_dest op))"
| "body_counterparties x (BodyRevokeSponsorship (RevokeSigner a _)) = [x_account x a]"
| "body_counterparties x (BodyRevokeSponsorship (RevokeLedgerEntry key)) = opt_list (ledger_key_owner x key)"
| "body_counterparties x _ = []"

fun atom_seller :: "xdr_ext \<Rightarrow> claim_atom \<Rightarrow> string list" where
  "atom_seller x (AtomOrderBook s) = [x_account x s]"
| "atom_seller x (AtomV0 s) = [x_account x s]"
| "atom_seller x (AtomLiquidityPool _) = []"

definition extract_counterparties :: "xdr_ext \<Rightarrow> operation_body \<Rightarrow> operation_result option \<Rightarrow> string list" where
  "extract_counterparties x body op_result =
     body_counterparties x body @
     (case op_result of Some r \<Rightarrow> concat (map (atom_seller x) (claim_atoms r)) | None \<Rightarrow> [])"

fun destination_muxed_id :: "operation_body \<Rightarrow> int option" where
  "destination_muxed_id (BodyPayment dest _ _) = muxed_id dest"
| "destination_muxed_id (BodyPathPaymentStrictReceive _ _ dest _ _ _) = muxed_id dest"
| "destination_muxed_id (BodyPathPaymentStrictSend _ _ dest _ _ _) = muxed_id dest"
| "destination_muxed_id (BodyAccountMerge dest) = muxed_id dest"
| "destination_muxed_id _ = None"

definition extract_operation ::
  "xdr_ext \<Rightarrow> op_names \<Rightarrow> string \<Rightarrow> scval option \<Rightarrow> tx_meta option \<Rightarrow> operation_result list option \<Rightarrow>
   string \<Rightarrow> nat \<Rightarrow> operation \<Rightarrow> extracted_operation" where
  "extract_operation x n tx_source return_value meta op_results hash i op =
     (let source_account = map_option (muxed_to_g_strkey x) (op_source_account op);
          op_source = unwrap_or source_account tx_source;
          op_changes = op_meta_changes meta i;
          op_result = Option.bind op_results (\<lambda>rs. nth_opt rs i);
          (op_type, details) = extract_op_details x n (op_body op) return_value op_result op_changes
      in \<lparr>xo_transaction_hash = hash, xo_operation_index = i, xo_op_type = op_type,
          xo_source_account = source_account, xo_details = details,
          xo_asset_appearances = emit_asset_appearances x op_source op_changes (op_body op),
          xo_counterparties = extract_counterparties x (op_body op) op_result,
          xo_source_muxed_id = Option.bind (op_source_account op) muxed_id,
          xo_destination_muxed_id = destination_muxed_id (op_body op)\<rparr>)"

definition extract_operations ::
  "xdr_ext \<Rightarrow> op_names \<Rightarrow> inner_tx \<Rightarrow> tx_meta option \<Rightarrow> operation_result list option \<Rightarrow> string \<Rightarrow>
   extracted_operation list" where
  "extract_operations x n envelope meta op_results hash =
     (let return_value = Option.bind meta soroban_return_value;
          tx_source = inner_source_account x envelope
      in map (\<lambda>(i, op). extract_operation x n tx_source return_value meta op_results hash i op)
           (List.enumerate 0 (inner_operations envelope)))"

end
