(* ===== verification/OperationFacts.thy ===== *)
theory OperationFacts
  imports Operation
begin

text \<open>
  What the extracted operations promise to the passes that read them: the operation of a
  transfer is found at its position, a payment's recipient keeps the sub-account id of its own
  delivery only, and the reported movement of a pool is the difference of its reserves over the
  operation.
\<close>

subsection \<open>Members of the details\<close>

lemma map_of_jinsert [simp]: "map_of (jinsert k v ms) = (map_of ms)(k \<mapsto> v)"
  by (induction k v ms rule: jinsert.induct) (auto simp: fun_eq_iff)

lemma jget_jset: "k \<noteq> k' \<Longrightarrow> jget (jset k v d) k' = jget d k'"
  by (cases d) (simp_all add: jset_def jget_def)

lemma jget_append_pool_claims:
  "k \<noteq> ''poolIds'' \<Longrightarrow> k \<noteq> ''claimedAtoms'' \<Longrightarrow> jget (append_pool_claims x d r) k = jget d k"
  by (simp add: append_pool_claims_def Let_def jget_jset split: option.split)

lemma get_str_append_pool_claims:
  "k \<noteq> ''poolIds'' \<Longrightarrow> k \<noteq> ''claimedAtoms'' \<Longrightarrow> get_str (append_pool_claims x d r) k = get_str d k"
  by (simp add: get_str_def jget_append_pool_claims)

subsection \<open>Where a payment delivers\<close>

fun delivery :: "operation_body \<Rightarrow> (muxed_account \<times> asset) option" where
  "delivery (BodyPayment dest a _) = Some (dest, a)"
| "delivery (BodyPathPaymentStrictReceive _ _ dest da _ _) = Some (dest, da)"
| "delivery (BodyPathPaymentStrictSend _ _ dest da _ _) = Some (dest, da)"
| "delivery _ = None"

lemma extract_operation_details:
  "xo_details (extract_operation x n src rv meta rs h i op) =
     append_pool_claims x (snd (op_type_details x n rv (op_meta_changes meta i) (op_body op)))
       (Option.bind rs (\<lambda>rs. nth_opt rs i))"
  "xo_op_type (extract_operation x n src rv meta rs h i op) =
     fst (op_type_details x n rv (op_meta_changes meta i) (op_body op))"
  "xo_operation_index (extract_operation x n src rv meta rs h i op) = i"
  "xo_destination_muxed_id (extract_operation x n src rv meta rs h i op) = destination_muxed_id (op_body op)"
  by (simp_all add: extract_operation_def extract_op_details_def Let_def split: prod.split)

lemma format_asset_str: "\<exists>s. format_asset x a = JStr s"
  by (cases a) auto

text \<open>
  The asset an event names is the one a payment delivers: both are the native asset, or the event
  names a code and an issuer and \<open>CODE:ISSUER\<close> is the text of the delivered asset.
\<close>

fun names_asset :: "xdr_ext \<Rightarrow> event_asset \<Rightarrow> asset \<Rightarrow> bool" where
  "names_asset x EaNative a = (a = AssetNative)"
| "names_asset x (EaCredit code issuer) AssetNative = False"
| "names_asset x (EaCredit code issuer) (AssetCredit4 c i) =
     (CHR '':'' \<notin> set code \<and> code @ CHR '':'' # issuer = asset_code_str x c @ CHR '':'' # x_account x i)"
| "names_asset x (EaCredit code issuer) (AssetCredit12 c i) =
     (CHR '':'' \<notin> set code \<and> code @ CHR '':'' # issuer = asset_code_str x c @ CHR '':'' # x_account x i)"
| "names_asset x EaBespoke a = False"

text \<open>A ledger's asset codes are alphanumeric, so that the code and the issuer are the same two.\<close>

lemma names_credit_plain:
  assumes "CHR '':'' \<notin> set (asset_code_str x c)"
  shows "names_asset x (EaCredit code issuer) (AssetCredit4 c i) \<longleftrightarrow>
         code = asset_code_str x c \<and> issuer = x_account x i"
proof -
  have "CHR '':'' \<notin> set code \<and> code @ CHR '':'' # issuer = t \<longleftrightarrow> split_once CHR '':'' t = Some (code, issuer)" for t
    unfolding split_once_Some by auto
  then show ?thesis using split_once_append [OF assms] by auto
qed

lemma delivered_native: "format_asset x a = JStr ''native'' \<longleftrightarrow> a = AssetNative"
proof -
  have "s @ CHR '':'' # t \<noteq> ''native''" for s t :: string
  proof
    assume "s @ CHR '':'' # t = ''native''"
    from arg_cong [OF this, of "\<lambda>u. CHR '':'' \<in> set u"] show False by simp
  qed
  then show ?thesis by (cases a) (simp_all add: credit_text_def)
qed

lemma op_delivers_asset:
  assumes "opt_or (jget (xo_details op) ''destAsset'') (jget (xo_details op) ''asset'') = Some (format_asset x a)"
  shows "op_delivers op ea \<longleftrightarrow> names_asset x ea a"
proof (cases ea)
  case EaNative
  obtain s where "format_asset x a = JStr s" using format_asset_str by blast
  with assms EaNative delivered_native [of x a] show ?thesis by (simp add: op_delivers_def)
next
  case (EaCredit code issuer)
  with assms show ?thesis
    by (cases a) (auto simp: op_delivers_def credit_text_def split_once_Some)
next
  case EaBespoke
  then show ?thesis by (simp add: op_delivers_def)
qed

lemma delivery_details:
  assumes "delivery body = Some (dest, a)"
  shows "get_str (snd (op_type_details x n rv ch body)) ''destination'' = Some (muxed_to_g_strkey x dest)"
    and "opt_or (jget (snd (op_type_details x n rv ch body)) ''destAsset'')
           (jget (snd (op_type_details x n rv ch body)) ''asset'') = Some (format_asset x a)"
    and "fst (op_type_details x n rv ch body) \<noteq> OpInvokeHostFunction"
    and "destination_muxed_id body = muxed_id dest"
  using assms by (cases body; simp add: get_str_def jget_def)+

text \<open>C25. A payment to a sub-account keeps its id on exactly the transfer that delivers it: for the
  operation extracted from a payment or a path payment and any transfer inside it, whatever asset
  it moves and whatever id its event claims, the transfer gets the destination's sub-account id
  when it goes to the destination account and moves the delivered asset, and none otherwise: not
  when it goes elsewhere, and not when it brings another asset to the same account.\<close>

theorem payment_recipient_id:
  assumes "delivery (op_body op) = Some (dest, a)"
  shows "recipient_id (Some (extract_operation x n src rv meta rs h i op)) ea event_id g =
         (if g = muxed_to_g_strkey x dest \<and> names_asset x ea a then muxed_id dest else None)"
proof -
  let ?op = "extract_operation x n src rv meta rs h i op"
  note d = delivery_details(1-3) [where x = x and n = n and rv = rv and ch = "op_meta_changes meta i", OF assms]
  have "xo_op_type ?op \<noteq> OpInvokeHostFunction"
    using d(3) by (simp add: extract_operation_details)
  moreover have "get_str (xo_details ?op) ''destination'' = Some (muxed_to_g_strkey x dest)"
    using d(1) by (simp add: extract_operation_details get_str_append_pool_claims)
  moreover have "op_delivers ?op ea \<longleftrightarrow> names_asset x ea a"
    using d(2) by (intro op_delivers_asset) (simp add: extract_operation_details jget_append_pool_claims)
  ultimately show ?thesis
    using delivery_details(4) [OF assms] by (simp add: recipient_id_def opt_filter_def extract_operation_details)
qed

theorem payment_recipient_id_witness:
  "let op = extract_operation demo_ext \<lparr>n_ledger_key = (\<lambda>_. []), n_signer_key = (\<lambda>_. []), n_pool_params = []\<rparr>
              ''GS'' None None None ''h'' 0
              \<lparr>op_source_account = None, op_body = BodyPayment (MuxMed25519 77 ''A'') (AssetCredit4 ''USDC'' ''I'') 5\<rparr>
   in recipient_id (Some op) (EaCredit ''USDC'' ''GI'') None ''GA'' = Some 77 \<and>
      recipient_id (Some op) EaNative (Some 8) ''GA'' = None"
  using payment_recipient_id [of "\<lparr>op_source_account = None,
        op_body = BodyPayment (MuxMed25519 77 ''A'') (AssetCredit4 ''USDC'' ''I'') 5\<rparr>"
      "MuxMed25519 77 ''A''" "AssetCredit4 ''USDC'' ''I''" demo_ext
      "\<lparr>n_ledger_key = (\<lambda>_. []), n_signer_key = (\<lambda>_. []), n_pool_params = []\<rparr>" "''GS''" None None None "''h''" 0]
  by (simp add: demo_ext_def asset_code_str_def from_utf8_def valid_utf8_ascii trim_end_def)

text \<open>The operation an event belongs to is found at its position: looking up position \<open>i\<close> among
  the extracted operations and checking its index never discards what is there, so a transfer
  is without its operation only when the transaction has none at that position.\<close>

theorem operation_found_at_position:
  "opt_filter (\<lambda>op. xo_operation_index op = i) (nth_opt (extract_operations x n env meta rs h) i) =
   (if i < length (inner_operations env)
    then Some (extract_operation x n (inner_source_account x env) (Option.bind meta soroban_return_value)
                 meta rs h i (inner_operations env ! i))
    else None)"
  by (simp add: extract_operations_def Let_def nth_opt_def nth_enumerate_eq extract_operation_details opt_filter_def)

subsection \<open>What an operation moves in a pool\<close>

type_synonym reserves = "64 word \<times> 64 word"

definition concerns_pool :: "bytes \<Rightarrow> ledger_entry_change \<Rightarrow> bool" where
  "concerns_pool pool c =
     (case c of
        ChRemoved (KeyLiquidityPool k) \<Rightarrow> k = pool
      | ChRemoved _ \<Rightarrow> False
      | _ \<Rightarrow> (case present_entry c of Some e \<Rightarrow> pool_constant_product e pool \<noteq> None | None \<Rightarrow> False))"

text \<open>
  The histories of a pool a ledger writes for one operation: pairs of an image before and an
  image after, among the changes of other entries; possibly closed by its removal; or its
  creation.
\<close>

inductive pool_updates :: "bytes \<Rightarrow> asset \<Rightarrow> asset \<Rightarrow> reserves \<Rightarrow> ledger_entry_change list \<Rightarrow> reserves \<Rightarrow> bool"
  for pool a b where
  updates_nil: "pool_updates pool a b r [] r"
| updates_other: "\<not> concerns_pool pool c \<Longrightarrow> pool_updates pool a b r cs r' \<Longrightarrow> pool_updates pool a b r (c # cs) r'"
| updates_pair: "pool_updates pool a b (ra', rb') cs r' \<Longrightarrow>
    pool_updates pool a b (ra, rb)
      (ChState (EntryLiquidityPool pool a b ra rb q) # ChUpdated (EntryLiquidityPool pool a b ra' rb' q') # cs) r'"

inductive pool_history ::
  "bytes \<Rightarrow> asset \<Rightarrow> asset \<Rightarrow> reserves option \<Rightarrow> ledger_entry_change list \<Rightarrow> reserves option \<Rightarrow> bool"
  for pool a b where
  history_updated: "pool_updates pool a b r cs r' \<Longrightarrow> pool_history pool a b (Some r) cs (Some r')"
| history_removed: "pool_updates pool a b r cs (ra, rb) \<Longrightarrow> list_all (\<lambda>c. \<not> concerns_pool pool c) cs' \<Longrightarrow>
    pool_history pool a b (Some r)
      (cs @ ChState (EntryLiquidityPool pool a b ra rb q) # ChRemoved (KeyLiquidityPool pool) # cs') None"
| history_created: "list_all (\<lambda>c. \<not> concerns_pool pool c) cs \<Longrightarrow> list_all (\<lambda>c. \<not> concerns_pool pool c) cs' \<Longrightarrow>
    pool_history pool a b None (cs @ ChCreated (EntryLiquidityPool pool a b ra rb q) # cs') (Some (ra, rb))"

lemma opt_or_none_right [simp]: "opt_or v None = v"
  by (simp add: opt_or_def split: option.split)

lemma pool_image_other: "\<not> concerns_pool pool c \<Longrightarrow> pool_image_step pool s c = s"
  by (cases s) (auto simp: concerns_pool_def pool_image_step_def split: ledger_entry_change.splits ledger_key.splits)

lemma pool_image_others: "list_all (\<lambda>c. \<not> concerns_pool pool c) cs \<Longrightarrow> foldl (pool_image_step pool) s cs = s"
  by (induction cs arbitrary: s) (simp_all add: pool_image_other)

definition cp_of :: "asset \<Rightarrow> asset \<Rightarrow> reserves \<Rightarrow> constant_product" where
  "cp_of a b r = \<lparr>cp_asset_a = a, cp_asset_b = b, cp_reserve_a = fst r, cp_reserve_b = snd r\<rparr>"

lemma pool_updates_images:
  "pool_updates pool a b r cs r' \<Longrightarrow>
     (\<forall>s. foldl (pool_image_step pool) s cs = s \<and> r' = r) \<or>
     (\<forall>s. foldl (pool_image_step pool) s cs =
        s\<lparr>pi_before := opt_or (pi_before s) (Some (cp_of a b r)), pi_after := Some (cp_of a b r')\<rparr>)"
proof (induction rule: pool_updates.induct)
  case (updates_nil r)
  then show ?case by simp
next
  case (updates_other c r cs r')
  then show ?case by (simp add: pool_image_other)
next
  case (updates_pair ra' rb' cs r' ra rb q q')
  have pair: "pool_image_step pool (pool_image_step pool s (ChState (EntryLiquidityPool pool a b ra rb q)))
       (ChUpdated (EntryLiquidityPool pool a b ra' rb' q')) =
      s\<lparr>pi_before := opt_or (pi_before s) (Some (cp_of a b (ra, rb))), pi_after := Some (cp_of a b (ra', rb'))\<rparr>" for s
    by (simp add: pool_image_step_def cp_of_def)
  from updates_pair.IH show ?case
  proof
    assume "\<forall>s. foldl (pool_image_step pool) s cs = s \<and> r' = (ra', rb')"
    then show ?thesis by (simp add: pair)
  next
    assume "\<forall>s. foldl (pool_image_step pool) s cs =
      s\<lparr>pi_before := opt_or (pi_before s) (Some (cp_of a b (ra', rb'))), pi_after := Some (cp_of a b r')\<rparr>"
    then show ?thesis by (auto simp: pair opt_or_def split: option.split)
  qed
qed

definition reserves_or_zero :: "reserves option \<Rightarrow> reserves" where
  "reserves_or_zero r = unwrap_or r (0, 0)"

text \<open>C20. The reported movement of a pool is exactly what the operation did to it: over any history of
  the pool within an operation, repeated fills included, the delta is its reserves after minus its
  reserves before, with no reserves where the pool did not exist yet or was removed, and nothing
  is reported exactly when neither reserve moved.\<close>

theorem pool_delta_of_history:
  assumes "pool_history pool a b before cs after"
  shows "pool_delta cs pool =
    (let (ra, rb) = reserves_or_zero before; (ra', rb') = reserves_or_zero after
     in if ra' = ra \<and> rb' = rb then None else Some (a, ra' - ra, b, rb' - rb))"
  using assms
proof cases
  case (history_updated r r')
  from pool_updates_images [OF history_updated(3)] history_updated(1, 2) show ?thesis
    by (cases r; cases r')
       (auto simp: pool_delta_def pool_images_of_def Let_def cp_of_def reserves_or_zero_def)
next
  case (history_removed r cs1 ra rb cs2 q)
  from pool_updates_images [OF history_removed(4)] history_removed(1-3,5) show ?thesis
    by (cases r)
       (auto simp: pool_delta_def pool_images_of_def Let_def cp_of_def reserves_or_zero_def
          pool_image_others pool_image_step_def)
next
  case (history_created cs1 cs2 ra rb q)
  then show ?thesis
    by (simp add: pool_delta_def pool_images_of_def Let_def reserves_or_zero_def pool_image_others)
       (simp add: pool_image_step_def pool_image_others)
qed

definition demo_pool :: pool_rest where
  "demo_pool = \<lparr>pl_fee = 30, pl_total_shares = 0, pl_trust_line_count = 0\<rparr>"

theorem pool_delta_of_history_witness:
  "pool_delta
     [ChState (EntryLiquidityPool ''P'' AssetNative (AssetCredit4 ''USD'' ''I'') 10 20 demo_pool),
      ChUpdated (EntryLiquidityPool ''P'' AssetNative (AssetCredit4 ''USD'' ''I'') 15 18 demo_pool),
      ChState (EntryLiquidityPool ''P'' AssetNative (AssetCredit4 ''USD'' ''I'') 15 18 demo_pool),
      ChUpdated (EntryLiquidityPool ''P'' AssetNative (AssetCredit4 ''USD'' ''I'') 17 17 demo_pool)] ''P'' =
   Some (AssetNative, 7, AssetCredit4 ''USD'' ''I'', - 3)"
proof -
  have "pool_history ''P'' AssetNative (AssetCredit4 ''USD'' ''I'') (Some (10, 20))
     [ChState (EntryLiquidityPool ''P'' AssetNative (AssetCredit4 ''USD'' ''I'') 10 20 demo_pool),
      ChUpdated (EntryLiquidityPool ''P'' AssetNative (AssetCredit4 ''USD'' ''I'') 15 18 demo_pool),
      ChState (EntryLiquidityPool ''P'' AssetNative (AssetCredit4 ''USD'' ''I'') 15 18 demo_pool),
      ChUpdated (EntryLiquidityPool ''P'' AssetNative (AssetCredit4 ''USD'' ''I'') 17 17 demo_pool)] (Some (17, 17))"
    by (intro history_updated updates_pair updates_nil)
  from pool_delta_of_history [OF this] show ?thesis by (simp add: reserves_or_zero_def)
qed

end
