(* ===== verification/Invocation.thy ===== *)
theory Invocation
  imports Operation Events
begin

text \<open>
  \<open>crates/xdr-parser/src/invocation.rs\<close> and \<open>op_source.rs\<close>: the calls of a transaction, from the
  diagnostic trace of the host or, without one, from the authorization trees.  The sources walk
  the trees with explicit stacks; the loops are written as the sources write them and compared
  with the recursion over the tree below.  The top of a stack is the head of its list.
\<close>

record extracted_invocation =
  iv_transaction_hash :: string
  iv_contract_id :: "string option"
  iv_caller :: "string option"
  iv_function_name :: "string option"
  iv_function_args :: json
  iv_return_value :: json
  iv_successful :: bool
  iv_invocation_index :: nat
  iv_depth :: nat
  iv_ledger_sequence :: nat
  iv_created_at :: int

subsection \<open>The size of a tree\<close>

fun auth_nodes :: "auth_invocation \<Rightarrow> nat" where
  "auth_nodes (AuthInvocation f subs) = Suc (sum_list (map auth_nodes subs))"

definition decode_authorized_function :: "xdr_ext \<Rightarrow> authorized_function \<Rightarrow> string option \<times> string option \<times> json" where
  "decode_authorized_function x f =
     (case f of
        AuthContractFn addr name args \<Rightarrow>
          (Some (x_address x addr), Some (unwrap_or (from_utf8 name) ''<invalid-utf8>''),
           JArr (map (scval_to_typed_json x) args))
      | AuthCreateContract _ e \<Rightarrow>
          (None, Some ''createContract'',
           JObj [(''type'', JStr ''createContract''), (''executable'', format_contract_executable x e)])
      | AuthCreateContractV2 _ e args \<Rightarrow>
          (None, Some ''createContractV2'',
           JObj [(''type'', JStr ''createContractV2''), (''executable'', format_contract_executable x e),
                 (''constructorArgs'', JArr (map (scval_to_typed_json x) args))]))"

subsection \<open>Flattening an authorization tree\<close>

record flatten_ctx =
  fc_transaction_hash :: string
  fc_ledger_sequence :: nat
  fc_created_at :: int
  fc_successful :: bool
  fc_index :: nat

record flatten_frame =
  ff_node :: auth_invocation
  ff_depth :: nat
  ff_caller :: "string option"
  ff_return_value :: json

definition invocation_row ::
  "xdr_ext \<Rightarrow> flatten_ctx \<Rightarrow> flatten_frame \<Rightarrow> extracted_invocation" where
  "invocation_row x ctx frame =
     (case decode_authorized_function x (ai_function (ff_node frame)) of
        (contract_id, function_name, function_args) \<Rightarrow>
          \<lparr>iv_transaction_hash = fc_transaction_hash ctx, iv_contract_id = contract_id,
           iv_caller = ff_caller frame, iv_function_name = function_name,
           iv_function_args = function_args, iv_return_value = ff_return_value frame,
           iv_successful = fc_successful ctx, iv_invocation_index = fc_index ctx,
           iv_depth = ff_depth frame, iv_ledger_sequence = fc_ledger_sequence ctx,
           iv_created_at = fc_created_at ctx\<rparr>)"

definition child_frame :: "xdr_ext \<Rightarrow> flatten_frame \<Rightarrow> auth_invocation \<Rightarrow> flatten_frame" where
  "child_frame x frame child =
     \<lparr>ff_node = child, ff_depth = ff_depth frame + 1,
      ff_caller = fst (decode_authorized_function x (ai_function (ff_node frame))), ff_return_value = JNull\<rparr>"

lemma foldl_push_rev: "foldl (\<lambda>st c. f c # st) st (rev cs) = map f cs @ st"
  by (induction cs arbitrary: st) auto

lemma auth_nodes_subs: "sum_list (map auth_nodes (ai_subs n)) < auth_nodes n"
  by (cases n) simp

function flatten_loop ::
  "xdr_ext \<Rightarrow> flatten_ctx \<Rightarrow> extracted_invocation list \<Rightarrow> flatten_frame list \<Rightarrow>
   flatten_ctx \<times> extracted_invocation list" where
  "flatten_loop x ctx out [] = (ctx, out)"
| "flatten_loop x ctx out (frame # stack) =
     flatten_loop x (ctx\<lparr>fc_index := fc_index ctx + 1\<rparr>) (out @ [invocation_row x ctx frame])
       (foldl (\<lambda>st child. child_frame x frame child # st) stack (rev (ai_subs (ff_node frame))))"
  by pat_completeness auto
termination
  by (relation "measure (\<lambda>(x, ctx, out, stack). sum_list (map (auth_nodes \<circ> ff_node) stack))")
     (simp_all add: foldl_push_rev comp_def child_frame_def auth_nodes_subs)

definition flatten_invocation ::
  "xdr_ext \<Rightarrow> flatten_ctx \<times> extracted_invocation list \<Rightarrow> auth_invocation \<Rightarrow> string option \<Rightarrow> json \<Rightarrow>
   flatten_ctx \<times> extracted_invocation list" where
  "flatten_invocation x st root root_caller root_return_value =
     flatten_loop x (fst st) (snd st)
       [\<lparr>ff_node = root, ff_depth = 0, ff_caller = root_caller, ff_return_value = root_return_value\<rparr>]"

definition op_caller :: "xdr_ext \<Rightarrow> string \<Rightarrow> operation \<Rightarrow> string" where
  "op_caller x tx_source_account op =
     unwrap_or (map_option (muxed_to_g_strkey x) (op_source_account op)) tx_source_account"

fun op_auth :: "operation_body \<Rightarrow> (soroban_credentials \<times> auth_invocation) list" where
  "op_auth (BodyInvokeHostFunction _ auth) = auth"
| "op_auth _ = []"

definition flatten_auth_tree ::
  "xdr_ext \<Rightarrow> operation list \<Rightarrow> string \<Rightarrow> string \<Rightarrow> nat \<Rightarrow> int \<Rightarrow> bool \<Rightarrow> json \<Rightarrow> extracted_invocation list" where
  "flatten_auth_tree x ops tx_source_account hash ledger created_at successful root_return_value =
     snd (foldl (\<lambda>st op.
            foldl (\<lambda>st entry. flatten_invocation x st (snd entry) (Some (op_caller x tx_source_account op))
                                root_return_value) st (op_auth (op_body op)))
          (\<lparr>fc_transaction_hash = hash, fc_ledger_sequence = ledger, fc_created_at = created_at,
            fc_successful = successful, fc_index = 0\<rparr>, []) ops)"

subsection \<open>The tree as JSON\<close>

record visit =
  v_node :: auth_invocation
  v_return_value :: json
  v_child_count :: nat

function visit_loop :: "visit list \<Rightarrow> (auth_invocation \<times> json) list \<Rightarrow> visit list" where
  "visit_loop visits [] = visits"
| "visit_loop visits ((node, ret_val) # stack) =
     visit_loop (visits @ [\<lparr>v_node = node, v_return_value = ret_val, v_child_count = length (ai_subs node)\<rparr>])
       (foldl (\<lambda>st child. (child, JNull) # st) stack (rev (ai_subs node)))"
  by pat_completeness auto
termination
  by (relation "measure (\<lambda>(visits, stack). sum_list (map (auth_nodes \<circ> fst) stack))")
     (simp_all add: foldl_push_rev comp_def auth_nodes_subs)

definition invocation_node_json :: "xdr_ext \<Rightarrow> bool \<Rightarrow> auth_invocation \<Rightarrow> json \<Rightarrow> json list \<Rightarrow> json" where
  "invocation_node_json x successful node return_value children =
     (case decode_authorized_function x (ai_function node) of
        (contract_id, function_name, function_args) \<Rightarrow>
          JObj [(''contractId'', jopt JStr contract_id), (''functionName'', jopt JStr function_name),
                (''args'', function_args), (''returnValue'', return_value),
                (''successful'', JBool successful), (''children'', JArr children)])"

text \<open>
  The result vector, its end at the end of the list: \<open>split_off\<close> takes the last elements in the
  order they were pushed.
\<close>

definition build_step :: "xdr_ext \<Rightarrow> bool \<Rightarrow> json list \<Rightarrow> visit \<Rightarrow> json list" where
  "build_step x successful results v =
     (let k = length results - v_child_count v
      in take k results @
         [invocation_node_json x successful (v_node v) (v_return_value v) (drop k results)])"

definition invocation_to_json :: "xdr_ext \<Rightarrow> auth_invocation \<Rightarrow> json \<Rightarrow> bool \<Rightarrow> json" where
  "invocation_to_json x root root_return_value successful =
     unwrap_or (last_opt (foldl (build_step x successful) []
       (rev (visit_loop [] [(root, root_return_value)])))) JNull"

subsection \<open>The diagnostic trace\<close>

datatype diag_kind = FnCall string | FnReturn

fun decode_call_target :: "xdr_ext \<Rightarrow> scval \<Rightarrow> string option" where
  "decode_call_target x (ScBytes b) = (if length b \<noteq> 32 then None else Some (x_address x (AddrContract b)))"
| "decode_call_target x (ScAddress (AddrContract c)) = Some (x_address x (AddrContract c))"
| "decode_call_target x _ = None"

definition classify_diag_topic :: "xdr_ext \<Rightarrow> scval list \<Rightarrow> diag_kind option" where
  "classify_diag_topic x topics =
     (case topics of
        ScSymbol head # rest \<Rightarrow>
          do {
            head_sym \<leftarrow> from_utf8 head;
            if head_sym = ''fn_call'' then
              do { t \<leftarrow> nth_opt topics 1; c \<leftarrow> decode_call_target x t; Some (FnCall c) }
            else if head_sym = ''fn_return'' then Some FnReturn
            else None
          }
      | _ \<Rightarrow> None)"

record diag_state =
  ds_out :: "extracted_invocation list"
  ds_stack :: "string list"
  ds_index :: nat

definition diag_call :: "string \<Rightarrow> nat \<Rightarrow> int \<Rightarrow> string \<Rightarrow> bool \<Rightarrow> diag_state \<Rightarrow> string \<Rightarrow> diag_state" where
  "diag_call hash ledger created_at root_caller successful s contract_id =
     \<lparr>ds_out = ds_out s @
        [\<lparr>iv_transaction_hash = hash, iv_contract_id = Some contract_id,
          iv_caller = Some (case ds_stack s of c # _ \<Rightarrow> c | [] \<Rightarrow> root_caller),
          iv_function_name = None, iv_function_args = JNull, iv_return_value = JNull,
          iv_successful = successful, iv_invocation_index = ds_index s,
          iv_depth = length (ds_stack s), iv_ledger_sequence = ledger, iv_created_at = created_at\<rparr>],
      ds_stack = contract_id # ds_stack s, ds_index = ds_index s + 1\<rparr>"

definition diag_kind_step :: "string \<Rightarrow> nat \<Rightarrow> int \<Rightarrow> string \<Rightarrow> bool \<Rightarrow> diag_state \<Rightarrow> diag_kind \<Rightarrow> diag_state" where
  "diag_kind_step hash ledger created_at root_caller successful s kind =
     (case kind of
        FnCall contract_id \<Rightarrow> diag_call hash ledger created_at root_caller successful s contract_id
      | FnReturn \<Rightarrow> s\<lparr>ds_stack := tl (ds_stack s)\<rparr>)"

definition diag_kinds :: "xdr_ext \<Rightarrow> contract_event list \<Rightarrow> diag_kind list" where
  "diag_kinds x diags =
     filter_map (\<lambda>d. if ce_type d \<noteq> XdrDiagnostic then None else classify_diag_topic x (ce_topics d)) diags"

definition extract_invocations_from_diagnostics ::
  "xdr_ext \<Rightarrow> tx_meta \<Rightarrow> string \<Rightarrow> nat \<Rightarrow> int \<Rightarrow> string \<Rightarrow> bool \<Rightarrow> extracted_invocation list" where
  "extract_invocations_from_diagnostics x meta hash ledger created_at root_caller successful =
     ds_out (foldl (diag_kind_step hash ledger created_at root_caller successful)
              \<lparr>ds_out = [], ds_stack = [], ds_index = 0\<rparr> (diag_kinds x (diagnostic_events meta)))"

subsection \<open>Both together\<close>

record invocation_result =
  ir_invocations :: "extracted_invocation list"
  ir_operation_tree :: "json option"

fun is_invoke :: "operation_body \<Rightarrow> bool" where
  "is_invoke (BodyInvokeHostFunction _ _) = True"
| "is_invoke _ = False"

definition root_caller_of :: "xdr_ext \<Rightarrow> operation list \<Rightarrow> string \<Rightarrow> string" where
  "root_caller_of x ops tx_source_account =
     unwrap_or (find_map (\<lambda>op. if is_invoke (op_body op) then Some (op_caller x tx_source_account op) else None) ops)
       tx_source_account"

definition extract_invocations ::
  "xdr_ext \<Rightarrow> inner_tx \<Rightarrow> tx_meta option \<Rightarrow> string \<Rightarrow> nat \<Rightarrow> int \<Rightarrow> string \<Rightarrow> bool \<Rightarrow> invocation_result" where
  "extract_invocations x envelope meta hash ledger created_at tx_source_account successful =
     (let ops = inner_operations envelope;
          root_return_value =
            unwrap_or (map_option (scval_to_typed_json x) (Option.bind meta soroban_return_value)) JNull;
          trees = concat (map (\<lambda>op. map (\<lambda>entry. invocation_to_json x (snd entry) root_return_value successful)
                                      (op_auth (op_body op))) ops);
          diag = unwrap_or (map_option (\<lambda>tm. extract_invocations_from_diagnostics x tm hash ledger created_at
                                           (root_caller_of x ops tx_source_account) successful) meta) []
      in \<lparr>ir_invocations =
            (if diag = [] then flatten_auth_tree x ops tx_source_account hash ledger created_at successful
                                 root_return_value
             else diag),
          ir_operation_tree = (if trees = [] then None else Some (JArr trees))\<rparr>)"

subsection \<open>Who deployed a contract\<close>

definition credentials_signer :: "xdr_ext \<Rightarrow> soroban_credentials \<Rightarrow> string \<Rightarrow> string option" where
  "credentials_signer x creds effective_op_source =
     (let signer = (\<lambda>addr. case addr of
            AddrAccount a \<Rightarrow> Some (x_account x a)
          | AddrMuxedAccount _ a \<Rightarrow> Some (x_account x a)
          | _ \<Rightarrow> None)
      in case creds of
           CredSourceAccount \<Rightarrow> Some effective_op_source
         | CredAddress a \<Rightarrow> signer a
         | CredAddressV2 a \<Rightarrow> signer a
         | CredAddressWithDelegates a \<Rightarrow> signer a)"

definition push_preimage_deployer ::
  "strkey_ext \<Rightarrow> bytes \<Rightarrow> string \<Rightarrow> (string \<times> string) list \<Rightarrow> contract_id_preimage \<Rightarrow> (string \<times> string) list" where
  "push_preimage_deployer k network_id deployer out preimage =
     (case k_derive k preimage network_id of Some c \<Rightarrow> out @ [(c, deployer)] | None \<Rightarrow> out)"

fun created_preimage :: "authorized_function \<Rightarrow> contract_id_preimage option" where
  "created_preimage (AuthCreateContract p _) = Some p"
| "created_preimage (AuthCreateContractV2 p _ _) = Some p"
| "created_preimage (AuthContractFn _ _ _) = None"

fun walk_auth_for_creates ::
  "strkey_ext \<Rightarrow> bytes \<Rightarrow> string \<Rightarrow> (string \<times> string) list \<Rightarrow> auth_invocation \<Rightarrow> (string \<times> string) list" where
  "walk_auth_for_creates k network_id signer out (AuthInvocation f subs) =
     foldl (walk_auth_for_creates k network_id signer)
       (case created_preimage f of Some p \<Rightarrow> push_preimage_deployer k network_id signer out p | None \<Rightarrow> out) subs"

fun host_preimage :: "host_function \<Rightarrow> contract_id_preimage option" where
  "host_preimage (HostCreateContract p _) = Some p"
| "host_preimage (HostCreateContractV2 p _ _) = Some p"
| "host_preimage _ = None"

definition op_source_step ::
  "xdr_ext \<Rightarrow> strkey_ext \<Rightarrow> bytes \<Rightarrow> string \<Rightarrow> (string \<times> string) list \<Rightarrow> operation \<Rightarrow> (string \<times> string) list" where
  "op_source_step x k network_id tx_source out op =
     (case op_body op of
        BodyInvokeHostFunction f auth \<Rightarrow>
          let effective_source = op_caller x tx_source op;
              out1 = (case host_preimage f of
                        Some p \<Rightarrow> push_preimage_deployer k network_id effective_source out p | None \<Rightarrow> out)
          in foldl (\<lambda>out entry.
               case credentials_signer x (fst entry) effective_source of
                 None \<Rightarrow> out
               | Some auth_signer \<Rightarrow> walk_auth_for_creates k network_id auth_signer out (snd entry)) out1 auth
      | _ \<Rightarrow> out)"

definition extract_op_source_per_contract ::
  "xdr_ext \<Rightarrow> strkey_ext \<Rightarrow> inner_tx \<Rightarrow> string \<Rightarrow> bytes \<Rightarrow> (string \<times> string) list" where
  "extract_op_source_per_contract x k envelope tx_source network_id =
     foldl (op_source_step x k network_id tx_source) [] (inner_operations envelope)"

end
