(* ===== verification/InvocationFacts.thy ===== *)
theory InvocationFacts
  imports Invocation "HOL-Library.Sublist"
begin

text \<open>
  The explicit stacks of the invocation walks against the recursion over the tree: the flattening
  is the preorder of the forest, the operation tree is the tree with the children of every node
  in reverse, and the diagnostic trace of a call forest gives back its calls.
\<close>

subsection \<open>Flattening is the preorder\<close>

fun frames :: "xdr_ext \<Rightarrow> nat \<Rightarrow> string option \<Rightarrow> json \<Rightarrow> auth_invocation \<Rightarrow> flatten_frame list" where
  "frames x d caller rv (AuthInvocation f subs) =
     \<lparr>ff_node = AuthInvocation f subs, ff_depth = d, ff_caller = caller, ff_return_value = rv\<rparr>
     # concat (map (frames x (d + 1) (fst (decode_authorized_function x f)) JNull) subs)"

definition frame_frames :: "xdr_ext \<Rightarrow> flatten_frame \<Rightarrow> flatten_frame list" where
  "frame_frames x fr = frames x (ff_depth fr) (ff_caller fr) (ff_return_value fr) (ff_node fr)"

fun number_rows :: "xdr_ext \<Rightarrow> flatten_ctx \<Rightarrow> flatten_frame list \<Rightarrow> extracted_invocation list" where
  "number_rows x ctx [] = []"
| "number_rows x ctx (fr # frs) =
     invocation_row x ctx fr # number_rows x (ctx\<lparr>fc_index := fc_index ctx + 1\<rparr>) frs"

lemma frame_frames_unfold:
  "frame_frames x fr = fr # concat (map (frame_frames x \<circ> child_frame x fr) (ai_subs (ff_node fr)))"
proof (cases "ff_node fr")
  case (AuthInvocation f subs)
  have "frame_frames x \<circ> child_frame x fr =
        frames x (ff_depth fr + 1) (fst (decode_authorized_function x f)) JNull"
    by (simp add: fun_eq_iff frame_frames_def child_frame_def AuthInvocation)
  moreover have "fr = \<lparr>ff_node = AuthInvocation f subs, ff_depth = ff_depth fr, ff_caller = ff_caller fr,
      ff_return_value = ff_return_value fr\<rparr>" using AuthInvocation by (cases fr) simp
  ultimately show ?thesis
    unfolding frame_frames_def AuthInvocation by (simp add: AuthInvocation)
qed

lemma flatten_loop_rows:
  "flatten_loop x ctx out stack =
     (ctx\<lparr>fc_index := fc_index ctx + length (concat (map (frame_frames x) stack))\<rparr>,
      out @ number_rows x ctx (concat (map (frame_frames x) stack)))"
proof (induction x ctx out stack rule: flatten_loop.induct)
  case (1 x ctx out)
  then show ?case by simp
next
  case (2 x ctx out fr stack)
  then show ?case by (simp add: foldl_push_rev frame_frames_unfold [of x fr])
qed

definition op_frames :: "xdr_ext \<Rightarrow> string \<Rightarrow> json \<Rightarrow> operation \<Rightarrow> flatten_frame list" where
  "op_frames x tx_source rv op =
     concat (map (\<lambda>entry. frames x 0 (Some (op_caller x tx_source op)) rv (snd entry)) (op_auth (op_body op)))"

lemma number_rows_append:
  "number_rows x ctx (as @ bs) =
     number_rows x ctx as @ number_rows x (ctx\<lparr>fc_index := fc_index ctx + length as\<rparr>) bs"
  by (induction as arbitrary: ctx) simp_all

definition rows_after :: "xdr_ext \<Rightarrow> flatten_ctx \<times> extracted_invocation list \<Rightarrow> flatten_frame list \<Rightarrow>
    flatten_ctx \<times> extracted_invocation list" where
  "rows_after x st frs =
     ((fst st)\<lparr>fc_index := fc_index (fst st) + length frs\<rparr>, snd st @ number_rows x (fst st) frs)"

lemma rows_after_append: "rows_after x (rows_after x st as) bs = rows_after x st (as @ bs)"
  by (simp add: rows_after_def number_rows_append)

lemma rows_after_nil: "rows_after x st [] = st"
  by (simp add: rows_after_def)

lemma flatten_invocation_rows:
  "flatten_invocation x st root caller rv = rows_after x st (frames x 0 caller rv root)"
  by (simp add: flatten_invocation_def flatten_loop_rows rows_after_def frame_frames_def)

lemma foldl_rows:
  "(\<And>st e. f st e = rows_after x st (g e)) \<Longrightarrow> foldl f st es = rows_after x st (concat (map g es))"
  by (induction es arbitrary: st) (simp_all add: rows_after_nil rows_after_append)

text \<open>C22. Without a diagnostic trace the calls are the authorization trees in preorder: operations in
  order, the trees of an operation in order, every node before its children and the children
  from left to right, each row with its depth, the contract that called it and consecutive
  indices from zero.\<close>

theorem flatten_auth_tree_preorder:
  "flatten_auth_tree x ops tx_source hash ledger created_at successful rv =
     number_rows x \<lparr>fc_transaction_hash = hash, fc_ledger_sequence = ledger, fc_created_at = created_at,
       fc_successful = successful, fc_index = 0\<rparr> (concat (map (op_frames x tx_source rv) ops))"
proof -
  have "foldl (\<lambda>st entry. flatten_invocation x st (snd entry) (Some (op_caller x tx_source op)) rv) st (op_auth (op_body op))
      = rows_after x st (op_frames x tx_source rv op)" for st op
    unfolding op_frames_def by (rule foldl_rows) (rule flatten_invocation_rows)
  then show ?thesis
    unfolding flatten_auth_tree_def by (subst foldl_rows) (simp_all add: rows_after_def)
qed

subsection \<open>The operation tree\<close>

fun visits_of :: "json \<Rightarrow> auth_invocation \<Rightarrow> visit list" where
  "visits_of rv (AuthInvocation f subs) =
     \<lparr>v_node = AuthInvocation f subs, v_return_value = rv, v_child_count = length subs\<rparr>
     # concat (map (visits_of JNull) subs)"

fun reversed_tree_json :: "xdr_ext \<Rightarrow> bool \<Rightarrow> json \<Rightarrow> auth_invocation \<Rightarrow> json" where
  "reversed_tree_json x s rv (AuthInvocation f subs) =
     invocation_node_json x s (AuthInvocation f subs) rv (rev (map (reversed_tree_json x s JNull) subs))"

lemma visits_of_unfold:
  "visits_of rv n = \<lparr>v_node = n, v_return_value = rv, v_child_count = length (ai_subs n)\<rparr>
     # concat (map (visits_of JNull) (ai_subs n))"
  by (cases n) simp

lemma visit_loop_visits:
  "visit_loop visits stack = visits @ concat (map (\<lambda>(n, rv). visits_of rv n) stack)"
proof (induction visits stack rule: visit_loop.induct)
  case (2 visits node rv stack)
  then show ?case by (simp add: foldl_push_rev comp_def visits_of_unfold [of rv node])
qed simp

lemma build_forest:
  assumes "\<And>c results. c \<in> set cs \<Longrightarrow>
     foldl (build_step x s) results (rev (visits_of JNull c)) = results @ [reversed_tree_json x s JNull c]"
  shows "foldl (build_step x s) results (rev (concat (map (visits_of JNull) cs))) =
         results @ rev (map (reversed_tree_json x s JNull) cs)"
  using assms by (induction cs arbitrary: results) simp_all

lemma build_step_children:
  "length cs = v_child_count v \<Longrightarrow>
     build_step x s (results @ cs) v = results @ [invocation_node_json x s (v_node v) (v_return_value v) cs]"
  by (simp add: build_step_def Let_def)

lemma build_tree:
  "foldl (build_step x s) results (rev (visits_of rv n)) = results @ [reversed_tree_json x s rv n]"
proof (induction n arbitrary: results rv)
  case (AuthInvocation f subs)
  have "foldl (build_step x s) results (rev (concat (map (visits_of JNull) subs))) =
        results @ rev (map (reversed_tree_json x s JNull) subs)" for results
    by (rule build_forest) (rule AuthInvocation)
  then show ?case by (simp add: build_step_children)
qed

lemma invocation_to_json_tree: "invocation_to_json x root rv s = reversed_tree_json x s rv root"
  by (simp add: invocation_to_json_def visit_loop_visits build_tree last_opt_def)

text \<open>C23. The stack passes build the whole tree, and list the children of every node from right to
  left: the children of a node's JSON are the JSON of its sub-invocations in reverse order.  The
  source announces left-to-right order; the flattened rows have it, the tree does not.\<close>

theorem operation_tree_children_reversed:
  "invocation_to_json x (AuthInvocation f subs) rv s =
     invocation_node_json x s (AuthInvocation f subs) rv
       (map (\<lambda>c. invocation_to_json x c JNull s) (rev subs))"
  by (simp add: invocation_to_json_tree rev_map)

subsection \<open>The diagnostic trace of a call forest\<close>

datatype call_tree = CallNode string "call_tree list"

fun call_trace :: "call_tree \<Rightarrow> diag_kind list" where
  "call_trace (CallNode c ts) = FnCall c # concat (map call_trace ts) @ [FnReturn]"

fun call_rows :: "nat \<Rightarrow> string \<Rightarrow> call_tree \<Rightarrow> (string \<times> string \<times> nat) list" where
  "call_rows d caller (CallNode c ts) = (c, caller, d) # concat (map (call_rows (Suc d) c) ts)"

definition row_view :: "extracted_invocation \<Rightarrow> (string option \<times> string option \<times> nat)" where
  "row_view r = (iv_contract_id r, iv_caller r, iv_depth r)"

definition some_view :: "string \<times> string \<times> nat \<Rightarrow> (string option \<times> string option \<times> nat)" where
  "some_view r = (case r of (c, caller, d) \<Rightarrow> (Some c, Some caller, d))"

definition caller_of :: "string \<Rightarrow> string list \<Rightarrow> string" where
  "caller_of root stack = (case stack of c # _ \<Rightarrow> c | [] \<Rightarrow> root)"

definition appends_calls ::
  "string \<Rightarrow> diag_state \<Rightarrow> diag_state \<Rightarrow> (string \<times> string \<times> nat) list \<Rightarrow> bool" where
  "appends_calls root s s' rows \<longleftrightarrow>
     map row_view (ds_out s') = map row_view (ds_out s) @ map some_view rows \<and> ds_stack s' = ds_stack s"

lemma appends_calls_trans:
  "appends_calls root s s' as \<Longrightarrow> appends_calls root s' s'' bs \<Longrightarrow> appends_calls root s s'' (as @ bs)"
  by (simp add: appends_calls_def)

lemma forest_appends:
  assumes "\<And>t s. t \<in> set ts \<Longrightarrow>
     appends_calls root s (foldl step s (call_trace t)) (call_rows (length (ds_stack s)) (caller_of root (ds_stack s)) t)"
  shows "appends_calls root s (foldl step s (concat (map call_trace ts)))
     (concat (map (call_rows (length (ds_stack s)) (caller_of root (ds_stack s))) ts))"
  using assms
proof (induction ts arbitrary: s)
  case Nil
  then show ?case by (simp add: appends_calls_def)
next
  case (Cons t ts)
  let ?s = "foldl step s (call_trace t)"
  have t: "appends_calls root s ?s (call_rows (length (ds_stack s)) (caller_of root (ds_stack s)) t)"
    using Cons.prems by simp
  then have "ds_stack ?s = ds_stack s" by (simp add: appends_calls_def)
  moreover have "appends_calls root ?s (foldl step ?s (concat (map call_trace ts)))
      (concat (map (call_rows (length (ds_stack ?s)) (caller_of root (ds_stack ?s))) ts))"
    using Cons.prems by (intro Cons.IH) simp
  ultimately show ?case using appends_calls_trans [OF t] by simp
qed

lemma diag_kind_steps [simp]:
  "diag_kind_step h l c root ok s (FnCall cid) = diag_call h l c root ok s cid"
  "ds_out (diag_kind_step h l c root ok s FnReturn) = ds_out s"
  "ds_stack (diag_kind_step h l c root ok s FnReturn) = tl (ds_stack s)"
  by (simp_all add: diag_kind_step_def)

lemma diag_call_views [simp]:
  "map row_view (ds_out (diag_call h l c root ok s cid)) =
     map row_view (ds_out s) @ [(Some cid, Some (caller_of root (ds_stack s)), length (ds_stack s))]"
  "ds_stack (diag_call h l c root ok s cid) = cid # ds_stack s"
  by (simp_all add: diag_call_def row_view_def caller_of_def split: list.split)

lemma trace_appends:
  "appends_calls root s (foldl (diag_kind_step h l c root ok) s (call_trace t))
     (call_rows (length (ds_stack s)) (caller_of root (ds_stack s)) t)"
proof (induction t arbitrary: s)
  case (CallNode cid ts)
  let ?step = "diag_kind_step h l c root ok"
  let ?s = "diag_call h l c root ok s cid"
  have "appends_calls root ?s (foldl ?step ?s (concat (map call_trace ts)))
     (concat (map (call_rows (length (ds_stack ?s)) (caller_of root (ds_stack ?s))) ts))"
    by (rule forest_appends) (rule CallNode)
  then show ?case
    by (simp add: appends_calls_def some_view_def) (simp add: caller_of_def some_view_def)
qed

fun is_call :: "diag_kind \<Rightarrow> bool" where
  "is_call (FnCall _) = True"
| "is_call FnReturn = False"

lemma diag_fold_extends:
  "\<exists>rows. ds_out (foldl (diag_kind_step h l c root ok) s ks) = ds_out s @ rows \<and>
          length rows = length (filter is_call ks) \<and>
          map iv_invocation_index rows = [ds_index s..<ds_index s + length rows] \<and>
          ds_index (foldl (diag_kind_step h l c root ok) s ks) = ds_index s + length rows"
proof (induction ks arbitrary: s)
  case (Cons k ks)
  show ?case
  proof (cases k)
    case (FnCall cid)
    obtain rows where "ds_out (foldl (diag_kind_step h l c root ok) (diag_call h l c root ok s cid) ks) =
        ds_out (diag_call h l c root ok s cid) @ rows" and "length rows = length (filter is_call ks)" and
      "map iv_invocation_index rows = [ds_index (diag_call h l c root ok s cid)..<ds_index (diag_call h l c root ok s cid) + length rows]"
      and "ds_index (foldl (diag_kind_step h l c root ok) (diag_call h l c root ok s cid) ks) =
        ds_index (diag_call h l c root ok s cid) + length rows"
      using Cons.IH by blast
    moreover have "[ds_index s..<ds_index s + Suc k] = ds_index s # [Suc (ds_index s)..<Suc (ds_index s) + k]" for k
      by (simp add: upt_conv_Cons del: upt_Suc)
    moreover have "\<exists>r. ds_out (diag_call h l c root ok s cid) = ds_out s @ [r] \<and> iv_invocation_index r = ds_index s"
      and "ds_index (diag_call h l c root ok s cid) = Suc (ds_index s)"
      by (simp_all add: diag_call_def)
    ultimately show ?thesis by (auto simp: FnCall simp del: upt_Suc)
  next
    case FnReturn
    then show ?thesis using Cons.IH [of "s\<lparr>ds_stack := tl (ds_stack s)\<rparr>"] by (simp add: diag_kind_step_def [of _ _ _ _ _ _ FnReturn])
  qed
qed simp

text \<open>C21. The diagnostic trace gives back the calls: when the call and return events of a
  transaction are those of a forest of calls, also when the host stopped in the middle of it, the
  rows are the calls made so far in the order they were made, each with its depth and the contract that
  made it (the root caller outside every contract), under consecutive indices.\<close>

theorem diagnostic_trace_calls:
  assumes "prefix (diag_kinds x (diagnostic_events meta)) (concat (map call_trace forest))"
  shows "map row_view (extract_invocations_from_diagnostics x meta h l c root ok) =
           take (length (filter is_call (diag_kinds x (diagnostic_events meta))))
             (map some_view (concat (map (call_rows 0 root) forest))) \<and>
         map iv_invocation_index (extract_invocations_from_diagnostics x meta h l c root ok) =
           [0..<length (filter is_call (diag_kinds x (diagnostic_events meta)))]"
proof -
  let ?step = "diag_kind_step h l c root ok"
  let ?s0 = "\<lparr>ds_out = [], ds_stack = [], ds_index = 0\<rparr>"
  let ?ks = "diag_kinds x (diagnostic_events meta)"
  obtain ks' where ks': "concat (map call_trace forest) = ?ks @ ks'" using assms by (auto simp: prefix_def)
  obtain rows where rows: "ds_out (foldl ?step ?s0 ?ks) = rows" "length rows = length (filter is_call ?ks)"
      "map iv_invocation_index rows = [0..<length rows]"
    using diag_fold_extends [of h l c root ok ?s0 ?ks] by auto
  obtain more where more: "ds_out (foldl ?step ?s0 (?ks @ ks')) = rows @ more"
    using diag_fold_extends [of h l c root ok "foldl ?step ?s0 ?ks" ks'] rows(1) by auto
  have "appends_calls root ?s0 (foldl ?step ?s0 (concat (map call_trace forest)))
     (concat (map (call_rows 0 root) forest))"
    using forest_appends [of forest root ?step ?s0] trace_appends [of root _ h l c ok]
    by (simp add: caller_of_def)
  then have "map row_view (rows @ more) = map some_view (concat (map (call_rows 0 root) forest))"
    using more ks' by (simp add: appends_calls_def)
  then have "map row_view rows = take (length rows) (map some_view (concat (map (call_rows 0 root) forest)))"
    by (metis append_eq_conv_conj length_map map_append)
  then show ?thesis using rows by (simp add: extract_invocations_from_diagnostics_def)
qed

definition demo_diag :: "scval list \<Rightarrow> contract_event" where
  "demo_diag topics = \<lparr>ce_type = XdrDiagnostic, ce_contract_id = None, ce_topics = topics, ce_data = ScVoid\<rparr>"

definition demo_contract :: "char \<Rightarrow> scval" where
  "demo_contract c = ScAddress (AddrContract [c])"

definition demo_trace :: tx_meta where
  "demo_trace = MetaV4 \<lparr>m4_changes_before = [], m4_operations = [], m4_changes_after = [], m4_soroban = None,
     m4_events = [],
     m4_diagnostic = [demo_diag [ScSymbol ''fn_call'', demo_contract CHR ''a''],
       demo_diag [ScSymbol ''fn_call'', demo_contract CHR ''b''], demo_diag [ScSymbol ''fn_return''],
       demo_diag [ScSymbol ''fn_call'', demo_contract CHR ''c'']]\<rparr>"

theorem diagnostic_trace_calls_witness:
  "map row_view (extract_invocations_from_diagnostics demo_ext demo_trace ''h'' 1 0 ''GR'' True) =
     [(Some ''Ca'', Some ''GR'', 0), (Some ''Cb'', Some ''Ca'', 1), (Some ''Cc'', Some ''Ca'', 1)]"
proof -
  have kinds: "diag_kinds demo_ext (diagnostic_events demo_trace) =
      [FnCall ''Ca'', FnCall ''Cb'', FnReturn, FnCall ''Cc'']"
    by code_simp
  have "prefix (diag_kinds demo_ext (diagnostic_events demo_trace))
      (concat (map call_trace [CallNode ''Ca'' [CallNode ''Cb'' [], CallNode ''Cc'' []]]))"
    unfolding kinds by (simp add: prefix_def)
  from diagnostic_trace_calls [OF this, of "''h''" 1 0 "''GR''" True] show ?thesis
    unfolding kinds by (simp add: some_view_def)
qed

end
