(* ===== verification/Fold.thy ===== *)
theory Fold
  imports Prelude
begin

text \<open>
  \<open>crates/xdr-parser/src/fold.rs\<close>: the last-wins fold every per-ledger collapse shares.  The
  source keeps a hash map from key to the slot of the key in the output vector; the model
  keeps both, and the result is characterised without either: the keys in the order they
  first appear, each with the last item that carries it.
\<close>

fun keep_last_loop :: "('a \<Rightarrow> 'k) \<Rightarrow> ('k \<rightharpoonup> nat) \<Rightarrow> 'a list \<Rightarrow> 'a list \<Rightarrow> 'a list" where
  "keep_last_loop key position folded [] = folded"
| "keep_last_loop key position folded (item # items) =
     (case position (key item) of
        Some i \<Rightarrow> keep_last_loop key position (folded[i := item]) items
      | None \<Rightarrow> keep_last_loop key (position(key item \<mapsto> length folded)) (folded @ [item]) items)"

definition keep_last_by_key :: "('a \<Rightarrow> 'k) \<Rightarrow> 'a list \<Rightarrow> 'a list" where
  "keep_last_by_key key items = keep_last_loop key Map.empty [] items"

subsection \<open>What a collapse promises\<close>

text \<open>The distinct elements in the order of their first occurrence.\<close>

fun firsts :: "'k list \<Rightarrow> 'k list" where
  "firsts [] = []"
| "firsts (k # ks) = k # filter (\<lambda>k'. k' \<noteq> k) (firsts ks)"

lemma set_firsts [simp]: "set (firsts ks) = set ks"
  by (induction ks) auto

lemma distinct_firsts [simp]: "distinct (firsts ks)"
  by (induction ks) auto

lemma firsts_snoc: "firsts (ks @ [k]) = (if k \<in> set ks then firsts ks else firsts ks @ [k])"
  by (induction ks) auto

lemma firsts_distinct: "distinct ks \<Longrightarrow> firsts ks = ks"
  by (induction ks) (auto simp: filter_id_conv)

definition last_with :: "('a \<Rightarrow> 'k) \<Rightarrow> 'a list \<Rightarrow> 'k \<Rightarrow> 'a" where
  "last_with key xs k = last (filter (\<lambda>x. key x = k) xs)"

lemma last_with_snoc: "last_with key (xs @ [x]) k = (if key x = k then x else last_with key xs k)"
  by (simp add: last_with_def)

lemma last_with_mem:
  assumes "k \<in> key ` set xs"
  shows "last_with key xs k \<in> set xs \<and> key (last_with key xs k) = k"
proof -
  have "filter (\<lambda>x. key x = k) xs \<noteq> []" using assms by (auto simp: filter_empty_conv)
  then have "last (filter (\<lambda>x. key x = k) xs) \<in> set (filter (\<lambda>x. key x = k) xs)"
    by (rule last_in_set)
  then show ?thesis by (simp add: last_with_def)
qed

locale last_wins =
  fixes collapse :: "'a list \<Rightarrow> 'a list" and key :: "'a \<Rightarrow> 'k"
  assumes collapse_eq: "collapse xs = map (last_with key xs) (firsts (map key xs))"
begin

lemma keys: "map key (collapse xs) = firsts (map key xs)"
  using last_with_mem [of _ key xs] by (auto simp: collapse_eq intro!: map_idI)

lemma distinct_keys: "distinct (map key (collapse xs))"
  by (simp add: keys)

lemma mem: "x \<in> set (collapse xs) \<longleftrightarrow> (x \<in> set xs \<and> x = last_with key xs (key x))"
  using last_with_mem [of _ key xs] by (force simp: collapse_eq)

lemma subset: "set (collapse xs) \<subseteq> set xs"
  using mem by blast

lemma covered: "x \<in> set xs \<Longrightarrow> \<exists>y \<in> set (collapse xs). key y = key x"
  using last_with_mem [of "key x" key xs] mem [of "last_with key xs (key x)" xs] by force

lemma idem: "distinct (map key xs) \<Longrightarrow> collapse xs = xs"
proof -
  assume d: "distinct (map key xs)"
  have "last_with key xs (key x) = x" if "x \<in> set xs" for x
    using last_with_mem [of "key x" key xs] that d by (metis distinct_map image_eqI inj_onD)
  then show ?thesis
    using d by (simp add: collapse_eq firsts_distinct map_idI)
qed

lemma collapse_twice: "collapse (collapse xs) = collapse xs"
  by (rule idem) (rule distinct_keys)

end

subsection \<open>The loop satisfies it\<close>

text \<open>The hash map holds, for every key already seen, the slot of its item.\<close>

definition slots_of :: "'k list \<Rightarrow> ('k \<rightharpoonup> nat) \<Rightarrow> bool" where
  "slots_of ks position \<longleftrightarrow>
     (\<forall>k i. position k = Some i \<longleftrightarrow> i < length (firsts ks) \<and> firsts ks ! i = k)"

lemma slots_of_known:
  assumes "slots_of ks position" and "k \<in> set ks"
  shows "\<exists>i. position k = Some i \<and> i < length (firsts ks) \<and> firsts ks ! i = k"
proof -
  have "k \<in> set (firsts ks)" using assms(2) by simp
  then obtain i where "i < length (firsts ks)" "firsts ks ! i = k"
    unfolding in_set_conv_nth by blast
  then show ?thesis using assms(1) unfolding slots_of_def by blast
qed

lemma slots_of_new:
  assumes "slots_of ks position" and "k \<notin> set ks"
  shows "position k = None" and "slots_of (ks @ [k]) (position(k \<mapsto> length (firsts ks)))"
proof -
  show none: "position k = None"
    using assms nth_mem [of _ "firsts ks"] by (cases "position k") (auto simp: slots_of_def)
  show "slots_of (ks @ [k]) (position(k \<mapsto> length (firsts ks)))"
    using assms none nth_mem [of _ "firsts ks"]
    by (auto simp: slots_of_def firsts_snoc nth_append less_Suc_eq split: if_splits)
qed

lemma last_with_update:
  assumes "i < length ks" and "ks ! i = key x" and "distinct ks"
  shows "(map (last_with key xs) ks)[i := x] = map (last_with key (xs @ [x])) ks"
  using assms by (intro nth_equalityI) (auto simp: nth_list_update last_with_snoc nth_eq_iff_index_eq)

lemma keep_last_loop_eq:
  assumes "slots_of (map key xs) position"
  shows "keep_last_loop key position (map (last_with key xs) (firsts (map key xs))) ys =
         map (last_with key (xs @ ys)) (firsts (map key (xs @ ys)))"
  using assms
proof (induction ys arbitrary: xs position)
  case Nil
  then show ?case by simp
next
  case (Cons y ys)
  show ?case
  proof (cases "key y \<in> set (map key xs)")
    case True
    with slots_of_known [OF Cons.prems] obtain i where
      i: "position (key y) = Some i" "i < length (firsts (map key xs))" "firsts (map key xs) ! i = key y"
      by blast
    have "firsts (map key (xs @ [y])) = firsts (map key xs)"
      using True by (simp add: firsts_snoc)
    moreover from this have "slots_of (map key (xs @ [y])) position"
      using Cons.prems by (simp add: slots_of_def)
    ultimately show ?thesis
      using Cons.IH [of "xs @ [y]" position] i
        last_with_update [where ks = "firsts (map key xs)" and i = i and x = y and key = key and xs = xs]
      by simp
  next
    case False
    have "map (last_with key xs) (firsts (map key xs)) @ [y] =
          map (last_with key (xs @ [y])) (firsts (map key (xs @ [y])))"
      using False by (auto simp: firsts_snoc last_with_snoc)
    then show ?thesis
      using Cons.IH [of "xs @ [y]"] slots_of_new [OF Cons.prems False] by simp
  qed
qed

interpretation kl: last_wins "keep_last_by_key key" key for key
proof
  fix xs
  show "keep_last_by_key key xs = map (last_with key xs) (firsts (map key xs))"
    using keep_last_loop_eq [of key "[]" Map.empty xs]
    by (simp add: keep_last_by_key_def slots_of_def)
qed

text \<open>The fold keeps, for every key, the last item that carries it, at the position where the
  key first appeared, and nothing else; folding a folded list again changes nothing.\<close>

theorem keep_last_by_key_spec:
  "map key (keep_last_by_key key xs) = firsts (map key xs) \<and>
   keep_last_by_key key xs = map (last_with key xs) (firsts (map key xs)) \<and>
   keep_last_by_key key (keep_last_by_key key xs) = keep_last_by_key key xs"
  using kl.keys kl.collapse_eq kl.collapse_twice by blast

end
