(* ===== verification/Pagination.thy ===== *)
theory Pagination
  imports RustStr
begin

text \<open>
  \<open>crates/api/src/common/pagination.rs\<close> and \<open>cursor.rs\<close>: keyset pages.  A handler fetches one row
  more than the page holds, in the order and beyond the key the cursor asks for, and
  \<open>finalize_page\<close> turns the fetch into a page with cursors.  The store is a table with distinct
  keys; the fetch is what a query built from \<open>keyset_sql\<close> returns.
\<close>

datatype direction = DirNext | DirPrev

datatype sort_order = SortAsc | SortDesc

datatype sort_order_error = InvalidSortOrder string

record 'c page_info =
  pg_next_cursor :: "'c option"
  pg_prev_cursor :: "'c option"
  pg_limit :: nat

subsection \<open>Cursors\<close>

definition keyset_sql :: "sort_order \<Rightarrow> direction \<Rightarrow> string \<times> string" where
  "keyset_sql so dir =
     (if (so, dir) = (SortDesc, DirNext) \<or> (so, dir) = (SortAsc, DirPrev)
      then (''<'', ''DESC'') else (''>'', ''ASC''))"

definition keyset_sql_desc :: "direction \<Rightarrow> string \<times> string" where
  "keyset_sql_desc dir = keyset_sql SortDesc dir"

definition parse_sort_order :: "string option \<Rightarrow> sort_order_error + sort_order" where
  "parse_sort_order raw =
     (case raw of
        None \<Rightarrow> Inr SortDesc
      | Some s \<Rightarrow>
          if eq_ignore_ascii_case s ''asc'' then Inr SortAsc
          else if eq_ignore_ascii_case s ''desc'' then Inr SortDesc
          else Inl (InvalidSortOrder s))"

text \<open>The opaque text of a cursor: serialization and base64 are third-party code.\<close>

datatype cursor_error = InvalidBase64 | InvalidPayload

record 'p cursor_codec =
  cc_to_json :: "direction \<times> 'p \<Rightarrow> string"
  cc_of_json :: "string \<Rightarrow> (direction \<times> 'p) option"
  cc_b64_encode :: "string \<Rightarrow> string"
  cc_b64_decode :: "string \<Rightarrow> string option"

definition encode_cursor :: "'p cursor_codec \<Rightarrow> 'p \<Rightarrow> direction \<Rightarrow> string" where
  "encode_cursor c payload dir = cc_b64_encode c (cc_to_json c (dir, payload))"

definition decode_cursor :: "'p cursor_codec \<Rightarrow> string \<Rightarrow> cursor_error + (direction \<times> 'p)" where
  "decode_cursor c s =
     (case cc_b64_decode c s of
        None \<Rightarrow> Inl InvalidBase64
      | Some bytes \<Rightarrow> (case cc_of_json c bytes of None \<Rightarrow> Inl InvalidPayload | Some e \<Rightarrow> Inr e))"

subsection \<open>A page\<close>

definition finalize_page ::
  "'r list \<Rightarrow> nat \<Rightarrow> direction \<Rightarrow> bool \<Rightarrow> (direction \<Rightarrow> 'r \<Rightarrow> 'c) \<Rightarrow> 'r list \<times> 'c page_info" where
  "finalize_page rows limit dir has_predecessor cursor_of =
     (let has_excess = limit < length rows in
      case dir of
        DirNext \<Rightarrow>
          let rows' = (if has_excess then take limit rows else rows);
              next = (if has_excess then map_option (cursor_of DirNext) (last_opt rows') else None);
              prev = (if has_predecessor then map_option (cursor_of DirPrev) (first_opt rows') else None)
          in (rows', \<lparr>pg_next_cursor = next, pg_prev_cursor = prev, pg_limit = limit\<rparr>)
      | DirPrev \<Rightarrow>
          let has_more_prev = has_excess;
              rows' = rev (if has_excess then take limit rows else rows);
              prev = (if has_more_prev then map_option (cursor_of DirPrev) (first_opt rows') else None);
              next = map_option (cursor_of DirNext) (last_opt rows')
          in (rows', \<lparr>pg_next_cursor = next, pg_prev_cursor = prev, pg_limit = limit\<rparr>))"

subsection \<open>The store and a request\<close>

text \<open>The table is listed by ascending key.\<close>

definition keyset_fetch ::
  "('r \<Rightarrow> 'k::linorder) \<Rightarrow> 'r list \<Rightarrow> sort_order \<Rightarrow> direction \<Rightarrow> 'k option \<Rightarrow> nat \<Rightarrow> 'r list" where
  "keyset_fetch key table so dir cur n =
     (let (op, order) = keyset_sql so dir;
          rows = filter (\<lambda>r. case cur of None \<Rightarrow> True
                             | Some k \<Rightarrow> if op = ''<'' then key r < k else k < key r) table
      in take n (if order = ''DESC'' then rev rows else rows))"

definition request_page ::
  "('r \<Rightarrow> 'k::linorder) \<Rightarrow> 'r list \<Rightarrow> sort_order \<Rightarrow> nat \<Rightarrow> (direction \<times> 'k) option \<Rightarrow>
   'r list \<times> (direction \<times> 'k) page_info" where
  "request_page key table so limit cursor =
     (let dir = (case cursor of None \<Rightarrow> DirNext | Some (d, _) \<Rightarrow> d)
      in finalize_page (keyset_fetch key table so dir (map_option snd cursor) (limit + 1)) limit dir
           (cursor \<noteq> None) (\<lambda>d r. (d, key r)))"

text \<open>A client that follows the next cursors from the first page; \<open>None\<close> when the fuel runs out.\<close>

fun walk_pages ::
  "('r \<Rightarrow> 'k::linorder) \<Rightarrow> 'r list \<Rightarrow> sort_order \<Rightarrow> nat \<Rightarrow> nat \<Rightarrow> (direction \<times> 'k) option \<Rightarrow> 'r list option" where
  "walk_pages key table so limit 0 cursor = None"
| "walk_pages key table so limit (Suc fuel) cursor =
     (let (rows, info) = request_page key table so limit cursor in
      case pg_next_cursor info of
        None \<Rightarrow> Some rows
      | Some c \<Rightarrow> map_option (\<lambda>rest. rows @ rest) (walk_pages key table so limit fuel (Some c)))"

subsection \<open>Facts\<close>

definition presented :: "'r list \<Rightarrow> sort_order \<Rightarrow> 'r list" where
  "presented table so = (case so of SortAsc \<Rightarrow> table | SortDesc \<Rightarrow> rev table)"

lemma filter_after:
  assumes "sorted_wrt P xs" and "i < length xs" and "\<And>a b. P a b \<Longrightarrow> \<not> P b a" and "\<And>a. \<not> P a a"
  shows "filter (\<lambda>r. P (xs ! i) r) xs = drop (Suc i) xs"
    and "filter (\<lambda>r. P r (xs ! i)) xs = take i xs"
proof -
  have split: "xs = take i xs @ xs ! i # drop (Suc i) xs" using assms(2) by (rule id_take_nth_drop)
  with assms(1) have s: "sorted_wrt P (take i xs @ xs ! i # drop (Suc i) xs)" by simp
  have before: "P r (xs ! i)" if "r \<in> set (take i xs)" for r using s that by (simp add: sorted_wrt_append)
  have after: "P (xs ! i) r" if "r \<in> set (drop (Suc i) xs)" for r using s that by (simp add: sorted_wrt_append)
  have "filter (\<lambda>r. P (xs ! i) r) (take i xs) = []" "filter (\<lambda>r. P (xs ! i) r) (drop (Suc i) xs) = drop (Suc i) xs"
    using before after assms(3) by (auto simp: filter_empty_conv filter_id_conv)
  moreover have "filter (\<lambda>r. P r (xs ! i)) (take i xs) = take i xs" "filter (\<lambda>r. P r (xs ! i)) (drop (Suc i) xs) = []"
    using before after assms(3) by (auto simp: filter_empty_conv filter_id_conv)
  ultimately show "filter (\<lambda>r. P (xs ! i) r) xs = drop (Suc i) xs" and "filter (\<lambda>r. P r (xs ! i)) xs = take i xs"
    using assms(4) by (subst (2) split, simp)+
qed

lemma presented_sorted:
  assumes "sorted_wrt (\<lambda>a b. key a < key b) table"
  shows "sorted_wrt (\<lambda>a b. if so = SortDesc then key b < key a else key a < key b) (presented table so)"
  using assms by (cases so) (simp_all add: presented_def sorted_wrt_rev)

lemma fetch_first:
  "keyset_fetch key table so DirNext None n = take n (presented table so)"
  by (cases so) (simp_all add: keyset_fetch_def keyset_sql_def presented_def)

lemma fetch_at:
  assumes "sorted_wrt (\<lambda>a b. key a < key b) table" and i: "i < length table"
  shows "keyset_fetch key table so DirNext (Some (key (presented table so ! i))) n =
           take n (drop (Suc i) (presented table so))"
    and "keyset_fetch key table so DirPrev (Some (key (presented table so ! i))) n =
           take n (rev (take i (presented table so)))"
proof -
  let ?L = "presented table so"
  let ?P = "\<lambda>a b. if so = SortDesc then key b < key a else key a < key b"
  have i': "i < length ?L" using i by (cases so) (simp_all add: presented_def)
  note f = filter_after [of ?P ?L i, OF presented_sorted [OF assms(1)] i']
  have after: "filter (\<lambda>r. ?P (?L ! i) r) ?L = drop (Suc i) ?L" by (rule f(1)) (auto split: if_splits)
  have before: "filter (\<lambda>r. ?P r (?L ! i)) ?L = take i ?L" by (rule f(2)) (auto split: if_splits)
  show "keyset_fetch key table so DirNext (Some (key (?L ! i))) n = take n (drop (Suc i) ?L)"
    using after by (cases so) (simp_all add: keyset_fetch_def keyset_sql_def presented_def rev_filter)
  have "rev (filter (\<lambda>r. ?P r (?L ! i)) ?L) = rev (take i ?L)" using before by simp
  then show "keyset_fetch key table so DirPrev (Some (key (?L ! i))) n = take n (rev (take i ?L))"
    by (cases so) (simp_all add: keyset_fetch_def keyset_sql_def presented_def rev_filter)
qed

text \<open>The rows of a page and its next cursor, by the number of rows before it.\<close>

definition page_at :: "('r \<Rightarrow> 'k) \<Rightarrow> 'r list \<Rightarrow> nat \<Rightarrow> nat \<Rightarrow> 'r list \<times> (direction \<times> 'k) option" where
  "page_at key xs limit start =
     (take limit (drop start xs),
      if start + limit < length xs then Some (DirNext, key (xs ! (start + limit - 1))) else None)"

lemma length_presented [simp]: "length (presented table so) = length table"
  by (cases so) (simp_all add: presented_def)

lemma last_page_row:
  "0 < limit \<Longrightarrow> start + limit < length xs \<Longrightarrow> last_opt (take limit (drop start xs)) = Some (xs ! (start + limit - 1))"
  by (simp add: last_opt_def last_conv_nth)

lemma next_page:
  fixes key :: "'r \<Rightarrow> 'k::linorder"
  assumes "0 < limit" and "fetched = take (limit + 1) (drop start xs)"
  shows "fst (finalize_page fetched limit DirNext b (\<lambda>d r. (d, key r))) = fst (page_at key xs limit start) \<and>
         pg_next_cursor (snd (finalize_page fetched limit DirNext b (\<lambda>d r. (d, key r)))) = snd (page_at key xs limit start)"
proof (cases "start + limit < length xs")
  case True
  have "take limit fetched = take limit (drop start xs)" by (simp add: assms(2))
  moreover have "limit < length fetched" using True by (simp add: assms(2))
  ultimately show ?thesis
    using last_page_row [OF assms(1) True] True by (simp add: finalize_page_def page_at_def Let_def)
next
  case False
  then have "fetched = drop start xs" and "take limit (drop start xs) = drop start xs"
    by (simp_all add: assms(2))
  with False show ?thesis by (simp add: finalize_page_def page_at_def Let_def)
qed

lemma request_first:
  "0 < limit \<Longrightarrow>
     fst (request_page key table so limit None) = fst (page_at key (presented table so) limit 0) \<and>
     pg_next_cursor (snd (request_page key table so limit None)) = snd (page_at key (presented table so) limit 0)"
  using next_page [of limit "keyset_fetch key table so DirNext None (limit + 1)" 0 "presented table so" False key]
  by (simp add: request_page_def fetch_first)

lemma request_next:
  assumes "sorted_wrt (\<lambda>a b. key a < key b) table" and "i < length table" and "0 < limit"
  shows "fst (request_page key table so limit (Some (DirNext, key (presented table so ! i)))) =
           fst (page_at key (presented table so) limit (Suc i)) \<and>
         pg_next_cursor (snd (request_page key table so limit (Some (DirNext, key (presented table so ! i))))) =
           snd (page_at key (presented table so) limit (Suc i))"
  using next_page [OF assms(3) fetch_at(1) [OF assms(1, 2), where n = "limit + 1" and so = so], where b = True and key = key]
  by (simp add: request_page_def)

lemma walk_from:
  assumes "sorted_wrt (\<lambda>a b. key a < key b) table" and "0 < limit"
    and "length table - start < fuel"
    and "cursor = None \<and> start = 0 \<or>
         (\<exists>i. start = Suc i \<and> i < length table \<and> cursor = Some (DirNext, key (presented table so ! i)))"
  shows "walk_pages key table so limit fuel cursor = Some (drop start (presented table so))"
  using assms(3, 4)
proof (induction fuel arbitrary: start cursor)
  case 0
  then show ?case by simp
next
  case (Suc fuel)
  let ?L = "presented table so"
  have page: "fst (request_page key table so limit cursor) = fst (page_at key ?L limit start)"
    "pg_next_cursor (snd (request_page key table so limit cursor)) = snd (page_at key ?L limit start)"
    using Suc.prems(2) request_first [OF assms(2)] request_next [OF assms(1) _ assms(2)] by auto
  show ?case
  proof (cases "start + limit < length table")
    case True
    let ?i = "start + limit - 1"
    have "walk_pages key table so limit fuel (Some (DirNext, key (?L ! ?i))) = Some (drop (start + limit) ?L)"
    proof (rule Suc.IH)
      show "length table - (start + limit) < fuel" using Suc.prems(1) assms(2) True by linarith
      show "Some (DirNext, key (?L ! ?i)) = None \<and> start + limit = 0 \<or>
         (\<exists>i. start + limit = Suc i \<and> i < length table \<and>
            Some (DirNext, key (?L ! ?i)) = Some (DirNext, key (?L ! i)))"
        using True assms(2) by (intro disjI2 exI [of _ ?i]) simp
    qed
    moreover have "take limit (drop start ?L) @ drop (start + limit) ?L = drop start ?L"
      by (metis append_take_drop_id drop_drop add.commute)
    ultimately show ?thesis
      using page True by (cases "request_page key table so limit cursor") (simp add: page_at_def)
  next
    case False
    then have "take limit (drop start ?L) = drop start ?L" by simp
    with page False show ?thesis by (cases "request_page key table so limit cursor") (simp add: page_at_def)
  qed
qed

subsection \<open>Properties\<close>

text \<open>C39. Following the next cursors ends and shows every row exactly once: over any table with
  distinct keys, in either sort order and with any positive page size, the walk from the first
  page stops after at most as many pages as the table has rows plus one, and the pages put
  together are the whole table in the presented order.\<close>

theorem walk_pages_complete:
  assumes "sorted_wrt (\<lambda>a b. key a < key b) table" and "0 < limit"
  shows "walk_pages key table so limit (Suc (length table)) None = Some (presented table so)"
  using walk_from [OF assms, of 0 "Suc (length table)" None so] by simp

theorem walk_pages_complete_witness:
  "walk_pages (\<lambda>n. n) [1, 3, 4, 8, 9] SortDesc 2 6 None = Some [9, 8, 4, 3, 1 :: nat]"
  using walk_pages_complete [of "\<lambda>n. n" "[1, 3, 4, 8, 9 :: nat]" 2 SortDesc]
  by (simp add: presented_def eval_nat_numeral del: walk_pages.simps)

text \<open>C40. Going back shows the page before and loses no place: the previous page of the page that
  starts after \<open>i\<close> rows holds the rows just before it, as many as fit, offers a previous page
  exactly when rows remain before it, and its next cursor leads to the very row the client
  came from.\<close>

theorem previous_page_returns:
  assumes "sorted_wrt (\<lambda>a b. key a < key b) table" and "0 < limit" and "0 < i" and "i < length table"
  shows "fst (request_page key table so limit (Some (DirPrev, key (presented table so ! i)))) =
           drop (i - limit) (take i (presented table so)) \<and>
         (pg_prev_cursor (snd (request_page key table so limit (Some (DirPrev, key (presented table so ! i))))) =
           (if limit < i then Some (DirPrev, key (presented table so ! (i - limit))) else None)) \<and>
         (\<exists>c. pg_next_cursor (snd (request_page key table so limit (Some (DirPrev, key (presented table so ! i))))) = Some c \<and>
              fst (request_page key table so limit (Some c)) = take limit (drop i (presented table so)))"
proof -
  let ?L = "presented table so"
  let ?F = "take (limit + 1) (rev (take i ?L))"
  have i: "i \<le> length ?L" using assms(4) by simp
  have keep: "rev (take limit (rev (take i ?L))) = drop (i - limit) (take i ?L)"
    using i by (simp add: take_rev)
  have "limit < length ?F \<longleftrightarrow> limit < i" using i by auto
  moreover have "take limit ?F = take limit (rev (take i ?L))" by (simp add: min_def)
  moreover have "\<not> limit < i \<Longrightarrow> ?F = rev (take i ?L)" using i by simp
  ultimately have kept: "rev (if limit < i then take limit ?F else ?F) = drop (i - limit) (take i ?L)"
    and excess: "limit < length ?F \<longleftrightarrow> limit < i"
    using keep i by auto
  have last: "last_opt (drop (i - limit) (take i ?L)) = Some (?L ! (i - 1))"
    using assms(2, 3) i by (simp add: last_opt_def last_conv_nth)
  have first: "first_opt (drop (i - limit) (take i ?L)) = Some (?L ! (i - limit))"
    using assms(2, 3) i by (simp add: first_opt_hd hd_drop_conv_nth)
  have page: "request_page key table so limit (Some (DirPrev, key (?L ! i))) =
      (drop (i - limit) (take i ?L),
       \<lparr>pg_next_cursor = Some (DirNext, key (?L ! (i - 1))),
        pg_prev_cursor = (if limit < i then Some (DirPrev, key (?L ! (i - limit))) else None),
        pg_limit = limit\<rparr>)"
    unfolding request_page_def finalize_page_def Let_def option.case prod.case option.map snd_conv
      direction.case fetch_at(2) [OF assms(1, 4)] kept excess last first by simp
  have "fst (request_page key table so limit (Some (DirNext, key (?L ! (i - 1))))) = take limit (drop i ?L)"
    using request_next [OF assms(1) _ assms(2), of "i - 1" so] assms(3, 4) by (simp add: page_at_def)
  with page show ?thesis by simp
qed

theorem previous_page_returns_witness:
  "fst (request_page (\<lambda>n. n) [1, 3, 4, 8, 9 :: nat] SortAsc 2 (Some (DirPrev, 8))) = [3, 4] \<and>
   pg_prev_cursor (snd (request_page (\<lambda>n. n) [1, 3, 4, 8, 9 :: nat] SortAsc 2 (Some (DirPrev, 8)))) = Some (DirPrev, 3)"
  using previous_page_returns [of "\<lambda>n. n" "[1, 3, 4, 8, 9 :: nat]" 2 3 SortAsc]
  by (simp add: presented_def eval_nat_numeral)

end
