(* ===== verification/LakeKeys.thy ===== *)
theory LakeKeys
  imports Sac "HOL-Library.Signed_Division"
begin

text \<open>
  Where a ledger lies in the data lake: \<open>public_archive.rs\<close>, \<open>parse_s3_key\<close> of \<open>xdr-parser/src/lib.rs\<close>,
  the key the live indexer reads (\<open>ledger_s3_key\<close> of \<open>indexer/src/handler/mod.rs\<close>) and the
  partitions the backfill downloads (\<open>backfill-runner/src/partition.rs\<close>).  The environment is
  an argument; \<open>u32\<close> arithmetic wraps as in a release build.
\<close>

subsection \<open>Parse errors\<close>

record error_context =
  ec_ledger_sequence :: "int option"
  ec_transaction_index :: "int option"
  ec_transaction_hash :: "string option"
  ec_field :: "string option"

datatype parse_error_kind =
  DecompressionFailed | XdrDeserializationFailed | InvalidS3Key | XdrSerializationFailed

record parse_error =
  pe_kind :: parse_error_kind
  pe_message :: string
  pe_context :: "error_context option"

fun parse_error_kind_str :: "parse_error_kind \<Rightarrow> string" where
  "parse_error_kind_str DecompressionFailed = ''DECOMPRESSION_FAILED''"
| "parse_error_kind_str XdrDeserializationFailed = ''XDR_DESERIALIZATION_FAILED''"
| "parse_error_kind_str InvalidS3Key = ''INVALID_S3_KEY''"
| "parse_error_kind_str XdrSerializationFailed = ''XDR_SERIALIZATION_FAILED''"

fun join_with :: "string \<Rightarrow> string list \<Rightarrow> string" where
  "join_with s [] = []"
| "join_with s [x] = x"
| "join_with s (x # y # ys) = x @ s @ join_with s (y # ys)"

definition error_context_str :: "error_context \<Rightarrow> string" where
  "error_context_str c =
     ''['' @ join_with '', ''
       ((case ec_ledger_sequence c of None \<Rightarrow> [] | Some n \<Rightarrow> [''ledger='' @ show_int n]) @
        (case ec_transaction_index c of None \<Rightarrow> [] | Some i \<Rightarrow> [''tx_index='' @ show_int i]) @
        (case ec_transaction_hash c of None \<Rightarrow> [] | Some h \<Rightarrow> [''tx_hash='' @ take 16 h]) @
        (case ec_field c of None \<Rightarrow> [] | Some f \<Rightarrow> [''field='' @ f])) @ '']''"

definition parse_error_str :: "parse_error \<Rightarrow> string" where
  "parse_error_str e =
     parse_error_kind_str (pe_kind e) @ '': '' @ pe_message e @
     (case pe_context e of None \<Rightarrow> [] | Some c \<Rightarrow> '' '' @ error_context_str c)"

definition with_context :: "parse_error \<Rightarrow> error_context \<Rightarrow> parse_error" where
  "with_context e c = e\<lparr>pe_context := Some c\<rparr>"

definition max_decompressed_size :: nat where
  "max_decompressed_size = 64 * 1024 * 1024"

text \<open>\<open>zstd\<close> and the XDR reader are third-party code; their errors are texts.\<close>

definition decompress_zstd :: "(string \<Rightarrow> string + string) \<Rightarrow> string \<Rightarrow> parse_error + string" where
  "decompress_zstd zstd compressed =
     (case zstd compressed of
        Inl e \<Rightarrow> Inl \<lparr>pe_kind = DecompressionFailed, pe_message = e, pe_context = None\<rparr>
      | Inr bytes \<Rightarrow>
          if max_decompressed_size < length bytes then
            Inl \<lparr>pe_kind = DecompressionFailed,
                 pe_message = ''decompressed size '' @ show_nat (length bytes) @ '' exceeds limit '' @
                   show_nat max_decompressed_size, pe_context = None\<rparr>
          else Inr bytes)"

record xdr_limits =
  xl_depth :: nat
  xl_len :: nat

definition deserialization_limits :: "nat \<Rightarrow> xdr_limits" where
  "deserialization_limits input_len = \<lparr>xl_depth = 1000, xl_len = max input_len 10000000\<rparr>"

definition serialization_limits :: xdr_limits where
  "serialization_limits = \<lparr>xl_depth = 1000, xl_len = 10000000\<rparr>"

definition deserialize_batch ::
  "(string \<Rightarrow> xdr_limits \<Rightarrow> string + 'meta list) \<Rightarrow> string \<Rightarrow> parse_error + 'meta list" where
  "deserialize_batch from_xdr bytes =
     (case from_xdr bytes (deserialization_limits (length bytes)) of
        Inl e \<Rightarrow> Inl \<lparr>pe_kind = XdrDeserializationFailed, pe_message = e, pe_context = None\<rparr>
      | Inr batch \<Rightarrow> Inr batch)"

subsection \<open>The archive and its network\<close>

definition public_bucket :: string where "public_bucket = ''aws-public-blockchain''"
definition pubnet_prefix :: string where "pubnet_prefix = ''v1.1/stellar/ledgers/pubnet''"
definition first_closed_ledger :: int where "first_closed_ledger = 2"

definition configured_archive_prefix :: "string option \<Rightarrow> string option" where
  "configured_archive_prefix env = opt_filter (\<lambda>p. p \<noteq> []) (map_option (\<lambda>p. trim_end CHR ''/'' (trim_ws p)) env)"

definition public_archive_prefix :: "string option \<Rightarrow> string" where
  "public_archive_prefix env = unwrap_or (configured_archive_prefix env) pubnet_prefix"

definition folder_network :: "string \<Rightarrow> string option" where
  "folder_network folder =
     find_map (\<lambda>segment. if segment = ''pubnet'' then Some mainnet_passphrase
                          else if segment = ''testnet'' then Some testnet_passphrase else None)
       (split_all CHR ''/'' folder)"

definition check_archive_network :: "string \<Rightarrow> string \<Rightarrow> string + unit" where
  "check_archive_network folder passphrase =
     (case folder_network folder of
        Some expected \<Rightarrow>
          if expected = passphrase then Inr ()
          else Inl (''ledger folder `'' @ folder @ ''` holds the network \"'' @ expected @
                    ''\", but STELLAR_NETWORK_PASSPHRASE is \"'' @ passphrase @ ''\"'')
      | None \<Rightarrow> Inl (''ledger folder `'' @ folder @ ''` names no known network (pubnet / testnet)''))"

definition check_configured_archive :: "string option \<Rightarrow> string option \<Rightarrow> string + unit" where
  "check_configured_archive passphrase_env prefix_env =
     (case passphrase_env of
        None \<Rightarrow> Inl ''STELLAR_NETWORK_PASSPHRASE is not set''
      | Some p \<Rightarrow> check_archive_network (public_archive_prefix prefix_env) (trim_ws p))"

definition check_folder_needs_lake :: "string \<Rightarrow> string option \<Rightarrow> string + unit" where
  "check_folder_needs_lake bucket configured =
     (case configured of
        Some folder \<Rightarrow>
          if bucket \<noteq> public_bucket then
            Inl (''PUBLIC_ARCHIVE_PREFIX is `'' @ folder @ ''`, but BUCKET_NAME is `'' @ bucket @
                 ''`: a ledger folder is read only from `'' @ public_bucket @ ''`, so it would be ignored'')
          else Inr ()
      | None \<Rightarrow> Inr ())"

text \<open>The key prefix the live indexer is started with.\<close>

definition indexer_key_prefix :: "string \<Rightarrow> string option \<Rightarrow> string" where
  "indexer_key_prefix bucket env =
     (if bucket = public_bucket then public_archive_prefix env @ ''/'' else [])"

subsection \<open>The key of a ledger\<close>

definition ledger_s3_key :: "string \<Rightarrow> int \<Rightarrow> string" where
  "ledger_s3_key pre ledger =
     (let part_start = (ledger sdiv 64000) * 64000;
          part_end = part_start + 64000 - 1;
          part_prefix = u32_max - wrap_u32 part_start;
          file_prefix = u32_max - wrap_u32 ledger
      in pre @ hex_digits True 8 (nat part_prefix) @ ''--'' @ show_int part_start @ ''-'' @
         show_int part_end @ ''/'' @ hex_digits True 8 (nat file_prefix) @ ''--'' @ show_int ledger @
         ''.xdr.zst'')"

definition key_error :: "string \<Rightarrow> parse_error" where
  "key_error m = \<lparr>pe_kind = InvalidS3Key, pe_message = m, pe_context = None\<rparr>"

definition parse_u32_or :: "string \<Rightarrow> string \<Rightarrow> parse_error + int" where
  "parse_u32_or what s =
     (case parse_unsigned u32_max s of
        Some n \<Rightarrow> Inr n
      | None \<Rightarrow> Inl (key_error (''invalid '' @ what @ '': '' @ parse_int_error u32_max s)))"

definition parse_sequences :: "string \<Rightarrow> parse_error + (int \<times> int)" where
  "parse_sequences ledger_part =
     (case split_once CHR ''-'' ledger_part of
        Some (a, b) \<Rightarrow>
          (case parse_u32_or ''start sequence'' a of
             Inl e \<Rightarrow> Inl e
           | Inr start \<Rightarrow>
               (case parse_u32_or ''end sequence'' b of Inl e \<Rightarrow> Inl e | Inr e \<Rightarrow> Inr (start, e)))
      | None \<Rightarrow>
          (case parse_u32_or ''ledger sequence'' ledger_part of Inl e \<Rightarrow> Inl e | Inr n \<Rightarrow> Inr (n, n)))"

text \<open>\<open>split_once\<close> on the two-character separator.\<close>

fun split_once_str :: "string \<Rightarrow> string \<Rightarrow> (string \<times> string) option" where
  "split_once_str p [] = (if p = [] then Some ([], []) else None)"
| "split_once_str p (x # xs) =
     (if prefix p (x # xs) then Some ([], drop (length p) (x # xs))
      else map_option (\<lambda>(a, b). (x # a, b)) (split_once_str p xs))"

definition parse_s3_key :: "string \<Rightarrow> parse_error + (int \<times> int)" where
  "parse_s3_key key =
     (case strip_suffix ''.xdr.zst'' (rsplit_next CHR ''/'' key) of
        None \<Rightarrow> Inl (key_error (''key does not end with .xdr.zst: '' @ key))
      | Some filename \<Rightarrow>
          (case split_once_str ''--'' filename of
             None \<Rightarrow> Inl (key_error (''filename missing '' @ [char_of (39 :: nat)] @ ''--'' @
                                     [char_of (39 :: nat)] @ '' separator: '' @ filename))
           | Some (hex_prefix, ledger_part) \<Rightarrow>
               if length hex_prefix \<noteq> 8 \<or> \<not> list_all is_ascii_hexdigit hex_prefix then
                 Inl (key_error (''invalid hex prefix: '' @ hex_prefix))
               else
                 (case parse_sequences ledger_part of
                    Inl e \<Rightarrow> Inl e
                  | Inr (start, e) \<Rightarrow>
                      if e < start then
                        Inl (key_error (''start sequence '' @ show_int start @ '' > end sequence '' @ show_int e))
                      else Inr (start, e))))"

subsection \<open>The partitions of the backfill\<close>

definition partition_size :: int where "partition_size = 64000"

record partition =
  pt_start :: int
  pt_end :: int
  pt_hex :: string

definition from_ledger :: "int \<Rightarrow> partition" where
  "from_ledger seq =
     (let start = seq - seq mod partition_size
      in \<lparr>pt_start = start, pt_end = wrap_u32 (start + partition_size - 1),
          pt_hex = hex_digits True 8 (nat (u32_max - start))\<rparr>)"

definition first_ledger :: "partition \<Rightarrow> int" where
  "first_ledger p = max (pt_start p) first_closed_ledger"

definition ledger_count :: "partition \<Rightarrow> int" where
  "ledger_count p = wrap_u32 (wrap_u32 (pt_end p - first_ledger p) + 1)"

definition partition_name :: "partition \<Rightarrow> string" where
  "partition_name p = pt_hex p @ ''--'' @ show_int (pt_start p) @ ''-'' @ show_int (pt_end p)"

definition folder_key :: "string option \<Rightarrow> partition \<Rightarrow> string" where
  "folder_key env p = public_archive_prefix env @ ''/'' @ partition_name p"

definition s3_folder :: "string option \<Rightarrow> partition \<Rightarrow> string" where
  "s3_folder env p = ''s3://'' @ public_bucket @ ''/'' @ folder_key env p @ ''/''"

text \<open>A path of the local file system is the list of its components.\<close>

definition local_folder :: "partition \<Rightarrow> string list \<Rightarrow> string list" where
  "local_folder p temp_dir = temp_dir @ [partition_name p]"

definition clamped :: "partition \<Rightarrow> int \<Rightarrow> int \<Rightarrow> int \<times> int" where
  "clamped p run_start run_end = (max run_start (first_ledger p), min run_end (pt_end p))"

definition local_ledger_path :: "partition \<Rightarrow> int \<Rightarrow> string list \<Rightarrow> string list" where
  "local_ledger_path p seq temp_dir =
     local_folder p temp_dir @
       [hex_digits True 8 (nat (u32_max - seq)) @ ''--'' @ show_int seq @ ''.xdr.zst'']"

partial_function (option) partitions_loop :: "int \<Rightarrow> int \<Rightarrow> partition list \<Rightarrow> partition list option" where
  "partitions_loop cursor till result =
     (if cursor \<le> till then
        let p = from_ledger cursor; next = wrap_u32 (pt_end p + 1)
        in partitions_loop next till (result @ [p])
      else Some result)"

definition partitions_for_range :: "int \<Rightarrow> int \<Rightarrow> partition list option" where
  "partitions_for_range start till = (if till < start then Some [] else partitions_loop start till [])"

subsection \<open>Facts\<close>

lemma digits_no_sep: "list_all is_ascii_digit s \<Longrightarrow> CHR ''/'' \<notin> set s \<and> CHR ''-'' \<notin> set s"
  by (fastforce simp: list_all_iff is_ascii_digit_def less_eq_char_def)

lemma show_nat_no_sep [simp]: "CHR ''/'' \<notin> set (show_nat n)" "CHR ''-'' \<notin> set (show_nat n)"
  using digits_no_sep [OF show_nat_digits] by blast+

lemma show_int_no_slash [simp]: "CHR ''/'' \<notin> set (show_int i)"
  by (simp add: show_int_def)

lemma show_int_nonneg: "0 \<le> i \<Longrightarrow> show_int i = show_nat (nat i)"
  by (simp add: show_int_def)

lemma hex_digit_hexdigit [simp]: "d < 16 \<Longrightarrow> is_ascii_hexdigit (hex_digit u d)"
proof -
  assume "d < 16"
  then have "d \<in> set [0 ..< 16]" by simp
  moreover have "list_all (\<lambda>d. is_ascii_hexdigit (hex_digit True d) \<and> is_ascii_hexdigit (hex_digit False d)) [0 ..< 16]"
    by code_simp
  ultimately show ?thesis by (cases u) (auto simp: list_all_iff)
qed

lemma hex_digits_hexdigits [simp]: "list_all is_ascii_hexdigit (hex_digits u w n)"
  by (induction u w n rule: hex_digits.induct) auto

lemma hexdigit_no_sep: "is_ascii_hexdigit c \<Longrightarrow> c \<noteq> CHR ''/'' \<and> c \<noteq> CHR ''-''"
  by (auto simp: is_ascii_hexdigit_def is_ascii_digit_def less_eq_char_def)

lemma hex_digits_no_sep [simp]: "CHR ''/'' \<notin> set (hex_digits u w n)" "CHR ''-'' \<notin> set (hex_digits u w n)"
  using hex_digits_hexdigits [of u w n] hexdigit_no_sep by (fastforce simp: list_all_iff)+

lemma split_once_str_dashes:
  "CHR ''-'' \<notin> set a \<Longrightarrow> split_once_str ''--'' (a @ ''--'' @ b) = Some (a, b)"
  by (induction a) auto

definition ledger_file :: "int \<Rightarrow> string" where
  "ledger_file l = hex_digits True 8 (nat (u32_max - wrap_u32 l)) @ ''--'' @ show_int l @ ''.xdr.zst''"

lemma ledger_file_no_slash [simp]: "CHR ''/'' \<notin> set (ledger_file l)"
  by (simp add: ledger_file_def)

lemma ledger_file_inject: "ledger_file k = ledger_file l \<longleftrightarrow> k = l"
  by (auto simp: ledger_file_def show_int_inject append_eq_append_conv)

lemma ledger_s3_key_file:
  "\<exists>folder. ledger_s3_key pre l = folder @ CHR ''/'' # ledger_file l"
  by (rule exI [of _ "pre @ hex_digits True 8 (nat (u32_max - wrap_u32 (l sdiv 64000 * 64000))) @ ''--'' @
        show_int (l sdiv 64000 * 64000) @ ''-'' @ show_int (l sdiv 64000 * 64000 + 64000 - 1)"])
    (simp add: ledger_s3_key_def ledger_file_def Let_def)

lemma rsplit_next_key: "rsplit_next CHR ''/'' (ledger_s3_key pre l) = ledger_file l"
  using ledger_s3_key_file [of pre l] by (auto simp: str_ops)

lemma ledger_s3_key_inject: "ledger_s3_key pre k = ledger_s3_key pre' l \<Longrightarrow> k = l"
  by (metis rsplit_next_key ledger_file_inject)

lemma sdiv_nonneg: "0 \<le> (l :: int) \<Longrightarrow> l sdiv 64000 * 64000 = l - l mod 64000"
  by (simp add: signed_divide_int_def sgn_if minus_mod_eq_div_mult)

lemma wrap_u32_in: "0 \<le> x \<Longrightarrow> x \<le> u32_max \<Longrightarrow> wrap_u32 x = x"
  by (rule wrap_u32_id) (simp add: fits_u32_def)

text \<open>The last ledger whose partition ends below \<open>u32::MAX\<close>.\<close>

definition last_partitioned :: int where "last_partitioned = 67108 * 64000 - 1"

lemma from_ledger_bounds:
  assumes "0 \<le> l" and "l \<le> last_partitioned"
  shows "pt_start (from_ledger l) = l - l mod 64000" and "pt_end (from_ledger l) = l - l mod 64000 + 63999"
    and "pt_hex (from_ledger l) = hex_digits True 8 (nat (u32_max - (l - l mod 64000)))"
    and "pt_end (from_ledger l) \<le> last_partitioned"
proof -
  have "l div 64000 \<le> 67107" using assms(2) by (simp add: last_partitioned_def)
  then have le: "l - l mod 64000 \<le> 67107 * 64000" by (simp add: minus_mod_eq_div_mult)
  have ge: "0 \<le> l - l mod 64000" using assms(1) by (simp add: minus_mod_eq_div_mult)
  have w: "wrap_u32 (l - l mod 64000 + partition_size - 1) = l - l mod 64000 + 63999"
    using le ge by (subst wrap_u32_in) (simp_all add: partition_size_def)
  show "pt_start (from_ledger l) = l - l mod 64000" and "pt_end (from_ledger l) = l - l mod 64000 + 63999"
    and "pt_hex (from_ledger l) = hex_digits True 8 (nat (u32_max - (l - l mod 64000)))"
    and "pt_end (from_ledger l) \<le> last_partitioned"
    using w le by (simp_all add: from_ledger_def Let_def partition_size_def last_partitioned_def)
qed

text \<open>The ledgers a partition covers of a run.\<close>

definition covered :: "int \<Rightarrow> int \<Rightarrow> partition \<Rightarrow> int list" where
  "covered a b p = (let (x, y) = clamped p a b in [x .. y])"

lemma upto_join: "a \<le> b + 1 \<Longrightarrow> b \<le> c \<Longrightarrow> [a .. b] @ [b + 1 .. c] = [a .. (c :: int)]"
proof (cases "b < a")
  case True
  assume "a \<le> b + 1"
  with True have "a = b + 1" by simp
  then show ?thesis by simp
next
  case False
  assume "b \<le> c"
  with False show ?thesis using upto_split1 [of a "b + 1" c] upto_rec2 [of a b] by (cases "b = c") (auto simp: upto_split2)
qed

lemma partitions_loop_covers:
  assumes "1 < a" and "till \<le> last_partitioned" and "a \<le> cursor" and "cursor \<le> till + 64000"
    and "cursor = a \<or> cursor mod 64000 = 0"
  shows "\<exists>ps. partitions_loop cursor till acc = Some (acc @ ps) \<and>
           concat (map (covered a till) ps) = [cursor .. till] \<and>
           (\<forall>p \<in> set ps. \<exists>l. cursor \<le> l \<and> l \<le> till \<and> p = from_ledger l)"
  using assms(3-5)
proof (induction "nat (till + 1 - cursor)" arbitrary: cursor acc rule: less_induct)
  case less
  show ?case
  proof (cases "cursor \<le> till")
    case False
    then show ?thesis by (subst partitions_loop.simps) auto
  next
    case True
    let ?p = "from_ledger cursor"
    define nx where "nx = cursor - cursor mod 64000 + 64000"
    have c: "0 \<le> cursor" "cursor \<le> last_partitioned" using assms(1,2) less.prems(1) True by auto
    have m: "0 \<le> cursor mod 64000" "cursor mod 64000 < 64000" by simp_all
    then have n: "cursor < nx" "nx \<le> cursor + 64000" unfolding nx_def by linarith+
    have e: "pt_end ?p = nx - 1" using from_ledger_bounds(2) [OF c] by (simp add: nx_def)
    have w: "wrap_u32 (pt_end ?p + 1) = nx"
      using from_ledger_bounds(4) [OF c] e c(1) n(1) by (subst wrap_u32_in) (simp_all add: last_partitioned_def)
    have step: "partitions_loop cursor till acc = partitions_loop nx till (acc @ [?p])"
      using True w by (subst partitions_loop.simps) (simp add: Let_def)
    have z: "nx mod 64000 = 0" by (simp add: nx_def)
    have "\<exists>ps. partitions_loop nx till (acc @ [?p]) = Some ((acc @ [?p]) @ ps) \<and>
            concat (map (covered a till) ps) = [nx .. till] \<and>
            (\<forall>p \<in> set ps. \<exists>l. nx \<le> l \<and> l \<le> till \<and> p = from_ledger l)"
      by (rule less.hyps) (use n less.prems(1) True z in auto)
    then obtain ps where ps: "partitions_loop nx till (acc @ [?p]) = Some ((acc @ [?p]) @ ps)"
      "concat (map (covered a till) ps) = [nx .. till]"
      "\<forall>p \<in> set ps. \<exists>l. nx \<le> l \<and> l \<le> till \<and> p = from_ledger l" by blast
    have first: "max a (first_ledger ?p) = cursor"
      using less.prems(1,3) assms(1) from_ledger_bounds(1) [OF c] m(1)
      by (auto simp: first_ledger_def first_closed_ledger_def)
    have "covered a till ?p = [cursor .. min till (nx - 1)]"
      using first e by (simp add: covered_def clamped_def)
    moreover have "[cursor .. min till (nx - 1)] @ [nx .. till] = [cursor .. till]"
      using upto_join [of cursor "nx - 1" till] n(1) by (cases "till < nx") (simp_all add: min_def)
    ultimately have "concat (map (covered a till) (?p # ps)) = [cursor .. till]" using ps(2) by simp
    moreover have "\<forall>p \<in> set (?p # ps). \<exists>l. cursor \<le> l \<and> l \<le> till \<and> p = from_ledger l"
      
    proof
      fix p assume "p \<in> set (?p # ps)"
      then consider "p = ?p" | "p \<in> set ps" by auto
      then show "\<exists>l. cursor \<le> l \<and> l \<le> till \<and> p = from_ledger l"
      proof cases
        case 1 then show ?thesis using True by blast
      next
        case 2
        then obtain l where "nx \<le> l" "l \<le> till" "p = from_ledger l" using ps(3) by blast
        then show ?thesis using n(1) by (intro exI [of _ l]) simp
      qed
    qed
    ultimately show ?thesis using step ps(1) by (intro exI [of _ "?p # ps"]) simp
  qed
qed

subsection \<open>Properties\<close>

text \<open>C35. The loop over the partitions of a run ends and covers the run exactly: for any range from
  the first closed ledger on that ends before the last incomplete partition of \<open>u32\<close>, the ledgers
  the partitions contribute, each clamped to the run, are the ledgers of the range, every one once
  and in order, and every partition holds a ledger of the range.\<close>

theorem partitions_cover_range:
  assumes "first_closed_ledger \<le> start" and "start \<le> till" and "till \<le> last_partitioned"
  shows "\<exists>ps. partitions_for_range start till = Some ps \<and>
           concat (map (\<lambda>p. let (x, y) = clamped p start till in [x .. y]) ps) = [start .. till] \<and>
           (\<forall>p \<in> set ps. \<exists>l. start \<le> l \<and> l \<le> till \<and> p = from_ledger l)"
  using partitions_loop_covers [of start till start "[]"] assms
  by (auto simp: partitions_for_range_def first_closed_ledger_def covered_def [abs_def])

theorem partitions_cover_range_witness:
  "\<exists>ps. partitions_for_range 63999 64001 = Some ps \<and>
     concat (map (\<lambda>p. let (x, y) = clamped p 63999 64001 in [x .. y]) ps) = [63999, 64000, 64001]"
  using partitions_cover_range [of 63999 64001]
  by (auto simp: first_closed_ledger_def last_partitioned_def)

text \<open>C34. The live indexer and the backfill look for a ledger in the same place, and its number can be
  read back from there: for every ledger of a complete partition, the key the indexer derives under
  the archive prefix is the folder of the ledger's partition followed by the file name the backfill
  gives it, and parsing the key returns exactly that ledger.\<close>

theorem lake_key_of_ledger:
  assumes "0 \<le> l" and "l \<le> last_partitioned"
  shows "ledger_s3_key (indexer_key_prefix public_bucket env) l =
           folder_key env (from_ledger l) @ ''/'' @ last (local_ledger_path (from_ledger l) l temp_dir) \<and>
         parse_s3_key (ledger_s3_key (indexer_key_prefix public_bucket env) l) = Inr (l, l)"
proof
  have u: "wrap_u32 l = l" and max: "l \<le> u32_max"
    using assms by (auto simp: wrap_u32_in last_partitioned_def)
  have m: "0 \<le> l - l mod 64000" "l - l mod 64000 \<le> l" using assms(1) by (simp_all add: minus_mod_eq_div_mult)
  have "wrap_u32 (l - l mod 64000) = l - l mod 64000" using m max by (intro wrap_u32_in) linarith+
  then show "ledger_s3_key (indexer_key_prefix public_bucket env) l =
        folder_key env (from_ledger l) @ ''/'' @ last (local_ledger_path (from_ledger l) l temp_dir)"
    using from_ledger_bounds(1-3) [OF assms] sdiv_nonneg [OF assms(1)] u
    by (simp add: ledger_s3_key_def Let_def indexer_key_prefix_def folder_key_def partition_name_def local_ledger_path_def
          local_folder_def add.commute [of 63999])
  have "strip_suffix ''.xdr.zst'' (ledger_file l) = Some (hex_digits True 8 (nat (u32_max - l)) @ ''--'' @ show_int l)"
    using strip_suffix_append [of "''.xdr.zst''" "hex_digits True 8 (nat (u32_max - l)) @ ''--'' @ show_int l"] u
    by (simp add: ledger_file_def)
  moreover have "parse_sequences (show_int l) = Inr (l, l)"
    using split_once_None [of "CHR ''-''" "show_int l"] parse_unsigned_show [OF assms(1) max] assms(1)
    by (simp add: parse_sequences_def parse_u32_or_def show_int_nonneg)
  ultimately show "parse_s3_key (ledger_s3_key (indexer_key_prefix public_bucket env) l) = Inr (l, l)"
    using split_once_str_dashes [of "hex_digits True 8 (nat (u32_max - l))" "show_int l"]
    by (simp add: parse_s3_key_def rsplit_next_key)
qed

theorem lake_key_of_ledger_witness:
  "parse_s3_key (ledger_s3_key (indexer_key_prefix public_bucket None) 63999) = Inr (63999, 63999)"
  using lake_key_of_ledger [of 63999 None "[]", THEN conjunct2] by (simp add: last_partitioned_def)

end
