(* ===== verification/Reconcile.thy ===== *)
theory Reconcile
  imports LakeKeys
begin

text \<open>
  The live indexer: \<open>indexer/src/handler/mod.rs\<close> and \<open>lake_pacing.rs\<close>.  A doorbell message starts
  \<open>reconcile\<close>, which reads the newest stored ledger and stores the ledgers after it one by one,
  as far as the lake goes or time allows.  The services the handler calls (S3, ClickHouse, the
  clock, the queues) act on a world \<open>'w\<close>; \<open>persist_ledger_clickhouse\<close>, \<open>parse_ledger\<close> and
  \<open>contract_metadata_writes\<close> are other components and are reached through the same record.
  A duration is a number of milliseconds.
\<close>

subsection \<open>Errors\<close>

text \<open>The errors of the ClickHouse client that the classification tells apart.\<close>

datatype ch_error = ChNetwork string | ChTimedOut | ChBadResponse string | ChOther string

datatype schema_error = SchemaQuery ch_error | SchemaStaging string

datatype handler_error = S3Download string | HeParse parse_error | HeClickHouse schema_error

definition http_4xx_prefixes :: "string list" where
  "http_4xx_prefixes =
     [''400 '', ''401 '', ''403 '', ''404 '', ''405 '', ''409 '', ''413 '', ''414 '', ''415 '', ''422 '', ''431 '']"

definition ch_permanent_codes :: "nat list" where
  "ch_permanent_codes = [16, 27, 36, 47, 53, 60, 62, 73, 117, 192, 193, 194, 497, 516]"

definition ch_code_matches :: "string \<Rightarrow> nat \<Rightarrow> bool" where
  "ch_code_matches msg code =
     (case strip_prefix (''Code: '' @ show_nat code) msg of
        Some rest \<Rightarrow> (case rest of [] \<Rightarrow> True | c # _ \<Rightarrow> \<not> is_ascii_digit c)
      | None \<Rightarrow> False)"

definition is_permanent_bad_response :: "string \<Rightarrow> bool" where
  "is_permanent_bad_response msg \<longleftrightarrow>
     list_ex (\<lambda>p. prefix p msg) http_4xx_prefixes \<or> list_ex (ch_code_matches msg) ch_permanent_codes"

definition is_retryable_bad_response :: "string \<Rightarrow> bool" where
  "is_retryable_bad_response msg \<longleftrightarrow> \<not> is_permanent_bad_response msg"

definition is_transient_ch_error :: "handler_error \<Rightarrow> bool" where
  "is_transient_ch_error err =
     (case err of
        HeClickHouse (SchemaQuery ch_err) \<Rightarrow>
          (case ch_err of
             ChNetwork _ \<Rightarrow> True
           | ChTimedOut \<Rightarrow> True
           | ChBadResponse msg \<Rightarrow> is_retryable_bad_response msg
           | ChOther _ \<Rightarrow> False)
      | _ \<Rightarrow> False)"

subsection \<open>Retries\<close>

definition retry_backoff_ms :: "nat list" where
  "retry_backoff_ms = [50, 200, 800]"

function retry_from ::
  "(nat \<Rightarrow> 'w \<Rightarrow> 'w) \<Rightarrow> nat list \<Rightarrow> ('e \<Rightarrow> bool) \<Rightarrow> ('w \<Rightarrow> ('e + unit) \<times> 'w) \<Rightarrow> nat \<Rightarrow> 'w \<Rightarrow>
   ('e + nat) \<times> 'w" where
  "retry_from sleep backoff_ms is_transient oper attempt w =
     (case oper w of
        (Inr u, w1) \<Rightarrow> (Inr attempt, w1)
      | (Inl err, w1) \<Rightarrow>
          if attempt < length backoff_ms \<and> is_transient err then
            retry_from sleep backoff_ms is_transient oper (attempt + 1) (sleep (backoff_ms ! attempt) w1)
          else (Inl err, w1))"
  by pat_completeness auto

termination
  by (relation "measure (\<lambda>(_, backoff_ms, _, _, attempt, _). length backoff_ms - attempt)") auto

declare retry_from.simps [simp del]

definition retry_with_backoff ::
  "(nat \<Rightarrow> 'w \<Rightarrow> 'w) \<Rightarrow> nat list \<Rightarrow> ('e \<Rightarrow> bool) \<Rightarrow> ('w \<Rightarrow> ('e + unit) \<times> 'w) \<Rightarrow> 'w \<Rightarrow> ('e + nat) \<times> 'w" where
  "retry_with_backoff sleep backoff_ms is_transient oper w = retry_from sleep backoff_ms is_transient oper 0 w"

subsection \<open>The services\<close>

datatype head_outcome = HeadFound | HeadNotFound | HeadFailed string

record ('w, 'body, 'meta, 'parsed, 'mw) services =
  sv_clock :: "'w \<Rightarrow> nat \<times> 'w"
  sv_unix_secs :: "'w \<Rightarrow> int \<times> 'w"
  sv_sleep :: "nat \<Rightarrow> 'w \<Rightarrow> 'w"
  sv_max_sequence :: "'w \<Rightarrow> (ch_error + int) \<times> 'w"
  sv_closed_at :: "int \<Rightarrow> 'w \<Rightarrow> (ch_error + int) \<times> 'w"
  sv_head :: "string \<Rightarrow> string \<Rightarrow> 'w \<Rightarrow> head_outcome \<times> 'w"
  sv_get :: "string \<Rightarrow> string \<Rightarrow> 'w \<Rightarrow> (string + 'body) \<times> 'w"
  sv_collect :: "'body \<Rightarrow> 'w \<Rightarrow> (string + string) \<times> 'w"
  sv_zstd :: "string \<Rightarrow> string + string"
  sv_from_xdr :: "string \<Rightarrow> xdr_limits \<Rightarrow> string + 'meta list"
  sv_parse_ledger :: "'meta \<Rightarrow> 'parsed"
  sv_metadata_writes :: "'parsed \<Rightarrow> 'w \<Rightarrow> (ch_error + 'mw) \<times> 'w"
  sv_persist :: "'parsed \<Rightarrow> 'mw \<Rightarrow> 'w \<Rightarrow> (schema_error + unit) \<times> 'w"
  sv_metrics :: "'parsed \<Rightarrow> 'w \<Rightarrow> 'w"
  sv_publish :: "'parsed list \<Rightarrow> 'w \<Rightarrow> 'w"
  sv_send :: "(int \<times> nat) \<Rightarrow> int \<Rightarrow> 'w \<Rightarrow> (string + unit) \<times> 'w"
  sv_expect_of_json :: "string \<Rightarrow> (int \<times> nat) option"

record handler_state =
  hs_bucket :: string
  hs_key_prefix :: string
  hs_pacer :: bool

definition ingestion_lag_secs :: "int \<Rightarrow> int \<Rightarrow> int" where
  "ingestion_lag_secs now_secs ledger_closed_at_secs = max (now_secs - ledger_closed_at_secs) 0"

definition s3_object_exists ::
  "('w, 'b, 'm, 'p, 'mw) services \<Rightarrow> string \<Rightarrow> string \<Rightarrow> 'w \<Rightarrow> (handler_error + bool) \<times> 'w" where
  "s3_object_exists v bucket key w =
     (case sv_head v bucket key w of
        (HeadFound, w1) \<Rightarrow> (Inr True, w1)
      | (HeadNotFound, w1) \<Rightarrow> (Inr False, w1)
      | (HeadFailed e, w1) \<Rightarrow> (Inl (S3Download (''head_object failed for '' @ key @ '': '' @ e)), w1))"

definition download_s3_object ::
  "('w, 'b, 'm, 'p, 'mw) services \<Rightarrow> string \<Rightarrow> string \<Rightarrow> 'w \<Rightarrow> (handler_error + string) \<times> 'w" where
  "download_s3_object v bucket key w =
     (case sv_get v bucket key w of
        (Inl e, w1) \<Rightarrow> (Inl (S3Download (''get_object failed for '' @ key @ '': '' @ e)), w1)
      | (Inr body, w1) \<Rightarrow>
          (case sv_collect v body w1 of
             (Inl e, w2) \<Rightarrow> (Inl (S3Download (''reading the body of '' @ key @ '' failed: '' @ e)), w2)
           | (Inr bytes, w2) \<Rightarrow> (Inr bytes, w2)))"

definition persist_with_retry ::
  "('w, 'b, 'm, 'p, 'mw) services \<Rightarrow> 'p \<Rightarrow> 'mw \<Rightarrow> 'w \<Rightarrow> (handler_error + unit) \<times> 'w" where
  "persist_with_retry v parsed mw w =
     (case retry_with_backoff (sv_sleep v) retry_backoff_ms is_transient_ch_error
             (\<lambda>w. case sv_persist v parsed mw w of
                    (Inl e, w1) \<Rightarrow> (Inl (HeClickHouse e), w1) | (Inr u, w1) \<Rightarrow> (Inr (), w1)) w of
        (Inl e, w1) \<Rightarrow> (Inl e, w1)
      | (Inr attempts, w1) \<Rightarrow> (Inr (), w1))"

fun process_metas ::
  "('w, 'b, 'm, 'p, 'mw) services \<Rightarrow> 'm list \<Rightarrow> 'p list \<Rightarrow> 'w \<Rightarrow> (handler_error + 'p list) \<times> 'w" where
  "process_metas v [] seen w = (Inr seen, w)"
| "process_metas v (meta # metas) seen w =
     (let parsed = sv_parse_ledger v meta in
      case sv_metadata_writes v parsed w of
        (Inl e, w1) \<Rightarrow> (Inl (HeClickHouse (SchemaQuery e)), w1)
      | (Inr mw, w1) \<Rightarrow>
          (case persist_with_retry v parsed mw w1 of
             (Inl e, w2) \<Rightarrow> (Inl e, w2)
           | (Inr u, w2) \<Rightarrow> process_metas v metas (seen @ [parsed]) (sv_metrics v parsed w2)))"

definition process_s3_object ::
  "('w, 'b, 'm, 'p, 'mw) services \<Rightarrow> string \<Rightarrow> string \<Rightarrow> 'w \<Rightarrow> (handler_error + unit) \<times> 'w" where
  "process_s3_object v bucket key w =
     (case download_s3_object v bucket key w of
        (Inl e, w1) \<Rightarrow> (Inl e, w1)
      | (Inr compressed, w1) \<Rightarrow>
          (case decompress_zstd (sv_zstd v) compressed of
             Inl e \<Rightarrow> (Inl (HeParse e), w1)
           | Inr xdr_bytes \<Rightarrow>
               (case deserialize_batch (sv_from_xdr v) xdr_bytes of
                  Inl e \<Rightarrow> (Inl (HeParse e), w1)
                | Inr metas \<Rightarrow>
                    (case process_metas v metas [] w1 of
                       (Inl e, w2) \<Rightarrow> (Inl e, w2)
                     | (Inr seen, w2) \<Rightarrow> (Inr (), sv_publish v seen w2)))))"

subsection \<open>Reconcile\<close>

definition reconcile_deadline :: nat where "reconcile_deadline = 540 * 1000"

record reconciled =
  rc_persisted :: nat
  rc_newest :: int

definition first_ledger_to_read :: "int \<Rightarrow> string \<Rightarrow> int option" where
  "first_ledger_to_read max_seq bucket =
     (if 0 < max_seq then Some (max_seq + 1)
      else if bucket = public_bucket then Some first_closed_ledger
      else None)"

partial_function (option) reconcile_loop ::
  "('w, 'b, 'm, 'p, 'mw) services \<Rightarrow> handler_state \<Rightarrow> nat \<Rightarrow> int \<Rightarrow> nat \<Rightarrow> int \<Rightarrow> 'w \<Rightarrow>
   ((handler_error + reconciled) \<times> 'w) option" where
  "reconcile_loop v hs start next_seq persisted newest w =
     (case sv_clock v w of (now, w0) \<Rightarrow>
      if reconcile_deadline \<le> now - start then
        Some (Inr \<lparr>rc_persisted = persisted, rc_newest = newest\<rparr>, w0)
      else
        (case s3_object_exists v (hs_bucket hs) (ledger_s3_key (hs_key_prefix hs) next_seq) w0 of
           (Inl e, w1) \<Rightarrow> Some (Inl e, w1)
         | (Inr found, w1) \<Rightarrow>
             if \<not> found then Some (Inr \<lparr>rc_persisted = persisted, rc_newest = newest\<rparr>, w1)
             else
               (case process_s3_object v (hs_bucket hs) (ledger_s3_key (hs_key_prefix hs) next_seq) w1 of
                  (Inl e, w2) \<Rightarrow> Some (Inl e, w2)
                | (Inr u, w2) \<Rightarrow> reconcile_loop v hs start (next_seq + 1) (persisted + 1) next_seq w2)))"

definition reconcile ::
  "('w, 'b, 'm, 'p, 'mw) services \<Rightarrow> handler_state \<Rightarrow> 'w \<Rightarrow> ((handler_error + reconciled) \<times> 'w) option" where
  "reconcile v hs w =
     (case sv_clock v w of (start, w0) \<Rightarrow>
      (case sv_max_sequence v w0 of
         (Inl e, w1) \<Rightarrow> Some (Inl (HeClickHouse (SchemaQuery e)), w1)
       | (Inr max_seq, w1) \<Rightarrow>
           (case first_ledger_to_read max_seq (hs_bucket hs) of
              None \<Rightarrow> Some (Inr \<lparr>rc_persisted = 0, rc_newest = 0\<rparr>, w1)
            | Some next_seq \<Rightarrow> reconcile_loop v hs start next_seq 0 max_seq w1)))"

subsection \<open>Pacing through the public lake\<close>

definition ledger_interval_secs :: int where "ledger_interval_secs = 5"
definition lake_margin_secs :: int where "lake_margin_secs = 3"
definition max_delay_secs :: int where "max_delay_secs = 15"

record expect_msg =
  ex_expect :: int
  ex_attempt :: nat

datatype wake = Chain expect_msg | Keepalive

record next_wake =
  nw_message :: expect_msg
  nw_delay_secs :: int

definition wake_parse :: "(string \<Rightarrow> (int \<times> nat) option) \<Rightarrow> string option \<Rightarrow> wake" where
  "wake_parse of_json body =
     (case body of
        None \<Rightarrow> Keepalive
      | Some b \<Rightarrow> (case of_json b of
                    Some (e, a) \<Rightarrow> Chain \<lparr>ex_expect = e, ex_attempt = a\<rparr> | None \<Rightarrow> Keepalive))"

definition backoff :: "nat \<Rightarrow> int" where
  "backoff attempt = (if attempt = 1 then 1 else if attempt = 2 then 2 else if attempt = 3 then 4
                      else if attempt = 4 then 8 else 15)"

definition clamp :: "int \<Rightarrow> int \<Rightarrow> int \<Rightarrow> int" where
  "clamp lo hi x = (if x < lo then lo else if hi < x then hi else x)"

definition next_u32 :: "nat \<Rightarrow> nat" where "next_u32 n = nat (wrap_u32 (int n + 1))"

definition pace_next :: "wake \<Rightarrow> reconciled \<Rightarrow> int option \<Rightarrow> int \<Rightarrow> next_wake option" where
  "pace_next wk done newest_closed_at now =
     (case newest_closed_at of
        Some closed_at \<Rightarrow>
          Some \<lparr>nw_message = \<lparr>ex_expect = rc_newest done + 1, ex_attempt = 0\<rparr>,
                nw_delay_secs = clamp 1 max_delay_secs (closed_at + ledger_interval_secs + lake_margin_secs - now)\<rparr>
      | None \<Rightarrow>
          (case wk of
             Chain e \<Rightarrow>
               if 0 < rc_newest done \<and> rc_newest done < ex_expect e then
                 let attempt = next_u32 (ex_attempt e)
                 in Some \<lparr>nw_message = \<lparr>ex_expect = ex_expect e, ex_attempt = attempt\<rparr>,
                          nw_delay_secs = backoff attempt\<rparr>
               else None
           | Keepalive \<Rightarrow> None))"

definition newest_closed_at ::
  "('w, 'b, 'm, 'p, 'mw) services \<Rightarrow> reconciled \<Rightarrow> 'w \<Rightarrow> (handler_error + int option) \<times> 'w" where
  "newest_closed_at v done w =
     (if 0 < rc_persisted done then
        (case sv_closed_at v (rc_newest done) w of
           (Inl e, w1) \<Rightarrow> (Inl (HeClickHouse (SchemaQuery e)), w1)
         | (Inr t, w1) \<Rightarrow> (Inr (Some t), w1))
      else (Inr None, w))"

definition paced ::
  "('w, 'b, 'm, 'p, 'mw) services \<Rightarrow> handler_state \<Rightarrow> string option \<Rightarrow> 'w \<Rightarrow>
   ((handler_error + reconciled) \<times> 'w) option" where
  "paced v hs body w =
     (let wk = wake_parse (sv_expect_of_json v) body in
      case reconcile v hs w of
        None \<Rightarrow> None
      | Some (Inl e, w1) \<Rightarrow> Some (Inl e, w1)
      | Some (Inr done, w1) \<Rightarrow>
          (case newest_closed_at v done w1 of
             (Inl e, w2) \<Rightarrow> Some (Inl e, w2)
           | (Inr closed, w2) \<Rightarrow>
               (case sv_unix_secs v w2 of (now, w3) \<Rightarrow>
                (case pace_next wk done closed now of
                   None \<Rightarrow> Some (Inr done, w3)
                 | Some n \<Rightarrow>
                     Some (Inr done,
                           snd (sv_send v (ex_expect (nw_message n), ex_attempt (nw_message n)) (nw_delay_secs n) w3))))))"

subsection \<open>The entry point\<close>

record sqs_message =
  sq_message_id :: string
  sq_body :: "string option"

fun handler_loop ::
  "('w, 'b, 'm, 'p, 'mw) services \<Rightarrow> handler_state \<Rightarrow> sqs_message list \<Rightarrow> string list \<Rightarrow> 'w \<Rightarrow>
   (string list \<times> 'w) option" where
  "handler_loop v hs [] failures w = Some (failures, w)"
| "handler_loop v hs (msg # msgs) failures w =
     (case (if hs_pacer hs then paced v hs (sq_body msg) w else reconcile v hs w) of
        None \<Rightarrow> None
      | Some (Inl e, w1) \<Rightarrow> handler_loop v hs msgs (failures @ [sq_message_id msg]) w1
      | Some (Inr done, w1) \<Rightarrow> handler_loop v hs msgs failures w1)"

definition handler ::
  "('w, 'b, 'm, 'p, 'mw) services \<Rightarrow> handler_state \<Rightarrow> sqs_message list \<Rightarrow> 'w \<Rightarrow> (string list \<times> 'w) option" where
  "handler v hs records w = handler_loop v hs records [] w"

end
