(* ===== verification/ReconcileFacts.thy ===== *)
theory ReconcileFacts
  imports Reconcile
begin

text \<open>
  Facts about the live indexer: the retry loop, the classification of ClickHouse answers, the
  pacing messages, and the reconcile loop against what the services promise.
\<close>

subsection \<open>The retry loop\<close>

text \<open>The world before attempt \<open>k\<close>.\<close>

primrec attempt_world ::
  "(nat \<Rightarrow> 'w \<Rightarrow> 'w) \<Rightarrow> nat list \<Rightarrow> ('w \<Rightarrow> ('e + unit) \<times> 'w) \<Rightarrow> 'w \<Rightarrow> nat \<Rightarrow> 'w" where
  "attempt_world sleep backoff_ms oper w 0 = w"
| "attempt_world sleep backoff_ms oper w (Suc k) =
     sleep (backoff_ms ! k) (snd (oper (attempt_world sleep backoff_ms oper w k)))"

definition transient_failure :: "('e \<Rightarrow> bool) \<Rightarrow> 'e + unit \<Rightarrow> bool" where
  "transient_failure is_transient r = (case r of Inl e \<Rightarrow> is_transient e | Inr u \<Rightarrow> False)"

lemma retry_from_step:
  "retry_from sleep bo tr oper k w =
     (if k < length bo \<and> transient_failure tr (fst (oper w))
      then retry_from sleep bo tr oper (Suc k) (sleep (bo ! k) (snd (oper w)))
      else (case fst (oper w) of Inl e \<Rightarrow> Inl e | Inr u \<Rightarrow> Inr k, snd (oper w)))"
proof (cases "oper w")
  case (Pair r w1)
  then show ?thesis by (cases r) (subst retry_from.simps, simp add: transient_failure_def)+
qed

lemma retry_from_attempt:
  fixes w :: 'w and oper :: "'w \<Rightarrow> ('e + unit) \<times> 'w" and sleep :: "nat \<Rightarrow> 'w \<Rightarrow> 'w"
  assumes "k \<le> length bo"
  defines "W \<equiv> attempt_world sleep bo oper w"
  shows "\<exists>n. k \<le> n \<and> n \<le> length bo \<and> (\<forall>i \<in> {k ..< n}. transient_failure tr (fst (oper (W i)))) \<and>
           (n = length bo \<or> \<not> transient_failure tr (fst (oper (W n)))) \<and>
           retry_from sleep bo tr oper k (W k) =
             (case fst (oper (W n)) of Inl e \<Rightarrow> Inl e | Inr u \<Rightarrow> Inr n, snd (oper (W n)))"
  using assms(1)
proof (induction "length bo - k" arbitrary: k)
  case 0
  then show ?case by (intro exI [of _ k]) (simp add: retry_from_step)
next
  case (Suc d)
  show ?case
  proof (cases "transient_failure tr (fst (oper (W k)))")
    case False
    then show ?thesis using Suc.prems by (intro exI [of _ k]) (simp add: retry_from_step)
  next
    case True
    have k: "k < length bo" and "d = length bo - Suc k" using Suc.hyps(2) by simp_all
    then obtain n where n: "Suc k \<le> n" "n \<le> length bo"
      "\<forall>i \<in> {Suc k ..< n}. transient_failure tr (fst (oper (W i)))"
      "n = length bo \<or> \<not> transient_failure tr (fst (oper (W n)))"
      "retry_from sleep bo tr oper (Suc k) (W (Suc k)) =
         (case fst (oper (W n)) of Inl e \<Rightarrow> Inl e | Inr u \<Rightarrow> Inr n, snd (oper (W n)))"
      using Suc.hyps(1) [of "Suc k"] by auto
    have "W (Suc k) = sleep (bo ! k) (snd (oper (W k)))" by (simp add: W_def)
    then have "retry_from sleep bo tr oper k (W k) = retry_from sleep bo tr oper (Suc k) (W (Suc k))"
      using True k retry_from_step [of sleep bo tr oper k "W k"] by simp
    moreover have "{k ..< n} = insert k {Suc k ..< n}" using n(1) by auto
    ultimately show ?thesis using n True by (intro exI [of _ n]) simp
  qed
qed

subsection \<open>Codes of ClickHouse\<close>

lemma show_nat_prefix_digits:
  assumes "show_nat a @ r = show_nat b @ s"
    and "case r of [] \<Rightarrow> True | c # _ \<Rightarrow> \<not> is_ascii_digit c"
    and "case s of [] \<Rightarrow> True | c # _ \<Rightarrow> \<not> is_ascii_digit c"
  shows "a = b"
proof -
  have tw: "takeWhile is_ascii_digit (show_nat n @ t) = show_nat n"
    if "case t of [] \<Rightarrow> True | c # _ \<Rightarrow> \<not> is_ascii_digit c" for n t
    using show_nat_digits [of n] that
    by (subst takeWhile_append2) (auto simp: list_all_iff split: list.splits)
  show ?thesis using tw [OF assms(2), of a] tw [OF assms(3), of b] assms(1) show_nat_inject by metis
qed

lemma ch_code_matches_iff:
  assumes "case rest of [] \<Rightarrow> True | c # _ \<Rightarrow> \<not> is_ascii_digit c"
  shows "ch_code_matches (''Code: '' @ show_nat n @ rest) code \<longleftrightarrow> n = code"
proof
  assume "ch_code_matches (''Code: '' @ show_nat n @ rest) code"
  then obtain r where "strip_prefix (''Code: '' @ show_nat code) (''Code: '' @ show_nat n @ rest) = Some r"
    and r: "case r of [] \<Rightarrow> True | c # _ \<Rightarrow> \<not> is_ascii_digit c"
    by (auto simp: ch_code_matches_def split: option.splits)
  then have "show_nat n @ rest = show_nat code @ r" by (simp add: strip_prefix_Some)
  from show_nat_prefix_digits [OF this assms r] show "n = code" .
next
  assume "n = code"
  then have "strip_prefix (''Code: '' @ show_nat code) (''Code: '' @ show_nat n @ rest) = Some rest"
    by (simp add: strip_prefix_Some)
  with assms show "ch_code_matches (''Code: '' @ show_nat n @ rest) code"
    by (simp add: ch_code_matches_def split: list.splits)
qed

subsection \<open>What the services promise\<close>

definition newest_of :: "int set \<Rightarrow> int" where
  "newest_of S = (if S = {} then 0 else Max S)"

definition gap_free :: "int set \<Rightarrow> bool" where
  "gap_free S \<longleftrightarrow> finite S \<and> (\<forall>a \<in> S. 0 < a) \<and> (\<forall>a \<in> S. \<forall>b. a \<le> b \<and> b \<le> newest_of S \<longrightarrow> b \<in> S)"

text \<open>\<open>stored\<close> reads the ledgers in the \<open>ledgers\<close> table off a world and \<open>seq\<close> the sequence number off
  a parsed ledger.  The query returns the newest stored one; a write that reports success has
  stored its ledger, one that reports an error may have; nothing else writes the table; a file of
  the lake holds the one ledger of its key.\<close>

definition quiet :: "('w \<Rightarrow> int set) \<Rightarrow> ('w \<Rightarrow> 'r \<times> 'w) \<Rightarrow> bool" where
  "quiet stored call \<longleftrightarrow> (\<forall>w. stored (snd (call w)) = stored w)"

definition file_holds ::
  "('w, 'b, 'm, 'p, 'mw) services \<Rightarrow> handler_state \<Rightarrow> ('p \<Rightarrow> int) \<Rightarrow> int \<Rightarrow> bool" where
  "file_holds v hs seq l \<longleftrightarrow>
     (\<forall>w w1 w2 body compressed bytes metas.
        sv_get v (hs_bucket hs) (ledger_s3_key (hs_key_prefix hs) l) w = (Inr body, w1) \<and>
        sv_collect v body w1 = (Inr compressed, w2) \<and> sv_zstd v compressed = Inr bytes \<and>
        sv_from_xdr v bytes (deserialization_limits (length bytes)) = Inr metas \<longrightarrow>
        map (\<lambda>m. seq (sv_parse_ledger v m)) metas = [l])"

definition lake_laws ::
  "('w, 'b, 'm, 'p, 'mw) services \<Rightarrow> handler_state \<Rightarrow> ('w \<Rightarrow> int set) \<Rightarrow> ('p \<Rightarrow> int) \<Rightarrow> bool" where
  "lake_laws v hs stored seq \<longleftrightarrow>
     quiet stored (sv_clock v) \<and> quiet stored (sv_unix_secs v) \<and> quiet stored (sv_max_sequence v) \<and>
     (\<forall>l. quiet stored (sv_closed_at v l)) \<and> (\<forall>b k. quiet stored (sv_head v b k)) \<and>
     (\<forall>b k. quiet stored (sv_get v b k)) \<and> (\<forall>b. quiet stored (sv_collect v b)) \<and>
     (\<forall>p. quiet stored (sv_metadata_writes v p)) \<and> (\<forall>m d. quiet stored (sv_send v m d)) \<and>
     (\<forall>d w. stored (sv_sleep v d w) = stored w) \<and> (\<forall>p w. stored (sv_metrics v p w) = stored w) \<and>
     (\<forall>ps w. stored (sv_publish v ps w) = stored w) \<and>
     (\<forall>w m w'. sv_max_sequence v w = (Inr m, w') \<longrightarrow> m = newest_of (stored w)) \<and>
     (\<forall>p mw w. case sv_persist v p mw w of
        (Inl e, w') \<Rightarrow> stored w' = stored w \<or> stored w' = insert (seq p) (stored w)
      | (Inr u, w') \<Rightarrow> stored w' = insert (seq p) (stored w)) \<and>
     (\<forall>l. file_holds v hs seq l)"

lemma gap_free_insert:
  assumes "gap_free S" and "S = {} \<and> 0 < n \<or> S \<noteq> {} \<and> n = newest_of S + 1"
  shows "gap_free (insert n S)" and "newest_of (insert n S) = n"
proof -
  have f: "finite S" "\<forall>a \<in> S. 0 < a" and i: "\<And>a b. a \<in> S \<Longrightarrow> a \<le> b \<Longrightarrow> b \<le> newest_of S \<Longrightarrow> b \<in> S"
    using assms(1) by (auto simp: gap_free_def)
  show new: "newest_of (insert n S) = n"
    using assms(2) f(1) by (cases "S = {}") (auto simp: newest_of_def max_def)
  have pos: "0 < n"
  proof (cases "S = {}")
    case False
    then have "Max S \<in> S" using f(1) by (rule Max_in [rotated])
    then show ?thesis using f(2) assms(2) False by (auto simp: newest_of_def)
  qed (use assms(2) in simp)
  have "b \<in> insert n S" if "a \<in> insert n S" "a \<le> b" "b \<le> n" for a b
  proof (cases "b = n \<or> a = n")
    case True
    then show ?thesis using that by auto
  next
    case False
    then have "a \<in> S" and "S \<noteq> {}" using that(1) by auto
    then show ?thesis using i [of a b] that False assms(2) by auto
  qed
  then show "gap_free (insert n S)" using f pos new by (simp add: gap_free_def)
qed

lemma lake_quiet:
  assumes "lake_laws v hs stored seq"
  shows "sv_clock v w = (a, w') \<Longrightarrow> stored w' = stored w" and "sv_unix_secs v w = (b, w') \<Longrightarrow> stored w' = stored w"
    and "sv_max_sequence v w = (c, w') \<Longrightarrow> stored w' = stored w"
    and "sv_closed_at v l w = (d, w') \<Longrightarrow> stored w' = stored w"
    and "sv_head v bk k w = (e, w') \<Longrightarrow> stored w' = stored w"
    and "sv_get v bk k w = (f, w') \<Longrightarrow> stored w' = stored w"
    and "sv_collect v bd w = (g, w') \<Longrightarrow> stored w' = stored w"
    and "sv_metadata_writes v p w = (h, w') \<Longrightarrow> stored w' = stored w"
    and "stored (snd (sv_send v m n w)) = stored w"
    and "stored (sv_sleep v t w) = stored w" and "stored (sv_metrics v p w) = stored w"
    and "stored (sv_publish v ps w) = stored w"
  using assms unfolding lake_laws_def quiet_def by (metis snd_conv)+

lemma lake_max_sequence:
  "lake_laws v hs stored seq \<Longrightarrow> sv_max_sequence v w = (Inr m, w') \<Longrightarrow> m = newest_of (stored w)"
  by (simp add: lake_laws_def)

lemma lake_persist:
  assumes "lake_laws v hs stored seq" and "sv_persist v p mw w = (r, w')"
  shows "stored w' = stored w \<or> stored w' = insert (seq p) (stored w)"
    and "r = Inr u \<Longrightarrow> stored w' = insert (seq p) (stored w)"
proof -
  have "case sv_persist v p mw w of
        (Inl e, w') \<Rightarrow> stored w' = stored w \<or> stored w' = insert (seq p) (stored w)
      | (Inr u, w') \<Rightarrow> stored w' = insert (seq p) (stored w)"
    using assms(1) by (simp add: lake_laws_def)
  with assms(2) show "stored w' = stored w \<or> stored w' = insert (seq p) (stored w)"
    and "r = Inr u \<Longrightarrow> stored w' = insert (seq p) (stored w)"
    by (auto split: sum.splits)
qed

lemma persist_with_retry_stored:
  fixes v :: "('w, 'b, 'm, 'p, 'mw) services"
  assumes L: "lake_laws v hs stored seq" and r: "persist_with_retry v p mw w = (r, w')"
  shows "stored w' = stored w \<or> stored w' = insert (seq p) (stored w)"
    and "r = Inr () \<Longrightarrow> stored w' = insert (seq p) (stored w)"
proof -
  let ?op = "\<lambda>w. case sv_persist v p mw w of
                    (Inl e, w1) \<Rightarrow> (Inl (HeClickHouse e), w1) | (Inr u, w1) \<Rightarrow> (Inr (), w1)"
  let ?W = "attempt_world (sv_sleep v) retry_backoff_ms ?op w"
  have op: "stored (snd (?op u)) = stored u \<or> stored (snd (?op u)) = insert (seq p) (stored u)"
    and op': "fst (?op u) = Inr () \<Longrightarrow> stored (snd (?op u)) = insert (seq p) (stored u)" for u
  proof -
    obtain r w1 where p: "sv_persist v p mw u = (r, w1)" by fastforce
    note ps = lake_persist [OF L p]
    show "stored (snd (?op u)) = stored u \<or> stored (snd (?op u)) = insert (seq p) (stored u)"
      using ps(1) p by (cases r) simp_all
    show "fst (?op u) = Inr () \<Longrightarrow> stored (snd (?op u)) = insert (seq p) (stored u)"
      using ps(2) p by (cases r) simp_all
  qed
  have W: "stored (?W k) = stored w \<or> stored (?W k) = insert (seq p) (stored w)" for k
  proof (induction k)
    case (Suc k)
    have "stored (?W (Suc k)) = stored (snd (?op (?W k)))" by (simp add: lake_quiet(10) [OF L])
    then show ?case using Suc op [of "?W k"] by auto
  qed simp
  obtain n where n: "retry_with_backoff (sv_sleep v) retry_backoff_ms is_transient_ch_error ?op w =
      (case fst (?op (?W n)) of Inl e \<Rightarrow> Inl e | Inr u \<Rightarrow> Inr n, snd (?op (?W n)))"
    using retry_from_attempt [of 0 retry_backoff_ms is_transient_ch_error ?op "sv_sleep v" w]
    by (auto simp: retry_with_backoff_def)
  then have res: "w' = snd (?op (?W n))" "r = Inr () \<Longrightarrow> fst (?op (?W n)) = Inr ()"
    using r unfolding persist_with_retry_def n by (auto split: sum.splits)
  show "stored w' = stored w \<or> stored w' = insert (seq p) (stored w)"
    using res(1) W [of n] op [of "?W n"] by auto
  assume "r = Inr ()"
  then show "stored w' = insert (seq p) (stored w)"
    using res W [of n] op' [of "?W n"] by auto
qed

lemma download_stored:
  assumes L: "lake_laws v hs stored seq" and r: "download_s3_object v b key w = (r, w')"
  shows "stored w' = stored w"
    and "r = Inr z \<Longrightarrow> \<exists>bd w1. sv_get v b key w = (Inr bd, w1) \<and> sv_collect v bd w1 = (Inr z, w')"
proof -
  obtain g w1 where g: "sv_get v b key w = (g, w1)" by fastforce
  note s1 = lake_quiet(6) [OF L g]
  have "stored w' = stored w \<and>
    (r = Inr z \<longrightarrow> (\<exists>bd w1. sv_get v b key w = (Inr bd, w1) \<and> sv_collect v bd w1 = (Inr z, w')))"
  proof (cases g)
    case (Inl e)
    then show ?thesis using r g s1 by (auto simp: download_s3_object_def)
  next
    case (Inr bd)
    obtain c w2 where c: "sv_collect v bd w1 = (c, w2)" by fastforce
    note s2 = lake_quiet(7) [OF L c]
    show ?thesis using r g c s1 s2 Inr by (cases c) (auto simp: download_s3_object_def)
  qed
  then show "stored w' = stored w"
    and "r = Inr z \<Longrightarrow> \<exists>bd w1. sv_get v b key w = (Inr bd, w1) \<and> sv_collect v bd w1 = (Inr z, w')" by blast+
qed

lemma process_meta_stored:
  assumes L: "lake_laws v hs stored seq" and r: "process_metas v [meta] [] w = (r, w')"
  shows "stored w' = stored w \<or> stored w' = insert (seq (sv_parse_ledger v meta)) (stored w)"
    and "r = Inr ps \<Longrightarrow> stored w' = insert (seq (sv_parse_ledger v meta)) (stored w)"
proof -
  let ?p = "sv_parse_ledger v meta"
  obtain mr w1 where mw: "sv_metadata_writes v ?p w = (mr, w1)" by fastforce
  note s1 = lake_quiet(8) [OF L mw]
  have "(stored w' = stored w \<or> stored w' = insert (seq ?p) (stored w)) \<and>
        (r = Inr ps \<longrightarrow> stored w' = insert (seq ?p) (stored w))"
  proof (cases mr)
    case (Inl e)
    then show ?thesis using r mw s1 by (auto simp: Let_def)
  next
    case (Inr mv)
    obtain pr w2 where q: "persist_with_retry v ?p mv w1 = (pr, w2)" by fastforce
    note s2 = persist_with_retry_stored [OF L q]
    show ?thesis
    proof (cases pr)
      case e: (Inl e)
      then have "w' = w2" "r = Inl e" using r mw Inr q by (simp_all add: Let_def)
      then show ?thesis using s1 s2(1) by simp
    next
      case ok: (Inr u)
      then have "w' = sv_metrics v ?p w2" using r mw Inr q by (simp add: Let_def)
      then show ?thesis using s1 s2(2) ok lake_quiet(11) [OF L] by simp
    qed
  qed
  then show "stored w' = stored w \<or> stored w' = insert (seq ?p) (stored w)"
    and "r = Inr ps \<Longrightarrow> stored w' = insert (seq ?p) (stored w)" by blast+
qed

lemma process_s3_object_stored:
  assumes L: "lake_laws v hs stored seq"
    and r: "process_s3_object v (hs_bucket hs) (ledger_s3_key (hs_key_prefix hs) l) w = (r, w')"
  shows "stored w' = stored w \<or> stored w' = insert l (stored w)"
    and "r = Inr () \<Longrightarrow> stored w' = insert l (stored w)"
proof -
  let ?key = "ledger_s3_key (hs_key_prefix hs) l"
  obtain dr w2 where d: "download_s3_object v (hs_bucket hs) ?key w = (dr, w2)" by fastforce
  note down = download_stored [OF L d]
  have "(stored w' = stored w \<or> stored w' = insert l (stored w)) \<and>
        (r = Inr () \<longrightarrow> stored w' = insert l (stored w))"
  proof (cases "\<exists>z x metas. dr = Inr z \<and> decompress_zstd (sv_zstd v) z = Inr x \<and>
                  deserialize_batch (sv_from_xdr v) x = Inr metas")
    case False
    then have "w' = w2 \<and> (\<exists>e. r = Inl e)"
      using r d by (auto simp: process_s3_object_def split: sum.splits)
    then show ?thesis using down(1) by auto
  next
    case True
    then obtain z x metas where dr: "dr = Inr z" and dec: "decompress_zstd (sv_zstd v) z = Inr x"
      "deserialize_batch (sv_from_xdr v) x = Inr metas" by blast
    have "sv_zstd v z = Inr x"
      using dec(1) by (auto simp: decompress_zstd_def split: sum.splits if_splits)
    moreover have "sv_from_xdr v x (deserialization_limits (length x)) = Inr metas"
      using dec(2) by (auto simp: deserialize_batch_def split: sum.splits)
    moreover obtain bd w1 where "sv_get v (hs_bucket hs) ?key w = (Inr bd, w1)" "sv_collect v bd w1 = (Inr z, w2)"
      using down(2) dr by blast
    moreover have "file_holds v hs seq l" using L by (simp add: lake_laws_def)
    ultimately have "map (\<lambda>m. seq (sv_parse_ledger v m)) metas = [l]" unfolding file_holds_def by blast
    then obtain m where m: "metas = [m]" "seq (sv_parse_ledger v m) = l" by (cases metas) auto
    obtain pr w3 where p: "process_metas v [m] [] w2 = (pr, w3)" by fastforce
    note ps = process_meta_stored [OF L p, unfolded m(2)]
    show ?thesis
    proof (cases pr)
      case (Inl e)
      then have "w' = w3" "r = Inl e" using r d dr dec m(1) p by (simp_all add: process_s3_object_def)
      then show ?thesis using ps(1) down(1) by simp
    next
      case (Inr seen)
      then have "w' = sv_publish v seen w3" using r d dr dec m(1) p by (simp add: process_s3_object_def)
      then show ?thesis using ps(2) [OF Inr] down(1) lake_quiet(12) [OF L] by simp
    qed
  qed
  then show "stored w' = stored w \<or> stored w' = insert l (stored w)"
    and "r = Inr () \<Longrightarrow> stored w' = insert l (stored w)" by blast+
qed

text \<open>The next ledger to read is the one after the newest stored.\<close>

definition loop_ready :: "int set \<Rightarrow> int \<Rightarrow> bool" where
  "loop_ready S n \<longleftrightarrow> gap_free S \<and> (S = {} \<and> 0 < n \<or> S \<noteq> {} \<and> n = newest_of S + 1)"

text \<open>The loop stops because time is up, or because the ledger after the newest is not in the lake.\<close>

definition stopped ::
  "('w, 'b, 'm, 'p, 'mw) services \<Rightarrow> handler_state \<Rightarrow> nat \<Rightarrow> int set \<Rightarrow> 'w \<Rightarrow> bool" where
  "stopped v hs start S w' \<longleftrightarrow>
     (\<exists>w1 now. sv_clock v w1 = (now, w') \<and> reconcile_deadline \<le> now - start) \<or>
     (\<exists>w1 l. loop_ready S l \<and>
        sv_head v (hs_bucket hs) (ledger_s3_key (hs_key_prefix hs) l) w1 = (HeadNotFound, w'))"

definition loop_done ::
  "('w, 'b, 'm, 'p, 'mw) services \<Rightarrow> handler_state \<Rightarrow> ('w \<Rightarrow> int set) \<Rightarrow> nat \<Rightarrow> int set \<Rightarrow> nat \<Rightarrow>
   (handler_error + reconciled) \<times> 'w \<Rightarrow> bool" where
  "loop_done v hs stored start S k y \<longleftrightarrow>
     gap_free (stored (snd y)) \<and> S \<subseteq> stored (snd y) \<and>
     (case fst y of
        Inl e \<Rightarrow> True
      | Inr rc \<Rightarrow> rc_newest rc = newest_of (stored (snd y)) \<and>
          rc_persisted rc + card S = k + card (stored (snd y)) \<and> stopped v hs start (stored (snd y)) (snd y))"

lemma s3_object_exists_cases:
  assumes "lake_laws v hs stored seq" and "s3_object_exists v b key w = (r, w')"
  shows "stored w' = stored w" and "r = Inr False \<Longrightarrow> sv_head v b key w = (HeadNotFound, w')"
  using assms lake_quiet(5) [OF assms(1)]
  by (auto simp: s3_object_exists_def split: prod.splits head_outcome.splits)

lemma loop_ready_insert:
  assumes "loop_ready S n"
  shows "loop_ready (insert n S) (n + 1)" and "newest_of (insert n S) = n" and "n \<notin> S" and "finite S"
    and "gap_free S" and "gap_free (insert n S)"
proof -
  have g: "gap_free S" and n: "S = {} \<and> 0 < n \<or> S \<noteq> {} \<and> n = newest_of S + 1"
    using assms by (auto simp: loop_ready_def)
  show "finite S" and "gap_free S" using g by (auto simp: gap_free_def)
  show i: "newest_of (insert n S) = n" "gap_free (insert n S)" using gap_free_insert [OF g n] by auto
  then show "loop_ready (insert n S) (n + 1)" by (simp add: loop_ready_def)
  show "n \<notin> S"
    using n Max_ge [OF \<open>finite S\<close>, of n] by (auto simp: newest_of_def split: if_splits)
qed

lemma reconcile_loop_stored:
  assumes "reconcile_loop v hs start n k m w = Some y" and "lake_laws v hs stored seq"
    and "loop_ready (stored w) n" and "m = newest_of (stored w)"
  shows "loop_done v hs stored start (stored w) k y"
  using assms
proof (induction rule: reconcile_loop.raw_induct [rotated, consumes 1])
  case (1 loop v hs start n k m w y)
  note L = 1(3) and step = 1(2) and IH = 1(1)
  let ?key = "ledger_s3_key (hs_key_prefix hs) n"
  note ready = loop_ready_insert [OF 1(4)]
  obtain now w0 where c: "sv_clock v w = (now, w0)" by fastforce
  have s0: "stored w0 = stored w" by (rule lake_quiet(1) [OF L c])
  show ?case
  proof (cases "reconcile_deadline \<le> now - start")
    case True
    then have "y = (Inr \<lparr>rc_persisted = k, rc_newest = m\<rparr>, w0)" using step c by simp
    then show ?thesis using True c s0 ready(5) 1(5) by (auto simp: loop_done_def stopped_def)
  next
    case False
    obtain hr w1 where h: "s3_object_exists v (hs_bucket hs) ?key w0 = (hr, w1)" by fastforce
    have s1: "stored w1 = stored w" using s3_object_exists_cases(1) [OF L h] s0 by simp
    consider (err) e where "hr = Inl e" | (gone) "hr = Inr False" | (found) "hr = Inr True" by (cases hr) auto
    then show ?thesis
    proof cases
      case err
      then have "y = (Inl e, w1)" using step c False h by simp
      then show ?thesis using s1 ready(5) by (simp add: loop_done_def)
    next
      case gone
      then have y: "y = (Inr \<lparr>rc_persisted = k, rc_newest = m\<rparr>, w1)" using step c False h by simp
      have "stopped v hs start (stored w1) w1"
        using s3_object_exists_cases(2) [OF L h gone] 1(4) s1 by (auto simp: stopped_def)
      then show ?thesis using y s1 ready(5) 1(5) by (simp add: loop_done_def)
    next
      case found
      obtain pr w2 where p: "process_s3_object v (hs_bucket hs) ?key w1 = (pr, w2)" by fastforce
      note ps = process_s3_object_stored [OF L p]
      show ?thesis
      proof (cases pr)
        case (Inl e)
        then have "y = (Inl e, w2)" using step c False h found p by simp
        then show ?thesis using ps(1) s1 ready(5,6) by (auto simp: loop_done_def)
      next
        case (Inr u)
        then have s2: "stored w2 = insert n (stored w)" using ps(2) s1 by simp
        have "loop v hs start (n + 1) (k + 1) n w2 = Some y" using step c False h found p Inr by simp
        then have "loop_done v hs stored start (stored w2) (k + 1) y"
          by (rule IH) (use L ready(1,2) s2 in auto)
        then show ?thesis using s2 ready(3,4) by (auto simp: loop_done_def split: sum.splits)
      qed
    qed
  qed
qed

definition reconcile_start :: "('w, 'b, 'm, 'p, 'mw) services \<Rightarrow> 'w \<Rightarrow> nat" where
  "reconcile_start v w = fst (sv_clock v w)"

text \<open>A run that does not start for want of a cursor has stored nothing.\<close>

definition reconcile_done ::
  "('w, 'b, 'm, 'p, 'mw) services \<Rightarrow> handler_state \<Rightarrow> ('w \<Rightarrow> int set) \<Rightarrow> 'w \<Rightarrow>
   (handler_error + reconciled) \<times> 'w \<Rightarrow> bool" where
  "reconcile_done v hs stored w y \<longleftrightarrow>
     gap_free (stored (snd y)) \<and> stored w \<subseteq> stored (snd y) \<and>
     (case fst y of
        Inl e \<Rightarrow> True
      | Inr rc \<Rightarrow> rc_newest rc = newest_of (stored (snd y)) \<and>
          rc_persisted rc + card (stored w) = card (stored (snd y)) \<and>
          (stored (snd y) = {} \<and> hs_bucket hs \<noteq> public_bucket \<or>
           stopped v hs (reconcile_start v w) (stored (snd y)) (snd y)))"

lemma newest_pos: "gap_free S \<Longrightarrow> 0 < newest_of S \<longleftrightarrow> S \<noteq> {}"
  by (auto simp: gap_free_def newest_of_def)

lemma reconcile_stored:
  assumes "reconcile v hs w = Some y" and L: "lake_laws v hs stored seq" and g: "gap_free (stored w)"
  shows "reconcile_done v hs stored w y"
proof -
  obtain start w0 where c: "sv_clock v w = (start, w0)" by fastforce
  obtain mr w1 where m: "sv_max_sequence v w0 = (mr, w1)" by fastforce
  have s: "stored w1 = stored w" using lake_quiet(1) [OF L c] lake_quiet(3) [OF L m] by simp
  show ?thesis
  proof (cases mr)
    case (Inl e)
    then have "y = (Inl (HeClickHouse (SchemaQuery e)), w1)" using assms(1) c m by (simp add: reconcile_def)
    then show ?thesis using s g by (simp add: reconcile_done_def)
  next
    case (Inr max_seq)
    have max: "max_seq = newest_of (stored w)" using lake_max_sequence [OF L, of w0 max_seq w1] m Inr lake_quiet(1) [OF L c] by simp
    show ?thesis
    proof (cases "first_ledger_to_read max_seq (hs_bucket hs)")
      case None
      then have y: "y = (Inr \<lparr>rc_persisted = 0, rc_newest = 0\<rparr>, w1)" and "hs_bucket hs \<noteq> public_bucket"
        and "\<not> 0 < max_seq"
        using assms(1) c m Inr by (auto simp: reconcile_def first_ledger_to_read_def split: if_splits)
      then show ?thesis
        using s g newest_pos [OF g] max by (simp add: reconcile_done_def newest_of_def)
    next
      case (Some n)
      then have "loop_ready (stored w1) n"
        using newest_pos [OF g] max s g
        by (auto simp: first_ledger_to_read_def loop_ready_def first_closed_ledger_def split: if_splits)
      moreover have "reconcile_loop v hs start n 0 max_seq w1 = Some y"
        using assms(1) c m Inr Some by (simp add: reconcile_def)
      ultimately have "loop_done v hs stored start (stored w1) 0 y"
        using reconcile_loop_stored [OF _ L, of start n 0 max_seq w1 y] max s by simp
      then show ?thesis
        using c s by (auto simp: loop_done_def reconcile_done_def reconcile_start_def split: sum.splits)
    qed
  qed
qed
subsection \<open>Time\<close>

text \<open>\<open>time\<close> is the reading of the monotonic clock in a world.  No call turns it back, and a
  download takes at least a millisecond.\<close>

definition later :: "('w \<Rightarrow> nat) \<Rightarrow> ('w \<Rightarrow> 'r \<times> 'w) \<Rightarrow> bool" where
  "later time call \<longleftrightarrow> (\<forall>w. time w \<le> time (snd (call w)))"

definition time_laws :: "('w, 'b, 'm, 'p, 'mw) services \<Rightarrow> ('w \<Rightarrow> nat) \<Rightarrow> bool" where
  "time_laws v time \<longleftrightarrow>
     (\<forall>w. fst (sv_clock v w) = time w) \<and> later time (sv_clock v) \<and> later time (sv_unix_secs v) \<and>
     later time (sv_max_sequence v) \<and> (\<forall>l. later time (sv_closed_at v l)) \<and>
     (\<forall>b k. later time (sv_head v b k)) \<and> (\<forall>b k w. time w < time (snd (sv_get v b k w))) \<and>
     (\<forall>b. later time (sv_collect v b)) \<and> (\<forall>p. later time (sv_metadata_writes v p)) \<and>
     (\<forall>p mw. later time (sv_persist v p mw)) \<and>
     (\<forall>d w. time w \<le> time (sv_sleep v d w)) \<and> (\<forall>p w. time w \<le> time (sv_metrics v p w)) \<and>
     (\<forall>ps w. time w \<le> time (sv_publish v ps w))"

lemma time_later:
  assumes "time_laws v time"
  shows "sv_clock v w = (now, w') \<Longrightarrow> now = time w \<and> time w \<le> time w'"
    and "sv_head v b k w = (e, w') \<Longrightarrow> time w \<le> time w'"
    and "sv_get v b k w = (f, w') \<Longrightarrow> time w < time w'"
    and "sv_collect v bd w = (g, w') \<Longrightarrow> time w \<le> time w'"
    and "sv_metadata_writes v p w = (h, w') \<Longrightarrow> time w \<le> time w'"
    and "sv_persist v p mw w = (i, w') \<Longrightarrow> time w \<le> time w'"
    and "time w \<le> time (sv_sleep v t w)" and "time w \<le> time (sv_metrics v p w)"
    and "time w \<le> time (sv_publish v ps w)"
  using assms unfolding time_laws_def later_def by (metis fst_conv snd_conv)+

lemma retry_later:
  assumes "\<And>w. time w \<le> time (snd (oper w))" and "\<And>d w. time w \<le> (time (sleep d w) :: nat)"
  shows "time w \<le> time (snd (retry_with_backoff sleep bo tr oper w))"
proof -
  have W: "time w \<le> time (attempt_world sleep bo oper w n)" for n
  proof (induction n)
    case (Suc n)
    let ?w = "attempt_world sleep bo oper w n"
    show ?case using Suc assms(1) [of ?w] assms(2) [of "snd (oper ?w)" "bo ! n"] by simp
  qed simp
  obtain n r where "retry_with_backoff sleep bo tr oper w = (r, snd (oper (attempt_world sleep bo oper w n)))"
    using retry_from_attempt [of 0 bo tr oper sleep w] by (auto simp: retry_with_backoff_def)
  then show ?thesis using order_trans [OF W assms(1)] by simp
qed

lemma persist_later:
  assumes L: "time_laws v time" and r: "persist_with_retry v p mw w = (r, w')"
  shows "time w \<le> time w'"
proof -
  let ?op = "\<lambda>w. case sv_persist v p mw w of
                    (Inl e, w1) \<Rightarrow> (Inl (HeClickHouse e), w1) | (Inr u, w1) \<Rightarrow> (Inr (), w1)"
  have op: "time w \<le> time (snd (?op w))" for w
  proof -
    obtain q w1 where "sv_persist v p mw w = (q, w1)" by fastforce
    with time_later(6) [OF L this] show ?thesis by (cases q) simp_all
  qed
  obtain q w1 where q: "retry_with_backoff (sv_sleep v) retry_backoff_ms is_transient_ch_error ?op w = (q, w1)"
    by fastforce
  have "time w \<le> time w1"
    using retry_later [of time ?op "sv_sleep v" w retry_backoff_ms is_transient_ch_error, OF op time_later(7) [OF L]] q
    by simp
  then show ?thesis using r q by (cases q) (auto simp: persist_with_retry_def)
qed

lemma process_metas_later:
  assumes L: "time_laws v time"
  shows "process_metas v metas seen w = (r, w') \<Longrightarrow> time w \<le> time w'"
proof (induction metas arbitrary: seen w)
  case (Cons m metas)
  let ?p = "sv_parse_ledger v m"
  obtain mr w1 where mw: "sv_metadata_writes v ?p w = (mr, w1)" by fastforce
  note s1 = time_later(5) [OF L mw]
  show ?case
  proof (cases mr)
    case (Inl e)
    then show ?thesis using Cons.prems mw s1 by (auto simp: Let_def)
  next
    case (Inr mv)
    obtain pr w2 where q: "persist_with_retry v ?p mv w1 = (pr, w2)" by fastforce
    note s2 = persist_later [OF L q]
    show ?thesis
    proof (cases pr)
      case e: (Inl e)
      then show ?thesis using Cons.prems mw Inr q s1 s2 by (simp add: Let_def)
    next
      case ok: (Inr u)
      then have "process_metas v metas (seen @ [?p]) (sv_metrics v ?p w2) = (r, w')"
        using Cons.prems mw Inr q by (simp add: Let_def)
      from Cons.IH [OF this] show ?thesis using s1 s2 time_later(8) [OF L, of w2 ?p] by linarith
    qed
  qed
qed simp

lemma process_s3_object_later:
  assumes L: "time_laws v time" and r: "process_s3_object v b key w = (r, w')"
  shows "time w < time w'"
proof -
  obtain g w1 where g: "sv_get v b key w = (g, w1)" by fastforce
  note s1 = time_later(3) [OF L g]
  show ?thesis
  proof (cases g)
    case (Inl e)
    then show ?thesis using r g s1 by (auto simp: process_s3_object_def download_s3_object_def)
  next
    case bd: (Inr bd)
    obtain c w2 where c: "sv_collect v bd w1 = (c, w2)" by fastforce
    note s2 = time_later(4) [OF L c]
    have d: "download_s3_object v b key w =
        (case c of Inl e \<Rightarrow> Inl (S3Download (''reading the body of '' @ key @ '' failed: '' @ e)) | Inr z \<Rightarrow> Inr z, w2)"
      using g c bd by (cases c) (simp_all add: download_s3_object_def)
    show ?thesis
    proof (cases "\<exists>z x metas. c = Inr z \<and> decompress_zstd (sv_zstd v) z = Inr x \<and>
                    deserialize_batch (sv_from_xdr v) x = Inr metas")
      case False
      then have "w' = w2" using r d by (auto simp: process_s3_object_def split: sum.splits)
      then show ?thesis using s1 s2 by simp
    next
      case True
      then obtain z x metas where dec: "c = Inr z" "decompress_zstd (sv_zstd v) z = Inr x"
        "deserialize_batch (sv_from_xdr v) x = Inr metas" by blast
      obtain pr w3 where p: "process_metas v metas [] w2 = (pr, w3)" by fastforce
      note s3 = process_metas_later [OF L p]
      have "w' = (case pr of Inl e \<Rightarrow> w3 | Inr seen \<Rightarrow> sv_publish v seen w3)"
        using r d dec p by (cases pr) (simp_all add: process_s3_object_def)
      then have "time w3 \<le> time w'" using time_later(9) [OF L, of w3] by (cases pr) simp_all
      then show ?thesis using s1 s2 s3 by linarith
    qed
  qed
qed

lemma s3_object_exists_later:
  assumes "time_laws v time" and "s3_object_exists v b key w = (r, w')"
  shows "time w \<le> time w'"
proof -
  obtain h w1 where h: "sv_head v b key w = (h, w1)" by fastforce
  then show ?thesis using assms(2) time_later(2) [OF assms(1) h]
    by (cases h) (auto simp: s3_object_exists_def)
qed

lemma reconcile_loop_returns:
  assumes L: "time_laws v time"
  shows "\<exists>y. reconcile_loop v hs start n k m w = Some y"
proof (induction "start + reconcile_deadline - time w" arbitrary: n k m w rule: less_induct)
  case less
  obtain now w0 where c: "sv_clock v w = (now, w0)" by fastforce
  have now: "now = time w" "time w \<le> time w0" using time_later(1) [OF L c] by simp_all
  let ?key = "ledger_s3_key (hs_key_prefix hs) n"
  obtain hr w1 where h: "s3_object_exists v (hs_bucket hs) ?key w0 = (hr, w1)" by fastforce
  note s1 = s3_object_exists_later [OF L h]
  obtain pr w2 where p: "process_s3_object v (hs_bucket hs) ?key w1 = (pr, w2)" by fastforce
  note s2 = process_s3_object_later [OF L p]
  show ?case
  proof (cases "reconcile_deadline \<le> now - start \<or> (\<exists>e. hr = Inl e) \<or> hr = Inr False \<or> (\<exists>e. pr = Inl e)")
    case True
    then show ?thesis using c h p by (subst reconcile_loop.simps) (auto split: sum.splits)
  next
    case False
    then obtain u where f: "hr = Inr True" "pr = Inr u" by (cases hr; cases pr) auto
    have "start + reconcile_deadline - time w2 < start + reconcile_deadline - time w"
      using False now s1 s2 by linarith
    from less [OF this] obtain y where "reconcile_loop v hs start (n + 1) (k + 1) n w2 = Some y" by blast
    then have "reconcile_loop v hs start n k m w = Some y"
      using c h p f False by (subst reconcile_loop.simps) simp
    then show ?thesis by blast
  qed
qed

lemma reconcile_returns: "time_laws v time \<Longrightarrow> \<exists>y. reconcile v hs w = Some y"
  using reconcile_loop_returns
  by (fastforce simp: reconcile_def split: prod.splits sum.splits option.splits)

subsection \<open>The handler\<close>

text \<open>What a doorbell runs.\<close>

definition doorbell ::
  "('w, 'b, 'm, 'p, 'mw) services \<Rightarrow> handler_state \<Rightarrow> sqs_message \<Rightarrow> 'w \<Rightarrow>
   ((handler_error + reconciled) \<times> 'w) option" where
  "doorbell v hs msg w = (if hs_pacer hs then paced v hs (sq_body msg) w else reconcile v hs w)"

text \<open>Pacing changes neither what is stored nor whether the pass succeeded, unless the closing
  time cannot be read.\<close>

lemma paced_stored:
  assumes "paced v hs body w = Some (r, w')" and L: "lake_laws v hs stored seq"
  shows "\<exists>r1 w1. reconcile v hs w = Some (r1, w1) \<and> stored w' = stored w1"
proof -
  obtain r1 w1 where rc: "reconcile v hs w = Some (r1, w1)"
    using assms(1) by (cases "reconcile v hs w") (auto simp: paced_def Let_def)
  show ?thesis
  proof (cases r1)
    case (Inl e)
    then show ?thesis using assms(1) rc by (auto simp: paced_def Let_def)
  next
    case (Inr d)
    obtain cr w2 where c: "newest_closed_at v d w1 = (cr, w2)" by fastforce
    have s2: "stored w2 = stored w1"
    proof (cases "0 < rc_persisted d")
      case True
      obtain q w3 where q: "sv_closed_at v (rc_newest d) w1 = (q, w3)" by fastforce
      then show ?thesis using c True lake_quiet(4) [OF L q] by (cases q) (auto simp: newest_closed_at_def)
    next
      case False
      then show ?thesis using c by (simp add: newest_closed_at_def)
    qed
    obtain now w3 where n: "sv_unix_secs v w2 = (now, w3)" by fastforce
    note s3 = lake_quiet(2) [OF L n]
    have "stored w' = stored w1"
    proof (cases cr)
      case e: (Inl e)
      then show ?thesis using assms(1) rc Inr c s2 by (simp add: paced_def)
    next
      case cl: (Inr cl)
      then show ?thesis
        using assms(1) rc Inr c n s2 s3 lake_quiet(9) [OF L]
        by (cases "pace_next (wake_parse (sv_expect_of_json v) body) d cl now") (auto simp: paced_def)
    qed
    with rc show ?thesis by blast
  qed
qed

lemma doorbell_stored:
  assumes "doorbell v hs msg w = Some (r, w')" and L: "lake_laws v hs stored seq" and "gap_free (stored w)"
  shows "gap_free (stored w') \<and> stored w \<subseteq> stored w'"
proof -
  obtain r1 w1 where "reconcile v hs w = Some (r1, w1)" "stored w' = stored w1"
    using assms(1) paced_stored [OF _ L, of "sq_body msg" w r w'] by (auto simp: doorbell_def split: if_splits)
  then show ?thesis using reconcile_stored [OF _ L assms(3)] by (fastforce simp: reconcile_done_def)
qed

lemma doorbell_returns: "time_laws v time \<Longrightarrow> \<exists>y. doorbell v hs msg w = Some y"
proof -
  assume "time_laws v time"
  from reconcile_returns [OF this, of hs w] obtain y where "reconcile v hs w = Some y" by blast
  then show ?thesis
    by (fastforce simp: doorbell_def paced_def Let_def split: prod.splits sum.splits option.splits)
qed

text \<open>The messages whose doorbell fails, by the world each one starts in.\<close>

fun failing ::
  "('w, 'b, 'm, 'p, 'mw) services \<Rightarrow> handler_state \<Rightarrow> sqs_message list \<Rightarrow> 'w \<Rightarrow> string list" where
  "failing v hs [] w = []"
| "failing v hs (msg # msgs) w =
     (case doorbell v hs msg w of
        None \<Rightarrow> []
      | Some (r, w1) \<Rightarrow> (case r of Inl e \<Rightarrow> [sq_message_id msg] | Inr d \<Rightarrow> []) @ failing v hs msgs w1)"

lemma handler_loop_step:
  "handler_loop v hs (msg # msgs) fs w =
     (case doorbell v hs msg w of
        None \<Rightarrow> None
      | Some (r, w1) \<Rightarrow> handler_loop v hs msgs (fs @ (case r of Inl e \<Rightarrow> [sq_message_id msg] | Inr d \<Rightarrow> [])) w1)"
  by (auto simp: doorbell_def split: option.splits sum.splits)

lemma handler_loop_spec:
  assumes L: "lake_laws v hs stored seq" and T: "time_laws v time" and "gap_free (stored w)"
  shows "\<exists>w'. handler_loop v hs msgs fs w = Some (fs @ failing v hs msgs w, w') \<and>
           gap_free (stored w') \<and> stored w \<subseteq> stored w'"
  using assms(3)
proof (induction msgs arbitrary: fs w)
  case (Cons msg msgs)
  obtain r w1 where d: "doorbell v hs msg w = Some (r, w1)" using doorbell_returns [OF T] by fastforce
  note s1 = doorbell_stored [OF d L Cons.prems]
  obtain w' where "handler_loop v hs msgs (fs @ (case r of Inl e \<Rightarrow> [sq_message_id msg] | Inr d \<Rightarrow> [])) w1 =
      Some ((fs @ (case r of Inl e \<Rightarrow> [sq_message_id msg] | Inr d \<Rightarrow> [])) @ failing v hs msgs w1, w')"
      "gap_free (stored w')" "stored w1 \<subseteq> stored w'"
    using Cons.IH s1 by blast
  then show ?case using d s1 by (auto simp: handler_loop_step simp del: handler_loop.simps)
qed simp

subsection \<open>Services for the examples\<close>

text \<open>A lake with the ledgers 8 and 9; a world is the time and the stored ledgers.\<close>

definition example_state :: handler_state where
  "example_state = \<lparr>hs_bucket = ''ledgers'', hs_key_prefix = [], hs_pacer = False\<rparr>"

definition example_services :: "(nat \<times> int set, int, int, int, unit) services" where
  "example_services =
     \<lparr>sv_clock = (\<lambda>w. (fst w, w)), sv_unix_secs = (\<lambda>w. (0, w)), sv_sleep = (\<lambda>d w. (fst w + d, snd w)),
      sv_max_sequence = (\<lambda>w. (Inr (newest_of (snd w)), w)), sv_closed_at = (\<lambda>l w. (Inr 0, w)),
      sv_head = (\<lambda>b k w. (if k = ledger_s3_key [] 8 \<or> k = ledger_s3_key [] 9 then HeadFound else HeadNotFound, w)),
      sv_get = (\<lambda>b k w. (if k = ledger_s3_key [] 8 then Inr 8 else if k = ledger_s3_key [] 9 then Inr 9
                          else Inl ''NoSuchKey'', (fst w + 1, snd w))),
      sv_collect = (\<lambda>body w. (Inr (replicate (nat body) CHR ''x''), w)), sv_zstd = Inr,
      sv_from_xdr = (\<lambda>bytes limits. Inr [int (length bytes)]), sv_parse_ledger = (\<lambda>m. m),
      sv_metadata_writes = (\<lambda>p w. (Inr (), w)), sv_persist = (\<lambda>p mw w. (Inr (), (fst w, insert p (snd w)))),
      sv_metrics = (\<lambda>p w. w), sv_publish = (\<lambda>ps w. w), sv_send = (\<lambda>m d w. (Inr (), w)),
      sv_expect_of_json = (\<lambda>s. None)\<rparr>"

lemma example_time: "time_laws example_services fst"
  by (simp add: time_laws_def later_def example_services_def)

lemma example_laws: "lake_laws example_services example_state snd (\<lambda>p. p)"
proof -
  have "file_holds example_services example_state (\<lambda>p. p) l" for l
    unfolding file_holds_def example_services_def example_state_def
    by (auto dest: ledger_s3_key_inject split: if_splits)
  then show ?thesis by (simp add: lake_laws_def quiet_def example_services_def)
qed

lemma example_gap_free: "gap_free {7}"
  by (simp add: gap_free_def newest_of_def)

subsection \<open>Properties\<close>

text \<open>C30. The live indexer leaves no gap: whatever the services answer, as long as they keep what is
  documented of them, a batch of doorbells that starts on a gap-free table returns, ends on a
  gap-free table that has lost nothing, and reports back exactly the messages whose doorbell
  failed, in order.\<close>

theorem handler_leaves_no_gap:
  assumes "lake_laws v hs stored seq" and "time_laws v time" and "gap_free (stored w)"
  shows "\<exists>w'. handler v hs msgs w = Some (failing v hs msgs w, w') \<and> gap_free (stored w') \<and> stored w \<subseteq> stored w'"
  using handler_loop_spec [OF assms, of msgs "[]"] by (simp add: handler_def)

theorem handler_leaves_no_gap_witness:
  "\<exists>w'. handler example_services example_state [\<lparr>sq_message_id = ''m1'', sq_body = None\<rparr>] (0, {7}) =
      Some (failing example_services example_state [\<lparr>sq_message_id = ''m1'', sq_body = None\<rparr>] (0, {7}), w') \<and>
    gap_free (snd w') \<and> {7} \<subseteq> snd w'"
  using handler_leaves_no_gap [OF example_laws example_time, of "(0, {7})" "[\<lparr>sq_message_id = ''m1'', sq_body = None\<rparr>]"]
    example_gap_free by simp

text \<open>C31. A pass catches up: \<open>reconcile\<close> returns, and when it reports success its figures are true (the
  newest ledger stored, and how many were added) and it stopped for a good reason: its time was
  up, or the ledger after the newest was not in the lake, or the table is empty and there is no
  ledger to start from.\<close>

theorem reconcile_catches_up:
  assumes "lake_laws v hs stored seq" and "time_laws v time" and "gap_free (stored w)"
  shows "\<exists>r w'. reconcile v hs w = Some (r, w') \<and> gap_free (stored w') \<and> stored w \<subseteq> stored w' \<and>
           (case r of
              Inl e \<Rightarrow> True
            | Inr rc \<Rightarrow>
                rc_newest rc = newest_of (stored w') \<and> rc_persisted rc + card (stored w) = card (stored w') \<and>
                (stored w' = {} \<and> hs_bucket hs \<noteq> public_bucket \<or>
                 stopped v hs (reconcile_start v w) (stored w') w'))"
proof -
  obtain r w' where "reconcile v hs w = Some (r, w')" using reconcile_returns [OF assms(2)] by fastforce
  with reconcile_stored [OF this assms(1,3)] show ?thesis
    unfolding reconcile_done_def fst_conv snd_conv by (intro exI [of _ r] exI [of _ w']) simp
qed

theorem reconcile_catches_up_witness:
  "\<exists>r w'. reconcile example_services example_state (0, {7}) = Some (r, w') \<and> gap_free (snd w') \<and> {7} \<subseteq> snd w'"
  using reconcile_catches_up [OF example_laws example_time, of "(0, {7})"] example_gap_free by auto

text \<open>C32. A retried write stops at the first attempt that succeeds or fails for good, or after the last
  backoff: every attempt before it failed with a transient error, between two attempts exactly
  the listed delay is slept, at most one attempt more than there are delays is made, and the
  answer is the one of the last attempt.\<close>

theorem retry_with_backoff_spec:
  "\<exists>n \<le> length bo.
     list_all (\<lambda>i. transient_failure tr (fst (oper (attempt_world sleep bo oper w i)))) [0 ..< n] \<and>
     \<not> (n < length bo \<and> transient_failure tr (fst (oper (attempt_world sleep bo oper w n)))) \<and>
     retry_with_backoff sleep bo tr oper w =
       (case fst (oper (attempt_world sleep bo oper w n)) of Inl e \<Rightarrow> Inl e | Inr u \<Rightarrow> Inr n,
        snd (oper (attempt_world sleep bo oper w n)))"
proof -
  obtain n where "n \<le> length bo"
    "\<forall>i \<in> {0 ..< n}. transient_failure tr (fst (oper (attempt_world sleep bo oper w i)))"
    "n = length bo \<or> \<not> transient_failure tr (fst (oper (attempt_world sleep bo oper w n)))"
    "retry_from sleep bo tr oper 0 (attempt_world sleep bo oper w 0) =
       (case fst (oper (attempt_world sleep bo oper w n)) of Inl e \<Rightarrow> Inl e | Inr u \<Rightarrow> Inr n,
        snd (oper (attempt_world sleep bo oper w n)))"
    using retry_from_attempt [of 0 bo tr oper sleep w] by blast
  then show ?thesis
    by (intro exI [of _ n]) (auto simp: retry_with_backoff_def list_all_iff)
qed

text \<open>An answer of ClickHouse is retried unless its code is listed as permanent, and the code is read
  as a whole number: for every code and every continuation that does not go on with a digit,
  the error is transient exactly when the code is not in the list.\<close>

theorem bad_response_classified:
  assumes "case rest of [] \<Rightarrow> True | c # _ \<Rightarrow> \<not> is_ascii_digit c"
  shows "is_transient_ch_error (HeClickHouse (SchemaQuery (ChBadResponse (''Code: '' @ show_nat n @ rest)))) \<longleftrightarrow>
           n \<notin> set ch_permanent_codes"
proof -
  have "\<not> list_ex (\<lambda>p. prefix p (''Code: '' @ show_nat n @ rest)) http_4xx_prefixes"
    by (simp add: http_4xx_prefixes_def)
  moreover have "list_ex (ch_code_matches (''Code: '' @ show_nat n @ rest)) ch_permanent_codes \<longleftrightarrow>
      n \<in> set ch_permanent_codes"
    unfolding list_ex_iff ch_code_matches_iff [OF assms] by simp
  ultimately show ?thesis
    by (simp add: is_transient_ch_error_def is_retryable_bad_response_def is_permanent_bad_response_def)
qed

theorem bad_response_classified_witness:
  "is_transient_ch_error (HeClickHouse (SchemaQuery (ChBadResponse (''Code: '' @ show_nat 600 @ ''. DB::Exception''))))"
  using bad_response_classified [of "''. DB::Exception''" 600]
  by (simp add: ch_permanent_codes_def is_ascii_digit_def less_eq_char_def)

text \<open>C36. The indexer paces itself sensibly: a message it queues is delayed by one to fifteen seconds and
  asks for a ledger beyond the newest stored one, the very next after a pass that stored some;
  it queues none only when the pass stored nothing and the wake-up expects nothing that is
  still missing.\<close>

theorem pace_next_bounds:
  "case pace_next wk done closed now of
     None \<Rightarrow> closed = None \<and>
       (case wk of Keepalive \<Rightarrow> True | Chain e \<Rightarrow> rc_newest done \<le> 0 \<or> ex_expect e \<le> rc_newest done)
   | Some n \<Rightarrow> 1 \<le> nw_delay_secs n \<and> nw_delay_secs n \<le> 15 \<and> rc_newest done < ex_expect (nw_message n) \<and>
       (case closed of
          Some t \<Rightarrow> ex_expect (nw_message n) = rc_newest done + 1 \<and> ex_attempt (nw_message n) = 0
        | None \<Rightarrow> (case wk of Keepalive \<Rightarrow> False | Chain e \<Rightarrow> ex_expect (nw_message n) = ex_expect e))"
  by (auto simp: pace_next_def clamp_def backoff_def max_delay_secs_def Let_def not_less
      split: option.split wake.split)

end
