(* ===== verification/JsonText.thy ===== *)
theory JsonText
  imports ScVal "HOL-Library.List_Lexorder" "HOL-Library.Char_ord"
begin

text \<open>
  The text of a JSON value (\<open>Value::to_string\<close>): compact, strings escaped as \<open>serde_json\<close> does, the
  members of an object in the order of their names, because the crate's map is a \<open>BTreeMap\<close>.
  \<open>raw_scalar\<close> of \<open>scval.rs\<close> prints the value of a typed JSON this way.
\<close>

definition escape_char :: "char \<Rightarrow> string" where
  "escape_char c =
     (let n = (of_char c :: nat) in
      if n = 34 then [char_of (92 :: nat), c]
      else if n = 92 then [c, c]
      else if n = 8 then [char_of (92 :: nat), CHR ''b'']
      else if n = 9 then [char_of (92 :: nat), CHR ''t'']
      else if n = 10 then [char_of (92 :: nat), CHR ''n'']
      else if n = 12 then [char_of (92 :: nat), CHR ''f'']
      else if n = 13 then [char_of (92 :: nat), CHR ''r'']
      else if n < 32 then char_of (92 :: nat) # ''u'' @ hex_digits False 4 n
      else [c])"

definition quote_json :: "string \<Rightarrow> string" where
  "quote_json s = char_of (34 :: nat) # concat (map escape_char s) @ [char_of (34 :: nat)]"

fun join_comma :: "string list \<Rightarrow> string" where
  "join_comma [] = []"
| "join_comma [x] = x"
| "join_comma (x # y # ys) = x @ CHR '','' # join_comma (y # ys)"

lemma json_size_simps [termination_simp]:
  "m \<in> set ms \<Longrightarrow> size (snd m) < Suc (size_list (size_prod (\<lambda>c. 0) size) ms)"
  for ms :: "(string \<times> json) list"
  by (induction ms) auto

fun json_text :: "json \<Rightarrow> string" where
  "json_text JNull = ''null''"
| "json_text (JBool b) = (if b then ''true'' else ''false'')"
| "json_text (JNum n) = show_int n"
| "json_text (JStr s) = quote_json s"
| "json_text (JArr xs) = ''['' @ join_comma (map json_text xs) @ '']''"
| "json_text (JObj ms) =
     CHR ''{'' # join_comma (map (\<lambda>(k, t). quote_json k @ CHR '':'' # t)
       (sort_key fst (map (\<lambda>m. (fst m, json_text (snd m))) ms))) @ ''}''"

definition raw_scalar :: "json \<Rightarrow> string" where
  "raw_scalar v =
     (case jget v ''value'' of
        Some (JStr s) \<Rightarrow> s
      | Some other \<Rightarrow> json_text other
      | None \<Rightarrow> [])"

definition as_bool :: "json \<Rightarrow> bool option" where
  "as_bool v = (case v of JBool b \<Rightarrow> Some b | _ \<Rightarrow> None)"

definition as_object :: "json \<Rightarrow> json option" where
  "as_object v = (case v of JObj ms \<Rightarrow> Some v | _ \<Rightarrow> None)"

lemma as_bool_Some: "as_bool v = Some b \<longleftrightarrow> v = JBool b"
  by (cases v) (auto simp: as_bool_def)

end
