(* ===== verification/Wasm.thy ===== *)
theory Wasm
  imports Meta Domain
begin

text \<open>
  Contract code: \<open>crates/xdr-parser/src/contract.rs\<close> reads the interface of a WASM program out of its
  \<open>contractspecv0\<close> section and whether it imports the upgrade host function, and
  \<open>classification.rs\<close> tells tokens by the exported functions.  A program is a list of bytes; the
  reader of one specification entry is a parameter, because it is the XDR crate's.  Sizes are
  \<open>usize\<close> values far below its range, so their sums are natural numbers.
\<close>

unbundle bit_operations_syntax

subsection \<open>The reader\<close>

text \<open>\<open>read_leb128\<close>: the value and the number of bytes read.\<close>

fun read_leb128_from :: "nat list \<Rightarrow> nat \<Rightarrow> nat \<Rightarrow> 32 word \<Rightarrow> (nat \<times> nat) option" where
  "read_leb128_from [] i shift result = None"
| "read_leb128_from (b # bs) i shift result =
     (if 35 \<le> shift then None
      else let result' = result OR push_bit shift (of_nat b AND 0x7F)
           in if b AND 0x80 = 0 then Some (unat result', i + 1)
              else read_leb128_from bs (i + 1) (shift + 7) result')"

definition read_leb128 :: "nat list \<Rightarrow> (nat \<times> nat) option" where
  "read_leb128 bs = read_leb128_from bs 0 0 0"

text \<open>\<open>get(a..)\<close> and \<open>get(a..b)\<close>.\<close>

definition get_from :: "nat list \<Rightarrow> nat \<Rightarrow> nat list option" where
  "get_from bs a = (if a \<le> length bs then Some (drop a bs) else None)"

definition get_range :: "nat list \<Rightarrow> nat \<Rightarrow> nat \<Rightarrow> nat list option" where
  "get_range bs a b = (if a \<le> b \<and> b \<le> length bs then Some (take (b - a) (drop a bs)) else None)"

definition byte_at :: "nat list \<Rightarrow> nat \<Rightarrow> nat option" where
  "byte_at bs i = nth_opt bs i"

definition ascii_bytes :: "string \<Rightarrow> nat list" where
  "ascii_bytes s = map of_char s"

definition wasm_magic :: "nat list" where "wasm_magic = [0, 97, 115, 109]"

definition checked_sub_nat :: "nat \<Rightarrow> nat \<Rightarrow> nat option" where
  "checked_sub_nat a b = (if b \<le> a then Some (a - b) else None)"

text \<open>What one pass of the section loop does: stop with an answer, or go on behind the section.\<close>

datatype section_step = SecStop "nat list option" | SecNext nat

definition custom_section_step :: "nat list \<Rightarrow> string \<Rightarrow> nat \<Rightarrow> section_step" where
  "custom_section_step wasm section_name pos =
     (let section_id = wasm ! pos; pos = pos + 1 in
      case Option.bind (get_from wasm pos) read_leb128 of
        None \<Rightarrow> SecStop None
      | Some (section_size, bytes_read) \<Rightarrow>
          let pos = pos + bytes_read in
          if section_id = 0 then
            (let section_start = pos in
             case Option.bind (get_from wasm pos) read_leb128 of
               None \<Rightarrow> SecStop None
             | Some (name_len, name_bytes_read) \<Rightarrow>
                 let pos = pos + name_bytes_read; name_end = pos + name_len in
                 if length wasm < name_end then SecStop None
                 else if \<not> valid_utf8_bytes (take name_len (drop pos wasm)) then SecStop None
                 else
                   let name = take name_len (drop pos wasm); pos = name_end;
                       header_bytes = pos - section_start in
                   case checked_sub_nat section_size header_bytes of
                     None \<Rightarrow> SecStop None
                   | Some content_len \<Rightarrow>
                       if name = ascii_bytes section_name then
                         (if length wasm < pos + content_len then SecStop None
                          else SecStop (Some (take content_len (drop pos wasm))))
                       else SecNext (pos + content_len))
          else SecNext (pos + section_size))"

lemma custom_section_step_progress: "custom_section_step wasm name pos = SecNext pos' \<Longrightarrow> pos < pos'"
  by (auto simp: custom_section_step_def Let_def split: option.splits if_splits)

function custom_section_loop :: "nat list \<Rightarrow> string \<Rightarrow> nat \<Rightarrow> nat list option" where
  "custom_section_loop wasm section_name pos =
     (if pos < length wasm then
        (case custom_section_step wasm section_name pos of
           SecStop r \<Rightarrow> r
         | SecNext pos' \<Rightarrow> custom_section_loop wasm section_name pos')
      else None)"
  by pat_completeness auto

termination
  by (relation "measure (\<lambda>(wasm, _, pos). length wasm - pos)") (auto dest: custom_section_step_progress)

declare custom_section_loop.simps [simp del]

definition extract_custom_section :: "nat list \<Rightarrow> string \<Rightarrow> nat list option" where
  "extract_custom_section wasm section_name =
     (if length wasm < 8 then None
      else if take 4 wasm \<noteq> wasm_magic then None
      else custom_section_loop wasm section_name 8)"

subsection \<open>The interface\<close>

datatype spec_type =
    StVal | StBool | StVoid | StError | StU32 | StI32 | StU64 | StI64 | StU128 | StI128 | StU256 | StI256
  | StTimepoint | StDuration | StBytes | StString | StSymbol | StAddress
  | StOption spec_type | StResult spec_type spec_type | StVec spec_type | StMap spec_type spec_type
  | StTuple "spec_type list" | StBytesN "32 word" | StUdt bytes | StMuxedAddress

fun intercalate :: "string \<Rightarrow> string list \<Rightarrow> string" where
  "intercalate sep [] = []"
| "intercalate sep [x] = x"
| "intercalate sep (x # y # ys) = x @ sep @ intercalate sep (y # ys)"

fun spec_type_to_string :: "spec_type \<Rightarrow> string" where
  "spec_type_to_string StVal = ''val''" | "spec_type_to_string StBool = ''bool''"
| "spec_type_to_string StVoid = ''void''" | "spec_type_to_string StError = ''error''"
| "spec_type_to_string StU32 = ''u32''" | "spec_type_to_string StI32 = ''i32''"
| "spec_type_to_string StU64 = ''u64''" | "spec_type_to_string StI64 = ''i64''"
| "spec_type_to_string StU128 = ''u128''" | "spec_type_to_string StI128 = ''i128''"
| "spec_type_to_string StU256 = ''u256''" | "spec_type_to_string StI256 = ''i256''"
| "spec_type_to_string StTimepoint = ''timepoint''" | "spec_type_to_string StDuration = ''duration''"
| "spec_type_to_string StBytes = ''bytes''" | "spec_type_to_string StString = ''string''"
| "spec_type_to_string StSymbol = ''symbol''" | "spec_type_to_string StAddress = ''address''"
| "spec_type_to_string (StOption t) = ''option<'' @ spec_type_to_string t @ ''>''"
| "spec_type_to_string (StResult t e) =
     ''result<'' @ spec_type_to_string t @ '', '' @ spec_type_to_string e @ ''>''"
| "spec_type_to_string (StVec t) = ''vec<'' @ spec_type_to_string t @ ''>''"
| "spec_type_to_string (StMap k v) = ''map<'' @ spec_type_to_string k @ '', '' @ spec_type_to_string v @ ''>''"
| "spec_type_to_string (StTuple ts) = ''tuple<'' @ intercalate '', '' (map spec_type_to_string ts) @ ''>''"
| "spec_type_to_string (StBytesN n) = ''bytes'' @ show_int (uint n)"
| "spec_type_to_string (StUdt name) = unwrap_or (from_utf8 name) ''<invalid-utf8>''"
| "spec_type_to_string StMuxedAddress = ''muxed_address''"

record spec_function =
  sf_name :: bytes
  sf_doc :: bytes
  sf_inputs :: "(bytes \<times> spec_type) list"
  sf_outputs :: "spec_type list"

datatype spec_entry = SpecFunction spec_function | SpecOther

record function_param =
  fp_name :: string
  fp_type_name :: string

record contract_function =
  cf_name :: string
  cf_doc :: string
  cf_inputs :: "function_param list"
  cf_outputs :: "string list"

record wasm_program =
  wp_wasm_hash :: string
  wp_functions :: "contract_function list option"
  wp_wasm_byte_len :: nat
  wp_upgradeable :: bool
  wp_code :: bytes

definition spec_function_to_contract_function :: "spec_function \<Rightarrow> contract_function" where
  "spec_function_to_contract_function f =
     \<lparr>cf_name = unwrap_or (from_utf8 (sf_name f)) ''<invalid-utf8>'',
      cf_doc = unwrap_or (from_utf8 (sf_doc f)) [],
      cf_inputs = map (\<lambda>(n, t). \<lparr>fp_name = unwrap_or (from_utf8 n) ''<invalid-utf8>'',
                                  fp_type_name = spec_type_to_string t\<rparr>) (sf_inputs f),
      cf_outputs = map spec_type_to_string (sf_outputs f)\<rparr>"

text \<open>The reader of an entry gives the entry and the number of bytes it took.  A reader that took
  none would not let the loop advance: the fuel, one more than the bytes, lets it then run out.\<close>

fun parse_spec_from ::
  "(nat list \<Rightarrow> (spec_entry \<times> nat) option) \<Rightarrow> nat \<Rightarrow> nat list \<Rightarrow> contract_function list \<Rightarrow>
   contract_function list option" where
  "parse_spec_from read 0 rest functions = None"
| "parse_spec_from read (Suc fuel) rest functions =
     (if rest = [] then Some functions
      else (case read rest of
              None \<Rightarrow> Some functions
            | Some (entry, n) \<Rightarrow>
                parse_spec_from read fuel (drop n rest)
                  (case entry of
                     SpecFunction f \<Rightarrow> functions @ [spec_function_to_contract_function f]
                   | SpecOther \<Rightarrow> functions)))"

definition parse_spec_entries ::
  "(nat list \<Rightarrow> (spec_entry \<times> nat) option) \<Rightarrow> nat list \<Rightarrow> contract_function list option" where
  "parse_spec_entries read spec_bytes = parse_spec_from read (length spec_bytes + 1) spec_bytes []"

lemma parse_spec_from_returns:
  assumes "\<And>bs e n. bs \<noteq> [] \<Longrightarrow> read bs = Some (e, n) \<Longrightarrow> 0 < n" and "length rest < fuel"
  shows "\<exists>fs. parse_spec_from read fuel rest acc = Some fs"
  using assms(2)
proof (induction fuel arbitrary: rest acc)
  case (Suc fuel)
  show ?case
  proof (cases "rest = [] \<or> read rest = None")
    case False
    then obtain e n where r: "read rest = Some (e, n)" "rest \<noteq> []" by auto
    with assms(1) have "0 < n" by blast
    with r(2) Suc.prems have "length (drop n rest) < fuel" by (cases rest) auto
    from Suc.IH [OF this] r show ?thesis by simp
  qed auto
qed simp

subsection \<open>Self-upgrade\<close>

definition skip_limits :: "nat list \<Rightarrow> nat \<Rightarrow> nat option" where
  "skip_limits body pos =
     (case byte_at body pos of
        None \<Rightarrow> None
      | Some flag \<Rightarrow>
          let pos = pos + 1 in
          (case Option.bind (get_from body pos) read_leb128 of
             None \<Rightarrow> None
           | Some (_, br) \<Rightarrow>
               let pos = pos + br in
               if flag = 1 then
                 (case Option.bind (get_from body pos) read_leb128 of
                    None \<Rightarrow> None | Some (_, br) \<Rightarrow> Some (pos + br))
               else Some pos))"

text \<open>\<open>body.get(pos..).unwrap_or_default()\<close>.\<close>

definition rest_or_empty :: "nat list \<Rightarrow> nat \<Rightarrow> nat list" where
  "rest_or_empty body pos = unwrap_or (get_from body pos) []"

fun import_loop :: "nat \<Rightarrow> nat list \<Rightarrow> nat \<Rightarrow> bool" where
  "import_loop 0 body pos = False"
| "import_loop (Suc count) body pos =
     (case read_leb128 (rest_or_empty body pos) of
        None \<Rightarrow> False
      | Some (mlen, br) \<Rightarrow>
          let pos = pos + br in
          (case get_range body pos (pos + mlen) of
             None \<Rightarrow> False
           | Some module \<Rightarrow>
               let pos = pos + mlen in
               (case read_leb128 (rest_or_empty body pos) of
                  None \<Rightarrow> False
                | Some (flen, br) \<Rightarrow>
                    let pos = pos + br in
                    (case get_range body pos (pos + flen) of
                       None \<Rightarrow> False
                     | Some field \<Rightarrow>
                         let pos = pos + flen in
                         (case byte_at body pos of
                            None \<Rightarrow> False
                          | Some kind \<Rightarrow>
                              if kind = 0 then
                                (if module = ascii_bytes ''l'' \<and> field = ascii_bytes ''6'' then True
                                 else (case read_leb128 (rest_or_empty body (pos + 1)) of
                                         None \<Rightarrow> False
                                       | Some (_, br) \<Rightarrow> import_loop count body (pos + 1 + br)))
                              else if kind = 1 then
                                (case skip_limits body (pos + 2) of
                                   None \<Rightarrow> False | Some np \<Rightarrow> import_loop count body np)
                              else if kind = 2 then
                                (case skip_limits body (pos + 1) of
                                   None \<Rightarrow> False | Some np \<Rightarrow> import_loop count body np)
                              else if kind = 3 then import_loop count body (pos + 3)
                              else False)))))"

definition import_section_has_upgrade :: "nat list \<Rightarrow> bool" where
  "import_section_has_upgrade body =
     (case read_leb128 body of None \<Rightarrow> False | Some (count, pos) \<Rightarrow> import_loop count body pos)"

function imports_upgrade_loop :: "nat list \<Rightarrow> nat \<Rightarrow> bool option" where
  "imports_upgrade_loop wasm pos =
     (if pos < length wasm then
        (case byte_at wasm pos of
           None \<Rightarrow> None
         | Some section_id \<Rightarrow>
             (case Option.bind (get_from wasm (pos + 1)) read_leb128 of
                None \<Rightarrow> None
              | Some (section_size, br) \<Rightarrow>
                  let start = pos + 1 + br; section_end = start + section_size in
                  if section_id = 2 then
                    map_option import_section_has_upgrade
                      (get_range wasm start (min section_end (length wasm)))
                  else imports_upgrade_loop wasm section_end))
      else Some False)"
  by pat_completeness auto

termination
  by (relation "measure (\<lambda>(wasm, pos). length wasm - pos)") auto

declare imports_upgrade_loop.simps [simp del]

definition imports_upgrade_inner :: "nat list \<Rightarrow> bool option" where
  "imports_upgrade_inner wasm =
     (if length wasm < 8 \<or> take 4 wasm \<noteq> wasm_magic then Some False else imports_upgrade_loop wasm 8)"

definition wasm_imports_upgrade_fn :: "nat list \<Rightarrow> bool" where
  "wasm_imports_upgrade_fn wasm = unwrap_or (imports_upgrade_inner wasm) False"

subsection \<open>Programs of a transaction\<close>

definition parse_wasm_program ::
  "xdr_ext \<Rightarrow> (nat list \<Rightarrow> (spec_entry \<times> nat) option) \<Rightarrow> bytes \<Rightarrow> bytes \<Rightarrow> wasm_program option" where
  "parse_wasm_program x read hash code =
     (let wasm = ascii_bytes code in
      case extract_custom_section wasm ''contractspecv0'' of
        None \<Rightarrow> Some \<lparr>wp_wasm_hash = x_hex x hash, wp_functions = None, wp_wasm_byte_len = length code,
                      wp_upgradeable = wasm_imports_upgrade_fn wasm, wp_code = code\<rparr>
      | Some spec_bytes \<Rightarrow>
          map_option (\<lambda>fs. \<lparr>wp_wasm_hash = x_hex x hash, wp_functions = Some fs,
                            wp_wasm_byte_len = length code,
                            wp_upgradeable = wasm_imports_upgrade_fn wasm, wp_code = code\<rparr>)
            (parse_spec_entries read spec_bytes))"

text \<open>The value an entry has after a change; nothing for a pre-image or a removal.\<close>

fun written_entry :: "ledger_entry_change \<Rightarrow> ledger_entry option" where
  "written_entry (ChCreated e) = Some e"
| "written_entry (ChUpdated e) = Some e"
| "written_entry (ChRestored e) = Some e"
| "written_entry (ChState _) = None"
| "written_entry (ChRemoved _) = None"

definition extract_wasm_programs ::
  "xdr_ext \<Rightarrow> (nat list \<Rightarrow> (spec_entry \<times> nat) option) \<Rightarrow> tx_meta \<Rightarrow> wasm_program list option" where
  "extract_wasm_programs x read m =
     mapM_opt (\<lambda>(hash, code). parse_wasm_program x read hash code)
       (filter_map (\<lambda>c. case written_entry c of
                          Some (EntryContractCode hash code) \<Rightarrow> Some (hash, code)
                        | _ \<Rightarrow> None) (ledger_changes m))"

subsection \<open>Classification\<close>

datatype contract_classification = ClassNft | ClassFungible | ClassOther

definition classify_contract_from_wasm_spec :: "contract_function list \<Rightarrow> contract_classification" where
  "classify_contract_from_wasm_spec functions =
     (if list_ex (\<lambda>f. cf_name f \<in> {''owner_of'', ''token_uri'', ''approve_for_all'', ''get_approved'',
                                    ''is_approved_for_all''}) functions then ClassNft
      else if list_ex (\<lambda>f. cf_name f \<in> {''decimals'', ''allowance'', ''total_supply''}) functions
      then ClassFungible
      else ClassOther)"

fun contract_type_of_class :: "contract_classification \<Rightarrow> contract_type" where
  "contract_type_of_class ClassNft = CtNft"
| "contract_type_of_class ClassFungible = CtFungible"
| "contract_type_of_class ClassOther = CtOther"

end
