(* ===== verification/Contracts.thy ===== *)
theory Contracts
  imports EntryChanges JsonText Wasm Sac Fold
begin

text \<open>
  What the changes of a transaction say about contracts: \<open>executable_ref.rs\<close>, \<open>executable_update.rs\<close>,
  \<open>contract_instance.rs\<close>, \<open>claimable_balance.rs\<close>, and of \<open>state.rs\<close> the deployments, the token
  balances kept in contract data and the detection of assets.  Base64, hexadecimal decoding and
  the XDR encoder are third-party code.
\<close>

record codec_ext =
  cx_b64_decode :: "string \<Rightarrow> bytes option"
  cx_hex_decode :: "string \<Rightarrow> bytes option"
  cx_entry_to_xdr :: "ledger_entry \<Rightarrow> bytes option"

text \<open>\<open>and_then\<close> chains: a path of members.\<close>

fun jpath :: "json \<Rightarrow> string list \<Rightarrow> json option" where
  "jpath v [] = Some v"
| "jpath v (k # ks) = Option.bind (jget v k) (\<lambda>w. jpath w ks)"

definition jpath_str :: "json \<Rightarrow> string list \<Rightarrow> string option" where
  "jpath_str v ks = Option.bind (jpath v ks) as_str"

definition is_write :: "entry_change \<Rightarrow> bool" where
  "is_write c \<longleftrightarrow> xc_change_type c \<in> {''created'', ''updated'', ''restored''}"

subsection \<open>External executables\<close>

record executable_ref =
  er_owner :: string
  er_tag :: string

record executable_ref_target =
  et_owner :: string
  et_tag :: string
  et_wasm_hash :: string
  et_ledger_sequence :: int

definition external_ref_from_instance :: "json \<Rightarrow> executable_ref option" where
  "external_ref_from_instance data =
     do { executable \<leftarrow> jpath data [''val'', ''value'', ''executable''];
          t \<leftarrow> jpath_str executable [''type''];
          if t \<noteq> ''external_ref'' then None
          else do { owner \<leftarrow> jpath_str executable [''owner''];
                    tag \<leftarrow> jpath_str executable [''tag''];
                    Some \<lparr>er_owner = owner, er_tag = tag\<rparr> } }"

definition executable_tag_key :: "json \<Rightarrow> string option" where
  "executable_tag_key data =
     do { key \<leftarrow> jget data ''key'';
          t \<leftarrow> jpath_str key [''type''];
          if t \<noteq> ''executable_tag'' then None else jpath_str key [''value''] }"

definition wasm_hash_value :: "xdr_ext \<Rightarrow> codec_ext \<Rightarrow> json \<Rightarrow> string option" where
  "wasm_hash_value x cx data =
     do { val \<leftarrow> jget data ''val'';
          t \<leftarrow> jpath_str val [''type''];
          if t \<noteq> ''bytes'' then None
          else do { s \<leftarrow> jpath_str val [''value''];
                    bytes \<leftarrow> cx_b64_decode cx s;
                    if length bytes = 32 then Some (x_hex x bytes) else None } }"

definition executable_ref_target_of :: "xdr_ext \<Rightarrow> codec_ext \<Rightarrow> entry_change \<Rightarrow> executable_ref_target option" where
  "executable_ref_target_of x cx change =
     (if xc_entry_type change \<noteq> ''contract_data'' then None
      else if \<not> is_write change then None
      else do { data \<leftarrow> xc_data change;
                tag \<leftarrow> executable_tag_key data;
                owner \<leftarrow> jpath_str data [''contract''];
                wasm_hash \<leftarrow> wasm_hash_value x cx data;
                Some \<lparr>et_owner = owner, et_tag = tag, et_wasm_hash = wasm_hash,
                      et_ledger_sequence = xc_ledger_sequence change\<rparr> })"

definition extract_executable_ref_targets ::
  "xdr_ext \<Rightarrow> codec_ext \<Rightarrow> entry_change list \<Rightarrow> executable_ref_target list" where
  "extract_executable_ref_targets x cx changes =
     keep_last_by_key (\<lambda>t. (et_owner t, et_tag t, et_ledger_sequence t))
       (filter_map (executable_ref_target_of x cx) changes)"

datatype executable_update =
    UpdateWasm bytes
  | UpdateExternalRef string string

definition update_field :: "json list \<Rightarrow> string \<Rightarrow> string option" where
  "update_field flds name =
     find_map (\<lambda>e. do { k \<leftarrow> jpath_str e [''key'', ''value''];
                        if k = name then jpath_str e [''value'', ''value''] else None }) flds"

definition extract_executable_update :: "codec_ext \<Rightarrow> json \<Rightarrow> executable_update option" where
  "extract_executable_update cx topics =
     do { arr \<leftarrow> as_array topics;
          t0 \<leftarrow> first_opt arr;
          name \<leftarrow> jpath_str t0 [''value''];
          if name \<noteq> ''executable_update'' then None
          else do {
            t2 \<leftarrow> nth_opt arr 2;
            v2 \<leftarrow> jget t2 ''value'';
            new_exec \<leftarrow> as_array v2;
            e0 \<leftarrow> first_opt new_exec;
            kind \<leftarrow> jpath_str e0 [''value''];
            if kind = ''Wasm'' then
              do { e1 \<leftarrow> nth_opt new_exec 1; b64 \<leftarrow> jpath_str e1 [''value''];
                   bytes \<leftarrow> cx_b64_decode cx b64;
                   if length bytes = 32 then Some (UpdateWasm bytes) else None }
            else if kind = ''ExternalRef'' then
              do { e1 \<leftarrow> nth_opt new_exec 1; f \<leftarrow> jget e1 ''value''; flds \<leftarrow> as_array f;
                   owner \<leftarrow> update_field flds ''owner'';
                   tag \<leftarrow> update_field flds ''tag'';
                   Some (UpdateExternalRef owner tag) }
            else None } }"

subsection \<open>Instances\<close>

record contract_instance =
  ci_contract :: bytes
  ci_data_xdr :: bytes
  ci_ledger_sequence :: int

definition contract_instance_of :: "codec_ext \<Rightarrow> int \<Rightarrow> ledger_entry_change \<Rightarrow> contract_instance option" where
  "contract_instance_of cx ledger_sequence change =
     (case written_entry change of
        Some (EntryContractData (AddrContract contract) ScLedgerKeyContractInstance val d) \<Rightarrow>
          map_option (\<lambda>data_xdr. \<lparr>ci_contract = contract, ci_data_xdr = data_xdr,
                                  ci_ledger_sequence = ledger_sequence\<rparr>)
            (cx_entry_to_xdr cx (EntryContractData (AddrContract contract) ScLedgerKeyContractInstance val d))
      | _ \<Rightarrow> None)"

definition extract_contract_instances :: "codec_ext \<Rightarrow> tx_meta \<Rightarrow> int \<Rightarrow> contract_instance list" where
  "extract_contract_instances cx m ledger_sequence =
     filter_map (contract_instance_of cx ledger_sequence) (ledger_changes m)"

subsection \<open>Deployments\<close>

record contract_deployment =
  cd_contract_id :: string
  cd_wasm_hash :: "string option"
  cd_executable_ref :: "executable_ref option"
  cd_deployer_account :: "string option"
  cd_deployed_at_ledger :: int
  cd_contract_type :: contract_type
  cd_is_sac :: bool
  cd_sac_asset :: "sac_identity option"

definition is_contract_instance_key :: "json \<Rightarrow> bool" where
  "is_contract_instance_key key \<longleftrightarrow> jpath_str key [''key'', ''type''] = Some ''ledger_key_contract_instance''"

definition is_sac_from_data :: "json \<Rightarrow> bool" where
  "is_sac_from_data data \<longleftrightarrow> jpath_str data [''val'', ''value'', ''executable'', ''type''] = Some ''stellar_asset''"

definition extract_wasm_hash :: "json \<Rightarrow> string option" where
  "extract_wasm_hash data = jpath_str data [''val'', ''value'', ''executable'', ''hash'']"

definition contract_deployment_of ::
  "xdr_ext \<Rightarrow> strkey_ext \<Rightarrow> string \<Rightarrow> bytes \<Rightarrow> (string \<rightharpoonup> string) \<Rightarrow> entry_change \<Rightarrow> contract_deployment option" where
  "contract_deployment_of x k tx_source_account network_id deployer_by_contract change =
     (if xc_entry_type change \<noteq> ''contract_data'' \<or> xc_change_type change \<noteq> ''created'' then None
      else case xc_data change of
        None \<Rightarrow> None
      | Some data \<Rightarrow>
          if \<not> is_contract_instance_key (xc_key change) then None
          else
            let contract_id = unwrap_or (jpath_str (xc_key change) [''contract'']) [] in
            if contract_id = [] then None
            else
              let is_sac = is_sac_from_data data in
              Some \<lparr>cd_contract_id = contract_id,
                    cd_wasm_hash = extract_wasm_hash data,
                    cd_executable_ref = external_ref_from_instance data,
                    cd_deployer_account = opt_or (deployer_by_contract contract_id) (Some tx_source_account),
                    cd_deployed_at_ledger = xc_ledger_sequence change,
                    cd_contract_type = (if is_sac then CtToken else CtOther),
                    cd_is_sac = is_sac,
                    cd_sac_asset =
                      (if is_sac
                       then Option.bind (jget data ''val'')
                              (\<lambda>val. sac_identity_from_instance x k contract_id val network_id)
                       else None)\<rparr>)"

definition extract_contract_deployments ::
  "xdr_ext \<Rightarrow> strkey_ext \<Rightarrow> entry_change list \<Rightarrow> string \<Rightarrow> bytes \<Rightarrow> (string \<rightharpoonup> string) \<Rightarrow> contract_deployment list" where
  "extract_contract_deployments x k changes tx_source_account network_id deployer_by_contract =
     filter_map (contract_deployment_of x k tx_source_account network_id deployer_by_contract) changes"

subsection \<open>Token balances in contract data\<close>

record soroban_balance =
  sb_contract_id :: string
  sb_holder :: string
  sb_balance :: int
  sb_ledger :: int
  sb_closed :: bool

record sac_balance_value =
  sv_amount :: int
  sv_authorized :: bool
  sv_clawback :: bool

definition extract_contract_id_from_key :: "json \<Rightarrow> string option" where
  "extract_contract_id_from_key key = opt_filter (\<lambda>s. s \<noteq> []) (jpath_str key [''contract''])"

definition state_balance_key_holder :: "json \<Rightarrow> string option" where
  "state_balance_key_holder key =
     do { d \<leftarrow> jpath_str key [''durability''];
          if d \<noteq> ''persistent'' then None
          else do {
            inner \<leftarrow> jget key ''key'';
            t \<leftarrow> jpath_str inner [''type''];
            if t \<noteq> ''vec'' then None
            else do {
              v \<leftarrow> jget inner ''value'';
              elems \<leftarrow> as_array v;
              case elems of
                [tag, holder] \<Rightarrow>
                  do { tt \<leftarrow> jpath_str tag [''type''];
                       if tt \<noteq> ''sym'' then None
                       else do {
                         tv \<leftarrow> jpath_str tag [''value''];
                         if tv \<noteq> ''Balance'' then None
                         else do {
                           ht \<leftarrow> jpath_str holder [''type''];
                           if ht \<noteq> ''address'' then None else jpath_str holder [''value''] } } }
              | _ \<Rightarrow> None } } }"

definition decode_scval_i128 :: "json \<Rightarrow> int option" where
  "decode_scval_i128 data =
     do { val \<leftarrow> jget data ''val'';
          t \<leftarrow> jpath_str val [''type''];
          if t \<noteq> ''i128'' then None
          else do { s \<leftarrow> jpath_str val [''value'']; parse_i128 s } }"

fun sac_value_fields ::
  "json list \<Rightarrow> int option \<times> bool option \<times> bool option \<Rightarrow> (int option \<times> bool option \<times> bool option) option" where
  "sac_value_fields [] acc = Some acc"
| "sac_value_fields (entry # entries) (amount, authorized, clawback) =
     do { key \<leftarrow> jget entry ''key'';
          kt \<leftarrow> jpath_str key [''type''];
          if kt \<noteq> ''sym'' then None
          else do {
            field \<leftarrow> jget entry ''value'';
            name \<leftarrow> jpath_str key [''value''];
            if name = ''amount'' then
              do { ft \<leftarrow> jpath_str field [''type''];
                   if ft \<noteq> ''i128'' then None
                   else do { s \<leftarrow> jpath_str field [''value'']; n \<leftarrow> parse_i128 s;
                             sac_value_fields entries (Some n, authorized, clawback) } }
            else if name = ''authorized'' then
              do { v \<leftarrow> jget field ''value''; sac_value_fields entries (amount, as_bool v, clawback) }
            else if name = ''clawback'' then
              do { v \<leftarrow> jget field ''value''; sac_value_fields entries (amount, authorized, as_bool v) }
            else None } }"

definition decode_sac_balance_value :: "json \<Rightarrow> sac_balance_value option" where
  "decode_sac_balance_value data =
     do { val \<leftarrow> jget data ''val'';
          t \<leftarrow> jpath_str val [''type''];
          if t \<noteq> ''map'' then None
          else do {
            v \<leftarrow> jget val ''value'';
            entries \<leftarrow> as_array v;
            (amount, authorized, clawback) \<leftarrow> sac_value_fields entries (None, None, None);
            a \<leftarrow> amount; b \<leftarrow> authorized; c \<leftarrow> clawback;
            Some \<lparr>sv_amount = a, sv_authorized = b, sv_clawback = c\<rparr> } }"

definition soroban_balance_of :: "entry_change \<Rightarrow> soroban_balance option" where
  "soroban_balance_of change =
     (if xc_entry_type change \<noteq> ''contract_data'' then None
      else do {
        holder \<leftarrow> state_balance_key_holder (xc_key change);
        contract_id \<leftarrow> extract_contract_id_from_key (xc_key change);
        balance \<leftarrow>
          (if xc_change_type change = ''removed'' then Some 0
           else if is_write change then
             do { data \<leftarrow> xc_data change;
                  opt_or (decode_scval_i128 data) (map_option sv_amount (decode_sac_balance_value data)) }
           else None);
        Some \<lparr>sb_contract_id = contract_id, sb_holder = holder, sb_balance = balance,
              sb_ledger = xc_ledger_sequence change, sb_closed = (xc_change_type change = ''removed'')\<rparr> })"

definition extract_soroban_token_balances :: "entry_change list \<Rightarrow> soroban_balance list" where
  "extract_soroban_token_balances changes = filter_map soroban_balance_of changes"

subsection \<open>Assets of deployments\<close>

record extracted_asset =
  xa_asset_type :: asset_family
  xa_asset_code :: "string option"
  xa_issuer_address :: "string option"
  xa_contract_id :: "string option"
  xa_sac_contract_id :: "string option"
  xa_sac_deployed :: bool

text \<open>The verdict of a program, computed at its first occurrence with an interface.\<close>

fun verdict_by_hash :: "wasm_program list \<Rightarrow> string \<rightharpoonup> contract_classification" where
  "verdict_by_hash [] = Map.empty"
| "verdict_by_hash (p # ps) =
     (case wp_functions p of
        Some fs \<Rightarrow> (verdict_by_hash ps)(wp_wasm_hash p \<mapsto> classify_contract_from_wasm_spec fs)
      | None \<Rightarrow> verdict_by_hash ps)"

definition detect_asset :: "(string \<rightharpoonup> contract_classification) \<Rightarrow> contract_deployment \<Rightarrow> extracted_asset option" where
  "detect_asset verdicts d =
     (if cd_is_sac d then
        (case cd_sac_asset d of
           Some SacNative \<Rightarrow>
             Some \<lparr>xa_asset_type = FamNative, xa_asset_code = None, xa_issuer_address = None,
                   xa_contract_id = None, xa_sac_contract_id = Some (cd_contract_id d), xa_sac_deployed = True\<rparr>
         | Some (SacCredit code issuer) \<Rightarrow>
             Some \<lparr>xa_asset_type = FamClassicCredit, xa_asset_code = Some code, xa_issuer_address = Some issuer,
                   xa_contract_id = None, xa_sac_contract_id = Some (cd_contract_id d), xa_sac_deployed = True\<rparr>
         | None \<Rightarrow> None)
      else case cd_wasm_hash d of
        None \<Rightarrow> None
      | Some wasm_hash \<Rightarrow>
          if verdicts wasm_hash = Some ClassFungible then
            Some \<lparr>xa_asset_type = FamSoroban, xa_asset_code = None, xa_issuer_address = None,
                  xa_contract_id = Some (cd_contract_id d), xa_sac_contract_id = None, xa_sac_deployed = False\<rparr>
          else None)"

definition detect_assets :: "contract_deployment list \<Rightarrow> wasm_program list \<Rightarrow> extracted_asset list" where
  "detect_assets deployments interfaces = filter_map (detect_asset (verdict_by_hash interfaces)) deployments"

fun detect_credit_loop ::
  "(string \<times> string) set \<Rightarrow> entry_change list \<Rightarrow> extracted_asset list" where
  "detect_credit_loop seen [] = []"
| "detect_credit_loop seen (change # changes) =
     (if xc_entry_type change \<noteq> ''trustline'' then detect_credit_loop seen changes
      else case Option.bind (opt_or (Option.bind (xc_data change) (\<lambda>d. jget d ''asset'')) (jget (xc_key change) ''asset''))
                  as_object of
        None \<Rightarrow> detect_credit_loop seen changes
      | Some asset \<Rightarrow>
          if unwrap_or (get_str asset ''type'') [] = ''pool_share'' then detect_credit_loop seen changes
          else
            let code = unwrap_or (get_str asset ''code'') []; issuer = unwrap_or (get_str asset ''issuer'') [] in
            if code = [] \<or> issuer = [] then detect_credit_loop seen changes
            else if (code, issuer) \<in> seen then detect_credit_loop seen changes
            else \<lparr>xa_asset_type = FamClassicCredit, xa_asset_code = Some code, xa_issuer_address = Some issuer,
                  xa_contract_id = None, xa_sac_contract_id = None, xa_sac_deployed = False\<rparr> #
                 detect_credit_loop (insert (code, issuer) seen) changes)"

definition detect_classic_credit_assets :: "entry_change list \<Rightarrow> extracted_asset list" where
  "detect_classic_credit_assets changes = detect_credit_loop {} changes"

definition native_asset_singleton :: extracted_asset where
  "native_asset_singleton =
     \<lparr>xa_asset_type = FamNative, xa_asset_code = None, xa_issuer_address = None, xa_contract_id = None,
      xa_sac_contract_id = None, xa_sac_deployed = False\<rparr>"

subsection \<open>Claimable balances\<close>

datatype claimable_balance_asset = CbNative | CbCredit string string

record claimable_balance =
  cb_balance_id :: string
  cb_asset :: claimable_balance_asset
  cb_amount :: int
  cb_ledger_sequence :: int
  cb_closed :: bool

definition claimable_asset_of :: "json \<Rightarrow> claimable_balance_asset option" where
  "claimable_asset_of data =
     do { asset \<leftarrow> jget data ''asset'';
          if as_str asset = Some ''native'' then Some CbNative
          else do { code \<leftarrow> jpath_str asset [''code'']; issuer \<leftarrow> jpath_str asset [''issuer''];
                    Some (CbCredit code issuer) } }"

definition balance_strkey :: "xdr_ext \<Rightarrow> codec_ext \<Rightarrow> string \<Rightarrow> string option" where
  "balance_strkey x cx hex_id =
     do { bytes \<leftarrow> cx_hex_decode cx hex_id;
          if length bytes = 32 then Some (x_address x (AddrClaimableBalance bytes)) else None }"

text \<open>One change: the assets known by id after it, and the row it gives.\<close>

definition claimable_step ::
  "xdr_ext \<Rightarrow> codec_ext \<Rightarrow> (string \<rightharpoonup> claimable_balance_asset) \<Rightarrow> entry_change \<Rightarrow>
   (string \<rightharpoonup> claimable_balance_asset) \<times> claimable_balance option" where
  "claimable_step x cx asset_by_id change =
     (if xc_entry_type change \<noteq> ''claimable_balance'' then (asset_by_id, None)
      else case jpath_str (xc_key change) [''balance_id''] of
        None \<Rightarrow> (asset_by_id, None)
      | Some i \<Rightarrow>
          let row = (\<lambda>asset amount closed.
                map_option (\<lambda>balance_id. \<lparr>cb_balance_id = balance_id, cb_asset = asset, cb_amount = amount,
                    cb_ledger_sequence = xc_ledger_sequence change, cb_closed = closed\<rparr>)
                  (balance_strkey x cx i))
          in
          if xc_change_type change = ''state'' then
            (case Option.bind (xc_data change) claimable_asset_of of
               Some asset \<Rightarrow> (asset_by_id(i \<mapsto> asset), None)
             | None \<Rightarrow> (asset_by_id, None))
          else if is_write change then
            (case (Option.bind (xc_data change) claimable_asset_of,
                   Option.bind (Option.bind (xc_data change) (\<lambda>d. jget d ''amount'')) as_i64) of
               (Some asset, Some amount) \<Rightarrow> (asset_by_id(i \<mapsto> asset), row asset amount False)
             | _ \<Rightarrow> (asset_by_id, None))
          else if xc_change_type change = ''removed'' then
            (case asset_by_id i of
               Some asset \<Rightarrow> (asset_by_id, row asset 0 True)
             | None \<Rightarrow> (asset_by_id, None))
          else (asset_by_id, None))"

fun claimable_loop ::
  "xdr_ext \<Rightarrow> codec_ext \<Rightarrow> (string \<rightharpoonup> claimable_balance_asset) \<Rightarrow> entry_change list \<Rightarrow> claimable_balance list" where
  "claimable_loop x cx asset_by_id [] = []"
| "claimable_loop x cx asset_by_id (change # changes) =
     (let (asset_by_id', row) = claimable_step x cx asset_by_id change
      in (case row of Some r \<Rightarrow> [r] | None \<Rightarrow> []) @ claimable_loop x cx asset_by_id' changes)"

definition extract_claimable_balances :: "xdr_ext \<Rightarrow> codec_ext \<Rightarrow> entry_change list \<Rightarrow> claimable_balance list" where
  "extract_claimable_balances x cx changes =
     keep_last_by_key (\<lambda>b. (cb_balance_id b, cb_ledger_sequence b)) (claimable_loop x cx Map.empty changes)"

end
