(* ===== verification/Accounts.thy ===== *)
theory Accounts
  imports Contracts Nft "HOL-Library.Signed_Division"
begin

text \<open>
  The rest of \<open>state.rs\<close> with \<open>state/account_states.rs\<close> and \<open>state/nfts.rs\<close>: the state of accounts with
  their trustlines, liquidity pools and their snapshots, the positions of participants, and NFTs.
  A hash map whose entries are listed at the end is kept in the order the keys first appear; the
  order of that output is unspecified in the source and nothing below depends on it.
\<close>

definition wrap_i32 :: "int \<Rightarrow> int" where
  "wrap_i32 n = (n + 2147483648) mod 4294967296 - 2147483648"

definition pad_zeros :: "nat \<Rightarrow> string \<Rightarrow> string" where
  "pad_zeros n s = replicate (n - length s) CHR ''0'' @ s"

definition format_stroops :: "int \<Rightarrow> string" where
  "format_stroops stroops =
     (let whole = stroops sdiv 10000000; frac = \<bar>stroops smod 10000000\<bar>
      in show_int whole @ ''.'' @ pad_zeros 7 (show_int frac))"

text \<open>A map listed in the order of first insertion: \<open>entry(k).or_insert_with(d)\<close> and a change of the value.\<close>

fun entry_or_insert :: "'k \<Rightarrow> 'v \<Rightarrow> ('v \<Rightarrow> 'v) \<Rightarrow> ('k \<times> 'v) list \<Rightarrow> ('k \<times> 'v) list" where
  "entry_or_insert k d f [] = [(k, f d)]"
| "entry_or_insert k d f ((k', v) # es) = (if k' = k then (k', f v) # es else (k', v) # entry_or_insert k d f es)"

subsection \<open>Accounts\<close>

record account_accum =
  aa_native_balance :: "int option"
  aa_sequence_number :: "int option"
  aa_home_domain :: "string option"
  aa_is_creation :: bool
  aa_ledger_sequence :: int
  aa_created_at :: int
  aa_trustline_balances :: "json list"
  aa_removed_trustlines :: "json list"
  aa_account_removed :: bool
  aa_signers :: "json list option"
  aa_thresholds :: "string option"
  aa_flags :: "int option"
  aa_num_sponsoring :: "int option"
  aa_num_sponsored :: "int option"

record account_state =
  as_account_id :: string
  as_first_seen_ledger :: "int option"
  as_last_seen_ledger :: int
  as_sequence_number :: int
  as_balances :: json
  as_removed_trustlines :: "json list"
  as_account_removed :: bool
  as_signers :: "json list option"
  as_thresholds :: "string option"
  as_flags :: "int option"
  as_num_sponsoring :: "int option"
  as_num_sponsored :: "int option"
  as_home_domain :: "string option"
  as_created_at :: int

type_synonym account_accums = "(string \<times> account_accum) list"

definition new_accum :: "entry_change \<Rightarrow> account_accum" where
  "new_accum change =
     \<lparr>aa_native_balance = None, aa_sequence_number = None, aa_home_domain = None, aa_is_creation = False,
      aa_ledger_sequence = xc_ledger_sequence change, aa_created_at = xc_created_at change,
      aa_trustline_balances = [], aa_removed_trustlines = [], aa_account_removed = False, aa_signers = None,
      aa_thresholds = None, aa_flags = None, aa_num_sponsoring = None, aa_num_sponsored = None\<rparr>"

definition remove_account :: "entry_change \<Rightarrow> account_accum \<Rightarrow> account_accum" where
  "remove_account change e =
     e\<lparr>aa_native_balance := Some 0, aa_account_removed := True,
       aa_ledger_sequence := xc_ledger_sequence change, aa_created_at := xc_created_at change\<rparr>"

definition jpath_u32 :: "json \<Rightarrow> string \<Rightarrow> int option" where
  "jpath_u32 data key = map_option wrap_u32 (Option.bind (jget data key) as_u64)"

definition write_account :: "entry_change \<Rightarrow> json \<Rightarrow> account_accum \<Rightarrow> account_accum" where
  "write_account change data e =
     (let hd = opt_filter (\<lambda>s. s \<noteq> []) (get_str data ''home_domain'');
          is_creation = xc_change_type change \<in> {''created'', ''restored''}
      in e\<lparr>aa_native_balance := Some (unwrap_or (Option.bind (jget data ''balance'') as_i64) 0),
           aa_sequence_number := Some (unwrap_or (Option.bind (jget data ''seq_num'') as_i64) 0),
           aa_home_domain := (if hd \<noteq> None then hd else aa_home_domain e),
           aa_account_removed := False,
           aa_signers := Some (unwrap_or (Option.bind (jget data ''signers'') as_array) []),
           aa_thresholds := get_str data ''thresholds'',
           aa_flags := jpath_u32 data ''flags'',
           aa_num_sponsoring := jpath_u32 data ''num_sponsoring'',
           aa_num_sponsored := jpath_u32 data ''num_sponsored'',
           aa_is_creation := (aa_is_creation e \<or> is_creation),
           aa_ledger_sequence := xc_ledger_sequence change,
           aa_created_at := xc_created_at change\<rparr>)"

definition account_step :: "account_accums \<Rightarrow> entry_change \<Rightarrow> account_accums" where
  "account_step m change =
     (if xc_entry_type change \<noteq> ''account'' then m
      else if xc_change_type change = ''removed'' then
        (let account_id = unwrap_or (get_str (xc_key change) ''account_id'') [] in
         if account_id = [] then m
         else entry_or_insert account_id (new_accum change) (remove_account change) m)
      else if \<not> is_write change then m
      else case xc_data change of
        None \<Rightarrow> m
      | Some data \<Rightarrow>
          let account_id = unwrap_or (get_str data ''account_id'') [] in
          if account_id = [] then m
          else entry_or_insert account_id (new_accum change) (write_account change data) m)"

definition same_trustline :: "json \<Rightarrow> json \<Rightarrow> bool" where
  "same_trustline a b \<longleftrightarrow> jget a ''asset_code'' = jget b ''asset_code'' \<and> jget a ''issuer'' = jget b ''issuer''"

definition seen_at :: "entry_change \<Rightarrow> account_accum \<Rightarrow> account_accum" where
  "seen_at change e =
     (if aa_ledger_sequence e \<le> xc_ledger_sequence change
      then e\<lparr>aa_ledger_sequence := xc_ledger_sequence change, aa_created_at := xc_created_at change\<rparr> else e)"

text \<open>The identity of a trustline's asset; nothing for a pool share or an asset that is no object.\<close>

definition trustline_asset_members :: "json option \<Rightarrow> (string \<times> json) list option" where
  "trustline_asset_members asset =
     (case asset of
        Some (JObj obj) \<Rightarrow>
          let asset_type = unwrap_or (get_str (JObj obj) ''type'') ''unknown'' in
          if asset_type = ''pool_share'' then None
          else Some [(''asset_type'', JStr asset_type),
                     (''asset_code'', JStr (unwrap_or (get_str (JObj obj) ''code'') [])),
                     (''issuer'', JStr (unwrap_or (get_str (JObj obj) ''issuer'') []))]
      | _ \<Rightarrow> None)"

definition write_trustline :: "entry_change \<Rightarrow> json \<Rightarrow> account_accum \<Rightarrow> account_accum" where
  "write_trustline change line e =
     seen_at change
       (e\<lparr>aa_trustline_balances := filter (\<lambda>tb. \<not> same_trustline tb line) (aa_trustline_balances e) @ [line],
          aa_removed_trustlines := filter (\<lambda>rt. \<not> same_trustline rt line) (aa_removed_trustlines e)\<rparr>)"

definition remove_trustline :: "entry_change \<Rightarrow> json \<Rightarrow> account_accum \<Rightarrow> account_accum" where
  "remove_trustline change key e =
     seen_at change
       (e\<lparr>aa_trustline_balances := filter (\<lambda>tb. \<not> same_trustline tb key) (aa_trustline_balances e),
          aa_removed_trustlines := aa_removed_trustlines e @ [key]\<rparr>)"

definition trustline_step :: "account_accums \<Rightarrow> entry_change \<Rightarrow> account_accums" where
  "trustline_step m change =
     (if xc_entry_type change \<noteq> ''trustline'' then m
      else if is_write change then
        (case xc_data change of
           None \<Rightarrow> m
         | Some data \<Rightarrow>
             let account_id = unwrap_or (get_str data ''account_id'') [];
                 balance = unwrap_or (Option.bind (jget data ''balance'') as_i64) 0 in
             if account_id = [] then m
             else (case trustline_asset_members (jget data ''asset'') of
                     None \<Rightarrow> m
                   | Some ms \<Rightarrow>
                       entry_or_insert account_id (new_accum change)
                         (write_trustline change (JObj (ms @ [(''balance'', JStr (format_stroops balance))]))) m))
      else if xc_change_type change = ''removed'' then
        (let account_id = unwrap_or (get_str (xc_key change) ''account_id'') [] in
         if account_id = [] then m
         else (case trustline_asset_members (jget (xc_key change) ''asset'') of
                 None \<Rightarrow> m
               | Some ms \<Rightarrow>
                   entry_or_insert account_id (new_accum change) (remove_trustline change (JObj ms)) m))
      else m)"

definition account_row :: "string \<Rightarrow> account_accum \<Rightarrow> account_state" where
  "account_row account_id a =
     \<lparr>as_account_id = account_id,
      as_first_seen_ledger = (if aa_is_creation a then Some (aa_ledger_sequence a) else None),
      as_last_seen_ledger = aa_ledger_sequence a,
      as_sequence_number = unwrap_or (aa_sequence_number a) (-1),
      as_balances =
        JArr ((case aa_native_balance a of
                 Some native \<Rightarrow> [JObj [(''asset_type'', JStr ''native''), (''balance'', JStr (format_stroops native))]]
               | None \<Rightarrow> []) @ aa_trustline_balances a),
      as_removed_trustlines = aa_removed_trustlines a,
      as_account_removed = aa_account_removed a,
      as_signers = aa_signers a, as_thresholds = aa_thresholds a, as_flags = aa_flags a,
      as_num_sponsoring = aa_num_sponsoring a, as_num_sponsored = aa_num_sponsored a,
      as_home_domain = aa_home_domain a, as_created_at = aa_created_at a\<rparr>"

definition extract_account_states :: "entry_change list \<Rightarrow> account_state list" where
  "extract_account_states changes =
     (let m = foldl account_step [] changes; m = foldl trustline_step m changes
      in map (\<lambda>(account_id, a). account_row account_id a) m)"

subsection \<open>Liquidity pools\<close>

record liquidity_pool =
  lq_pool_id :: string
  lq_asset_a :: json
  lq_asset_b :: json
  lq_fee_bps :: int
  lq_reserves :: json
  lq_total_shares :: string
  lq_created_at_ledger :: "int option"
  lq_last_updated_ledger :: int
  lq_created_at :: int

record pool_snapshot =
  ps_pool_id :: string
  ps_ledger_sequence :: int
  ps_created_at :: int
  ps_reserves :: json
  ps_total_shares :: string

definition pool_row :: "string \<Rightarrow> json \<Rightarrow> entry_change \<Rightarrow> bool \<Rightarrow> liquidity_pool" where
  "pool_row pool_id data change is_creation =
     (let removed = (xc_change_type change = ''removed'');
          params = unwrap_or (jget data ''params'') (JObj []);
          number = (\<lambda>field. if removed then 0 else unwrap_or (Option.bind (jget data field) as_i64) 0)
      in \<lparr>lq_pool_id = pool_id,
          lq_asset_a = unwrap_or (jget params ''asset_a'') JNull,
          lq_asset_b = unwrap_or (jget params ''asset_b'') JNull,
          lq_fee_bps = wrap_i32 (unwrap_or (Option.bind (jget params ''fee'') as_i64) 0),
          lq_reserves = JObj [(''a'', JNum (number ''reserve_a'')), (''b'', JNum (number ''reserve_b''))],
          lq_total_shares = show_int (number ''total_pool_shares''),
          lq_created_at_ledger = (if is_creation then Some (xc_ledger_sequence change) else None),
          lq_last_updated_ledger = xc_ledger_sequence change,
          lq_created_at = xc_created_at change\<rparr>)"

definition zero_snapshot :: "string \<Rightarrow> entry_change \<Rightarrow> pool_snapshot" where
  "zero_snapshot pool_id change =
     \<lparr>ps_pool_id = pool_id, ps_ledger_sequence = xc_ledger_sequence change, ps_created_at = xc_created_at change,
      ps_reserves = JObj [(''a'', JNum 0), (''b'', JNum 0)], ps_total_shares = ''0''\<rparr>"

definition snapshot_of :: "liquidity_pool \<Rightarrow> entry_change \<Rightarrow> pool_snapshot" where
  "snapshot_of pool change =
     \<lparr>ps_pool_id = lq_pool_id pool, ps_ledger_sequence = xc_ledger_sequence change,
      ps_created_at = xc_created_at change, ps_reserves = lq_reserves pool, ps_total_shares = lq_total_shares pool\<rparr>"

record pool_extraction =
  px_before :: "string \<rightharpoonup> json"
  px_pools :: "liquidity_pool list"
  px_snapshots :: "pool_snapshot list"

definition pool_step :: "pool_extraction \<Rightarrow> entry_change \<Rightarrow> pool_extraction" where
  "pool_step s change =
     (if xc_entry_type change \<noteq> ''liquidity_pool'' then s
      else if xc_change_type change = ''state'' then
        (case xc_data change of
           None \<Rightarrow> s
         | Some data \<Rightarrow> (case get_str data ''pool_id'' of
                          Some pool_id \<Rightarrow> s\<lparr>px_before := (px_before s)(pool_id \<mapsto> data)\<rparr>
                        | None \<Rightarrow> s))
      else if xc_change_type change = ''removed'' then
        (case get_str (xc_key change) ''pool_id'' of
           None \<Rightarrow> s
         | Some pool_id \<Rightarrow>
             s\<lparr>px_before := (px_before s)(pool_id := None),
               px_pools := px_pools s @ (case px_before s pool_id of
                                           Some data \<Rightarrow> [pool_row pool_id data change False] | None \<Rightarrow> []),
               px_snapshots := px_snapshots s @ [zero_snapshot pool_id change]\<rparr>)
      else if is_write change then
        (case xc_data change of
           None \<Rightarrow> s
         | Some data \<Rightarrow>
             (case get_str data ''pool_id'' of
                None \<Rightarrow> s
              | Some pool_id \<Rightarrow>
                  let is_creation = (xc_change_type change \<noteq> ''updated'');
                      pool = pool_row pool_id data change is_creation
                  in s\<lparr>px_before := (px_before s)(pool_id := None),
                       px_snapshots := px_snapshots s @ [snapshot_of pool change],
                       px_pools := px_pools s @ [pool]\<rparr>))
      else s)"

definition extract_liquidity_pools :: "entry_change list \<Rightarrow> liquidity_pool list \<times> pool_snapshot list" where
  "extract_liquidity_pools changes =
     (let s = foldl pool_step \<lparr>px_before = Map.empty, px_pools = [], px_snapshots = []\<rparr> changes
      in (px_pools s, px_snapshots s))"

definition dedup_final_pool_snapshots :: "pool_snapshot list \<Rightarrow> pool_snapshot list" where
  "dedup_final_pool_snapshots snapshots =
     keep_last_by_key (\<lambda>s. (ps_pool_id s, ps_ledger_sequence s)) snapshots"

subsection \<open>Positions\<close>

record lp_position =
  lp_pool_id :: string
  lp_account_id :: string
  lp_shares :: string
  lp_last_updated_ledger :: int
  lp_closed :: bool

definition lp_holding :: "entry_change \<Rightarrow> (json \<times> string \<times> string) option" where
  "lp_holding change =
     (if is_write change then
        do { data \<leftarrow> xc_data change;
             account_id \<leftarrow> get_str data ''account_id'';
             asset \<leftarrow> jget data ''asset'';
             Some (asset, account_id, format_stroops (unwrap_or (Option.bind (jget data ''balance'') as_i64) 0)) }
      else if xc_change_type change = ''removed'' then
        do { account_id \<leftarrow> get_str (xc_key change) ''account_id'';
             asset \<leftarrow> jget (xc_key change) ''asset'';
             Some (asset, account_id, format_stroops 0) }
      else None)"

definition lp_position_of :: "entry_change \<Rightarrow> lp_position option" where
  "lp_position_of change =
     (if xc_entry_type change \<noteq> ''trustline'' then None
      else do {
        (asset_holder, account_id, shares) \<leftarrow> lp_holding change;
        asset_obj \<leftarrow> as_object asset_holder;
        if get_str asset_obj ''type'' \<noteq> Some ''pool_share'' then None
        else do {
          pool_id \<leftarrow> get_str asset_obj ''pool_id'';
          Some \<lparr>lp_pool_id = pool_id, lp_account_id = account_id, lp_shares = shares,
                lp_last_updated_ledger = xc_ledger_sequence change,
                lp_closed = (xc_change_type change = ''removed'')\<rparr> } })"

definition extract_lp_positions :: "entry_change list \<Rightarrow> lp_position list" where
  "extract_lp_positions changes = filter_map lp_position_of changes"

subsection \<open>NFTs\<close>

record extracted_nft =
  xn_contract_id :: string
  xn_token_id :: string
  xn_collection_name :: "string option"
  xn_owner :: "string option"
  xn_name :: "string option"
  xn_media_url :: "string option"
  xn_minted_at_ledger :: "int option"
  xn_last_seen_ledger :: int
  xn_created_at :: int

record nft_ownership_event =
  no_transaction_hash :: string
  no_contract_id :: string
  no_token_id :: string
  no_event_type :: nft_event_type
  no_owner :: "string option"
  no_created_at :: int
  no_event_id :: event_id

definition token_id_to_string :: "json \<Rightarrow> string" where
  "token_id_to_string token_id =
     (case jget token_id ''value'' of
        Some v \<Rightarrow>
          (case v of
             JNull \<Rightarrow> []
           | JStr s \<Rightarrow> s
           | _ \<Rightarrow> (case as_i64 v of
                     Some n \<Rightarrow> show_int n
                   | None \<Rightarrow> (case as_u64 v of Some n \<Rightarrow> show_int n | None \<Rightarrow> json_text v)))
      | None \<Rightarrow> [])"

definition detect_nft :: "nft_event \<Rightarrow> extracted_nft option" where
  "detect_nft event =
     (let token_id = token_id_to_string (ne_token_id event) in
      if token_id = [] then None
      else do {
        (owner, minted_at_ledger) \<leftarrow>
          (if ne_event_kind event = ''mint'' then Some (ne_to event, Some (int (ei_ledger_sequence (ne_event_id event))))
           else if ne_event_kind event = ''transfer'' then Some (ne_to event, None)
           else if ne_event_kind event = ''burn'' then Some (None, None)
           else None);
        Some \<lparr>xn_contract_id = ne_contract_id event, xn_token_id = token_id, xn_collection_name = None,
              xn_owner = owner, xn_name = None, xn_media_url = None, xn_minted_at_ledger = minted_at_ledger,
              xn_last_seen_ledger = int (ei_ledger_sequence (ne_event_id event)),
              xn_created_at = ne_created_at event\<rparr> })"

definition detect_nfts :: "nft_event list \<Rightarrow> extracted_nft list" where
  "detect_nfts nft_events = filter_map detect_nft nft_events"

definition nft_ownership_event_of :: "nft_event \<Rightarrow> nft_ownership_event option" where
  "nft_ownership_event_of event =
     (let token_id = token_id_to_string (ne_token_id event) in
      if token_id = [] then None
      else (case nft_event_type_from_str (ne_event_kind event) of
              Inl e \<Rightarrow> None
            | Inr event_type \<Rightarrow>
                Some \<lparr>no_transaction_hash = ne_transaction_hash event, no_contract_id = ne_contract_id event,
                      no_token_id = token_id, no_event_type = event_type,
                      no_owner = (case event_type of NeMint \<Rightarrow> ne_to event | NeTransfer \<Rightarrow> ne_to event | NeBurn \<Rightarrow> None),
                      no_created_at = ne_created_at event, no_event_id = ne_event_id event\<rparr>))"

definition extract_nft_ownership_events :: "nft_event list \<Rightarrow> nft_ownership_event list" where
  "extract_nft_ownership_events events = filter_map nft_ownership_event_of events"

end
