(* ===== verification/PoolFamilies.thy ===== *)
theory PoolFamilies
  imports Accounts OrdMap Results
begin

text \<open>
  The pool families read from contract storage and events: \<open>pool_state.rs\<close> (plane writes and pool
  instances of the router family), \<open>pool_pair_factory.rs\<close>, \<open>pool_config_factory.rs\<close>,
  \<open>pool_router.rs\<close>, and \<open>pool_family.rs\<close>, which runs the extractors over the changes of a
  transaction.  What the sources only log (refused reads, the \<open>before\<close> set of the config pools)
  leaves no trace in the result and is left out.
\<close>

definition owner_of :: "entry_change \<Rightarrow> string option" where
  "owner_of change = get_str (xc_key change) ''contract''"

definition inner_key :: "entry_change \<Rightarrow> json option" where
  "inner_key change = jget (xc_key change) ''key''"

definition val_of :: "entry_change \<Rightarrow> json option" where
  "val_of change = Option.bind (xc_data change) (\<lambda>d. jget d ''val'')"

definition key_is_instance :: "entry_change \<Rightarrow> bool" where
  "key_is_instance change \<longleftrightarrow>
     Option.bind (inner_key change) (\<lambda>k. get_str k ''type'') = Some ''ledger_key_contract_instance''"

definition instance_storage :: "entry_change \<Rightarrow> json option" where
  "instance_storage change =
     do { v \<leftarrow> val_of change; ci \<leftarrow> typed v ''contract_instance''; jget ci ''storage'' }"

definition data_write :: "entry_change \<Rightarrow> bool" where
  "data_write change \<longleftrightarrow> xc_entry_type change = ''contract_data'' \<and> is_write change"

subsection \<open>The router family's plane and instances\<close>

record plane_pool_data =
  pd_plane :: string
  pd_pool :: string
  pd_reserves :: "string list"

definition raw_u128_vec :: "json \<Rightarrow> string list option" where
  "raw_u128_vec v =
     do { w \<leftarrow> typed v ''vec''; es \<leftarrow> as_array w; those (map (\<lambda>e. typed_str e ''u128'') es) }"

definition parse_plane_pool_data :: "string \<Rightarrow> json \<Rightarrow> json \<Rightarrow> plane_pool_data option" where
  "parse_plane_pool_data owner key val =
     do { w \<leftarrow> typed key ''vec'';
          parts \<leftarrow> as_array w;
          tag \<leftarrow> nth_opt parts 0;
          if symbol tag \<noteq> Some ''PoolData'' then None
          else do { p \<leftarrow> nth_opt parts 1;
                    pool \<leftarrow> address p;
                    rs \<leftarrow> map_get val ''reserves'';
                    reserves \<leftarrow> raw_u128_vec rs;
                    Some \<lparr>pd_plane = owner, pd_pool = pool, pd_reserves = reserves\<rparr> } }"

record pool_instance_state =
  pi_pool :: string
  pi_token_share :: "string option"
  pi_total_shares :: "string option"
  pi_plane :: "string option"
  pi_router :: "string option"
  pi_reserves :: "string list"

definition enum_key_get :: "json list \<Rightarrow> string \<Rightarrow> json option" where
  "enum_key_get entries name =
     find_map (\<lambda>kv. do { key \<leftarrow> jget kv ''key''; w \<leftarrow> typed key ''vec''; k \<leftarrow> as_array w;
                         if length k = 1 \<and> Option.bind (typed (k ! 0) ''sym'') as_str = Some name
                         then jget kv ''value'' else None }) entries"

definition reserve_pair :: "(string \<Rightarrow> json option) \<Rightarrow> string \<Rightarrow> string \<Rightarrow> string list option" where
  "reserve_pair get a b =
     do { x \<leftarrow> get a; ra \<leftarrow> typed_str x ''u128''; y \<leftarrow> get b; rb \<leftarrow> typed_str y ''u128''; Some [ra, rb] }"

definition parse_pool_instance :: "string \<Rightarrow> json \<Rightarrow> pool_instance_state option" where
  "parse_pool_instance pool storage =
     do { entries \<leftarrow> as_array storage;
          plane \<leftarrow> enum_key_get entries ''Plane'';
          let get = enum_key_get entries;
              reserves = unwrap_or
                (opt_or (reserve_pair get ''ReserveA'' ''ReserveB'')
                  (opt_or (Option.bind (get ''Reserves'') raw_u128_vec)
                    (reserve_pair get ''Reserve0'' ''Reserve1''))) []
          in Some \<lparr>pi_pool = pool,
                   pi_token_share = Option.bind (get ''TokenShare'') address,
                   pi_total_shares = Option.bind (get ''TotalShares'') (\<lambda>v. typed_str v ''u128''),
                   pi_plane = address plane,
                   pi_router = Option.bind (get ''Router'') address,
                   pi_reserves = reserves\<rparr> }"

record extracted_plane_data =
  xp_data :: plane_pool_data
  xp_ledger_sequence :: int

definition plane_write_of :: "entry_change \<Rightarrow> extracted_plane_data option" where
  "plane_write_of change =
     (if \<not> data_write change then None
      else do { owner \<leftarrow> owner_of change; key \<leftarrow> inner_key change; val \<leftarrow> val_of change;
                data \<leftarrow> parse_plane_pool_data owner key val;
                Some \<lparr>xp_data = data, xp_ledger_sequence = xc_ledger_sequence change\<rparr> })"

definition extract_plane_pool_data :: "entry_change list \<Rightarrow> extracted_plane_data list" where
  "extract_plane_pool_data changes = filter_map plane_write_of changes"

record extracted_pool_instance =
  xi_state :: pool_instance_state
  xi_ledger_sequence :: int
  xi_created :: bool
  xi_reserves_changed :: bool

definition pool_instance_of :: "entry_change \<Rightarrow> pool_instance_state option" where
  "pool_instance_of change =
     (if xc_entry_type change \<noteq> ''contract_data'' then None
      else if \<not> (is_write change \<or> xc_change_type change = ''state'') then None
      else if \<not> key_is_instance change then None
      else do { pool \<leftarrow> owner_of change; storage \<leftarrow> instance_storage change; parse_pool_instance pool storage })"

fun pool_instances_loop :: "(string \<rightharpoonup> string list) \<Rightarrow> entry_change list \<Rightarrow> extracted_pool_instance list" where
  "pool_instances_loop pre_image [] = []"
| "pool_instances_loop pre_image (change # changes) =
     (case pool_instance_of change of
        None \<Rightarrow> pool_instances_loop pre_image changes
      | Some state \<Rightarrow>
          let pool = pi_pool state in
          if xc_change_type change = ''state''
          then pool_instances_loop (pre_image(pool \<mapsto> pi_reserves state)) changes
          else \<lparr>xi_state = state, xi_ledger_sequence = xc_ledger_sequence change,
                 xi_created = (xc_change_type change = ''created''),
                 xi_reserves_changed = (pre_image pool \<noteq> Some (pi_reserves state))\<rparr>
               # pool_instances_loop (pre_image(pool := None)) changes)"

definition extract_pool_instances :: "entry_change list \<Rightarrow> extracted_pool_instance list" where
  "extract_pool_instances changes = pool_instances_loop Map.empty changes"

subsection \<open>Pairs of a factory\<close>

record new_pair_event =
  np_pair :: string
  np_token_0 :: string
  np_token_1 :: string
  np_new_pairs_length :: int

record pair_registration =
  pr_factory :: string
  pr_event :: new_pair_event

datatype new_pair_reject = NotNewPair | NewPairMalformed string

definition typed_u32 :: "json \<Rightarrow> int option" where
  "typed_u32 v = opt_filter fits_u32 (Option.bind (typed v ''u32'') as_u64)"

definition parse_new_pair :: "json \<Rightarrow> json \<Rightarrow> new_pair_reject + new_pair_event" where
  "parse_new_pair topics_json data =
     (let addr_field = (\<lambda>name. Option.bind (map_get data name) address) in
      try_res (ok_or NotNewPair (as_array topics_json)) (\<lambda>topics.
      try_res (ok_or NotNewPair (nth_opt topics 0)) (\<lambda>t0.
      if typed_str t0 ''string'' \<noteq> Some ''SoroswapFactory'' then Inl NotNewPair else
      try_res (ok_or NotNewPair (nth_opt topics 1)) (\<lambda>t1.
      if symbol t1 \<noteq> Some ''new_pair'' then Inl NotNewPair else
      try_res (ok_or (NewPairMalformed ''pair missing or not an address'') (addr_field ''pair'')) (\<lambda>pair.
      try_res (ok_or (NewPairMalformed ''token_0 missing or not an address'') (addr_field ''token_0'')) (\<lambda>token_0.
      try_res (ok_or (NewPairMalformed ''token_1 missing or not an address'') (addr_field ''token_1'')) (\<lambda>token_1.
      try_res (ok_or (NewPairMalformed ''new_pairs_length missing or not a u32'')
                 (Option.bind (map_get data ''new_pairs_length'') typed_u32)) (\<lambda>n.
      Inr \<lparr>np_pair = pair, np_token_0 = token_0, np_token_1 = token_1, np_new_pairs_length = n\<rparr>))))))))"

text \<open>A registration is emitted by a contract; an event without one, or one that is refused, is skipped.\<close>

definition registrations ::
  "(json \<Rightarrow> json \<Rightarrow> 'e + 'a) \<Rightarrow> (string \<Rightarrow> extracted_event \<Rightarrow> 'a \<Rightarrow> 'r) \<Rightarrow> extracted_event list \<Rightarrow> 'r list" where
  "registrations parse mk evs =
     filter_map (\<lambda>ev. do { factory \<leftarrow> eb_contract_id (ev_body ev);
                           case parse (eb_topics (ev_body ev)) (eb_data (ev_body ev)) of
                             Inr event \<Rightarrow> Some (mk factory ev event)
                           | Inl e \<Rightarrow> None }) evs"

definition detect_pair_registrations :: "(string \<times> extracted_event list) list \<Rightarrow> pair_registration list" where
  "detect_pair_registrations events =
     concat (map (\<lambda>(tx, evs).
       registrations parse_new_pair (\<lambda>factory ev event. \<lparr>pr_factory = factory, pr_event = event\<rparr>) evs) events)"

record factory_pair_state =
  fp_pair :: string
  fp_token_0 :: string
  fp_token_1 :: string
  fp_factory :: string
  fp_reserves :: "(string \<times> string) option"
  fp_total_supply :: "string option"

definition u32_key :: "json list \<Rightarrow> int \<Rightarrow> json option" where
  "u32_key entries n =
     find_map (\<lambda>kv. do { key \<leftarrow> jget kv ''key'';
                         if Option.bind (typed key ''u32'') as_u64 = Some n then jget kv ''value'' else None }) entries"

definition sym_key :: "json list \<Rightarrow> string \<Rightarrow> json option" where
  "sym_key entries name =
     find_map (\<lambda>kv. do { k \<leftarrow> jget kv ''key'';
                         if symbol k = Some name \<or>
                            (case Option.bind (typed k ''vec'') as_array of
                               Some a \<Rightarrow> length a = 1 \<and> symbol (a ! 0) = Some name | None \<Rightarrow> False)
                         then jget kv ''value'' else None }) entries"

text \<open>Both reserves or neither; the outer option is the refusal of a half pair.\<close>

definition both_or_neither :: "'a option \<Rightarrow> 'a option \<Rightarrow> ('a \<times> 'a) option option" where
  "both_or_neither a b =
     (case (a, b) of
        (Some x, Some y) \<Rightarrow> Some (Some (x, y))
      | (None, None) \<Rightarrow> Some None
      | _ \<Rightarrow> None)"

definition parse_factory_pair :: "string \<Rightarrow> json \<Rightarrow> factory_pair_state option" where
  "parse_factory_pair pair storage =
     do { entries \<leftarrow> as_array storage;
          token_0 \<leftarrow> Option.bind (u32_key entries 0) address;
          token_1 \<leftarrow> Option.bind (u32_key entries 1) address;
          factory \<leftarrow> Option.bind (u32_key entries 4) address;
          let i128s = (\<lambda>v. typed_str v ''i128'');
          reserves \<leftarrow> both_or_neither (Option.bind (u32_key entries 2) i128s) (Option.bind (u32_key entries 3) i128s);
          Some \<lparr>fp_pair = pair, fp_token_0 = token_0, fp_token_1 = token_1, fp_factory = factory,
                fp_reserves = reserves, fp_total_supply = Option.bind (sym_key entries ''TotalSupply'') i128s\<rparr> }"

record extracted_factory_pair =
  xf_state :: factory_pair_state
  xf_ledger_sequence :: int
  xf_created :: bool

definition factory_pair_of :: "entry_change \<Rightarrow> extracted_factory_pair option" where
  "factory_pair_of change =
     (if \<not> data_write change \<or> \<not> key_is_instance change then None
      else do { pair \<leftarrow> owner_of change;
                storage \<leftarrow> instance_storage change;
                state \<leftarrow> parse_factory_pair pair storage;
                Some \<lparr>xf_state = state, xf_ledger_sequence = xc_ledger_sequence change,
                      xf_created = (xc_change_type change = ''created'')\<rparr> })"

definition extract_factory_pairs :: "entry_change list \<Rightarrow> extracted_factory_pair list" where
  "extract_factory_pairs changes = filter_map factory_pair_of changes"

subsection \<open>Pools configured by a factory\<close>

record config_pool_registration =
  cr_factory :: string
  cr_pool :: string
  cr_ledger_sequence :: int

datatype config_pool_reject = NotRegistration | ConfigPoolMalformed string

definition parse_pool_created :: "json \<Rightarrow> json \<Rightarrow> config_pool_reject + string" where
  "parse_pool_created topics_json data =
     (try_res (ok_or NotRegistration (as_array topics_json)) (\<lambda>topics.
      try_res (ok_or NotRegistration (nth_opt topics 0)) (\<lambda>t0.
      if typed_str t0 ''string'' \<noteq> Some ''create'' then Inl NotRegistration else
      try_res (ok_or NotRegistration (nth_opt topics 1)) (\<lambda>t1.
      if typed_str t1 ''string'' \<noteq> Some ''liquidity_pool'' then Inl NotRegistration else
      ok_or (ConfigPoolMalformed ''data is not an address'') (address data)))))"

definition detect_config_pool_registrations ::
  "(string \<times> extracted_event list) list \<Rightarrow> config_pool_registration list" where
  "detect_config_pool_registrations events =
     concat (map (\<lambda>(tx, evs).
       registrations parse_pool_created (\<lambda>factory ev pool.
         \<lparr>cr_factory = factory, cr_pool = pool,
          cr_ledger_sequence = int (ei_ledger_sequence (ev_event_id ev))\<rparr>) evs) events)"

record pool_config =
  pc_token_a :: string
  pc_token_b :: string
  pc_share_token :: string
  pc_pool_type :: int
  pc_total_fee_bps :: int

definition parse_pool_config :: "json \<Rightarrow> pool_config option" where
  "parse_pool_config val =
     do { token_a \<leftarrow> Option.bind (map_get val ''token_a'') address;
          token_b \<leftarrow> Option.bind (map_get val ''token_b'') address;
          share_token \<leftarrow> Option.bind (map_get val ''share_token'') address;
          pool_type \<leftarrow> Option.bind (map_get val ''pool_type'') typed_u32;
          f \<leftarrow> map_get val ''total_fee_bps''; w \<leftarrow> typed f ''i64''; total_fee_bps \<leftarrow> as_i64 w;
          Some \<lparr>pc_token_a = token_a, pc_token_b = token_b, pc_share_token = share_token,
                pc_pool_type = pool_type, pc_total_fee_bps = total_fee_bps\<rparr> }"

record config_pool_state =
  cs_pool :: string
  cs_config :: "pool_config option"
  cs_reserves :: "(string \<times> string) option"
  cs_total_shares :: "string option"

record extracted_config_pool =
  xcp_state :: config_pool_state
  xcp_ledger_sequence :: int
  xcp_created :: bool

record config_acc =
  ca_config :: "pool_config option"
  ca_reserve_a :: "string option"
  ca_reserve_b :: "string option"
  ca_total_shares :: "string option"
  ca_instance_created :: bool
  ca_ledger_sequence :: int

definition config_acc_default :: config_acc where
  "config_acc_default =
     \<lparr>ca_config = None, ca_reserve_a = None, ca_reserve_b = None, ca_total_shares = None,
      ca_instance_created = False, ca_ledger_sequence = 0\<rparr>"

definition config_value_step :: "int \<Rightarrow> int \<Rightarrow> string \<Rightarrow> config_acc \<Rightarrow> config_acc" where
  "config_value_step seq n v acc =
     (if n = 0 then acc\<lparr>ca_total_shares := Some v, ca_ledger_sequence := seq\<rparr>
      else if n = 1 then acc\<lparr>ca_reserve_a := Some v, ca_ledger_sequence := seq\<rparr>
      else if n = 2 then acc\<lparr>ca_reserve_b := Some v, ca_ledger_sequence := seq\<rparr>
      else acc)"

definition config_pool_step :: "(string \<times> config_acc) list \<Rightarrow> entry_change \<Rightarrow> (string \<times> config_acc) list" where
  "config_pool_step by_pool change =
     (if xc_entry_type change \<noteq> ''contract_data'' then by_pool
      else case (owner_of change, inner_key change) of
        (Some owner, Some key) \<Rightarrow>
          if \<not> is_write change then by_pool
          else if key_is_instance change then
            (if xc_change_type change = ''created''
             then ord_entry owner config_acc_default
                    (\<lambda>acc. acc\<lparr>ca_instance_created := True, ca_ledger_sequence := xc_ledger_sequence change\<rparr>) by_pool
             else by_pool)
          else (case val_of change of
              None \<Rightarrow> by_pool
            | Some val \<Rightarrow>
                if symbol key = Some ''CONFIG'' then
                  (case parse_pool_config val of
                     Some config \<Rightarrow>
                       ord_entry owner config_acc_default
                         (\<lambda>acc. acc\<lparr>ca_config := Some config, ca_ledger_sequence := xc_ledger_sequence change\<rparr>) by_pool
                   | None \<Rightarrow> by_pool)
                else (case Option.bind (typed key ''u32'') as_u64 of
                    None \<Rightarrow> by_pool
                  | Some n \<Rightarrow>
                      (case typed_str val ''i128'' of
                         None \<Rightarrow> by_pool
                       | Some v \<Rightarrow> ord_entry owner config_acc_default
                                    (config_value_step (xc_ledger_sequence change) n v) by_pool)))
      | _ \<Rightarrow> by_pool)"

definition config_pool_row :: "string \<Rightarrow> config_acc \<Rightarrow> extracted_config_pool option" where
  "config_pool_row pool acc =
     do { reserves \<leftarrow> both_or_neither (ca_reserve_a acc) (ca_reserve_b acc);
          if ca_config acc = None \<and> reserves = None then None
          else Some \<lparr>xcp_state = \<lparr>cs_pool = pool, cs_config = ca_config acc, cs_reserves = reserves,
                                 cs_total_shares = ca_total_shares acc\<rparr>,
                     xcp_ledger_sequence = ca_ledger_sequence acc, xcp_created = ca_instance_created acc\<rparr> }"

definition extract_config_pools :: "entry_change list \<Rightarrow> extracted_config_pool list" where
  "extract_config_pools changes =
     filter_map (\<lambda>(pool, acc). config_pool_row pool acc) (foldl config_pool_step [] changes)"

record address_list_write =
  al_owner :: string
  al_members :: "string list"
  al_ledger_sequence :: int

definition address_list_of :: "entry_change \<Rightarrow> address_list_write option" where
  "address_list_of change =
     (if \<not> data_write change then None
      else do { owner \<leftarrow> owner_of change;
                val \<leftarrow> val_of change;
                elems \<leftarrow> vec_elements val;
                if elems = [] then None
                else do { members \<leftarrow> those (map address elems);
                          Some \<lparr>al_owner = owner, al_members = members,
                                al_ledger_sequence = xc_ledger_sequence change\<rparr> } })"

definition extract_address_list_writes :: "entry_change list \<Rightarrow> address_list_write list" where
  "extract_address_list_writes changes = filter_map address_list_of changes"

subsection \<open>Pools registered by a router\<close>

record add_pool_event =
  ap_pool :: string
  ap_pool_type :: string
  ap_tokens :: "string list"
  ap_init_args :: "string list"

record pool_registration =
  rg_router :: string
  rg_event :: add_pool_event

datatype add_pool_reject = NotAddPool | AddPoolMalformed string

definition parse_add_pool :: "json \<Rightarrow> json \<Rightarrow> add_pool_reject + add_pool_event" where
  "parse_add_pool topics_json data =
     (try_res (ok_or NotAddPool (as_array topics_json)) (\<lambda>topics.
      try_res (ok_or NotAddPool (nth_opt topics 0)) (\<lambda>t0.
      if symbol t0 \<noteq> Some ''add_pool'' then Inl NotAddPool else
      try_res (ok_or (AddPoolMalformed ''legs missing or not a vec of addresses'')
                 (Option.bind (nth_opt topics 1) vec_elements)) (\<lambda>legs.
      try_res (ok_or (AddPoolMalformed ''legs missing or not a vec of addresses'') (those (map address legs))) (\<lambda>tokens.
      if tokens = [] then Inl (AddPoolMalformed ''empty leg list'') else
      try_res (ok_or (AddPoolMalformed ''data is not the expected tuple'') (vec_elements data)) (\<lambda>members.
      try_res (ok_or (AddPoolMalformed ''pool address missing or not an address'')
                 (Option.bind (nth_opt members 0) address)) (\<lambda>pool.
      try_res (ok_or (AddPoolMalformed ''pool type missing or not a symbol'')
                 (Option.bind (nth_opt members 1) symbol)) (\<lambda>pool_type.
      Inr \<lparr>ap_pool = pool, ap_pool_type = pool_type, ap_tokens = tokens,
           ap_init_args = (case Option.bind (nth_opt members 3) vec_elements of
                             Some items \<Rightarrow> map raw_scalar items | None \<Rightarrow> [])\<rparr>))))))))"

definition detect_pool_registrations :: "(string \<times> extracted_event list) list \<Rightarrow> pool_registration list" where
  "detect_pool_registrations events =
     concat (map (\<lambda>(tx, evs).
       registrations parse_add_pool (\<lambda>router ev event. \<lparr>rg_router = router, rg_event = event\<rparr>) evs) events)"

subsection \<open>All families\<close>

datatype pool_family_write =
    RouterPlane extracted_plane_data
  | RouterPool extracted_pool_instance
  | FactoryPair extracted_factory_pair
  | ConfigPool extracted_config_pool
  | AddressList address_list_write

definition extract_pool_family_writes :: "entry_change list \<Rightarrow> pool_family_write list" where
  "extract_pool_family_writes changes =
     map RouterPlane (extract_plane_pool_data changes) @
     map RouterPool (extract_pool_instances changes) @
     map FactoryPair (extract_factory_pairs changes) @
     map ConfigPool (extract_config_pools changes) @
     map AddressList (extract_address_list_writes changes)"

end
