(* ===== verification/Process.thy ===== *)
theory Process
  imports PoolFamilies Operation Invocation AssetTransfers EventIds
begin

text \<open>
  One ledger from its close meta to the rows handed to persistence: \<open>ledger.rs\<close>, \<open>transaction.rs\<close>,
  the readers of the transaction set in \<open>envelope.rs\<close>, and \<open>parse_ledger\<close> of the indexer's
  \<open>process.rs\<close>, which runs every extractor over every transaction and folds what only the ledger
  can decide.  A ledger the parser panics on is \<open>None\<close>.  Encoding to XDR and hashing are
  third-party: a value the sources encode carries its encoding (nothing when it fails), and the
  hash of a tagged transaction is a parameter.
\<close>

subsection \<open>The close meta of a ledger\<close>

record ledger_header =
  lh_hash :: bytes
  lh_sequence :: "32 word"
  lh_close_time :: "64 word"
  lh_version :: "32 word"
  lh_base_fee :: "32 word"

record transaction_result =
  tr_fee_charged :: "64 word"
  tr_result :: tx_result
  tr_xdr :: "bytes option"

record result_meta =
  rm_hash :: bytes
  rm_result :: transaction_result
  rm_meta :: tx_meta
  rm_meta_xdr :: "bytes option"

text \<open>
  An envelope with its encoding and those of the transactions inside it: the body (a V0 body
  promoted to V1, as the network hashes it) and, in a fee bump, the inner body.
\<close>

record wire_envelope =
  we_env :: tx_envelope
  we_xdr :: "bytes option"
  we_body :: bytes
  we_inner_body :: bytes

datatype tagged_transaction = TaggedTx bytes | TaggedFeeBump bytes

type_synonym tx_hasher = "tagged_transaction \<Rightarrow> bytes \<Rightarrow> bytes"

datatype tx_phase =
    PhaseComponents "wire_envelope list list"
  | PhaseParallel "wire_envelope list list list"

datatype ledger_close_meta =
    CloseV0 ledger_header "wire_envelope list" "result_meta list"
  | CloseV1 ledger_header "tx_phase list" "result_meta list"
  | CloseV2 ledger_header "tx_phase list" "result_meta list"

fun ledger_header_entry :: "ledger_close_meta \<Rightarrow> ledger_header" where
  "ledger_header_entry (CloseV0 h _ _) = h"
| "ledger_header_entry (CloseV1 h _ _) = h"
| "ledger_header_entry (CloseV2 h _ _) = h"

fun tx_processing :: "ledger_close_meta \<Rightarrow> result_meta list" where
  "tx_processing (CloseV0 _ _ ps) = ps"
| "tx_processing (CloseV1 _ _ ps) = ps"
| "tx_processing (CloseV2 _ _ ps) = ps"

record extracted_ledger =
  xl_sequence :: nat
  xl_hash :: string
  xl_closed_at :: int
  xl_protocol_version :: int
  xl_transaction_count :: int
  xl_base_fee :: int

definition extract_ledger :: "xdr_ext \<Rightarrow> ledger_close_meta \<Rightarrow> extracted_ledger" where
  "extract_ledger x meta =
     (let header = ledger_header_entry meta;
          n = int (length (tx_processing meta))
      in \<lparr>xl_sequence = unat (lh_sequence header), xl_hash = x_hex x (lh_hash header),
          xl_closed_at = sint (lh_close_time header), xl_protocol_version = uint (lh_version header),
          xl_transaction_count = (if fits_u32 n then n else u32_max), xl_base_fee = uint (lh_base_fee header)\<rparr>)"

subsection \<open>Envelopes by hash\<close>

fun collect_phase_envelopes :: "tx_phase \<Rightarrow> wire_envelope list" where
  "collect_phase_envelopes (PhaseComponents components) = concat components"
| "collect_phase_envelopes (PhaseParallel stages) = concat (map concat stages)"

fun tx_set_envelopes :: "ledger_close_meta \<Rightarrow> wire_envelope list" where
  "tx_set_envelopes (CloseV0 _ txs _) = txs"
| "tx_set_envelopes (CloseV1 _ phases _) = concat (map collect_phase_envelopes phases)"
| "tx_set_envelopes (CloseV2 _ phases _) = concat (map collect_phase_envelopes phases)"

fun envelope_tag :: "tx_envelope \<Rightarrow> bytes \<Rightarrow> tagged_transaction" where
  "envelope_tag (EnvV0 _ _ _) body = TaggedTx body"
| "envelope_tag (EnvV1 _ _ _) body = TaggedTx body"
| "envelope_tag (EnvFeeBump _ _ _ _) body = TaggedFeeBump body"

definition tx_envelope_hash :: "tx_hasher \<Rightarrow> bytes \<Rightarrow> wire_envelope \<Rightarrow> bytes" where
  "tx_envelope_hash hash network_id env = hash (envelope_tag (we_env env) (we_body env)) network_id"

definition inner_tx_hash :: "tx_hasher \<Rightarrow> bytes \<Rightarrow> wire_envelope \<Rightarrow> bytes option" where
  "inner_tx_hash hash network_id env =
     (case we_env env of
        EnvFeeBump _ _ _ _ \<Rightarrow> Some (hash (TaggedTx (we_inner_body env)) network_id)
      | _ \<Rightarrow> None)"

definition meta_envelopes :: "tx_hasher \<Rightarrow> bytes \<Rightarrow> ledger_close_meta \<Rightarrow> wire_envelope option list" where
  "meta_envelopes hash network_id meta =
     extract_envelopes (tx_envelope_hash hash network_id) (tx_set_envelopes meta) (map rm_hash (tx_processing meta))"

subsection \<open>Transactions\<close>

record extracted_transaction =
  xt_hash :: string
  xt_inner_tx_hash :: "string option"
  xt_ledger_sequence :: nat
  xt_source_account :: string
  xt_source_muxed_id :: "int option"
  xt_fee_source :: "string option"
  xt_fee_charged :: int
  xt_successful :: bool
  xt_result_code :: string
  xt_envelope_xdr :: string
  xt_result_xdr :: string
  xt_result_meta_xdr :: "string option"
  xt_memo_type :: "string option"
  xt_memo :: "string option"
  xt_created_at :: int
  xt_operation_tree :: "json option"
  xt_parse_error :: bool
  xt_ledger_deltas :: "ledger_delta list"

fun is_successful :: "tx_result \<Rightarrow> bool" where
  "is_successful (TxSuccess _) = True"
| "is_successful (TxFeeBumpInnerSuccess _) = True"
| "is_successful _ = False"

fun tx_result_name :: "tx_result \<Rightarrow> string" where
  "tx_result_name (TxSuccess _) = ''TxSuccess''"
| "tx_result_name (TxFailed _) = ''TxFailed''"
| "tx_result_name (TxFeeBumpInnerSuccess _) = ''TxFeeBumpInnerSuccess''"
| "tx_result_name (TxFeeBumpInnerFailed _) = ''TxFeeBumpInnerFailed''"
| "tx_result_name (TxOther name) = name"

definition encode_xdr :: "xdr_ext \<Rightarrow> bytes option \<Rightarrow> string" where
  "encode_xdr x xdr = (case xdr of Some b \<Rightarrow> x_b64 x b | None \<Rightarrow> [])"

definition encode_xdr_opt :: "xdr_ext \<Rightarrow> bytes option \<Rightarrow> string option" where
  "encode_xdr_opt x xdr = map_option (x_b64 x) xdr"

definition extract_single_transaction ::
  "xdr_ext \<Rightarrow> tx_hasher \<Rightarrow> bytes \<Rightarrow> result_meta \<Rightarrow> wire_envelope option \<Rightarrow> nat \<Rightarrow> int \<Rightarrow> extracted_transaction" where
  "extract_single_transaction x hash network_id info envelope ledger_sequence closed_at =
     (let result = rm_result info;
          result_xdr = encode_xdr x (tr_xdr result);
          envelope_xdr = (case envelope of Some env \<Rightarrow> encode_xdr x (we_xdr env) | None \<Rightarrow> []);
          inner = map_option (\<lambda>env. inner_transaction (we_env env)) envelope;
          memo = (case inner of Some i \<Rightarrow> extract_memo x (inner_memo i) | None \<Rightarrow> (None, None))
      in \<lparr>xt_hash = x_hex x (rm_hash info),
          xt_inner_tx_hash = map_option (x_hex x) (Option.bind envelope (inner_tx_hash hash network_id)),
          xt_ledger_sequence = ledger_sequence,
          xt_source_account = (case envelope of Some env \<Rightarrow> envelope_source x (we_env env) | None \<Rightarrow> []),
          xt_source_muxed_id = Option.bind inner inner_source_muxed_id,
          xt_fee_source = Option.bind envelope (\<lambda>env. envelope_fee_source x (we_env env)),
          xt_fee_charged = sint (tr_fee_charged result),
          xt_successful = is_successful (tr_result result),
          xt_result_code = tx_result_name (tr_result result),
          xt_envelope_xdr = envelope_xdr, xt_result_xdr = result_xdr,
          xt_result_meta_xdr = encode_xdr_opt x (rm_meta_xdr info),
          xt_memo_type = fst memo, xt_memo = snd memo, xt_created_at = closed_at, xt_operation_tree = None,
          xt_parse_error = (envelope = None \<or> envelope_xdr = [] \<or> result_xdr = []),
          xt_ledger_deltas = ledger_balance_deltas x (rm_meta info)\<rparr>)"

definition extract_transactions ::
  "xdr_ext \<Rightarrow> tx_hasher \<Rightarrow> ledger_close_meta \<Rightarrow> nat \<Rightarrow> int \<Rightarrow> bytes \<Rightarrow> extracted_transaction list" where
  "extract_transactions x hash meta ledger_sequence closed_at network_id =
     (let envelopes = meta_envelopes hash network_id meta
      in map (\<lambda>(i, info).
               extract_single_transaction x hash network_id info (Option.bind (nth_opt envelopes i) id)
                 ledger_sequence closed_at)
           (List.enumerate 0 (tx_processing meta)))"

definition collect_tx_metas :: "ledger_close_meta \<Rightarrow> tx_meta list" where
  "collect_tx_metas meta = map rm_meta (tx_processing meta)"

definition collect_tx_results :: "ledger_close_meta \<Rightarrow> transaction_result list" where
  "collect_tx_results meta = map rm_result (tx_processing meta)"

subsection \<open>Everything one transaction contributes\<close>

text \<open>The parameters of all extractors.\<close>

record parse_ext =
  px_xdr :: xdr_ext
  px_strkey :: strkey_ext
  px_codec :: codec_ext
  px_entry :: entry_names
  px_op :: op_names
  px_hash :: tx_hasher
  px_spec :: "nat list \<Rightarrow> (spec_entry \<times> nat) option"

record parse_acc =
  pa_operations :: "(string \<times> extracted_operation list) list"
  pa_events :: "(string \<times> extracted_event list) list"
  pa_invocations :: "(string \<times> extracted_invocation list) list"
  pa_operation_trees :: "(string \<times> json) list"
  pa_programs :: "wasm_program list"
  pa_contract_instances :: "contract_instance list"
  pa_entry_changes :: "(string \<times> string \<times> entry_change list) list"
  pa_nft_events :: "nft_event list"
  pa_asset_transfers :: "asset_transfer list"
  pa_rejects :: reject_counts
  pa_parse_errors :: "nat list"

definition parse_acc_empty :: parse_acc where
  "parse_acc_empty =
     \<lparr>pa_operations = [], pa_events = [], pa_invocations = [], pa_operation_trees = [], pa_programs = [],
      pa_contract_instances = [], pa_entry_changes = [], pa_nft_events = [], pa_asset_transfers = [],
      pa_rejects = no_rejects, pa_parse_errors = []\<rparr>"

text \<open>The part of the loop's body that needs the transaction's meta.\<close>

definition parse_meta ::
  "parse_ext \<Rightarrow> bytes \<Rightarrow> int \<Rightarrow> ledger_events \<Rightarrow> nat \<Rightarrow> extracted_transaction \<Rightarrow> wire_envelope option \<Rightarrow>
   extracted_operation list option \<Rightarrow> tx_meta \<Rightarrow> parse_acc \<Rightarrow> parse_acc option" where
  "parse_meta p net_id closed_at le tx_index ext_tx envelope ops tm acc =
     do { extracted \<leftarrow> extract_events (px_xdr p) le tx_index (xt_hash ext_tx);
          interfaces \<leftarrow> extract_wasm_programs (px_xdr p) (px_spec p) tm;
          let events = te_events extracted;
          let edges = extract_asset_transfers (px_xdr p) (px_strkey p) events (unwrap_or ops [])
                        (xt_source_account ext_tx) (xt_source_muxed_id ext_tx) net_id;
          let invoked = map_option (\<lambda>env. extract_invocations (px_xdr p) (inner_transaction (we_env env)) (Some tm)
                        (xt_hash ext_tx) (xt_ledger_sequence ext_tx) closed_at (xt_source_account ext_tx)
                        (xt_successful ext_tx)) envelope;
          let tree = Option.bind invoked ir_operation_tree;
          let seq = int (xt_ledger_sequence ext_tx);
          let changes = extract_ledger_entry_changes (px_xdr p) (px_entry p) tm (xt_hash ext_tx) seq closed_at;
          Some (acc\<lparr>
            pa_nft_events := pa_nft_events acc @ detect_nft_events (px_xdr p) (px_strkey p) events net_id,
            pa_rejects := rejects_absorb (pa_rejects acc) (reject_counts_of edges),
            pa_asset_transfers := pa_asset_transfers acc @ tx_transfers edges,
            pa_events := pa_events acc @ [(xt_hash ext_tx, events)],
            pa_invocations := pa_invocations acc @
              (case invoked of Some r \<Rightarrow> [(xt_hash ext_tx, ir_invocations r)] | None \<Rightarrow> []),
            pa_operation_trees := pa_operation_trees acc @
              (case tree of Some t \<Rightarrow> [(xt_hash ext_tx, t)] | None \<Rightarrow> []),
            pa_programs := pa_programs acc @ interfaces,
            pa_contract_instances := pa_contract_instances acc @ extract_contract_instances (px_codec p) tm seq,
            pa_entry_changes := pa_entry_changes acc @ [(xt_hash ext_tx, xt_source_account ext_tx, changes)]\<rparr>) }"

definition parse_tx ::
  "parse_ext \<Rightarrow> bytes \<Rightarrow> int \<Rightarrow> ledger_events \<Rightarrow> wire_envelope option list \<Rightarrow> tx_meta list \<Rightarrow> transaction_result list \<Rightarrow>
   nat \<times> extracted_transaction \<Rightarrow> parse_acc \<Rightarrow> parse_acc option" where
  "parse_tx p net_id closed_at le envelopes tx_metas tx_results tx acc =
     (case tx of (tx_index, ext_tx) \<Rightarrow>
        if xt_parse_error ext_tx then Some (acc\<lparr>pa_parse_errors := pa_parse_errors acc @ [tx_index]\<rparr>)
        else
          let envelope = Option.bind (nth_opt envelopes tx_index) id;
              meta = nth_opt tx_metas tx_index;
              op_results = Option.bind (nth_opt tx_results tx_index) (\<lambda>r. tx_op_results (tr_result r));
              ops = map_option (\<lambda>env. extract_operations (px_xdr p) (px_op p) (inner_transaction (we_env env))
                                        meta op_results (xt_hash ext_tx)) envelope
          in do { acc \<leftarrow> (case meta of
                            Some tm \<Rightarrow> parse_meta p net_id closed_at le tx_index ext_tx envelope ops tm acc
                          | None \<Rightarrow> Some acc);
                  Some (acc\<lparr>pa_operations := pa_operations acc @
                    (case ops of Some os \<Rightarrow> [(xt_hash ext_tx, os)] | None \<Rightarrow> [])\<rparr>) })"

fun parse_txs ::
  "parse_ext \<Rightarrow> bytes \<Rightarrow> int \<Rightarrow> ledger_events \<Rightarrow> wire_envelope option list \<Rightarrow> tx_meta list \<Rightarrow> transaction_result list \<Rightarrow>
   (nat \<times> extracted_transaction) list \<Rightarrow> parse_acc \<Rightarrow> parse_acc option" where
  "parse_txs p net_id closed_at le envelopes tx_metas tx_results [] acc = Some acc"
| "parse_txs p net_id closed_at le envelopes tx_metas tx_results (tx # txs) acc =
     do { acc \<leftarrow> parse_tx p net_id closed_at le envelopes tx_metas tx_results tx acc;
          parse_txs p net_id closed_at le envelopes tx_metas tx_results txs acc }"

subsection \<open>The ledger\<close>

definition deployer_by_contract ::
  "parse_ext \<Rightarrow> bytes \<Rightarrow> wire_envelope option list \<Rightarrow> extracted_transaction list \<Rightarrow> string \<rightharpoonup> string" where
  "deployer_by_contract p net_id envelopes txs =
     foldl (\<lambda>m (c, d). m(c \<mapsto> d)) Map.empty
       (concat (filter_map (\<lambda>(i, ext_tx).
          if xt_parse_error ext_tx then None
          else map_option (\<lambda>env.
                 let inner = inner_transaction (we_env env)
                 in extract_op_source_per_contract (px_xdr p) (px_strkey p) inner
                      (inner_source_account (px_xdr p) inner) net_id)
               (Option.bind (nth_opt envelopes i) id))
        (List.enumerate 0 txs)))"

record parse_output =
  po_ledger :: extracted_ledger
  po_transactions :: "extracted_transaction list"
  po_operations :: "(string \<times> extracted_operation list) list"
  po_events :: "(string \<times> extracted_event list) list"
  po_invocations :: "(string \<times> extracted_invocation list) list"
  po_programs :: "wasm_program list"
  po_contract_deployments :: "contract_deployment list"
  po_account_states :: "account_state list"
  po_liquidity_pools :: "liquidity_pool list"
  po_pool_snapshots :: "pool_snapshot list"
  po_assets :: "extracted_asset list"
  po_nfts :: "extracted_nft list"
  po_nft_events :: "nft_ownership_event list"
  po_lp_positions :: "lp_position list"
  po_executable_ref_targets :: "executable_ref_target list"
  po_contract_instances :: "contract_instance list"
  po_soroban_token_balances :: "soroban_balance list"
  po_claimable_balances :: "claimable_balance list"
  po_pool_family_writes :: "pool_family_write list"
  po_operation_trees :: "(string \<times> json) list"
  po_tx_parse_errors :: "nat list"
  po_sac_overrides :: "string \<rightharpoonup> sac_override"
  po_asset_transfers :: "asset_transfer list"

text \<open>The second loop runs over the changes of every transaction; its vectors are concatenations.\<close>

definition over_changes :: "(entry_change list \<Rightarrow> 'a list) \<Rightarrow> parse_acc \<Rightarrow> 'a list" where
  "over_changes f acc = concat (map (\<lambda>(tx_hash, tx_source, changes). f changes) (pa_entry_changes acc))"

definition deployments_of ::
  "parse_ext \<Rightarrow> bytes \<Rightarrow> (string \<rightharpoonup> string) \<Rightarrow> string \<Rightarrow> entry_change list \<Rightarrow> contract_deployment list" where
  "deployments_of p net_id deployers tx_source changes =
     extract_contract_deployments (px_xdr p) (px_strkey p) changes tx_source net_id deployers"

definition parse_ledger :: "parse_ext \<Rightarrow> bytes \<Rightarrow> ledger_close_meta \<Rightarrow> parse_output option" where
  "parse_ledger p net_id meta =
     (let ledger = extract_ledger (px_xdr p) meta;
          closed_at = xl_closed_at ledger;
          txs = extract_transactions (px_xdr p) (px_hash p) meta (xl_sequence ledger) closed_at net_id;
          envelopes = meta_envelopes (px_hash p) net_id meta;
          tx_metas = collect_tx_metas meta;
          le = ledger_events_new (xl_sequence ledger) closed_at tx_metas
      in do {
        acc \<leftarrow> parse_txs p net_id closed_at le envelopes tx_metas (collect_tx_results meta)
                 (List.enumerate 0 txs) parse_acc_empty;
        let deployers = deployer_by_contract p net_id envelopes txs;
        Some \<lparr>po_ledger = ledger, po_transactions = txs, po_operations = pa_operations acc,
              po_events = pa_events acc, po_invocations = pa_invocations acc, po_programs = pa_programs acc,
              po_contract_deployments =
                concat (map (\<lambda>(h, src, ch). deployments_of p net_id deployers src ch) (pa_entry_changes acc)),
              po_account_states = over_changes extract_account_states acc,
              po_liquidity_pools = over_changes (\<lambda>ch. fst (extract_liquidity_pools ch)) acc,
              po_pool_snapshots =
                dedup_final_pool_snapshots (over_changes (\<lambda>ch. snd (extract_liquidity_pools ch)) acc),
              po_assets =
                concat (map (\<lambda>(h, src, ch). detect_assets (deployments_of p net_id deployers src ch) (pa_programs acc)
                                             @ detect_classic_credit_assets ch) (pa_entry_changes acc))
                @ [native_asset_singleton],
              po_nfts = detect_nfts (pa_nft_events acc),
              po_nft_events = extract_nft_ownership_events (pa_nft_events acc),
              po_lp_positions = over_changes extract_lp_positions acc,
              po_executable_ref_targets =
                over_changes (extract_executable_ref_targets (px_xdr p) (px_codec p)) acc,
              po_contract_instances = pa_contract_instances acc,
              po_soroban_token_balances = over_changes extract_soroban_token_balances acc,
              po_claimable_balances = over_changes (extract_claimable_balances (px_xdr p) (px_codec p)) acc,
              po_pool_family_writes = over_changes extract_pool_family_writes acc,
              po_operation_trees = pa_operation_trees acc, po_tx_parse_errors = pa_parse_errors acc,
              po_sac_overrides =
                detect_undeployed_sac_overrides (px_xdr p) (px_strkey p) (pa_events acc) net_id,
              po_asset_transfers = pa_asset_transfers acc\<rparr> })"

end
