(* ===== verification/WasmFacts.thy ===== *)
theory WasmFacts
  imports Wasm
begin

text \<open>
  The WASM reader against the binary format: a module written section by section is read back,
  its custom section by name and its upgrade import wherever it stands among the imports.
\<close>

unbundle bit_operations_syntax

subsection \<open>Variable-length integers\<close>

fun leb128 :: "nat \<Rightarrow> nat list" where
  "leb128 n = (if n < 128 then [n] else (128 + n mod 128) # leb128 (n div 128))"

declare leb128.simps [simp del]

lemma byte_high_bit: "b < 128 \<Longrightarrow> b AND 0x80 = 0" "128 \<le> b \<Longrightarrow> b < 256 \<Longrightarrow> b AND 0x80 \<noteq> (0 :: nat)"
proof -
  have iff: "b AND 0x80 = 0 \<longleftrightarrow> even (b div 128)" for b :: nat
    using and_exp_eq_0_iff_not_bit [of b 7] by (simp add: bit_iff_odd)
  show "b < 128 \<Longrightarrow> b AND 0x80 = 0" by (simp add: iff)
  assume "128 \<le> b" and "b < 256"
  then have "b div 128 = 1" by (intro div_nat_eqI) simp_all
  then show "b AND 0x80 \<noteq> 0" by (simp add: iff)
qed

lemma low_bits: "(of_nat b AND 0x7F :: 32 word) = of_nat (b mod 128)"
proof -
  have "(of_nat b AND mask 7 :: 32 word) = of_nat (take_bit 7 b)"
    by (simp only: take_bit_eq_mask [symmetric] take_bit_of_nat)
  then show ?thesis by (simp add: mask_eq_exp_minus_1 take_bit_eq_mod)
qed

lemma or_shifted:
  fixes r :: "32 word"
  assumes "unat r < 2 ^ s" and "m * 2 ^ s < 2 ^ 32"
  shows "unat (r OR push_bit s (of_nat m)) = unat r + m * 2 ^ s"
proof -
  have p: "push_bit s (of_nat m :: 32 word) = of_nat (m * 2 ^ s)" by (simp add: push_bit_eq_mult)
  have "take_bit s (unat r) = unat r" using assms(1) by (simp add: take_bit_nat_eq_self)
  then have "take_bit s r = r" by (metis unsigned_take_bit_eq word_unat_eq_iff)
  then have "r AND push_bit s (of_nat m) = 0"
  proof -
    assume t: "take_bit s r = r"
    show ?thesis
    proof (rule bit_word_eqI)
      fix n
      have "bit r n \<Longrightarrow> n < s" by (subst (asm) t [symmetric]) (simp add: bit_take_bit_iff)
      then show "bit (r AND push_bit s (of_nat m)) n = bit (0 :: 32 word) n"
        by (auto simp: bit_and_iff bit_push_bit_iff)
    qed
  qed
  then have "r OR push_bit s (of_nat m) = r + push_bit s (of_nat m)"
    by (metis add.right_neutral word_plus_and_or add.commute)
  moreover have "unat r + m * 2 ^ s < 2 ^ 32"
  proof (cases "m = 0")
    case True
    then show ?thesis using unsigned_less [of r, where 'a = nat] by simp
  next
    case False
    have s: "s < 32"
    proof (rule ccontr)
      assume "\<not> s < 32"
      then have "(2 :: nat) ^ 32 \<le> 2 ^ s" by (intro power_increasing) auto
      moreover have "1 * 2 ^ s \<le> m * 2 ^ s" using False by (intro mult_le_mono1) simp
      ultimately show False using assms(2) by linarith
    qed
    have "m * 2 ^ s \<le> 2 ^ 32 - 2 ^ s"
    proof -
      have "(2 :: nat) ^ 32 = 2 ^ (32 - s) * 2 ^ s" using s by (simp add: power_add [symmetric])
      then have "m * 2 ^ s < 2 ^ (32 - s) * 2 ^ s" using assms(2) by linarith
      then have "m < 2 ^ (32 - s)" by (rule mult_less_cancel2 [THEN iffD1, THEN conjunct2])
      then have "m + 1 \<le> 2 ^ (32 - s)" by simp
      then have "(m + 1) * 2 ^ s \<le> 2 ^ (32 - s) * 2 ^ s" by (rule mult_le_mono1)
      also have "\<dots> = 2 ^ 32" using s by (simp add: power_add [symmetric])
      finally show ?thesis by (simp add: algebra_simps)
    qed
    moreover have "(2 :: nat) ^ s \<le> 2 ^ 32" using s by (intro power_increasing) auto
    ultimately show ?thesis using assms(1) by linarith
  qed
  moreover have "unat (of_nat (m * 2 ^ s) :: 32 word) = m * 2 ^ s"
    using assms(2) by (simp only: unat_of_nat) simp
  ultimately show ?thesis
    by (simp only: p unat_word_ariths(1)) simp
qed

lemma read_leb128_from_leb128:
  "unat r < 2 ^ s \<Longrightarrow> n * 2 ^ s < 2 ^ 32 \<Longrightarrow> s < 35 \<Longrightarrow>
     read_leb128_from (leb128 n @ rest) i s r = Some (unat r + n * 2 ^ s, i + length (leb128 n))"
proof (induction n arbitrary: r s i rule: leb128.induct)
  case (1 n)
  show ?case
  proof (cases "n < 128")
    case True
    then show ?thesis using 1(2-4)
      by (simp add: leb128.simps [of n] low_bits byte_high_bit or_shifted Let_def)
  next
    case False
    let ?b = "128 + n mod 128"
    let ?r = "r OR push_bit s (of_nat (n mod 128))"
    have le: "n mod 128 * 2 ^ s \<le> n * 2 ^ s" by (intro mult_le_mono1) simp
    then have r: "unat ?r = unat r + n mod 128 * 2 ^ s" using 1(2,3) by (intro or_shifted) linarith+
    have split: "n * 2 ^ s = n mod 128 * 2 ^ s + n div 128 * 2 ^ (s + 7)"
    proof -
      have "n * 2 ^ s = (n div 128 * 128 + n mod 128) * 2 ^ s" by simp
      then show ?thesis by (simp only: add_mult_distrib power_add) simp
    qed
    have "unat ?r < 2 ^ (s + 7)"
    proof -
      have "n mod 128 + 1 \<le> 128" by (simp add: Suc_le_eq)
      then have "(n mod 128 + 1) * 2 ^ s \<le> 128 * 2 ^ s" by (rule mult_le_mono1)
      then have "2 ^ s + n mod 128 * 2 ^ s \<le> 128 * 2 ^ s" by (simp only: add_mult_distrib mult_1 add.commute)
      moreover have "2 ^ (s + 7) = 128 * (2 :: nat) ^ s" by (simp add: power_add)
      ultimately show ?thesis using 1(2) r by linarith
    qed
    moreover have "n div 128 * 2 ^ (s + 7) < 2 ^ 32" using 1(3) split by linarith
    moreover have "s + 7 < 35"
    proof (rule ccontr)
      assume "\<not> s + 7 < 35"
      then have "(2 :: nat) ^ 28 \<le> 2 ^ s" by (intro power_increasing) auto
      then have "128 * 2 ^ 28 \<le> n * 2 ^ s" using False by (intro mult_le_mono) auto
      with 1(3) show False by simp
    qed
    ultimately have "read_leb128_from (leb128 (n div 128) @ rest) (i + 1) (s + 7) ?r =
        Some (unat ?r + n div 128 * 2 ^ (s + 7), i + 1 + length (leb128 (n div 128)))"
      by (rule 1(1) [OF False])
    moreover have "?b mod 128 = n mod 128" "?b AND 0x80 \<noteq> 0" using byte_high_bit(2) [of ?b] by simp_all
    moreover have "leb128 n = ?b # leb128 (n div 128)" using False by (subst leb128.simps) simp
    moreover have "\<not> 35 \<le> s" using 1(4) by simp
    ultimately have "read_leb128_from (leb128 n @ rest) i s r =
        Some (unat ?r + n div 128 * 2 ^ (s + 7), i + 1 + length (leb128 (n div 128)))"
      by (simp only: append_Cons read_leb128_from.simps low_bits Let_def if_False)
    then show ?thesis using r split \<open>leb128 n = ?b # leb128 (n div 128)\<close> by simp
  qed
qed

lemma read_leb128_leb128: "n < 2 ^ 32 \<Longrightarrow> read_leb128 (leb128 n @ rest) = Some (n, length (leb128 n))"
  using read_leb128_from_leb128 [of 0 0 n rest 0] by (simp add: read_leb128_def)

subsection \<open>Modules\<close>

datatype wasm_section =
    CustomSection "nat list" "nat list"
  | PlainSection nat "nat list"

fun section_bytes :: "wasm_section \<Rightarrow> nat list" where
  "section_bytes (CustomSection name content) =
     0 # leb128 (length (leb128 (length name)) + length name + length content) @
       leb128 (length name) @ name @ content"
| "section_bytes (PlainSection i content) = i # leb128 (length content) @ content"

fun section_ok :: "wasm_section \<Rightarrow> bool" where
  "section_ok (CustomSection name content) \<longleftrightarrow>
     length (leb128 (length name)) + length name + length content < 2 ^ 32 \<and> valid_utf8_bytes name"
| "section_ok (PlainSection i content) \<longleftrightarrow> i \<noteq> 0 \<and> length content < 2 ^ 32"

definition wasm_module :: "wasm_section list \<Rightarrow> nat list" where
  "wasm_module ss = wasm_magic @ [1, 0, 0, 0] @ concat (map section_bytes ss)"

fun custom_named :: "string \<Rightarrow> wasm_section list \<Rightarrow> nat list option" where
  "custom_named nm [] = None"
| "custom_named nm (CustomSection n c # ss) = (if n = ascii_bytes nm then Some c else custom_named nm ss)"
| "custom_named nm (PlainSection _ _ # ss) = custom_named nm ss"

lemma get_from_append [simp]: "get_from (pre @ xs) (length pre + k) = (if k \<le> length xs then Some (drop k xs) else None)"
  by (simp add: get_from_def)

lemma leb128_length_pos: "0 < length (leb128 n)"
  by (subst leb128.simps) simp

lemma plain_section_step:
  assumes "section_ok (PlainSection i c)"
  shows "custom_section_step (pre @ section_bytes (PlainSection i c) @ rest) nm (length pre) =
           SecNext (length pre + length (section_bytes (PlainSection i c)))"
proof -
  have "read_leb128 (leb128 (length c) @ c @ rest) = Some (length c, length (leb128 (length c)))"
    using assms by (intro read_leb128_leb128) simp
  then show ?thesis
    using assms get_from_append [of pre "section_bytes (PlainSection i c) @ rest" 1]
    by (simp add: custom_section_step_def nth_append)
qed

lemma custom_section_step_at:
  assumes "section_ok (CustomSection n c)"
  shows "custom_section_step (pre @ section_bytes (CustomSection n c) @ rest) nm (length pre) =
           (if n = ascii_bytes nm then SecStop (Some c)
            else SecNext (length pre + length (section_bytes (CustomSection n c))))"
proof -
  let ?L = "leb128 (length n)"
  let ?S = "leb128 (length ?L + length n + length c)"
  let ?w = "pre @ section_bytes (CustomSection n c) @ rest"
  have s: "read_leb128 (?S @ ?L @ n @ c @ rest) = Some (length ?L + length n + length c, length ?S)"
    using assms by (intro read_leb128_leb128) simp
  have l: "read_leb128 (?L @ n @ c @ rest) = Some (length n, length ?L)"
    using assms by (intro read_leb128_leb128) simp
  have g1: "get_from ?w (length pre + 1) = Some (?S @ ?L @ n @ c @ rest)"
    by (simp add: get_from_def)
  have g2: "get_from ?w (length pre + 1 + length ?S) = Some (?L @ n @ c @ rest)"
    by (simp add: get_from_def)
  have d: "drop (length pre + 1 + length ?S + length ?L) ?w = n @ c @ rest"
    by simp
  have d2: "drop (length pre + 1 + length ?S + length ?L + length n) ?w = c @ rest"
    by simp
  have len: "length ?w = length pre + 1 + length ?S + length ?L + length n + length c + length rest" by simp
  have z: "?w ! length pre = 0" by (simp add: nth_append)
  have h: "checked_sub_nat (length ?L + length n + length c)
      (length pre + 1 + length ?S + length ?L + length n - (length pre + 1 + length ?S)) = Some (length c)"
    by (simp add: checked_sub_nat_def)
  have u: "valid_utf8_bytes n" using assms by simp
  show ?thesis
    unfolding custom_section_step_def Let_def z g1 bind.bind_lunit s option.case prod.case if_True g2 l len d d2 h
    by (simp add: u)
qed

lemma custom_section_loop_module:
  assumes "list_all section_ok ss"
  shows "custom_section_loop (pre @ concat (map section_bytes ss)) nm (length pre) = custom_named nm ss"
  using assms
proof (induction ss arbitrary: pre)
  case Nil
  then show ?case by (subst custom_section_loop.simps) simp
next
  case (Cons s ss)
  let ?w = "pre @ section_bytes s @ concat (map section_bytes ss)"
  have ok: "section_ok s" and "list_all section_ok ss" using Cons.prems by simp_all
  then have IH: "custom_section_loop ?w nm (length (pre @ section_bytes s)) = custom_named nm ss"
    using Cons.IH [of "pre @ section_bytes s"] by simp
  have "0 < length (section_bytes s)" by (cases s) simp_all
  then have "custom_section_loop ?w nm (length pre) =
      (case custom_section_step ?w nm (length pre) of
         SecStop r \<Rightarrow> r | SecNext pos' \<Rightarrow> custom_section_loop ?w nm pos')"
    by (subst custom_section_loop.simps) simp
  also have "\<dots> = custom_named nm (s # ss)"
  proof (cases s)
    case (CustomSection n c)
    then show ?thesis
      using custom_section_step_at [OF ok [unfolded CustomSection], of pre _ nm] IH by simp
  next
    case (PlainSection i c)
    then show ?thesis
      using plain_section_step [OF ok [unfolded PlainSection], of pre _ nm] IH by simp
  qed
  finally show ?case by simp
qed

subsection \<open>Imports\<close>

datatype wasm_limits = Limits1 nat nat | Limits2 nat nat

fun limits_bytes :: "wasm_limits \<Rightarrow> nat list" where
  "limits_bytes (Limits1 flag lo) = flag # leb128 lo"
| "limits_bytes (Limits2 lo hi) = 1 # leb128 lo @ leb128 hi"

fun limits_ok :: "wasm_limits \<Rightarrow> bool" where
  "limits_ok (Limits1 flag lo) \<longleftrightarrow> flag \<noteq> 1 \<and> lo < 2 ^ 32"
| "limits_ok (Limits2 lo hi) \<longleftrightarrow> lo < 2 ^ 32 \<and> hi < 2 ^ 32"

datatype import_desc =
    ImportFunc nat
  | ImportTable nat wasm_limits
  | ImportMemory wasm_limits
  | ImportGlobal nat nat

fun desc_bytes :: "import_desc \<Rightarrow> nat list" where
  "desc_bytes (ImportFunc i) = 0 # leb128 i"
| "desc_bytes (ImportTable t l) = 1 # t # limits_bytes l"
| "desc_bytes (ImportMemory l) = 2 # limits_bytes l"
| "desc_bytes (ImportGlobal t m) = [3, t, m]"

fun desc_ok :: "import_desc \<Rightarrow> bool" where
  "desc_ok (ImportFunc i) \<longleftrightarrow> i < 2 ^ 32"
| "desc_ok (ImportTable t l) \<longleftrightarrow> limits_ok l"
| "desc_ok (ImportMemory l) \<longleftrightarrow> limits_ok l"
| "desc_ok (ImportGlobal t m) \<longleftrightarrow> True"

record wasm_import =
  im_module :: "nat list"
  im_field :: "nat list"
  im_desc :: import_desc

definition import_bytes :: "wasm_import \<Rightarrow> nat list" where
  "import_bytes im = leb128 (length (im_module im)) @ im_module im @
     leb128 (length (im_field im)) @ im_field im @ desc_bytes (im_desc im)"

definition import_ok :: "wasm_import \<Rightarrow> bool" where
  "import_ok im \<longleftrightarrow> length (im_module im) < 2 ^ 32 \<and> length (im_field im) < 2 ^ 32 \<and> desc_ok (im_desc im)"

definition import_section :: "wasm_import list \<Rightarrow> nat list" where
  "import_section ims = leb128 (length ims) @ concat (map import_bytes ims)"

definition is_upgrade_import :: "wasm_import \<Rightarrow> bool" where
  "is_upgrade_import im \<longleftrightarrow>
     im_module im = ascii_bytes ''l'' \<and> im_field im = ascii_bytes ''6'' \<and> (\<exists>i. im_desc im = ImportFunc i)"

lemma skip_limits_at:
  assumes "limits_ok l"
  shows "skip_limits (pre @ limits_bytes l @ rest) (length pre) = Some (length pre + length (limits_bytes l))"
proof (cases l)
  case (Limits1 flag lo)
  then have "read_leb128 (leb128 lo @ rest) = Some (lo, length (leb128 lo))"
    using assms by (intro read_leb128_leb128) simp
  then show ?thesis
    using Limits1 assms get_from_append [of pre "flag # leb128 lo @ rest" 1]
    by (simp add: skip_limits_def byte_at_def nth_opt_def nth_append)
next
  case (Limits2 lo hi)
  let ?w = "pre @ limits_bytes l @ rest"
  have a: "read_leb128 (leb128 lo @ leb128 hi @ rest) = Some (lo, length (leb128 lo))"
    and b: "read_leb128 (leb128 hi @ rest) = Some (hi, length (leb128 hi))"
    using assms Limits2 by (auto intro: read_leb128_leb128)
  have g: "get_from ?w (length pre + 1) = Some (leb128 lo @ leb128 hi @ rest)"
    "get_from ?w (length pre + 1 + length (leb128 lo)) = Some (leb128 hi @ rest)"
    using Limits2 by (simp_all add: get_from_def)
  have z: "byte_at ?w (length pre) = Some 1" using Limits2 by (simp add: byte_at_def nth_opt_def nth_append)
  show ?thesis
    unfolding skip_limits_def z option.case Let_def g(1) bind.bind_lunit a prod.case g(2) b
    using Limits2 by simp
qed

lemma import_kind:
  assumes "desc_ok d" and "w = pre @ desc_bytes d @ rest"
  shows "(case byte_at w (length pre) of
            None \<Rightarrow> False
          | Some kind \<Rightarrow>
              if kind = 0 then
                (if up then True
                 else (case read_leb128 (rest_or_empty w (length pre + 1)) of
                         None \<Rightarrow> False
                       | Some (_, br) \<Rightarrow> import_loop count w (length pre + 1 + br)))
              else if kind = 1 then
                (case skip_limits w (length pre + 2) of
                   None \<Rightarrow> False | Some np \<Rightarrow> import_loop count w np)
              else if kind = 2 then
                (case skip_limits w (length pre + 1) of
                   None \<Rightarrow> False | Some np \<Rightarrow> import_loop count w np)
              else if kind = 3 then import_loop count w (length pre + 3)
              else False) =
         (if up \<and> (\<exists>i. d = ImportFunc i) then True else import_loop count w (length pre + length (desc_bytes d)))"
proof (cases d)
  case (ImportFunc i)
  then have "read_leb128 (leb128 i @ rest) = Some (i, length (leb128 i))"
    using assms by (intro read_leb128_leb128) simp
  then show ?thesis
    using ImportFunc assms get_from_append [of pre "0 # leb128 i @ rest" 1]
    by (simp add: byte_at_def nth_opt_def nth_append rest_or_empty_def)
next
  case (ImportTable t l)
  then have "skip_limits w (length pre + 2) = Some (length pre + length (desc_bytes d))"
    using assms skip_limits_at [of l "pre @ [1, t]" rest] by simp
  moreover have "byte_at w (length pre) = Some 1"
    using ImportTable assms by (simp add: byte_at_def nth_opt_def nth_append)
  ultimately show ?thesis using ImportTable by simp
next
  case (ImportMemory l)
  then have "skip_limits w (length pre + 1) = Some (length pre + length (desc_bytes d))"
    using assms skip_limits_at [of l "pre @ [2]" rest] by simp
  moreover have "byte_at w (length pre) = Some 2"
    using ImportMemory assms by (simp add: byte_at_def nth_opt_def nth_append)
  ultimately show ?thesis using ImportMemory by simp
next
  case (ImportGlobal t m)
  then show ?thesis using assms by (simp add: byte_at_def nth_opt_def nth_append numeral_3_eq_3)
qed

lemma import_step:
  assumes "import_ok im" and "w = pre @ import_bytes im @ rest"
  shows "import_loop (Suc count) w (length pre) =
           (if is_upgrade_import im then True else import_loop count w (length pre + length (import_bytes im)))"
proof -
  obtain m f d where im: "im = \<lparr>im_module = m, im_field = f, im_desc = d\<rparr>" by (cases im)
  let ?M = "leb128 (length m)" and ?F = "leb128 (length f)" and ?D = "desc_bytes d"
  have w: "w = pre @ ?M @ m @ ?F @ f @ ?D @ rest" using assms(2) by (simp add: im import_bytes_def)
  have rm: "read_leb128 (rest_or_empty w (length pre)) = Some (length m, length ?M)"
    using assms(1) by (simp add: w rest_or_empty_def get_from_def im import_ok_def read_leb128_leb128)
  have gm: "get_range w (length pre + length ?M) (length pre + length ?M + length m) = Some m"
    by (simp add: w get_range_def)
  have rf: "read_leb128 (rest_or_empty w (length pre + length ?M + length m)) = Some (length f, length ?F)"
    using assms(1) by (simp add: w rest_or_empty_def get_from_def im import_ok_def read_leb128_leb128)
  let ?pre = "pre @ ?M @ m @ ?F @ f"
  have gf: "get_range w (length pre + length ?M + length m + length ?F) (length ?pre) = Some f"
    by (simp add: w get_range_def)
  have len: "length pre + length ?M + length m + length ?F + length f = length ?pre" by simp
  have d: "desc_ok d" using assms(1) by (simp add: im import_ok_def)
  have w': "w = ?pre @ ?D @ rest" by (simp add: w)
  have up: "is_upgrade_import im \<longleftrightarrow> (m = ascii_bytes ''l'' \<and> f = ascii_bytes ''6'') \<and> (\<exists>i. d = ImportFunc i)"
    by (simp add: im is_upgrade_import_def)
  have tot: "length pre + length (import_bytes im) = length ?pre + length ?D"
    by (simp add: im import_bytes_def)
  show ?thesis
    unfolding import_loop.simps rm option.case prod.case Let_def gm rf len gf up tot
    by (rule import_kind [OF d w'])
qed

lemma import_loop_all:
  assumes "list_all import_ok ims"
  shows "import_loop (length ims) (pre @ concat (map import_bytes ims)) (length pre) = list_ex is_upgrade_import ims"
  using assms
proof (induction ims arbitrary: pre)
  case (Cons im ims)
  have "import_loop (length ims) ((pre @ import_bytes im) @ concat (map import_bytes ims))
      (length (pre @ import_bytes im)) = list_ex is_upgrade_import ims"
    using Cons.IH [of "pre @ import_bytes im"] Cons.prems by simp
  moreover have "import_loop (Suc (length ims)) (pre @ import_bytes im @ concat (map import_bytes ims)) (length pre) =
      (if is_upgrade_import im then True
       else import_loop (length ims) (pre @ import_bytes im @ concat (map import_bytes ims))
              (length pre + length (import_bytes im)))"
    using Cons.prems by (intro import_step) simp_all
  ultimately show ?case by (simp del: import_loop.simps)
qed simp

lemma import_section_upgrade:
  assumes "list_all import_ok ims" and "length ims < 2 ^ 32"
  shows "import_section_has_upgrade (import_section ims) = list_ex is_upgrade_import ims"
  using import_loop_all [OF assms(1), of "leb128 (length ims)"] read_leb128_leb128 [OF assms(2)]
  by (simp add: import_section_has_upgrade_def import_section_def)

text \<open>A module declares its imports in one section of their own, and no other section has its number.\<close>

definition declares_imports :: "wasm_section list \<Rightarrow> wasm_import list \<Rightarrow> bool" where
  "declares_imports ss ims \<longleftrightarrow>
     (case find (\<lambda>s. case s of PlainSection i c \<Rightarrow> i = 2 | _ \<Rightarrow> False) ss of
        None \<Rightarrow> ims = []
      | Some (PlainSection _ c) \<Rightarrow> c = import_section ims
      | Some (CustomSection _ _) \<Rightarrow> False)"

lemma imports_upgrade_loop_module:
  assumes "list_all section_ok ss" and "declares_imports ss ims" and "list_all import_ok ims" and "length ims < 2 ^ 32"
  shows "imports_upgrade_loop (pre @ concat (map section_bytes ss)) (length pre) = Some (list_ex is_upgrade_import ims)"
  using assms(1,2)
proof (induction ss arbitrary: pre)
  case Nil
  then show ?case by (subst imports_upgrade_loop.simps) (simp add: declares_imports_def)
next
  case (Cons s ss)
  define i body size where "i = (case s of CustomSection _ _ \<Rightarrow> 0 | PlainSection i _ \<Rightarrow> i)"
    and "body = (case s of CustomSection n c \<Rightarrow> leb128 (length n) @ n @ c | PlainSection _ c \<Rightarrow> c)"
    and "size = length body"
  have s: "section_bytes s = i # leb128 size @ body"
    by (cases s) (simp_all add: i_def body_def size_def add.assoc)
  let ?rest = "concat (map section_bytes ss)"
  let ?w = "pre @ section_bytes s @ ?rest"
  have "size < 2 ^ 32" using Cons.prems(1) by (cases s) (simp_all add: size_def body_def add.assoc)
  then have r: "read_leb128 (leb128 size @ body @ ?rest) = Some (size, length (leb128 size))"
    by (rule read_leb128_leb128)
  have b: "byte_at ?w (length pre) = Some i" by (simp add: s byte_at_def nth_opt_def nth_append)
  have g: "get_from ?w (length pre + 1) = Some (leb128 size @ body @ ?rest)" by (simp add: s get_from_def)
  have lt: "length pre < length ?w" by (simp add: s)
  have e: "length pre + 1 + length (leb128 size) + size = length (pre @ section_bytes s)" by (simp add: s size_def)
  have step: "imports_upgrade_loop ?w (length pre) =
      (if i = 2 then map_option import_section_has_upgrade
           (get_range ?w (length pre + 1 + length (leb128 size)) (min (length (pre @ section_bytes s)) (length ?w)))
       else imports_upgrade_loop ?w (length (pre @ section_bytes s)))"
    by (subst imports_upgrade_loop.simps)
      (simp only: lt if_True b option.case g bind.bind_lunit r prod.case Let_def e)
  show ?case
  proof (cases "i = 2")
    case True
    then obtain c where c: "s = PlainSection 2 c" by (cases s) (auto simp: i_def)
    then have "c = import_section ims" using Cons.prems(2) by (simp add: declares_imports_def)
    moreover have "get_range ?w (length pre + 1 + length (leb128 size))
        (min (length (pre @ section_bytes s)) (length ?w)) = Some c"
      using c by (simp add: s get_range_def body_def size_def)
    ultimately show ?thesis using step True import_section_upgrade [OF assms(3,4)] by simp
  next
    case False
    then have "declares_imports ss ims"
      using Cons.prems(2) by (cases s) (simp_all add: declares_imports_def i_def)
    then have "imports_upgrade_loop ((pre @ section_bytes s) @ ?rest) (length (pre @ section_bytes s)) =
        Some (list_ex is_upgrade_import ims)"
      using Cons.IH [of "pre @ section_bytes s"] Cons.prems(1) by simp
    then show ?thesis using step False by simp
  qed
qed

subsection \<open>Properties\<close>

text \<open>C14. The reader gets out of a WASM module what was written into it: from any well-formed module,
  section by section, it takes the contents of the first custom section of a name, and it finds
  the program upgradeable exactly when the declared imports hold a function \<open>6\<close> of module
  \<open>l\<close>, whatever kinds of imports and sections stand before it.\<close>

theorem wasm_module_read:
  assumes "list_all section_ok ss" and "declares_imports ss ims" and "list_all import_ok ims" and "length ims < 2 ^ 32"
  shows "extract_custom_section (wasm_module ss) nm = custom_named nm ss \<and>
         (wasm_imports_upgrade_fn (wasm_module ss) \<longleftrightarrow> list_ex is_upgrade_import ims)"
proof -
  let ?pre = "wasm_magic @ [1, 0, 0, 0]"
  have m: "wasm_module ss = ?pre @ concat (map section_bytes ss)" "length ?pre = 8"
    "take 4 (wasm_module ss) = wasm_magic" "\<not> length (wasm_module ss) < 8"
    by (simp_all add: wasm_module_def wasm_magic_def)
  show ?thesis
    using custom_section_loop_module [OF assms(1), of ?pre nm] imports_upgrade_loop_module [OF assms, of ?pre]
    unfolding m(1) [symmetric] m(2)
    by (simp add: extract_custom_section_def wasm_imports_upgrade_fn_def imports_upgrade_inner_def m(3,4))
qed

definition sample_imports :: "wasm_import list" where
  "sample_imports =
     [\<lparr>im_module = ascii_bytes ''env'', im_field = ascii_bytes ''mem'', im_desc = ImportMemory (Limits2 1 300)\<rparr>,
      \<lparr>im_module = ascii_bytes ''l'', im_field = ascii_bytes ''6'', im_desc = ImportFunc 0\<rparr>]"

definition sample_module :: "wasm_section list" where
  "sample_module = [PlainSection 2 (import_section sample_imports), CustomSection (ascii_bytes ''name'') [7],
                    CustomSection (ascii_bytes ''contractspecv0'') [1, 2, 3]]"

theorem wasm_module_read_witness:
  "extract_custom_section (wasm_module sample_module) ''contractspecv0'' = Some [1, 2, 3] \<and>
   wasm_imports_upgrade_fn (wasm_module sample_module)"
proof -
  have "length (import_section sample_imports) < 2 ^ 32"
    by (simp add: import_section_def sample_imports_def import_bytes_def ascii_bytes_def leb128.simps)
  then have "list_all section_ok sample_module"
    by (simp add: sample_module_def ascii_bytes_def leb128.simps)
  moreover have "declares_imports sample_module sample_imports"
    by (simp add: declares_imports_def sample_module_def)
  moreover have "list_all import_ok sample_imports" "length sample_imports < 2 ^ 32"
    by (simp_all add: sample_imports_def import_ok_def ascii_bytes_def)
  ultimately show ?thesis
    using wasm_module_read [of sample_module sample_imports "''contractspecv0''"]
    by (simp add: sample_module_def sample_imports_def is_upgrade_import_def ascii_bytes_def)
qed

end
