(* ===== verification/ProcessFacts.thy ===== *)
theory ProcessFacts
  imports Process WasmFacts
begin

text \<open>
  What \<open>parse_ledger\<close> promises for a whole ledger: it returns, every transaction of the ledger is
  either a recorded parse error or contributes its rows, in the order of processing, events keep
  their unique ids, and each transaction is read from the envelope whose hash it has.
\<close>

subsection \<open>The loop over the transactions\<close>

text \<open>The transactions the loop does not skip, with their positions.\<close>

definition parsed :: "(nat \<times> extracted_transaction) list \<Rightarrow> (nat \<times> extracted_transaction) list" where
  "parsed txs = filter (\<lambda>(i, t). \<not> xt_parse_error t) txs"

definition events_row :: "parse_ext \<Rightarrow> ledger_events \<Rightarrow> nat \<times> extracted_transaction \<Rightarrow> string \<times> extracted_event list" where
  "events_row p le = (\<lambda>(i, t). (xt_hash t, te_events (the (extract_events (px_xdr p) le i (xt_hash t)))))"

lemma parsed_simps [simp]:
  "parsed [] = []" "parsed ((i, t) # txs) = (if xt_parse_error t then parsed txs else (i, t) # parsed txs)"
  by (simp_all add: parsed_def)

lemma parse_meta_Some:
  assumes "parse_meta p net c le i t env ops tm acc = Some acc'"
  shows "pa_events acc' = pa_events acc @ [events_row p le (i, t)]"
    and "map fst (pa_entry_changes acc') = map fst (pa_entry_changes acc) @ [xt_hash t]"
    and "pa_operations acc' = pa_operations acc"
    and "pa_parse_errors acc' = pa_parse_errors acc"
  using assms by (auto simp: parse_meta_def events_row_def Let_def split: Option.bind_splits)

lemma parse_tx_Some:
  assumes "parse_tx p net c le envs metas rs (i, t) acc = Some acc'"
    and "i < length metas" and "i < length envs" and "xt_parse_error t \<or> envs ! i \<noteq> None"
  shows "pa_events acc' = pa_events acc @ map (events_row p le) (parsed [(i, t)])"
    and "map fst (pa_entry_changes acc') = map fst (pa_entry_changes acc) @ map (\<lambda>(i, t). xt_hash t) (parsed [(i, t)])"
    and "map fst (pa_operations acc') = map fst (pa_operations acc) @ map (\<lambda>(i, t). xt_hash t) (parsed [(i, t)])"
    and "pa_parse_errors acc' = pa_parse_errors acc @ (if xt_parse_error t then [i] else [])"
proof -
  have "(xt_parse_error t \<and> acc' = acc\<lparr>pa_parse_errors := pa_parse_errors acc @ [i]\<rparr>) \<or>
        (\<not> xt_parse_error t \<and> (\<exists>env ops acc1 os. parse_meta p net c le i t env ops (metas ! i) acc = Some acc1 \<and>
           acc' = acc1\<lparr>pa_operations := pa_operations acc1 @ [(xt_hash t, os)]\<rparr>))"
    using assms
    by (auto simp: parse_tx_def Let_def nth_opt_def split: if_splits Option.bind_splits option.splits)
  then consider (err) "xt_parse_error t" "acc' = acc\<lparr>pa_parse_errors := pa_parse_errors acc @ [i]\<rparr>"
    | (ok) env ops acc1 os where "\<not> xt_parse_error t" "parse_meta p net c le i t env ops (metas ! i) acc = Some acc1"
        "acc' = acc1\<lparr>pa_operations := pa_operations acc1 @ [(xt_hash t, os)]\<rparr>"
    by blast
  then have "pa_events acc' = pa_events acc @ map (events_row p le) (parsed [(i, t)]) \<and>
    map fst (pa_entry_changes acc') = map fst (pa_entry_changes acc) @ map (\<lambda>(i, t). xt_hash t) (parsed [(i, t)]) \<and>
    map fst (pa_operations acc') = map fst (pa_operations acc) @ map (\<lambda>(i, t). xt_hash t) (parsed [(i, t)]) \<and>
    pa_parse_errors acc' = pa_parse_errors acc @ (if xt_parse_error t then [i] else [])"
  proof cases
    case ok
    then show ?thesis using parse_meta_Some [OF ok(2)] by simp
  qed simp
  then show "pa_events acc' = pa_events acc @ map (events_row p le) (parsed [(i, t)])"
    "map fst (pa_entry_changes acc') = map fst (pa_entry_changes acc) @ map (\<lambda>(i, t). xt_hash t) (parsed [(i, t)])"
    "map fst (pa_operations acc') = map fst (pa_operations acc) @ map (\<lambda>(i, t). xt_hash t) (parsed [(i, t)])"
    "pa_parse_errors acc' = pa_parse_errors acc @ (if xt_parse_error t then [i] else [])"
    by simp_all
qed

text \<open>A transaction can be read at its position: it has a meta there, and an envelope unless it is skipped.\<close>

definition readable :: "wire_envelope option list \<Rightarrow> tx_meta list \<Rightarrow> nat \<times> extracted_transaction \<Rightarrow> bool" where
  "readable envs metas = (\<lambda>(i, t). i < length metas \<and> i < length envs \<and> (xt_parse_error t \<or> envs ! i \<noteq> None))"

lemma parse_txs_Some:
  assumes "parse_txs p net c le envs metas rs txs acc = Some acc'" and "list_all (readable envs metas) txs"
  shows "pa_events acc' = pa_events acc @ map (events_row p le) (parsed txs) \<and>
    map fst (pa_entry_changes acc') = map fst (pa_entry_changes acc) @ map (\<lambda>(i, t). xt_hash t) (parsed txs) \<and>
    map fst (pa_operations acc') = map fst (pa_operations acc) @ map (\<lambda>(i, t). xt_hash t) (parsed txs) \<and>
    pa_parse_errors acc' = pa_parse_errors acc @ map fst (filter (\<lambda>(i, t). xt_parse_error t) txs)"
  using assms
proof (induction txs arbitrary: acc)
  case (Cons tx txs)
  obtain i t where tx: "tx = (i, t)" by force
  from Cons.prems(1) obtain acc1 where one: "parse_tx p net c le envs metas rs (i, t) acc = Some acc1"
    and rest: "parse_txs p net c le envs metas rs txs acc1 = Some acc'"
    by (auto simp: tx split: Option.bind_splits)
  from Cons.prems(2) have r: "i < length metas" "i < length envs" "xt_parse_error t \<or> envs ! i \<noteq> None"
    and rs: "list_all (readable envs metas) txs" by (simp_all add: readable_def tx)
  show ?case using Cons.IH [OF rest rs] parse_tx_Some [OF one r] by (simp add: tx)
qed simp

text \<open>
  What a transaction that is not skipped contributes: its events, its operations, its invocations
  and its transfers, each under its hash.
\<close>

type_synonym tx_row =
  "string \<times> extracted_event list \<times> extracted_operation list \<times> extracted_invocation list \<times> asset_transfer list"

definition tx_row ::
  "parse_ext \<Rightarrow> bytes \<Rightarrow> int \<Rightarrow> ledger_events \<Rightarrow> wire_envelope option list \<Rightarrow> tx_meta list \<Rightarrow> transaction_result list \<Rightarrow>
   nat \<times> extracted_transaction \<Rightarrow> tx_row" where
  "tx_row p net c le envs metas rs = (\<lambda>(i, t).
     let inner = inner_transaction (we_env (the (envs ! i)));
         evs = te_events (the (extract_events (px_xdr p) le i (xt_hash t)));
         ops = extract_operations (px_xdr p) (px_op p) inner (Some (metas ! i)) (tx_op_results (tr_result (rs ! i))) (xt_hash t)
     in (xt_hash t, evs, ops,
         ir_invocations (extract_invocations (px_xdr p) inner (Some (metas ! i)) (xt_hash t) (xt_ledger_sequence t) c
           (xt_source_account t) (xt_successful t)),
         tx_transfers (extract_asset_transfers (px_xdr p) (px_strkey p) evs ops (xt_source_account t)
           (xt_source_muxed_id t) net)))"

definition row_events :: "tx_row \<Rightarrow> string \<times> extracted_event list" where
  "row_events = (\<lambda>(h, evs, ops, invs, trs). (h, evs))"

definition row_operations :: "tx_row \<Rightarrow> string \<times> extracted_operation list" where
  "row_operations = (\<lambda>(h, evs, ops, invs, trs). (h, ops))"

definition row_invocations :: "tx_row \<Rightarrow> string \<times> extracted_invocation list" where
  "row_invocations = (\<lambda>(h, evs, ops, invs, trs). (h, invs))"

definition row_transfers :: "tx_row \<Rightarrow> asset_transfer list" where
  "row_transfers = (\<lambda>(h, evs, ops, invs, trs). trs)"

definition rows_added :: "parse_acc \<Rightarrow> tx_row list \<Rightarrow> parse_acc \<Rightarrow> bool" where
  "rows_added acc rows acc' \<longleftrightarrow>
     pa_events acc' = pa_events acc @ map row_events rows \<and>
     pa_operations acc' = pa_operations acc @ map row_operations rows \<and>
     pa_invocations acc' = pa_invocations acc @ map row_invocations rows \<and>
     pa_asset_transfers acc' = pa_asset_transfers acc @ concat (map row_transfers rows)"

lemma rows_added_trans: "rows_added a rs b \<Longrightarrow> rows_added b rs' c \<Longrightarrow> rows_added a (rs @ rs') c"
  by (simp add: rows_added_def)

lemma parse_tx_rows:
  assumes "parse_tx p net c le envs metas rs (i, t) acc = Some acc'" and "\<not> xt_parse_error t"
    and "i < length metas" and "i < length envs" and "i < length rs" and "envs ! i = Some env"
  shows "rows_added acc [tx_row p net c le envs metas rs (i, t)] acc' \<and> extract_events (px_xdr p) le i (xt_hash t) \<noteq> None"
  using assms
  by (auto simp: parse_tx_def parse_meta_def Let_def nth_opt_def rows_added_def tx_row_def row_events_def
      row_operations_def row_invocations_def row_transfers_def split: Option.bind_splits)

lemma parse_txs_rows:
  assumes "parse_txs p net c le envs metas rs txs acc = Some acc'" and "list_all (readable envs metas) txs"
    and "length rs = length metas"
  shows "rows_added acc (map (tx_row p net c le envs metas rs) (parsed txs)) acc' \<and>
         list_all (\<lambda>(i, t). extract_events (px_xdr p) le i (xt_hash t) \<noteq> None \<and> envs ! i \<noteq> None) (parsed txs)"
  using assms(1,2)
proof (induction txs arbitrary: acc)
  case Nil
  then show ?case by (simp add: rows_added_def)
next
  case (Cons tx txs)
  obtain i t where tx: "tx = (i, t)" by force
  from Cons.prems(1) obtain acc1 where one: "parse_tx p net c le envs metas rs (i, t) acc = Some acc1"
    and rest: "parse_txs p net c le envs metas rs txs acc1 = Some acc'"
    by (auto simp: tx split: Option.bind_splits)
  from Cons.prems(2) have r: "i < length metas" "i < length envs" "xt_parse_error t \<or> envs ! i \<noteq> None"
    and rs: "list_all (readable envs metas) txs" by (simp_all add: readable_def tx)
  note IH = Cons.IH [OF rest rs]
  show ?case
  proof (cases "xt_parse_error t")
    case True
    with one have "rows_added acc [] acc1" by (auto simp: parse_tx_def rows_added_def)
    from rows_added_trans [OF this] IH True show ?thesis by (auto simp: tx)
  next
    case False
    with r obtain env where env: "envs ! i = Some env" by blast
    have "i < length rs" using r(1) assms(3) by simp
    note parse_tx_rows [OF one False r(1,2) this env]
    with rows_added_trans [of acc "[tx_row p net c le envs metas rs (i, t)]" acc1] IH env False show ?thesis
      by (simp add: tx)
  qed
qed

subsection \<open>Returning\<close>

definition spec_consumes :: "parse_ext \<Rightarrow> bool" where
  "spec_consumes p \<longleftrightarrow> (\<forall>bs e n. bs \<noteq> [] \<longrightarrow> px_spec p bs = Some (e, n) \<longrightarrow> 0 < n)"

lemma parse_wasm_program_returns:
  assumes "spec_consumes p"
  shows "\<exists>w. parse_wasm_program x (px_spec p) hash code = Some w"
proof (cases "extract_custom_section (ascii_bytes code) ''contractspecv0''")
  case (Some spec_bytes)
  have "0 < n" if "bs \<noteq> []" "px_spec p bs = Some (e, n)" for bs e n
    using assms that by (auto simp: spec_consumes_def)
  then obtain fs where "parse_spec_entries (px_spec p) spec_bytes = Some fs"
    using parse_spec_from_returns [of "px_spec p" spec_bytes "length spec_bytes + 1" "[]"]
    by (auto simp: parse_spec_entries_def)
  with Some show ?thesis by (simp add: parse_wasm_program_def)
qed (simp add: parse_wasm_program_def)

lemma extract_wasm_programs_returns:
  assumes "spec_consumes p"
  shows "\<exists>ws. extract_wasm_programs x (px_spec p) m = Some ws"
  unfolding extract_wasm_programs_def
proof (rule mapM_opt_total)
  fix hc :: "string \<times> string"
  obtain h c where "hc = (h, c)" by force
  then show "\<exists>w. (case hc of (hash, code) \<Rightarrow> parse_wasm_program x (px_spec p) hash code) = Some w"
    using parse_wasm_program_returns [OF assms] by simp
qed

lemma parse_tx_returns:
  assumes "spec_consumes p" and "extract_events (px_xdr p) le i (xt_hash t) \<noteq> None"
  shows "\<exists>acc'. parse_tx p net c le envs metas rs (i, t) acc = Some acc'"
proof -
  obtain evs where evs: "extract_events (px_xdr p) le i (xt_hash t) = Some evs" using assms(2) by blast
  have "\<exists>acc1. parse_meta p net c le i t env ops tm acc = Some acc1" for env ops tm
  proof -
    obtain ws where "extract_wasm_programs (px_xdr p) (px_spec p) tm = Some ws"
      using extract_wasm_programs_returns [OF assms(1)] by blast
    then show ?thesis by (simp add: parse_meta_def evs Let_def)
  qed
  then show ?thesis by (auto simp: parse_tx_def Let_def Option.bind_eq_Some_conv split: option.split)
qed

lemma parse_txs_returns:
  assumes "spec_consumes p" and "list_all (\<lambda>(i, t). extract_events (px_xdr p) le i (xt_hash t) \<noteq> None) txs"
  shows "\<exists>acc'. parse_txs p net c le envs metas rs txs acc = Some acc'"
  using assms(2)
proof (induction txs arbitrary: acc)
  case (Cons tx txs)
  obtain i t where tx: "tx = (i, t)" by force
  obtain acc1 where "parse_tx p net c le envs metas rs (i, t) acc = Some acc1"
    using parse_tx_returns [OF assms(1), of le i t net c envs metas rs acc] Cons.prems by (auto simp: tx)
  moreover obtain acc' where "parse_txs p net c le envs metas rs txs acc1 = Some acc'"
    using Cons by (fastforce simp: tx)
  ultimately show ?case by (simp add: tx)
qed simp

subsection \<open>The transactions of the ledger\<close>

lemma length_align_envelopes [simp]: "length (align_envelopes m hs) = length hs"
  by (induction hs arbitrary: m) simp_all

lemma length_meta_envelopes [simp]: "length (meta_envelopes h net meta) = length (tx_processing meta)"
  by (simp add: meta_envelopes_def extract_envelopes_def)

lemma length_extract_transactions [simp]:
  "length (extract_transactions x h meta seq at net) = length (tx_processing meta)"
  by (simp add: extract_transactions_def Let_def)

lemma nth_extract_transactions:
  assumes "i < length (tx_processing meta)"
  shows "extract_transactions x h meta seq at net ! i =
           extract_single_transaction x h net (tx_processing meta ! i) (meta_envelopes h net meta ! i) seq at"
  using assms by (simp add: extract_transactions_def Let_def nth_enumerate_eq nth_opt_def)

lemma xt_hash_single [simp]: "xt_hash (extract_single_transaction x h net info env seq at) = x_hex x (rm_hash info)"
  by (simp add: extract_single_transaction_def Let_def)

lemma map_enumerate_snd [simp]: "map (\<lambda>(i, y). f y) (List.enumerate k ys) = map f ys"
  by (induction ys arbitrary: k) simp_all

lemma extract_transactions_hashes [simp]:
  "map xt_hash (extract_transactions x h meta seq at net) = map (\<lambda>r. x_hex x (rm_hash r)) (tx_processing meta)"
proof -
  have "map xt_hash (extract_transactions x h meta seq at net) =
      map (\<lambda>(i, r). x_hex x (rm_hash r)) (List.enumerate 0 (tx_processing meta))"
    by (simp add: extract_transactions_def Let_def case_prod_unfold)
  then show ?thesis by simp
qed

lemma parse_error_no_envelope:
  "xt_parse_error (extract_single_transaction x h net info None seq at)"
  by (simp add: extract_single_transaction_def Let_def)

lemma ledger_readable:
  "list_all (readable (meta_envelopes h net meta) (collect_tx_metas meta))
     (List.enumerate 0 (extract_transactions x h meta seq at net))"
proof -
  have "xt_parse_error (extract_transactions x h meta seq at net ! i) \<or> meta_envelopes h net meta ! i \<noteq> None"
    if "i < length (tx_processing meta)" for i
    using parse_error_no_envelope [of x h net "tx_processing meta ! i" seq at]
    by (cases "meta_envelopes h net meta ! i") (simp_all add: nth_extract_transactions [OF that])
  then show ?thesis
    by (auto simp: list_all_length nth_enumerate_eq readable_def collect_tx_metas_def)
qed

definition ledger_view :: "parse_ext \<Rightarrow> bytes \<Rightarrow> ledger_close_meta \<Rightarrow> extracted_transaction list \<times> ledger_events" where
  "ledger_view p net meta =
     (let l = extract_ledger (px_xdr p) meta
      in (extract_transactions (px_xdr p) (px_hash p) meta (xl_sequence l) (xl_closed_at l) net,
          ledger_events_new (xl_sequence l) (xl_closed_at l) (collect_tx_metas meta)))"

lemma parse_ledger_Some:
  assumes "parse_ledger p net meta = Some out" and "ledger_view p net meta = (txs, le)"
  shows "po_transactions out = txs"
    and "po_events out = map (events_row p le) (parsed (List.enumerate 0 txs))"
    and "map fst (po_operations out) = map (\<lambda>(i, t). xt_hash t) (parsed (List.enumerate 0 txs))"
    and "po_tx_parse_errors out = map fst (filter (\<lambda>(i, t). xt_parse_error t) (List.enumerate 0 txs))"
    and "\<exists>snaps. po_pool_snapshots out = dedup_final_pool_snapshots snaps"
proof -
  let ?snaps = "\<lambda>acc. dedup_final_pool_snapshots (over_changes (\<lambda>ch. snd (extract_liquidity_pools ch)) acc)"
  let ?envs = "meta_envelopes (px_hash p) net meta" and ?l = "extract_ledger (px_xdr p) meta"
  have view: "txs = extract_transactions (px_xdr p) (px_hash p) meta (xl_sequence ?l) (xl_closed_at ?l) net"
      "le = ledger_events_new (xl_sequence ?l) (xl_closed_at ?l) (collect_tx_metas meta)"
    using assms(2) by (simp_all add: ledger_view_def Let_def)
  obtain acc where acc: "parse_txs p net (xl_closed_at ?l) le ?envs (collect_tx_metas meta) (collect_tx_results meta)
        (List.enumerate 0 txs) parse_acc_empty = Some acc"
    and out: "po_transactions out = txs" "po_events out = pa_events acc" "po_operations out = pa_operations acc"
      "po_tx_parse_errors out = pa_parse_errors acc"
      "po_pool_snapshots out = ?snaps acc"
    using assms(1) unfolding parse_ledger_def Let_def view by (auto split: Option.bind_splits)
  have "list_all (readable ?envs (collect_tx_metas meta)) (List.enumerate 0 txs)"
    unfolding view by (rule ledger_readable)
  from parse_txs_Some [OF acc this] out
  show "po_transactions out = txs"
    "po_events out = map (events_row p le) (parsed (List.enumerate 0 txs))"
    "map fst (po_operations out) = map (\<lambda>(i, t). xt_hash t) (parsed (List.enumerate 0 txs))"
    "po_tx_parse_errors out = map fst (filter (\<lambda>(i, t). xt_parse_error t) (List.enumerate 0 txs))"
    "\<exists>snaps. po_pool_snapshots out = dedup_final_pool_snapshots snaps"
    by (auto simp: parse_acc_empty_def)
qed

lemma parse_ledger_rows:
  assumes "parse_ledger p net meta = Some out" and "ledger_view p net meta = (txs, le)"
  defines "rows \<equiv> map (tx_row p net (xl_closed_at (extract_ledger (px_xdr p) meta)) le (meta_envelopes (px_hash p) net meta)
                     (collect_tx_metas meta) (collect_tx_results meta)) (parsed (List.enumerate 0 txs))"
  shows "po_events out = map row_events rows" and "po_operations out = map row_operations rows"
    and "po_invocations out = map row_invocations rows" and "po_asset_transfers out = concat (map row_transfers rows)"
    and "list_all (\<lambda>(i, t). extract_events (px_xdr p) le i (xt_hash t) \<noteq> None \<and>
           meta_envelopes (px_hash p) net meta ! i \<noteq> None) (parsed (List.enumerate 0 txs))"
proof -
  let ?envs = "meta_envelopes (px_hash p) net meta" and ?l = "extract_ledger (px_xdr p) meta"
  have view: "txs = extract_transactions (px_xdr p) (px_hash p) meta (xl_sequence ?l) (xl_closed_at ?l) net"
      "le = ledger_events_new (xl_sequence ?l) (xl_closed_at ?l) (collect_tx_metas meta)"
    using assms(2) by (simp_all add: ledger_view_def Let_def)
  obtain acc where acc: "parse_txs p net (xl_closed_at ?l) le ?envs (collect_tx_metas meta) (collect_tx_results meta)
        (List.enumerate 0 txs) parse_acc_empty = Some acc"
    and out: "po_events out = pa_events acc" "po_operations out = pa_operations acc"
      "po_invocations out = pa_invocations acc" "po_asset_transfers out = pa_asset_transfers acc"
    using assms(1) unfolding parse_ledger_def Let_def view by (auto split: Option.bind_splits)
  have "list_all (readable ?envs (collect_tx_metas meta)) (List.enumerate 0 txs)"
    unfolding view by (rule ledger_readable)
  moreover have "length (collect_tx_results meta) = length (collect_tx_metas meta)"
    by (simp add: collect_tx_results_def collect_tx_metas_def)
  ultimately have R: "rows_added parse_acc_empty rows acc" and
    L: "list_all (\<lambda>(i, t). extract_events (px_xdr p) le i (xt_hash t) \<noteq> None \<and> ?envs ! i \<noteq> None)
          (parsed (List.enumerate 0 txs))"
    using parse_txs_rows [OF acc] unfolding rows_def by blast+
  from R out show "po_events out = map row_events rows" "po_operations out = map row_operations rows"
    "po_invocations out = map row_invocations rows" "po_asset_transfers out = concat (map row_transfers rows)"
    by (simp_all add: rows_added_def parse_acc_empty_def)
  from L show "list_all (\<lambda>(i, t). extract_events (px_xdr p) le i (xt_hash t) \<noteq> None \<and> ?envs ! i \<noteq> None)
          (parsed (List.enumerate 0 txs))" .
qed

lemma distinct_concat_filter: "distinct (concat (map h is)) \<Longrightarrow> distinct (concat (map h (filter Q is)))"
  by (induction "is") auto

lemma enumerate_map_nth: "List.enumerate 0 xs = map (\<lambda>i. (i, xs ! i)) [0..<length xs]"
  by (rule nth_equalityI) (simp_all add: nth_enumerate_eq)

lemma parsed_enumerate:
  "parsed (List.enumerate 0 txs) = map (\<lambda>i. (i, txs ! i)) (filter (\<lambda>i. \<not> xt_parse_error (txs ! i)) [0..<length txs])"
  by (simp add: parsed_def enumerate_map_nth filter_map comp_def)

lemma parsed_hashes:
  "map (\<lambda>(i, t). xt_hash t) (parsed (List.enumerate k txs)) = map xt_hash (filter (\<lambda>t. \<not> xt_parse_error t) txs)"
  by (induction txs arbitrary: k) auto

text \<open>C4. A ledger within the bounds of event numbering is parsed: \<open>parse_ledger\<close> returns, however its
  envelopes and results look, and no two of the events it hands to persistence have the same id.\<close>

theorem parse_ledger_returns:
  assumes "spec_consumes p" and "numbered_within (map rm_meta (tx_processing meta))"
  shows "\<exists>out. parse_ledger p net meta = Some out \<and>
           distinct (map ev_event_id (concat (map snd (po_events out))))"
proof -
  obtain txs le where view: "ledger_view p net meta = (txs, le)" by force
  define l where "l = extract_ledger (px_xdr p) meta"
  let ?metas = "map rm_meta (tx_processing meta)"
  have le: "le = ledger_events_new (xl_sequence l) (xl_closed_at l) ?metas"
    and txs: "txs = extract_transactions (px_xdr p) (px_hash p) meta (xl_sequence l) (xl_closed_at l) net"
    using view by (simp_all add: ledger_view_def Let_def l_def collect_tx_metas_def)
  have len: "length txs = length ?metas" by (simp add: txs)
  let ?out = "\<lambda>i. the (extract_events (px_xdr p) le i (xt_hash (txs ! i)))"
  note ids = ledger_event_ids [OF assms(2), where x = "px_xdr p" and l = "xl_sequence l" and c = "xl_closed_at l"
      and hash = "\<lambda>i. xt_hash (txs ! i)", folded le]
  have "list_all (\<lambda>(i, t). extract_events (px_xdr p) le i (xt_hash t) \<noteq> None) (List.enumerate 0 txs)"
    using ids(1) len by (fastforce simp: list_all_length nth_enumerate_eq)
  from parse_txs_returns [OF assms(1) this]
  obtain acc where acc: "parse_txs p net (xl_closed_at l) le (meta_envelopes (px_hash p) net meta) ?metas
      (collect_tx_results meta) (List.enumerate 0 txs) parse_acc_empty = Some acc"
    by blast
  obtain out where out: "parse_ledger p net meta = Some out"
    using acc unfolding parse_ledger_def Let_def collect_tx_metas_def l_def [symmetric] le [symmetric] txs [symmetric]
    by simp
  have "map snd (po_events out) = map (\<lambda>i. te_events (?out i)) (filter (\<lambda>i. \<not> xt_parse_error (txs ! i)) [0..<length txs])"
    by (simp add: parse_ledger_Some(2) [OF out view] parsed_enumerate events_row_def comp_def)
  moreover have "distinct (concat (map (\<lambda>i. map ev_event_id (te_events (?out i))) [0..<length txs]))"
    using ids(2) len by (simp add: map_concat comp_def)
  ultimately have "distinct (map ev_event_id (concat (map snd (po_events out))))"
    using distinct_concat_filter [of "\<lambda>i. map ev_event_id (te_events (?out i))" "[0..<length txs]"
        "\<lambda>i. \<not> xt_parse_error (txs ! i)"]
    by (simp add: map_concat comp_def)
  with out show ?thesis by blast
qed

text \<open>
  What the transaction at a position of the ledger yields: the extractors applied to its own
  envelope, meta and result, and to the events the ledger's numbering gives that position.
\<close>

definition yields :: "parse_ext \<Rightarrow> bytes \<Rightarrow> ledger_close_meta \<Rightarrow> nat \<Rightarrow> tx_row \<Rightarrow> bool" where
  "yields p net meta i = (\<lambda>(h, evs, ops, invs, trs).
     let x = px_xdr p; info = tx_processing meta ! i; header = ledger_header_entry meta;
         seq = unat (lh_sequence header); closed_at = sint (lh_close_time header)
     in h = x_hex x (rm_hash info) \<and>
        (\<exists>env ex. meta_envelopes (px_hash p) net meta ! i = Some env \<and>
           extract_events x (ledger_events_new seq closed_at (map rm_meta (tx_processing meta))) i h = Some ex \<and>
           evs = te_events ex \<and>
           ops = extract_operations x (px_op p) (inner_transaction (we_env env)) (Some (rm_meta info))
                   (tx_op_results (tr_result (rm_result info))) h \<and>
           invs = ir_invocations (extract_invocations x (inner_transaction (we_env env)) (Some (rm_meta info)) h seq
                    closed_at (envelope_source x (we_env env)) (is_successful (tr_result (rm_result info)))) \<and>
           trs = tx_transfers (extract_asset_transfers x (px_strkey p) evs ops (envelope_source x (we_env env))
                   (inner_source_muxed_id (inner_transaction (we_env env))) net)))"

lemma tx_row_yields:
  assumes "ledger_view p net meta = (txs, le)" and "i < length txs"
    and "extract_events (px_xdr p) le i (xt_hash (txs ! i)) \<noteq> None" and "meta_envelopes (px_hash p) net meta ! i \<noteq> None"
  shows "yields p net meta i
           (tx_row p net (xl_closed_at (extract_ledger (px_xdr p) meta)) le (meta_envelopes (px_hash p) net meta)
              (collect_tx_metas meta) (collect_tx_results meta) (i, txs ! i))"
proof -
  obtain env where env: "meta_envelopes (px_hash p) net meta ! i = Some env" using assms(4) by blast
  have i: "i < length (tx_processing meta)" and
    t: "txs ! i = extract_single_transaction (px_xdr p) (px_hash p) net (tx_processing meta ! i) (Some env)
          (unat (lh_sequence (ledger_header_entry meta))) (sint (lh_close_time (ledger_header_entry meta)))" and
    le: "le = ledger_events_new (unat (lh_sequence (ledger_header_entry meta)))
           (sint (lh_close_time (ledger_header_entry meta))) (map rm_meta (tx_processing meta))"
    using assms(1,2) env
    by (auto simp: ledger_view_def Let_def extract_ledger_def nth_extract_transactions collect_tx_metas_def)
  show ?thesis
    using assms(3) i
    by (auto simp: yields_def tx_row_def Let_def env t le collect_tx_metas_def collect_tx_results_def extract_ledger_def
        extract_single_transaction_def)
qed

text \<open>C3. Every transaction of the ledger is accounted for, in the order of processing: the output has
  its row, and either its position among the parse errors, or, under its hash and even when there
  are none of them, the events, the operations, the invocations and the transfers that its own
  envelope, meta and result yield.  A pool has one snapshot per ledger.\<close>

theorem parse_ledger_accounts:
  "case parse_ledger p net meta of
     None \<Rightarrow> True
   | Some out \<Rightarrow>
       map xt_hash (po_transactions out) = map (\<lambda>r. x_hex (px_xdr p) (rm_hash r)) (tx_processing meta) \<and>
       po_tx_parse_errors out = filter (\<lambda>i. xt_parse_error (po_transactions out ! i)) [0..<length (tx_processing meta)] \<and>
       (\<exists>rows. list_all2 (yields p net meta)
                 (filter (\<lambda>i. \<not> xt_parse_error (po_transactions out ! i)) [0..<length (tx_processing meta)]) rows \<and>
          po_events out = map row_events rows \<and> po_operations out = map row_operations rows \<and>
          po_invocations out = map row_invocations rows \<and> po_asset_transfers out = concat (map row_transfers rows)) \<and>
       distinct (map (\<lambda>s. (ps_pool_id s, ps_ledger_sequence s)) (po_pool_snapshots out))"
proof (cases "parse_ledger p net meta")
  case (Some out)
  obtain txs le where view: "ledger_view p net meta = (txs, le)" by force
  note facts = parse_ledger_Some [OF Some view]
  let ?row = "tx_row p net (xl_closed_at (extract_ledger (px_xdr p) meta)) le (meta_envelopes (px_hash p) net meta)
                (collect_tx_metas meta) (collect_tx_results meta)"
  let ?idx = "filter (\<lambda>i. \<not> xt_parse_error (txs ! i)) [0..<length txs]"
  have len: "length txs = length (tx_processing meta)" using view by (auto simp: ledger_view_def Let_def)
  have hashes: "map xt_hash txs = map (\<lambda>r. x_hex (px_xdr p) (rm_hash r)) (tx_processing meta)"
    using view by (auto simp: ledger_view_def Let_def)
  have errors: "po_tx_parse_errors out = filter (\<lambda>i. xt_parse_error (txs ! i)) [0..<length (tx_processing meta)]"
    by (simp add: facts(4) enumerate_map_nth filter_map comp_def len)
  note rows = parse_ledger_rows [OF Some view, unfolded parsed_enumerate]
  have "list_all2 (yields p net meta) ?idx (map (\<lambda>i. ?row (i, txs ! i)) ?idx)"
    using rows(5) tx_row_yields [OF view] by (auto simp: list_all2_map2 list_all2_same list_all_iff)
  moreover have "po_events out = map row_events (map (\<lambda>i. ?row (i, txs ! i)) ?idx)"
    "po_operations out = map row_operations (map (\<lambda>i. ?row (i, txs ! i)) ?idx)"
    "po_invocations out = map row_invocations (map (\<lambda>i. ?row (i, txs ! i)) ?idx)"
    "po_asset_transfers out = concat (map row_transfers (map (\<lambda>i. ?row (i, txs ! i)) ?idx))"
    using rows(1-4) by (simp_all add: comp_def)
  moreover have "distinct (map (\<lambda>s. (ps_pool_id s, ps_ledger_sequence s)) (po_pool_snapshots out))"
    using facts(5) by (auto simp: dedup_final_pool_snapshots_def intro: kl.distinct_keys)
  ultimately show ?thesis
    unfolding Some option.case facts(1) hashes errors len by blast
qed simp

subsection \<open>Envelopes\<close>

definition complete_set :: "tx_hasher \<Rightarrow> bytes \<Rightarrow> ledger_close_meta \<Rightarrow> bool" where
  "complete_set h net meta \<longleftrightarrow>
     distinct (map (tx_envelope_hash h net) (tx_set_envelopes meta)) \<and>
     distinct (map rm_hash (tx_processing meta)) \<and>
     list_all (\<lambda>r. rm_hash r \<in> tx_envelope_hash h net ` set (tx_set_envelopes meta)) (tx_processing meta)"

lemma meta_envelopes_nth:
  assumes "complete_set h net meta" and "i < length (tx_processing meta)"
  shows "\<exists>env \<in> set (tx_set_envelopes meta). meta_envelopes h net meta ! i = Some env \<and>
           tx_envelope_hash h net env = rm_hash (tx_processing meta ! i)"
proof -
  obtain env where env: "env \<in> set (tx_set_envelopes meta)"
      "tx_envelope_hash h net env = rm_hash (tx_processing meta ! i)"
    using assms by (force simp: complete_set_def list_all_length)
  have "meta_envelopes h net meta = map (foldl (\<lambda>m e. m(tx_envelope_hash h net e \<mapsto> e)) Map.empty (tx_set_envelopes meta))
      (map rm_hash (tx_processing meta))"
    using assms(1) by (simp only: meta_envelopes_def extract_envelopes_def complete_set_def align_envelopes_distinct)
  then have "meta_envelopes h net meta ! i =
      foldl (\<lambda>m e. m(tx_envelope_hash h net e \<mapsto> e)) Map.empty (tx_set_envelopes meta) (tx_envelope_hash h net env)"
    using assms(2) env(2) by simp
  also have "\<dots> = Some env"
    using assms(1) env(1) by (intro index_by_hash) (simp_all add: complete_set_def)
  finally show ?thesis using env by blast
qed

text \<open>C5. Transactions are read from their own envelopes: whatever the order and the phases of the
  transaction set, the row at a position has the source, the fee source, the memo and the inner
  hash of the envelope that hashes to the transaction processed there, and it is a parse error only
  if encoding failed.\<close>

theorem transactions_from_their_envelopes:
  assumes "complete_set h net meta" and "i < length (tx_processing meta)"
  shows "\<exists>env \<in> set (tx_set_envelopes meta).
           tx_envelope_hash h net env = rm_hash (tx_processing meta ! i) \<and>
           (case extract_transactions x h meta seq at net ! i of t \<Rightarrow>
              xt_source_account t = envelope_source x (we_env env) \<and>
              xt_fee_source t = envelope_fee_source x (we_env env) \<and>
              (xt_memo_type t, xt_memo t) = extract_memo x (inner_memo (inner_transaction (we_env env))) \<and>
              xt_inner_tx_hash t = map_option (x_hex x) (inner_tx_hash h net env) \<and>
              xt_parse_error t = (encode_xdr x (we_xdr env) = [] \<or> encode_xdr x (tr_xdr (rm_result (tx_processing meta ! i))) = []))"
proof -
  obtain env where "env \<in> set (tx_set_envelopes meta)" "meta_envelopes h net meta ! i = Some env"
      "tx_envelope_hash h net env = rm_hash (tx_processing meta ! i)"
    using meta_envelopes_nth [OF assms] by blast
  then show ?thesis
    by (intro bexI [of _ env]) (simp_all add: nth_extract_transactions [OF assms(2)] extract_single_transaction_def Let_def)
qed

subsection \<open>A ledger\<close>

definition demo_hasher :: tx_hasher where
  "demo_hasher t net = (case t of TaggedTx b \<Rightarrow> b | TaggedFeeBump b \<Rightarrow> CHR ''f'' # b)"

definition demo_envelope :: "bytes \<Rightarrow> bytes \<Rightarrow> wire_envelope" where
  "demo_envelope src body =
     \<lparr>we_env = EnvV1 (MuxEd25519 src) (MemoText ''hi'') [], we_xdr = Some body, we_body = body, we_inner_body = []\<rparr>"

definition demo_result :: "bytes \<Rightarrow> result_meta" where
  "demo_result hash =
     \<lparr>rm_hash = hash, rm_result = \<lparr>tr_fee_charged = 100, tr_result = TxSuccess [], tr_xdr = Some hash\<rparr>,
      rm_meta = MetaV4 \<lparr>m4_changes_before = [], m4_operations = [], m4_changes_after = [],
        m4_soroban = None, m4_events = [], m4_diagnostic = []\<rparr>, rm_meta_xdr = None\<rparr>"

definition demo_close_meta :: ledger_close_meta where
  "demo_close_meta = CloseV1
     \<lparr>lh_hash = ''h'', lh_sequence = 7, lh_close_time = 5, lh_version = 23, lh_base_fee = 100\<rparr>
     [PhaseComponents [[demo_envelope ''A'' ''x'']], PhaseParallel [[[demo_envelope ''B'' ''y'']]]]
     [demo_result ''y'', demo_result ''x'']"

definition demo_parse_ext :: parse_ext where
  "demo_parse_ext =
     \<lparr>px_xdr = demo_ext,
      px_strkey = \<lparr>k_account_from_str = (\<lambda>s. None), k_strkey = (\<lambda>s. None), k_derive = (\<lambda>p n. None)\<rparr>,
      px_codec = \<lparr>cx_b64_decode = (\<lambda>s. None), cx_hex_decode = (\<lambda>s. None), cx_entry_to_xdr = (\<lambda>e. None)\<rparr>,
      px_entry = \<lparr>en_signer = (\<lambda>s. []), en_setting_debug = (\<lambda>s. [])\<rparr>,
      px_op = \<lparr>n_ledger_key = (\<lambda>k. []), n_signer_key = (\<lambda>k. []), n_pool_params = []\<rparr>,
      px_hash = demo_hasher, px_spec = (\<lambda>bs. None)\<rparr>"

theorem parse_ledger_returns_witness:
  "\<exists>out. parse_ledger demo_parse_ext ''n'' demo_close_meta = Some out \<and>
     distinct (map ev_event_id (concat (map snd (po_events out))))"
  by (rule parse_ledger_returns)
     (simp_all add: spec_consumes_def demo_parse_ext_def demo_close_meta_def demo_result_def numbered_within_def
        after_all_txs_def)

theorem transactions_from_their_envelopes_witness:
  "\<exists>env \<in> set (tx_set_envelopes demo_close_meta).
     tx_envelope_hash demo_hasher ''n'' env = rm_hash (tx_processing demo_close_meta ! 0) \<and>
     (case extract_transactions demo_ext demo_hasher demo_close_meta 7 5 ''n'' ! 0 of t \<Rightarrow>
        xt_source_account t = envelope_source demo_ext (we_env env) \<and>
        xt_fee_source t = envelope_fee_source demo_ext (we_env env) \<and>
        (xt_memo_type t, xt_memo t) = extract_memo demo_ext (inner_memo (inner_transaction (we_env env))) \<and>
        xt_inner_tx_hash t = map_option (x_hex demo_ext) (inner_tx_hash demo_hasher ''n'' env) \<and>
        xt_parse_error t = (encode_xdr demo_ext (we_xdr env) = [] \<or>
          encode_xdr demo_ext (tr_xdr (rm_result (tx_processing demo_close_meta ! 0))) = []))"
  by (rule transactions_from_their_envelopes)
     (simp_all add: complete_set_def demo_close_meta_def demo_result_def demo_envelope_def tx_envelope_hash_def
        demo_hasher_def)

end
