(* ===== verification/Rows.thy ===== *)
theory Rows
  imports Process Reconcile Results
begin

text \<open>
  The rows of the ClickHouse tables (\<open>persist/rows.rs\<close>) and the surrogate ids they carry
  (\<open>persist/ids.rs\<close>).  CityHash, the StrKey codec, hexadecimal decoding and the JSON parser are
  third-party; a 32-byte array is the string of its bytes.
\<close>

record ids_ext =
  ix_city :: "bytes \<Rightarrow> int"
  ix_contract :: "string \<Rightarrow> bytes option"
  ix_contract_strkey :: "bytes \<Rightarrow> string"
  ix_hex :: "string \<Rightarrow> string + bytes"
  ix_json :: "string \<Rightarrow> json option"

text \<open>A panic is an outcome of its own.\<close>

datatype stage_error = StageErr schema_error | StagePanic

subsection \<open>Ids\<close>

definition hash64 :: "ids_ext \<Rightarrow> bytes \<Rightarrow> int" where
  "hash64 ix b = wrap_i64 (ix_city ix b)"

definition account_id :: "ids_ext \<Rightarrow> string \<Rightarrow> int" where "account_id ix strkey = hash64 ix strkey"
definition contract_id :: "ids_ext \<Rightarrow> string \<Rightarrow> int" where "contract_id ix strkey = hash64 ix strkey"
definition address_id :: "ids_ext \<Rightarrow> string \<Rightarrow> int" where "address_id ix strkey = hash64 ix strkey"

definition contract_payload :: "ids_ext \<Rightarrow> string \<Rightarrow> bytes option" where
  "contract_payload ix strkey = ix_contract ix strkey"

definition native_asset_id :: int where "native_asset_id = - 6959166271784855184"

definition asset_id :: "ids_ext \<Rightarrow> int \<Rightarrow> string \<Rightarrow> int \<Rightarrow> int \<Rightarrow> int" where
  "asset_id ix ty asset_code issuer_id contract =
     (if ty = 0 then hash64 ix ''native''
      else if ty = 1 then hash64 ix (asset_code @ '':'' @ show_int issuer_id)
      else contract)"

definition credit_asset_id :: "ids_ext \<Rightarrow> string \<Rightarrow> string \<Rightarrow> int" where
  "credit_asset_id ix asset_code issuer = asset_id ix 1 asset_code (account_id ix issuer) 0"

definition pool_leg_asset_id :: "ids_ext \<Rightarrow> int \<Rightarrow> string \<Rightarrow> int \<Rightarrow> int" where
  "pool_leg_asset_id ix ty asset_code issuer_id =
     (if ty = 0 then native_asset_id else asset_id ix 1 asset_code issuer_id 0)"

subsection \<open>Rows\<close>

record ledger_row =
  lrow_sequence :: int
  lrow_hash :: bytes
  lrow_closed_at :: int
  lrow_protocol_version :: int
  lrow_transaction_count :: int
  lrow_base_fee :: int

record wasm_program_row =
  wrow_wasm_hash :: bytes
  wrow_metadata :: string
  wrow_code :: bytes

record accounts_row =
  arow_id :: int
  arow_account_id :: string
  arow_first_seen_ledger :: int
  arow_last_seen_ledger :: int
  arow_sequence_number :: int
  arow_home_domain :: "string option"

record account_entry_state_row =
  esrow_account_id :: int
  esrow_signer_keys :: "string list"
  esrow_signer_weights :: "int list"
  esrow_signer_types :: "string list"
  esrow_master_weight :: int
  esrow_threshold_low :: int
  esrow_threshold_med :: int
  esrow_threshold_high :: int
  esrow_flags :: int
  esrow_num_sponsoring :: int
  esrow_num_sponsored :: int
  esrow_last_updated_ledger :: int

record asset_row =
  asrow_asset_type :: int
  asrow_asset_code :: string
  asrow_issuer_id :: int
  asrow_contract_id :: int
  asrow_id :: int

definition asset_row_staged :: "ids_ext \<Rightarrow> int \<Rightarrow> string \<Rightarrow> int \<Rightarrow> int \<Rightarrow> asset_row" where
  "asset_row_staged ix ty code issuer contract =
     \<lparr>asrow_asset_type = ty, asrow_asset_code = code, asrow_issuer_id = issuer, asrow_contract_id = contract,
      asrow_id = asset_id ix ty code issuer contract\<rparr>"

record asset_sac_row =
  sacrow_asset_type :: int
  sacrow_asset_code :: string
  sacrow_issuer_id :: int
  sacrow_contract_id :: int
  sacrow_sac_contract_id :: int
  sacrow_sac_deployed :: int

record soroban_contract_row =
  crow_id :: int
  crow_contract_id :: string
  crow_wasm_hash :: "bytes option"
  crow_wasm_uploaded_at_ledger :: int
  crow_deployer_id :: "int option"
  crow_deployed_at_ledger :: "int option"
  crow_contract_type :: "int option"
  crow_is_sac :: bool
  crow_executable_owner_id :: "int option"
  crow_executable_tag :: "string option"

record executable_ref_row =
  errow_owner_id :: int
  errow_tag :: string
  errow_wasm_hash :: bytes
  errow_ledger :: int

record contract_instance_row =
  cirow_contract :: bytes
  cirow_data_xdr :: bytes
  cirow_ledger :: int

record contract_metadata_row =
  mdrow_contract_id :: string
  mdrow_name :: "string option"
  mdrow_symbol :: "string option"
  mdrow_decimals :: "int option"
  mdrow_version :: int

record balance_row =
  brow_holder_id :: int
  brow_asset_id :: int
  brow_amount :: int
  brow_last_updated_ledger :: int
  brow_closed_at_ledger :: int

text \<open>Rows of \<open>nfts\<close> and of \<open>nfts_pending\<close> have the same columns.\<close>

record nft_row =
  nrow_contract_id :: int
  nrow_token_id :: string
  nrow_collection_name :: "string option"
  nrow_name :: "string option"
  nrow_media_url :: "string option"
  nrow_current_owner_id :: "int option"
  nrow_current_owner_ledger :: int

record liquidity_pool_row =
  prow_pool_id :: bytes
  prow_asset_a_type :: int
  prow_asset_a_code :: string
  prow_asset_a_issuer_id :: int
  prow_asset_b_type :: int
  prow_asset_b_code :: string
  prow_asset_b_issuer_id :: int
  prow_fee_bps :: int
  prow_last_updated_ledger :: int
  prow_pool_kind :: int
  prow_legs :: "int list"
  prow_deployment_id :: int
  prow_pool_type_raw :: string

record pool_state_change_row =
  psrow_pool_id :: bytes
  psrow_ledger_sequence :: int
  psrow_reserves :: "int list"
  psrow_plane_id :: int

record pool_instance_state_row =
  pirow_pool_id :: bytes
  pirow_plane_id :: int
  pirow_share_token_id :: int
  pirow_total_shares :: int
  pirow_derived_at_ledger :: int

record lp_position_row =
  lprow_pool_id :: bytes
  lprow_account_id :: int
  lprow_shares :: int
  lprow_last_updated_ledger :: int
  lprow_closed_at_ledger :: int

record transaction_row =
  txrow_hash :: bytes
  txrow_ledger_sequence :: int
  txrow_application_order :: int
  txrow_source_id :: int
  txrow_fee_charged :: int
  txrow_inner_tx_hash :: "bytes option"
  txrow_successful :: bool
  txrow_operation_count :: int
  txrow_has_soroban :: bool
  txrow_parse_error :: bool

record hash_prefix_row =
  hprow_hash_prefix :: int
  hprow_ledger_sequence :: int

text \<open>\<open>u64::from_le_bytes\<close> of the first eight bytes.\<close>

definition hash_prefix_row_new :: "bytes \<Rightarrow> int \<Rightarrow> hash_prefix_row" where
  "hash_prefix_row_new hash ledger =
     \<lparr>hprow_hash_prefix = foldr (\<lambda>c n. of_char c + 256 * n) (take 8 hash) 0, hprow_ledger_sequence = ledger\<rparr>"

record transaction_operation_row =
  oprow_ledger_sequence :: int
  oprow_application_order :: int
  oprow_operation_index :: int
  oprow_op_type :: int
  oprow_source_id :: "int option"
  oprow_destination_id :: "int option"
  oprow_contract_id :: "int option"
  oprow_asset_code :: string
  oprow_asset_issuer_id :: "int option"
  oprow_pool_ids :: "bytes list"

record participant_row =
  parow_account_id :: int
  parow_ledger_sequence :: int
  parow_application_order :: int

record op_asset_row =
  oarow_asset_id :: int
  oarow_ledger_sequence :: int
  oarow_application_order :: int

record contract_activity_row =
  carow_contract_id :: int
  carow_ledger_sequence :: int
  carow_application_order :: int
  carow_caller_id :: "int option"
  carow_caller_contract_id :: "int option"
  carow_invocation_count :: int

record pool_amount_row =
  poarow_pool_id :: bytes
  poarow_ledger_sequence :: int
  poarow_application_order :: int
  poarow_operation_index :: int
  poarow_asset_id :: int
  poarow_amount :: int

record pool_movement_row =
  pmrow_pool_id :: bytes
  pmrow_ledger_sequence :: int
  pmrow_application_order :: int
  pmrow_operation_index :: int
  pmrow_event_index :: int
  pmrow_event_kind :: int
  pmrow_asset_id :: int
  pmrow_amount :: int

record asset_transfer_row =
  atrow_ledger_sequence :: int
  atrow_application_order :: int
  atrow_op_index :: int
  atrow_event_pos_in_op :: int
  atrow_asset_id :: int
  atrow_amount :: "int option"
  atrow_from_id :: "int option"
  atrow_from_kind :: string
  atrow_from_muxed_id :: "int option"
  atrow_to_id :: "int option"
  atrow_to_kind :: string
  atrow_to_muxed_id :: "int option"
  atrow_verb :: string

record transaction_memo_row =
  memrow_ledger_sequence :: int
  memrow_application_order :: int
  memrow_memo_type :: string
  memrow_memo :: string

record soroban_event_row =
  evrow_contract_id :: int
  evrow_ledger_sequence :: int
  evrow_transaction_index :: int
  evrow_operation_index :: int
  evrow_event_index :: int
  evrow_application_order :: int
  evrow_event_type :: int
  evrow_signature :: "string option"
  evrow_topics_xdr :: string
  evrow_data_xdr :: string

record nft_ownership_change_row =
  ocrow_contract_id :: int
  ocrow_token_id :: string
  ocrow_ledger_sequence :: int
  ocrow_application_order :: int
  ocrow_operation_index :: int
  ocrow_event_index :: int
  ocrow_owner_id :: "int option"
  ocrow_event_type :: int

record pool_snapshot_row =
  snrow_pool_id :: bytes
  snrow_ledger_sequence :: int
  snrow_reserve_a :: int
  snrow_reserve_b :: int
  snrow_total_shares :: int
  snrow_gross_volume_a :: "int option"

subsection \<open>Shared helpers of staging\<close>

definition staging_err :: "string \<Rightarrow> stage_error" where
  "staging_err msg = StageErr (SchemaStaging msg)"

definition decode_hash :: "ids_ext \<Rightarrow> string \<Rightarrow> string \<Rightarrow> stage_error + bytes" where
  "decode_hash ix hex_str field =
     (case ix_hex ix hex_str of
        Inl e \<Rightarrow> Inl (staging_err (''hex decode '' @ field @ '': '' @ e @ '' (value='' @ hex_str @ '')''))
      | Inr b \<Rightarrow>
          if length b = 32 then Inr b
          else Inl (staging_err (''hex length '' @ field @ '': expected 32 bytes, got '' @ show_nat (length b)
                                 @ '' (value='' @ hex_str @ '')'')))"

text \<open>\<open>hex::decode(h).ok()\<close> of a 32-byte value.\<close>

definition hex32 :: "ids_ext \<Rightarrow> string \<Rightarrow> bytes option" where
  "hex32 ix s = (case ix_hex ix s of Inr b \<Rightarrow> (if length b = 32 then Some b else None) | Inl e \<Rightarrow> None)"

definition fits_i16 :: "int \<Rightarrow> bool" where
  "fits_i16 n \<longleftrightarrow> - 32768 \<le> n \<and> n \<le> 32767"

definition try_i16 :: "string \<Rightarrow> int \<Rightarrow> stage_error + int" where
  "try_i16 msg n = (if fits_i16 n then Inr n else Inl (staging_err msg))"

definition fits_i32 :: "int \<Rightarrow> bool" where
  "fits_i32 n \<longleftrightarrow> - 2147483648 \<le> n \<and> n \<le> 2147483647"

definition wrap_i128 :: "int \<Rightarrow> int" where
  "wrap_i128 n = (n + 2 ^ 127) mod 2 ^ 128 - 2 ^ 127"

text \<open>\<open>ParseIntError\<close> of \<open>i128\<close>: the sign decides which bound is missed.\<close>

definition parse_i128_error :: "string \<Rightarrow> string" where
  "parse_i128_error s =
     (case s of
        CHR ''-'' # r \<Rightarrow>
          if r = [] then ''invalid digit found in string''
          else if list_all is_ascii_digit r then ''number too small to fit in target type''
          else (case scan_error (- i128_min) 0 r of e \<Rightarrow>
                  if e = ''number too large to fit in target type''
                  then ''number too small to fit in target type'' else e)
      | _ \<Rightarrow> parse_int_error i128_max s)"

definition parse_i128_or :: "(string \<Rightarrow> string) \<Rightarrow> string \<Rightarrow> stage_error + int" where
  "parse_i128_or msg s =
     (case parse_i128 s of Some n \<Rightarrow> Inr n | None \<Rightarrow> Inl (staging_err (msg (parse_i128_error s))))"

text \<open>A slice of a string ends at a character boundary or panics.\<close>

definition at_boundary :: "string \<Rightarrow> nat \<Rightarrow> bool" where
  "at_boundary s n \<longleftrightarrow> n = length s \<or> (n < length s \<and> \<not> cont_byte (of_char (s ! n)))"

definition decimal7_string_to_i128 :: "string \<Rightarrow> stage_error + int" where
  "decimal7_string_to_i128 input =
     (let s = trim_ws input in
      if s = [] then Inr 0
      else
        let (sg, rest) = (case strip_prefix ''-'' s of
                            Some r \<Rightarrow> (-1, r)
                          | None \<Rightarrow> (1, unwrap_or (strip_prefix ''+'' s) s))
        in try_res
             (case split_once CHR ''.'' rest of
                Some (whole, frac) \<Rightarrow>
                  try_res (if whole = [] then Inr 0
                           else parse_i128_or (\<lambda>e. ''decimal parse '' @ [CHR 0x27] @ s @ [CHR 0x27] @ '': '' @ e) whole) (\<lambda>whole_n.
                  let n = min (length frac) 7; frac_trim = take n frac in
                  if \<not> at_boundary frac n then Inl StagePanic else
                  try_res (if frac_trim = [] then Inr 0
                           else parse_i128_or (\<lambda>e. ''decimal frac parse '' @ [CHR 0x27] @ s @ [CHR 0x27] @ '': '' @ e) frac_trim) (\<lambda>frac_n.
                  ok_or (staging_err (''decimal overflow '' @ [CHR 0x27] @ s @ [CHR 0x27]))
                    (Option.bind (checked_i128 (whole_n * 10000000))
                       (\<lambda>w. checked_add w (frac_n * 10 ^ (7 - length frac_trim))))))
              | None \<Rightarrow> parse_i128_or (\<lambda>e. ''integer parse '' @ [CHR 0x27] @ s @ [CHR 0x27] @ '': '' @ e) rest)
             (\<lambda>unsigned. Inr (wrap_i128 (sg * unsigned))))"

definition is_strkey_account :: "string \<Rightarrow> bool" where
  "is_strkey_account s \<longleftrightarrow> length s \<le> 56 \<and> first_opt s = Some CHR ''G''"

end
