(* ===== verification/StageEntities.thy ===== *)
theory StageEntities
  imports Rows NetSettled
begin

text \<open>
  The builders of single tables in \<open>persist/stage.rs\<close> and \<open>persist/stage/\<close>: executable references,
  contract metadata and instances, WASM programs, balances, positions, signers, NFTs, and the
  figures read from operations and events.  A hash map that is listed keeps the order of first
  insertion here; the source leaves it open, and no property below depends on it.
\<close>

definition assoc_insert :: "'k \<Rightarrow> 'v \<Rightarrow> ('k \<times> 'v) list \<Rightarrow> ('k \<times> 'v) list" where
  "assoc_insert k v = entry_or_insert k v (\<lambda>_. v)"

definition set_insert :: "'a \<Rightarrow> 'a list \<Rightarrow> 'a list" where
  "set_insert a xs = (if a \<in> set xs then xs else xs @ [a])"

subsection \<open>Contracts\<close>

record token_metadata =
  tm_name :: "string option"
  tm_symbol :: "string option"
  tm_decimals :: "int option"

record contract_metadata =
  cm_contract_id :: string
  cm_metadata :: token_metadata
  cm_ledger :: int

definition build_metadata_rows :: "contract_metadata list \<Rightarrow> contract_metadata_row list" where
  "build_metadata_rows writes =
     map (\<lambda>w. \<lparr>mdrow_contract_id = cm_contract_id w, mdrow_name = tm_name (cm_metadata w),
               mdrow_symbol = tm_symbol (cm_metadata w), mdrow_decimals = tm_decimals (cm_metadata w),
               mdrow_version = cm_ledger w\<rparr>) writes"

definition build_executable_ref_rows :: "ids_ext \<Rightarrow> executable_ref_target list \<Rightarrow> executable_ref_row list" where
  "build_executable_ref_rows ix targets =
     keep_last_by_key (\<lambda>r. (errow_owner_id r, errow_tag r, errow_ledger r))
       (filter_map (\<lambda>t. map_option (\<lambda>h. \<lparr>errow_owner_id = contract_id ix (et_owner t), errow_tag = et_tag t,
                                          errow_wasm_hash = h, errow_ledger = et_ledger_sequence t\<rparr>)
                          (hex32 ix (et_wasm_hash t))) targets)"

definition contract_instance_rows :: "contract_instance list \<Rightarrow> contract_instance_row list" where
  "contract_instance_rows instances =
     keep_last_by_key (\<lambda>r. (cirow_contract r, cirow_ledger r))
       (map (\<lambda>i. \<lparr>cirow_contract = ci_contract i, cirow_data_xdr = ci_data_xdr i,
                  cirow_ledger = ci_ledger_sequence i\<rparr>) instances)"

text \<open>A contract upgraded in the ledger: its stored row, with what the upgrade changes.\<close>

definition upgraded_row :: "ids_ext \<Rightarrow> int \<Rightarrow> soroban_contract_row \<Rightarrow> executable_update \<Rightarrow> soroban_contract_row" where
  "upgraded_row ix ledger row update =
     (case update of
        UpdateWasm h \<Rightarrow>
          row\<lparr>crow_wasm_hash := Some h, crow_executable_owner_id := None, crow_executable_tag := None,
              crow_wasm_uploaded_at_ledger := ledger\<rparr>
      | UpdateExternalRef owner tag \<Rightarrow>
          row\<lparr>crow_wasm_hash := None, crow_executable_owner_id := Some (contract_id ix owner),
              crow_executable_tag := Some tag, crow_wasm_uploaded_at_ledger := ledger\<rparr>)"

definition wasm_upgrade_of ::
  "ids_ext \<Rightarrow> codec_ext \<Rightarrow> (string \<rightharpoonup> soroban_contract_row) \<Rightarrow> int \<Rightarrow> extracted_event \<Rightarrow>
   (string \<times> soroban_contract_row) option" where
  "wasm_upgrade_of ix cx prior ledger ev =
     (if eb_event_type (ev_body ev) \<noteq> EvSystem then None
      else do { addr \<leftarrow> eb_contract_id (ev_body ev);
                update \<leftarrow> extract_executable_update cx (eb_topics (ev_body ev));
                prior_row \<leftarrow> prior addr;
                Some (addr, upgraded_row ix ledger prior_row update) })"

definition build_wasm_upgrade_rows ::
  "ids_ext \<Rightarrow> codec_ext \<Rightarrow> (string \<times> extracted_event list) list \<Rightarrow> (string \<rightharpoonup> soroban_contract_row) \<Rightarrow> int \<Rightarrow>
   soroban_contract_row list" where
  "build_wasm_upgrade_rows ix cx events prior ledger =
     map snd (foldl (\<lambda>m (addr, row). assoc_insert addr row m) []
       (filter_map (wasm_upgrade_of ix cx prior ledger) (concat (map snd events))))"

subsection \<open>WASM programs\<close>

definition contract_function_json :: "contract_function \<Rightarrow> json" where
  "contract_function_json f =
     JObj [(''name'', JStr (cf_name f)), (''doc'', JStr (cf_doc f)),
           (''inputs'', JArr (map (\<lambda>p. JObj [(''name'', JStr (fp_name p)), (''type_name'', JStr (fp_type_name p))])
                               (cf_inputs f))),
           (''outputs'', JArr (map JStr (cf_outputs f)))]"

definition program_row :: "ids_ext \<Rightarrow> wasm_program \<Rightarrow> stage_error + wasm_program_row" where
  "program_row ix program =
     (let metadata = (case wp_functions program of
            Some functions \<Rightarrow>
              json_text (JObj [(''functions'', JArr (map contract_function_json functions)),
                               (''wasm_byte_len'', JNum (int (wp_wasm_byte_len program))),
                               (''upgradeable'', JBool (wp_upgradeable program))])
          | None \<Rightarrow> [])
      in map_res (\<lambda>h. \<lparr>wrow_wasm_hash = h, wrow_metadata = metadata, wrow_code = wp_code program\<rparr>)
           (decode_hash ix (wp_wasm_hash program) ''wasm_hash''))"

definition wasm_step ::
  "ids_ext \<Rightarrow> wasm_program_row list \<times> (bytes \<rightharpoonup> contract_type) \<Rightarrow> wasm_program \<Rightarrow>
   stage_error + wasm_program_row list \<times> (bytes \<rightharpoonup> contract_type)" where
  "wasm_step ix s program =
     (case s of (rows, verdicts) \<Rightarrow>
        map_res (\<lambda>row.
          if wrow_wasm_hash row \<in> set (map wrow_wasm_hash rows) then (rows, verdicts)
          else (rows @ [row],
                (case wp_functions program of
                   Some functions \<Rightarrow>
                     verdicts(wrow_wasm_hash row \<mapsto> contract_type_of_class (classify_contract_from_wasm_spec functions))
                 | None \<Rightarrow> verdicts))) (program_row ix program))"

definition wasm_rows ::
  "ids_ext \<Rightarrow> wasm_program list \<Rightarrow> stage_error + wasm_program_row list \<times> (bytes \<rightharpoonup> contract_type)" where
  "wasm_rows ix programs = fold_res (wasm_step ix) ([], Map.empty) programs"

subsection \<open>Balances\<close>

text \<open>The asset of a token contract: the classic asset a SAC wraps, else the contract itself.\<close>

definition contract_token_asset_id :: "ids_ext \<Rightarrow> string \<Rightarrow> (int \<rightharpoonup> int) \<Rightarrow> int" where
  "contract_token_asset_id ix token sac_classic =
     (let contract = contract_id ix token
      in unwrap_or (sac_classic contract) (asset_id ix (asset_family_code FamSoroban) [] 0 contract))"

definition soroban_balance_row :: "ids_ext \<Rightarrow> (int \<rightharpoonup> int) \<Rightarrow> soroban_balance \<Rightarrow> balance_row" where
  "soroban_balance_row ix sac_classic b =
     \<lparr>brow_holder_id = address_id ix (sb_holder b),
      brow_asset_id = contract_token_asset_id ix (sb_contract_id b) sac_classic,
      brow_amount = sb_balance b, brow_last_updated_ledger = sb_ledger b,
      brow_closed_at_ledger = (if sb_closed b then sb_ledger b else 0)\<rparr>"

fun balance_rows_loop ::
  "(int \<times> int \<rightharpoonup> nat) \<Rightarrow> balance_row list \<Rightarrow> balance_row list \<Rightarrow> balance_row list" where
  "balance_rows_loop slots rows [] = rows"
| "balance_rows_loop slots rows (row # todo) =
     (let key = (brow_holder_id row, brow_asset_id row) in
      case slots key of
        Some i \<Rightarrow> balance_rows_loop slots (rows[i := row]) todo
      | None \<Rightarrow> balance_rows_loop (slots(key \<mapsto> length rows)) (rows @ [row]) todo)"

definition build_balance_rows :: "ids_ext \<Rightarrow> soroban_balance list \<Rightarrow> (int \<rightharpoonup> int) \<Rightarrow> balance_row list" where
  "build_balance_rows ix balances sac_classic =
     balance_rows_loop Map.empty [] (map (soroban_balance_row ix sac_classic) balances)"

definition claimable_balance_row :: "ids_ext \<Rightarrow> claimable_balance \<Rightarrow> balance_row" where
  "claimable_balance_row ix b =
     \<lparr>brow_holder_id = address_id ix (cb_balance_id b),
      brow_asset_id = (case cb_asset b of CbNative \<Rightarrow> native_asset_id
                       | CbCredit code issuer \<Rightarrow> credit_asset_id ix code issuer),
      brow_amount = cb_amount b, brow_last_updated_ledger = cb_ledger_sequence b,
      brow_closed_at_ledger = (if cb_closed b then cb_ledger_sequence b else 0)\<rparr>"

definition build_claimable_balance_rows :: "ids_ext \<Rightarrow> claimable_balance list \<Rightarrow> balance_row list" where
  "build_claimable_balance_rows ix balances =
     keep_last_by_key (\<lambda>r. (brow_holder_id r, brow_asset_id r, brow_last_updated_ledger r))
       (map (claimable_balance_row ix) balances)"

type_synonym balance_dedup = "((int \<times> int) \<times> balance_row) list"

definition upsert_balance :: "balance_dedup \<Rightarrow> int \<Rightarrow> int \<Rightarrow> int \<Rightarrow> int \<Rightarrow> int \<Rightarrow> balance_dedup" where
  "upsert_balance m holder asset amount updated closed =
     (let row = \<lparr>brow_holder_id = holder, brow_asset_id = asset, brow_amount = amount,
                 brow_last_updated_ledger = updated, brow_closed_at_ledger = closed\<rparr>
      in entry_or_insert (holder, asset) row
           (\<lambda>old. if brow_last_updated_ledger old \<le> brow_last_updated_ledger row then row else old) m)"

text \<open>One entry of an account's \<open>balances\<close>; an asset type or an asset that does not read is skipped.\<close>

definition account_balance_step ::
  "ids_ext \<Rightarrow> account_state \<Rightarrow> balance_dedup \<Rightarrow> json \<Rightarrow> stage_error + balance_dedup" where
  "account_balance_step ix st m b =
     (case Option.bind (get_str b ''asset_type'') (\<lambda>s. case asset_type_from_str s of Inr t \<Rightarrow> Some t | Inl e \<Rightarrow> None) of
        None \<Rightarrow> Inr m
      | Some asset_type \<Rightarrow>
          try_res (decimal7_string_to_i128 (unwrap_or (get_str b ''balance'') ''0'')) (\<lambda>amount.
          let holder = account_id ix (as_account_id st);
              watermark = as_last_seen_ledger st;
              closed_at = (if as_account_removed st \<and> asset_type = AtNative then watermark else 0)
          in if asset_type = AtNative then Inr (upsert_balance m holder native_asset_id amount watermark closed_at)
             else
               let code = unwrap_or (get_str b ''asset_code'') []; issuer = unwrap_or (get_str b ''issuer'') []
               in if code = [] \<or> issuer = [] then Inr m
                  else Inr (upsert_balance m holder (credit_asset_id ix code issuer) amount watermark closed_at)))"

definition removed_trustline_step :: "ids_ext \<Rightarrow> account_state \<Rightarrow> balance_dedup \<Rightarrow> json \<Rightarrow> balance_dedup" where
  "removed_trustline_step ix st m rm =
     (let code = unwrap_or (get_str rm ''asset_code'') []; issuer = unwrap_or (get_str rm ''issuer'') []
      in if code = [] \<or> issuer = [] then m
         else upsert_balance m (account_id ix (as_account_id st)) (credit_asset_id ix code issuer) 0
                (as_last_seen_ledger st) (as_last_seen_ledger st))"

subsection \<open>Signers\<close>

definition parse_thresholds :: "ids_ext \<Rightarrow> string \<Rightarrow> (int \<times> int \<times> int \<times> int) option" where
  "parse_thresholds ix hex_str =
     (case ix_hex ix hex_str of
        Inr [a, b, c, d] \<Rightarrow> Some (of_char a, of_char b, of_char c, of_char d)
      | _ \<Rightarrow> None)"

definition signer_of :: "json \<Rightarrow> (string \<times> int \<times> string) option" where
  "signer_of sg =
     (let key = unwrap_or (get_str sg ''key'') [];
          weight = wrap_u32 (unwrap_or (Option.bind (jget sg ''weight'') as_u64) 0);
          typ = unwrap_or (get_str sg ''type'') ''unknown''
      in if key = [] then None else Some (key, weight, typ))"

definition entry_state_row :: "ids_ext \<Rightarrow> account_state \<Rightarrow> string \<Rightarrow> int \<Rightarrow> int \<Rightarrow> account_entry_state_row option" where
  "entry_state_row ix st th_hex account watermark =
     (case parse_thresholds ix th_hex of
        None \<Rightarrow> None
      | Some (master, low, med, high) \<Rightarrow>
          let signers = filter_map signer_of (unwrap_or (as_signers st) [])
          in Some \<lparr>esrow_account_id = account, esrow_signer_keys = map fst signers,
                   esrow_signer_weights = map (\<lambda>s. fst (snd s)) signers,
                   esrow_signer_types = map (\<lambda>s. snd (snd s)) signers,
                   esrow_master_weight = master, esrow_threshold_low = low, esrow_threshold_med = med,
                   esrow_threshold_high = high, esrow_flags = unwrap_or (as_flags st) 0,
                   esrow_num_sponsoring = unwrap_or (as_num_sponsoring st) 0,
                   esrow_num_sponsored = unwrap_or (as_num_sponsored st) 0,
                   esrow_last_updated_ledger = watermark\<rparr>)"

type_synonym account_rows_acc = "balance_dedup \<times> (int \<times> account_entry_state_row) list"

definition account_state_step ::
  "ids_ext \<Rightarrow> account_rows_acc \<Rightarrow> account_state \<Rightarrow> stage_error + account_rows_acc" where
  "account_state_step ix acc st =
     (case acc of (balances, states) \<Rightarrow>
        let account = account_id ix (as_account_id st); watermark = as_last_seen_ledger st in
        try_res (fold_res (account_balance_step ix st) balances (unwrap_or (as_array (as_balances st)) [])) (\<lambda>balances.
        let states = (case as_thresholds st of
              Some th_hex \<Rightarrow>
                if as_account_removed st then states
                else (case entry_state_row ix st th_hex account watermark of
                        Some row \<Rightarrow> assoc_insert account row states | None \<Rightarrow> states)
            | None \<Rightarrow> states)
        in Inr (foldl (removed_trustline_step ix st) balances (as_removed_trustlines st), states)))"

definition account_state_rows ::
  "ids_ext \<Rightarrow> account_state list \<Rightarrow> stage_error + balance_row list \<times> account_entry_state_row list" where
  "account_state_rows ix states =
     map_res (\<lambda>(balances, entry_states). (map snd balances, map snd entry_states))
       (fold_res (account_state_step ix) ([], []) states)"

subsection \<open>Accounts\<close>

record account_override =
  ov_sequence_number :: int
  ov_sequence_set :: bool
  ov_first_seen_ledger :: "int option"
  ov_home_domain :: "string option"
  ov_last_seen_ledger :: "int option"

definition override_from_first :: "account_state \<Rightarrow> account_override" where
  "override_from_first st =
     \<lparr>ov_sequence_number = as_sequence_number st, ov_sequence_set = (0 \<le> as_sequence_number st),
      ov_first_seen_ledger = as_first_seen_ledger st, ov_home_domain = as_home_domain st,
      ov_last_seen_ledger = Some (as_last_seen_ledger st)\<rparr>"

definition override_merge :: "account_state \<Rightarrow> account_override \<Rightarrow> account_override" where
  "override_merge st o1 =
     (let o1 = (if 0 \<le> as_sequence_number st
                then o1\<lparr>ov_sequence_number := as_sequence_number st, ov_sequence_set := True\<rparr> else o1);
          seen = as_last_seen_ledger st
      in o1\<lparr>ov_first_seen_ledger := (case (ov_first_seen_ledger o1, as_first_seen_ledger st) of
                (Some a, Some b) \<Rightarrow> Some (min a b)
              | (Some a, None) \<Rightarrow> Some a
              | (None, b) \<Rightarrow> b),
            ov_home_domain := (case as_home_domain st of Some d \<Rightarrow> Some d | None \<Rightarrow> ov_home_domain o1),
            ov_last_seen_ledger := Some (case ov_last_seen_ledger o1 of Some prev \<Rightarrow> max prev seen | None \<Rightarrow> seen)\<rparr>)"

definition override_step :: "(string \<rightharpoonup> account_override) \<Rightarrow> account_state \<Rightarrow> (string \<rightharpoonup> account_override)" where
  "override_step m st =
     m(as_account_id st \<mapsto> (case m (as_account_id st) of
         Some o1 \<Rightarrow> override_merge st o1 | None \<Rightarrow> override_from_first st))"

definition override_public :: "account_override \<Rightarrow> account_override" where
  "override_public v = v\<lparr>ov_sequence_number := (if ov_sequence_set v then ov_sequence_number v else 0)\<rparr>"

definition merge_account_state_overrides :: "account_state list \<Rightarrow> (string \<rightharpoonup> account_override)" where
  "merge_account_state_overrides states = (\<lambda>k. map_option override_public (foldl override_step Map.empty states k))"

definition accounts_row_of :: "ids_ext \<Rightarrow> int \<Rightarrow> (string \<rightharpoonup> account_override) \<Rightarrow> string \<Rightarrow> accounts_row" where
  "accounts_row_of ix ledger overrides key =
     (let ov = overrides key;
          last_seen = unwrap_or (Option.bind ov ov_last_seen_ledger) ledger
      in \<lparr>arow_id = account_id ix key, arow_account_id = key,
          arow_first_seen_ledger = unwrap_or (Option.bind ov ov_first_seen_ledger) last_seen,
          arow_last_seen_ledger = last_seen,
          arow_sequence_number = (case ov of
              Some v \<Rightarrow> if 0 \<le> ov_sequence_number v then ov_sequence_number v else 0
            | None \<Rightarrow> 0),
          arow_home_domain = Option.bind ov ov_home_domain\<rparr>)"

subsection \<open>Positions\<close>

definition lp_position_row_of :: "ids_ext \<Rightarrow> lp_position \<Rightarrow> stage_error + lp_position_row" where
  "lp_position_row_of ix pos =
     try_res (decode_hash ix (lp_pool_id pos) ''lp_position.pool_id'') (\<lambda>pool_id.
     try_res (decimal7_string_to_i128 (lp_shares pos)) (\<lambda>shares.
     Inr \<lparr>lprow_pool_id = pool_id, lprow_account_id = account_id ix (lp_account_id pos), lprow_shares = shares,
          lprow_last_updated_ledger = lp_last_updated_ledger pos,
          lprow_closed_at_ledger = (if lp_closed pos then lp_last_updated_ledger pos else 0)\<rparr>))"

definition lp_position_step ::
  "ids_ext \<Rightarrow> ((bytes \<times> int) \<times> lp_position_row) list \<Rightarrow> lp_position \<Rightarrow>
   stage_error + ((bytes \<times> int) \<times> lp_position_row) list" where
  "lp_position_step ix m pos =
     map_res (\<lambda>row. entry_or_insert (lprow_pool_id row, lprow_account_id row) row
                      (\<lambda>old. if lprow_last_updated_ledger old \<le> lprow_last_updated_ledger row then row else old) m)
       (lp_position_row_of ix pos)"

definition lp_position_rows :: "ids_ext \<Rightarrow> lp_position list \<Rightarrow> stage_error + lp_position_row list" where
  "lp_position_rows ix positions = map_res (map snd) (fold_res (lp_position_step ix) [] positions)"

subsection \<open>NFTs\<close>

datatype nft_route = RouteHot | RoutePending | RouteDrop

definition verdict_by_contract :: "soroban_contract_row list \<Rightarrow> (string \<rightharpoonup> contract_type)" where
  "verdict_by_contract rows =
     foldl (\<lambda>m row. case Option.bind (crow_contract_type row)
                          (\<lambda>t. case contract_type_try_from t of Inr ty \<Rightarrow> Some ty | Inl e \<Rightarrow> None) of
                      Some ty \<Rightarrow> m(crow_contract_id row \<mapsto> ty) | None \<Rightarrow> m) Map.empty rows"

definition route_for ::
  "(string \<rightharpoonup> contract_type) \<Rightarrow> (string \<rightharpoonup> contract_type) \<Rightarrow> string \<Rightarrow> nft_route" where
  "route_for verdicts prior strkey =
     (case opt_or (verdicts strkey) (prior strkey) of
        Some CtToken \<Rightarrow> RouteDrop
      | Some CtFungible \<Rightarrow> RouteDrop
      | Some CtNft \<Rightarrow> RouteHot
      | _ \<Rightarrow> RoutePending)"

definition nft_row_of :: "ids_ext \<Rightarrow> extracted_nft \<Rightarrow> nft_row" where
  "nft_row_of ix nft =
     \<lparr>nrow_contract_id = contract_id ix (xn_contract_id nft), nrow_token_id = xn_token_id nft,
      nrow_collection_name = xn_collection_name nft, nrow_name = xn_name nft, nrow_media_url = xn_media_url nft,
      nrow_current_owner_id = map_option (account_id ix) (xn_owner nft),
      nrow_current_owner_ledger = xn_last_seen_ledger nft\<rparr>"

definition nft_merge :: "nft_row \<Rightarrow> nft_row \<Rightarrow> nft_row" where
  "nft_merge row old =
     (let old = (if nrow_current_owner_ledger old \<le> nrow_current_owner_ledger row
                 then old\<lparr>nrow_current_owner_id := nrow_current_owner_id row,
                          nrow_current_owner_ledger := nrow_current_owner_ledger row\<rparr> else old)
      in old\<lparr>nrow_collection_name := opt_or (nrow_collection_name old) (nrow_collection_name row),
             nrow_name := opt_or (nrow_name old) (nrow_name row),
             nrow_media_url := opt_or (nrow_media_url old) (nrow_media_url row)\<rparr>)"

text \<open>One bucket: the rows of its contracts, merged by contract and token.\<close>

fun nft_bucket :: "(int \<times> string \<rightharpoonup> nat) \<Rightarrow> nft_row list \<Rightarrow> nft_row list \<Rightarrow> nft_row list" where
  "nft_bucket slots rows [] = rows"
| "nft_bucket slots rows (row # todo) =
     (let key = (nrow_contract_id row, nrow_token_id row) in
      case slots key of
        Some i \<Rightarrow> nft_bucket slots (rows[i := nft_merge row (rows ! i)]) todo
      | None \<Rightarrow> nft_bucket (slots(key \<mapsto> length rows)) (rows @ [row]) todo)"

definition ownership_change_row :: "ids_ext \<Rightarrow> int \<Rightarrow> nft_ownership_event \<Rightarrow> nft_ownership_change_row" where
  "ownership_change_row ix application_order ev =
     (let i = no_event_id ev in
      \<lparr>ocrow_contract_id = contract_id ix (no_contract_id ev), ocrow_token_id = no_token_id ev,
       ocrow_ledger_sequence = int (ei_ledger_sequence i), ocrow_application_order = application_order,
       ocrow_operation_index = int (ei_operation_index i), ocrow_event_index = int (ei_event_index i),
       ocrow_owner_id = map_option (account_id ix) (no_owner ev),
       ocrow_event_type = nft_event_type_code (no_event_type ev)\<rparr>)"

record nft_tables =
  nt_hot :: "nft_row list"
  nt_pending :: "nft_row list"
  nt_changes :: "nft_ownership_change_row list"
  nt_pending_changes :: "nft_ownership_change_row list"

definition nft_rows ::
  "ids_ext \<Rightarrow> soroban_contract_row list \<Rightarrow> (string \<rightharpoonup> contract_type) \<Rightarrow> (string \<rightharpoonup> int) \<Rightarrow>
   extracted_nft list \<Rightarrow> nft_ownership_event list \<Rightarrow> nft_tables" where
  "nft_rows ix contract_rows prior app_order_by_hash nfts nft_events =
     (let route = route_for (verdict_by_contract contract_rows) prior;
          bucket = (\<lambda>r. nft_bucket Map.empty []
                     (map (nft_row_of ix) (filter (\<lambda>n. route (xn_contract_id n) = r) nfts)));
          changes = (\<lambda>r. filter_map (\<lambda>ev. map_option (\<lambda>app. ownership_change_row ix app ev)
                                            (app_order_by_hash (no_transaction_hash ev)))
                           (filter (\<lambda>ev. route (no_contract_id ev) = r) nft_events))
      in \<lparr>nt_hot = bucket RouteHot, nt_pending = bucket RoutePending,
          nt_changes = changes RouteHot, nt_pending_changes = changes RoutePending\<rparr>)"

subsection \<open>Token events and ledger deltas\<close>

definition event_asset_surrogate :: "ids_ext \<Rightarrow> event_asset \<Rightarrow> int option \<Rightarrow> int option" where
  "event_asset_surrogate ix asset emitting =
     (case asset of
        EaNative \<Rightarrow> Some native_asset_id
      | EaCredit code issuer \<Rightarrow> Some (credit_asset_id ix code issuer)
      | EaBespoke \<Rightarrow> emitting)"

record derived_token_event =
  dt_participants :: "string list"
  dt_asset_id :: "int option"

definition derive_token_event :: "ids_ext \<Rightarrow> json \<Rightarrow> int option \<Rightarrow> derived_token_event option" where
  "derive_token_event ix topics emitting =
     map_option (\<lambda>token. \<lparr>dt_participants = filter is_strkey_account (opt_list (tk_from token) @ opt_list (tk_to token)),
                          dt_asset_id = event_asset_surrogate ix (tk_asset token) emitting\<rparr>)
       (parse_token_event topics)"

definition resolved_delta :: "ids_ext \<Rightarrow> (int \<rightharpoonup> int) \<Rightarrow> ledger_delta \<Rightarrow> account_delta option" where
  "resolved_delta ix sac_classic d =
     map_option (\<lambda>a. \<lparr>ad_asset_id = a, ad_account = ld_account d, ad_delta = ld_delta d\<rparr>)
       (case ld_asset d of
          LaNative \<Rightarrow> Some native_asset_id
        | LaCredit code issuer \<Rightarrow> Some (credit_asset_id ix code issuer)
        | LaSacWrapped sac \<Rightarrow> sac_classic (contract_id ix sac)
        | LaBespoke contract \<Rightarrow> Some (contract_id ix contract))"

definition ledger_deltas_net_settled :: "ids_ext \<Rightarrow> ledger_delta list \<Rightarrow> (int \<rightharpoonup> int) \<Rightarrow> net_row list" where
  "ledger_deltas_net_settled ix deltas sac_classic = net_settled (filter_map (resolved_delta ix sac_classic) deltas)"

end
