(* ===== verification/StageOps.thy ===== *)
theory StageOps
  imports StageEntities "HOL-Library.Product_Lexorder"
begin

text \<open>
  The tables read from operations, events, invocations and transfers: the identity of operations
  and the pools they move (\<open>stage.rs\<close>, \<open>stage/operations.rs\<close>), participants
  (\<open>stage/presence.rs\<close>), contract activity, events with their signatures, the value flow
  (\<open>value_flow.rs\<close>) and classic pools with their snapshots (\<open>classic_pools.rs\<close>).
\<close>

definition saturate_i64 :: "int \<Rightarrow> int" where
  "saturate_i64 n = max i64_min (min i64_max n)"

definition em_dash :: string where
  "em_dash = [CHR 0xE2, CHR 0x80, CHR 0x94]"

subsection \<open>What an operation declares\<close>

definition str_field :: "json \<Rightarrow> string \<Rightarrow> string option" where
  "str_field obj field = opt_filter (\<lambda>s. s \<noteq> []) (get_str obj field)"

definition split_asset_ref :: "json \<Rightarrow> string option \<times> string option" where
  "split_asset_ref asset =
     (case as_str asset of
        None \<Rightarrow> (None, None)
      | Some s \<Rightarrow>
          if s = ''native'' then (None, None)
          else (case split_once CHR '':'' s of
                  Some (code, issuer) \<Rightarrow>
                    if code \<noteq> [] \<and> issuer \<noteq> [] then (Some code, Some issuer) else (None, None)
                | None \<Rightarrow> (None, None)))"

definition asset_issuer :: "json \<Rightarrow> string option" where
  "asset_issuer asset = Option.bind (as_object asset) (\<lambda>obj. str_field obj ''issuer'')"

record op_typed =
  ty_destination :: "string option"
  ty_contract_id :: "string option"
  ty_asset_code :: "string option"
  ty_asset_issuer :: "string option"
  ty_pool_ids_hex :: "string list"

definition op_typed_none :: op_typed where
  "op_typed_none = \<lparr>ty_destination = None, ty_contract_id = None, ty_asset_code = None, ty_asset_issuer = None,
                    ty_pool_ids_hex = []\<rparr>"

definition with_asset :: "json \<Rightarrow> string \<Rightarrow> op_typed \<Rightarrow> op_typed" where
  "with_asset details field t =
     (case jget details field of
        Some asset \<Rightarrow> (case split_asset_ref asset of (c, i) \<Rightarrow> t\<lparr>ty_asset_code := c, ty_asset_issuer := i\<rparr>)
      | None \<Rightarrow> t)"

definition with_destination :: "json \<Rightarrow> string \<Rightarrow> op_typed \<Rightarrow> op_typed" where
  "with_destination details field t = t\<lparr>ty_destination := str_field details field\<rparr>"

fun op_typed_by_type :: "json \<Rightarrow> operation_type \<Rightarrow> op_typed" where
  "op_typed_by_type d OpCreateAccount = with_destination d ''destination'' op_typed_none"
| "op_typed_by_type d OpPayment = with_asset d ''asset'' (with_destination d ''destination'' op_typed_none)"
| "op_typed_by_type d OpPathPaymentStrictReceive =
     with_asset d ''destAsset'' (with_destination d ''destination'' op_typed_none)"
| "op_typed_by_type d OpPathPaymentStrictSend =
     with_asset d ''destAsset'' (with_destination d ''destination'' op_typed_none)"
| "op_typed_by_type d OpAccountMerge = with_destination d ''destination'' op_typed_none"
| "op_typed_by_type d OpClawback = with_asset d ''asset'' (with_destination d ''from'' op_typed_none)"
| "op_typed_by_type d OpLiquidityPoolDeposit =
     op_typed_none\<lparr>ty_pool_ids_hex := opt_list (str_field d ''liquidityPoolId'')\<rparr>"
| "op_typed_by_type d OpLiquidityPoolWithdraw =
     op_typed_none\<lparr>ty_pool_ids_hex := opt_list (str_field d ''liquidityPoolId'')\<rparr>"
| "op_typed_by_type d OpInvokeHostFunction = op_typed_none\<lparr>ty_contract_id := str_field d ''contractId''\<rparr>"
| "op_typed_by_type d OpChangeTrust = with_asset d ''asset'' op_typed_none"
| "op_typed_by_type d OpSetTrustLineFlags = with_asset d ''asset'' (with_destination d ''trustor'' op_typed_none)"
| "op_typed_by_type d OpAllowTrust =
     (case Option.bind (jget d ''asset'') as_str of
        Some code \<Rightarrow> (with_destination d ''trustor'' op_typed_none)\<lparr>ty_asset_code := Some code\<rparr>
      | None \<Rightarrow> with_destination d ''trustor'' op_typed_none)"
| "op_typed_by_type d OpBeginSponsoringFutureReserves = with_destination d ''sponsoredId'' op_typed_none"
| "op_typed_by_type d _ = op_typed_none"

definition op_typed_from_details :: "operation_type \<Rightarrow> json \<Rightarrow> op_typed" where
  "op_typed_from_details op_type details =
     (let out = op_typed_by_type details op_type in
      if ty_pool_ids_hex out = [] then
        (case Option.bind (jget details ''poolIds'') as_array of
           Some ids \<Rightarrow> out\<lparr>ty_pool_ids_hex := filter (\<lambda>s. s \<noteq> []) (filter_map as_str ids)\<rparr>
         | None \<Rightarrow> out)
      else out)"

subsection \<open>What an operation moves in pools\<close>

definition claimed_atoms :: "json \<Rightarrow> json list" where
  "claimed_atoms details = unwrap_or (Option.bind (jget details ''claimedAtoms'') as_array) []"

definition atom_pool_id :: "ids_ext \<Rightarrow> json \<Rightarrow> bytes option" where
  "atom_pool_id ix entry = Option.bind (get_str entry ''poolId'') (hex32 ix)"

definition gross_step :: "ids_ext \<Rightarrow> (bytes \<rightharpoonup> int) \<Rightarrow> json \<Rightarrow> (bytes \<rightharpoonup> int)" where
  "gross_step ix gross atom =
     (case (get_str atom ''poolId'', Option.bind (jget atom ''amountA'') as_i64) of
        (Some pool_hex, Some amt) \<Rightarrow>
          (case hex32 ix pool_hex of
             Some pool_id \<Rightarrow> gross(pool_id \<mapsto> wrap_i128 (unwrap_or (gross pool_id) 0 + amt))
           | None \<Rightarrow> gross)
      | _ \<Rightarrow> gross)"

definition gross_volume_a_by_pool :: "ids_ext \<Rightarrow> (string \<times> extracted_operation list) list \<Rightarrow> (bytes \<rightharpoonup> int)" where
  "gross_volume_a_by_pool ix operations =
     foldl (\<lambda>m op. foldl (gross_step ix) m (claimed_atoms (xo_details op))) Map.empty (concat (map snd operations))"

definition claim_atom_asset_id :: "ids_ext \<Rightarrow> json \<Rightarrow> int option" where
  "claim_atom_asset_id ix asset =
     Option.bind (as_str asset) (\<lambda>s.
       if s = ''native'' then Some native_asset_id
       else Option.bind (split_once CHR '':'' s) (\<lambda>(code, issuer).
              if code \<noteq> [] \<and> issuer \<noteq> [] then Some (credit_asset_id ix code issuer) else None))"

type_synonym fill_sums = "((bytes \<times> int) \<times> int) list"

definition fill_leg :: "ids_ext \<Rightarrow> bytes \<Rightarrow> json \<Rightarrow> fill_sums \<Rightarrow> string \<times> string \<times> int \<Rightarrow> fill_sums" where
  "fill_leg ix pool_id entry sums leg =
     (case leg of (a_key, n_key, sg) \<Rightarrow>
        (case (Option.bind (jget entry a_key) (claim_atom_asset_id ix), Option.bind (jget entry n_key) as_i64) of
           (Some asset, Some amount) \<Rightarrow>
             entry_or_insert (pool_id, asset) 0 (\<lambda>s. saturate_i64 (s + wrap_i64 (sg * amount))) sums
         | _ \<Rightarrow> sums))"

definition fill_entry :: "ids_ext \<Rightarrow> (string \<times> string \<times> int) list \<Rightarrow> fill_sums \<Rightarrow> json \<Rightarrow> fill_sums" where
  "fill_entry ix legs sums entry =
     (case atom_pool_id ix entry of
        Some pool_id \<Rightarrow> foldl (fill_leg ix pool_id entry) sums legs
      | None \<Rightarrow> sums)"

definition atom_legs :: "(string \<times> string \<times> int) list" where
  "atom_legs = [(''assetBought'', ''amountBought'', 1), (''assetSold'', ''amountSold'', -1)]"

definition delta_legs :: "(string \<times> string \<times> int) list" where
  "delta_legs = [(''assetA'', ''amountA'', 1), (''assetB'', ''amountB'', 1)]"

definition pool_fill_amounts :: "ids_ext \<Rightarrow> json \<Rightarrow> (bytes \<times> int \<times> int) list" where
  "pool_fill_amounts ix details =
     (let sums = foldl (fill_entry ix atom_legs) [] (claimed_atoms details);
          sums = (case jget details ''poolDelta'' of Some delta \<Rightarrow> fill_entry ix delta_legs sums delta | None \<Rightarrow> sums)
      in sort (map (\<lambda>((pool_id, asset), amount). (pool_id, asset, amount))
                 (filter (\<lambda>(k, amount). amount \<noteq> 0) sums)))"

subsection \<open>Operations\<close>

record op_key =
  ok_tx_hash :: string
  ok_op_type :: int
  ok_source :: "string option"
  ok_destination :: "string option"
  ok_contract :: "string option"
  ok_asset_code :: string
  ok_asset_issuer :: "string option"
  ok_pool_ids :: "bytes list"

record op_tables =
  ot_asset_rows :: "op_asset_row list"
  ot_pool_amount_rows :: "pool_amount_row list"
  ot_agg :: "(op_key \<times> nat) list"
  ot_seen :: "int list"

definition asset_ref_id :: "ids_ext \<Rightarrow> asset_ref \<Rightarrow> int" where
  "asset_ref_id ix a = (case a of ArNative \<Rightarrow> native_asset_id | ArCredit code issuer \<Rightarrow> credit_asset_id ix code issuer)"

definition appearance_step :: "ids_ext \<Rightarrow> int \<Rightarrow> int \<Rightarrow> op_tables \<Rightarrow> asset_ref \<Rightarrow> op_tables" where
  "appearance_step ix ledger app t a =
     (let asset = asset_ref_id ix a in
      if asset \<in> set (ot_seen t) then t
      else t\<lparr>ot_seen := ot_seen t @ [asset],
             ot_asset_rows := ot_asset_rows t @
               [\<lparr>oarow_asset_id = asset, oarow_ledger_sequence = ledger, oarow_application_order = app\<rparr>]\<rparr>)"

definition pool_amount_rows_of :: "ids_ext \<Rightarrow> int \<Rightarrow> int \<Rightarrow> int \<Rightarrow> json \<Rightarrow> pool_amount_row list" where
  "pool_amount_rows_of ix ledger app operation_index details =
     map (\<lambda>(pool_id, asset, amount).
            \<lparr>poarow_pool_id = pool_id, poarow_ledger_sequence = ledger, poarow_application_order = app,
             poarow_operation_index = operation_index, poarow_asset_id = asset, poarow_amount = amount\<rparr>)
       (pool_fill_amounts ix details)"

definition op_key_of :: "string \<Rightarrow> extracted_operation \<Rightarrow> op_typed \<Rightarrow> bytes list \<Rightarrow> op_key" where
  "op_key_of tx_hash op ty pool_ids =
     \<lparr>ok_tx_hash = tx_hash, ok_op_type = operation_type_code (xo_op_type op), ok_source = xo_source_account op,
      ok_destination = ty_destination ty, ok_contract = ty_contract_id ty,
      ok_asset_code = unwrap_or (ty_asset_code ty) [], ok_asset_issuer = ty_asset_issuer ty,
      ok_pool_ids = remdups (sort pool_ids)\<rparr>"

definition operation_step :: "ids_ext \<Rightarrow> int \<Rightarrow> string \<Rightarrow> int \<Rightarrow> op_tables \<Rightarrow> extracted_operation \<Rightarrow> stage_error + op_tables" where
  "operation_step ix ledger tx_hash app t op =
     (let t = foldl (appearance_step ix ledger app) t (xo_asset_appearances op);
          ty = op_typed_from_details (xo_op_type op) (xo_details op)
      in try_res (mapM_res (\<lambda>h. decode_hash ix h ''op.pool_ids'') (ty_pool_ids_hex ty)) (\<lambda>pool_ids.
         map_res (\<lambda>operation_index.
           t\<lparr>ot_pool_amount_rows := ot_pool_amount_rows t @ pool_amount_rows_of ix ledger app operation_index (xo_details op),
             ot_agg := entry_or_insert (op_key_of tx_hash op ty pool_ids) (xo_operation_index op)
                         (\<lambda>m. min m (xo_operation_index op)) (ot_agg t)\<rparr>)
           (try_i16 ''operation position (>i16)'' (int (xo_operation_index op)))))"

definition operations_step ::
  "ids_ext \<Rightarrow> int \<Rightarrow> (string \<rightharpoonup> int) \<Rightarrow> op_tables \<Rightarrow> string \<times> extracted_operation list \<Rightarrow> stage_error + op_tables" where
  "operations_step ix ledger app_order t txops =
     (case app_order (fst txops) of
        None \<Rightarrow> Inr t
      | Some app \<Rightarrow> fold_res (operation_step ix ledger (fst txops) app) (t\<lparr>ot_seen := []\<rparr>) (snd txops))"

definition tx_operation_row ::
  "ids_ext \<Rightarrow> int \<Rightarrow> int \<Rightarrow> op_key \<Rightarrow> int \<Rightarrow> transaction_operation_row" where
  "tx_operation_row ix ledger app k operation_index =
     \<lparr>oprow_ledger_sequence = ledger, oprow_application_order = app, oprow_operation_index = operation_index,
      oprow_op_type = ok_op_type k, oprow_source_id = map_option (account_id ix) (ok_source k),
      oprow_destination_id = map_option (account_id ix) (ok_destination k),
      oprow_contract_id = map_option (contract_id ix) (ok_contract k), oprow_asset_code = ok_asset_code k,
      oprow_asset_issuer_id = map_option (account_id ix) (ok_asset_issuer k), oprow_pool_ids = ok_pool_ids k\<rparr>"

definition tx_operation_rows ::
  "ids_ext \<Rightarrow> int \<Rightarrow> (string \<rightharpoonup> int) \<Rightarrow> (op_key \<times> nat) list \<Rightarrow> stage_error + transaction_operation_row list" where
  "tx_operation_rows ix ledger app_order agg =
     map_res concat (mapM_res (\<lambda>(k, min_index).
       case app_order (ok_tx_hash k) of
         None \<Rightarrow> Inr []
       | Some app \<Rightarrow> map_res (\<lambda>i. [tx_operation_row ix ledger app k i])
                      (try_i16 (''operation_index >i16 '' @ em_dash @ '' protocol violation'') (int min_index))) agg)"

text \<open>The new rows of the three tables.\<close>

definition operation_rows ::
  "ids_ext \<Rightarrow> (string \<times> extracted_operation list) list \<Rightarrow> (string \<rightharpoonup> int) \<Rightarrow> int \<Rightarrow>
   stage_error + op_asset_row list \<times> pool_amount_row list \<times> transaction_operation_row list" where
  "operation_rows ix operations app_order ledger =
     try_res (fold_res (operations_step ix ledger app_order)
                \<lparr>ot_asset_rows = [], ot_pool_amount_rows = [], ot_agg = [], ot_seen = []\<rparr> operations) (\<lambda>t.
     map_res (\<lambda>rows. (ot_asset_rows t, ot_pool_amount_rows t, rows)) (tx_operation_rows ix ledger app_order (ot_agg t)))"

definition tx_has_soroban_map :: "(string \<times> extracted_operation list) list \<Rightarrow> (string \<rightharpoonup> bool)" where
  "tx_has_soroban_map operations =
     foldl (\<lambda>m (h, ops). m(h \<mapsto> list_ex (\<lambda>op. xo_op_type op \<in>
        {OpInvokeHostFunction, OpExtendFootprintTtl, OpRestoreFootprint}) ops)) Map.empty operations"

subsection \<open>Participants and assets of a transaction\<close>

definition participant_rows ::
  "ids_ext \<Rightarrow> int \<Rightarrow> extracted_transaction list \<Rightarrow> (string \<rightharpoonup> string list) \<Rightarrow> (string \<rightharpoonup> int) \<Rightarrow> participant_row list" where
  "participant_rows ix ledger transactions participants app_order =
     concat (map (\<lambda>tx. case (participants (xt_hash tx), app_order (xt_hash tx)) of
         (Some keys, Some app) \<Rightarrow>
           map (\<lambda>key. \<lparr>parow_account_id = account_id ix key, parow_ledger_sequence = ledger,
                        parow_application_order = app\<rparr>) (filter is_strkey_account keys)
       | _ \<Rightarrow> []) transactions)"

definition event_asset_rows :: "int \<Rightarrow> (string \<times> int list) list \<Rightarrow> (string \<rightharpoonup> int) \<Rightarrow> op_asset_row list" where
  "event_asset_rows ledger event_assets app_order =
     concat (map (\<lambda>(h, assets). case app_order h of
         None \<Rightarrow> []
       | Some app \<Rightarrow> map (\<lambda>a. \<lparr>oarow_asset_id = a, oarow_ledger_sequence = ledger, oarow_application_order = app\<rparr>) assets)
       event_assets)"

subsection \<open>Events\<close>

definition extract_event_signature :: "json \<Rightarrow> string option" where
  "extract_event_signature topics =
     do { arr \<leftarrow> as_array topics;
          t0 \<leftarrow> first_opt arr;
          let nonempty = opt_filter (\<lambda>s. s \<noteq> []);
          opt_or (nonempty (typed_str t0 ''sym''))
            (case nonempty (typed_str t0 ''string'') of
               Some label_or_name \<Rightarrow>
                 opt_or (nonempty (Option.bind (nth_opt arr 1) (\<lambda>t. typed_str t ''sym''))) (Some label_or_name)
             | None \<Rightarrow> None) }"

definition is_operation_origin :: "event_origin \<Rightarrow> bool" where
  "is_operation_origin origin = (case origin of OriginOperation _ \<Rightarrow> True | OriginTransaction _ \<Rightarrow> False)"

definition event_row :: "ids_ext \<Rightarrow> int \<Rightarrow> int \<Rightarrow> string \<Rightarrow> extracted_event \<Rightarrow> soroban_event_row" where
  "event_row ix ledger app contract ev =
     (let i = ev_event_id ev; body = ev_body ev in
      \<lparr>evrow_contract_id = contract_id ix contract, evrow_ledger_sequence = ledger,
       evrow_transaction_index = int (ei_transaction_index i), evrow_operation_index = int (ei_operation_index i),
       evrow_event_index = int (ei_event_index i), evrow_application_order = app,
       evrow_event_type = contract_event_type_code (eb_event_type body),
       evrow_signature = extract_event_signature (eb_topics body),
       evrow_topics_xdr = json_text (eb_topics body), evrow_data_xdr = json_text (eb_data body)\<rparr>)"

record event_tables =
  et_rows :: "soroban_event_row list"
  et_contract_txs :: "(int \<times> int) list"
  et_seen :: "event_id list"

definition event_step :: "ids_ext \<Rightarrow> int \<Rightarrow> string \<Rightarrow> int \<Rightarrow> event_tables \<Rightarrow> extracted_event \<Rightarrow> stage_error + event_tables" where
  "event_step ix ledger tx_hash app t ev =
     (if ev_event_id ev \<in> set (et_seen t) then
        Inl (staging_err (''two events share the stellar-rpc id '' @ to_rpc_string (ev_event_id ev) @ '' (tx ''
                          @ tx_hash @ '') '' @ em_dash @ '' ADR 0059''))
      else
        let t = t\<lparr>et_seen := et_seen t @ [ev_event_id ev]\<rparr> in
        (case eb_contract_id (ev_body ev) of
           None \<Rightarrow> Inr t
         | Some contract \<Rightarrow>
             Inr (t\<lparr>et_rows := et_rows t @ [event_row ix ledger app contract ev],
                    et_contract_txs := (if is_operation_origin (ev_origin ev)
                                        then set_insert (contract_id ix contract, app) (et_contract_txs t)
                                        else et_contract_txs t)\<rparr>)))"

definition event_rows ::
  "ids_ext \<Rightarrow> (string \<times> extracted_event list) list \<Rightarrow> (string \<rightharpoonup> int) \<Rightarrow> int \<Rightarrow> stage_error + event_tables" where
  "event_rows ix events app_order ledger =
     fold_res (\<lambda>t (tx_hash, evs). case app_order tx_hash of
                  None \<Rightarrow> Inr t
                | Some app \<Rightarrow> fold_res (event_step ix ledger tx_hash app) t evs)
       \<lparr>et_rows = [], et_contract_txs = [], et_seen = []\<rparr> events"

subsection \<open>Contract activity\<close>

record invoked =
  iv_count :: int
  iv_caller_id :: "int option"
  iv_caller_contract_id :: "int option"

definition caller_ids :: "ids_ext \<Rightarrow> string option \<Rightarrow> int option \<times> int option" where
  "caller_ids ix caller =
     (case caller of
        Some k \<Rightarrow>
          if is_strkey_account k then (Some (account_id ix k), None)
          else if first_opt k = Some CHR ''C'' then (None, Some (contract_id ix k))
          else (None, None)
      | None \<Rightarrow> (None, None))"

definition invoked_again :: "int option \<times> int option \<Rightarrow> invoked \<Rightarrow> invoked" where
  "invoked_again caller i =
     (let i = i\<lparr>iv_count := min 2147483647 (iv_count i + 1)\<rparr> in
      if iv_caller_id i = None \<and> iv_caller_contract_id i = None
      then i\<lparr>iv_caller_id := fst caller, iv_caller_contract_id := snd caller\<rparr> else i)"

definition invocation_step ::
  "ids_ext \<Rightarrow> int \<Rightarrow> (int \<times> int \<rightharpoonup> invoked) \<Rightarrow> extracted_invocation \<Rightarrow> (int \<times> int \<rightharpoonup> invoked)" where
  "invocation_step ix app m i =
     (case iv_contract_id i of
        None \<Rightarrow> m
      | Some contract \<Rightarrow>
          let key = (contract_id ix contract, app); caller = caller_ids ix (iv_caller i) in
          m(key \<mapsto> (case m key of
              Some v \<Rightarrow> invoked_again caller v
            | None \<Rightarrow> \<lparr>iv_count = 1, iv_caller_id = fst caller, iv_caller_contract_id = snd caller\<rparr>)))"

definition invoked_map ::
  "ids_ext \<Rightarrow> (string \<times> extracted_invocation list) list \<Rightarrow> (string \<rightharpoonup> int) \<Rightarrow> (int \<times> int \<rightharpoonup> invoked)" where
  "invoked_map ix invocations app_order =
     foldl (\<lambda>m (h, invs). case app_order h of
              None \<Rightarrow> m | Some app \<Rightarrow> foldl (invocation_step ix app) m invs) Map.empty invocations"

definition invoked_keys ::
  "ids_ext \<Rightarrow> (string \<times> extracted_invocation list) list \<Rightarrow> (string \<rightharpoonup> int) \<Rightarrow> (int \<times> int) list" where
  "invoked_keys ix invocations app_order =
     concat (map (\<lambda>(h, invs). case app_order h of
                    None \<Rightarrow> []
                  | Some app \<Rightarrow> filter_map (\<lambda>i. map_option (\<lambda>c. (contract_id ix c, app)) (iv_contract_id i)) invs)
       invocations)"

definition activity_row :: "int \<Rightarrow> (int \<times> int \<rightharpoonup> invoked) \<Rightarrow> int \<times> int \<Rightarrow> contract_activity_row" where
  "activity_row ledger invoked_of key =
     \<lparr>carow_contract_id = fst key, carow_ledger_sequence = ledger, carow_application_order = snd key,
      carow_caller_id = Option.bind (invoked_of key) iv_caller_id,
      carow_caller_contract_id = Option.bind (invoked_of key) iv_caller_contract_id,
      carow_invocation_count = (case invoked_of key of Some i \<Rightarrow> iv_count i | None \<Rightarrow> 0)\<rparr>"

definition contract_activity_rows ::
  "ids_ext \<Rightarrow> (string \<times> extracted_invocation list) list \<Rightarrow> (string \<rightharpoonup> int) \<Rightarrow> (int \<times> int) list \<Rightarrow>
   transaction_operation_row list \<Rightarrow> int \<Rightarrow> contract_activity_row list" where
  "contract_activity_rows ix invocations app_order contract_txs op_rows ledger =
     (let invoked_of = invoked_map ix invocations app_order;
          touched = contract_txs @ invoked_keys ix invocations app_order
                    @ filter_map (\<lambda>op. map_option (\<lambda>c. (c, oprow_application_order op)) (oprow_contract_id op)) op_rows
      in map (activity_row ledger invoked_of) (sort (remdups touched)))"

subsection \<open>Value flow\<close>

record value_flow_rows =
  vf_transfers :: "asset_transfer_row list"
  vf_memos :: "transaction_memo_row list"

text \<open>The first character of a string of UTF-8 bytes.\<close>

fun first_char :: "string \<Rightarrow> string" where
  "first_char [] = []"
| "first_char (c # r) = c # takeWhile (\<lambda>d. cont_byte (of_char d)) r"

definition endpoint_of :: "ids_ext \<Rightarrow> string option \<Rightarrow> int option \<times> string" where
  "endpoint_of ix strkey =
     (case strkey of None \<Rightarrow> (None, []) | Some s \<Rightarrow> (Some (address_id ix s), first_char s))"

fun verb_of :: "token_event_kind \<Rightarrow> string" where
  "verb_of TkTransfer = ''transfer''"
| "verb_of TkMint = ''mint''"
| "verb_of TkBurn = ''burn''"
| "verb_of TkClawback = ''clawback''"

definition narrow :: "nat \<Rightarrow> string \<Rightarrow> stage_error + int" where
  "narrow v what = try_i16 (what @ '' overflow (>i16): '' @ show_nat v) (int v)"

definition application_orders :: "extracted_transaction list \<Rightarrow> stage_error + (int \<times> extracted_transaction) list" where
  "application_orders transactions =
     mapM_res (\<lambda>(i, tx). map_res (\<lambda>n. (n, tx)) (try_i16 ''application_order overflow (>i16)'' (int i + 1)))
       (List.enumerate 0 transactions)"

definition order_by_hash :: "(int \<times> extracted_transaction) list \<Rightarrow> (string \<rightharpoonup> int)" where
  "order_by_hash ordered = foldl (\<lambda>m (n, tx). m(xt_hash tx \<mapsto> n)) Map.empty ordered"

definition memo_row :: "int \<Rightarrow> int \<times> extracted_transaction \<Rightarrow> transaction_memo_row option" where
  "memo_row ledger otx =
     (case (xt_memo_type (snd otx), xt_memo (snd otx)) of
        (Some ty, Some memo) \<Rightarrow>
          Some \<lparr>memrow_ledger_sequence = ledger, memrow_application_order = fst otx, memrow_memo_type = ty,
                memrow_memo = memo\<rparr>
      | _ \<Rightarrow> None)"

definition asset_transfer_row_of ::
  "ids_ext \<Rightarrow> int \<Rightarrow> (string \<rightharpoonup> int) \<Rightarrow> asset_transfer \<Rightarrow> stage_error + asset_transfer_row" where
  "asset_transfer_row_of ix ledger order t =
     try_res (ok_or (staging_err (''asset transfer for unknown transaction '' @ tr_transaction_hash t))
                (order (tr_transaction_hash t))) (\<lambda>app.
     let (from_id, from_kind) = endpoint_of ix (tr_from t); (to_id, to_kind) = endpoint_of ix (tr_to t) in
     try_res (ok_or (staging_err (''asset transfer without a resolvable asset (tx '' @ tr_transaction_hash t @ '', op ''
                        @ show_nat (tr_op_index t) @ '', event '' @ show_nat (tr_event_pos_in_op t) @ '')''))
                (event_asset_surrogate ix (tr_asset t) (Some (contract_id ix (tr_emitter t))))) (\<lambda>asset.
     try_res (narrow (tr_op_index t) ''op_index'') (\<lambda>op_index.
     try_res (narrow (tr_event_pos_in_op t) ''event_pos_in_op'') (\<lambda>pos.
     Inr \<lparr>atrow_ledger_sequence = ledger, atrow_application_order = app, atrow_op_index = op_index,
          atrow_event_pos_in_op = pos, atrow_asset_id = asset, atrow_amount = tr_amount t,
          atrow_from_id = from_id, atrow_from_kind = from_kind, atrow_from_muxed_id = tr_from_muxed_id t,
          atrow_to_id = to_id, atrow_to_kind = to_kind, atrow_to_muxed_id = tr_to_muxed_id t,
          atrow_verb = verb_of (tr_kind t)\<rparr>))))"

definition build_value_flow_rows ::
  "ids_ext \<Rightarrow> int \<Rightarrow> extracted_transaction list \<Rightarrow> asset_transfer list \<Rightarrow> stage_error + value_flow_rows" where
  "build_value_flow_rows ix ledger transactions transfers =
     try_res (application_orders transactions) (\<lambda>ordered.
     try_res (mapM_res (asset_transfer_row_of ix ledger (order_by_hash ordered)) transfers) (\<lambda>rows.
     Inr \<lparr>vf_transfers = rows, vf_memos = filter_map (memo_row ledger) ordered\<rparr>))"

subsection \<open>Classic pools\<close>

definition split_pool_asset :: "json \<Rightarrow> (asset_type \<times> string option \<times> string option) option" where
  "split_pool_asset asset =
     (if as_str asset = Some ''native'' then Some (AtNative, None, None)
      else do { obj \<leftarrow> as_object asset;
                s \<leftarrow> get_str obj ''type'';
                ty \<leftarrow> (case asset_type_from_str s of Inr t \<Rightarrow> Some t | Inl e \<Rightarrow> None);
                Some (ty, str_field obj ''code'', str_field obj ''issuer'') })"

definition classic_pool_row :: "ids_ext \<Rightarrow> bytes \<Rightarrow> liquidity_pool \<Rightarrow> liquidity_pool_row option" where
  "classic_pool_row ix pool_id pool =
     (case (split_pool_asset (lq_asset_a pool), split_pool_asset (lq_asset_b pool)) of
        (Some (a_type, a_code, a_issuer), Some (b_type, b_code, b_issuer)) \<Rightarrow>
          let code_a = unwrap_or a_code []; issuer_a = unwrap_or (map_option (account_id ix) a_issuer) 0;
              code_b = unwrap_or b_code []; issuer_b = unwrap_or (map_option (account_id ix) b_issuer) 0
          in Some \<lparr>prow_pool_id = pool_id, prow_asset_a_type = asset_type_code a_type, prow_asset_a_code = code_a,
                   prow_asset_a_issuer_id = issuer_a, prow_asset_b_type = asset_type_code b_type,
                   prow_asset_b_code = code_b, prow_asset_b_issuer_id = issuer_b, prow_fee_bps = lq_fee_bps pool,
                   prow_last_updated_ledger = lq_last_updated_ledger pool, prow_pool_kind = pool_kind_code PkClassic,
                   prow_legs = [pool_leg_asset_id ix (asset_type_code a_type) code_a issuer_a,
                                pool_leg_asset_id ix (asset_type_code b_type) code_b issuer_b],
                   prow_deployment_id = 0, prow_pool_type_raw = []\<rparr>
      | _ \<Rightarrow> None)"

definition classic_pool_merge ::
  "(bytes \<rightharpoonup> nat) \<times> liquidity_pool_row list \<Rightarrow> bytes \<Rightarrow> liquidity_pool_row \<Rightarrow> (bytes \<rightharpoonup> nat) \<times> liquidity_pool_row list" where
  "classic_pool_merge s pool_id row =
     (case s of (slots, rows) \<Rightarrow>
        (case slots pool_id of
           Some i \<Rightarrow>
             (slots, if prow_last_updated_ledger (rows ! i) \<le> prow_last_updated_ledger row
                     then rows[i := (rows ! i)\<lparr>prow_last_updated_ledger := prow_last_updated_ledger row\<rparr>]
                     else rows)
         | None \<Rightarrow> (slots(pool_id \<mapsto> length rows), rows @ [row])))"

definition classic_pool_step ::
  "ids_ext \<Rightarrow> (bytes \<rightharpoonup> nat) \<times> liquidity_pool_row list \<Rightarrow> liquidity_pool \<Rightarrow>
   stage_error + (bytes \<rightharpoonup> nat) \<times> liquidity_pool_row list" where
  "classic_pool_step ix s pool =
     map_res (\<lambda>pool_id. case classic_pool_row ix pool_id pool of
                         None \<Rightarrow> s | Some row \<Rightarrow> classic_pool_merge s pool_id row)
       (decode_hash ix (lq_pool_id pool) ''pool_id'')"

definition build_pool_rows :: "ids_ext \<Rightarrow> liquidity_pool list \<Rightarrow> stage_error + liquidity_pool_row list" where
  "build_pool_rows ix pools = map_res snd (fold_res (classic_pool_step ix) (Map.empty, []) pools)"

definition snapshot_row :: "ids_ext \<Rightarrow> (bytes \<rightharpoonup> int) \<Rightarrow> pool_snapshot \<Rightarrow> stage_error + pool_snapshot_row" where
  "snapshot_row ix gross snap =
     (let reserve = (\<lambda>k. unwrap_or (Option.bind (jget (ps_reserves snap) k) as_i64) 0) in
      try_res (decode_hash ix (ps_pool_id snap) ''snapshot.pool_id'') (\<lambda>pool_id.
      try_res (decimal7_string_to_i128 (ps_total_shares snap)) (\<lambda>shares.
      Inr \<lparr>snrow_pool_id = pool_id, snrow_ledger_sequence = ps_ledger_sequence snap, snrow_reserve_a = reserve ''a'',
           snrow_reserve_b = reserve ''b'', snrow_total_shares = shares, snrow_gross_volume_a = gross pool_id\<rparr>)))"

definition build_snapshot_rows ::
  "ids_ext \<Rightarrow> pool_snapshot list \<Rightarrow> (bytes \<rightharpoonup> int) \<Rightarrow> stage_error + pool_snapshot_row list" where
  "build_snapshot_rows ix snapshots gross = mapM_res (snapshot_row ix gross) snapshots"

end
