(* ===== verification/SorobanPools.thy ===== *)
theory SorobanPools
  imports StageOps PoolFamilies
begin

text \<open>
  The Soroban half of the pool tables: registry rows and state folds (\<open>stage/soroban_pools.rs\<close>), and
  the sections of \<open>prepare_with_sac_overrides\<close> that admit a
  registration and stage pool state.  Warnings and errors that are only logged leave no trace.
\<close>

subsection \<open>The rows of one ledger\<close>

record staged_ledger =
  sg_ledger_sequence :: int
  sg_ledger_rows :: "ledger_row list"
  sg_account_rows :: "accounts_row list"
  sg_account_entry_state_rows :: "account_entry_state_row list"
  sg_wasm_rows :: "wasm_program_row list"
  sg_contract_rows :: "soroban_contract_row list"
  sg_metadata_rows :: "contract_metadata_row list"
  sg_executable_ref_rows :: "executable_ref_row list"
  sg_contract_instance_rows :: "contract_instance_row list"
  sg_transaction_rows :: "transaction_row list"
  sg_hash_prefix_rows :: "hash_prefix_row list"
  sg_participant_rows :: "participant_row list"
  sg_pool_rows :: "liquidity_pool_row list"
  sg_pool_instance_state_rows :: "pool_instance_state_row list"
  sg_pool_state_change_rows :: "pool_state_change_row list"
  sg_snapshot_rows :: "pool_snapshot_row list"
  sg_lp_position_rows :: "lp_position_row list"
  sg_tx_operation_rows :: "transaction_operation_row list"
  sg_op_asset_rows :: "op_asset_row list"
  sg_pool_amount_rows :: "pool_amount_row list"
  sg_pool_movement_rows :: "pool_movement_row list"
  sg_event_rows :: "soroban_event_row list"
  sg_contract_activity_rows :: "contract_activity_row list"
  sg_asset_rows :: "asset_row list"
  sg_asset_sac_rows :: "asset_sac_row list"
  sg_nft_rows :: "nft_row list"
  sg_nft_pending_rows :: "nft_row list"
  sg_nft_ownership_change_rows :: "nft_ownership_change_row list"
  sg_nft_ownership_change_pending_rows :: "nft_ownership_change_row list"
  sg_unified_balance_rows :: "balance_row list"
  sg_claimable_balance_rows :: "balance_row list"
  sg_asset_transfer_rows :: "asset_transfer_row list"
  sg_transaction_memo_rows :: "transaction_memo_row list"

subsection \<open>Registry rows\<close>

definition fold_pool_state_changes :: "pool_state_change_row list \<Rightarrow> pool_state_change_row list" where
  "fold_pool_state_changes rows =
     keep_last_by_key (\<lambda>r. (psrow_pool_id r, psrow_plane_id r, psrow_ledger_sequence r)) rows"

definition fold_pool_instance_state :: "pool_instance_state_row list \<Rightarrow> pool_instance_state_row list" where
  "fold_pool_instance_state rows = keep_last_by_key (\<lambda>r. (pirow_pool_id r, pirow_derived_at_ledger r)) rows"

definition parse_reserves :: "string list \<Rightarrow> int list option" where
  "parse_reserves raw = those (map parse_i128 raw)"

definition parse_reserve_pair :: "string \<Rightarrow> string \<Rightarrow> int list option" where
  "parse_reserve_pair a b = do { x \<leftarrow> parse_i128 a; y \<leftarrow> parse_i128 b; Some [x, y] }"

definition parse_supply :: "string option \<Rightarrow> int option" where
  "parse_supply raw = (case raw of None \<Rightarrow> Some 0 | Some s \<Rightarrow> parse_i128 s)"

definition registers_soroban_pools :: "(string \<times> extracted_event list) list \<Rightarrow> bool" where
  "registers_soroban_pools events \<longleftrightarrow>
     detect_pool_registrations events \<noteq> [] \<or> detect_pair_registrations events \<noteq> [] \<or>
     detect_config_pool_registrations events \<noteq> []"

definition soroban_registry_row ::
  "bytes \<Rightarrow> int \<Rightarrow> int \<Rightarrow> int list \<Rightarrow> int \<Rightarrow> string \<Rightarrow> liquidity_pool_row" where
  "soroban_registry_row pool_id fee_bps ledger legs deployment_id pool_type_raw =
     \<lparr>prow_pool_id = pool_id, prow_asset_a_type = 0, prow_asset_a_code = [], prow_asset_a_issuer_id = 0,
      prow_asset_b_type = 0, prow_asset_b_code = [], prow_asset_b_issuer_id = 0, prow_fee_bps = fee_bps,
      prow_last_updated_ledger = ledger, prow_pool_kind = pool_kind_code PkSoroban, prow_legs = legs,
      prow_deployment_id = deployment_id, prow_pool_type_raw = pool_type_raw\<rparr>"

definition ellipsis :: string where
  "ellipsis = [CHR 0xE2, CHR 0x80, CHR 0xA6]"

definition factory_pair_registry_row ::
  "ids_ext \<Rightarrow> pair_registration \<Rightarrow> int \<Rightarrow> (int \<rightharpoonup> int) \<Rightarrow> string + liquidity_pool_row" where
  "factory_pair_registry_row ix reg ledger sac_classic =
     try_res (ok_or (''pair address is not a valid C'' @ ellipsis @ '' strkey'') (contract_payload ix (np_pair (pr_event reg)))) (\<lambda>pool_id.
     Inr (soroban_registry_row pool_id 30 ledger
            [contract_token_asset_id ix (np_token_0 (pr_event reg)) sac_classic,
             contract_token_asset_id ix (np_token_1 (pr_event reg)) sac_classic]
            (contract_id ix (pr_factory reg)) []))"

definition config_pool_registry_row ::
  "ids_ext \<Rightarrow> config_pool_registration \<Rightarrow> pool_config \<Rightarrow> int \<Rightarrow> (int \<rightharpoonup> int) \<Rightarrow> string + liquidity_pool_row" where
  "config_pool_registry_row ix reg config ledger sac_classic =
     try_res (ok_or (''pool address is not a valid C'' @ ellipsis @ '' strkey'') (contract_payload ix (cr_pool reg))) (\<lambda>pool_id.
     if \<not> fits_i32 (pc_total_fee_bps config) then Inl ''total_fee_bps out of i32 range''
     else Inr (soroban_registry_row pool_id (pc_total_fee_bps config) ledger
                 [contract_token_asset_id ix (pc_token_a config) sac_classic,
                  contract_token_asset_id ix (pc_token_b config) sac_classic]
                 (contract_id ix (cr_factory reg)) (show_int (pc_pool_type config))))"

definition pool_registry_row ::
  "ids_ext \<Rightarrow> add_pool_event \<Rightarrow> string \<Rightarrow> int \<Rightarrow> (int \<rightharpoonup> int) \<Rightarrow> string + liquidity_pool_row" where
  "pool_registry_row ix reg router_strkey ledger sac_classic =
     try_res (ok_or (''pool address is not a valid C'' @ ellipsis @ '' strkey'') (contract_payload ix (ap_pool reg))) (\<lambda>pool_id.
     try_res (ok_or ''init_args[0] is not a parseable fee''
                (Option.bind (first_opt (ap_init_args reg)) (parse_signed (- 2147483648) 2147483647))) (\<lambda>fee_bps.
     Inr (soroban_registry_row pool_id fee_bps ledger
            (map (\<lambda>t. contract_token_asset_id ix t sac_classic) (ap_tokens reg))
            (contract_id ix router_strkey) (ap_pool_type reg))))"

subsection \<open>Which registrations are admitted\<close>

definition pool_instances_of :: "pool_family_write list \<Rightarrow> extracted_pool_instance list" where
  "pool_instances_of ws = filter_map (\<lambda>w. case w of RouterPool i \<Rightarrow> Some i | _ \<Rightarrow> None) ws"

definition factory_pairs_of :: "pool_family_write list \<Rightarrow> extracted_factory_pair list" where
  "factory_pairs_of ws = filter_map (\<lambda>w. case w of FactoryPair p \<Rightarrow> Some p | _ \<Rightarrow> None) ws"

definition config_pools_of :: "pool_family_write list \<Rightarrow> extracted_config_pool list" where
  "config_pools_of ws = filter_map (\<lambda>w. case w of ConfigPool c \<Rightarrow> Some c | _ \<Rightarrow> None) ws"

definition address_lists_of :: "pool_family_write list \<Rightarrow> address_list_write list" where
  "address_lists_of ws = filter_map (\<lambda>w. case w of AddressList l \<Rightarrow> Some l | _ \<Rightarrow> None) ws"

text \<open>What the pool itself declares in this ledger: the last router it names, and whether it was created.\<close>

definition declared_router_step ::
  "(string \<rightharpoonup> string option \<times> bool) \<Rightarrow> extracted_pool_instance \<Rightarrow> (string \<rightharpoonup> string option \<times> bool)" where
  "declared_router_step m i =
     (let pool = pi_pool (xi_state i); e = unwrap_or (m pool) (None, False)
      in m(pool \<mapsto> (pi_router (xi_state i), snd e \<or> xi_created i)))"

definition declared_router :: "extracted_pool_instance list \<Rightarrow> (string \<rightharpoonup> string option \<times> bool)" where
  "declared_router instances = foldl declared_router_step Map.empty instances"

definition router_admits :: "(string \<rightharpoonup> string option \<times> bool) \<Rightarrow> pool_registration \<Rightarrow> bool" where
  "router_admits declared reg =
     (case declared (ap_pool (rg_event reg)) of
        Some (Some router, created) \<Rightarrow> router = rg_router reg
      | Some (None, created) \<Rightarrow> created
      | None \<Rightarrow> False)"

definition admitted_rows :: "('r \<Rightarrow> bool) \<Rightarrow> ('r \<Rightarrow> string + 'row) \<Rightarrow> 'r list \<Rightarrow> 'row list" where
  "admitted_rows admits row regs =
     filter_map (\<lambda>reg. if admits reg then (case row reg of Inr r \<Rightarrow> Some r | Inl reason \<Rightarrow> None) else None) regs"

definition router_pool_rows ::
  "ids_ext \<Rightarrow> extracted_pool_instance list \<Rightarrow> (string \<times> extracted_event list) list \<Rightarrow> int \<Rightarrow> (int \<rightharpoonup> int) \<Rightarrow>
   liquidity_pool_row list" where
  "router_pool_rows ix instances events ledger sac_map =
     admitted_rows (router_admits (declared_router instances))
       (\<lambda>reg. pool_registry_row ix (rg_event reg) (rg_router reg) ledger sac_map) (detect_pool_registrations events)"

record declared_pair =
  dp_factory :: string
  dp_created :: bool
  dp_token_0 :: string
  dp_token_1 :: string

definition declared_factory_step ::
  "(string \<rightharpoonup> declared_pair) \<Rightarrow> extracted_factory_pair \<Rightarrow> (string \<rightharpoonup> declared_pair)" where
  "declared_factory_step m sp =
     (let st = xf_state sp; created = (case m (fp_pair st) of Some e \<Rightarrow> dp_created e | None \<Rightarrow> False)
      in m(fp_pair st \<mapsto> \<lparr>dp_factory = fp_factory st, dp_created = (created \<or> xf_created sp),
                          dp_token_0 = fp_token_0 st, dp_token_1 = fp_token_1 st\<rparr>))"

definition declared_factory :: "extracted_factory_pair list \<Rightarrow> (string \<rightharpoonup> declared_pair)" where
  "declared_factory pairs = foldl declared_factory_step Map.empty pairs"

definition pair_admits :: "(string \<rightharpoonup> declared_pair) \<Rightarrow> pair_registration \<Rightarrow> bool" where
  "pair_admits declared reg =
     (case declared (np_pair (pr_event reg)) of
        Some d \<Rightarrow> dp_created d \<and> dp_factory d = pr_factory reg \<and> dp_token_0 d = np_token_0 (pr_event reg)
                  \<and> dp_token_1 d = np_token_1 (pr_event reg)
      | None \<Rightarrow> False)"

definition factory_pair_rows ::
  "ids_ext \<Rightarrow> extracted_factory_pair list \<Rightarrow> (string \<times> extracted_event list) list \<Rightarrow> int \<Rightarrow> (int \<rightharpoonup> int) \<Rightarrow>
   liquidity_pool_row list" where
  "factory_pair_rows ix pairs events ledger sac_map =
     admitted_rows (pair_admits (declared_factory pairs))
       (\<lambda>reg. factory_pair_registry_row ix reg ledger sac_map) (detect_pair_registrations events)"

definition declared_config_step ::
  "(string \<rightharpoonup> pool_config option \<times> bool) \<Rightarrow> extracted_config_pool \<Rightarrow> (string \<rightharpoonup> pool_config option \<times> bool)" where
  "declared_config_step m cp =
     (let pool = cs_pool (xcp_state cp); e = unwrap_or (m pool) (None, False)
      in m(pool \<mapsto> (opt_or (cs_config (xcp_state cp)) (fst e), snd e \<or> xcp_created cp)))"

definition declared_config :: "extracted_config_pool list \<Rightarrow> (string \<rightharpoonup> pool_config option \<times> bool)" where
  "declared_config pools = foldl declared_config_step Map.empty pools"

definition listed_by_owner :: "address_list_write list \<Rightarrow> config_pool_registration \<Rightarrow> bool" where
  "listed_by_owner lsts reg \<longleftrightarrow> list_ex (\<lambda>al. al_owner al = cr_factory reg \<and> cr_pool reg \<in> set (al_members al)) lsts"

definition conflicting :: "config_pool_registration list \<Rightarrow> config_pool_registration \<Rightarrow> bool" where
  "conflicting regs reg \<longleftrightarrow> list_ex (\<lambda>r. cr_pool r = cr_pool reg \<and> cr_factory r \<noteq> cr_factory reg) regs"

definition config_row_of ::
  "ids_ext \<Rightarrow> (string \<rightharpoonup> pool_config option \<times> bool) \<Rightarrow> int \<Rightarrow> (int \<rightharpoonup> int) \<Rightarrow> config_pool_registration \<Rightarrow>
   liquidity_pool_row list" where
  "config_row_of ix declared ledger sac_map reg =
     (case declared (cr_pool reg) of
        Some (Some config, True) \<Rightarrow>
          (case config_pool_registry_row ix reg config ledger sac_map of Inr row \<Rightarrow> [row] | Inl reason \<Rightarrow> [])
      | _ \<Rightarrow> [])"

text \<open>The loop over the listed registrations, with the pools already staged.\<close>

fun config_rows_loop ::
  "(config_pool_registration \<Rightarrow> bool) \<Rightarrow> (config_pool_registration \<Rightarrow> liquidity_pool_row list) \<Rightarrow> string list \<Rightarrow>
   config_pool_registration list \<Rightarrow> liquidity_pool_row list" where
  "config_rows_loop conflict row_of staged [] = []"
| "config_rows_loop conflict row_of staged (reg # regs) =
     (if conflict reg then config_rows_loop conflict row_of staged regs
      else if cr_pool reg \<in> set staged then config_rows_loop conflict row_of staged regs
      else row_of reg @ config_rows_loop conflict row_of (cr_pool reg # staged) regs)"

definition config_pool_rows ::
  "ids_ext \<Rightarrow> extracted_config_pool list \<Rightarrow> address_list_write list \<Rightarrow> (string \<times> extracted_event list) list \<Rightarrow> int \<Rightarrow>
   (int \<rightharpoonup> int) \<Rightarrow> liquidity_pool_row list" where
  "config_pool_rows ix pools lsts events ledger sac_map =
     (let config_regs = filter (listed_by_owner lsts) (detect_config_pool_registrations events)
      in config_rows_loop (conflicting config_regs) (config_row_of ix (declared_config pools) ledger sac_map) []
           config_regs)"

subsection \<open>Pool state\<close>

definition instance_change_row :: "ids_ext \<Rightarrow> extracted_pool_instance \<Rightarrow> pool_state_change_row option" where
  "instance_change_row ix inst =
     (if pi_reserves (xi_state inst) \<noteq> [] \<and> xi_reserves_changed inst
      then do { pool_id \<leftarrow> contract_payload ix (pi_pool (xi_state inst));
                reserves \<leftarrow> parse_reserves (pi_reserves (xi_state inst));
                plane \<leftarrow> pi_plane (xi_state inst);
                Some \<lparr>psrow_pool_id = pool_id, psrow_ledger_sequence = xi_ledger_sequence inst,
                      psrow_reserves = reserves, psrow_plane_id = contract_id ix plane\<rparr> }
      else None)"

definition instance_state_row :: "ids_ext \<Rightarrow> extracted_pool_instance \<Rightarrow> pool_instance_state_row option" where
  "instance_state_row ix inst =
     do { pool_id \<leftarrow> contract_payload ix (pi_pool (xi_state inst));
          plane \<leftarrow> pi_plane (xi_state inst);
          total_shares \<leftarrow> parse_supply (pi_total_shares (xi_state inst));
          Some \<lparr>pirow_pool_id = pool_id, pirow_plane_id = contract_id ix plane,
                pirow_share_token_id = unwrap_or (map_option (contract_id ix) (pi_token_share (xi_state inst))) 0,
                pirow_total_shares = total_shares, pirow_derived_at_ledger = xi_ledger_sequence inst\<rparr> }"

text \<open>A pair and a configured pool are their own plane.\<close>

definition own_change_row ::
  "ids_ext \<Rightarrow> string \<Rightarrow> int \<Rightarrow> (string \<times> string) option \<Rightarrow> pool_state_change_row option" where
  "own_change_row ix pool ledger reserves =
     do { pool_id \<leftarrow> contract_payload ix pool;
          (a, b) \<leftarrow> reserves;
          rs \<leftarrow> parse_reserve_pair a b;
          Some \<lparr>psrow_pool_id = pool_id, psrow_ledger_sequence = ledger, psrow_reserves = rs,
                psrow_plane_id = contract_id ix pool\<rparr> }"

definition pair_change_row :: "ids_ext \<Rightarrow> extracted_factory_pair \<Rightarrow> pool_state_change_row option" where
  "pair_change_row ix sp = own_change_row ix (fp_pair (xf_state sp)) (xf_ledger_sequence sp) (fp_reserves (xf_state sp))"

definition pair_state_row :: "ids_ext \<Rightarrow> extracted_factory_pair \<Rightarrow> pool_instance_state_row option" where
  "pair_state_row ix sp =
     do { pool_id \<leftarrow> contract_payload ix (fp_pair (xf_state sp));
          total_shares \<leftarrow> parse_supply (fp_total_supply (xf_state sp));
          Some \<lparr>pirow_pool_id = pool_id, pirow_plane_id = contract_id ix (fp_pair (xf_state sp)),
                pirow_share_token_id = contract_id ix (fp_pair (xf_state sp)),
                pirow_total_shares = total_shares, pirow_derived_at_ledger = xf_ledger_sequence sp\<rparr> }"

definition config_change_row :: "ids_ext \<Rightarrow> extracted_config_pool \<Rightarrow> pool_state_change_row option" where
  "config_change_row ix cp = own_change_row ix (cs_pool (xcp_state cp)) (xcp_ledger_sequence cp) (cs_reserves (xcp_state cp))"

definition config_state_row :: "ids_ext \<Rightarrow> extracted_config_pool \<Rightarrow> pool_instance_state_row option" where
  "config_state_row ix cp =
     do { pool_id \<leftarrow> contract_payload ix (cs_pool (xcp_state cp));
          config \<leftarrow> cs_config (xcp_state cp);
          total_shares \<leftarrow> parse_supply (cs_total_shares (xcp_state cp));
          Some \<lparr>pirow_pool_id = pool_id, pirow_plane_id = contract_id ix (cs_pool (xcp_state cp)),
                pirow_share_token_id = contract_id ix (pc_share_token config),
                pirow_total_shares = total_shares, pirow_derived_at_ledger = xcp_ledger_sequence cp\<rparr> }"

definition pool_state_change_rows :: "ids_ext \<Rightarrow> pool_family_write list \<Rightarrow> pool_state_change_row list" where
  "pool_state_change_rows ix ws =
     fold_pool_state_changes
       (filter_map (instance_change_row ix) (pool_instances_of ws) @
        filter_map (pair_change_row ix) (factory_pairs_of ws) @
        filter_map (config_change_row ix) (config_pools_of ws))"

definition pool_instance_state_rows :: "ids_ext \<Rightarrow> pool_family_write list \<Rightarrow> pool_instance_state_row list" where
  "pool_instance_state_rows ix ws =
     fold_pool_instance_state
       (filter_map (instance_state_row ix) (pool_instances_of ws) @
        filter_map (pair_state_row ix) (factory_pairs_of ws) @
        filter_map (config_state_row ix) (config_pools_of ws))"

definition pair_legs_map :: "ids_ext \<Rightarrow> (int \<rightharpoonup> int) \<Rightarrow> extracted_factory_pair list \<Rightarrow> (bytes \<rightharpoonup> int list)" where
  "pair_legs_map ix sac_classic pairs =
     foldl (\<lambda>m sp. case contract_payload ix (fp_pair (xf_state sp)) of
              None \<Rightarrow> m
            | Some pool_id \<Rightarrow> m(pool_id \<mapsto> [contract_token_asset_id ix (fp_token_0 (xf_state sp)) sac_classic,
                                        contract_token_asset_id ix (fp_token_1 (xf_state sp)) sac_classic]))
       Map.empty pairs"

end
