(* ===== verification/PoolAmounts.thy ===== *)
theory PoolAmounts
  imports SorobanPools
begin

text \<open>
  \<open>stage/soroban_pool_amounts.rs\<close>: the signed leg amounts of the events a Soroban pool emits, in the
  vocabulary of each family (router, pair, per-field).  An event the sources only report leaves no row.
\<close>

record soroban_pool =
  sp_pool_id :: bytes
  sp_legs :: "int list"
  sp_payouts :: "int \<times> int \<rightharpoonup> (int \<times> int) list"

definition soroban_pool_entry :: "ids_ext \<Rightarrow> bytes \<Rightarrow> int list \<Rightarrow> int \<times> soroban_pool" where
  "soroban_pool_entry ix pool_id legs =
     (contract_id ix (ix_contract_strkey ix pool_id),
      \<lparr>sp_pool_id = pool_id, sp_legs = legs, sp_payouts = Map.empty\<rparr>)"

subsection \<open>Reading an event\<close>

definition type_of :: "json \<Rightarrow> string option" where
  "type_of v = get_str v ''type''"

definition str_value :: "json \<Rightarrow> string option" where
  "str_value v = get_str v ''value''"

definition int_value :: "json \<Rightarrow> int option" where
  "int_value v =
     (case jget v ''value'' of
        Some (JStr s) \<Rightarrow> parse_i128 s
      | Some (JNum n) \<Rightarrow> parse_i128 (show_int n)
      | _ \<Rightarrow> None)"

definition vec_items :: "json \<Rightarrow> json list option" where
  "vec_items data = (if type_of data = Some ''vec'' then Option.bind (jget data ''value'') as_array else None)"

type_synonym fields = "string \<rightharpoonup> json"

definition map_fields :: "json \<Rightarrow> fields" where
  "map_fields data =
     foldl (\<lambda>m e. case (Option.bind (jget e ''key'') str_value, jget e ''value'') of
                     (Some k, Some v) \<Rightarrow> m(k \<mapsto> v) | _ \<Rightarrow> m)
       Map.empty (unwrap_or (Option.bind (jget data ''value'') as_array) [])"

definition topic_names :: "json list \<Rightarrow> string option \<times> string option" where
  "topic_names topics =
     (Option.bind (first_opt topics) str_value,
      Option.bind (opt_filter (\<lambda>t. type_of t = Some ''sym'') (nth_opt topics 1)) str_value)"

definition phoenix_field_event_name :: "json list \<Rightarrow> string option" where
  "phoenix_field_event_name topics =
     (if length topics \<noteq> 2 \<or> type_of (topics ! 1) \<noteq> Some ''string'' then None
      else if type_of (topics ! 0) \<noteq> Some ''string'' then None
      else opt_filter (\<lambda>s. s \<in> {''swap'', ''provide_liquidity'', ''withdraw_liquidity''}) (str_value (topics ! 0)))"

subsection \<open>The legs of each family\<close>

type_synonym legs = "(int \<times> int) list"
type_synonym decoded = "pool_event \<times> legs option"

definition aquarius_trade :: "ids_ext \<Rightarrow> json list \<Rightarrow> json \<Rightarrow> (int \<rightharpoonup> int) \<Rightarrow> legs option" where
  "aquarius_trade ix topics data sac =
     do { amounts \<leftarrow> vec_items data;
          t1 \<leftarrow> nth_opt topics 1; s1 \<leftarrow> str_value t1;
          t2 \<leftarrow> nth_opt topics 2; s2 \<leftarrow> str_value t2;
          a0 \<leftarrow> first_opt amounts; v0 \<leftarrow> int_value a0;
          a1 \<leftarrow> nth_opt amounts 1; v1 \<leftarrow> int_value a1;
          Some [(contract_token_asset_id ix s1 sac, v0), (contract_token_asset_id ix s2 sac, wrap_i128 (- v1))] }"

definition aquarius_liquidity :: "ids_ext \<Rightarrow> json list \<Rightarrow> json \<Rightarrow> int \<Rightarrow> (int \<rightharpoonup> int) \<Rightarrow> legs option" where
  "aquarius_liquidity ix topics data sg sac =
     do { amounts \<leftarrow> vec_items data;
          let tokens = drop 1 topics in
            if length amounts \<noteq> length tokens + 1 then None
            else those (map (\<lambda>(t, a). do { s \<leftarrow> str_value t; v \<leftarrow> int_value a;
                                           Some (contract_token_asset_id ix s sac, wrap_i128 (sg * v)) })
                          (zip tokens (drop 1 amounts))) }"

definition pair_legs :: "soroban_pool \<Rightarrow> int \<Rightarrow> int \<Rightarrow> legs option" where
  "pair_legs pool a b = (case sp_legs pool of [leg_a, leg_b] \<Rightarrow> Some [(leg_a, a), (leg_b, b)] | _ \<Rightarrow> None)"

definition field_int :: "fields \<Rightarrow> string \<Rightarrow> int option" where
  "field_int f k = Option.bind (f k) int_value"

definition soroswap_net :: "fields \<Rightarrow> string \<Rightarrow> int option" where
  "soroswap_net f leg =
     do { i \<leftarrow> field_int f (''amount_'' @ leg @ ''_in''); out \<leftarrow> field_int f (''amount_'' @ leg @ ''_out'');
          Some (wrap_i128 (i - out)) }"

definition soroswap_swap :: "json \<Rightarrow> soroban_pool \<Rightarrow> legs option" where
  "soroswap_swap data pool =
     do { a \<leftarrow> soroswap_net (map_fields data) ''0''; b \<leftarrow> soroswap_net (map_fields data) ''1'';
          pair_legs pool a b }"

definition soroswap_liquidity :: "json \<Rightarrow> soroban_pool \<Rightarrow> int \<Rightarrow> legs option" where
  "soroswap_liquidity data pool sg =
     do { a \<leftarrow> field_int (map_fields data) ''amount_0''; b \<leftarrow> field_int (map_fields data) ''amount_1'';
          pair_legs pool (wrap_i128 (sg * a)) (wrap_i128 (sg * b)) }"

text \<open>The asset of the one payout of this amount.\<close>

definition leg_of_payout :: "(int \<times> int) list \<Rightarrow> int \<Rightarrow> int option" where
  "leg_of_payout paid x =
     (case filter (\<lambda>p. snd p = x) paid of [(asset, v)] \<Rightarrow> Some asset | _ \<Rightarrow> None)"

definition phoenix_withdrawal :: "fields \<Rightarrow> soroban_pool \<Rightarrow> int \<times> int \<Rightarrow> legs option" where
  "phoenix_withdrawal f pool op =
     do { a \<leftarrow> field_int f ''return_amount_a''; b \<leftarrow> field_int f ''return_amount_b'';
          if length (sp_legs pool) = 2 then pair_legs pool (wrap_i128 (- a)) (wrap_i128 (- b))
          else do { paid \<leftarrow> sp_payouts pool op;
                    if a = b then None
                    else do { la \<leftarrow> leg_of_payout paid a; lb \<leftarrow> leg_of_payout paid b;
                              Some [(la, wrap_i128 (- a)), (lb, wrap_i128 (- b))] } } }"

definition phoenix_legs ::
  "ids_ext \<Rightarrow> string \<Rightarrow> fields \<Rightarrow> soroban_pool \<Rightarrow> int \<times> int \<Rightarrow> (int \<rightharpoonup> int) \<Rightarrow> decoded option" where
  "phoenix_legs ix name f pool op sac =
     (let token = (\<lambda>k. do { v \<leftarrow> f k; s \<leftarrow> str_value v; Some (contract_token_asset_id ix s sac) });
          either = (\<lambda>k alt. opt_or (field_int f k) (field_int f alt)) in
      if name = ''swap'' then
        Some (PeTrade, do { ta \<leftarrow> token ''sell_token''; a \<leftarrow> field_int f ''offer_amount'';
                            tb \<leftarrow> token ''buy_token''; b \<leftarrow> field_int f ''return_amount'';
                            Some [(ta, a), (tb, wrap_i128 (- b))] })
      else if name = ''provide_liquidity'' then
        Some (PeDeposit, do { ta \<leftarrow> token ''token_a''; a \<leftarrow> either ''token_a-amount'' ''actual_received_a'';
                              tb \<leftarrow> token ''token_b''; b \<leftarrow> either ''token_b-amount'' ''actual_received_b'';
                              Some [(ta, a), (tb, b)] })
      else if name = ''withdraw_liquidity'' then Some (PeWithdrawal, phoenix_withdrawal f pool op)
      else None)"

subsection \<open>The rows of a ledger's pool events\<close>

definition op_of :: "soroban_event_row \<Rightarrow> int \<times> int" where
  "op_of ev = (evrow_application_order ev, evrow_operation_index ev)"

definition same_operation :: "soroban_event_row \<Rightarrow> soroban_event_row \<Rightarrow> bool" where
  "same_operation a b \<longleftrightarrow>
     evrow_contract_id a = evrow_contract_id b \<and> evrow_ledger_sequence a = evrow_ledger_sequence b \<and>
     evrow_application_order a = evrow_application_order b \<and> evrow_operation_index a = evrow_operation_index b"

definition movement_row :: "soroban_event_row \<Rightarrow> soroban_pool \<Rightarrow> pool_event \<Rightarrow> int \<times> int \<Rightarrow> pool_movement_row" where
  "movement_row ev pool kind leg =
     \<lparr>pmrow_pool_id = sp_pool_id pool, pmrow_ledger_sequence = evrow_ledger_sequence ev,
      pmrow_application_order = evrow_application_order ev, pmrow_operation_index = evrow_operation_index ev,
      pmrow_event_index = evrow_event_index ev, pmrow_event_kind = pool_event_code kind,
      pmrow_asset_id = fst leg, pmrow_amount = snd leg\<rparr>"

text \<open>What \<open>push\<close> appends.\<close>

definition pushed :: "soroban_event_row \<Rightarrow> soroban_pool \<Rightarrow> decoded option \<Rightarrow> pool_movement_row list" where
  "pushed ev pool decoded =
     (case decoded of
        Some (kind, Some legs) \<Rightarrow>
          if sp_legs pool \<noteq> [] \<and> list_ex (\<lambda>(a, _). a \<notin> set (sp_legs pool)) legs then []
          else map (movement_row ev pool kind) legs
      | _ \<Rightarrow> [])"

text \<open>The fields of one group of per-field events, and the events after it.\<close>

fun phoenix_group ::
  "ids_ext \<Rightarrow> soroban_event_row \<Rightarrow> string \<Rightarrow> fields \<Rightarrow> (soroban_event_row \<times> soroban_pool) list \<Rightarrow>
   fields \<times> (soroban_event_row \<times> soroban_pool) list" where
  "phoenix_group ix ev name fs [] = (fs, [])"
| "phoenix_group ix ev name fs ((nxt, p) # rest) =
     (let t = Option.bind (ix_json ix (evrow_topics_xdr nxt)) as_array;
          fd = Option.bind (Option.bind t (\<lambda>ts. nth_opt ts 1)) str_value in
      if \<not> same_operation nxt ev \<or> Option.bind t phoenix_field_event_name \<noteq> Some name \<or> fd = Some ''sender''
      then (fs, (nxt, p) # rest)
      else phoenix_group ix ev name
             (case (fd, ix_json ix (evrow_data_xdr nxt)) of (Some f, Some v) \<Rightarrow> fs(f \<mapsto> v) | _ \<Rightarrow> fs) rest)"

lemma phoenix_group_length: "length (snd (phoenix_group ix ev name fs evs)) \<le> length evs"
  by (induction ix ev name fs evs rule: phoenix_group.induct) (auto simp: Let_def intro: le_SucI)

definition decode_pool_event ::
  "ids_ext \<Rightarrow> soroban_event_row \<Rightarrow> soroban_pool \<Rightarrow> json list \<Rightarrow> json \<Rightarrow> (int \<rightharpoonup> int) \<Rightarrow> decoded option" where
  "decode_pool_event ix ev pool topics data sac =
     (case topic_names topics of (fst_name, snd_name) \<Rightarrow>
        if fst_name \<in> Some ` {''swap'', ''provide_liquidity'', ''withdraw_liquidity''} \<and> snd_name = None \<and>
           length topics = 1 \<and> type_of data = Some ''map''
        then Option.bind fst_name (\<lambda>name. phoenix_legs ix name (map_fields data) pool (op_of ev) sac)
        else if fst_name = Some ''trade'' then Some (PeTrade, aquarius_trade ix topics data sac)
        else if fst_name = Some ''deposit_liquidity'' then
          Some (PeDeposit, aquarius_liquidity ix topics data 1 sac)
        else if fst_name = Some ''withdraw_liquidity'' then
          Some (PeWithdrawal, aquarius_liquidity ix topics data (-1) sac)
        else if fst_name = Some ''SoroswapPair'' then
          (if snd_name = Some ''swap'' then Some (PeTrade, soroswap_swap data pool)
           else if snd_name = Some ''deposit'' then Some (PeDeposit, soroswap_liquidity data pool 1)
           else if snd_name = Some ''withdraw'' then Some (PeWithdrawal, soroswap_liquidity data pool (-1))
           else None)
        else None)"

function movement_loop ::
  "ids_ext \<Rightarrow> (int \<rightharpoonup> int) \<Rightarrow> (soroban_event_row \<times> soroban_pool) list \<Rightarrow> pool_movement_row list" where
  "movement_loop ix sac [] = []"
| "movement_loop ix sac ((ev, pool) # rest) =
     (case (ix_json ix (evrow_topics_xdr ev), ix_json ix (evrow_data_xdr ev)) of
        (Some tj, Some data) \<Rightarrow>
          (let topics = unwrap_or (as_array tj) [] in
           case phoenix_field_event_name topics of
             Some name \<Rightarrow>
               (let fd = Option.bind (nth_opt topics 1) str_value in
                if fd \<noteq> Some ''sender'' then movement_loop ix sac rest
                else pushed ev pool
                       (phoenix_legs ix name (fst (phoenix_group ix ev name Map.empty rest)) pool (op_of ev) sac)
                     @ movement_loop ix sac (snd (phoenix_group ix ev name Map.empty rest)))
           | None \<Rightarrow> pushed ev pool (decode_pool_event ix ev pool topics data sac) @ movement_loop ix sac rest)
      | _ \<Rightarrow> movement_loop ix sac rest)"
  by pat_completeness auto

termination
  by (relation "measure (\<lambda>(ix, sac, evs). length evs)") (auto simp: le_imp_less_Suc phoenix_group_length)

type_synonym event_key = "int \<times> int \<times> int \<times> int \<times> int"

definition event_position :: "soroban_event_row \<Rightarrow> event_key" where
  "event_position e =
     (evrow_contract_id e, evrow_ledger_sequence e, evrow_application_order e, evrow_operation_index e,
      evrow_event_index e)"

definition soroban_pool_amount_rows ::
  "ids_ext \<Rightarrow> soroban_event_row list \<Rightarrow> (int \<rightharpoonup> soroban_pool) \<Rightarrow> (int \<rightharpoonup> int) \<Rightarrow> pool_movement_row list" where
  "soroban_pool_amount_rows ix events pools sac =
     movement_loop ix sac (sort_key (\<lambda>(e, _). event_position e)
       (filter_map (\<lambda>e. map_option (Pair e) (pools (evrow_contract_id e))) events))"

definition carries_pool_amounts :: "(string \<times> extracted_event list) list \<Rightarrow> bool" where
  "carries_pool_amounts events \<longleftrightarrow>
     list_ex (\<lambda>ev. case as_array (eb_topics (ev_body ev)) of
                None \<Rightarrow> False
              | Some ts \<Rightarrow> Option.bind (nth_opt ts 0) str_value \<in> Some `
                  {''trade'', ''swap'', ''deposit_liquidity'', ''withdraw_liquidity'', ''provide_liquidity'', ''SoroswapPair''})
       (concat (map snd events))"

subsection \<open>The pools of a ledger\<close>

definition pools_of_changes ::
  "ids_ext \<Rightarrow> (bytes \<rightharpoonup> int list) \<Rightarrow> pool_state_change_row list \<Rightarrow> (int \<rightharpoonup> soroban_pool)" where
  "pools_of_changes ix legs_of rows =
     foldl (\<lambda>pools r.
       let legs = unwrap_or (legs_of (psrow_pool_id r)) [] in
       case soroban_pool_entry ix (psrow_pool_id r) legs of
         (contract, pool) \<Rightarrow> (case pools contract of Some q \<Rightarrow> pools | None \<Rightarrow> pools(contract \<mapsto> pool))) Map.empty rows"

definition registered_legs_step ::
  "ids_ext \<Rightarrow> (int \<rightharpoonup> soroban_pool) \<Rightarrow> liquidity_pool_row \<Rightarrow> (int \<rightharpoonup> soroban_pool)" where
  "registered_legs_step ix pools r =
     (if prow_pool_kind r \<noteq> pool_kind_code PkSoroban then pools
      else case soroban_pool_entry ix (prow_pool_id r) (prow_legs r) of
        (contract, registered) \<Rightarrow>
          (case pools contract of
             Some pool \<Rightarrow> if sp_legs pool = [] then pools(contract \<mapsto> pool\<lparr>sp_legs := sp_legs registered\<rparr>) else pools
           | None \<Rightarrow> pools))"

definition payout_step :: "(int \<rightharpoonup> soroban_pool) \<Rightarrow> asset_transfer_row \<Rightarrow> (int \<rightharpoonup> soroban_pool)" where
  "payout_step pools t =
     (case (atrow_from_id t, atrow_amount t) of
        (Some frm, Some amount) \<Rightarrow>
          if atrow_from_kind t = ''C'' then
            (case pools frm of
               Some pool \<Rightarrow>
                 let op = (atrow_application_order t, atrow_op_index t mod 65536) in
                 pools(frm \<mapsto> pool\<lparr>sp_payouts := (sp_payouts pool)(op \<mapsto>
                   unwrap_or (sp_payouts pool op) [] @ [(atrow_asset_id t, amount)])\<rparr>)
             | None \<Rightarrow> pools)
          else pools
      | _ \<Rightarrow> pools)"

definition pool_movement_rows ::
  "ids_ext \<Rightarrow> staged_ledger \<Rightarrow> (bytes \<rightharpoonup> int list) \<Rightarrow> (int \<rightharpoonup> int) \<Rightarrow> pool_movement_row list" where
  "pool_movement_rows ix staged legs_of sac_classic =
     (let pools = pools_of_changes ix legs_of (sg_pool_state_change_rows staged);
          pools = foldl (registered_legs_step ix) pools (sg_pool_rows staged);
          pools = foldl payout_step pools (sg_asset_transfer_rows staged)
      in soroban_pool_amount_rows ix (sg_event_rows staged) pools sac_classic)"

end
