(* ===== verification/Stage.thy ===== *)
theory Stage
  imports PoolAmounts
begin

text \<open>
  \<open>prepare_with_sac_overrides\<close> (\<open>persist/stage.rs\<close>): the rows one ledger stages, table by table, from
  what the parser extracted and what the writer read back.  The hash sets and maps that are listed
  keep the order of first insertion.
\<close>

record stage_inputs =
  si_ledger :: extracted_ledger
  si_transactions :: "extracted_transaction list"
  si_operations :: "(string \<times> extracted_operation list) list"
  si_events :: "(string \<times> extracted_event list) list"
  si_invocations :: "(string \<times> extracted_invocation list) list"
  si_programs :: "wasm_program list"
  si_contract_deployments :: "contract_deployment list"
  si_account_states :: "account_state list"
  si_liquidity_pools :: "liquidity_pool list"
  si_pool_snapshots :: "pool_snapshot list"
  si_assets :: "extracted_asset list"
  si_nfts :: "extracted_nft list"
  si_nft_events :: "nft_ownership_event list"
  si_lp_positions :: "lp_position list"
  si_contract_metadata_writes :: "contract_metadata list"
  si_executable_ref_targets :: "executable_ref_target list"
  si_contract_instances :: "contract_instance list"
  si_soroban_token_balances :: "soroban_balance list"
  si_claimable_balances :: "claimable_balance list"
  si_pool_family_writes :: "pool_family_write list"
  si_sac_classic :: "int \<rightharpoonup> int"
  si_sac_overrides :: "sac_override list"
  si_prior_wasm_verdicts :: "bytes \<rightharpoonup> contract_type"
  si_prior_contract_verdicts :: "string \<rightharpoonup> contract_type"
  si_prior_contract_rows :: "string \<rightharpoonup> soroban_contract_row"
  si_asset_transfers :: "asset_transfer list"

definition ledger_row_of :: "ids_ext \<Rightarrow> extracted_ledger \<Rightarrow> stage_error + ledger_row" where
  "ledger_row_of ix ledger =
     try_res (decode_hash ix (xl_hash ledger) ''ledger.hash'') (\<lambda>ledger_hash.
     if \<not> fits_i32 (xl_protocol_version ledger) then Inl (staging_err ''protocol_version overflow'')
     else if \<not> fits_i32 (xl_transaction_count ledger) then Inl (staging_err ''transaction_count overflow'')
     else Inr \<lparr>lrow_sequence = int (xl_sequence ledger), lrow_hash = ledger_hash,
               lrow_closed_at = saturate_i64 (xl_closed_at ledger * 1000),
               lrow_protocol_version = xl_protocol_version ledger,
               lrow_transaction_count = xl_transaction_count ledger, lrow_base_fee = xl_base_fee ledger\<rparr>)"

subsection \<open>Accounts and participants\<close>

record presence =
  pz_account_keys :: "string list"
  pz_participants :: "string \<rightharpoonup> string list"

definition know :: "string \<Rightarrow> presence \<Rightarrow> presence" where
  "know key p = p\<lparr>pz_account_keys := set_insert key (pz_account_keys p)\<rparr>"

definition touch :: "string \<Rightarrow> presence \<Rightarrow> presence" where
  "touch h p = p\<lparr>pz_participants := (pz_participants p)(h \<mapsto> unwrap_or (pz_participants p h) [])\<rparr>"

definition participate :: "string \<Rightarrow> string \<Rightarrow> presence \<Rightarrow> presence" where
  "participate h key p =
     (let p = know key p
      in p\<lparr>pz_participants := (pz_participants p)(h \<mapsto> set_insert key (unwrap_or (pz_participants p h) []))\<rparr>)"

definition participate_account :: "string \<Rightarrow> string \<Rightarrow> presence \<Rightarrow> presence" where
  "participate_account h key p = (if is_strkey_account key then participate h key p else p)"

definition tx_presence :: "presence \<Rightarrow> extracted_transaction \<Rightarrow> presence" where
  "tx_presence p tx =
     (let p = participate (xt_hash tx) (xt_source_account tx) (touch (xt_hash tx) p)
      in case xt_fee_source tx of Some f \<Rightarrow> participate_account (xt_hash tx) f p | None \<Rightarrow> p)"

definition op_presence :: "string \<Rightarrow> presence \<Rightarrow> extracted_operation \<Rightarrow> presence" where
  "op_presence h p op =
     (let p = (case xo_source_account op of Some src \<Rightarrow> participate h src p | None \<Rightarrow> p)
      in foldl (\<lambda>p key. participate_account h key p) p (xo_counterparties op))"

definition ops_presence :: "presence \<Rightarrow> string \<times> extracted_operation list \<Rightarrow> presence" where
  "ops_presence p txops = foldl (op_presence (fst txops)) (touch (fst txops) p) (snd txops)"

definition derived_of :: "ids_ext \<Rightarrow> extracted_event \<Rightarrow> derived_token_event option" where
  "derived_of ix ev =
     derive_token_event ix (eb_topics (ev_body ev)) (map_option (contract_id ix) (eb_contract_id (ev_body ev)))"

definition event_presence :: "ids_ext \<Rightarrow> (string \<rightharpoonup> bool) \<Rightarrow> presence \<Rightarrow> string \<times> extracted_event list \<Rightarrow> presence" where
  "event_presence ix has_soroban p txevs =
     (if has_soroban (fst txevs) \<noteq> Some True then p
      else foldl (\<lambda>p d. foldl (\<lambda>p key. participate (fst txevs) key p) p (dt_participants d)) (touch (fst txevs) p)
             (filter_map (derived_of ix) (snd txevs)))"

definition event_assets_per_tx ::
  "ids_ext \<Rightarrow> (string \<rightharpoonup> bool) \<Rightarrow> (string \<times> extracted_event list) list \<Rightarrow> (string \<times> int list) list" where
  "event_assets_per_tx ix has_soroban events =
     foldl (\<lambda>m (h, evs).
       foldl (\<lambda>m a. entry_or_insert h [] (set_insert a) m) (entry_or_insert h [] (\<lambda>s. s) m)
         (filter_map dt_asset_id (filter_map (derived_of ix) evs)))
       [] (filter (\<lambda>(h, evs). has_soroban h = Some True) events)"

definition invocation_presence :: "presence \<Rightarrow> string \<times> extracted_invocation list \<Rightarrow> presence" where
  "invocation_presence p txinvs =
     foldl (\<lambda>p i. case iv_caller i of Some c \<Rightarrow> participate_account (fst txinvs) c p | None \<Rightarrow> p)
       (touch (fst txinvs) p) (snd txinvs)"

definition nft_event_presence :: "presence \<Rightarrow> nft_ownership_event \<Rightarrow> presence" where
  "nft_event_presence p ev =
     (case no_owner ev of Some owner \<Rightarrow> participate_account (no_transaction_hash ev) owner p | None \<Rightarrow> p)"

definition issuer_of :: "json \<Rightarrow> string option" where
  "issuer_of b = opt_filter (\<lambda>s. s \<noteq> []) (get_str b ''issuer'')"

definition state_keys :: "account_state \<Rightarrow> string list" where
  "state_keys st =
     as_account_id st # filter_map issuer_of (unwrap_or (as_array (as_balances st)) [])
       @ filter_map issuer_of (as_removed_trustlines st)"

definition know_all :: "string list \<Rightarrow> presence \<Rightarrow> presence" where
  "know_all keys p = foldl (\<lambda>p k. know k p) p keys"

definition presence_of :: "ids_ext \<Rightarrow> (string \<rightharpoonup> bool) \<Rightarrow> stage_inputs \<Rightarrow> presence" where
  "presence_of ix has_soroban i =
     (let p = \<lparr>pz_account_keys = [], pz_participants = Map.empty\<rparr>;
          p = foldl tx_presence p (si_transactions i);
          p = foldl ops_presence p (si_operations i);
          p = foldl (event_presence ix has_soroban) p (si_events i);
          p = foldl invocation_presence p (si_invocations i);
          p = know_all (filter_map cd_deployer_account (si_contract_deployments i)) p;
          p = know_all (concat (map state_keys (si_account_states i))) p;
          p = know_all (concat (map (\<lambda>l. opt_list (asset_issuer (lq_asset_a l)) @ opt_list (asset_issuer (lq_asset_b l)))
                                 (si_liquidity_pools i))) p;
          p = know_all (filter_map xa_issuer_address (si_assets i)) p;
          p = know_all (filter_map xn_owner (si_nfts i)) p;
          p = foldl nft_event_presence p (si_nft_events i)
      in know_all (map lp_account_id (si_lp_positions i)) p)"

definition account_rows_of :: "ids_ext \<Rightarrow> int \<Rightarrow> account_state list \<Rightarrow> string list \<Rightarrow> accounts_row list" where
  "account_rows_of ix ledger states keys =
     map (accounts_row_of ix ledger (merge_account_state_overrides states)) (filter is_strkey_account keys)"

subsection \<open>SAC handles\<close>

definition carrier_asset_id :: "ids_ext \<Rightarrow> extracted_asset \<Rightarrow> int" where
  "carrier_asset_id ix t =
     asset_id ix (asset_family_code (xa_asset_type t)) (unwrap_or (xa_asset_code t) [])
       (unwrap_or (map_option (account_id ix) (xa_issuer_address t)) 0) 0"

text \<open>The pre-fetched map wins over a carrier of this ledger.\<close>

definition sac_map_of :: "ids_ext \<Rightarrow> extracted_asset list \<Rightarrow> (int \<rightharpoonup> int) \<Rightarrow> (int \<rightharpoonup> int)" where
  "sac_map_of ix assets sac_classic =
     foldl (\<lambda>m t. case xa_sac_contract_id t of
              None \<Rightarrow> m
            | Some sac \<Rightarrow> (case m (contract_id ix sac) of
                             Some v \<Rightarrow> m | None \<Rightarrow> m(contract_id ix sac \<mapsto> carrier_asset_id ix t)))
       sac_classic assets"

subsection \<open>Contracts\<close>

definition staged_contract_type ::
  "(bytes \<rightharpoonup> contract_type) \<Rightarrow> (bytes \<rightharpoonup> contract_type) \<Rightarrow> contract_deployment \<Rightarrow> bytes option \<Rightarrow> contract_type" where
  "staged_contract_type classified prior dep wasm_hash =
     (case Option.bind wasm_hash (\<lambda>h. opt_or (classified h) (prior h)) of
        Some ty \<Rightarrow> if \<not> cd_is_sac dep \<and> ty \<in> {CtNft, CtFungible} then ty else cd_contract_type dep
      | None \<Rightarrow> cd_contract_type dep)"

definition contract_row_of ::
  "ids_ext \<Rightarrow> (bytes \<rightharpoonup> contract_type) \<Rightarrow> (bytes \<rightharpoonup> contract_type) \<Rightarrow> contract_deployment \<Rightarrow>
   stage_error + soroban_contract_row" where
  "contract_row_of ix classified prior dep =
     try_res (case cd_wasm_hash dep of
                Some h \<Rightarrow> map_res Some (decode_hash ix h ''deployment.wasm_hash'') | None \<Rightarrow> Inr None) (\<lambda>wasm_hash.
     Inr \<lparr>crow_id = contract_id ix (cd_contract_id dep), crow_contract_id = cd_contract_id dep,
          crow_wasm_hash = wasm_hash, crow_wasm_uploaded_at_ledger = cd_deployed_at_ledger dep,
          crow_deployer_id = map_option (account_id ix) (cd_deployer_account dep),
          crow_deployed_at_ledger = Some (cd_deployed_at_ledger dep),
          crow_contract_type = Some (contract_type_code (staged_contract_type classified prior dep wasm_hash)),
          crow_is_sac = cd_is_sac dep,
          crow_executable_owner_id = map_option (\<lambda>r. contract_id ix (er_owner r)) (cd_executable_ref dep),
          crow_executable_tag = map_option er_tag (cd_executable_ref dep)\<rparr>)"

text \<open>One row per contract, from its first deployment.\<close>

definition contract_step ::
  "ids_ext \<Rightarrow> (bytes \<rightharpoonup> contract_type) \<Rightarrow> (bytes \<rightharpoonup> contract_type) \<Rightarrow> soroban_contract_row list \<Rightarrow> contract_deployment \<Rightarrow>
   stage_error + soroban_contract_row list" where
  "contract_step ix classified prior rows dep =
     (if cd_contract_id dep \<in> set (map crow_contract_id rows) then Inr rows
      else map_res (\<lambda>row. rows @ [row]) (contract_row_of ix classified prior dep))"

definition deployment_rows ::
  "ids_ext \<Rightarrow> (bytes \<rightharpoonup> contract_type) \<Rightarrow> (bytes \<rightharpoonup> contract_type) \<Rightarrow> contract_deployment list \<Rightarrow>
   stage_error + soroban_contract_row list" where
  "deployment_rows ix classified prior deps = fold_res (contract_step ix classified prior) [] deps"

subsection \<open>Transactions\<close>

record tx_tables =
  tt_rows :: "transaction_row list"
  tt_prefixes :: "hash_prefix_row list"
  tt_order :: "string \<rightharpoonup> int"

definition op_count_by_tx :: "(string \<times> extracted_operation list) list \<Rightarrow> (string \<rightharpoonup> int)" where
  "op_count_by_tx operations =
     foldl (\<lambda>m (h, ops). m(h \<mapsto> if fits_i16 (int (length ops)) then int (length ops) else 32767)) Map.empty operations"

definition transaction_step ::
  "ids_ext \<Rightarrow> int \<Rightarrow> (string \<rightharpoonup> int) \<Rightarrow> (string \<rightharpoonup> bool) \<Rightarrow> tx_tables \<Rightarrow> nat \<times> extracted_transaction \<Rightarrow>
   stage_error + tx_tables" where
  "transaction_step ix ledger op_count has_soroban t itx =
     (case itx of (idx, tx) \<Rightarrow>
        try_res (decode_hash ix (xt_hash tx) ''tx.hash'') (\<lambda>hash.
        try_res (case xt_inner_tx_hash tx of
                   Some h \<Rightarrow> map_res Some (decode_hash ix h ''inner_tx_hash'') | None \<Rightarrow> Inr None) (\<lambda>inner.
        try_res (try_i16 ''application_order overflow (>i16)'' (int idx + 1)) (\<lambda>app.
        Inr \<lparr>tt_rows = tt_rows t @
               [\<lparr>txrow_hash = hash, txrow_ledger_sequence = ledger, txrow_application_order = app,
                 txrow_source_id = account_id ix (xt_source_account tx), txrow_fee_charged = xt_fee_charged tx,
                 txrow_inner_tx_hash = inner, txrow_successful = xt_successful tx,
                 txrow_operation_count = unwrap_or (op_count (xt_hash tx)) 0,
                 txrow_has_soroban = unwrap_or (has_soroban (xt_hash tx)) False,
                 txrow_parse_error = xt_parse_error tx\<rparr>],
             tt_prefixes = tt_prefixes t @
               map (\<lambda>h. hash_prefix_row_new h ledger) (hash # opt_list inner),
             tt_order = (tt_order t)(xt_hash tx \<mapsto> app)\<rparr>))))"

definition transaction_tables ::
  "ids_ext \<Rightarrow> int \<Rightarrow> (string \<rightharpoonup> int) \<Rightarrow> (string \<rightharpoonup> bool) \<Rightarrow> extracted_transaction list \<Rightarrow> stage_error + tx_tables" where
  "transaction_tables ix ledger op_count has_soroban transactions =
     fold_res (transaction_step ix ledger op_count has_soroban)
       \<lparr>tt_rows = [], tt_prefixes = [], tt_order = Map.empty\<rparr> (List.enumerate 0 transactions)"

subsection \<open>Assets\<close>

type_synonym asset_key = "int \<times> string \<times> int \<times> int"
type_synonym sac_key = "int \<times> string \<times> int"

record asset_tables =
  at_rows :: "asset_row list"
  at_seen :: "asset_key list"
  at_facets :: "(sac_key \<times> int \<times> int) list"

definition asset_row_key :: "asset_row \<Rightarrow> asset_key" where
  "asset_row_key r = (asrow_asset_type r, asrow_asset_code r, asrow_issuer_id r, asrow_contract_id r)"

definition push_asset :: "asset_row \<Rightarrow> asset_tables \<Rightarrow> asset_tables" where
  "push_asset row t =
     (if asset_row_key row \<in> set (at_seen t) then t
      else t\<lparr>at_seen := at_seen t @ [asset_row_key row], at_rows := at_rows t @ [row]\<rparr>)"

definition push_sac :: "sac_key \<Rightarrow> int \<Rightarrow> int \<Rightarrow> asset_tables \<Rightarrow> asset_tables" where
  "push_sac key sac_contract_id deployed t =
     t\<lparr>at_facets := entry_or_insert key (0, 0)
         (\<lambda>(c, d). (if sac_contract_id \<noteq> 0 then sac_contract_id else c, max d deployed)) (at_facets t)\<rparr>"

definition asset_step :: "ids_ext \<Rightarrow> asset_tables \<Rightarrow> extracted_asset \<Rightarrow> asset_tables" where
  "asset_step ix t x =
     (let ty = asset_family_code (xa_asset_type x); code = unwrap_or (xa_asset_code x) [];
          issuer = unwrap_or (map_option (account_id ix) (xa_issuer_address x)) 0;
          contract = unwrap_or (map_option (contract_id ix) (xa_contract_id x)) 0;
          t = (case xa_sac_contract_id x of
                 Some sac \<Rightarrow> push_sac (ty, code, issuer) (contract_id ix sac) (if xa_sac_deployed x then 1 else 0) t
               | None \<Rightarrow> t)
      in push_asset (asset_row_staged ix ty code issuer contract) t)"

fun sac_carrier :: "ids_ext \<Rightarrow> sac_identity \<Rightarrow> sac_key" where
  "sac_carrier ix SacNative = (asset_family_code FamNative, [], 0)"
| "sac_carrier ix (SacCredit code issuer) = (asset_family_code FamClassicCredit, code, account_id ix issuer)"

definition carrier_step :: "ids_ext \<Rightarrow> int \<Rightarrow> asset_tables \<Rightarrow> string \<times> sac_identity \<Rightarrow> asset_tables" where
  "carrier_step ix deployed t handle =
     (case sac_carrier ix (snd handle) of (ty, code, issuer) \<Rightarrow>
        push_asset (asset_row_staged ix ty code issuer 0)
          (push_sac (ty, code, issuer) (contract_id ix (fst handle)) deployed t))"

definition fungible_contract_ids :: "soroban_contract_row list \<Rightarrow> int list" where
  "fungible_contract_ids rows =
     map crow_id (filter (\<lambda>r. \<not> crow_is_sac r \<and> crow_contract_type r = Some (contract_type_code CtFungible)) rows)"

definition asset_tables_of ::
  "ids_ext \<Rightarrow> extracted_asset list \<Rightarrow> contract_deployment list \<Rightarrow> sac_override list \<Rightarrow> soroban_contract_row list \<Rightarrow>
   asset_tables" where
  "asset_tables_of ix assets deps overrides contract_rows =
     (let t = \<lparr>at_rows = [], at_seen = [], at_facets = []\<rparr>;
          t = foldl (asset_step ix) t assets;
          t = foldl (carrier_step ix 1) t
                (filter_map (\<lambda>d. map_option (Pair (cd_contract_id d)) (cd_sac_asset d)) deps);
          t = foldl (carrier_step ix 0) t (map (\<lambda>v. (so_contract_id v, so_identity v)) overrides);
          t = push_asset (asset_row_staged ix (asset_family_code FamNative) [] 0 0) t
      in foldl (\<lambda>t c. push_asset (asset_row_staged ix (asset_family_code FamSoroban) [] 0 c) t) t
           (fungible_contract_ids contract_rows))"

definition asset_sac_rows_of :: "asset_tables \<Rightarrow> asset_sac_row list" where
  "asset_sac_rows_of t =
     map (\<lambda>((ty, code, issuer), (sac, deployed)).
            \<lparr>sacrow_asset_type = ty, sacrow_asset_code = code, sacrow_issuer_id = issuer, sacrow_contract_id = 0,
             sacrow_sac_contract_id = sac, sacrow_sac_deployed = deployed\<rparr>) (at_facets t)"

subsection \<open>The staged ledger\<close>

definition soroban_pool_rows :: "ids_ext \<Rightarrow> stage_inputs \<Rightarrow> int \<Rightarrow> (int \<rightharpoonup> int) \<Rightarrow> liquidity_pool_row list" where
  "soroban_pool_rows ix i ledger sac_map =
     router_pool_rows ix (pool_instances_of (si_pool_family_writes i)) (si_events i) ledger sac_map @
     factory_pair_rows ix (factory_pairs_of (si_pool_family_writes i)) (si_events i) ledger sac_map @
     config_pool_rows ix (config_pools_of (si_pool_family_writes i)) (address_lists_of (si_pool_family_writes i))
       (si_events i) ledger sac_map"

text \<open>What the fallible builders return; the other tables are functions of the inputs and of these.\<close>

record staged_parts =
  gp_ledger_row :: ledger_row
  gp_wasm :: "wasm_program_row list \<times> (bytes \<rightharpoonup> contract_type)"
  gp_contracts :: "soroban_contract_row list"
  gp_txs :: tx_tables
  gp_classic_pools :: "liquidity_pool_row list"
  gp_snapshots :: "pool_snapshot_row list"
  gp_positions :: "lp_position_row list"
  gp_operations :: "op_asset_row list \<times> pool_amount_row list \<times> transaction_operation_row list"
  gp_events :: event_tables
  gp_accounts :: "balance_row list \<times> account_entry_state_row list"
  gp_flow :: value_flow_rows

definition staged_parts_of :: "ids_ext \<Rightarrow> stage_inputs \<Rightarrow> stage_error + staged_parts" where
  "staged_parts_of ix i =
     (let ledger = int (xl_sequence (si_ledger i)); has_soroban = tx_has_soroban_map (si_operations i) in
      try_res (ledger_row_of ix (si_ledger i)) (\<lambda>ledger_row.
      try_res (wasm_rows ix (si_programs i)) (\<lambda>wasm.
      try_res (deployment_rows ix (snd wasm) (si_prior_wasm_verdicts i) (si_contract_deployments i)) (\<lambda>contracts.
      try_res (transaction_tables ix ledger (op_count_by_tx (si_operations i)) has_soroban (si_transactions i)) (\<lambda>txs.
      try_res (build_pool_rows ix (si_liquidity_pools i)) (\<lambda>classic_pools.
      try_res (build_snapshot_rows ix (si_pool_snapshots i) (gross_volume_a_by_pool ix (si_operations i))) (\<lambda>snapshots.
      try_res (lp_position_rows ix (si_lp_positions i)) (\<lambda>positions.
      try_res (operation_rows ix (si_operations i) (tt_order txs) ledger) (\<lambda>operations.
      try_res (event_rows ix (si_events i) (tt_order txs) ledger) (\<lambda>evs.
      try_res (account_state_rows ix (si_account_states i)) (\<lambda>accounts.
      try_res (build_value_flow_rows ix ledger (si_transactions i) (si_asset_transfers i)) (\<lambda>flow.
      Inr \<lparr>gp_ledger_row = ledger_row, gp_wasm = wasm, gp_contracts = contracts, gp_txs = txs,
           gp_classic_pools = classic_pools, gp_snapshots = snapshots, gp_positions = positions,
           gp_operations = operations, gp_events = evs, gp_accounts = accounts, gp_flow = flow\<rparr>))))))))))))"

definition staged_of_parts :: "ids_ext \<Rightarrow> codec_ext \<Rightarrow> stage_inputs \<Rightarrow> staged_parts \<Rightarrow> staged_ledger" where
  "staged_of_parts ix cx i p =
     (let ledger = int (xl_sequence (si_ledger i));
          has_soroban = tx_has_soroban_map (si_operations i);
          sac_map = sac_map_of ix (si_assets i) (si_sac_classic i);
          pz = presence_of ix has_soroban i;
          writes = si_pool_family_writes i;
          order = tt_order (gp_txs p);
          assets = asset_tables_of ix (si_assets i) (si_contract_deployments i) (si_sac_overrides i) (gp_contracts p);
          nfts = nft_rows ix (gp_contracts p) (si_prior_contract_verdicts i) order (si_nfts i) (si_nft_events i)
      in \<lparr>sg_ledger_sequence = ledger, sg_ledger_rows = [gp_ledger_row p],
          sg_account_rows = account_rows_of ix ledger (si_account_states i) (pz_account_keys pz),
          sg_account_entry_state_rows = snd (gp_accounts p), sg_wasm_rows = fst (gp_wasm p),
          sg_contract_rows =
            gp_contracts p @ build_wasm_upgrade_rows ix cx (si_events i) (si_prior_contract_rows i) ledger,
          sg_metadata_rows = build_metadata_rows (si_contract_metadata_writes i),
          sg_executable_ref_rows = build_executable_ref_rows ix (si_executable_ref_targets i),
          sg_contract_instance_rows = contract_instance_rows (si_contract_instances i),
          sg_transaction_rows = tt_rows (gp_txs p), sg_hash_prefix_rows = tt_prefixes (gp_txs p),
          sg_participant_rows = participant_rows ix ledger (si_transactions i) (pz_participants pz) order,
          sg_pool_rows = gp_classic_pools p @ soroban_pool_rows ix i ledger sac_map,
          sg_pool_instance_state_rows = pool_instance_state_rows ix writes,
          sg_pool_state_change_rows = pool_state_change_rows ix writes,
          sg_snapshot_rows = gp_snapshots p, sg_lp_position_rows = gp_positions p,
          sg_tx_operation_rows = snd (snd (gp_operations p)),
          sg_op_asset_rows = fst (gp_operations p) @
            event_asset_rows ledger (event_assets_per_tx ix has_soroban (si_events i)) order,
          sg_pool_amount_rows = fst (snd (gp_operations p)), sg_pool_movement_rows = [],
          sg_event_rows = et_rows (gp_events p),
          sg_contract_activity_rows = contract_activity_rows ix (si_invocations i) order
            (et_contract_txs (gp_events p)) (snd (snd (gp_operations p))) ledger,
          sg_asset_rows = at_rows assets, sg_asset_sac_rows = asset_sac_rows_of assets,
          sg_nft_rows = nt_hot nfts, sg_nft_pending_rows = nt_pending nfts,
          sg_nft_ownership_change_rows = nt_changes nfts,
          sg_nft_ownership_change_pending_rows = nt_pending_changes nfts,
          sg_unified_balance_rows =
            build_balance_rows ix (si_soroban_token_balances i) sac_map @ fst (gp_accounts p),
          sg_claimable_balance_rows = build_claimable_balance_rows ix (si_claimable_balances i),
          sg_asset_transfer_rows = vf_transfers (gp_flow p), sg_transaction_memo_rows = vf_memos (gp_flow p)\<rparr>)"

text \<open>The movements of pools are read from the rows staged before.\<close>

definition prepare_with_sac_overrides :: "ids_ext \<Rightarrow> codec_ext \<Rightarrow> stage_inputs \<Rightarrow> stage_error + staged_ledger" where
  "prepare_with_sac_overrides ix cx i =
     map_res (\<lambda>p.
       let out = staged_of_parts ix cx i p
       in out\<lparr>sg_pool_movement_rows :=
            pool_movement_rows ix out
              (pair_legs_map ix (si_sac_classic i) (factory_pairs_of (si_pool_family_writes i))) (si_sac_classic i)\<rparr>)
     (staged_parts_of ix i)"

end
