(* ===== verification/PoolClaims.thy ===== *)
theory PoolClaims
  imports Stage
begin

text \<open>
  What a staged Soroban pool rests on: the registry rows of \<open>prepare_with_sac_overrides\<close> are exactly
  the registrations that the named pool corroborates in its own storage.
\<close>

subsection \<open>Facts declared per key\<close>

text \<open>A map updated at the key of each item holds, at a key, the fold over the items with that key.\<close>

lemma foldl_at_key:
  assumes "\<And>m x. f m x = m(key x := g (m (key x)) x)"
  shows "foldl f m xs k = foldl g (m k) (filter (\<lambda>x. key x = k) xs)"
  by (induction xs arbitrary: m) (auto simp: assms)

lemma foldl_latest:
  assumes "\<And>e x. g e x = Some (a x, (case e of Some v \<Rightarrow> snd v | None \<Rightarrow> False) \<or> c x)"
  shows "foldl g None xs = (if xs = [] then None else Some (a (last xs), \<exists>x \<in> set xs. c x))"
  by (induction xs rule: rev_induct) (auto simp: assms)

definition instances_named :: "string \<Rightarrow> extracted_pool_instance list \<Rightarrow> extracted_pool_instance list" where
  "instances_named pool is = filter (\<lambda>i. pi_pool (xi_state i) = pool) is"

lemma declared_router_eq:
  "declared_router is pool =
     (let js = instances_named pool is in
      if js = [] then None else Some (pi_router (xi_state (last js)), \<exists>j \<in> set js. xi_created j))"
proof -
  let ?g = "\<lambda>e i. Some (pi_router (xi_state i), (case e of Some v \<Rightarrow> snd v | None \<Rightarrow> False) \<or> xi_created i)"
  have "declared_router is pool = foldl ?g None (instances_named pool is)"
    unfolding declared_router_def instances_named_def
    by (subst foldl_at_key [where key = "\<lambda>i. pi_pool (xi_state i)" and g = ?g])
      (auto simp: declared_router_step_def Let_def unwrap_or_def split: option.splits)
  then show ?thesis by (simp add: foldl_latest Let_def)
qed

definition pairs_named :: "string \<Rightarrow> extracted_factory_pair list \<Rightarrow> extracted_factory_pair list" where
  "pairs_named pair ps = filter (\<lambda>p. fp_pair (xf_state p) = pair) ps"

lemma declared_factory_eq:
  "declared_factory ps pair =
     (let qs = pairs_named pair ps; st = xf_state (last qs) in
      if qs = [] then None
      else Some \<lparr>dp_factory = fp_factory st, dp_created = (\<exists>q \<in> set qs. xf_created q),
                 dp_token_0 = fp_token_0 st, dp_token_1 = fp_token_1 st\<rparr>)"
proof -
  let ?g = "\<lambda>e sp. Some \<lparr>dp_factory = fp_factory (xf_state sp),
        dp_created = ((case e of Some v \<Rightarrow> dp_created v | None \<Rightarrow> False) \<or> xf_created sp),
        dp_token_0 = fp_token_0 (xf_state sp), dp_token_1 = fp_token_1 (xf_state sp)\<rparr>"
  have at: "declared_factory ps pair = foldl ?g None (pairs_named pair ps)"
    unfolding declared_factory_def pairs_named_def
    by (subst foldl_at_key [where key = "\<lambda>p. fp_pair (xf_state p)" and g = ?g])
      (auto simp: declared_factory_step_def Let_def)
  have qs: "foldl ?g None qs =
      (if qs = [] then None
       else Some \<lparr>dp_factory = fp_factory (xf_state (last qs)), dp_created = (\<exists>q \<in> set qs. xf_created q),
                  dp_token_0 = fp_token_0 (xf_state (last qs)), dp_token_1 = fp_token_1 (xf_state (last qs))\<rparr>)" for qs
    by (induction qs rule: rev_induct) auto
  show ?thesis unfolding at qs Let_def ..
qed

definition configs_named :: "string \<Rightarrow> extracted_config_pool list \<Rightarrow> extracted_config_pool list" where
  "configs_named pool cs = filter (\<lambda>c. cs_pool (xcp_state c) = pool) cs"

text \<open>The last configuration the pool wrote.\<close>

definition last_config :: "extracted_config_pool list \<Rightarrow> pool_config option" where
  "last_config cs = last_opt (filter_map (\<lambda>c. cs_config (xcp_state c)) cs)"

lemma last_config_snoc: "last_config (cs @ [c]) = opt_or (cs_config (xcp_state c)) (last_config cs)"
  by (cases "cs_config (xcp_state c)") (simp_all add: last_config_def last_opt_def opt_or_def)

lemma declared_config_eq:
  "declared_config cs pool =
     (let ds = configs_named pool cs in
      if ds = [] then None else Some (last_config ds, \<exists>d \<in> set ds. xcp_created d))"
proof -
  let ?g = "\<lambda>e c. Some (opt_or (cs_config (xcp_state c)) (fst (unwrap_or e (None, False))),
                        snd (unwrap_or e (None, False)) \<or> xcp_created c)"
  have "declared_config cs pool = foldl ?g None (configs_named pool cs)"
    unfolding declared_config_def configs_named_def
    by (subst foldl_at_key [where key = "\<lambda>c. cs_pool (xcp_state c)" and g = ?g])
      (auto simp: declared_config_step_def Let_def)
  moreover have "foldl ?g None ds =
      (if ds = [] then None else Some (last_config ds, \<exists>d \<in> set ds. xcp_created d))" for ds
    by (induction ds rule: rev_induct) (auto simp: last_config_snoc unwrap_or_def, auto simp: last_config_def last_opt_def)
  ultimately show ?thesis by (simp add: Let_def)
qed

subsection \<open>What a claim needs\<close>

text \<open>A router's registration stands if the pool's instance names that router, or names none and was
  created in this ledger.\<close>

definition router_claim ::
  "ids_ext \<Rightarrow> stage_inputs \<Rightarrow> int \<Rightarrow> (int \<rightharpoonup> int) \<Rightarrow> liquidity_pool_row \<Rightarrow> bool" where
  "router_claim ix i ledger sac_map row \<longleftrightarrow>
     (\<exists>reg \<in> set (detect_pool_registrations (si_events i)).
        let js = instances_named (ap_pool (rg_event reg)) (pool_instances_of (si_pool_family_writes i)) in
        js \<noteq> [] \<and>
        (case pi_router (xi_state (last js)) of
           Some router \<Rightarrow> router = rg_router reg | None \<Rightarrow> \<exists>j \<in> set js. xi_created j) \<and>
        pool_registry_row ix (rg_event reg) (rg_router reg) ledger sac_map = Inr row)"

text \<open>A factory's registration stands if the pair was created in this ledger and its instance names
  that factory and the two tokens.\<close>

definition pair_claim ::
  "ids_ext \<Rightarrow> stage_inputs \<Rightarrow> int \<Rightarrow> (int \<rightharpoonup> int) \<Rightarrow> liquidity_pool_row \<Rightarrow> bool" where
  "pair_claim ix i ledger sac_map row \<longleftrightarrow>
     (\<exists>reg \<in> set (detect_pair_registrations (si_events i)).
        let qs = pairs_named (np_pair (pr_event reg)) (factory_pairs_of (si_pool_family_writes i)) in
        (\<exists>q \<in> set qs. xf_created q) \<and>
        fp_factory (xf_state (last qs)) = pr_factory reg \<and>
        fp_token_0 (xf_state (last qs)) = np_token_0 (pr_event reg) \<and>
        fp_token_1 (xf_state (last qs)) = np_token_1 (pr_event reg) \<and>
        factory_pair_registry_row ix reg ledger sac_map = Inr row)"

definition listed_claims :: "stage_inputs \<Rightarrow> config_pool_registration set" where
  "listed_claims i =
     {reg \<in> set (detect_config_pool_registrations (si_events i)).
        \<exists>al \<in> set (address_lists_of (si_pool_family_writes i)).
          al_owner al = cr_factory reg \<and> cr_pool reg \<in> set (al_members al)}"

text \<open>A configuring factory's registration stands if the factory listed the pool in its own storage, no
  other contract that listed it claims it, and the pool was created with a configuration.\<close>

definition config_claim ::
  "ids_ext \<Rightarrow> stage_inputs \<Rightarrow> int \<Rightarrow> (int \<rightharpoonup> int) \<Rightarrow> liquidity_pool_row \<Rightarrow> bool" where
  "config_claim ix i ledger sac_map row \<longleftrightarrow>
     (\<exists>reg \<in> listed_claims i. \<exists>config.
        (\<forall>r \<in> listed_claims i. cr_pool r = cr_pool reg \<longrightarrow> cr_factory r = cr_factory reg) \<and>
        (let ds = configs_named (cr_pool reg) (config_pools_of (si_pool_family_writes i)) in
         last_config ds = Some config \<and> (\<exists>d \<in> set ds. xcp_created d)) \<and>
        config_pool_registry_row ix reg config ledger sac_map = Inr row)"

subsection \<open>The rows staged are the claims that stand\<close>

lemma set_admitted_rows:
  "row \<in> set (admitted_rows admits mk regs) \<longleftrightarrow> (\<exists>reg \<in> set regs. admits reg \<and> mk reg = Inr row)"
proof -
  have "(if admits reg then (case mk reg of Inr r \<Rightarrow> Some r | Inl reason \<Rightarrow> None) else None) = Some row
        \<longleftrightarrow> admits reg \<and> mk reg = Inr row" for reg
    by (cases "mk reg") auto
  then show ?thesis by (simp add: admitted_rows_def set_filter_map)
qed

lemma router_rows_claims:
  "row \<in> set (router_pool_rows ix (pool_instances_of (si_pool_family_writes i)) (si_events i) ledger sac_map)
   \<longleftrightarrow> router_claim ix i ledger sac_map row"
  unfolding router_pool_rows_def set_admitted_rows router_claim_def router_admits_def declared_router_eq Let_def
  by (intro bex_cong refl) (auto split: option.splits)

lemma pair_rows_claims:
  "row \<in> set (factory_pair_rows ix (factory_pairs_of (si_pool_family_writes i)) (si_events i) ledger sac_map)
   \<longleftrightarrow> pair_claim ix i ledger sac_map row"
  unfolding factory_pair_rows_def set_admitted_rows pair_claim_def pair_admits_def declared_factory_eq Let_def
  by (intro bex_cong refl) (auto split: option.splits)

lemma set_config_rows_loop:
  assumes "\<And>r r'. \<lbrakk>r \<in> set regs; r' \<in> set regs; \<not> conflict r; \<not> conflict r'; cr_pool r = cr_pool r'\<rbrakk>
             \<Longrightarrow> row_of r = row_of r'"
  shows "set (config_rows_loop conflict row_of staged regs) =
         (\<Union>r \<in> {r \<in> set regs. \<not> conflict r \<and> cr_pool r \<notin> set staged}. set (row_of r))"
  using assms
proof (induction conflict row_of staged regs rule: config_rows_loop.induct)
  case (2 conflict row_of staged reg regs)
  have sub: "row_of r = row_of r'"
    if "r \<in> set regs" "r' \<in> set regs" "\<not> conflict r" "\<not> conflict r'" "cr_pool r = cr_pool r'" for r r'
    using "2.prems" that by simp
  have split: "{r \<in> set (reg # regs). \<not> conflict r \<and> cr_pool r \<notin> set staged} =
      (if conflict reg \<or> cr_pool reg \<in> set staged then {} else {reg})
      \<union> {r \<in> set regs. \<not> conflict r \<and> cr_pool r \<notin> set staged}"
    by auto
  consider "conflict reg" | "\<not> conflict reg" "cr_pool reg \<in> set staged" | "\<not> conflict reg" "cr_pool reg \<notin> set staged"
    by blast
  then show ?case
  proof cases
    case 1
    then show ?thesis unfolding split using "2.IH"(1) [OF 1 sub]
      by (simp only: config_rows_loop.simps if_True simp_thms Un_empty_left)
  next
    case 2
    then show ?thesis unfolding split using "2.IH"(2) [OF 2 sub]
      by (simp only: config_rows_loop.simps if_True if_False simp_thms Un_empty_left)
  next
    case 3
    have same: "row_of r = row_of reg" if "r \<in> set regs" "\<not> conflict r" "cr_pool r = cr_pool reg" for r
      using "2.prems" [of r reg] that 3 by simp
    let ?A = "{r \<in> set regs. \<not> conflict r \<and> cr_pool r \<notin> set (cr_pool reg # staged)}"
    let ?C = "{r \<in> set regs. \<not> conflict r \<and> cr_pool r \<notin> set staged}"
    have tail: "set (config_rows_loop conflict row_of (cr_pool reg # staged) regs) = (\<Union>r \<in> ?A. set (row_of r))"
      by (rule "2.IH"(3) [OF 3 sub])
    have cover: "set (row_of r) \<subseteq> set (row_of reg) \<union> (\<Union>r \<in> ?A. set (row_of r))" if "r \<in> ?C" for r
    proof (cases "cr_pool r = cr_pool reg")
      case True
      then show ?thesis using same [of r] that by simp
    next
      case False
      then have "r \<in> ?A" using that by simp
      then show ?thesis by (meson UN_upper le_supI2)
    qed
    have "(\<Union>r \<in> ?C. set (row_of r)) \<subseteq> set (row_of reg) \<union> (\<Union>r \<in> ?A. set (row_of r))"
      by (rule UN_least) (rule cover)
    moreover have "(\<Union>r \<in> ?A. set (row_of r)) \<subseteq> (\<Union>r \<in> ?C. set (row_of r))"
      by (rule UN_mono) auto
    ultimately have "set (row_of reg) \<union> (\<Union>r \<in> ?A. set (row_of r)) = set (row_of reg) \<union> (\<Union>r \<in> ?C. set (row_of r))"
      by (meson le_sup_iff order_antisym sup_ge1 sup.mono order_refl)
    then have "set (row_of reg @ config_rows_loop conflict row_of (cr_pool reg # staged) regs)
        = set (row_of reg) \<union> (\<Union>r \<in> ?C. set (row_of r))"
      unfolding set_append tail .
    moreover have "(\<Union>r \<in> {reg} \<union> ?C. set (row_of r)) = set (row_of reg) \<union> (\<Union>r \<in> ?C. set (row_of r))"
      by (simp only: UN_Un UN_insert UN_empty Un_empty_right)
    ultimately show ?thesis unfolding split using 3 by (simp only: config_rows_loop.simps if_False simp_thms)
  qed
qed simp

lemma config_registry_row_of_factory:
  assumes "cr_pool r = cr_pool r'" and "cr_factory r = cr_factory r'"
  shows "config_pool_registry_row ix r config ledger sac_map = config_pool_registry_row ix r' config ledger sac_map"
  unfolding config_pool_registry_row_def assms ..

lemma listed_claims_set:
  "listed_claims i =
     set (filter (listed_by_owner (address_lists_of (si_pool_family_writes i)))
            (detect_config_pool_registrations (si_events i)))"
  by (auto simp: listed_claims_def listed_by_owner_def list_ex_iff)

lemma config_rows_claims:
  "row \<in> set (config_pool_rows ix (config_pools_of (si_pool_family_writes i))
               (address_lists_of (si_pool_family_writes i)) (si_events i) ledger sac_map)
   \<longleftrightarrow> config_claim ix i ledger sac_map row"
proof -
  define regs where "regs = filter (listed_by_owner (address_lists_of (si_pool_family_writes i)))
                              (detect_config_pool_registrations (si_events i))"
  define ds where "ds = declared_config (config_pools_of (si_pool_family_writes i))"
  have L: "listed_claims i = set regs" by (simp add: listed_claims_set regs_def)
  have ok: "\<not> conflicting regs r \<longleftrightarrow> (\<forall>r' \<in> set regs. cr_pool r' = cr_pool r \<longrightarrow> cr_factory r' = cr_factory r)" for r
    by (auto simp: conflicting_def list_ex_iff)
  have same: "config_row_of ix ds ledger sac_map r = config_row_of ix ds ledger sac_map r'"
    if "r \<in> set regs" "r' \<in> set regs" "\<not> conflicting regs r" "\<not> conflicting regs r'" "cr_pool r = cr_pool r'" for r r'
  proof -
    have "cr_factory r = cr_factory r'" using that ok [of r'] by blast
    then show ?thesis
      using that(5) by (auto simp: config_row_of_def config_registry_row_of_factory [of r r'] split: option.splits bool.splits)
  qed
  have mem: "row \<in> set (config_row_of ix ds ledger sac_map r) \<longleftrightarrow>
      (\<exists>config. ds (cr_pool r) = Some (Some config, True)
                \<and> config_pool_registry_row ix r config ledger sac_map = Inr row)" for r
  proof (cases "\<exists>config. ds (cr_pool r) = Some (Some config, True)")
    case True
    then obtain config where "ds (cr_pool r) = Some (Some config, True)" ..
    then show ?thesis
      by (cases "config_pool_registry_row ix r config ledger sac_map") (auto simp: config_row_of_def)
  next
    case False
    then have "config_row_of ix ds ledger sac_map r = []"
      by (simp add: config_row_of_def split: option.split bool.split)
    then show ?thesis using False by simp
  qed
  have created: "ds (cr_pool r) = Some (Some config, True) \<longleftrightarrow>
      (let cs = configs_named (cr_pool r) (config_pools_of (si_pool_family_writes i)) in
       last_config cs = Some config \<and> (\<exists>d \<in> set cs. xcp_created d))" for r config
    by (auto simp: ds_def declared_config_eq last_config_def last_opt_def Let_def)
  have "row \<in> set (config_pool_rows ix (config_pools_of (si_pool_family_writes i))
               (address_lists_of (si_pool_family_writes i)) (si_events i) ledger sac_map)
    \<longleftrightarrow> (\<exists>r \<in> set regs. \<not> conflicting regs r \<and> row \<in> set (config_row_of ix ds ledger sac_map r))"
    unfolding config_pool_rows_def Let_def regs_def [symmetric] ds_def [symmetric]
    by (subst set_config_rows_loop [OF same]) auto
  also have "\<dots> \<longleftrightarrow> config_claim ix i ledger sac_map row"
    unfolding config_claim_def L ok mem created Let_def by blast
  finally show ?thesis .
qed

lemma soroban_pool_rows_claims:
  "row \<in> set (soroban_pool_rows ix i ledger sac_map) \<longleftrightarrow>
     router_claim ix i ledger sac_map row \<or> pair_claim ix i ledger sac_map row \<or> config_claim ix i ledger sac_map row"
  by (simp add: soroban_pool_rows_def router_rows_claims pair_rows_claims config_rows_claims)

lemma registry_rows_soroban:
  "router_claim ix i ledger sac_map row \<or> pair_claim ix i ledger sac_map row \<or> config_claim ix i ledger sac_map row
   \<Longrightarrow> prow_pool_kind row = pool_kind_code PkSoroban"
  by (auto simp: router_claim_def pair_claim_def config_claim_def pool_registry_row_def factory_pair_registry_row_def
      config_pool_registry_row_def soroban_registry_row_def try_res_Inr Let_def split: if_splits)

end
