(* ===== verification/StageFacts.thy ===== *)
theory StageFacts
  imports PoolClaims
begin

text \<open>
  What a staged ledger promises: its Soroban pools are the corroborated registrations, every row that
  names a transaction names one of the ledger's, and the decimal texts of the parser are read back.
\<close>

subsection \<open>The parts of a staged ledger\<close>

definition movements_of :: "ids_ext \<Rightarrow> stage_inputs \<Rightarrow> staged_ledger \<Rightarrow> pool_movement_row list" where
  "movements_of ix i out =
     pool_movement_rows ix out
       (pair_legs_map ix (si_sac_classic i) (factory_pairs_of (si_pool_family_writes i))) (si_sac_classic i)"

lemma prepare_parts:
  assumes "prepare_with_sac_overrides ix cx i = Inr out"
  obtains p where "staged_parts_of ix i = Inr p"
    and "out = (staged_of_parts ix cx i p)\<lparr>sg_pool_movement_rows := movements_of ix i (staged_of_parts ix cx i p)\<rparr>"
  using assms by (auto simp: prepare_with_sac_overrides_def map_res_Inr Let_def movements_of_def)

lemma parts_from_builders:
  assumes "staged_parts_of ix i = Inr p"
  defines "ledger \<equiv> int (xl_sequence (si_ledger i))"
  shows "transaction_tables ix ledger (op_count_by_tx (si_operations i)) (tx_has_soroban_map (si_operations i))
           (si_transactions i) = Inr (gp_txs p)"
    and "build_pool_rows ix (si_liquidity_pools i) = Inr (gp_classic_pools p)"
    and "operation_rows ix (si_operations i) (tt_order (gp_txs p)) ledger = Inr (gp_operations p)"
    and "event_rows ix (si_events i) (tt_order (gp_txs p)) ledger = Inr (gp_events p)"
    and "build_value_flow_rows ix ledger (si_transactions i) (si_asset_transfers i) = Inr (gp_flow p)"
  using assms(1) unfolding staged_parts_of_def Let_def ledger_def by (auto simp: try_res_Inr)

subsection \<open>Pools\<close>

lemma classic_rows_kind:
  assumes "build_pool_rows ix pools = Inr rows" and "r \<in> set rows"
  shows "prow_pool_kind r = pool_kind_code PkClassic"
proof -
  define P where "P = (\<lambda>(slots :: bytes \<rightharpoonup> nat, rows :: liquidity_pool_row list). \<forall>r \<in> set rows. prow_pool_kind r = pool_kind_code PkClassic)"
  obtain s where s: "fold_res (classic_pool_step ix) (Map.empty, []) pools = Inr s" "rows = snd s"
    using assms(1) by (auto simp: build_pool_rows_def map_res_Inr)
  have row: "classic_pool_row ix h pool = Some r \<Longrightarrow> prow_pool_kind r = pool_kind_code PkClassic" for h pool r
    by (auto simp: classic_pool_row_def Let_def split: option.splits)
  have merge: "P (classic_pool_merge s pool_id row)" if "P s" "prow_pool_kind row = pool_kind_code PkClassic" for s pool_id row
  proof (cases s)
    case (Pair slots rs)
    have upd: "\<forall>q \<in> set (rs[n := (rs ! n)\<lparr>prow_last_updated_ledger := l\<rparr>]). prow_pool_kind q = pool_kind_code PkClassic" for n l
    proof (cases "n < length rs")
      case True
      have "set (rs[n := (rs ! n)\<lparr>prow_last_updated_ledger := l\<rparr>]) \<subseteq> insert ((rs ! n)\<lparr>prow_last_updated_ledger := l\<rparr>) (set rs)"
        by (rule set_update_subset_insert)
      moreover have "prow_pool_kind ((rs ! n)\<lparr>prow_last_updated_ledger := l\<rparr>) = pool_kind_code PkClassic"
        using \<open>P s\<close> True by (simp add: P_def Pair)
      ultimately show ?thesis using \<open>P s\<close> by (fastforce simp: P_def Pair)
    qed (use \<open>P s\<close> in \<open>simp add: list_update_beyond P_def Pair\<close>)
    show ?thesis
      using that upd by (auto simp: classic_pool_merge_def P_def Pair split: option.splits)
  qed
  have step: "P s'" if "classic_pool_step ix s pool = Inr s'" "P s" for s pool s'
    using that row merge by (cases s) (auto simp: classic_pool_step_def map_res_Inr split: option.splits)
  have "P s" by (rule fold_res_inv [OF s(1), where P = P]) (use step in \<open>auto simp: P_def\<close>)
  then show ?thesis using assms(2) s(2) by (auto simp: P_def split: prod.splits)
qed

text \<open>C6. A ledger stages a Soroban pool exactly when the pool's own storage corroborates it in that ledger:
  the router it names (or, for a pool that names none, its creation) announced it; or the factory named by
  the created pair announced it with the pair's tokens; or the only factory that listed it announced it
  and it was created with a configuration.  No other event puts a Soroban pool into the registry.\<close>

theorem soroban_pools_corroborated:
  assumes "prepare_with_sac_overrides ix cx i = Inr out"
  defines "ledger \<equiv> int (xl_sequence (si_ledger i))" and "sac \<equiv> sac_map_of ix (si_assets i) (si_sac_classic i)"
  shows "row \<in> set (sg_pool_rows out) \<and> prow_pool_kind row = pool_kind_code PkSoroban \<longleftrightarrow>
         router_claim ix i ledger sac row \<or> pair_claim ix i ledger sac row \<or> config_claim ix i ledger sac row"
proof -
  from assms(1) obtain p where p: "staged_parts_of ix i = Inr p"
    "out = (staged_of_parts ix cx i p)\<lparr>sg_pool_movement_rows := movements_of ix i (staged_of_parts ix cx i p)\<rparr>"
    by (rule prepare_parts)
  have "sg_pool_rows out = gp_classic_pools p @ soroban_pool_rows ix i ledger sac"
    by (simp add: p(2) staged_of_parts_def Let_def ledger_def sac_def)
  moreover have "prow_pool_kind row \<noteq> pool_kind_code PkSoroban" if "row \<in> set (gp_classic_pools p)"
    using classic_rows_kind [OF parts_from_builders(2) [OF p(1)] that] by simp
  ultimately show ?thesis
    using soroban_pool_rows_claims [of row ix i ledger sac] registry_rows_soroban [of ix i ledger sac row] by auto
qed

subsection \<open>Rows keyed by a transaction\<close>

text \<open>A row at ledger \<open>l\<close> and position \<open>app\<close> is keyed when the ledger staged a transaction there.\<close>

definition tx_positions :: "staged_ledger \<Rightarrow> int set" where
  "tx_positions out = txrow_application_order ` set (sg_transaction_rows out)"

definition keyed :: "staged_ledger \<Rightarrow> int \<Rightarrow> int \<Rightarrow> bool" where
  "keyed out l app \<longleftrightarrow> l = sg_ledger_sequence out \<and> app \<in> tx_positions out"

lemma try_i16_Inr: "try_i16 e n = Inr m \<longleftrightarrow> fits_i16 n \<and> m = n"
  by (auto simp: try_i16_def)

lemma positions_of_tables:
  assumes "transaction_tables ix l op_count hs txs = Inr t"
  shows "map txrow_application_order (tt_rows t) = map (\<lambda>k. int k + 1) [0..<length txs]
    \<and> length txs \<le> 32767 \<and> ran (tt_order t) \<subseteq> {1..int (length txs)}
    \<and> (\<forall>r \<in> set (tt_rows t). txrow_ledger_sequence r = l \<and> length (txrow_hash r) = 32)"
  using assms unfolding transaction_tables_def
proof (induction txs arbitrary: t rule: rev_induct)
  case (snoc tx txs)
  then obtain t0 where t0: "fold_res (transaction_step ix l op_count hs)
        \<lparr>tt_rows = [], tt_prefixes = [], tt_order = Map.empty\<rparr> (List.enumerate 0 txs) = Inr t0"
    and step: "transaction_step ix l op_count hs t0 (length txs, tx) = Inr t"
    by (auto simp: enumerate_append_eq fold_res_append try_res_Inr)
  note IH = snoc.IH [OF t0]
  have "ran (tt_order t) \<subseteq> insert (int (length txs) + 1) (ran (tt_order t0))"
    using step by (auto simp: transaction_step_def try_res_Inr try_i16_Inr ran_def split: if_splits)
  moreover have "map txrow_application_order (tt_rows t) = map txrow_application_order (tt_rows t0) @ [int (length txs) + 1]
      \<and> fits_i16 (int (length txs) + 1)
      \<and> (\<forall>r \<in> set (tt_rows t). r \<in> set (tt_rows t0) \<or> txrow_ledger_sequence r = l \<and> length (txrow_hash r) = 32)"
    using step by (auto simp: transaction_step_def try_res_Inr try_i16_Inr decode_hash_def split: sum.splits if_splits)
  ultimately show ?case using IH by (force simp: fits_i16_def)
qed simp

lemma order_in_ran: "order h = Some app \<Longrightarrow> ran order \<subseteq> A \<Longrightarrow> app \<in> A"
  by (auto simp: ran_def)

lemma order_in_ran_sym: "Some app = order h \<Longrightarrow> ran order \<subseteq> A \<Longrightarrow> app \<in> A"
  by (rule order_in_ran [OF sym])

subsection \<open>Operations\<close>

definition op_tables_keyed :: "int \<Rightarrow> int set \<Rightarrow> op_tables \<Rightarrow> bool" where
  "op_tables_keyed l A t \<longleftrightarrow>
     (\<forall>r \<in> set (ot_asset_rows t). oarow_ledger_sequence r = l \<and> oarow_application_order r \<in> A) \<and>
     (\<forall>r \<in> set (ot_pool_amount_rows t). poarow_ledger_sequence r = l \<and> poarow_application_order r \<in> A)"

lemma appearance_keyed:
  assumes "app \<in> A" and "op_tables_keyed l A t"
  shows "op_tables_keyed l A (foldl (appearance_step ix l app) t as)"
proof -
  have step: "op_tables_keyed l A (appearance_step ix l app s a)" if "op_tables_keyed l A s" for s a
    using assms(1) that by (simp add: appearance_step_def op_tables_keyed_def Let_def)
  show ?thesis using assms(2) by (induction as arbitrary: t) (simp_all add: step)
qed

lemma pool_amount_rows_keyed:
  "\<forall>r \<in> set (pool_amount_rows_of ix l app j d). poarow_ledger_sequence r = l \<and> poarow_application_order r = app"
  by (auto simp: pool_amount_rows_of_def)

lemma operation_step_keyed:
  assumes "operation_step ix l h app t op = Inr t'" and "app \<in> A" and "op_tables_keyed l A t"
  shows "op_tables_keyed l A t'"
proof -
  let ?t = "foldl (appearance_step ix l app) t (xo_asset_appearances op)"
  have t: "op_tables_keyed l A ?t" by (rule appearance_keyed [OF assms(2,3)])
  from assms(1) obtain j agg where "t' = ?t\<lparr>ot_pool_amount_rows := ot_pool_amount_rows ?t
        @ pool_amount_rows_of ix l app j (xo_details op), ot_agg := agg\<rparr>"
    unfolding operation_step_def Let_def try_res_Inr map_res_Inr by blast
  then show ?thesis
    using t assms(2) pool_amount_rows_keyed [of ix l app j "xo_details op"] by (auto simp: op_tables_keyed_def)
qed

lemma operation_rows_keyed:
  assumes "operation_rows ix ops order l = Inr (as, pas, rows)" and "ran order \<subseteq> A"
  shows "(\<forall>r \<in> set as. oarow_ledger_sequence r = l \<and> oarow_application_order r \<in> A)
    \<and> (\<forall>r \<in> set pas. poarow_ledger_sequence r = l \<and> poarow_application_order r \<in> A)
    \<and> (\<forall>r \<in> set rows. oprow_ledger_sequence r = l \<and> oprow_application_order r \<in> A)"
proof -
  let ?t0 = "\<lparr>ot_asset_rows = [], ot_pool_amount_rows = [], ot_agg = [], ot_seen = []\<rparr>"
  obtain t where t: "fold_res (operations_step ix l order) ?t0 ops = Inr t"
    and out: "as = ot_asset_rows t" "pas = ot_pool_amount_rows t" "tx_operation_rows ix l order (ot_agg t) = Inr rows"
    using assms(1) by (auto simp: operation_rows_def try_res_Inr map_res_Inr)
  have step: "op_tables_keyed l A s'" if "operations_step ix l order s x = Inr s'" "op_tables_keyed l A s" for s x s'
  proof (cases "order (fst x)")
    case (Some app)
    have "op_tables_keyed l A (s\<lparr>ot_seen := []\<rparr>)" using that(2) by (simp add: op_tables_keyed_def)
    then show ?thesis
      using that(1) Some order_in_ran [OF Some assms(2)] operation_step_keyed
      by (auto simp: operations_step_def intro: fold_res_inv [where P = "op_tables_keyed l A"])
  qed (use that in \<open>simp add: operations_step_def\<close>)
  have "op_tables_keyed l A t"
  proof (rule fold_res_inv [OF t, where P = "op_tables_keyed l A"])
    show "op_tables_keyed l A ?t0" by (simp add: op_tables_keyed_def)
  qed (rule step)
  moreover have "oprow_ledger_sequence r = l \<and> oprow_application_order r \<in> A" if "r \<in> set rows" for r
  proof -
    obtain rss where rss: "rows = concat rss" "list_all2 (\<lambda>(k, m) rs. (case order (ok_tx_hash k) of
           None \<Rightarrow> Inr []
         | Some app \<Rightarrow> map_res (\<lambda>j. [tx_operation_row ix l app k j])
             (try_i16 (''operation_index >i16 '' @ em_dash @ '' protocol violation'') (int m))) = Inr rs) (ot_agg t) rss"
      using out(3) by (auto simp: tx_operation_rows_def map_res_Inr mapM_res_Inr case_prod_unfold)
    from \<open>r \<in> set rows\<close> obtain rs where "rs \<in> set rss" "r \<in> set rs" by (auto simp: rss(1))
    then obtain k m where "(case order (ok_tx_hash k) of
           None \<Rightarrow> Inr []
         | Some app \<Rightarrow> map_res (\<lambda>j. [tx_operation_row ix l app k j])
             (try_i16 (''operation_index >i16 '' @ em_dash @ '' protocol violation'') (int m))) = Inr rs"
      using rss(2) by (auto simp: list_all2_conv_all_nth in_set_conv_nth case_prod_unfold)
    then show ?thesis
      using \<open>r \<in> set rs\<close> assms(2) by (auto simp: map_res_Inr tx_operation_row_def ran_def split: option.splits)
  qed
  ultimately show ?thesis by (auto simp: op_tables_keyed_def out)
qed

subsection \<open>Events and activity\<close>

definition event_tables_keyed :: "int \<Rightarrow> int set \<Rightarrow> event_tables \<Rightarrow> bool" where
  "event_tables_keyed l A t \<longleftrightarrow>
     (\<forall>r \<in> set (et_rows t). evrow_ledger_sequence r = l \<and> evrow_application_order r \<in> A) \<and>
     (\<forall>k \<in> set (et_contract_txs t). snd k \<in> A)"

lemma event_step_keyed:
  "event_step ix l h app t ev = Inr t' \<Longrightarrow> event_tables_keyed l A t \<Longrightarrow> app \<in> A \<Longrightarrow> event_tables_keyed l A t'"
  by (auto simp: event_step_def event_tables_keyed_def Let_def event_row_def set_insert_def split: if_splits option.splits)

lemma event_rows_keyed:
  assumes "event_rows ix events order l = Inr t" and "ran order \<subseteq> A"
  shows "event_tables_keyed l A t"
  using assms(1) unfolding event_rows_def
proof (rule fold_res_inv [where P = "event_tables_keyed l A"])
  show "event_tables_keyed l A \<lparr>et_rows = [], et_contract_txs = [], et_seen = []\<rparr>"
    by (simp add: event_tables_keyed_def)
  fix s x s'
  assume *: "(case x of (h, evs) \<Rightarrow> case order h of None \<Rightarrow> Inr s | Some app \<Rightarrow> fold_res (event_step ix l h app) s evs) = Inr s'"
    and s: "event_tables_keyed l A s"
  obtain h evs where x: "x = (h, evs)" by (cases x)
  show "event_tables_keyed l A s'"
  proof (cases "order h")
    case (Some app)
    then have "fold_res (event_step ix l h app) s evs = Inr s'" using * by (simp add: x)
    then show ?thesis
      by (rule fold_res_inv [where P = "event_tables_keyed l A"])
        (use s event_step_keyed order_in_ran [OF Some assms(2)] in blast)+
  qed (use * s x in simp)
qed

lemma contract_activity_keyed:
  assumes "ran order \<subseteq> A" and "\<forall>k \<in> set ctxs. snd k \<in> A" and "\<forall>r \<in> set ops. oprow_application_order r \<in> A"
    and "r \<in> set (contract_activity_rows ix invs order ctxs ops l)"
  shows "carow_ledger_sequence r = l \<and> carow_application_order r \<in> A"
proof -
  have "\<forall>k \<in> set (invoked_keys ix invs order). snd k \<in> A"
    using assms(1) by (auto simp: invoked_keys_def set_filter_map intro: order_in_ran order_in_ran_sym split: option.splits)
  then show ?thesis
    using assms(2-4) by (auto simp: contract_activity_rows_def Let_def activity_row_def set_filter_map)
qed

subsection \<open>Participants, assets, NFTs and transfers\<close>

lemma participants_keyed:
  assumes "ran order \<subseteq> A" and "r \<in> set (participant_rows ix l txs parts order)"
  shows "parow_ledger_sequence r = l \<and> parow_application_order r \<in> A"
  using assms by (auto simp: participant_rows_def intro: order_in_ran order_in_ran_sym split: option.splits)

lemma event_assets_keyed:
  assumes "ran order \<subseteq> A" and "r \<in> set (event_asset_rows l assets order)"
  shows "oarow_ledger_sequence r = l \<and> oarow_application_order r \<in> A"
  using assms by (auto simp: event_asset_rows_def intro: order_in_ran order_in_ran_sym split: option.splits)

lemma nft_changes_keyed:
  assumes "ran order \<subseteq> A"
    and "r \<in> set (nt_changes (nft_rows ix cs prior order nfts evs)) \<union> set (nt_pending_changes (nft_rows ix cs prior order nfts evs))"
  shows "ocrow_application_order r \<in> A"
  using assms by (auto simp: nft_rows_def Let_def set_filter_map ownership_change_row_def ran_def)

lemma application_orders_spec:
  assumes "application_orders txs = Inr ordered"
  shows "map fst ordered = map (\<lambda>k. int k + 1) [0..<length txs]"
proof -
  have "list_all2 (\<lambda>(k, tx) o1. o1 = (int k + 1, tx)) (List.enumerate 0 txs) ordered"
    using assms by (auto simp: application_orders_def mapM_res_Inr map_res_Inr try_i16_Inr case_prod_unfold elim: list_all2_mono)
  then have "ordered = map (\<lambda>(k, tx). (int k + 1, tx)) (List.enumerate 0 txs)"
    by (induction rule: list_all2_induct) auto
  then have "map fst ordered = map (\<lambda>k. int k + 1) (map fst (List.enumerate 0 txs))"
    by (simp add: case_prod_unfold comp_def del: map_fst_enumerate)
  then show ?thesis by (simp only: map_fst_enumerate add_0)
qed

lemma ran_order_by_hash: "ran (order_by_hash ordered) \<subseteq> fst ` set ordered"
proof -
  have "ran (foldl (\<lambda>m (n, tx). m(xt_hash tx \<mapsto> n)) m ordered) \<subseteq> ran m \<union> fst ` set ordered" for m
  proof (induction ordered arbitrary: m)
    case (Cons o1 os)
    obtain n tx where o1: "o1 = (n, tx)" by (cases o1)
    have "ran (m(xt_hash tx \<mapsto> n)) \<subseteq> insert n (ran m)" by (auto simp: ran_def)
    moreover have "ran (foldl (\<lambda>m (n, tx). m(xt_hash tx \<mapsto> n)) m (o1 # os))
        \<subseteq> ran (m(xt_hash tx \<mapsto> n)) \<union> fst ` set os"
      using Cons.IH [of "m(xt_hash tx \<mapsto> n)"] by (simp only: o1 foldl.simps prod.case)
    moreover have "fst ` set (o1 # os) = insert n (fst ` set os)" by (simp add: o1)
    ultimately show ?case by blast
  qed simp
  from this [of Map.empty] show ?thesis by (simp add: order_by_hash_def)
qed

lemma value_flow_keyed:
  assumes "build_value_flow_rows ix l txs transfers = Inr flow"
  shows "(\<forall>r \<in> set (vf_transfers flow). atrow_ledger_sequence r = l \<and> atrow_application_order r \<in> {1..int (length txs)})
    \<and> (\<forall>r \<in> set (vf_memos flow). memrow_ledger_sequence r = l \<and> memrow_application_order r \<in> {1..int (length txs)})"
proof -
  obtain ordered rows where o1: "application_orders txs = Inr ordered"
    and rows: "mapM_res (asset_transfer_row_of ix l (order_by_hash ordered)) transfers = Inr rows"
    and flow: "vf_transfers flow = rows" "vf_memos flow = filter_map (memo_row l) ordered"
    using assms by (auto simp: build_value_flow_rows_def try_res_Inr)
  have pos: "fst ` set ordered \<subseteq> {1..int (length txs)}"
  proof -
    have "fst ` set ordered = (\<lambda>k. int k + 1) ` {0..<length txs}"
      using arg_cong [OF application_orders_spec [OF o1], of set] by simp
    then show ?thesis by auto
  qed
  have "atrow_ledger_sequence r = l \<and> atrow_application_order r \<in> ran (order_by_hash ordered)" if "r \<in> set rows" for r
  proof -
    from rows that obtain t where "asset_transfer_row_of ix l (order_by_hash ordered) t = Inr r"
      by (auto simp: mapM_res_Inr list_all2_conv_all_nth in_set_conv_nth)
    then show ?thesis
      by (auto simp: asset_transfer_row_of_def try_res_Inr ok_or_Inr ran_def Let_def case_prod_unfold)
  qed
  moreover have "memrow_ledger_sequence r = l \<and> memrow_application_order r \<in> fst ` set ordered"
    if "r \<in> set (filter_map (memo_row l) ordered)" for r
  proof -
    from that obtain otx where "otx \<in> set ordered" "memo_row l otx = Some r" by (auto simp: set_filter_map)
    moreover have "memrow_ledger_sequence r = l \<and> memrow_application_order r = fst otx"
      using \<open>memo_row l otx = Some r\<close>
      by (cases "xt_memo_type (snd otx)"; cases "xt_memo (snd otx)") (auto simp: memo_row_def)
    ultimately show ?thesis by simp
  qed
  ultimately show ?thesis using pos ran_order_by_hash [of ordered] unfolding flow by blast
qed

subsection \<open>Movements of pools\<close>

text \<open>Where an event stands: contract, ledger, transaction, operation, event.\<close>

definition moved_by :: "soroban_pool \<Rightarrow> soroban_event_row \<Rightarrow> pool_movement_row \<Rightarrow> bool" where
  "moved_by pool ev r \<longleftrightarrow>
     pmrow_pool_id r = sp_pool_id pool \<and> pmrow_ledger_sequence r = evrow_ledger_sequence ev \<and>
     pmrow_application_order r = evrow_application_order ev \<and> pmrow_operation_index r = evrow_operation_index ev \<and>
     pmrow_event_index r = evrow_event_index ev \<and> (sp_legs pool = [] \<or> pmrow_asset_id r \<in> set (sp_legs pool))"

lemma pushed_moved_by: "r \<in> set (pushed ev pool d) \<Longrightarrow> moved_by pool ev r"
  by (auto simp: pushed_def movement_row_def moved_by_def list_ex_iff split: option.splits if_splits)

lemma phoenix_group_rest: "set (snd (phoenix_group ix ev name fs evs)) \<subseteq> set evs"
  by (induction ix ev name fs evs rule: phoenix_group.induct) (auto simp: Let_def split: if_splits)

lemma movement_loop_moved_by: "r \<in> set (movement_loop ix sac evs) \<Longrightarrow> \<exists>(ev, pool) \<in> set evs. moved_by pool ev r"
proof (induction evs rule: length_induct)
  case (1 evs)
  show ?case
  proof (cases evs)
    case Nil
    then show ?thesis using "1.prems" by simp
  next
    case (Cons e rest)
    obtain ev pool where e: "e = (ev, pool)" by (cases e)
    have IH: "\<exists>(ev, pool) \<in> set rest. moved_by pool ev r"
      if "r \<in> set (movement_loop ix sac es)" "length es \<le> length rest" "set es \<subseteq> set rest" for es
    proof -
      have "\<exists>(ev, pool) \<in> set es. moved_by pool ev r" using "1.IH" that(1,2) by (auto simp: Cons)
      then show ?thesis using that(3) by blast
    qed
    consider "r \<in> set (movement_loop ix sac rest)"
      | name where "r \<in> set (movement_loop ix sac (snd (phoenix_group ix ev name Map.empty rest)))"
      | d where "r \<in> set (pushed ev pool d)"
      using "1.prems" by (auto simp: Cons e Let_def split: option.splits if_splits)
    then show ?thesis
    proof cases
      case 1
      then show ?thesis using IH [of rest] by (auto simp: Cons)
    next
      case (2 name)
      then show ?thesis using IH [OF 2 phoenix_group_length phoenix_group_rest] by (auto simp: Cons)
    next
      case (3 d)
      then show ?thesis using pushed_moved_by [OF 3] by (auto simp: Cons e)
    qed
  qed
qed

lemma movements_moved_by:
  assumes "r \<in> set (soroban_pool_amount_rows ix evs pools sac)"
  shows "\<exists>ev \<in> set evs. \<exists>pool. pools (evrow_contract_id ev) = Some pool \<and> moved_by pool ev r"
proof -
  from assms obtain ev pool where "(ev, pool) \<in> set (filter_map (\<lambda>e. map_option (Pair e) (pools (evrow_contract_id e))) evs)"
    and "moved_by pool ev r"
    unfolding soroban_pool_amount_rows_def using movement_loop_moved_by by (metis (no_types, lifting) case_prodE set_sort)
  then show ?thesis by (auto simp: set_filter_map)
qed

subsection \<open>The staged ledger is closed under its transactions\<close>

definition rows_keyed :: "staged_ledger \<Rightarrow> bool" where
  "rows_keyed out \<longleftrightarrow>
     (\<forall>r \<in> set (sg_participant_rows out). keyed out (parow_ledger_sequence r) (parow_application_order r)) \<and>
     (\<forall>r \<in> set (sg_op_asset_rows out). keyed out (oarow_ledger_sequence r) (oarow_application_order r)) \<and>
     (\<forall>r \<in> set (sg_pool_amount_rows out). keyed out (poarow_ledger_sequence r) (poarow_application_order r)) \<and>
     (\<forall>r \<in> set (sg_tx_operation_rows out). keyed out (oprow_ledger_sequence r) (oprow_application_order r)) \<and>
     (\<forall>r \<in> set (sg_event_rows out). keyed out (evrow_ledger_sequence r) (evrow_application_order r)) \<and>
     (\<forall>r \<in> set (sg_contract_activity_rows out). keyed out (carow_ledger_sequence r) (carow_application_order r)) \<and>
     (\<forall>r \<in> set (sg_asset_transfer_rows out). keyed out (atrow_ledger_sequence r) (atrow_application_order r)) \<and>
     (\<forall>r \<in> set (sg_transaction_memo_rows out). keyed out (memrow_ledger_sequence r) (memrow_application_order r)) \<and>
     (\<forall>r \<in> set (sg_pool_movement_rows out). keyed out (pmrow_ledger_sequence r) (pmrow_application_order r)) \<and>
     (\<forall>r \<in> set (sg_nft_ownership_change_rows out) \<union> set (sg_nft_ownership_change_pending_rows out).
        ocrow_application_order r \<in> tx_positions out)"

text \<open>C10. A staged ledger is closed under its transactions: their positions are 1 to n, each within the column,
  and every row of the ten other tables that name a transaction (participants, assets, pool amounts,
  operations, events, contract activity, transfers, memos, pool movements, NFT changes) names one of them,
  in this ledger.\<close>

theorem staged_rows_keyed:
  assumes "prepare_with_sac_overrides ix cx i = Inr out"
  shows "map txrow_application_order (sg_transaction_rows out) = map (\<lambda>k. int k + 1) [0..<length (si_transactions i)]
    \<and> length (si_transactions i) \<le> 32767
    \<and> (\<forall>r \<in> set (sg_transaction_rows out). txrow_ledger_sequence r = sg_ledger_sequence out \<and> length (txrow_hash r) = 32)
    \<and> rows_keyed out"
proof -
  define l where "l = int (xl_sequence (si_ledger i))"
  from assms obtain p where p: "staged_parts_of ix i = Inr p"
    and out: "out = (staged_of_parts ix cx i p)\<lparr>sg_pool_movement_rows := movements_of ix i (staged_of_parts ix cx i p)\<rparr>"
    by (rule prepare_parts)
  note parts = parts_from_builders [OF p, folded l_def]
  note tables = positions_of_tables [OF parts(1)]
  have rows: "sg_transaction_rows out = tt_rows (gp_txs p)" and seq: "sg_ledger_sequence out = l"
    by (simp_all add: out staged_of_parts_def Let_def l_def)
  define A where "A = {1..int (length (si_transactions i))}"
  have pos: "tx_positions out = A"
  proof -
    have "tx_positions out = (\<lambda>k. int k + 1) ` {0..<length (si_transactions i)}"
      using arg_cong [OF conjunct1 [OF tables], of set] by (simp add: tx_positions_def rows)
    also have "\<dots> = A"
    proof (intro equalityI subsetI)
      fix x assume "x \<in> A"
      then have "x = int (nat (x - 1)) + 1" "nat (x - 1) < length (si_transactions i)" by (auto simp: A_def)
      then show "x \<in> (\<lambda>k. int k + 1) ` {0..<length (si_transactions i)}" by (metis atLeastLessThan_iff imageI le0)
    qed (auto simp: A_def)
    finally show ?thesis .
  qed
  have ord: "ran (tt_order (gp_txs p)) \<subseteq> A" using tables by (simp add: A_def)
  obtain as pas ops where ops: "gp_operations p = (as, pas, ops)" by (cases "gp_operations p")
  note op = operation_rows_keyed [OF parts(3) [unfolded ops] ord]
  have opsA: "\<forall>r \<in> set ops. oprow_application_order r \<in> A" using op by blast
  note evs = event_rows_keyed [OF parts(4) ord, unfolded event_tables_keyed_def]
  note flow = value_flow_keyed [OF parts(5), folded A_def]
  have K: "keyed out x y \<longleftrightarrow> x = l \<and> y \<in> A" for x y by (simp add: keyed_def seq pos)
  have evrows: "sg_event_rows out = et_rows (gp_events p)"
    by (simp add: out staged_of_parts_def Let_def)
  have moves: "pmrow_ledger_sequence r = l \<and> pmrow_application_order r \<in> A" if "r \<in> set (sg_pool_movement_rows out)" for r
  proof -
    have "\<exists>ev \<in> set (sg_event_rows (staged_of_parts ix cx i p)). \<exists>pool. moved_by pool ev r"
      using that movements_moved_by by (fastforce simp: out movements_of_def pool_movement_rows_def Let_def)
    then show ?thesis using evs evrows by (auto simp: moved_by_def out)
  qed
  have "rows_keyed out"
    unfolding rows_keyed_def K pos
  proof (intro conjI)
    show "\<forall>r \<in> set (sg_participant_rows out). parow_ledger_sequence r = l \<and> parow_application_order r \<in> A"
      using participants_keyed [OF ord] by (auto simp: out staged_of_parts_def Let_def l_def)
    show "\<forall>r \<in> set (sg_op_asset_rows out). oarow_ledger_sequence r = l \<and> oarow_application_order r \<in> A"
      using op event_assets_keyed [OF ord] by (auto simp: out staged_of_parts_def Let_def l_def ops)
    show "\<forall>r \<in> set (sg_contract_activity_rows out). carow_ledger_sequence r = l \<and> carow_application_order r \<in> A"
      using contract_activity_keyed [OF ord conjunct2 [OF evs] opsA]
      by (auto simp: out staged_of_parts_def Let_def l_def ops)
    show "\<forall>r \<in> set (sg_nft_ownership_change_rows out) \<union> set (sg_nft_ownership_change_pending_rows out). ocrow_application_order r \<in> A"
      using nft_changes_keyed [OF ord] by (auto simp: out staged_of_parts_def Let_def)
  qed (use op evs flow moves in \<open>simp_all add: out staged_of_parts_def Let_def l_def ops\<close>)
  then show ?thesis using tables by (simp add: rows seq)
qed

subsection \<open>A staged ledger\<close>

text \<open>One transaction that registers a pool of two tokens through a router, with the pool's instance.\<close>

definition sample_ix :: ids_ext where
  "sample_ix = \<lparr>ix_city = (\<lambda>b. int (length b)), ix_contract = Some, ix_contract_strkey = (\<lambda>b. b),
                ix_hex = (\<lambda>s. Inr (replicate 32 (hd s))), ix_json = (\<lambda>s. None)\<rparr>"

definition tagged :: "string \<Rightarrow> json \<Rightarrow> json" where
  "tagged ty v = JObj [(''type'', JStr ty), (''value'', v)]"

definition sample_event :: extracted_event where
  "sample_event =
     \<lparr>ev_transaction_hash = ''a'',
      ev_event_id = \<lparr>ei_ledger_sequence = 7, ei_transaction_index = 1, ei_operation_index = 0, ei_event_index = 0\<rparr>,
      ev_origin = OriginOperation 0,
      ev_body = \<lparr>eb_event_type = EvContract, eb_contract_id = Some ''ROUTER'',
        eb_topics = JArr [tagged ''sym'' (JStr ''add_pool''),
                          tagged ''vec'' (JArr [tagged ''address'' (JStr ''TA''), tagged ''address'' (JStr ''TBB'')])],
        eb_data = tagged ''vec'' (JArr [tagged ''address'' (JStr ''POOL''), tagged ''sym'' (JStr ''stable''), JNull,
                    tagged ''vec'' (JArr [tagged ''u32'' (JStr ''30'')])])\<rparr>,
      ev_created_at = 0\<rparr>"

definition sample_instance :: extracted_pool_instance where
  "sample_instance =
     \<lparr>xi_state = \<lparr>pi_pool = ''POOL'', pi_token_share = None, pi_total_shares = None, pi_plane = None,
                  pi_router = Some ''ROUTER'', pi_reserves = []\<rparr>,
      xi_ledger_sequence = 7, xi_created = True, xi_reserves_changed = False\<rparr>"

definition sample_tx :: extracted_transaction where
  "sample_tx =
     \<lparr>xt_hash = ''a'', xt_inner_tx_hash = None, xt_ledger_sequence = 7, xt_source_account = ''GA'',
      xt_source_muxed_id = None, xt_fee_source = None, xt_fee_charged = 100, xt_successful = True,
      xt_result_code = ''txSUCCESS'', xt_envelope_xdr = [], xt_result_xdr = [], xt_result_meta_xdr = None,
      xt_memo_type = Some ''text'', xt_memo = Some ''hi'', xt_created_at = 0, xt_operation_tree = None,
      xt_parse_error = False, xt_ledger_deltas = []\<rparr>"

definition sample_inputs :: stage_inputs where
  "sample_inputs =
     \<lparr>si_ledger = \<lparr>xl_sequence = 7, xl_hash = ''l'', xl_closed_at = 5, xl_protocol_version = 23,
                   xl_transaction_count = 1, xl_base_fee = 100\<rparr>,
      si_transactions = [sample_tx], si_operations = [], si_events = [(''a'', [sample_event])], si_invocations = [],
      si_programs = [], si_contract_deployments = [], si_account_states = [], si_liquidity_pools = [],
      si_pool_snapshots = [], si_assets = [], si_nfts = [], si_nft_events = [], si_lp_positions = [],
      si_contract_metadata_writes = [], si_executable_ref_targets = [], si_contract_instances = [],
      si_soroban_token_balances = [], si_claimable_balances = [],
      si_pool_family_writes = [RouterPool sample_instance],
      si_sac_classic = Map.empty, si_sac_overrides = [], si_prior_wasm_verdicts = Map.empty,
      si_prior_contract_verdicts = Map.empty, si_prior_contract_rows = Map.empty, si_asset_transfers = []\<rparr>"

definition sample_codec :: codec_ext where
  "sample_codec = \<lparr>cx_b64_decode = (\<lambda>s. None), cx_hex_decode = (\<lambda>s. None), cx_entry_to_xdr = (\<lambda>e. None)\<rparr>"

lemma sample_staged: "\<not> isl (staged_parts_of sample_ix sample_inputs)"
  by code_simp

lemma sample_prepared: "\<exists>out. prepare_with_sac_overrides sample_ix sample_codec sample_inputs = Inr out"
  using sample_staged
  by (cases "staged_parts_of sample_ix sample_inputs") (auto simp: prepare_with_sac_overrides_def Let_def)

lemma sample_registered:
  "soroban_pool_rows sample_ix sample_inputs 7
     (sac_map_of sample_ix (si_assets sample_inputs) (si_sac_classic sample_inputs)) \<noteq> []"
  by code_simp

text \<open>The pool of the sample is staged, through its router.\<close>

theorem soroban_pools_corroborated_witness:
  "\<exists>out row. prepare_with_sac_overrides sample_ix sample_codec sample_inputs = Inr out
     \<and> row \<in> set (sg_pool_rows out) \<and> prow_pool_kind row = pool_kind_code PkSoroban"
proof -
  let ?sac = "sac_map_of sample_ix (si_assets sample_inputs) (si_sac_classic sample_inputs)"
  obtain out where out: "prepare_with_sac_overrides sample_ix sample_codec sample_inputs = Inr out"
    using sample_prepared by blast
  obtain row where "row \<in> set (soroban_pool_rows sample_ix sample_inputs 7 ?sac)"
    using hd_in_set [OF sample_registered] by blast
  moreover have "int (xl_sequence (si_ledger sample_inputs)) = 7" by (simp add: sample_inputs_def)
  ultimately have "row \<in> set (sg_pool_rows out) \<and> prow_pool_kind row = pool_kind_code PkSoroban"
    using soroban_pools_corroborated [OF out, of row] soroban_pool_rows_claims [of row] by metis
  then show ?thesis using out by blast
qed

theorem staged_rows_keyed_witness:
  "\<exists>out. prepare_with_sac_overrides sample_ix sample_codec sample_inputs = Inr out
     \<and> map txrow_application_order (sg_transaction_rows out) = [1] \<and> rows_keyed out"
proof -
  obtain out where out: "prepare_with_sac_overrides sample_ix sample_codec sample_inputs = Inr out"
    using sample_prepared by blast
  show ?thesis using staged_rows_keyed [OF out] out by (auto simp: sample_inputs_def)
qed

end
