(* ===== verification/Decimals.thy ===== *)
theory Decimals
  imports Rows
begin

text \<open>
  The decimal text of a balance: what \<open>format_stroops\<close> (\<open>xdr-parser/src/state.rs\<close>) prints,
  \<open>decimal7_string_to_i128\<close> (\<open>persist/stage.rs\<close>) reads back.
\<close>

subsection \<open>Trimming\<close>

lemma white_space_ends:
  "\<forall>w \<in> set white_space. w \<noteq> [] \<and> \<not> is_ascii_digit (hd w) \<and> hd w \<noteq> CHR ''-'' \<and> \<not> is_ascii_digit (last w)"
  by code_simp

lemma trim_ws_id:
  assumes "is_ascii_digit (hd s) \<or> hd s = CHR ''-''" and "is_ascii_digit (last s)"
  shows "trim_ws s = s"
  using assms white_space_ends by (intro trim_ws_plain) metis+

subsection \<open>Digits\<close>

lemma parse_signed_unsigned:
  assumes "\<And>c r. s = c # r \<Longrightarrow> c \<noteq> CHR ''+'' \<and> c \<noteq> CHR ''-''"
  shows "parse_signed lo hi s = do { n \<leftarrow> parse_digits s; if int n \<le> hi then Some (int n) else None }"
proof -
  have "(case s of CHR ''+'' # r \<Rightarrow> r | _ \<Rightarrow> s) = s"
    using assms by (cases s) (auto split: list.split char.split bool.split)
  moreover have "parse_signed lo hi s =
        do { m \<leftarrow> parse_digits (case s of CHR ''+'' # r \<Rightarrow> r | _ \<Rightarrow> s);
             if int m \<le> hi then Some (int m) else None }"
    using assms by (cases s) (auto simp: parse_signed_def split: list.split char.split bool.split)
  ultimately show ?thesis by simp
qed

lemma parse_i128_digits:
  assumes "s \<noteq> []" and "list_all is_ascii_digit s" and "int (digits_value s) \<le> i128_max"
  shows "parse_i128 s = Some (int (digits_value s))"
proof -
  have "c \<noteq> CHR ''+'' \<and> c \<noteq> CHR ''-''" if "s = c # r" for c r
    using assms(2) that digit_char_not_sign by simp
  from parse_signed_unsigned [OF this] show ?thesis
    using assms by (simp add: parse_i128_def parse_digits_def)
qed

lemma digits_value_zeros: "digits_value (replicate n CHR ''0'' @ s) = digits_value s"
  by (induction n) (auto simp: digits_value_def digit_value_def)

lemma length_show_nat: "0 < k \<Longrightarrow> n < 10 ^ k \<Longrightarrow> length (show_nat n) \<le> k"
proof (induction k arbitrary: n rule: nat_induct_non_zero)
  case 1
  then show ?case by (subst show_nat.simps) simp
next
  case (Suc k)
  have "length (show_nat (n div 10)) \<le> k" by (rule Suc.IH) (use Suc.prems in \<open>simp add: less_mult_imp_div_less\<close>)
  then show ?case using Suc.hyps by (subst show_nat.simps) auto
qed

definition seven :: "nat \<Rightarrow> string" where
  "seven f = pad_zeros 7 (show_nat f)"

lemma seven_spec:
  assumes "f < 10 ^ 7"
  shows "length (seven f) = 7" and "list_all is_ascii_digit (seven f)" and "digits_value (seven f) = f"
proof -
  show "length (seven f) = 7" using length_show_nat [of 7 f] assms by (simp add: seven_def pad_zeros_def)
  show "list_all is_ascii_digit (seven f)"
    using show_nat_digits [of f] by (auto simp: seven_def pad_zeros_def list_all_iff is_ascii_digit_def)
  show "digits_value (seven f) = f" by (simp add: seven_def pad_zeros_def digits_value_zeros digits_value_show)
qed

definition decimal_text :: "nat \<Rightarrow> nat \<Rightarrow> string" where
  "decimal_text w f = show_nat w @ CHR ''.'' # seven f"

lemma decimal_text_ends:
  assumes "f < 10 ^ 7"
  shows "is_ascii_digit (hd (decimal_text w f))" and "is_ascii_digit (last (decimal_text w f))" "decimal_text w f \<noteq> []"
proof -
  show "is_ascii_digit (hd (decimal_text w f))" using show_nat_hd [of w] by (simp add: decimal_text_def)
  have "seven f \<noteq> []" using seven_spec(1) [OF assms] by auto
  then show "is_ascii_digit (last (decimal_text w f))"
    using seven_spec(2) [OF assms] by (simp add: decimal_text_def list_all_iff)
qed (simp add: decimal_text_def)

lemma split_decimal_text: "split_once CHR ''.'' (decimal_text w f) = Some (show_nat w, seven f)"
proof -
  have "CHR ''.'' \<notin> set (show_nat w)" using show_nat_digits [of w] by (auto simp: list_all_iff is_ascii_digit_def)
  then show ?thesis by (simp add: decimal_text_def split_once_append)
qed

text \<open>The value read from a text with or without a minus sign.\<close>

lemma read_decimal_text:
  assumes "int w \<le> 2 ^ 63" and "f < 10 ^ 7" and "s = decimal_text w f \<and> sg = 1 \<or> s = CHR ''-'' # decimal_text w f \<and> sg = -1"
  shows "decimal7_string_to_i128 s = Inr (sg * (int w * 10000000 + int f))"
proof -
  note ends = decimal_text_ends [OF assms(2), of w]
  obtain c r where cr: "decimal_text w f = c # r" using ends(3) by (cases "decimal_text w f") auto
  have c: "c \<noteq> CHR ''+''" "c \<noteq> CHR ''-''" using ends(1) cr digit_char_not_sign by auto
  have trim: "trim_ws s = s" using assms(3) ends by (auto intro: trim_ws_id)
  have s: "s \<noteq> []" using assms(3) ends(3) by auto
  have sign: "(case strip_prefix ''-'' s of Some r \<Rightarrow> (-1, r) | None \<Rightarrow> (1, unwrap_or (strip_prefix ''+'' s) s))
      = (sg, decimal_text w f)"
    using assms(3) c by (auto simp: strip_prefix_def cr unwrap_or_def)
  have w: "parse_i128 (show_nat w) = Some (int w)"
    using parse_i128_digits [OF show_nat_nonempty show_nat_digits, of w] assms(1) by (simp add: digits_value_show)
  have f: "parse_i128 (seven f) = Some (int f)"
  proof -
    have "seven f \<noteq> []" using seven_spec(1) [OF assms(2)] by auto
    then show ?thesis using parse_i128_digits [of "seven f"] seven_spec [OF assms(2)] assms(2) by simp
  qed
  have fits: "fits_i128 (int w * 10000000)" "fits_i128 (int w * 10000000 + int f)"
    "- (2 ^ 127) \<le> sg * (int w * 10000000 + int f)" "sg * (int w * 10000000 + int f) < 2 ^ 127"
    using assms by (auto simp: ranges)
  have frac: "min (length (seven f)) 7 = 7" "take 7 (seven f) = seven f" "seven f \<noteq> []" "at_boundary (seven f) 7"
    using seven_spec(1) [OF assms(2)] by (auto simp: at_boundary_def)
  have wrap: "wrap_i128 (sg * (int w * 10000000 + int f)) = sg * (int w * 10000000 + int f)"
    using fits(3,4) by (simp add: wrap_i128_def)
  show ?thesis
    unfolding decimal7_string_to_i128_def trim Let_def sign prod.case split_decimal_text option.case
    using s w f fits frac seven_spec(1) [OF assms(2)] wrap
    by (simp add: parse_i128_or_def checked_i128_def checked_add_def)
qed

subsection \<open>The round trip\<close>

lemma format_stroops_text:
  "format_stroops n =
     (if n \<le> - 10000000 then [CHR ''-''] else []) @ decimal_text (nat (\<bar>n\<bar> div 10000000)) (nat (\<bar>n\<bar> mod 10000000))"
proof (cases "0 \<le> n")
  case True
  then have "n sdiv 10000000 = n div 10000000" "\<bar>n smod 10000000\<bar> = n mod 10000000" "0 \<le> n div 10000000"
    "\<not> n mod 10000000 < 0"
    by (auto simp: signed_divide_int_def signed_modulo_int_def sgn_if minus_div_mult_eq_mod [symmetric]
        pos_imp_zdiv_nonneg_iff)
  then show ?thesis
    using True by (simp add: format_stroops_def Let_def decimal_text_def seven_def show_int_def)
next
  case False
  define m where "m = - n"
  have m: "0 < m" "n = - m" using False by (simp_all add: m_def)
  have "n sdiv 10000000 = - (m div 10000000)" "\<bar>n smod 10000000\<bar> = m mod 10000000"
    using m(1) by (simp_all add: m(2) signed_divide_int_def signed_modulo_int_def sgn_if minus_div_mult_eq_mod [symmetric])
  then show ?thesis
    using m by (auto simp: format_stroops_def Let_def decimal_text_def seven_def show_int_def pos_imp_zdiv_pos_iff
        pos_imp_zdiv_nonneg_iff)
qed

text \<open>C33. The amount printed for a balance or a position is read back by staging for every 64-bit integer,
  except that an amount between minus one unit and zero loses its sign: its whole part prints as 0.\<close>

theorem stroops_round_trip:
  assumes "fits_i64 n"
  shows "decimal7_string_to_i128 (format_stroops n) = Inr (if - 10000000 < n \<and> n < 0 then - n else n)"
proof -
  define w f where "w = nat (\<bar>n\<bar> div 10000000)" and "f = nat (\<bar>n\<bar> mod 10000000)"
  have wf: "int w * 10000000 + int f = \<bar>n\<bar>"
    by (simp add: w_def f_def pos_imp_zdiv_nonneg_iff)
  have "f < 10 ^ 7" by (simp add: f_def nat_less_iff)
  moreover have "int w \<le> 2 ^ 63" using assms by (auto simp: w_def ranges)
  moreover have "format_stroops n = (if n \<le> - 10000000 then CHR ''-'' # decimal_text w f else decimal_text w f)"
    by (simp add: format_stroops_text w_def f_def)
  ultimately have "decimal7_string_to_i128 (format_stroops n)
      = Inr ((if n \<le> - 10000000 then -1 else 1) * (int w * 10000000 + int f))"
    by (intro read_decimal_text) auto
  then show ?thesis by (auto simp: wf)
qed

theorem stroops_round_trip_witness:
  "decimal7_string_to_i128 (format_stroops (-25000001)) = Inr (-25000001)
   \<and> decimal7_string_to_i128 (format_stroops (-5)) = Inr 5"
  using stroops_round_trip [of "-25000001"] stroops_round_trip [of "-5"] by (simp add: ranges)

end
