(* ===== verification/Writer.thy ===== *)
theory Writer
  imports Stage
begin

text \<open>
  The writer of a partition (\<open>persist/writer.rs\<close>, \<open>writer/targeted.rs\<close>).  The ClickHouse client is a
  third-party library: the calls made to it are a log, in order, and its answer to a call is a
  parameter that may depend on everything called before.  The fields of \<open>TableInserts\<close> are the
  values of \<open>table\<close>; \<open>write_order\<close> and \<open>commit_order\<close> are the two statement sequences of
  \<open>write_ledger\<close> and \<open>commit\<close>.
\<close>

subsection \<open>Tables and rows\<close>

datatype table =
    TbAccounts
  | TbAccountEntryState | TbWasmPrograms | TbContracts | TbMetadata | TbExecutableRefs
  | TbContractInstances | TbTransactions | TbHashPrefix | TbParticipants | TbOpAssets
  | TbPoolAmounts | TbPoolMovements | TbPools | TbPoolInstanceState | TbPoolStateChanges
  | TbSnapshots | TbLpPositions | TbTxOperations | TbSorobanEvents | TbContractActivity
  | TbAssets | TbAssetSac | TbNfts | TbNftsPending | TbNftOwnership | TbNftOwnershipPending
  | TbBalances | TbClaimableHoldings | TbAssetTransfers | TbTransactionMemos

datatype table_row =
    RowLedger ledger_row
  | RowAccounts accounts_row
  | RowAccountEntryState account_entry_state_row
  | RowWasmPrograms wasm_program_row
  | RowContracts soroban_contract_row
  | RowMetadata contract_metadata_row
  | RowExecutableRefs executable_ref_row
  | RowContractInstances contract_instance_row
  | RowTransactions transaction_row
  | RowHashPrefix hash_prefix_row
  | RowParticipants participant_row
  | RowOpAssets op_asset_row
  | RowPoolAmounts pool_amount_row
  | RowPoolMovements pool_movement_row
  | RowPools liquidity_pool_row
  | RowPoolInstanceState pool_instance_state_row
  | RowPoolStateChanges pool_state_change_row
  | RowSnapshots pool_snapshot_row
  | RowLpPositions lp_position_row
  | RowTxOperations transaction_operation_row
  | RowSorobanEvents soroban_event_row
  | RowContractActivity contract_activity_row
  | RowAssets asset_row
  | RowAssetSac asset_sac_row
  | RowNfts nft_row
  | RowNftOwnership nft_ownership_change_row
  | RowBalances balance_row
  | RowAssetTransfers asset_transfer_row
  | RowTransactionMemos transaction_memo_row

fun table_name :: "table \<Rightarrow> string" where
  "table_name TbAccounts = ''accounts''"
| "table_name TbAccountEntryState = ''account_entry_state''"
| "table_name TbWasmPrograms = ''wasm_programs''"
| "table_name TbContracts = ''soroban_contracts''"
| "table_name TbMetadata = ''soroban_contract_metadata''"
| "table_name TbExecutableRefs = ''contract_executable_refs''"
| "table_name TbContractInstances = ''contract_instances''"
| "table_name TbTransactions = ''transactions''"
| "table_name TbHashPrefix = ''transaction_hash_prefix_index''"
| "table_name TbParticipants = ''transaction_participants''"
| "table_name TbOpAssets = ''operation_asset_appearances''"
| "table_name TbPoolAmounts = ''pool_operation_amounts''"
| "table_name TbPoolMovements = ''pool_movements''"
| "table_name TbPools = ''liquidity_pools''"
| "table_name TbPoolInstanceState = ''pool_instance_state''"
| "table_name TbPoolStateChanges = ''pool_state_changes''"
| "table_name TbSnapshots = ''liquidity_pool_snapshots''"
| "table_name TbLpPositions = ''lp_positions''"
| "table_name TbTxOperations = ''transaction_operations''"
| "table_name TbSorobanEvents = ''soroban_events''"
| "table_name TbContractActivity = ''contract_activity''"
| "table_name TbAssets = ''assets''"
| "table_name TbAssetSac = ''asset_sac''"
| "table_name TbNfts = ''nfts''"
| "table_name TbNftsPending = ''nfts_pending''"
| "table_name TbNftOwnership = ''nft_ownership_changes''"
| "table_name TbNftOwnershipPending = ''nft_ownership_changes_pending''"
| "table_name TbBalances = ''balances''"
| "table_name TbClaimableHoldings = ''claimable_balance_holdings''"
| "table_name TbAssetTransfers = ''asset_transfers''"
| "table_name TbTransactionMemos = ''transaction_memos''"

fun rows_of :: "staged_ledger \<Rightarrow> table \<Rightarrow> table_row list" where
  "rows_of s TbAccounts = map RowAccounts (sg_account_rows s)"
| "rows_of s TbAccountEntryState = map RowAccountEntryState (sg_account_entry_state_rows s)"
| "rows_of s TbWasmPrograms = map RowWasmPrograms (sg_wasm_rows s)"
| "rows_of s TbContracts = map RowContracts (sg_contract_rows s)"
| "rows_of s TbMetadata = map RowMetadata (sg_metadata_rows s)"
| "rows_of s TbExecutableRefs = map RowExecutableRefs (sg_executable_ref_rows s)"
| "rows_of s TbContractInstances = map RowContractInstances (sg_contract_instance_rows s)"
| "rows_of s TbTransactions = map RowTransactions (sg_transaction_rows s)"
| "rows_of s TbHashPrefix = map RowHashPrefix (sg_hash_prefix_rows s)"
| "rows_of s TbParticipants = map RowParticipants (sg_participant_rows s)"
| "rows_of s TbOpAssets = map RowOpAssets (sg_op_asset_rows s)"
| "rows_of s TbPoolAmounts = map RowPoolAmounts (sg_pool_amount_rows s)"
| "rows_of s TbPoolMovements = map RowPoolMovements (sg_pool_movement_rows s)"
| "rows_of s TbPools = map RowPools (sg_pool_rows s)"
| "rows_of s TbPoolInstanceState = map RowPoolInstanceState (sg_pool_instance_state_rows s)"
| "rows_of s TbPoolStateChanges = map RowPoolStateChanges (sg_pool_state_change_rows s)"
| "rows_of s TbSnapshots = map RowSnapshots (sg_snapshot_rows s)"
| "rows_of s TbLpPositions = map RowLpPositions (sg_lp_position_rows s)"
| "rows_of s TbTxOperations = map RowTxOperations (sg_tx_operation_rows s)"
| "rows_of s TbSorobanEvents = map RowSorobanEvents (sg_event_rows s)"
| "rows_of s TbContractActivity = map RowContractActivity (sg_contract_activity_rows s)"
| "rows_of s TbAssets = map RowAssets (sg_asset_rows s)"
| "rows_of s TbAssetSac = map RowAssetSac (sg_asset_sac_rows s)"
| "rows_of s TbNfts = map RowNfts (sg_nft_rows s)"
| "rows_of s TbNftsPending = map RowNfts (sg_nft_pending_rows s)"
| "rows_of s TbNftOwnership = map RowNftOwnership (sg_nft_ownership_change_rows s)"
| "rows_of s TbNftOwnershipPending = map RowNftOwnership (sg_nft_ownership_change_pending_rows s)"
| "rows_of s TbBalances = map RowBalances (sg_unified_balance_rows s)"
| "rows_of s TbClaimableHoldings = map RowBalances (sg_claimable_balance_rows s)"
| "rows_of s TbAssetTransfers = map RowAssetTransfers (sg_asset_transfer_rows s)"
| "rows_of s TbTransactionMemos = map RowTransactionMemos (sg_transaction_memo_rows s)"

subsection \<open>The client\<close>

record insert_handle =
  in_table :: string
  in_settings :: "(string \<times> string) list"

datatype db_call =
    CallQuery string
  | CallOpen string
  | CallWrite insert_handle table_row
  | CallEnd insert_handle

type_synonym db_log = "db_call list"
type_synonym db_answers = "db_log \<Rightarrow> db_call \<Rightarrow> ch_error option"

definition db_call :: "db_answers \<Rightarrow> db_call \<Rightarrow> db_log \<Rightarrow> (schema_error + unit) \<times> db_log" where
  "db_call ans c db = (case ans db c of Some e \<Rightarrow> Inl (SchemaQuery e) | None \<Rightarrow> Inr (), db @ [c])"

text \<open>Statements one after the other, up to the first error: the \<open>?\<close> operator on a state.\<close>

definition then_do :: "('e + unit) \<times> 's \<Rightarrow> ('s \<Rightarrow> ('e + unit) \<times> 's) \<Rightarrow> ('e + unit) \<times> 's" where
  "then_do r f = (case r of (Inl e, s) \<Rightarrow> (Inl e, s) | (Inr u, s) \<Rightarrow> f s)"

fun for_each :: "('a \<Rightarrow> 's \<Rightarrow> ('e + unit) \<times> 's) \<Rightarrow> 'a list \<Rightarrow> 's \<Rightarrow> ('e + unit) \<times> 's" where
  "for_each f [] s = (Inr (), s)"
| "for_each f (x # xs) s = then_do (f x s) (for_each f xs)"

subsection \<open>The writer\<close>

record partition_writer =
  pw_inserts :: "table \<Rightarrow> insert_handle option"
  pw_ledger_rows :: "ledger_row list"

definition writer_open :: partition_writer where
  "writer_open = \<lparr>pw_inserts = (\<lambda>_. None), pw_ledger_rows = []\<rparr>"

definition apply_bulk_ingest_settings :: "insert_handle \<Rightarrow> insert_handle" where
  "apply_bulk_ingest_settings i = i\<lparr>in_settings := in_settings i @
     [(''async_insert'', ''0''), (''max_insert_block_size'', ''1048576''),
      (''min_insert_block_size_rows'', ''1000000''), (''min_insert_block_size_bytes'', ''268435456''),
      (''insert_deduplicate'', ''0''), (''http_receive_timeout'', ''7200''), (''http_send_timeout'', ''7200'')]\<rparr>"

definition handle_of :: "string \<Rightarrow> insert_handle" where
  "handle_of name = apply_bulk_ingest_settings \<lparr>in_table = name, in_settings = []\<rparr>"

definition open_insert :: "db_answers \<Rightarrow> string \<Rightarrow> db_log \<Rightarrow> (schema_error + insert_handle) \<times> db_log" where
  "open_insert ans name db =
     (case db_call ans (CallOpen name) db of
        (Inl e, db1) \<Rightarrow> (Inl e, db1) | (Inr u, db1) \<Rightarrow> (Inr (handle_of name), db1))"

definition write_all :: "db_answers \<Rightarrow> insert_handle \<Rightarrow> table_row list \<Rightarrow> db_log \<Rightarrow> (schema_error + unit) \<times> db_log" where
  "write_all ans h rows db = for_each (\<lambda>row. db_call ans (CallWrite h row)) rows db"

definition write_rows ::
  "db_answers \<Rightarrow> table \<Rightarrow> table_row list \<Rightarrow> partition_writer \<times> db_log \<Rightarrow>
   (schema_error + unit) \<times> partition_writer \<times> db_log" where
  "write_rows ans t rows s =
     (case s of (w, db) \<Rightarrow>
        if rows = [] then (Inr (), w, db)
        else
          (case pw_inserts w t of
             None \<Rightarrow>
               (case open_insert ans (table_name t) db of
                  (Inl e, db1) \<Rightarrow> (Inl e, w, db1)
                | (Inr h, db1) \<Rightarrow>
                    (case write_all ans h rows db1 of (r, db2) \<Rightarrow>
                       (r, w\<lparr>pw_inserts := (pw_inserts w)(t := Some h)\<rparr>, db2)))
           | Some h \<Rightarrow> (case write_all ans h rows db of (r, db2) \<Rightarrow> (r, w, db2))))"

definition write_order :: "table list" where
  "write_order =
     [TbAccounts, TbAccountEntryState, TbWasmPrograms, TbContracts, TbMetadata,
      TbExecutableRefs, TbContractInstances, TbTransactions, TbHashPrefix, TbParticipants,
      TbOpAssets, TbPoolAmounts, TbPoolMovements, TbPools, TbPoolInstanceState,
      TbPoolStateChanges, TbSnapshots, TbLpPositions, TbTxOperations, TbSorobanEvents,
      TbContractActivity, TbAssets, TbAssetSac, TbNfts, TbNftsPending, TbNftOwnership,
      TbNftOwnershipPending, TbBalances, TbClaimableHoldings, TbAssetTransfers,
      TbTransactionMemos]"

definition write_ledger ::
  "db_answers \<Rightarrow> staged_ledger \<Rightarrow> partition_writer \<times> db_log \<Rightarrow>
   (schema_error + unit) \<times> partition_writer \<times> db_log" where
  "write_ledger ans staged s =
     (case s of (w, db) \<Rightarrow>
        for_each (\<lambda>t. write_rows ans t (rows_of staged t)) write_order
          (w\<lparr>pw_ledger_rows := pw_ledger_rows w @ sg_ledger_rows staged\<rparr>, db))"

definition end_insert :: "db_answers \<Rightarrow> insert_handle option \<Rightarrow> db_log \<Rightarrow> (schema_error + unit) \<times> db_log" where
  "end_insert ans slot db = (case slot of None \<Rightarrow> (Inr (), db) | Some h \<Rightarrow> db_call ans (CallEnd h) db)"

definition commit_order :: "table list" where
  "commit_order =
     [TbAccounts, TbAccountEntryState, TbWasmPrograms, TbContracts, TbMetadata,
      TbExecutableRefs, TbContractInstances, TbTransactions, TbHashPrefix, TbParticipants,
      TbOpAssets, TbPoolAmounts, TbPoolMovements, TbPools, TbPoolInstanceState,
      TbPoolStateChanges, TbSnapshots, TbLpPositions, TbTxOperations, TbSorobanEvents,
      TbContractActivity, TbAssets, TbAssetSac, TbNfts, TbNftsPending, TbNftOwnership,
      TbNftOwnershipPending, TbBalances, TbClaimableHoldings, TbAssetTransfers,
      TbTransactionMemos]"

definition write_marker :: "db_answers \<Rightarrow> ledger_row list \<Rightarrow> db_log \<Rightarrow> (schema_error + unit) \<times> db_log" where
  "write_marker ans ledgers db =
     (if ledgers = [] then (Inr (), db)
      else
        (case open_insert ans ''ledgers'' db of
           (Inl e, db1) \<Rightarrow> (Inl e, db1)
         | (Inr h, db1) \<Rightarrow> then_do (write_all ans h (map RowLedger ledgers) db1) (db_call ans (CallEnd h))))"

definition writer_commit :: "db_answers \<Rightarrow> partition_writer \<Rightarrow> db_log \<Rightarrow> (schema_error + unit) \<times> db_log" where
  "writer_commit ans w db =
     then_do (for_each (\<lambda>t. end_insert ans (pw_inserts w t)) commit_order db)
       (write_marker ans (pw_ledger_rows w))"

text \<open>\<open>abort\<close> drops the open requests; the client sends nothing more for them.\<close>

definition writer_abort :: "partition_writer \<Rightarrow> db_log \<Rightarrow> db_log" where
  "writer_abort w db = db"

subsection \<open>Targeted writes\<close>

definition targetable :: "string list" where
  "targetable =
     [''pool_operation_amounts'', ''asset_transfers'', ''transaction_memos'', ''pool_state_changes'',
      ''pool_instance_state'', ''liquidity_pools'', ''pool_movements'']"

definition targeted_step :: "string list \<Rightarrow> string \<Rightarrow> string + string list" where
  "targeted_step out raw =
     (let name = trim_ws raw in
      if name = [] then Inr out
      else if name \<notin> set targetable then
        Inl (''`'' @ name @ ''` is not a targetable table (targetable: '' @ join_with '', '' targetable @ '')'')
      else if name \<in> set out then Inl (''`'' @ name @ ''` listed twice'')
      else Inr (out @ [name]))"

definition targeted_parse :: "string \<Rightarrow> string + string list" where
  "targeted_parse spec =
     try_res (fold_res targeted_step [] (split_all (CHR '','') spec))
       (\<lambda>out. if out = [] then Inl ''no table named'' else Inr out)"

definition targeted_contains :: "string list \<Rightarrow> string \<Rightarrow> bool" where
  "targeted_contains tables name \<longleftrightarrow> name \<in> set tables"

definition write_target ::
  "db_answers \<Rightarrow> staged_ledger \<Rightarrow> string \<Rightarrow> partition_writer \<times> db_log \<Rightarrow>
   (schema_error + unit) \<times> partition_writer \<times> db_log" where
  "write_target ans staged name s =
     (if name = ''pool_operation_amounts'' then write_rows ans TbPoolAmounts (rows_of staged TbPoolAmounts) s
      else if name = ''pool_movements'' then write_rows ans TbPoolMovements (rows_of staged TbPoolMovements) s
      else if name = ''asset_transfers'' then write_rows ans TbAssetTransfers (rows_of staged TbAssetTransfers) s
      else if name = ''transaction_memos'' then write_rows ans TbTransactionMemos (rows_of staged TbTransactionMemos) s
      else if name = ''pool_state_changes'' then write_rows ans TbPoolStateChanges (rows_of staged TbPoolStateChanges) s
      else if name = ''pool_instance_state'' then
        write_rows ans TbPoolInstanceState (rows_of staged TbPoolInstanceState) s
      else if name = ''liquidity_pools'' then write_rows ans TbPools (rows_of staged TbPools) s
      else (Inl (SchemaStaging (''targeted write: table '' @ name @ '' is not targetable'')), s))"

definition write_only ::
  "db_answers \<Rightarrow> staged_ledger \<Rightarrow> string list \<Rightarrow> partition_writer \<times> db_log \<Rightarrow>
   (schema_error + unit) \<times> partition_writer \<times> db_log" where
  "write_only ans staged tables s = for_each (write_target ans staged) tables s"

end
