(* ===== verification/Persist.thy ===== *)
theory Persist
  imports Writer
begin

text \<open>
  \<open>persist_ledger_clickhouse\<close> (\<open>db-clickhouse/src/persist.rs\<close>): the prior verdicts and rows a ledger
  needs are read back, the ledger is staged, written and committed.  A query is a call of the log and
  its rows are a parameter; \<open>ClassificationCache\<close> (\<open>domain/src/classification_cache.rs\<close>) is a map that
  is only looked up.  Hashes are hexadecimal, so ASCII lower-casing is \<open>to_lowercase\<close> on them.
\<close>

subsection \<open>The classification cache\<close>

type_synonym classification_cache = "string \<rightharpoonup> contract_type"

definition cache_new :: classification_cache where "cache_new = Map.empty"

definition cache_get :: "classification_cache \<Rightarrow> string \<Rightarrow> contract_type option" where
  "cache_get c addr = c addr"

definition is_definitive :: "contract_type \<Rightarrow> bool" where
  "is_definitive ty \<longleftrightarrow> ty = CtToken \<or> ty = CtNft \<or> ty = CtFungible"

definition extend_step :: "classification_cache \<Rightarrow> string \<times> contract_type \<Rightarrow> classification_cache" where
  "extend_step c e = (if is_definitive (snd e) then c(fst e \<mapsto> snd e) else c)"

definition extend_definitive ::
  "classification_cache \<Rightarrow> (string \<times> contract_type) list \<Rightarrow> classification_cache" where
  "extend_definitive c entries = foldl extend_step c entries"

definition cache_missing :: "classification_cache \<Rightarrow> string list \<Rightarrow> string list" where
  "cache_missing c addrs = filter (\<lambda>a. c a = None) addrs"

definition snapshot_for :: "classification_cache \<Rightarrow> string list \<Rightarrow> (string \<times> contract_type) list" where
  "snapshot_for c addrs = filter_map (\<lambda>a. map_option (\<lambda>ty. (a, ty)) (c a)) addrs"

subsection \<open>Queries\<close>

record wasm_verdict_row =
  wv_h :: string
  wv_metadata :: string

record contract_verdict_row =
  cv_contract_id :: string
  cv_contract_type :: "int option"

record soroban_pool_legs_row =
  sl_pool_hex :: string
  sl_legs :: "int list"

record sac_classic_row =
  sc_sac_id :: int
  sc_asset_type :: int
  sc_asset_code :: string
  sc_issuer_id :: int

record db_reads =
  rd_wasm_verdicts :: "db_log \<Rightarrow> string \<Rightarrow> ch_error + wasm_verdict_row list"
  rd_contract_verdicts :: "db_log \<Rightarrow> string \<Rightarrow> ch_error + contract_verdict_row list"
  rd_contract_rows :: "db_log \<Rightarrow> string \<Rightarrow> ch_error + soroban_contract_row list"
  rd_sac_classic :: "db_log \<Rightarrow> string \<Rightarrow> ch_error + sac_classic_row list"
  rd_pool_legs :: "db_log \<Rightarrow> string \<Rightarrow> ch_error + soroban_pool_legs_row list"

definition run_query :: "(db_log \<Rightarrow> string \<Rightarrow> ch_error + 'r list) \<Rightarrow> string \<Rightarrow> db_log \<Rightarrow> (ch_error + 'r list) \<times> db_log" where
  "run_query rows_for sql db = (rows_for db sql, db @ [CallQuery sql])"

definition in_list :: "string list \<Rightarrow> string" where
  "in_list xs = join_with '', '' (map (\<lambda>x. CHR 0x27 # x @ [CHR 0x27]) xs)"

subsection \<open>The verdict of a stored program\<close>

text \<open>
  A \<open>Deserialize\<close> struct: from an object with every field once (others are ignored), or from an
  array of exactly the fields.
\<close>

definition struct_fields :: "string list \<Rightarrow> json \<Rightarrow> json list option" where
  "struct_fields names v =
     (case v of
        JObj ms \<Rightarrow> if list_all (\<lambda>n. length (filter (\<lambda>m. fst m = n) ms) \<le> 1) names
                   then those (map (map_of ms) names) else None
      | JArr xs \<Rightarrow> if length xs = length names then Some xs else None
      | _ \<Rightarrow> None)"

definition read_strings :: "json \<Rightarrow> string list option" where
  "read_strings v = Option.bind (as_array v) (\<lambda>xs. those (map as_str xs))"

definition read_function_param :: "json \<Rightarrow> function_param option" where
  "read_function_param v =
     (case struct_fields [''name'', ''type_name''] v of
        Some [n, t] \<Rightarrow> do { nm \<leftarrow> as_str n; ty \<leftarrow> as_str t; Some \<lparr>fp_name = nm, fp_type_name = ty\<rparr> }
      | _ \<Rightarrow> None)"

definition read_contract_function :: "json \<Rightarrow> contract_function option" where
  "read_contract_function v =
     (case struct_fields [''name'', ''doc'', ''inputs'', ''outputs''] v of
        Some [n, d, i, out] \<Rightarrow>
          do { nm \<leftarrow> as_str n; dc \<leftarrow> as_str d; is \<leftarrow> as_array i;
               ins \<leftarrow> those (map read_function_param is); outs \<leftarrow> read_strings out;
               Some \<lparr>cf_name = nm, cf_doc = dc, cf_inputs = ins, cf_outputs = outs\<rparr> }
      | _ \<Rightarrow> None)"

definition read_wasm_metadata :: "json \<Rightarrow> contract_function list option" where
  "read_wasm_metadata v =
     (case struct_fields [''functions''] v of
        Some [fs] \<Rightarrow> Option.bind (as_array fs) (\<lambda>xs. those (map read_contract_function xs))
      | _ \<Rightarrow> None)"

definition classify_wasm_metadata_json :: "ids_ext \<Rightarrow> string \<Rightarrow> contract_type option" where
  "classify_wasm_metadata_json ix metadata_json =
     do { v \<leftarrow> ix_json ix metadata_json;
          functions \<leftarrow> read_wasm_metadata v;
          let verdict = contract_type_of_class (classify_contract_from_wasm_spec functions)
          in if verdict = CtNft \<or> verdict = CtFungible then Some verdict else None }"

definition wasm_verdict_step ::
  "ids_ext \<Rightarrow> (bytes \<rightharpoonup> contract_type) \<Rightarrow> wasm_verdict_row \<Rightarrow> (bytes \<rightharpoonup> contract_type)" where
  "wasm_verdict_step ix out row =
     (case ix_hex ix (wv_h row) of
        Inl e \<Rightarrow> out
      | Inr b \<Rightarrow>
          if length b \<noteq> 32 then out
          else (case classify_wasm_metadata_json ix (wv_metadata row) of
                  Some verdict \<Rightarrow> out(b \<mapsto> verdict) | None \<Rightarrow> out))"

definition query_wasm_verdicts ::
  "ids_ext \<Rightarrow> db_reads \<Rightarrow> string list \<Rightarrow> db_log \<Rightarrow> (ch_error + (bytes \<rightharpoonup> contract_type)) \<times> db_log" where
  "query_wasm_verdicts ix rd hashes_hex_lower db =
     (case run_query (rd_wasm_verdicts rd)
             (''SELECT lower(hex(wasm_hash)) AS h, metadata FROM wasm_programs WHERE lower(hex(wasm_hash)) IN (''
              @ in_list hashes_hex_lower @ '')'') db of
        (res, db1) \<Rightarrow> (map_res (foldl (wasm_verdict_step ix) Map.empty) res, db1))"

definition wanted_hashes :: "contract_deployment list \<Rightarrow> wasm_program list \<Rightarrow> string list" where
  "wanted_hashes contract_deployments programs =
     (let same_ledger = map (\<lambda>p. to_ascii_lowercase (wp_wasm_hash p)) programs
      in sort_dedup
           (filter (\<lambda>h. h \<notin> set same_ledger)
             (map to_ascii_lowercase (filter_map cd_wasm_hash (filter (\<lambda>d. \<not> cd_is_sac d) contract_deployments)))))"

text \<open>Fails open: an error leaves the verdicts empty.\<close>

definition fetch_prior_wasm_verdicts ::
  "ids_ext \<Rightarrow> db_reads \<Rightarrow> contract_deployment list \<Rightarrow> wasm_program list \<Rightarrow> db_log \<Rightarrow>
   (bytes \<rightharpoonup> contract_type) \<times> db_log" where
  "fetch_prior_wasm_verdicts ix rd contract_deployments programs db =
     (let want = wanted_hashes contract_deployments programs
      in if want = [] then (Map.empty, db)
         else (case query_wasm_verdicts ix rd want db of
                 (Inr m, db1) \<Rightarrow> (m, db1) | (Inl e, db1) \<Rightarrow> (Map.empty, db1)))"

subsection \<open>The verdicts of known contracts\<close>

definition contract_verdict_of :: "contract_verdict_row \<Rightarrow> (string \<times> contract_type) option" where
  "contract_verdict_of row =
     (case cv_contract_type row of
        None \<Rightarrow> None
      | Some ty \<Rightarrow> (case contract_type_try_from ty of
                      Inr verdict \<Rightarrow> Some (cv_contract_id row, verdict) | Inl e \<Rightarrow> None))"

definition query_contract_verdicts ::
  "db_reads \<Rightarrow> string list \<Rightarrow> db_log \<Rightarrow> (ch_error + (string \<times> contract_type) list) \<times> db_log" where
  "query_contract_verdicts rd contract_ids db =
     (case run_query (rd_contract_verdicts rd)
             (''SELECT contract_id, contract_type FROM soroban_contracts FINAL WHERE contract_id IN (''
              @ in_list contract_ids @ '') AND contract_type IN (0, 2, 3)'') db of
        (res, db1) \<Rightarrow>
          (map_res (\<lambda>rows. foldl (\<lambda>m (k, v). assoc_insert k v m) [] (filter_map contract_verdict_of rows)) res, db1))"

definition wanted_contracts ::
  "extracted_nft list \<Rightarrow> nft_ownership_event list \<Rightarrow> contract_deployment list \<Rightarrow> string list" where
  "wanted_contracts nfts nft_events contract_deployments =
     (let deployed_here = map cd_contract_id contract_deployments
      in sort_dedup (filter (\<lambda>c. c \<notin> set deployed_here) (map xn_contract_id nfts @ map no_contract_id nft_events)))"

definition fetch_prior_contract_verdicts ::
  "db_reads \<Rightarrow> extracted_nft list \<Rightarrow> nft_ownership_event list \<Rightarrow> contract_deployment list \<Rightarrow>
   classification_cache \<Rightarrow> db_log \<Rightarrow> (string \<rightharpoonup> contract_type) \<times> classification_cache \<times> db_log" where
  "fetch_prior_contract_verdicts rd nfts nft_events contract_deployments cache db =
     (let want = wanted_contracts nfts nft_events contract_deployments
      in if want = [] then (Map.empty, cache, db)
         else
           (let missing = cache_missing cache want;
                fetched = (if missing = [] then (cache, db)
                           else (case query_contract_verdicts rd missing db of
                                   (Inr entries, db1) \<Rightarrow> (extend_definitive cache entries, db1)
                                 | (Inl e, db1) \<Rightarrow> (cache, db1)))
            in (map_of (snapshot_for (fst fetched) want), fst fetched, snd fetched)))"

subsection \<open>The rows of upgraded contracts\<close>

definition upgraded_contract :: "codec_ext \<Rightarrow> extracted_event \<Rightarrow> string option" where
  "upgraded_contract cx ev =
     (if eb_event_type (ev_body ev) = EvSystem \<and> extract_executable_update cx (eb_topics (ev_body ev)) \<noteq> None
      then eb_contract_id (ev_body ev) else None)"

definition wanted_rows :: "codec_ext \<Rightarrow> (string \<times> extracted_event list) list \<Rightarrow> string list" where
  "wanted_rows cx events = sort_dedup (filter_map (upgraded_contract cx) (concat (map snd events)))"

text \<open>The column list that \<open>?fields\<close> expands to belongs to the client; the text keeps the placeholder.\<close>

definition fetch_prior_contract_rows ::
  "codec_ext \<Rightarrow> db_reads \<Rightarrow> (string \<times> extracted_event list) list \<Rightarrow> db_log \<Rightarrow>
   (ch_error + (string \<rightharpoonup> soroban_contract_row)) \<times> db_log" where
  "fetch_prior_contract_rows cx rd events db =
     (let want = wanted_rows cx events
      in if want = [] then (Inr Map.empty, db)
         else
           (case run_query (rd_contract_rows rd)
                   (''SELECT ?fields FROM soroban_contracts FINAL WHERE contract_id IN ('' @ in_list want @ '')'') db of
              (res, db1) \<Rightarrow>
                (map_res (foldl (\<lambda>m r. m(crow_contract_id r \<mapsto> r)) Map.empty) res, db1)))"

subsection \<open>The classic assets of token contracts, and the pools\<close>

definition sac_classic_map_needed ::
  "soroban_balance list \<Rightarrow> (string \<times> extracted_event list) list \<Rightarrow> bool \<Rightarrow> bool \<Rightarrow> bool" where
  "sac_classic_map_needed soroban_token_balances events writes_balances writes_pool_movements \<longleftrightarrow>
     (writes_balances \<and> soroban_token_balances \<noteq> []) \<or> registers_soroban_pools events \<or>
     (writes_pool_movements \<and> carries_pool_amounts events)"

definition sac_classic_sql :: string where
  "sac_classic_sql =
     ''SELECT max(sac_contract_id) AS sac_id, asset_type, asset_code, issuer_id '' @
     ''FROM asset_sac '' @
     ''GROUP BY asset_type, asset_code, issuer_id, contract_id '' @
     ''HAVING max(sac_deployed) = 1''"

definition fetch_sac_classic_map ::
  "ids_ext \<Rightarrow> db_reads \<Rightarrow> bool \<Rightarrow> db_log \<Rightarrow> (ch_error + (int \<rightharpoonup> int)) \<times> db_log" where
  "fetch_sac_classic_map ix rd needed db =
     (if \<not> needed then (Inr Map.empty, db)
      else
        (case run_query (rd_sac_classic rd) sac_classic_sql db of
           (res, db1) \<Rightarrow>
             (map_res (foldl (\<lambda>m r. m(sc_sac_id r \<mapsto> asset_id ix (sc_asset_type r) (sc_asset_code r) (sc_issuer_id r) 0))
                        Map.empty) res, db1)))"

definition pool_legs_step ::
  "ids_ext \<Rightarrow> (int \<rightharpoonup> soroban_pool) \<Rightarrow> soroban_pool_legs_row \<Rightarrow> stage_error + (int \<rightharpoonup> soroban_pool)" where
  "pool_legs_step ix m r =
     (case ix_hex ix (sl_pool_hex r) of
        Inl e \<Rightarrow> Inl StagePanic
      | Inr b \<Rightarrow>
          if length b \<noteq> 32 then Inl StagePanic
          else (case soroban_pool_entry ix b (sl_legs r) of (k, p) \<Rightarrow> Inr (m(k \<mapsto> p))))"

definition fetch_soroban_pools ::
  "ids_ext \<Rightarrow> db_reads \<Rightarrow> db_log \<Rightarrow> (stage_error + (int \<rightharpoonup> soroban_pool)) \<times> db_log" where
  "fetch_soroban_pools ix rd db =
     (case run_query (rd_pool_legs rd)
             (''SELECT lower(hex(pool_id)) AS pool_hex, argMax(legs, last_updated_ledger) AS legs '' @
              ''FROM liquidity_pools WHERE pool_kind = 1 GROUP BY pool_id'') db of
        (Inl e, db1) \<Rightarrow> (Inl (StageErr (SchemaQuery e)), db1)
      | (Inr rows, db1) \<Rightarrow> (fold_res (pool_legs_step ix) Map.empty rows, db1))"

subsection \<open>Persisting a ledger\<close>

text \<open>The write: on an error of \<open>write_ledger\<close> the open requests are dropped.\<close>

definition write_and_commit ::
  "db_answers \<Rightarrow> staged_ledger \<Rightarrow> db_log \<Rightarrow> (schema_error + unit) \<times> db_log" where
  "write_and_commit ans staged db =
     (case write_ledger ans staged (writer_open, db) of
        (Inl err, pw, db1) \<Rightarrow> (Inl err, writer_abort pw db1)
      | (Inr u, pw, db1) \<Rightarrow> writer_commit ans pw db1)"

text \<open>The inputs carry what the parser extracted; the prior maps are those read back.\<close>

definition with_prior ::
  "stage_inputs \<Rightarrow> (bytes \<rightharpoonup> contract_type) \<Rightarrow> (string \<rightharpoonup> contract_type) \<Rightarrow> (string \<rightharpoonup> soroban_contract_row) \<Rightarrow>
   (int \<rightharpoonup> int) \<Rightarrow> stage_inputs" where
  "with_prior i wasm_verdicts contract_verdicts contract_rows sac_classic =
     i\<lparr>si_prior_wasm_verdicts := wasm_verdicts, si_prior_contract_verdicts := contract_verdicts,
       si_prior_contract_rows := contract_rows, si_sac_classic := sac_classic\<rparr>"

definition read_prior ::
  "ids_ext \<Rightarrow> codec_ext \<Rightarrow> db_reads \<Rightarrow> stage_inputs \<Rightarrow> classification_cache \<Rightarrow> db_log \<Rightarrow>
   (ch_error + stage_inputs) \<times> classification_cache \<times> db_log" where
  "read_prior ix cx rd i cache db =
     (case fetch_prior_wasm_verdicts ix rd (si_contract_deployments i) (si_programs i) db of (wv, db1) \<Rightarrow>
      case fetch_prior_contract_verdicts rd (si_nfts i) (si_nft_events i) (si_contract_deployments i) cache db1 of
        (cv, cache1, db2) \<Rightarrow>
      case fetch_prior_contract_rows cx rd (si_events i) db2 of (rows, db3) \<Rightarrow>
      case fetch_sac_classic_map ix rd
             (sac_classic_map_needed (si_soroban_token_balances i) (si_events i) True True) db3 of (sac, db4) \<Rightarrow>
        (try_res sac (\<lambda>sac_classic. map_res (\<lambda>prior_rows. with_prior i wv cv prior_rows sac_classic) rows),
         cache1, db4))"

definition persist_ledger_clickhouse ::
  "ids_ext \<Rightarrow> codec_ext \<Rightarrow> db_reads \<Rightarrow> db_answers \<Rightarrow> stage_inputs \<Rightarrow> classification_cache \<Rightarrow> db_log \<Rightarrow>
   (stage_error + unit) \<times> classification_cache \<times> db_log" where
  "persist_ledger_clickhouse ix cx rd ans i cache db =
     (case read_prior ix cx rd i cache db of
        (Inl e, cache1, db1) \<Rightarrow> (Inl (StageErr (SchemaQuery e)), cache1, db1)
      | (Inr inputs, cache1, db1) \<Rightarrow>
          (case prepare_with_sac_overrides ix cx inputs of
             Inl e \<Rightarrow> (Inl e, cache1, db1)
           | Inr staged \<Rightarrow>
               (case write_and_commit ans staged db1 of
                  (Inl e, db2) \<Rightarrow> (Inl (StageErr e), cache1, db2)
                | (Inr u, db2) \<Rightarrow> (Inr (), cache1, db2))))"

end
