(* ===== verification/PersistFacts.thy ===== *)
theory PersistFacts
  imports Persist StageFacts
begin

text \<open>
  What persisting a ledger promises.  The calls of \<open>write_ledger\<close> and \<open>commit\<close> are a fixed plan, cut at
  the first refusal; the plan ends every insert it opens before it touches \<open>ledgers\<close>.  The verdict read
  back from a stored program is the one its own ledger gave.
\<close>

subsection \<open>The plan of a ledger\<close>

definition run_calls :: "db_answers \<Rightarrow> db_call list \<Rightarrow> db_log \<Rightarrow> (schema_error + unit) \<times> db_log" where
  "run_calls ans cs db = for_each (db_call ans) cs db"

definition write_plan :: "(table \<Rightarrow> insert_handle option) \<Rightarrow> table \<Rightarrow> table_row list \<Rightarrow> db_call list" where
  "write_plan slots t rows =
     (if rows = [] then []
      else (if slots t = None then [CallOpen (table_name t)] else []) @ map (CallWrite (handle_of (table_name t))) rows)"

definition end_plan :: "table \<Rightarrow> table_row list \<Rightarrow> db_call list" where
  "end_plan t rows = (if rows = [] then [] else [CallEnd (handle_of (table_name t))])"

definition data_plan :: "staged_ledger \<Rightarrow> db_call list" where
  "data_plan s =
     concat (map (\<lambda>t. write_plan (\<lambda>_. None) t (rows_of s t)) write_order) @
     concat (map (\<lambda>t. end_plan t (rows_of s t)) commit_order)"

definition marker_plan :: "ledger_row list \<Rightarrow> db_call list" where
  "marker_plan ledgers =
     (if ledgers = [] then []
      else CallOpen ''ledgers'' # map (CallWrite (handle_of ''ledgers'')) (map RowLedger ledgers)
             @ [CallEnd (handle_of ''ledgers'')])"

definition ledger_plan :: "staged_ledger \<Rightarrow> db_call list" where
  "ledger_plan s = data_plan s @ marker_plan (sg_ledger_rows s)"

lemma then_do_simps [simp]: "then_do (Inl e, s) f = (Inl e, s)" "then_do (Inr u, s) f = f s"
  by (simp_all add: then_do_def)

lemma then_do_assoc: "then_do (then_do r f) g = then_do r (\<lambda>s. then_do (f s) g)"
  by (cases r; cases "fst r") auto

lemma then_do_cong: "(\<And>s. f s = g s) \<Longrightarrow> then_do r f = then_do r g"
  by (cases r; cases "fst r") auto

lemma for_each_append: "for_each f (xs @ ys) s = then_do (for_each f xs s) (for_each f ys)"
proof (induction xs arbitrary: s)
  case (Cons x xs)
  show ?case by (simp add: then_do_assoc) (rule then_do_cong, rule Cons.IH)
qed simp

lemma run_calls_Nil [simp]: "run_calls ans [] db = (Inr (), db)"
  by (simp add: run_calls_def)

lemma run_calls_Cons [simp]: "run_calls ans (c # cs) db = then_do (db_call ans c db) (run_calls ans cs)"
  unfolding run_calls_def for_each.simps by (rule then_do_cong) (simp add: run_calls_def)

lemma run_calls_append: "run_calls ans (xs @ ys) db = then_do (run_calls ans xs db) (run_calls ans ys)"
  unfolding run_calls_def for_each_append by (rule then_do_cong) (simp add: run_calls_def)

lemma write_all_calls: "write_all ans h rows db = run_calls ans (map (CallWrite h) rows) db"
proof (induction rows arbitrary: db)
  case (Cons row rows)
  show ?case unfolding write_all_def
    by (simp, rule then_do_cong) (use Cons.IH in \<open>simp add: write_all_def\<close>)
qed (simp add: write_all_def)

lemma run_calls_cases:
  obtains (ok) db' where "run_calls ans cs db = (Inr (), db')"
  | (err) e db' where "run_calls ans cs db = (Inl e, db')"
  by (cases "run_calls ans cs db"; cases "fst (run_calls ans cs db)") auto

text \<open>Writing the rows of a table whose slot is empty or holds the table's insert.\<close>

definition slot_fits :: "partition_writer \<Rightarrow> table \<Rightarrow> bool" where
  "slot_fits w t \<longleftrightarrow> pw_inserts w t = None \<or> pw_inserts w t = Some (handle_of (table_name t))"

definition opened :: "(table \<Rightarrow> table_row list) \<Rightarrow> table list \<Rightarrow> partition_writer \<Rightarrow> partition_writer" where
  "opened rows ts w = w\<lparr>pw_inserts := (\<lambda>t. if t \<in> set ts \<and> rows t \<noteq> [] then Some (handle_of (table_name t)) else pw_inserts w t)\<rparr>"

lemma opened_one:
  "opened rows [t] w = (if rows t = [] then w else w\<lparr>pw_inserts := (pw_inserts w)(t := Some (handle_of (table_name t)))\<rparr>)"
proof (cases "rows t = []")
  case True
  then have "(\<lambda>u. if u \<in> set [t] \<and> rows u \<noteq> [] then Some (handle_of (table_name u)) else pw_inserts w u) = pw_inserts w"
    by (auto simp: fun_eq_iff)
  then show ?thesis using True by (simp add: opened_def)
next
  case False
  then have "(\<lambda>u. if u \<in> set [t] \<and> rows u \<noteq> [] then Some (handle_of (table_name u)) else pw_inserts w u) =
      (pw_inserts w)(t := Some (handle_of (table_name t)))"
    by (auto simp: fun_eq_iff)
  then show ?thesis using False by (simp add: opened_def)
qed

lemma opened_fits: "slot_fits w u \<Longrightarrow> slot_fits (opened rows ts w) u"
  by (auto simp: slot_fits_def opened_def)

lemma write_rows_calls:
  assumes "slot_fits w t"
  shows "\<exists>w'. write_rows ans t (rows t) (w, db) =
     (case run_calls ans (write_plan (pw_inserts w) t (rows t)) db of
        (Inl e, db') \<Rightarrow> (Inl e, w', db') | (Inr u, db') \<Rightarrow> (Inr (), opened rows [t] w, db'))"
proof (cases "rows t = []")
  case True
  then show ?thesis by (simp add: write_rows_def write_plan_def opened_one)
next
  case rows: False
  let ?h = "handle_of (table_name t)"
  show ?thesis
  proof (cases "pw_inserts w t")
    case slot: None
    show ?thesis
    proof (cases "ans db (CallOpen (table_name t))")
      case None
      then show ?thesis using slot rows
        by (cases rule: run_calls_cases [of ans "map (CallWrite ?h) (rows t)" "db @ [CallOpen (table_name t)]"])
          (simp_all add: write_rows_def write_plan_def open_insert_def db_call_def write_all_calls opened_one)
    next
      case (Some e)
      then show ?thesis using slot rows
        by (simp add: write_rows_def write_plan_def open_insert_def db_call_def)
    qed
  next
    case (Some h)
    then have h: "pw_inserts w t = Some ?h" using assms by (simp add: slot_fits_def)
    then have same: "(pw_inserts w)(t := Some ?h) = pw_inserts w" by (simp add: fun_upd_idem)
    show ?thesis using h rows
      by (cases rule: run_calls_cases [of ans "map (CallWrite ?h) (rows t)" db])
        (simp_all add: write_rows_def write_plan_def write_all_calls opened_one same)
  qed
qed

lemma write_tables_calls:
  assumes "distinct ts" and "\<forall>t\<in>set ts. slot_fits w t"
  shows "\<exists>w'. for_each (\<lambda>t. write_rows ans t (rows t)) ts (w, db) =
     (case run_calls ans (concat (map (\<lambda>t. write_plan (pw_inserts w) t (rows t)) ts)) db of
        (Inl e, db') \<Rightarrow> (Inl e, w', db') | (Inr u, db') \<Rightarrow> (Inr (), opened rows ts w, db'))"
  using assms
proof (induction ts arbitrary: w db)
  case Nil
  then show ?case by (simp add: opened_def)
next
  case (Cons t ts)
  let ?w1 = "opened rows [t] w"
  obtain we where step: "write_rows ans t (rows t) (w, db) =
     (case run_calls ans (write_plan (pw_inserts w) t (rows t)) db of
        (Inl e, db') \<Rightarrow> (Inl e, we, db') | (Inr u, db') \<Rightarrow> (Inr (), ?w1, db'))"
    using write_rows_calls [of w t ans rows db] Cons.prems(2) by (auto simp del: split_paired_Ex)
  have fits: "\<forall>u\<in>set ts. slot_fits ?w1 u" using Cons.prems(2) opened_fits by simp
  have "pw_inserts ?w1 u = pw_inserts w u" if "u \<in> set ts" for u
    using that Cons.prems(1) by (auto simp: opened_def)
  then have plan: "map (\<lambda>u. write_plan (pw_inserts ?w1) u (rows u)) ts = map (\<lambda>u. write_plan (pw_inserts w) u (rows u)) ts"
    by (simp add: write_plan_def)
  have same: "opened rows ts ?w1 = opened rows (t # ts) w"
    by (auto simp: opened_def fun_eq_iff)
  show ?case
  proof (cases rule: run_calls_cases [of ans "write_plan (pw_inserts w) t (rows t)" db])
    case (err e db')
    then show ?thesis by (auto simp: step run_calls_append)
  next
    case (ok db')
    obtain w' where "for_each (\<lambda>t. write_rows ans t (rows t)) ts (?w1, db') =
     (case run_calls ans (concat (map (\<lambda>t. write_plan (pw_inserts w) t (rows t)) ts)) db' of
        (Inl e, db') \<Rightarrow> (Inl e, w', db') | (Inr u, db') \<Rightarrow> (Inr (), opened rows ts ?w1, db'))"
      using Cons.IH [OF _ fits, of db'] Cons.prems(1) unfolding plan by auto
    then show ?thesis using ok
      by (intro exI [of _ w'], cases rule: run_calls_cases
            [of ans "concat (map (\<lambda>t. write_plan (pw_inserts w) t (rows t)) ts)" db'])
        (simp_all add: step run_calls_append same)
  qed
qed

text \<open>The writes of a ledger, given the slots.\<close>

definition writes_plan :: "(table \<Rightarrow> insert_handle option) \<Rightarrow> staged_ledger \<Rightarrow> db_call list" where
  "writes_plan slots s = concat (map (\<lambda>t. write_plan slots t (rows_of s t)) write_order)"

definition after_ledger :: "staged_ledger \<Rightarrow> partition_writer \<Rightarrow> partition_writer" where
  "after_ledger s w = opened (rows_of s) write_order (w\<lparr>pw_ledger_rows := pw_ledger_rows w @ sg_ledger_rows s\<rparr>)"

lemma end_tables_calls:
  assumes "\<forall>t\<in>set ts. slots t = (if rows t = [] then None else Some (handle_of (table_name t)))"
  shows "for_each (\<lambda>t. end_insert ans (slots t)) ts db = run_calls ans (concat (map (\<lambda>t. end_plan t (rows t)) ts)) db"
  using assms
proof (induction ts arbitrary: db)
  case (Cons t ts)
  have step: "end_insert ans (slots t) db = run_calls ans (end_plan t (rows t)) db"
    using Cons.prems by (cases "rows t = []") (auto simp: end_insert_def end_plan_def db_call_def split: option.split)
  show ?case by (simp add: step run_calls_append) (rule then_do_cong, use Cons in simp)
qed simp

lemma marker_calls: "write_marker ans ledgers db = run_calls ans (marker_plan ledgers) db"
proof (cases "ledgers = []")
  case False
  show ?thesis
  proof (cases "ans db (CallOpen ''ledgers'')")
    case None
    then show ?thesis using False
      by (simp add: write_marker_def marker_plan_def open_insert_def db_call_def write_all_calls run_calls_append)
        (rule then_do_cong, simp add: then_do_def db_call_def split: option.split)
  next
    case (Some e)
    then show ?thesis using False by (simp add: write_marker_def marker_plan_def open_insert_def db_call_def)
  qed
qed (simp add: write_marker_def marker_plan_def)

lemma order_distinct: "distinct write_order" by (simp add: write_order_def)

lemma order_all: "set write_order = UNIV" "set commit_order = UNIV"
proof -
  have "t \<in> set write_order" for t by (cases t) (simp_all add: write_order_def)
  moreover have "t \<in> set commit_order" for t by (cases t) (simp_all add: commit_order_def)
  ultimately show "set write_order = UNIV" "set commit_order = UNIV" by auto
qed

lemma write_ledger_calls:
  assumes "\<forall>t. slot_fits w t"
  shows "\<exists>w'. write_ledger ans s (w, db) =
     (case run_calls ans (writes_plan (pw_inserts w) s) db of
        (Inl e, db') \<Rightarrow> (Inl e, w', db') | (Inr u, db') \<Rightarrow> (Inr (), after_ledger s w, db'))"
proof -
  have "\<forall>t\<in>set write_order. slot_fits (w\<lparr>pw_ledger_rows := pw_ledger_rows w @ sg_ledger_rows s\<rparr>) t"
    using assms by (simp add: slot_fits_def)
  from write_tables_calls [OF order_distinct this, of ans "rows_of s" db] show ?thesis
    unfolding after_ledger_def by (simp add: write_ledger_def writes_plan_def)
qed

lemma writer_commit_calls:
  assumes "\<forall>t. pw_inserts w t = (if rows t = [] then None else Some (handle_of (table_name t)))"
  shows "writer_commit ans w db =
     run_calls ans (concat (map (\<lambda>t. end_plan t (rows t)) commit_order) @ marker_plan (pw_ledger_rows w)) db"
  unfolding writer_commit_def run_calls_append
  by (subst end_tables_calls [where rows = rows]) (use assms in \<open>auto simp: marker_calls intro: then_do_cong\<close>)

text \<open>Writing and committing a ledger is its plan, cut at the first refusal.\<close>

lemma write_and_commit_plan: "write_and_commit ans staged db = run_calls ans (ledger_plan staged) db"
proof -
  have fits: "\<forall>t. slot_fits writer_open t" by (simp add: slot_fits_def writer_open_def)
  obtain w' where w: "write_ledger ans staged (writer_open, db) =
     (case run_calls ans (writes_plan (\<lambda>_. None) staged) db of
        (Inl e, db') \<Rightarrow> (Inl e, w', db') | (Inr u, db') \<Rightarrow> (Inr (), after_ledger staged writer_open, db'))"
    using write_ledger_calls [OF fits, of ans staged db] by (auto simp: writer_open_def)
  have c: "writer_commit ans (after_ledger staged writer_open) db' =
      run_calls ans (concat (map (\<lambda>t. end_plan t (rows_of staged t)) commit_order) @ marker_plan (sg_ledger_rows staged)) db'" for db'
  proof -
    have "\<forall>t. pw_inserts (after_ledger staged writer_open) t =
        (if rows_of staged t = [] then None else Some (handle_of (table_name t)))"
      by (simp add: after_ledger_def opened_def order_all) (simp add: writer_open_def)
    moreover have "pw_ledger_rows (after_ledger staged writer_open) = sg_ledger_rows staged"
      by (simp add: after_ledger_def opened_def writer_open_def)
    ultimately show ?thesis using writer_commit_calls [of "after_ledger staged writer_open" "rows_of staged" ans db'] by simp
  qed
  show ?thesis
    by (cases rule: run_calls_cases [of ans "writes_plan (\<lambda>_. None) staged" db])
      (simp_all add: write_and_commit_def w c writer_abort_def ledger_plan_def data_plan_def writes_plan_def [symmetric]
        run_calls_append then_do_assoc)
qed

subsection \<open>What the marker proves\<close>

text \<open>The calls of a list, made after \<open>db\<close>, were all accepted.\<close>

fun accepted :: "db_answers \<Rightarrow> db_log \<Rightarrow> db_call list \<Rightarrow> bool" where
  "accepted ans db [] \<longleftrightarrow> True"
| "accepted ans db (c # cs) \<longleftrightarrow> ans db c = None \<and> accepted ans (db @ [c]) cs"

fun call_table :: "db_call \<Rightarrow> string option" where
  "call_table (CallQuery sql) = None"
| "call_table (CallOpen name) = Some name"
| "call_table (CallWrite h row) = Some (in_table h)"
| "call_table (CallEnd h) = Some (in_table h)"

definition row_for :: "string \<Rightarrow> db_call \<Rightarrow> table_row option" where
  "row_for name c = (case c of CallWrite h row \<Rightarrow> if in_table h = name then Some row else None | _ \<Rightarrow> None)"

text \<open>A row is stored when it was sent and its insert was ended; what is dropped unended is discarded.\<close>

definition stored_rows :: "db_call list \<Rightarrow> string \<Rightarrow> table_row list" where
  "stored_rows cs name = (if CallEnd (handle_of name) \<in> set cs then filter_map (row_for name) cs else [])"

lemma in_table_handle_of [simp]: "in_table (handle_of name) = name"
  by (simp add: handle_of_def apply_bulk_ingest_settings_def)

lemma table_names_distinct: "distinct (map table_name write_order)"
  by (simp add: write_order_def)

lemma table_name_inj: "table_name t = table_name u \<longleftrightarrow> t = u"
  using table_names_distinct by (auto simp: distinct_map order_all dest: injD)

lemma table_name_ledgers: "table_name t \<noteq> ''ledgers''"
  by (cases t) simp_all

lemma run_calls_trace:
  assumes "run_calls ans cs db = (r, db')"
  obtains made rest where "cs = made @ rest" "db' = db @ made" "r = Inr () \<longleftrightarrow> accepted ans db cs"
    "r = Inr () \<longrightarrow> rest = []" "\<And>pre c post. made = pre @ c # post \<Longrightarrow> accepted ans db pre"
proof -
  have "\<exists>made rest. cs = made @ rest \<and> db' = db @ made \<and> (r = Inr () \<longleftrightarrow> accepted ans db cs) \<and>
      (r = Inr () \<longrightarrow> rest = []) \<and> (\<forall>pre c post. made = pre @ c # post \<longrightarrow> accepted ans db pre)"
    using assms
  proof (induction cs arbitrary: db)
    case Nil
    then show ?case by auto
  next
    case (Cons c cs)
    show ?case
    proof (cases "ans db c")
      case (Some e)
      then have "r = Inl (SchemaQuery e)" "db' = db @ [c]" using Cons.prems by (auto simp: db_call_def)
      then show ?thesis using Some by (intro exI [of _ "[c]"] exI [of _ cs]) (auto simp: Cons_eq_append_conv)
    next
      case None
      then have "run_calls ans cs (db @ [c]) = (r, db')" using Cons.prems by (simp add: db_call_def)
      then obtain made rest where m: "cs = made @ rest" "db' = (db @ [c]) @ made"
          "r = Inr () \<longleftrightarrow> accepted ans (db @ [c]) cs" "r = Inr () \<longrightarrow> rest = []"
          "\<forall>pre d post. made = pre @ d # post \<longrightarrow> accepted ans (db @ [c]) pre"
        using Cons.IH by blast
      have "accepted ans db pre" if "c # made = pre @ d # post" for pre d post
        using that m(5) None by (cases pre) auto
      then show ?thesis using m(1-4) None by (intro exI [of _ "c # made"] exI [of _ rest]) auto
    qed
  qed
  then show ?thesis using that by blast
qed

lemma row_for_write_plan:
  "filter_map (row_for name) (write_plan slots t rows) = (if table_name t = name then rows else [])"
proof -
  have "filter_map (row_for name) (map (CallWrite (handle_of (table_name t))) rows) =
      (if table_name t = name then rows else [])"
    by (induction rows) (auto simp: row_for_def)
  then show ?thesis by (auto simp: write_plan_def row_for_def)
qed

lemma row_for_data_plan: "filter_map (row_for (table_name t)) (data_plan s) = rows_of s t"
proof -
  have w: "filter_map (row_for (table_name t)) (concat (map (\<lambda>u. write_plan (\<lambda>_. None) u (rows_of s u)) ts)) =
      (if t \<in> set ts then rows_of s t else [])" if "distinct ts" for ts
    using that by (induction ts) (auto simp: row_for_write_plan table_name_inj)
  have e: "filter_map (row_for (table_name t)) (concat (map (\<lambda>u. end_plan u (rows_of s u)) ts)) = []" for ts
    by (induction ts) (auto simp: end_plan_def row_for_def)
  show ?thesis by (simp add: data_plan_def w [OF order_distinct] e order_all)
qed

lemma data_plan_ends: "rows_of s t \<noteq> [] \<Longrightarrow> CallEnd (handle_of (table_name t)) \<in> set (data_plan s)"
  using order_all(2) by (auto simp: data_plan_def end_plan_def intro!: bexI [of _ t])

lemma data_plan_table: "c \<in> set (data_plan s) \<Longrightarrow> \<exists>t. call_table c = Some (table_name t)"
  by (auto simp: data_plan_def write_plan_def end_plan_def split: if_splits)

lemma marker_plan_table: "c \<in> set (marker_plan ledgers) \<Longrightarrow> call_table c = Some ''ledgers''"
  by (auto simp: marker_plan_def split: if_splits)

text \<open>Before the first call on \<open>ledgers\<close> the whole data plan was made.\<close>

lemma plan_before_marker:
  assumes "ledger_plan s = pre @ c # post" and "call_table c = Some ''ledgers''"
  shows "stored_rows pre (table_name t) = rows_of s t"
proof -
  have "length (data_plan s) \<le> length pre"
  proof (rule ccontr)
    assume "\<not> length (data_plan s) \<le> length pre"
    then have "data_plan s ! length pre = c"
      using assms(1) by (metis ledger_plan_def nth_append nth_append_length not_le)
    then show False
      using data_plan_table [of c s] assms(2) \<open>\<not> length (data_plan s) \<le> length pre\<close> table_name_ledgers
      by (metis not_le nth_mem option.inject)
  qed
  then obtain m where m: "pre = data_plan s @ m" "marker_plan (sg_ledger_rows s) = m @ c # post"
    using assms(1) by (auto simp: ledger_plan_def append_eq_append_conv2)
  have tb: "call_table d = Some ''ledgers''" if "d \<in> set m" for d
    using that m(2) marker_plan_table [of d "sg_ledger_rows s"] by simp
  have "row_for (table_name t) d = None" if "d \<in> set m" for d
    using tb [OF that] table_name_ledgers [of t] by (cases d) (auto simp: row_for_def)
  then have "filter_map (row_for (table_name t)) m = []"
    by (induction m) auto
  then have rows: "filter_map (row_for (table_name t)) pre = rows_of s t"
    by (simp add: m(1) row_for_data_plan)
  have "rows_of s t \<noteq> [] \<Longrightarrow> CallEnd (handle_of (table_name t)) \<in> set pre"
    using data_plan_ends [of s t] by (simp add: m(1))
  then show ?thesis by (cases "rows_of s t = []") (simp_all add: stored_rows_def rows)
qed

lemma marker_stored:
  "stored_rows (ledger_plan s) ''ledgers'' = map RowLedger (sg_ledger_rows s)"
proof -
  have d: "filter_map (row_for ''ledgers'') (data_plan s) = []"
  proof -
    have "row_for ''ledgers'' c = None" if "c \<in> set (data_plan s)" for c
    proof -
      obtain t where "call_table c = Some (table_name t)" using data_plan_table \<open>c \<in> set (data_plan s)\<close> by blast
      then show ?thesis using table_name_ledgers [of t] by (cases c) (simp_all add: row_for_def)
    qed
    then show ?thesis by (induction "data_plan s") (auto simp: filter_map_def List.map_filter_def)
  qed
  have m: "filter_map (row_for ''ledgers'') (map (CallWrite (handle_of ''ledgers'') \<circ> RowLedger) rows) =
      map RowLedger rows" for rows
    by (induction rows) (auto simp: row_for_def)
  show ?thesis
    by (cases "sg_ledger_rows s = []") (auto simp: stored_rows_def ledger_plan_def d marker_plan_def m row_for_def)
qed

subsection \<open>Persisting\<close>

lemma run_query_log: "run_query rows_for sql db = (res, db') \<Longrightarrow> \<exists>q. db' = db @ map CallQuery q"
  by (auto simp: run_query_def intro: exI [of _ "[sql]"])

lemma no_query: "\<exists>q. db = db @ map CallQuery q"
  by (intro exI [of _ "[]"]) simp

lemma fetch_logs:
  "fetch_prior_wasm_verdicts ix rd deployments programs db = (wv, db1) \<Longrightarrow> \<exists>q. db1 = db @ map CallQuery q"
  "fetch_prior_contract_verdicts rd nfts events deployments cache db = (cv, cache', db2) \<Longrightarrow> \<exists>q. db2 = db @ map CallQuery q"
  "fetch_prior_contract_rows cx rd evs db = (rows, db3) \<Longrightarrow> \<exists>q. db3 = db @ map CallQuery q"
  "fetch_sac_classic_map ix rd needed db = (sac, db4) \<Longrightarrow> \<exists>q. db4 = db @ map CallQuery q"
  by (auto simp: fetch_prior_wasm_verdicts_def query_wasm_verdicts_def fetch_prior_contract_verdicts_def
      query_contract_verdicts_def fetch_prior_contract_rows_def fetch_sac_classic_map_def Let_def
      split: if_splits prod.splits sum.splits dest!: run_query_log intro: no_query)

lemma read_prior_log:
  assumes "read_prior ix cx rd i cache db = (ri, cache', db')"
  shows "\<exists>q. db' = db @ map CallQuery q"
proof -
  obtain wv db1 where f1: "fetch_prior_wasm_verdicts ix rd (si_contract_deployments i) (si_programs i) db = (wv, db1)"
    by fastforce
  obtain cv cache1 db2 where
    f2: "fetch_prior_contract_verdicts rd (si_nfts i) (si_nft_events i) (si_contract_deployments i) cache db1 = (cv, cache1, db2)"
    using prod_cases3 by blast
  obtain rows db3 where f3: "fetch_prior_contract_rows cx rd (si_events i) db2 = (rows, db3)" by fastforce
  obtain sac db4 where f4: "fetch_sac_classic_map ix rd
      (sac_classic_map_needed (si_soroban_token_balances i) (si_events i) True True) db3 = (sac, db4)" by fastforce
  obtain q1 q2 q3 q4 where "db1 = db @ map CallQuery q1" "db2 = db1 @ map CallQuery q2" "db3 = db2 @ map CallQuery q3"
      "db4 = db3 @ map CallQuery q4"
    using fetch_logs(1) [OF f1] fetch_logs(2) [OF f2] fetch_logs(3) [OF f3] fetch_logs(4) [OF f4] by blast
  moreover have "db' = db4" using assms by (simp add: read_prior_def f1 f2 f3 f4)
  ultimately have "db' = db @ map CallQuery (q1 @ q2 @ q3 @ q4)" by simp
  then show ?thesis by blast
qed

lemma staged_ledger_rows:
  "prepare_with_sac_overrides ix cx i = Inr staged \<Longrightarrow> length (sg_ledger_rows staged) = 1"
  by (auto simp: prepare_with_sac_overrides_def map_res_Inr staged_of_parts_def Let_def)

text \<open>What persisting a staged ledger does to the database.\<close>

definition persisted_in_order ::
  "db_answers \<Rightarrow> db_log \<Rightarrow> staged_ledger \<Rightarrow> db_call list \<Rightarrow> bool \<Rightarrow> bool" where
  "persisted_in_order ans db staged calls ok \<longleftrightarrow>
     (\<exists>rest. ledger_plan staged = calls @ rest) \<and>
     (\<forall>pre c post. calls = pre @ c # post \<and> call_table c = Some ''ledgers'' \<longrightarrow>
        accepted ans db pre \<and> (\<forall>t. stored_rows pre (table_name t) = rows_of staged t)) \<and>
     (ok \<longleftrightarrow> accepted ans db (ledger_plan staged)) \<and>
     (ok \<longrightarrow> (\<forall>t. stored_rows calls (table_name t) = rows_of staged t) \<and>
             stored_rows calls ''ledgers'' = map RowLedger (sg_ledger_rows staged))"

lemma write_and_commit_ordered:
  assumes "write_and_commit ans staged db = (r, db')"
  shows "\<exists>calls. db' = db @ calls \<and> persisted_in_order ans db staged calls (r = Inr ())"
proof -
  obtain made rest where t: "ledger_plan staged = made @ rest" "db' = db @ made"
      "r = Inr () \<longleftrightarrow> accepted ans db (ledger_plan staged)" "r = Inr () \<longrightarrow> rest = []"
      "\<And>pre c post. made = pre @ c # post \<Longrightarrow> accepted ans db pre"
    using assms run_calls_trace [of ans "ledger_plan staged" db r db'] by (metis write_and_commit_plan)
  have marked: "stored_rows pre (table_name u) = rows_of staged u"
    if "made = pre @ c # post" "call_table c = Some ''ledgers''" for pre c post u
    using plan_before_marker [of staged pre c "post @ rest" u] t(1) that by simp
  have all: "stored_rows (ledger_plan staged) (table_name u) = rows_of staged u" for u
  proof -
    have "filter_map (row_for (table_name u)) (marker_plan ledgers) = []" for ledgers
    proof -
      have "row_for (table_name u) c = None" if "c \<in> set (marker_plan ledgers)" for c
        using marker_plan_table [OF that] table_name_ledgers [of u] by (cases c) (auto simp: row_for_def)
      then show ?thesis by (induction "marker_plan ledgers") (auto simp: filter_map_def List.map_filter_def)
    qed
    then have rows: "filter_map (row_for (table_name u)) (ledger_plan staged) = rows_of staged u"
      by (simp add: ledger_plan_def row_for_data_plan)
    have "rows_of staged u \<noteq> [] \<Longrightarrow> CallEnd (handle_of (table_name u)) \<in> set (ledger_plan staged)"
      using data_plan_ends [of staged u] by (simp add: ledger_plan_def)
    then show ?thesis by (cases "rows_of staged u = []") (simp_all add: stored_rows_def rows)
  qed
  show ?thesis using t marked all marker_stored
    by (intro exI [of _ made]) (auto simp: persisted_in_order_def)
qed

lemma persist_in_order:
  assumes "persist_ledger_clickhouse ix cx rd ans i cache db = (r, cache', db')"
  shows "\<exists>q calls. db' = (db @ map CallQuery q) @ calls \<and>
     (calls \<noteq> [] \<or> r = Inr () \<longrightarrow>
       (\<exists>inputs staged. read_prior ix cx rd i cache db = (Inr inputs, cache', db @ map CallQuery q) \<and>
          prepare_with_sac_overrides ix cx inputs = Inr staged \<and>
          persisted_in_order ans (db @ map CallQuery q) staged calls (r = Inr ())))"
proof -
  obtain ri cache1 db1 where rp: "read_prior ix cx rd i cache db = (ri, cache1, db1)"
    using prod_cases3 by blast
  obtain q where db1: "db1 = db @ map CallQuery q" using read_prior_log [OF rp] by blast
  note run = assms [unfolded persist_ledger_clickhouse_def rp prod.case]
  show ?thesis
  proof (cases "\<exists>e. r = Inl e \<and> db' = db1")
    case True
    then show ?thesis unfolding db1 by (intro exI [of _ q] exI [of _ "[]"]) auto
  next
    case False
    then obtain inputs staged where ri: "ri = Inr inputs"
      and p: "prepare_with_sac_overrides ix cx inputs = Inr staged"
      and w: "(case write_and_commit ans staged db1 of (Inl e, db2) \<Rightarrow> (Inl (StageErr e), cache1, db2)
                | (Inr u, db2) \<Rightarrow> (Inr (), cache1, db2)) = (r, cache', db')"
      using run by (auto split: sum.splits)
    obtain r' db2 where wc: "write_and_commit ans staged db1 = (r', db2)" by fastforce
    then have "db2 = db'" "r = Inr () \<longleftrightarrow> r' = Inr ()" "cache1 = cache'" using w by (auto split: sum.splits)
    then obtain calls where "db' = db1 @ calls" "persisted_in_order ans db1 staged calls (r = Inr ())" "cache1 = cache'"
      using write_and_commit_ordered [OF wc] by auto
    then show ?thesis using p rp unfolding ri db1 by blast
  qed
qed

text \<open>C7. A ledger counts as stored only when all of it is stored.  However the database answers,
  persisting a ledger first only reads; then it makes a prefix of the ledger's plan of calls, and every
  call on \<open>ledgers\<close>, the marker that the resume path trusts, comes after every row of all 31 other
  tables has been sent, accepted and its insert ended.  The result is \<open>Ok\<close> exactly when every call was
  accepted, and then all rows and the marker are stored.\<close>

theorem persist_marker_last:
  assumes "persist_ledger_clickhouse ix cx rd ans i cache db = (r, cache', db')"
  shows "\<exists>q calls. db' = (db @ map CallQuery q) @ calls \<and>
     (calls \<noteq> [] \<or> r = Inr () \<longrightarrow>
       (\<exists>inputs staged. read_prior ix cx rd i cache db = (Inr inputs, cache', db @ map CallQuery q) \<and>
          prepare_with_sac_overrides ix cx inputs = Inr staged \<and>
          persisted_in_order ans (db @ map CallQuery q) staged calls (r = Inr ())))"
  by (rule persist_in_order [OF assms])

text \<open>A database without stored rows that accepts every call.\<close>

definition empty_reads :: db_reads where
  "empty_reads = \<lparr>rd_wasm_verdicts = (\<lambda>_ _. Inr []), rd_contract_verdicts = (\<lambda>_ _. Inr []),
                  rd_contract_rows = (\<lambda>_ _. Inr []), rd_sac_classic = (\<lambda>_ _. Inr []), rd_pool_legs = (\<lambda>_ _. Inr [])\<rparr>"

lemma accepted_all: "accepted (\<lambda>_ _. None) db cs"
  by (induction cs arbitrary: db) simp_all

lemma run_calls_all: "run_calls (\<lambda>_ _. None) cs db = (Inr (), db @ cs)"
  by (induction cs arbitrary: db) (simp_all add: db_call_def)

theorem persist_marker_last_witness:
  "\<exists>cache' staged q db'.
     persist_ledger_clickhouse sample_ix sample_codec empty_reads (\<lambda>_ _. None) sample_inputs cache_new []
       = (Inr (), cache', db') \<and>
     db' = map CallQuery q @ ledger_plan staged \<and> sg_ledger_rows staged \<noteq> [] \<and>
     persisted_in_order (\<lambda>_ _. None) (map CallQuery q) staged (ledger_plan staged) True"
proof -
  obtain staged where staged: "prepare_with_sac_overrides sample_ix sample_codec sample_inputs = Inr staged"
    using sample_prepared by blast
  have ledgers: "sg_ledger_rows staged \<noteq> []"
    using staged_ledger_rows [OF staged] by auto
  obtain ri cache1 db1 where rp: "read_prior sample_ix sample_codec empty_reads sample_inputs cache_new [] = (ri, cache1, db1)"
    using prod_cases3 by blast
  have "fst (read_prior sample_ix sample_codec empty_reads sample_inputs cache_new []) = Inr sample_inputs"
    by (simp add: read_prior_def fetch_prior_wasm_verdicts_def wanted_hashes_def fetch_prior_contract_verdicts_def
        wanted_contracts_def fetch_prior_contract_rows_def wanted_rows_def upgraded_contract_def sort_dedup_def
        fetch_sac_classic_map_def run_query_def empty_reads_def with_prior_def sample_inputs_def sample_event_def Let_def
        split: if_splits)
  then have ri: "ri = Inr sample_inputs" using rp by simp
  obtain q where db1: "db1 = map CallQuery q" using read_prior_log [OF rp] by auto
  have run: "persist_ledger_clickhouse sample_ix sample_codec empty_reads (\<lambda>_ _. None) sample_inputs cache_new []
      = (Inr (), cache1, db1 @ ledger_plan staged)"
    by (simp add: persist_ledger_clickhouse_def rp ri staged write_and_commit_plan run_calls_all)
  obtain q' calls where q': "db1 @ ledger_plan staged = map CallQuery q' @ calls"
      "\<exists>inputs staged. read_prior sample_ix sample_codec empty_reads sample_inputs cache_new [] = (Inr inputs, cache1, map CallQuery q') \<and>
         prepare_with_sac_overrides sample_ix sample_codec inputs = Inr staged \<and>
         persisted_in_order (\<lambda>_ _. None) (map CallQuery q') staged calls True"
    using persist_marker_last [OF run] by auto
  then have "map CallQuery q' = db1" "calls = ledger_plan staged"
    using rp by auto
  then have "persisted_in_order (\<lambda>_ _. None) (map CallQuery q) staged (ledger_plan staged) True"
    using q'(2) rp ri staged db1 by auto
  then show ?thesis using run ledgers db1 by blast
qed

subsection \<open>The verdict of a program, now and later\<close>

text \<open>The JSON of a value as it is read back from its text: the members of an object come sorted.\<close>

fun canonical :: "json \<Rightarrow> json" where
  "canonical (JArr xs) = JArr (map canonical xs)"
| "canonical (JObj ms) = JObj (sort_key fst (map (\<lambda>m. (fst m, canonical (snd m))) ms))"
| "canonical v = v"

definition metadata_json :: "wasm_program \<Rightarrow> contract_function list \<Rightarrow> json" where
  "metadata_json p fs =
     JObj [(''functions'', JArr (map contract_function_json fs)), (''wasm_byte_len'', JNum (int (wp_wasm_byte_len p))),
           (''upgradeable'', JBool (wp_upgradeable p))]"

lemma those_map: "(\<And>x. x \<in> set xs \<Longrightarrow> f (g x) = Some x) \<Longrightarrow> those (map (f \<circ> g) xs) = Some xs"
  by (induction xs) auto

lemma read_function_param_back:
  "read_function_param (canonical (JObj [(''name'', JStr (fp_name p)), (''type_name'', JStr (fp_type_name p))])) = Some p"
  by (simp add: read_function_param_def struct_fields_def)

lemma read_contract_function_back: "read_contract_function (canonical (contract_function_json f)) = Some f"
proof -
  have "those (map ((read_function_param \<circ> canonical) \<circ> (\<lambda>p. JObj [(''name'', JStr (fp_name p)), (''type_name'', JStr (fp_type_name p))]))
          (cf_inputs f)) = Some (cf_inputs f)"
    by (rule those_map) (simp only: read_function_param_back comp_apply)
  moreover have "those (map (as_str \<circ> (canonical \<circ> JStr)) (cf_outputs f)) = Some (cf_outputs f)"
    by (rule those_map) simp
  ultimately show ?thesis
    by (simp add: read_contract_function_def contract_function_json_def struct_fields_def read_strings_def o_def)
qed

lemma read_wasm_metadata_back: "read_wasm_metadata (canonical (metadata_json p fs)) = Some fs"
proof -
  have "those (map (read_contract_function \<circ> (canonical \<circ> contract_function_json)) fs) = Some fs"
    by (rule those_map) (simp add: read_contract_function_back)
  then show ?thesis by (simp add: read_wasm_metadata_def struct_fields_def metadata_json_def o_def)
qed

definition definitive_class :: "contract_type \<Rightarrow> bool" where
  "definitive_class ty \<longleftrightarrow> ty = CtNft \<or> ty = CtFungible"

definition program_verdict :: "wasm_program \<Rightarrow> contract_type option" where
  "program_verdict p = map_option (\<lambda>fs. contract_type_of_class (classify_contract_from_wasm_spec fs)) (wp_functions p)"

lemma program_row_metadata:
  "program_row ix p = Inr row \<Longrightarrow>
     wrow_metadata row = (case wp_functions p of None \<Rightarrow> [] | Some fs \<Rightarrow> json_text (metadata_json p fs)) \<and>
     length (wrow_wasm_hash row) = 32"
  by (cases "wp_functions p") (auto simp: program_row_def map_res_Inr metadata_json_def decode_hash_def
      simp del: json_text.simps split: sum.splits if_splits)

lemma stored_metadata_verdict:
  assumes row: "program_row ix p = Inr row" and empty: "ix_json ix [] = None"
    and json: "\<And>fs. wp_functions p = Some fs \<Longrightarrow> ix_json ix (json_text (metadata_json p fs)) = Some (canonical (metadata_json p fs))"
  shows "classify_wasm_metadata_json ix (wrow_metadata row) = opt_filter definitive_class (program_verdict p)"
  using program_row_metadata [OF row] empty json
  by (cases "wp_functions p")
    (auto simp: classify_wasm_metadata_json_def read_wasm_metadata_back definitive_class_def program_verdict_def)

text \<open>The rows and verdicts of the programs of a ledger.\<close>

lemma wasm_rows_programs:
  assumes "wasm_rows ix programs = Inr (rows, verdicts)"
  shows "distinct (map wrow_wasm_hash rows) \<and> dom verdicts \<subseteq> wrow_wasm_hash ` set rows \<and>
     (\<forall>row\<in>set rows. \<exists>p\<in>set programs. program_row ix p = Inr row \<and> verdicts (wrow_wasm_hash row) = program_verdict p)"
proof -
  let ?P = "\<lambda>(rows, verdicts). distinct (map wrow_wasm_hash rows) \<and> dom verdicts \<subseteq> wrow_wasm_hash ` set rows \<and>
     (\<forall>row\<in>set rows. \<exists>p\<in>set programs. program_row ix p = Inr row \<and> verdicts (wrow_wasm_hash row) = program_verdict p)"
  have "?P (rows, verdicts)"
  proof (rule fold_res_inv [where P = ?P])
    show "fold_res (wasm_step ix) ([], Map.empty) programs = Inr (rows, verdicts)"
      using assms by (simp add: wasm_rows_def)
  next
    fix s p s'
    assume p: "p \<in> set programs" and step: "wasm_step ix s p = Inr s'" and inv: "?P s"
    obtain rs vs where s: "s = (rs, vs)" by (cases s)
    obtain row where row: "program_row ix p = Inr row" using step by (auto simp: wasm_step_def s map_res_Inr)
    show "?P s'"
    proof (cases "wrow_wasm_hash row \<in> set (map wrow_wasm_hash rs)")
      case True
      then show ?thesis using step inv by (simp add: wasm_step_def s row)
    next
      case False
      let ?vs = "case wp_functions p of Some fs \<Rightarrow> vs(wrow_wasm_hash row \<mapsto> contract_type_of_class (classify_contract_from_wasm_spec fs)) | None \<Rightarrow> vs"
      have s': "s' = (rs @ [row], ?vs)" using step False by (simp add: wasm_step_def s row)
      have fresh: "vs (wrow_wasm_hash row) = None" using inv False by (auto simp: s)
      have new: "?vs (wrow_wasm_hash row) = program_verdict p"
        using fresh by (simp add: program_verdict_def split: option.split)
      have old: "?vs (wrow_wasm_hash r) = vs (wrow_wasm_hash r)" if "r \<in> set rs" for r
      proof -
        have "wrow_wasm_hash r \<noteq> wrow_wasm_hash row" using False that by (metis image_eqI list.set_map)
        then show ?thesis by (simp split: option.split)
      qed
      have "dom ?vs \<subseteq> insert (wrow_wasm_hash row) (dom vs)" by (auto split: option.splits)
      then have d: "dom ?vs \<subseteq> wrow_wasm_hash ` set (rs @ [row])" using inv by (auto simp: s simp del: dom_fun_upd)
      have "\<forall>r\<in>set (rs @ [row]). \<exists>p\<in>set programs. program_row ix p = Inr r \<and> ?vs (wrow_wasm_hash r) = program_verdict p"
        using inv p row new old by (simp add: s) blast
      then show ?thesis using inv False d by (simp add: s s')
    qed
  qed simp
  then show ?thesis by simp
qed

text \<open>
  The query for the stored programs, as text, and what the database answers to it: the stored
  rows of the wanted hashes, in any order, one possibly more than once.  \<open>hexenc\<close> is the
  database's \<open>lower(hex(_))\<close>.
\<close>

fun quoted :: "string list \<Rightarrow> string" where
  "quoted [] = []"
| "quoted [h] = CHR 0x27 # h @ [CHR 0x27]"
| "quoted (h # t # hs) = CHR 0x27 # h @ [CHR 0x27] @ '', '' @ quoted (t # hs)"

definition programs_sql :: "string list \<Rightarrow> string" where
  "programs_sql want =
     ''SELECT lower(hex(wasm_hash)) AS h, metadata FROM wasm_programs WHERE lower(hex(wasm_hash)) IN ('' @ quoted want @ '')''"

definition wire_row :: "(bytes \<Rightarrow> string) \<Rightarrow> wasm_program_row \<Rightarrow> wasm_verdict_row" where
  "wire_row hexenc row = \<lparr>wv_h = hexenc (wrow_wasm_hash row), wv_metadata = wrow_metadata row\<rparr>"

definition answers_programs ::
  "(bytes \<Rightarrow> string) \<Rightarrow> db_reads \<Rightarrow> db_log \<Rightarrow> string list \<Rightarrow> wasm_program_row set \<Rightarrow> bool" where
  "answers_programs hexenc rd db want stored \<longleftrightarrow>
     (\<exists>answer. rd_wasm_verdicts rd db (programs_sql want) = Inr answer \<and>
        set answer = wire_row hexenc ` {row \<in> stored. hexenc (wrow_wasm_hash row) \<in> set want})"

lemma quoted_in_list: "quoted xs = in_list xs"
  by (induction xs rule: quoted.induct) (simp_all add: in_list_def)

lemma verdicts_read:
  assumes "inj_on wrow_wasm_hash stored"
    and "\<And>row. row \<in> stored \<Longrightarrow> ix_hex ix (hexenc (wrow_wasm_hash row)) = Inr (wrow_wasm_hash row) \<and> length (wrow_wasm_hash row) = 32"
    and "set answer \<subseteq> wire_row hexenc ` stored"
  shows "row \<in> stored \<Longrightarrow> wire_row hexenc row \<in> set answer \<Longrightarrow>
           foldl (wasm_verdict_step ix) Map.empty answer (wrow_wasm_hash row) = classify_wasm_metadata_json ix (wrow_metadata row)"
    and "(\<And>row. row \<in> stored \<Longrightarrow> wire_row hexenc row \<in> set answer \<Longrightarrow> wrow_wasm_hash row \<noteq> h) \<Longrightarrow>
           foldl (wasm_verdict_step ix) Map.empty answer h = None"
proof -
  let ?read = "foldl (wasm_verdict_step ix) Map.empty"
  have "(\<forall>row \<in> stored. wire_row hexenc row \<in> set answer \<longrightarrow>
           ?read answer (wrow_wasm_hash row) = classify_wasm_metadata_json ix (wrow_metadata row)) \<and>
        (\<forall>h. (\<forall>row \<in> stored. wire_row hexenc row \<in> set answer \<longrightarrow> wrow_wasm_hash row \<noteq> h) \<longrightarrow> ?read answer h = None)"
    using assms(3)
  proof (induction answer rule: rev_induct)
    case (snoc a answer)
    obtain r where r: "r \<in> stored" "a = wire_row hexenc r" using snoc.prems by auto
    have "set answer \<subseteq> wire_row hexenc ` stored" using snoc.prems by auto
    note IH = snoc.IH [OF this]
    have hex: "ix_hex ix (wv_h a) = Inr (wrow_wasm_hash r)" "length (wrow_wasm_hash r) = 32"
      using assms(2) [OF r(1)] by (simp_all add: r(2) wire_row_def)
    let ?c = "classify_wasm_metadata_json ix (wrow_metadata r)"
    have step: "?read (answer @ [a]) =
        (case ?c of Some v \<Rightarrow> (?read answer)(wrow_wasm_hash r \<mapsto> v) | None \<Rightarrow> ?read answer)"
      using hex by (simp add: wasm_verdict_step_def r(2) wire_row_def)
    have same: "row = r" if "row \<in> stored" "wrow_wasm_hash row = wrow_wasm_hash r" for row
      using assms(1) that r(1) by (auto dest: inj_onD)
    have here: "?read (answer @ [a]) (wrow_wasm_hash r) = ?c"
    proof (cases "wire_row hexenc r \<in> set answer")
      case True
      with IH r(1) have "?read answer (wrow_wasm_hash r) = ?c" by blast
      then show ?thesis unfolding step by (simp split: option.split)
    next
      case False
      then have "?read answer (wrow_wasm_hash r) = None" using IH same by blast
      then show ?thesis unfolding step by (simp split: option.split)
    qed
    have other: "?read (answer @ [a]) h = ?read answer h" if "h \<noteq> wrow_wasm_hash r" for h
      using that unfolding step by (simp split: option.split)
    show ?case
    proof (intro conjI ballI allI impI)
      fix row assume row: "row \<in> stored" "wire_row hexenc row \<in> set (answer @ [a])"
      show "?read (answer @ [a]) (wrow_wasm_hash row) = classify_wasm_metadata_json ix (wrow_metadata row)"
      proof (cases "wrow_wasm_hash row = wrow_wasm_hash r")
        case True
        with same [OF row(1)] have "row = r" by blast
        then show ?thesis using here by (simp only:)
      next
        case False
        have "wire_row hexenc row \<noteq> a"
        proof
          assume "wire_row hexenc row = a"
          then have "hexenc (wrow_wasm_hash row) = hexenc (wrow_wasm_hash r)" by (simp add: r(2) wire_row_def)
          then show False using assms(2) [OF row(1)] assms(2) [OF r(1)] False by simp
        qed
        then have "wire_row hexenc row \<in> set answer" using row(2) by simp
        then show ?thesis unfolding other [OF False] using IH row(1) by blast
      qed
    next
      fix h assume "\<forall>row \<in> stored. wire_row hexenc row \<in> set (answer @ [a]) \<longrightarrow> wrow_wasm_hash row \<noteq> h"
      then have "h \<noteq> wrow_wasm_hash r" and "?read answer h = None" using IH r by auto
      then show "?read (answer @ [a]) h = None" using other by metis
    qed
  qed simp
  then show "row \<in> stored \<Longrightarrow> wire_row hexenc row \<in> set answer \<Longrightarrow>
           ?read answer (wrow_wasm_hash row) = classify_wasm_metadata_json ix (wrow_metadata row)"
    and "(\<And>row. row \<in> stored \<Longrightarrow> wire_row hexenc row \<in> set answer \<Longrightarrow> wrow_wasm_hash row \<noteq> h) \<Longrightarrow> ?read answer h = None"
    by blast+
qed

text \<open>C18. A program means the same in its own ledger and later.  When a deployment names a program of an
  earlier ledger, the one query asked for the stored programs, answered with the stored rows of the
  wanted hashes among whatever else the table holds, gives back the verdict the ledger of the upload
  computed from the parsed functions, restricted to the definitive classes: an NFT or fungible program
  is routed the same way, any other has no prior verdict, and neither has a hash that was not asked for
  or is not stored.\<close>

theorem stored_verdicts_agree:
  assumes "wasm_rows ix programs = Inr (rows, verdicts)"
    and "\<And>p fs. p \<in> set programs \<Longrightarrow> wp_functions p = Some fs \<Longrightarrow>
           ix_json ix (json_text (metadata_json p fs)) = Some (canonical (metadata_json p fs))"
    and "ix_json ix [] = None"
    and "set rows \<subseteq> stored" and "inj_on wrow_wasm_hash stored"
    and "\<And>row. row \<in> stored \<Longrightarrow> ix_hex ix (hexenc (wrow_wasm_hash row)) = Inr (wrow_wasm_hash row) \<and> length (wrow_wasm_hash row) = 32"
    and "answers_programs hexenc rd db want stored"
  shows "\<exists>prior. fst (query_wasm_verdicts ix rd want db) = Inr prior \<and>
     (\<forall>row\<in>set rows. hexenc (wrow_wasm_hash row) \<in> set want \<longrightarrow>
        prior (wrow_wasm_hash row) = opt_filter definitive_class (verdicts (wrow_wasm_hash row))) \<and>
     (\<forall>h. hexenc h \<notin> set want \<or> h \<notin> wrow_wasm_hash ` stored \<longrightarrow> prior h = None)"
proof -
  obtain answer where answer: "rd_wasm_verdicts rd db (programs_sql want) = Inr answer"
      "set answer = wire_row hexenc ` {row \<in> stored. hexenc (wrow_wasm_hash row) \<in> set want}"
    using assms(7) by (auto simp: answers_programs_def)
  define prior where "prior = foldl (wasm_verdict_step ix) Map.empty answer"
  note inv = wasm_rows_programs [OF assms(1)]
  have "set answer \<subseteq> wire_row hexenc ` stored" using answer(2) by auto
  note read = verdicts_read [OF assms(5,6) this, folded prior_def]
  have "fst (query_wasm_verdicts ix rd want db) = Inr prior"
    using answer(1) by (simp add: query_wasm_verdicts_def run_query_def programs_sql_def quoted_in_list prior_def map_res_def)
  moreover have "prior (wrow_wasm_hash row) = opt_filter definitive_class (verdicts (wrow_wasm_hash row))"
    if row: "row \<in> set rows" "hexenc (wrow_wasm_hash row) \<in> set want" for row
  proof -
    obtain p where p: "p \<in> set programs" "program_row ix p = Inr row" "verdicts (wrow_wasm_hash row) = program_verdict p"
      using bspec [OF conjunct2 [OF conjunct2 [OF inv]] row(1)] by (elim bexE conjE)
    have "row \<in> stored" using row(1) assms(4) by blast
    then have "prior (wrow_wasm_hash row) = classify_wasm_metadata_json ix (wrow_metadata row)"
      using row(2) by (intro read(1)) (auto simp: answer(2))
    then show ?thesis
      by (simp add: stored_metadata_verdict [OF p(2) assms(3) assms(2) [OF p(1)]] p(3))
  qed
  moreover have "prior h = None" if h: "hexenc h \<notin> set want \<or> h \<notin> wrow_wasm_hash ` stored" for h
  proof (rule read(2))
    fix row assume row: "row \<in> stored" "wire_row hexenc row \<in> set answer"
    then obtain r where "r \<in> stored" "hexenc (wrow_wasm_hash r) \<in> set want" "hexenc (wrow_wasm_hash row) = hexenc (wrow_wasm_hash r)"
      by (auto simp: answer(2) wire_row_def)
    with row(1) h show "wrow_wasm_hash row \<noteq> h" by auto
  qed
  ultimately show ?thesis by blast
qed

text \<open>A fungible program, uploaded in one ledger and deployed in a later one.\<close>

definition sample_program :: wasm_program where
  "sample_program =
     \<lparr>wp_wasm_hash = ''h'', wp_functions = Some [\<lparr>cf_name = ''decimals'', cf_doc = [], cf_inputs = [], cf_outputs = [''u32'']\<rparr>],
      wp_wasm_byte_len = 4, wp_upgradeable = False, wp_code = ''code''\<rparr>"

definition program_ix :: ids_ext where
  "program_ix = sample_ix\<lparr>ix_json := (\<lambda>s. if s = [] then None
     else Some (canonical (metadata_json sample_program (the (wp_functions sample_program)))))\<rparr>"

definition program_reads :: db_reads where
  "program_reads = empty_reads\<lparr>rd_wasm_verdicts := (\<lambda>db sql.
     case wasm_rows program_ix [sample_program] of
       Inr (rows, v) \<Rightarrow>
         if sql = programs_sql [replicate 32 (CHR ''h'')] then Inr (map (wire_row id) rows) else Inr []
     | Inl e \<Rightarrow> Inr [])\<rparr>"

theorem stored_verdicts_agree_witness:
  "\<exists>prior. fst (query_wasm_verdicts program_ix program_reads [replicate 32 (CHR ''h'')] []) = Inr prior
     \<and> prior (replicate 32 (CHR ''h'')) = Some CtFungible \<and> prior (replicate 32 (CHR ''g'')) = None"
proof -
  obtain rows verdicts where r: "wasm_rows program_ix [sample_program] = Inr (rows, verdicts)"
      and hashes: "map wrow_wasm_hash rows = [replicate 32 (CHR ''h'')]"
      and fungible: "verdicts (replicate 32 (CHR ''h'')) = Some CtFungible"
    by (auto simp: wasm_rows_def wasm_step_def program_row_def decode_hash_def program_ix_def sample_ix_def sample_program_def
        classify_contract_from_wasm_spec_def)
  obtain row where rows: "rows = [row]" "wrow_wasm_hash row = replicate 32 (CHR ''h'')" using hashes by auto
  have "\<exists>prior. fst (query_wasm_verdicts program_ix program_reads [replicate 32 (CHR ''h'')] []) = Inr prior \<and>
     (\<forall>row\<in>set rows. id (wrow_wasm_hash row) \<in> set [replicate 32 (CHR ''h'')] \<longrightarrow>
        prior (wrow_wasm_hash row) = opt_filter definitive_class (verdicts (wrow_wasm_hash row))) \<and>
     (\<forall>h. id h \<notin> set [replicate 32 (CHR ''h'')] \<or> h \<notin> wrow_wasm_hash ` {row} \<longrightarrow> prior h = None)"
  proof (rule stored_verdicts_agree [OF r, where hexenc = id and stored = "{row}"])
    show "ix_json program_ix (json_text (metadata_json p fs)) = Some (canonical (metadata_json p fs))"
      if "p \<in> set [sample_program]" "wp_functions p = Some fs" for p fs
      using that by (simp add: program_ix_def metadata_json_def)
  next
    show "answers_programs id program_reads [] [replicate 32 (CHR ''h'')] {row}"
      unfolding answers_programs_def
      by (rule exI [of _ "[wire_row id row]"]) (auto simp: program_reads_def r rows)
  qed (simp_all add: program_ix_def sample_ix_def rows)
  then show ?thesis using fungible rows by (auto simp: definitive_class_def)
qed

end
