(* ===== verification/ContractView.thy ===== *)
theory ContractView
  imports Persist OrdMap
begin

text \<open>
  The name, symbol and decimals of a contract, read by running its own functions on the ledger's entries:
  \<open>contract-executor/src/lib.rs\<close>, \<open>indexer/src/contract_state.rs\<close> and \<open>contract_metadata.rs\<close>.  The Soroban
  host is third-party: a run gets the reader of the snapshot and gives its result and the keys it asked
  for.  The \<open>BTreeMap\<close> of entries is only looked up; the order of ledger keys is the XDR crate's.
\<close>

subsection \<open>Running a function\<close>

record stored_entry =
  se_last_modified :: int
  se_data :: ledger_entry

type_synonym entries = "ledger_key \<rightharpoonup> stored_entry option"

record view_ledger =
  vl_sequence :: int
  vl_timestamp :: int
  vl_network_id :: bytes

datatype view_outcome = ViewValue scval | ViewMissing "ledger_key list" | ViewFailed string

record view_ext =
  vx_symbol :: "string \<Rightarrow> bool"
  vx_run :: "view_ledger \<Rightarrow> bytes \<Rightarrow> string \<Rightarrow> (ledger_key \<Rightarrow> (stored_entry \<times> int) option) \<Rightarrow>
               (string + scval) \<times> ledger_key list"
  vx_sort :: "ledger_key list \<Rightarrow> ledger_key list"
  vx_entry_from_xdr :: "bytes \<Rightarrow> ledger_entry option"
  vx_code_fits :: "bytes \<Rightarrow> bool"
  vx_contract_text :: "bytes \<Rightarrow> string"
  vx_hex_encode :: "bytes \<Rightarrow> string"

text \<open>\<open>Snapshot::get\<close>: an entry lives until the ledger of the call; an unknown key reads as absent.\<close>

definition snapshot_get :: "entries \<Rightarrow> int \<Rightarrow> ledger_key \<Rightarrow> (stored_entry \<times> int) option" where
  "snapshot_get entries live_until key =
     (case entries key of Some (Some entry) \<Rightarrow> Some (entry, live_until) | Some None \<Rightarrow> None | None \<Rightarrow> None)"

definition missing_keys :: "view_ext \<Rightarrow> entries \<Rightarrow> ledger_key list \<Rightarrow> ledger_key list" where
  "missing_keys vx entries asked = remdups_adj (vx_sort vx (filter (\<lambda>k. entries k = None) asked))"

definition call_view :: "view_ext \<Rightarrow> entries \<Rightarrow> view_ledger \<Rightarrow> bytes \<Rightarrow> string \<Rightarrow> view_outcome" where
  "call_view vx entries ledger contract fname =
     (if \<not> vx_symbol vx fname then ViewFailed (''`'' @ fname @ ''` is not a valid function name'')
      else
        (case vx_run vx ledger contract fname (snapshot_get entries (vl_sequence ledger)) of
           (result, asked) \<Rightarrow>
             (let missing = missing_keys vx entries asked
              in if missing \<noteq> [] then ViewMissing missing
                 else (case result of Inr v \<Rightarrow> ViewValue v | Inl e \<Rightarrow> ViewFailed e))))"

subsection \<open>Loading entries\<close>

record stored_instance =
  st_contract :: bytes
  st_latest_xdr :: bytes
  st_latest_ledger :: int

record stored_interface =
  sn_wasm_hash :: bytes
  sn_declares :: "string list"

record view_reads =
  vr_code :: "db_log \<Rightarrow> string \<Rightarrow> ch_error + bytes option"
  vr_instances :: "db_log \<Rightarrow> string list \<Rightarrow> ch_error + stored_instance list"
  vr_interfaces :: "db_log \<Rightarrow> string list \<Rightarrow> ch_error + stored_interface list"

definition instance_key :: "bytes \<Rightarrow> ledger_key" where
  "instance_key contract = KeyContractData (AddrContract contract) ScLedgerKeyContractInstance Persistent"

definition code_key :: "bytes \<Rightarrow> ledger_key" where "code_key wasm_hash = KeyContractCode wasm_hash"

definition instance_entry :: "view_ext \<Rightarrow> bytes \<Rightarrow> int \<Rightarrow> stored_entry option" where
  "instance_entry vx data_xdr ledger =
     map_option (\<lambda>d. \<lparr>se_last_modified = wrap_u32 ledger, se_data = d\<rparr>) (vx_entry_from_xdr vx data_xdr)"

definition code_entry :: "view_ext \<Rightarrow> bytes \<Rightarrow> bytes \<Rightarrow> stored_entry option" where
  "code_entry vx hash code =
     (if vx_code_fits vx code then Some \<lparr>se_last_modified = 0, se_data = EntryContractCode hash code\<rparr> else None)"

definition wasm_hash_of :: "stored_entry \<Rightarrow> bytes option" where
  "wasm_hash_of entry =
     (case se_data entry of
        EntryContractData _ _ (ScContractInstance (ExecWasm hash) _) _ \<Rightarrow> Some hash
      | _ \<Rightarrow> None)"

definition code_sql :: string where
  "code_sql =
     ''SELECT code FROM wasm_programs WHERE wasm_hash = unhex(?) AND code != '' @ [CHR 0x27, CHR 0x27] @ '' LIMIT 1''"

definition instances_sql :: string where
  "instances_sql =
     ''SELECT contract, argMax(data_xdr, ledger) AS latest_xdr, max(ledger) AS latest_ledger '' @
     ''FROM contract_instances WHERE contract IN (SELECT toFixedString(unhex(arrayJoin(?)), 32)) GROUP BY contract''"

definition load_instances ::
  "view_ext \<Rightarrow> view_reads \<Rightarrow> bytes list \<Rightarrow> entries \<Rightarrow> db_log \<Rightarrow> (ch_error + entries) \<times> db_log" where
  "load_instances vx vr contracts entries db =
     (map_res (\<lambda>rows.
        foldl (\<lambda>m row. m(instance_key (st_contract row) \<mapsto> instance_entry vx (st_latest_xdr row) (st_latest_ledger row)))
          (foldl (\<lambda>m contract. m(instance_key contract \<mapsto> None)) entries contracts) rows)
        (vr_instances vr db (map (vx_hex_encode vx) contracts)),
      db @ [CallQuery instances_sql])"

text \<open>\<open>load_entry\<close>: the entries, and whether the key is one that can be loaded.\<close>

definition load_entry ::
  "view_ext \<Rightarrow> view_reads \<Rightarrow> ledger_key \<Rightarrow> entries \<Rightarrow> db_log \<Rightarrow> (ch_error + entries \<times> bool) \<times> db_log" where
  "load_entry vx vr key entries db =
     (case key of
        KeyContractCode hash \<Rightarrow>
          (map_res (\<lambda>row. (entries(key \<mapsto> Option.bind row (code_entry vx hash)), True)) (vr_code vr db (vx_hex_encode vx hash)),
           db @ [CallQuery code_sql])
      | KeyContractData (AddrContract contract) ScLedgerKeyContractInstance _ \<Rightarrow>
          (case load_instances vx vr [contract] entries db of
             (r, db1) \<Rightarrow> (map_res (\<lambda>m. (m, True)) r, db1))
      | _ \<Rightarrow> (Inr (entries, False), db))"

subsection \<open>Reading the metadata\<close>

definition metadata_functions :: "string list" where "metadata_functions = [''decimals'', ''name'', ''symbol'']"

definition max_rounds :: nat where "max_rounds = 5"

definition has_metadata :: "string list \<Rightarrow> bool" where
  "has_metadata declares \<longleftrightarrow>
     list_ex (\<lambda>d. d = ''decimals'') declares \<or>
     (list_ex (\<lambda>d. d = ''name'') declares \<and> list_ex (\<lambda>d. d = ''symbol'') declares)"

datatype answer = AnswerMetadata token_metadata | AnswerNeedsContractData | AnswerFailed

datatype round_end = RoundValue scval | RoundNoValue | RoundStop answer

text \<open>Loads keys until one cannot be loaded.\<close>

fun load_all ::
  "view_ext \<Rightarrow> view_reads \<Rightarrow> ledger_key list \<Rightarrow> entries \<Rightarrow> db_log \<Rightarrow> (ch_error + entries \<times> bool) \<times> db_log" where
  "load_all vx vr [] entries db = (Inr (entries, True), db)"
| "load_all vx vr (key # keys) entries db =
     (case load_entry vx vr key entries db of
        (Inl e, db1) \<Rightarrow> (Inl e, db1)
      | (Inr (m, loaded), db1) \<Rightarrow> if loaded then load_all vx vr keys m db1 else (Inr (m, False), db1))"

text \<open>The rounds of one function.\<close>

fun run_rounds ::
  "view_ext \<Rightarrow> view_reads \<Rightarrow> view_ledger \<Rightarrow> bytes \<Rightarrow> string \<Rightarrow> nat \<Rightarrow> entries \<Rightarrow> db_log \<Rightarrow>
   (ch_error + round_end \<times> entries) \<times> db_log" where
  "run_rounds vx vr ledger contract fname 0 entries db = (Inr (RoundNoValue, entries), db)"
| "run_rounds vx vr ledger contract fname (Suc n) entries db =
     (case call_view vx entries ledger contract fname of
        ViewValue v \<Rightarrow> (Inr (RoundValue v, entries), db)
      | ViewFailed e \<Rightarrow> (Inr (RoundStop AnswerFailed, entries), db)
      | ViewMissing keys \<Rightarrow>
          (case load_all vx vr keys entries db of
             (Inl e, db1) \<Rightarrow> (Inl e, db1)
           | (Inr (m, loaded), db1) \<Rightarrow>
               if loaded then run_rounds vx vr ledger contract fname n m db1
               else (Inr (RoundStop AnswerNeedsContractData, m), db1)))"

definition set_field :: "string \<Rightarrow> scval \<Rightarrow> token_metadata \<Rightarrow> token_metadata option" where
  "set_field fname v metadata =
     (case v of
        ScU32 d \<Rightarrow> if fname = ''decimals'' then Some (metadata\<lparr>tm_decimals := Some (uint d)\<rparr>) else None
      | ScString s \<Rightarrow>
          if fname = ''name'' then map_option (\<lambda>t. metadata\<lparr>tm_name := Some t\<rparr>) (from_utf8 s)
          else if fname = ''symbol'' then map_option (\<lambda>t. metadata\<lparr>tm_symbol := Some t\<rparr>) (from_utf8 s)
          else None
      | _ \<Rightarrow> None)"

fun read_functions ::
  "view_ext \<Rightarrow> view_reads \<Rightarrow> view_ledger \<Rightarrow> bytes \<Rightarrow> string list \<Rightarrow> string list \<Rightarrow> token_metadata \<Rightarrow> entries \<Rightarrow>
   db_log \<Rightarrow> (ch_error + answer \<times> entries) \<times> db_log" where
  "read_functions vx vr ledger contract declares [] metadata entries db = (Inr (AnswerMetadata metadata, entries), db)"
| "read_functions vx vr ledger contract declares (f # fs) metadata entries db =
     (if f \<notin> set declares then read_functions vx vr ledger contract declares fs metadata entries db
      else
        (case run_rounds vx vr ledger contract f max_rounds entries db of
           (Inl e, db1) \<Rightarrow> (Inl e, db1)
         | (Inr (RoundStop a, m), db1) \<Rightarrow> (Inr (a, m), db1)
         | (Inr (RoundNoValue, m), db1) \<Rightarrow> (Inr (AnswerFailed, m), db1)
         | (Inr (RoundValue v, m), db1) \<Rightarrow>
             (case set_field f v metadata of
                None \<Rightarrow> (Inr (AnswerFailed, m), db1)
              | Some metadata' \<Rightarrow> read_functions vx vr ledger contract declares fs metadata' m db1)))"

definition read_metadata ::
  "view_ext \<Rightarrow> view_reads \<Rightarrow> view_ledger \<Rightarrow> bytes \<Rightarrow> string list \<Rightarrow> entries \<Rightarrow> db_log \<Rightarrow>
   (ch_error + answer \<times> entries) \<times> db_log" where
  "read_metadata vx vr ledger contract declares entries db =
     read_functions vx vr ledger contract declares metadata_functions
       \<lparr>tm_name = None, tm_symbol = None, tm_decimals = None\<rparr> entries db"

subsection \<open>The metadata of a ledger\<close>

definition changed_step ::
  "view_ext \<Rightarrow> (bytes \<times> bytes) list \<times> entries \<Rightarrow> contract_instance \<Rightarrow> (bytes \<times> bytes) list \<times> entries" where
  "changed_step vx s i =
     (case s of (changed, entries) \<Rightarrow>
        (case instance_entry vx (ci_data_xdr i) (ci_ledger_sequence i) of
           None \<Rightarrow> (changed, entries)
         | Some entry \<Rightarrow>
             ((case wasm_hash_of entry of Some wasm_hash \<Rightarrow> ord_insert (ci_contract i) wasm_hash changed | None \<Rightarrow> changed),
              entries(instance_key (ci_contract i) \<mapsto> Some entry))))"

definition program_step ::
  "ids_ext \<Rightarrow> view_ext \<Rightarrow> (bytes \<rightharpoonup> string list) \<times> entries \<Rightarrow> wasm_program \<Rightarrow> (bytes \<rightharpoonup> string list) \<times> entries" where
  "program_step ix vx s p =
     (case s of (declares, entries) \<Rightarrow>
        (case ix_hex ix (wp_wasm_hash p) of
           Inl e \<Rightarrow> (declares, entries)
         | Inr hash \<Rightarrow>
             if length hash \<noteq> 32 then (declares, entries)
             else
               (let names = (case wp_functions p of Some functions \<Rightarrow> map cf_name functions | None \<Rightarrow> [])
                in (declares(hash \<mapsto> filter (\<lambda>n. n \<in> set metadata_functions) names),
                    entries(code_key hash \<mapsto> code_entry vx hash (wp_code p))))))"

definition interfaces_sql :: string where
  "interfaces_sql =
     ''SELECT wasm_hash, arrayIntersect(['' @ in_list [''decimals'', ''name'', ''symbol''] @
     ''], arrayMap(f -> JSONExtractString(f, '' @ in_list [''name''] @ ''), '' @
     ''JSONExtractArrayRaw(metadata, '' @ in_list [''functions''] @ ''))) AS declares FROM wasm_programs '' @
     ''WHERE wasm_hash IN (SELECT toFixedString(unhex(arrayJoin(?)), 32)) LIMIT 1 BY wasm_hash''"

fun metadata_of_changed ::
  "view_ext \<Rightarrow> view_reads \<Rightarrow> view_ledger \<Rightarrow> (bytes \<rightharpoonup> string list) \<Rightarrow> (bytes \<times> bytes) list \<Rightarrow> entries \<Rightarrow>
   contract_metadata list \<Rightarrow> db_log \<Rightarrow> (ch_error + contract_metadata list) \<times> db_log" where
  "metadata_of_changed vx vr ledger declares [] entries writes db = (Inr writes, db)"
| "metadata_of_changed vx vr ledger declares ((contract, wasm_hash) # changed) entries writes db =
     (case opt_filter has_metadata (declares wasm_hash) of
        None \<Rightarrow> metadata_of_changed vx vr ledger declares changed entries writes db
      | Some declared \<Rightarrow>
          (case read_metadata vx vr ledger contract declared entries db of
             (Inl e, db1) \<Rightarrow> (Inl e, db1)
           | (Inr (AnswerMetadata metadata, m), db1) \<Rightarrow>
               metadata_of_changed vx vr ledger declares changed m
                 (writes @ [\<lparr>cm_contract_id = vx_contract_text vx contract, cm_metadata = metadata,
                             cm_ledger = vl_sequence ledger\<rparr>]) db1
           | (Inr (other, m), db1) \<Rightarrow> metadata_of_changed vx vr ledger declares changed m writes db1))"

definition ledger_metadata_writes ::
  "ids_ext \<Rightarrow> view_ext \<Rightarrow> view_reads \<Rightarrow> view_ledger \<Rightarrow> contract_instance list \<Rightarrow> wasm_program list \<Rightarrow> db_log \<Rightarrow>
   (ch_error + contract_metadata list) \<times> db_log" where
  "ledger_metadata_writes ix vx vr ledger changed_instances new_programs db =
     (case foldl (changed_step vx) ([], Map.empty) changed_instances of (changed, entries0) \<Rightarrow>
        if changed = [] then (Inr [], db)
        else
          (case foldl (program_step ix vx) (Map.empty, entries0) new_programs of (declares0, entries1) \<Rightarrow>
             (let unknown = sort_dedup (map (vx_hex_encode vx) (filter (\<lambda>h. declares0 h = None) (map snd changed)))
              in if unknown = [] then metadata_of_changed vx vr ledger declares0 changed entries1 [] db
                 else
                   (case vr_interfaces vr db unknown of
                      Inl e \<Rightarrow> (Inl e, db @ [CallQuery interfaces_sql])
                    | Inr rows \<Rightarrow>
                        metadata_of_changed vx vr ledger
                          (foldl (\<lambda>d row. d(sn_wasm_hash row \<mapsto> sn_declares row)) declares0 rows)
                          changed entries1 [] (db @ [CallQuery interfaces_sql])))))"

definition contract_metadata_writes ::
  "ids_ext \<Rightarrow> view_ext \<Rightarrow> view_reads \<Rightarrow> bytes \<Rightarrow> parse_output \<Rightarrow> db_log \<Rightarrow>
   (ch_error + contract_metadata list) \<times> db_log" where
  "contract_metadata_writes ix vx vr network_id parsed db =
     ledger_metadata_writes ix vx vr
       \<lparr>vl_sequence = int (xl_sequence (po_ledger parsed)), vl_timestamp = xl_closed_at (po_ledger parsed) mod 2 ^ 64,
        vl_network_id = network_id\<rparr>
       (po_contract_instances parsed) (po_programs parsed) db"

subsection \<open>What a reading says\<close>

definition field_value :: "string \<Rightarrow> token_metadata \<Rightarrow> scval option" where
  "field_value f md =
     (if f = ''decimals'' then map_option (\<lambda>d. ScU32 (word_of_int d)) (tm_decimals md)
      else if f = ''name'' then map_option ScString (tm_name md)
      else if f = ''symbol'' then map_option ScString (tm_symbol md) else None)"

lemma from_utf8_id: "from_utf8 s = Some t \<Longrightarrow> t = s"
  by (auto simp: from_utf8_def split: if_splits)

lemma set_field_value:
  assumes "set_field f v md = Some md'"
  shows "field_value f md' = Some v" and "g \<noteq> f \<Longrightarrow> field_value g md' = field_value g md"
  using assms by (auto simp: set_field_def field_value_def split: scval.splits if_splits dest: from_utf8_id)

lemma run_rounds_value:
  assumes "run_rounds vx vr ledger contract f n entries db = (Inr (RoundValue v, m), db')"
  shows "call_view vx m ledger contract f = ViewValue v"
  using assms
proof (induction n arbitrary: entries db)
  case (Suc n)
  then show ?case
    by (auto split: view_outcome.splits prod.splits sum.splits if_splits)
qed simp

lemma run_rounds_stop:
  assumes "run_rounds vx vr ledger contract f n entries db = (Inr (RoundStop a, m), db')"
  shows "a \<noteq> AnswerMetadata md"
  using assms
proof (induction n arbitrary: entries db)
  case (Suc n)
  then show ?case
    by (auto split: view_outcome.splits prod.splits sum.splits if_splits)
qed simp

text \<open>
  The reading of a contract holds, for every function its program declares, the value that function
  returned on entries among which it asked for none that had not been loaded; a function that is not
  declared leaves its field empty.
\<close>

lemma read_functions_values:
  assumes "read_functions vx vr ledger contract declares fs md entries db = (Inr (AnswerMetadata md', m), db')"
    and "distinct fs"
  shows "\<forall>f\<in>set fs. if f \<in> set declares then \<exists>es v. call_view vx es ledger contract f = ViewValue v \<and> field_value f md' = Some v
           else field_value f md' = field_value f md"
    and "\<forall>g. g \<notin> set fs \<longrightarrow> field_value g md' = field_value g md"
proof -
  have "(\<forall>f\<in>set fs. if f \<in> set declares then \<exists>es v. call_view vx es ledger contract f = ViewValue v \<and> field_value f md' = Some v
           else field_value f md' = field_value f md) \<and> (\<forall>g. g \<notin> set fs \<longrightarrow> field_value g md' = field_value g md)"
    using assms
  proof (induction fs arbitrary: md entries db)
    case Nil
    then show ?case by simp
  next
    case (Cons f fs)
    show ?case
    proof (cases "f \<in> set declares")
      case False
      then show ?thesis using Cons.IH [of md entries db] Cons.prems by auto
    next
      case True
      obtain v m1 db1 md1 where r: "run_rounds vx vr ledger contract f max_rounds entries db = (Inr (RoundValue v, m1), db1)"
          "set_field f v md = Some md1"
          "read_functions vx vr ledger contract declares fs md1 m1 db1 = (Inr (AnswerMetadata md', m), db')"
        using Cons.prems(1) True by (auto dest!: run_rounds_stop split: prod.splits sum.splits round_end.splits option.splits)
      have "call_view vx m1 ledger contract f = ViewValue v" by (rule run_rounds_value [OF r(1)])
      moreover have "field_value f md' = Some v"
        using Cons.IH [OF r(3)] Cons.prems(2) set_field_value(1) [OF r(2)] by simp
      moreover have "\<forall>g. g \<noteq> f \<longrightarrow> field_value g md1 = field_value g md"
        using set_field_value(2) [OF r(2)] by blast
      ultimately show ?thesis using Cons.IH [OF r(3)] Cons.prems(2) True by (auto split: if_splits)
    qed
  qed
  then show "\<forall>f\<in>set fs. if f \<in> set declares then \<exists>es v. call_view vx es ledger contract f = ViewValue v \<and> field_value f md' = Some v
           else field_value f md' = field_value f md" and "\<forall>g. g \<notin> set fs \<longrightarrow> field_value g md' = field_value g md"
    by blast+
qed

lemma view_value_complete:
  assumes "call_view vx entries ledger contract f = ViewValue v" and "\<And>ks. set (vx_sort vx ks) = set ks"
  shows "\<exists>asked. vx_run vx ledger contract f (snapshot_get entries (vl_sequence ledger)) = (Inr v, asked) \<and>
     (\<forall>k\<in>set asked. entries k \<noteq> None)"
proof -
  obtain result asked where run: "vx_run vx ledger contract f (snapshot_get entries (vl_sequence ledger)) = (result, asked)"
    by fastforce
  have none: "missing_keys vx entries asked = []" and res: "result = Inr v"
    using assms(1) by (auto simp: call_view_def run Let_def split: if_splits sum.splits)
  have "set (missing_keys vx entries asked) = {k \<in> set asked. entries k = None}"
    by (simp add: missing_keys_def assms(2))
  then show ?thesis using none run res by auto
qed

end
