(* ===== verification/Ingest.thy ===== *)
theory Ingest
  imports ContractView
begin

text \<open>
  From a close meta to stored rows.  The live path is \<open>process_s3_object\<close>'s body for one ledger with its
  retries (\<open>indexer/src/handler/mod.rs\<close>); the backfill path is the sink
  (\<open>backfill-runner/src/sink.rs\<close>), a partition (\<open>ingest.rs\<close>), its download (\<open>sync.rs\<close>) and the run over
  the partitions (\<open>run.rs\<close>).  Files, the subprocess that downloads them and the clock act on a world
  \<open>'w\<close>.  A hash map that is handed on as a list is listed in the order \<open>ig_values\<close>.
\<close>

subsection \<open>Staging inputs\<close>

record ingest_ext =
  ig_parse :: parse_ext
  ig_network :: bytes
  ig_ids :: ids_ext
  ig_codec :: codec_ext
  ig_view :: view_ext
  ig_view_reads :: view_reads
  ig_reads :: db_reads
  ig_answers :: db_answers
  ig_values :: "(string \<rightharpoonup> sac_override) \<Rightarrow> sac_override list"

definition inputs_of ::
  "ingest_ext \<Rightarrow> parse_output \<Rightarrow> contract_metadata list \<Rightarrow> (int \<rightharpoonup> int) \<Rightarrow> stage_inputs" where
  "inputs_of g parsed metadata_writes sac_classic =
     \<lparr>si_ledger = po_ledger parsed, si_transactions = po_transactions parsed, si_operations = po_operations parsed,
      si_events = po_events parsed, si_invocations = po_invocations parsed, si_programs = po_programs parsed,
      si_contract_deployments = po_contract_deployments parsed, si_account_states = po_account_states parsed,
      si_liquidity_pools = po_liquidity_pools parsed, si_pool_snapshots = po_pool_snapshots parsed,
      si_assets = po_assets parsed, si_nfts = po_nfts parsed, si_nft_events = po_nft_events parsed,
      si_lp_positions = po_lp_positions parsed, si_contract_metadata_writes = metadata_writes,
      si_executable_ref_targets = po_executable_ref_targets parsed,
      si_contract_instances = po_contract_instances parsed,
      si_soroban_token_balances = po_soroban_token_balances parsed,
      si_claimable_balances = po_claimable_balances parsed, si_pool_family_writes = po_pool_family_writes parsed,
      si_sac_classic = sac_classic, si_sac_overrides = ig_values g (po_sac_overrides parsed),
      si_prior_wasm_verdicts = Map.empty, si_prior_contract_verdicts = Map.empty, si_prior_contract_rows = Map.empty,
      si_asset_transfers = po_asset_transfers parsed\<rparr>"

subsection \<open>The live indexer\<close>

definition is_transient_stage :: "stage_error \<Rightarrow> bool" where
  "is_transient_stage e =
     (case e of StageErr s \<Rightarrow> is_transient_ch_error (HeClickHouse s) | StagePanic \<Rightarrow> False)"

definition persist_ledger_retrying ::
  "ingest_ext \<Rightarrow> stage_inputs \<Rightarrow> classification_cache \<times> db_log \<Rightarrow> (stage_error + nat) \<times> classification_cache \<times> db_log" where
  "persist_ledger_retrying g i w =
     retry_with_backoff (\<lambda>ms w. w) retry_backoff_ms is_transient_stage
       (\<lambda>(cache, db). persist_ledger_clickhouse (ig_ids g) (ig_codec g) (ig_reads g) (ig_answers g) i cache db) w"

definition live_ledger ::
  "ingest_ext \<Rightarrow> ledger_close_meta \<Rightarrow> classification_cache \<times> db_log \<Rightarrow>
   (stage_error + nat) \<times> classification_cache \<times> db_log" where
  "live_ledger g meta w =
     (case w of (cache, db) \<Rightarrow>
        (case parse_ledger (ig_parse g) (ig_network g) meta of
           None \<Rightarrow> (Inl StagePanic, cache, db)
         | Some parsed \<Rightarrow>
             (case contract_metadata_writes (ig_ids g) (ig_view g) (ig_view_reads g) (ig_network g) parsed db of
                (Inl e, db1) \<Rightarrow> (Inl (StageErr (SchemaQuery e)), cache, db1)
              | (Inr metadata_writes, db1) \<Rightarrow>
                  persist_ledger_retrying g (inputs_of g parsed metadata_writes Map.empty) (cache, db1))))"

subsection \<open>The sink of the backfill\<close>

record sink =
  sk_only :: "string list option"

definition none_or_contains :: "string list option \<Rightarrow> string \<Rightarrow> bool" where
  "none_or_contains only table = (case only of None \<Rightarrow> True | Some t \<Rightarrow> targeted_contains t table)"

definition targeted :: "sink \<Rightarrow> bool" where "targeted sk \<longleftrightarrow> sk_only sk \<noteq> None"

definition sink_write_ledger ::
  "ingest_ext \<Rightarrow> string list option \<Rightarrow> ledger_close_meta \<Rightarrow> partition_writer \<times> db_log \<Rightarrow>
   (stage_error + unit) \<times> partition_writer \<times> db_log" where
  "sink_write_ledger g only meta s =
     (case s of (pw, db) \<Rightarrow>
        (case parse_ledger (ig_parse g) (ig_network g) meta of
           None \<Rightarrow> (Inl StagePanic, pw, db)
         | Some parsed \<Rightarrow>
             (case (if none_or_contains only ''soroban_contract_metadata''
                    then contract_metadata_writes (ig_ids g) (ig_view g) (ig_view_reads g) (ig_network g) parsed db
                    else (Inr [], db)) of
                (Inl e, db1) \<Rightarrow> (Inl (StageErr (SchemaQuery e)), pw, db1)
              | (Inr metadata_writes, db1) \<Rightarrow>
                  (case fetch_sac_classic_map (ig_ids g) (ig_reads g)
                          (sac_classic_map_needed (po_soroban_token_balances parsed) (po_events parsed)
                             (none_or_contains only ''balances'') (none_or_contains only ''pool_movements'')) db1 of
                     (Inl e, db2) \<Rightarrow> (Inl (StageErr (SchemaQuery e)), pw, db2)
                   | (Inr sac_classic, db2) \<Rightarrow>
                       (case prepare_with_sac_overrides (ig_ids g) (ig_codec g)
                               (inputs_of g parsed metadata_writes sac_classic) of
                          Inl e \<Rightarrow> (Inl e, pw, db2)
                        | Inr staged \<Rightarrow>
                            (case (case only of
                                     Some tables \<Rightarrow> write_only (ig_answers g) staged tables (pw, db2)
                                   | None \<Rightarrow> write_ledger (ig_answers g) staged (pw, db2)) of
                               (Inl e, pw1, db3) \<Rightarrow> (Inl (StageErr e), pw1, db3)
                             | (Inr u, pw1, db3) \<Rightarrow> (Inr (), pw1, db3)))))))"

text \<open>The ledgers already stored; a sequence outside \<open>u32\<close> is skipped.\<close>

definition load_completed ::
  "(db_log \<Rightarrow> int \<Rightarrow> int \<Rightarrow> ch_error + int list) \<Rightarrow> int \<Rightarrow> int \<Rightarrow> db_log \<Rightarrow> (ch_error + int list) \<times> db_log" where
  "load_completed rows_for start till db =
     (map_res (filter fits_u32) (rows_for db start till),
      db @ [CallQuery ''SELECT sequence FROM ledgers WHERE sequence BETWEEN ? AND ?''])"

subsection \<open>Downloading a partition\<close>

datatype backfill_error =
    BfCh ch_error
  | BfStage stage_error
  | BfHandler handler_error
  | BfIncomplete string
  | BfIo string
  | BfAwsSyncFailed int int string
  | BfPartitionSyncFailed int nat nat nat
  | BfS3LsFailed int string
  | BfPanic string

datatype sync_outcome = SyncComplete | S3Incomplete nat nat nat

text \<open>A directory listing is the names and sizes of its entries; \<open>None\<close> when there is no directory.\<close>

record 'w backfill_env =
  be_create_dir :: "string list \<Rightarrow> 'w \<Rightarrow> (string + unit) \<times> 'w"
  be_read_dir :: "string list \<Rightarrow> 'w \<Rightarrow> (string + (string \<times> nat) list option) \<times> 'w"
  be_aws_sync :: "string \<Rightarrow> string list \<Rightarrow> 'w \<Rightarrow> (string + int \<times> string) \<times> 'w"
  be_aws_ls :: "string \<Rightarrow> 'w \<Rightarrow> (string + int \<times> string list) \<times> 'w"
  be_sleep :: "nat \<Rightarrow> 'w \<Rightarrow> 'w"
  be_exists :: "string list \<Rightarrow> 'w \<Rightarrow> bool \<times> 'w"
  be_read :: "string list \<Rightarrow> 'w \<Rightarrow> (string + string) \<times> 'w"
  be_remove_file :: "string list \<Rightarrow> 'w \<Rightarrow> (string + unit) \<times> 'w"
  be_remove_dir :: "string list \<Rightarrow> 'w \<Rightarrow> (string + bool) \<times> 'w"
  be_zstd :: "string \<Rightarrow> string + string"
  be_from_xdr :: "string \<Rightarrow> xdr_limits \<Rightarrow> string + ledger_close_meta list"
  be_archive :: "string option"

definition ledger_file_name :: "string \<Rightarrow> bool" where
  "ledger_file_name name \<longleftrightarrow> suffix ''.xdr.zst'' name"

definition dir_stats :: "'w backfill_env \<Rightarrow> string list \<Rightarrow> 'w \<Rightarrow> (backfill_error + nat) \<times> 'w" where
  "dir_stats be dir w =
     (case be_read_dir be dir w of
        (Inl e, w1) \<Rightarrow> (Inl (BfIo e), w1)
      | (Inr None, w1) \<Rightarrow> (Inl (BfIo ''not found''), w1)
      | (Inr (Some entries), w1) \<Rightarrow> (Inr (length (filter (\<lambda>(n, sz). ledger_file_name n) entries)), w1))"

definition count_complete_partition ::
  "'w backfill_env \<Rightarrow> string list \<Rightarrow> nat \<Rightarrow> 'w \<Rightarrow> (backfill_error + (nat \<times> nat) option) \<times> 'w" where
  "count_complete_partition be dir expected w =
     (case be_read_dir be dir w of
        (Inl e, w1) \<Rightarrow> (Inl (BfIo e), w1)
      | (Inr None, w1) \<Rightarrow> (Inr None, w1)
      | (Inr (Some entries), w1) \<Rightarrow>
          (let files = filter (\<lambda>(n, sz). ledger_file_name n) entries
           in (Inr (if length files = expected then Some (length files, sum_list (map snd files)) else None), w1)))"

definition run_sync_once :: "'w backfill_env \<Rightarrow> partition \<Rightarrow> string list \<Rightarrow> 'w \<Rightarrow> (backfill_error + unit) \<times> 'w" where
  "run_sync_once be p local w =
     (case be_aws_sync be (s3_folder (be_archive be) p) local w of
        (Inl e, w1) \<Rightarrow> (Inl (BfIo e), w1)
      | (Inr (exit_code, stderr), w1) \<Rightarrow>
          if exit_code = 0 then (Inr (), w1)
          else (Inl (BfAwsSyncFailed (pt_start p) exit_code stderr), w1))"

text \<open>Up to three attempts, waiting two seconds and then twice as long, at most thirty (in seconds).\<close>

fun sync_attempts ::
  "'w backfill_env \<Rightarrow> partition \<Rightarrow> string list \<Rightarrow> nat \<Rightarrow> nat \<Rightarrow> 'w \<Rightarrow> (backfill_error + unit) \<times> 'w" where
  "sync_attempts be p local 0 delay w = (Inl (BfPanic ''retry loop exits via return''), w)"
| "sync_attempts be p local (Suc n) delay w =
     (case run_sync_once be p local w of
        (Inr u, w1) \<Rightarrow> (Inr (), w1)
      | (Inl err, w1) \<Rightarrow>
          if n = 0 then (Inl err, w1)
          else sync_attempts be p local n (min (delay * 2) 30) (be_sleep be delay w1))"

definition run_sync_with_retry ::
  "'w backfill_env \<Rightarrow> partition \<Rightarrow> string list \<Rightarrow> 'w \<Rightarrow> (backfill_error + unit) \<times> 'w" where
  "run_sync_with_retry be p local w = sync_attempts be p local 3 2 w"

definition object_count :: "'w backfill_env \<Rightarrow> partition \<Rightarrow> 'w \<Rightarrow> (backfill_error + nat) \<times> 'w" where
  "object_count be p w =
     (case be_aws_ls be (s3_folder (be_archive be) p) w of
        (Inl e, w1) \<Rightarrow> (Inl (BfS3LsFailed (pt_start p) e), w1)
      | (Inr (exit_code, tokens), w1) \<Rightarrow>
          if exit_code \<noteq> 0 then (Inl (BfS3LsFailed (pt_start p) ''aws s3 ls exited''), w1)
          else (Inr (length (filter ledger_file_name tokens)), w1))"

definition sync_partition ::
  "'w backfill_env \<Rightarrow> partition \<Rightarrow> string list \<Rightarrow> 'w \<Rightarrow> (backfill_error + sync_outcome) \<times> 'w" where
  "sync_partition be p temp_dir w =
     (let local = local_folder p temp_dir; need = nat (ledger_count p) in
      case be_create_dir be local w of
        (Inl e, w1) \<Rightarrow> (Inl (BfIo e), w1)
      | (Inr u, w1) \<Rightarrow>
      (case count_complete_partition be local need w1 of
        (Inl e, w2) \<Rightarrow> (Inl e, w2)
      | (Inr (Some stats), w2) \<Rightarrow> (Inr SyncComplete, w2)
      | (Inr None, w2) \<Rightarrow>
      (case run_sync_with_retry be p local w2 of
        (Inl e, w3) \<Rightarrow> (Inl e, w3)
      | (Inr u, w3) \<Rightarrow>
      (case dir_stats be local w3 of
        (Inl e, w4) \<Rightarrow> (Inl e, w4)
      | (Inr file_count, w4) \<Rightarrow>
          if file_count = need then (Inr SyncComplete, w4)
          else
      (case object_count be p w4 of
        (Inl e, w5) \<Rightarrow> (Inl e, w5)
      | (Inr s3_count, w5) \<Rightarrow>
          if s3_count < need then (Inr (S3Incomplete file_count s3_count need), w5)
          else
      (case run_sync_with_retry be p local w5 of
        (Inl e, w6) \<Rightarrow> (Inl e, w6)
      | (Inr u, w6) \<Rightarrow>
      (case dir_stats be local w6 of
        (Inl e, w7) \<Rightarrow> (Inl e, w7)
      | (Inr again, w7) \<Rightarrow>
          if again = need then (Inr SyncComplete, w7)
          else (Inl (BfPartitionSyncFailed (pt_start p) again s3_count need), w7))))))))"

subsection \<open>Indexing a partition\<close>

record partition_stats =
  ps_indexed :: nat
  ps_skipped_completed :: nat
  ps_total_bytes :: nat

definition no_stats :: partition_stats where
  "no_stats = \<lparr>ps_indexed = 0, ps_skipped_completed = 0, ps_total_bytes = 0\<rparr>"

type_synonym 'w partition_state = "(partition_writer \<times> db_log) \<times> 'w"

definition ingest_ledger_from_file ::
  "ingest_ext \<Rightarrow> 'w backfill_env \<Rightarrow> string list option \<Rightarrow> string list \<Rightarrow> 'w partition_state \<Rightarrow>
   (backfill_error + nat) \<times> 'w partition_state" where
  "ingest_ledger_from_file g be only path s =
     (case s of (ws, w) \<Rightarrow>
        (case be_read be path w of
           (Inl e, w1) \<Rightarrow> (Inl (BfIo e), ws, w1)
         | (Inr compressed, w1) \<Rightarrow>
             (case decompress_zstd (be_zstd be) compressed of
                Inl e \<Rightarrow> (Inl (BfHandler (HeParse e)), ws, w1)
              | Inr xdr_bytes \<Rightarrow>
                  (case deserialize_batch (be_from_xdr be) xdr_bytes of
                     Inl e \<Rightarrow> (Inl (BfHandler (HeParse e)), ws, w1)
                   | Inr [meta] \<Rightarrow>
                       (case sink_write_ledger g only meta ws of
                          (Inl e, ws1) \<Rightarrow> (Inl (BfStage e), ws1, w1)
                        | (Inr u, ws1) \<Rightarrow> (Inr (length compressed), ws1, w1))
                   | Inr metas \<Rightarrow> (Inl (BfPanic ''expected 1 ledger per file in public archive layout''), ws, w1)))))"

text \<open>A file that cannot be removed is only reported.\<close>

definition drop_indexed_file :: "'w backfill_env \<Rightarrow> string list \<Rightarrow> bool \<Rightarrow> 'w \<Rightarrow> 'w" where
  "drop_indexed_file be path keep_files w = (if keep_files then w else snd (be_remove_file be path w))"

fun index_ledgers ::
  "ingest_ext \<Rightarrow> 'w backfill_env \<Rightarrow> string list option \<Rightarrow> partition \<Rightarrow> string list \<Rightarrow> int list \<Rightarrow> bool \<Rightarrow>
   int list \<Rightarrow> partition_stats \<Rightarrow> 'w partition_state \<Rightarrow> (backfill_error + partition_stats) \<times> 'w partition_state" where
  "index_ledgers g be only p temp_dir completed keep_files [] stats s = (Inr stats, s)"
| "index_ledgers g be only p temp_dir completed keep_files (seq # seqs) stats s =
     (case s of (ws, w) \<Rightarrow>
        let path = local_ledger_path p seq temp_dir in
        if seq \<in> set completed then
          index_ledgers g be only p temp_dir completed keep_files seqs
            (stats\<lparr>ps_skipped_completed := ps_skipped_completed stats + 1\<rparr>) (ws, drop_indexed_file be path keep_files w)
        else
          (case be_exists be path w of
             (found, w1) \<Rightarrow>
               if \<not> found then (Inl (BfPanic ''ledger file missing post-sync''), ws, w1)
               else
                 (case ingest_ledger_from_file g be only path (ws, w1) of
                    (Inl e, s1) \<Rightarrow> (Inl e, s1)
                  | (Inr bytes, (ws1, w2)) \<Rightarrow>
                      index_ledgers g be only p temp_dir completed keep_files seqs
                        (stats\<lparr>ps_indexed := ps_indexed stats + 1, ps_total_bytes := ps_total_bytes stats + bytes\<rparr>)
                        (ws1, drop_indexed_file be path keep_files w2))))"

definition index_partition ::
  "ingest_ext \<Rightarrow> 'w backfill_env \<Rightarrow> sink \<Rightarrow> partition \<Rightarrow> string list \<Rightarrow> int \<Rightarrow> int \<Rightarrow> int list \<Rightarrow> bool \<Rightarrow>
   db_log \<times> 'w \<Rightarrow> (backfill_error + partition_stats) \<times> db_log \<times> 'w" where
  "index_partition g be sk p temp_dir range_start range_end completed keep_files s =
     (case s of (db, w) \<Rightarrow>
        case clamped p range_start range_end of (first, final) \<Rightarrow>
        (case index_ledgers g be (sk_only sk) p temp_dir completed keep_files [first..final] no_stats ((writer_open, db), w) of
           (Inl err, ((pw, db1), w1)) \<Rightarrow> (Inl err, writer_abort pw db1, w1)
         | (Inr stats, ((pw, db1), w1)) \<Rightarrow>
             (case writer_commit (ig_answers g) pw db1 of
                (Inl e, db2) \<Rightarrow> (Inl (BfStage (StageErr e)), db2, w1)
              | (Inr u, db2) \<Rightarrow> (Inr stats, db2, w1))))"

subsection \<open>The run\<close>

definition partition_fully_done :: "partition \<Rightarrow> int \<Rightarrow> int \<Rightarrow> int list \<Rightarrow> bool" where
  "partition_fully_done p start till completed \<longleftrightarrow>
     (case clamped p start till of (first, final) \<Rightarrow> list_all (\<lambda>s. s \<in> set completed) [first..final])"

definition cleanup_partition_folder ::
  "'w backfill_env \<Rightarrow> partition \<Rightarrow> string list \<Rightarrow> bool \<Rightarrow> 'w \<Rightarrow> (backfill_error + unit) \<times> 'w" where
  "cleanup_partition_folder be p temp_dir keep_partitions w =
     (if keep_partitions then (Inr (), w)
      else (case be_remove_dir be (local_folder p temp_dir) w of
              (Inl e, w1) \<Rightarrow> (Inl (BfIo e), w1) | (Inr existed, w1) \<Rightarrow> (Inr (), w1)))"

definition stats_add :: "partition_stats \<Rightarrow> partition_stats \<Rightarrow> partition_stats" where
  "stats_add a b =
     \<lparr>ps_indexed = ps_indexed a + ps_indexed b, ps_skipped_completed = ps_skipped_completed a + ps_skipped_completed b,
      ps_total_bytes = ps_total_bytes a + ps_total_bytes b\<rparr>"

text \<open>
  The next partition is downloaded while this one is indexed, into a folder of its own; here it is
  downloaded first.  An error of the download surfaces after this partition is done.
\<close>

fun run_partitions ::
  "ingest_ext \<Rightarrow> 'w backfill_env \<Rightarrow> sink \<Rightarrow> string list \<Rightarrow> int \<Rightarrow> int \<Rightarrow> int list \<Rightarrow> bool \<Rightarrow> partition list \<Rightarrow>
   sync_outcome \<Rightarrow> partition_stats \<times> nat \<Rightarrow> db_log \<times> 'w \<Rightarrow> (backfill_error + partition_stats \<times> nat) \<times> db_log \<times> 'w" where
  "run_partitions g be sk temp_dir start till completed keep [] current totals s = (Inr totals, s)"
| "run_partitions g be sk temp_dir start till completed keep (p # ps) current totals s =
     (case s of (db, w) \<Rightarrow>
      case (case ps of [] \<Rightarrow> (Inr SyncComplete, w) | next_p # _ \<Rightarrow> sync_partition be next_p temp_dir w) of (prefetched, w1) \<Rightarrow>
      case (case current of
              SyncComplete \<Rightarrow>
                (case index_partition g be sk p temp_dir start till completed keep (db, w1) of
                   (Inl e, s2) \<Rightarrow> (Inl e, s2)
                 | (Inr stats, s2) \<Rightarrow> (Inr (stats_add (fst totals) stats, snd totals), s2))
            | S3Incomplete local s3 need \<Rightarrow> (Inr (fst totals, snd totals + 1), (db, w1))) of
        (Inl e, s2) \<Rightarrow> (Inl e, s2)
      | (Inr totals', (db2, w2)) \<Rightarrow>
          (case cleanup_partition_folder be p temp_dir keep w2 of
             (Inl e, w3) \<Rightarrow> (Inl e, db2, w3)
           | (Inr u, w3) \<Rightarrow>
               (case prefetched of
                  Inl e \<Rightarrow> (Inl e, db2, w3)
                | Inr outcome \<Rightarrow>
                    run_partitions g be sk temp_dir start till completed keep ps outcome totals' (db2, w3))))"

definition run_backfill ::
  "ingest_ext \<Rightarrow> 'w backfill_env \<Rightarrow> (db_log \<Rightarrow> int \<Rightarrow> int \<Rightarrow> ch_error + int list) \<Rightarrow> sink \<Rightarrow> string list \<Rightarrow> int \<Rightarrow> int \<Rightarrow>
   bool \<Rightarrow> bool \<Rightarrow> db_log \<times> 'w \<Rightarrow> ((backfill_error + partition_stats \<times> nat) \<times> db_log \<times> 'w) option" where
  "run_backfill g be rows_for sk temp_dir start till keep reindex s =
     (case s of (db, w) \<Rightarrow>
        if till < start then Some (Inl (BfPanic ''invalid range''), db, w)
        else
          do { partitions \<leftarrow> partitions_for_range start till;
               Some
                 (case (if reindex \<or> targeted sk then (Inr [], db) else load_completed rows_for start till db) of
                    (Inl e, db1) \<Rightarrow> (Inl (BfCh e), db1, w)
                  | (Inr completed, db1) \<Rightarrow>
                      (let todo = filter (\<lambda>p. \<not> partition_fully_done p start till completed) partitions
                       in case todo of
                            [] \<Rightarrow> (Inr (no_stats, 0), db1, w)
                          | p # ps \<Rightarrow>
                              (case sync_partition be p temp_dir w of
                                 (Inl e, w1) \<Rightarrow> (Inl e, db1, w1)
                               | (Inr outcome, w1) \<Rightarrow>
                                   run_partitions g be sk temp_dir start till completed keep todo outcome (no_stats, 0)
                                     (db1, w1)))) })"

subsection \<open>Progress\<close>

record partition_counts =
  pc_range_len :: int
  pc_indexed :: nat
  pc_pending :: int

definition counts_add :: "partition_counts \<Rightarrow> partition_counts \<Rightarrow> partition_counts" where
  "counts_add a b =
     \<lparr>pc_range_len = pc_range_len a + pc_range_len b, pc_indexed = pc_indexed a + pc_indexed b,
      pc_pending = pc_pending a + pc_pending b\<rparr>"

definition partition_row :: "partition \<Rightarrow> int \<Rightarrow> int \<Rightarrow> int list \<Rightarrow> partition_counts" where
  "partition_row p run_start run_end completed =
     (case clamped p run_start run_end of (first, final) \<Rightarrow>
        let range_len = wrap_u32 (wrap_u32 (final - first) + 1);
            indexed = length (filter (\<lambda>s. s \<in> set completed) [first..final])
        in \<lparr>pc_range_len = range_len, pc_indexed = indexed, pc_pending = max 0 (range_len - int indexed)\<rparr>)"

end
