(* ===== verification/IngestFacts.thy ===== *)
theory IngestFacts
  imports PersistFacts ProcessFacts Ingest
begin

text \<open>
  From close meta to stored rows: a ledger the live indexer reports as stored has every transaction of
  its meta in ClickHouse, and a partition of the backfill marks its ledgers only after all their rows.
\<close>

subsection \<open>The live indexer\<close>

lemma parse_ledger_transactions:
  "parse_ledger p net meta = Some out \<Longrightarrow> length (po_transactions out) = length (tx_processing meta)"
  by (auto simp: parse_ledger_def Let_def split: Option.bind_splits)

lemma staged_transaction_rows:
  assumes "prepare_with_sac_overrides ix cx i = Inr out"
  shows "map txrow_application_order (sg_transaction_rows out) = map (\<lambda>k. int k + 1) [0..<length (si_transactions i)]"
proof -
  from assms obtain p where p: "staged_parts_of ix i = Inr p"
    and out: "out = (staged_of_parts ix cx i p)\<lparr>sg_pool_movement_rows := movements_of ix i (staged_of_parts ix cx i p)\<rparr>"
    by (rule prepare_parts)
  have "sg_transaction_rows out = tt_rows (gp_txs p)" by (simp add: out staged_of_parts_def Let_def)
  then show ?thesis using positions_of_tables [OF parts_from_builders(1) [OF p]] by simp
qed

text \<open>
  The inputs of staging that carry a parsed ledger: every list of the parser is handed on, each
  under its own name.  What the database is asked for besides is not part of it: the metadata of
  new contracts, the classic assets of wrapped balances and the verdicts of earlier ledgers.
\<close>

definition carries :: "ingest_ext \<Rightarrow> parse_output \<Rightarrow> stage_inputs \<Rightarrow> bool" where
  "carries g po i \<longleftrightarrow>
     si_ledger i = po_ledger po \<and> si_transactions i = po_transactions po \<and>
     si_operations i = po_operations po \<and> si_events i = po_events po \<and>
     si_invocations i = po_invocations po \<and> si_programs i = po_programs po \<and>
     si_contract_deployments i = po_contract_deployments po \<and> si_account_states i = po_account_states po \<and>
     si_liquidity_pools i = po_liquidity_pools po \<and> si_pool_snapshots i = po_pool_snapshots po \<and>
     si_assets i = po_assets po \<and> si_nfts i = po_nfts po \<and> si_nft_events i = po_nft_events po \<and>
     si_lp_positions i = po_lp_positions po \<and>
     si_executable_ref_targets i = po_executable_ref_targets po \<and>
     si_contract_instances i = po_contract_instances po \<and>
     si_soroban_token_balances i = po_soroban_token_balances po \<and>
     si_claimable_balances i = po_claimable_balances po \<and>
     si_pool_family_writes i = po_pool_family_writes po \<and>
     si_asset_transfers i = po_asset_transfers po \<and>
     si_sac_overrides i = ig_values g (po_sac_overrides po)"

lemma inputs_carry: "carries g po (inputs_of g po mw sac)"
  by (simp add: carries_def inputs_of_def)

lemma read_prior_carries:
  "read_prior ix cx rd i cache db = (Inr inputs, cache', db') \<Longrightarrow> carries g po i \<Longrightarrow>
   carries g po inputs \<and> si_contract_metadata_writes inputs = si_contract_metadata_writes i"
  by (auto simp: read_prior_def with_prior_def map_res_Inr try_res_Inr carries_def split: prod.splits)

text \<open>The retries end with the attempt whose result they report.\<close>

lemma retry_from_ends:
  assumes "retry_from sleep bo tr oper k w = (r, w')"
  shows "\<exists>w1. w' = snd (oper w1) \<and> (r \<in> range Inr \<longleftrightarrow> fst (oper w1) = Inr ())"
  using assms
proof (induction sleep bo tr oper k w rule: retry_from.induct)
  case (1 sleep bo tr oper k w)
  show ?case
  proof (cases "oper w")
    case (Pair x w1)
    show ?thesis
    proof (cases x)
      case (Inr u)
      then show ?thesis using "1.prems" Pair by (subst (asm) retry_from.simps) (auto intro!: exI [of _ w])
    next
      case (Inl e)
      show ?thesis
      proof (cases "k < length bo \<and> tr e")
        case True
        then have "retry_from sleep bo tr oper (k + 1) (sleep (bo ! k) w1) = (r, w')"
          using "1.prems" Pair Inl by (subst (asm) retry_from.simps) simp
        then show ?thesis using "1.IH" [OF Pair [symmetric] Inl True] by blast
      next
        case False
        then show ?thesis using "1.prems" Pair Inl by (subst (asm) retry_from.simps) (auto intro!: exI [of _ w])
      qed
    qed
  qed
qed

text \<open>C8. A ledger the live indexer reports as stored is stored, whole.  When parsing, reading back the
  priors, staging, writing and the retries end in success, the ledger parsed from the close meta was
  staged with everything the parser found in it, the metadata read for its contracts and the priors
  read back last; the calls to ClickHouse end with the complete plan of that staged ledger, every call
  of it accepted, so that every row and then the marker is stored; and the transactions table holds
  exactly one row for each transaction of the close meta, numbered in its order.\<close>

theorem live_ledger_stored:
  assumes "live_ledger g meta (cache, db) = (Inr attempts, cache', db')"
  shows "\<exists>po inputs staged before.
     parse_ledger (ig_parse g) (ig_network g) meta = Some po \<and> carries g po inputs \<and>
     (\<exists>db1. contract_metadata_writes (ig_ids g) (ig_view g) (ig_view_reads g) (ig_network g) po db =
        (Inr (si_contract_metadata_writes inputs), db1)) \<and>
     (\<exists>i0 c0 db0. carries g po i0 \<and>
        read_prior (ig_ids g) (ig_codec g) (ig_reads g) i0 c0 db0 = (Inr inputs, cache', before)) \<and>
     prepare_with_sac_overrides (ig_ids g) (ig_codec g) inputs = Inr staged \<and>
     db' = before @ ledger_plan staged \<and>
     accepted (ig_answers g) before (ledger_plan staged) \<and>
     (\<forall>t. stored_rows (ledger_plan staged) (table_name t) = rows_of staged t) \<and>
     stored_rows (ledger_plan staged) ''ledgers'' = map RowLedger (sg_ledger_rows staged) \<and>
     length (sg_ledger_rows staged) = 1 \<and>
     map txrow_application_order (sg_transaction_rows staged) = map (\<lambda>k. int k + 1) [0..<length (tx_processing meta)]"
proof -
  obtain po where po: "parse_ledger (ig_parse g) (ig_network g) meta = Some po"
    using assms by (auto simp: live_ledger_def split: option.splits)
  obtain mw db1 where mw: "contract_metadata_writes (ig_ids g) (ig_view g) (ig_view_reads g) (ig_network g) po db = (Inr mw, db1)"
    using assms by (auto simp: live_ledger_def po split: prod.splits sum.splits)
  let ?i = "inputs_of g po mw Map.empty"
  let ?oper = "\<lambda>(cache, db). persist_ledger_clickhouse (ig_ids g) (ig_codec g) (ig_reads g) (ig_answers g) ?i cache db"
  have "retry_from (\<lambda>ms w. w) retry_backoff_ms is_transient_stage ?oper 0 (cache, db1) = (Inr attempts, cache', db')"
    using assms by (simp add: live_ledger_def po mw persist_ledger_retrying_def retry_with_backoff_def)
  from retry_from_ends [OF this] obtain c2 db2 where
    last: "?oper (c2, db2) = (Inr (), cache', db')"
    by (metis fst_conv prod.collapse rangeI snd_conv)
  obtain q calls inputs staged where p: "db' = (db2 @ map CallQuery q) @ calls"
      "read_prior (ig_ids g) (ig_codec g) (ig_reads g) ?i c2 db2 = (Inr inputs, cache', db2 @ map CallQuery q)"
      "prepare_with_sac_overrides (ig_ids g) (ig_codec g) inputs = Inr staged"
      "persisted_in_order (ig_answers g) (db2 @ map CallQuery q) staged calls True"
    using persist_in_order [OF last [unfolded prod.case]] by auto
  have ok: "accepted (ig_answers g) (db2 @ map CallQuery q) (ledger_plan staged)"
    using p(4) by (simp add: persisted_in_order_def)
  have calls: "calls = ledger_plan staged"
  proof -
    have "run_calls (ig_answers g) (ledger_plan staged) (db2 @ map CallQuery q) = (Inr (), db')"
      using last p(2,3) by (auto simp: persist_ledger_clickhouse_def write_and_commit_plan split: prod.splits sum.splits)
    from run_calls_trace [OF this] have "db' = (db2 @ map CallQuery q) @ ledger_plan staged" by auto
    then show ?thesis using p(1) by simp
  qed
  have carried: "carries g po inputs" and "si_contract_metadata_writes inputs = mw"
    using read_prior_carries [OF p(2) inputs_carry] by (simp_all add: inputs_of_def)
  then have written: "contract_metadata_writes (ig_ids g) (ig_view g) (ig_view_reads g) (ig_network g) po db =
      (Inr (si_contract_metadata_writes inputs), db1)"
    by (simp add: mw)
  have order: "map txrow_application_order (sg_transaction_rows staged) = map (\<lambda>k. int k + 1) [0..<length (tx_processing meta)]"
    using staged_transaction_rows [OF p(3)] parse_ledger_transactions [OF po] carried by (simp add: carries_def)
  have rows: "(\<forall>t. stored_rows (ledger_plan staged) (table_name t) = rows_of staged t) \<and>
      stored_rows (ledger_plan staged) ''ledgers'' = map RowLedger (sg_ledger_rows staged)"
    using p(4) unfolding calls by (simp add: persisted_in_order_def)
  have last_read: "\<exists>i0 c0 db0. carries g po i0 \<and>
      read_prior (ig_ids g) (ig_codec g) (ig_reads g) i0 c0 db0 = (Inr inputs, cache', db2 @ map CallQuery q)"
    using p(2) inputs_carry by blast
  show ?thesis
    using po carried written last_read p(3) p(1) [unfolded calls] ok rows staged_ledger_rows [OF p(3)] order
    by (intro exI [of _ po] exI [of _ inputs] exI [of _ staged] exI [of _ "db2 @ map CallQuery q"]) blast
qed

text \<open>One ledger with a transaction whose envelope does not encode, against a database that accepts every call.\<close>

definition demo_view :: view_ext where
  "demo_view = \<lparr>vx_symbol = (\<lambda>s. True), vx_run = (\<lambda>l c f e. (Inl ''no host'', [])), vx_sort = id,
     vx_entry_from_xdr = (\<lambda>b. None), vx_code_fits = (\<lambda>b. True), vx_contract_text = id, vx_hex_encode = id\<rparr>"

definition demo_view_reads :: view_reads where
  "demo_view_reads = \<lparr>vr_code = (\<lambda>db h. Inr None), vr_instances = (\<lambda>db cs. Inr []), vr_interfaces = (\<lambda>db hs. Inr [])\<rparr>"

definition demo_ingest :: ingest_ext where
  "demo_ingest = \<lparr>ig_parse = demo_parse_ext, ig_network = ''n'', ig_ids = sample_ix, ig_codec = sample_codec,
     ig_view = demo_view, ig_view_reads = demo_view_reads, ig_reads = empty_reads,
     ig_answers = (\<lambda>db c. None), ig_values = (\<lambda>m. [])\<rparr>"

definition demo_unreadable :: wire_envelope where
  "demo_unreadable =
     \<lparr>we_env = EnvV1 (MuxEd25519 ''A'') MemoNone [], we_xdr = None, we_body = ''x'', we_inner_body = []\<rparr>"

definition demo_ledger :: ledger_close_meta where
  "demo_ledger = CloseV1
     \<lparr>lh_hash = ''h'', lh_sequence = 7, lh_close_time = 5, lh_version = 23, lh_base_fee = 100\<rparr>
     [PhaseComponents [[demo_unreadable]]] [demo_result ''x'']"

definition demo_row :: extracted_transaction where
  "demo_row = extract_single_transaction demo_ext demo_hasher ''n'' (demo_result ''x'') (Some demo_unreadable) 7 5"

lemma demo_row_parts: "xt_parse_error demo_row" "xt_inner_tx_hash demo_row = None"
  "xt_memo_type demo_row = None" "xt_hash demo_row = ''x''"
  by (simp_all add: demo_row_def extract_single_transaction_def demo_unreadable_def encode_xdr_def Let_def
      inner_tx_hash_def demo_ext_def demo_result_def)

lemma demo_parsed:
  obtains po where "parse_ledger demo_parse_ext ''n'' demo_ledger = Some po" "po_contract_instances po = []"
    "po_soroban_token_balances po = []" "po_events po = []" "po_nfts po = []" "po_nft_events po = []"
    "po_contract_deployments po = []" "po_programs po = []"
    "\<forall>m. \<exists>s. prepare_with_sac_overrides sample_ix sample_codec (inputs_of demo_ingest po [] m) = Inr s"
proof -
  have env: "meta_envelopes demo_hasher ''n'' demo_ledger = [Some demo_unreadable]"
    by (simp add: meta_envelopes_def demo_ledger_def demo_result_def extract_envelopes_def demo_unreadable_def
        tx_envelope_hash_def demo_hasher_def)
  have seq: "xl_sequence (extract_ledger demo_ext demo_ledger) = 7" "xl_closed_at (extract_ledger demo_ext demo_ledger) = 5"
    "tx_processing demo_ledger = [demo_result ''x'']"
    by (simp_all add: extract_ledger_def demo_ledger_def Let_def)
  have header: "ledger_header_entry demo_ledger =
      \<lparr>lh_hash = ''h'', lh_sequence = 7, lh_close_time = 5, lh_version = 23, lh_base_fee = 100\<rparr>"
    by (simp add: demo_ledger_def)
  have t: "extract_transactions demo_ext demo_hasher demo_ledger 7 5 ''n'' = [demo_row]"
    by (simp add: extract_transactions_def env seq demo_row_def)
  obtain po where po: "parse_ledger demo_parse_ext ''n'' demo_ledger = Some po"
    by (simp add: parse_ledger_def Let_def demo_parse_ext_def parse_tx_def seq env t demo_row_parts)
  have parts: "po_contract_instances po = []" "po_soroban_token_balances po = []" "po_events po = []" "po_transactions po = [demo_row]"
    "po_ledger po = extract_ledger demo_ext demo_ledger" "po_programs po = []" "po_contract_deployments po = []"
    "po_liquidity_pools po = []" "po_pool_snapshots po = []" "po_lp_positions po = []" "po_operations po = []"
    "po_account_states po = []" "po_asset_transfers po = []" "po_nfts po = []" "po_nft_events po = []"
    using po by (auto simp: parse_ledger_def Let_def demo_parse_ext_def parse_tx_def seq env t demo_row_parts parse_acc_empty_def
      over_changes_def dedup_final_pool_snapshots_def keep_last_by_key_def
      detect_nfts_def extract_nft_ownership_events_def)
  have "\<not> isl (staged_parts_of sample_ix (inputs_of demo_ingest po [] m))" for m
    using seq(3) by (simp add: staged_parts_of_def ledger_row_of_def wasm_rows_def deployment_rows_def transaction_tables_def
     build_pool_rows_def build_snapshot_rows_def lp_position_rows_def operation_rows_def event_rows_def account_state_rows_def build_value_flow_rows_def
     inputs_of_def try_res_def demo_ext_def sample_ix_def decode_hash_def map_res_def Let_def extract_ledger_def transaction_step_def
     application_orders_def tx_operation_rows_def try_i16_def fits_i16_def fits_i32_def fits_u32_def header parts demo_row_parts)
  then have "\<exists>s. prepare_with_sac_overrides sample_ix sample_codec (inputs_of demo_ingest po [] m) = Inr s" for m
    by (cases "staged_parts_of sample_ix (inputs_of demo_ingest po [] m)")
      (metis sum.disc(1), simp add: prepare_with_sac_overrides_def map_res_def)
  then show ?thesis using that po parts by blast
qed

lemma demo_live: "fst (live_ledger demo_ingest demo_ledger (cache_new, [])) = Inr 0"
proof -
  obtain po where po: "parse_ledger demo_parse_ext ''n'' demo_ledger = Some po" "po_contract_instances po = []"
      "po_soroban_token_balances po = []" "po_events po = []" "po_nfts po = []" "po_nft_events po = []"
      "po_contract_deployments po = []" "po_programs po = []"
    and prepared: "\<forall>m. \<exists>s. prepare_with_sac_overrides sample_ix sample_codec (inputs_of demo_ingest po [] m) = Inr s"
    by (rule demo_parsed)
  let ?i = "inputs_of demo_ingest po [] Map.empty"
  obtain s where s: "prepare_with_sac_overrides sample_ix sample_codec ?i = Inr s" using prepared by blast
  have "fst (read_prior sample_ix sample_codec empty_reads ?i cache_new []) = Inr ?i"
    by (simp add: read_prior_def fetch_prior_wasm_verdicts_def wanted_hashes_def fetch_prior_contract_verdicts_def
        wanted_contracts_def fetch_prior_contract_rows_def wanted_rows_def sort_dedup_def fetch_sac_classic_map_def
        run_query_def empty_reads_def with_prior_def inputs_of_def po Let_def sac_classic_map_needed_def
        registers_soroban_pools_def carries_pool_amounts_def)
  then obtain cache1 db1 where "read_prior sample_ix sample_codec empty_reads ?i cache_new [] = (Inr ?i, cache1, db1)"
    by (metis prod.collapse)
  then have "fst (persist_ledger_clickhouse sample_ix sample_codec empty_reads (\<lambda>db c. None) ?i cache_new []) = Inr ()"
    by (simp add: persist_ledger_clickhouse_def s write_and_commit_plan run_calls_all)
  then obtain w where run: "persist_ledger_clickhouse sample_ix sample_codec empty_reads (\<lambda>db c. None) ?i cache_new [] = (Inr (), w)"
    by (metis prod.collapse)
  show ?thesis
    by (simp add: live_ledger_def demo_ingest_def po(1) contract_metadata_writes_def ledger_metadata_writes_def po
        persist_ledger_retrying_def retry_with_backoff_def)
       (subst retry_from.simps, simp add: run [unfolded demo_ingest_def])
qed

lemma demo_sink:
  obtains w db where "sink_write_ledger demo_ingest None demo_ledger (writer_open, []) = (Inr (), w, db)"
proof -
  obtain po where po: "parse_ledger demo_parse_ext ''n'' demo_ledger = Some po" "po_contract_instances po = []"
      "po_soroban_token_balances po = []" "po_events po = []" "po_nfts po = []" "po_nft_events po = []"
      "po_contract_deployments po = []" "po_programs po = []"
    and prepared: "\<forall>m. \<exists>s. prepare_with_sac_overrides sample_ix sample_codec (inputs_of demo_ingest po [] m) = Inr s"
    by (rule demo_parsed)
  obtain s where s: "prepare_with_sac_overrides sample_ix sample_codec (inputs_of demo_ingest po [] Map.empty) = Inr s"
    using prepared by blast
  have fits: "\<forall>t. slot_fits writer_open t" by (simp add: slot_fits_def writer_open_def)
  obtain w db where "write_ledger (\<lambda>db c. None) s (writer_open, []) = (Inr (), w, db)"
    using write_ledger_calls [OF fits, of "\<lambda>db c. None" s "[]"] by (auto simp: run_calls_all)
  then have "sink_write_ledger demo_ingest None demo_ledger (writer_open, []) = (Inr (), w, db)"
    using po s by (simp add: sink_write_ledger_def none_or_contains_def contract_metadata_writes_def ledger_metadata_writes_def
        fetch_sac_classic_map_def sac_classic_map_needed_def registers_soroban_pools_def carries_pool_amounts_def
        detect_config_pool_registrations_def detect_pool_registrations_def detect_pair_registrations_def demo_ingest_def)
  then show ?thesis by (rule that)
qed

theorem live_ledger_stored_witness:
  "\<exists>cache' prior staged. live_ledger demo_ingest demo_ledger (cache_new, []) = (Inr 0, cache', prior @ ledger_plan staged) \<and>
     map txrow_application_order (sg_transaction_rows staged) = [1] \<and>
     (\<exists>row. stored_rows (ledger_plan staged) ''ledgers'' = [row])"
proof -
  obtain cache' db' where live: "live_ledger demo_ingest demo_ledger (cache_new, []) = (Inr 0, cache', db')"
    using demo_live by (metis prod.collapse)
  have one: "length (tx_processing demo_ledger) = 1" by (simp add: demo_ledger_def)
  obtain prior staged where "db' = prior @ ledger_plan staged"
      "stored_rows (ledger_plan staged) ''ledgers'' = map RowLedger (sg_ledger_rows staged)"
      "length (sg_ledger_rows staged) = 1" "map txrow_application_order (sg_transaction_rows staged) = [1]"
    using live_ledger_stored [OF live] by (auto simp: one)
  then show ?thesis using live
    by (intro exI [of _ cache'] exI [of _ prior] exI [of _ staged]) (auto simp: length_Suc_conv)
qed

subsection \<open>A partition of the backfill\<close>

fun is_query :: "db_call \<Rightarrow> bool" where
  "is_query (CallQuery sql) = True"
| "is_query _ = False"

text \<open>The calls on tables were all accepted; queries are no calls on tables.\<close>

fun writes_accepted :: "db_answers \<Rightarrow> db_log \<Rightarrow> db_call list \<Rightarrow> bool" where
  "writes_accepted ans db [] \<longleftrightarrow> True"
| "writes_accepted ans db (c # cs) \<longleftrightarrow> (is_query c \<or> ans db c = None) \<and> writes_accepted ans (db @ [c]) cs"

lemma writes_accepted_append:
  "writes_accepted ans db (xs @ ys) \<longleftrightarrow> writes_accepted ans db xs \<and> writes_accepted ans (db @ xs) ys"
  by (induction xs arbitrary: db) auto

lemma accepted_writes: "accepted ans db cs \<Longrightarrow> writes_accepted ans db cs"
  by (induction cs arbitrary: db) auto

lemma queries_accepted: "writes_accepted ans db (map CallQuery q)"
  by (induction q arbitrary: db) auto

text \<open>What the writer and the log hold after some ledgers were written.\<close>

definition ledgers_written ::
  "db_answers \<Rightarrow> db_log \<Rightarrow> staged_ledger list \<Rightarrow> partition_writer \<Rightarrow> db_call list \<Rightarrow> bool" where
  "ledgers_written ans db0 ss w calls \<longleftrightarrow>
     pw_ledger_rows w = concat (map sg_ledger_rows ss) \<and>
     (\<forall>t. pw_inserts w t = (if concat (map (\<lambda>s. rows_of s t) ss) = [] then None else Some (handle_of (table_name t)))) \<and>
     writes_accepted ans db0 calls \<and>
     (\<forall>t. filter_map (row_for (table_name t)) calls = concat (map (\<lambda>s. rows_of s t) ss)) \<and>
     (\<forall>c\<in>set calls. call_table c \<noteq> Some ''ledgers'')"

lemma ledgers_written_open: "ledgers_written ans db0 [] writer_open []"
  by (simp add: ledgers_written_def writer_open_def)

lemma ledgers_written_queries:
  assumes "ledgers_written ans db0 ss w calls"
  shows "ledgers_written ans db0 ss w (calls @ map CallQuery q)"
proof -
  have "filter_map (row_for name) (map CallQuery q) = []" for name
    by (induction q) (auto simp: row_for_def)
  then show ?thesis using assms queries_accepted
    by (auto simp: ledgers_written_def writes_accepted_append)
qed

lemma row_for_writes_plan: "filter_map (row_for (table_name t)) (writes_plan slots s) = rows_of s t"
proof -
  have "filter_map (row_for (table_name t)) (concat (map (\<lambda>u. write_plan slots u (rows_of s u)) ts)) =
      (if t \<in> set ts then rows_of s t else [])" if "distinct ts" for ts
    using that by (induction ts) (auto simp: row_for_write_plan table_name_inj)
  from this [OF order_distinct] show ?thesis by (simp add: writes_plan_def order_all)
qed

lemma writes_plan_table: "c \<in> set (writes_plan slots s) \<Longrightarrow> \<exists>t. call_table c = Some (table_name t)"
  by (auto simp: writes_plan_def write_plan_def split: if_splits)

lemma write_ledger_written:
  assumes inv: "ledgers_written ans db0 ss w calls"
    and run: "write_ledger ans s (w, db0 @ calls) = (r, w', db')"
  shows "\<exists>calls'. db' = db0 @ calls @ calls' \<and> (\<forall>c\<in>set calls'. call_table c \<noteq> Some ''ledgers'') \<and>
     (r = Inr () \<longrightarrow> ledgers_written ans db0 (ss @ [s]) w' (calls @ calls'))"
proof -
  have fits: "\<forall>t. slot_fits w t" using inv by (auto simp: ledgers_written_def slot_fits_def)
  obtain we where w: "write_ledger ans s (w, db0 @ calls) =
     (case run_calls ans (writes_plan (pw_inserts w) s) (db0 @ calls) of
        (Inl e, db') \<Rightarrow> (Inl e, we, db') | (Inr u, db') \<Rightarrow> (Inr (), after_ledger s w, db'))"
    using write_ledger_calls [OF fits] by blast
  obtain x db2 where x: "run_calls ans (writes_plan (pw_inserts w) s) (db0 @ calls) = (x, db2)" by fastforce
  obtain made rest where m: "writes_plan (pw_inserts w) s = made @ rest" "db2 = (db0 @ calls) @ made"
      "x = Inr () \<longleftrightarrow> accepted ans (db0 @ calls) (writes_plan (pw_inserts w) s)" "x = Inr () \<longrightarrow> rest = []"
    using run_calls_trace [OF x] by blast
  have tables: "call_table c \<noteq> Some ''ledgers''" if "c \<in> set made" for c
    using writes_plan_table [of c "pw_inserts w" s] that m(1) table_name_ledgers by fastforce
  have r: "db' = db2" "r = Inr () \<longleftrightarrow> x = Inr ()" "x = Inr () \<longrightarrow> w' = after_ledger s w"
    using run unfolding w x by (auto split: sum.splits)
  have "ledgers_written ans db0 (ss @ [s]) w' (calls @ made)" if "r = Inr ()"
  proof -
    have made: "made = writes_plan (pw_inserts w) s" and acc: "accepted ans (db0 @ calls) made" and w': "w' = after_ledger s w"
      using that r m by auto
    have slots: "pw_inserts w' t = (if concat (map (\<lambda>s. rows_of s t) (ss @ [s])) = [] then None
        else Some (handle_of (table_name t)))" for t
      using inv by (auto simp: ledgers_written_def w' after_ledger_def opened_def order_all)
    have rows: "pw_ledger_rows w' = concat (map sg_ledger_rows (ss @ [s]))"
      using inv by (simp add: ledgers_written_def w' after_ledger_def opened_def)
    have filt: "filter_map (row_for (table_name t)) (calls @ made) = concat (map (\<lambda>s. rows_of s t) (ss @ [s]))" for t
      using inv by (simp add: ledgers_written_def made row_for_writes_plan)
    have acc': "writes_accepted ans db0 (calls @ made)"
      using inv accepted_writes [OF acc] by (simp add: ledgers_written_def writes_accepted_append)
    show ?thesis using inv tables slots rows filt acc' unfolding ledgers_written_def by auto
  qed
  then show ?thesis using r(1) m(2) tables by (intro exI [of _ made]) auto
qed

text \<open>Reading the metadata of contracts only asks.\<close>

definition only_asks :: "db_log \<Rightarrow> db_log \<Rightarrow> bool" where
  "only_asks db db' \<longleftrightarrow> (\<exists>q. db' = db @ map CallQuery q)"

lemma only_asks_refl [simp, intro]: "only_asks db db"
  by (auto simp: only_asks_def intro: exI [of _ "[]"])

lemma only_asks_one [simp, intro]: "only_asks db (db @ [CallQuery q])"
  by (auto simp: only_asks_def intro: exI [of _ "[q]"])

lemma only_asks_trans: "only_asks a b \<Longrightarrow> only_asks b c \<Longrightarrow> only_asks a c"
  by (auto simp: only_asks_def) (metis append_assoc map_append)

lemma load_instances_asks: "load_instances vx vr cs es db = (r, db') \<Longrightarrow> only_asks db db'"
  by (auto simp: load_instances_def)

lemma load_entry_asks:
  assumes "load_entry vx vr key es db = (r, db')"
  shows "only_asks db db'"
  using assms
  by (auto simp: load_entry_def split: ledger_key.splits sc_address.splits scval.splits prod.splits dest: load_instances_asks)

lemma load_all_asks: "load_all vx vr keys es db = (r, db') \<Longrightarrow> only_asks db db'"
proof (induction vx vr keys es db arbitrary: r db' rule: load_all.induct)
  case (2 vx vr key keys es db)
  obtain x db1 where x: "load_entry vx vr key es db = (x, db1)" by fastforce
  note a = load_entry_asks [OF x]
  show ?case
  proof (cases x)
    case (Inl e)
    then show ?thesis using "2.prems" a by (simp add: x)
  next
    case (Inr ml)
    obtain m l where ml: "ml = (m, l)" by (cases ml)
    show ?thesis
      using "2.prems" a only_asks_trans [OF a "2.IH" [OF x [symmetric] Inr ml [symmetric]]]
      by (cases l) (auto simp: x Inr ml)
  qed
qed simp

lemma run_rounds_asks: "run_rounds vx vr ledger contract f n es db = (r, db') \<Longrightarrow> only_asks db db'"
proof (induction n arbitrary: es db)
  case (Suc n)
  show ?case
  proof (cases "call_view vx es ledger contract f")
    case (ViewMissing keys)
    obtain x db1 where x: "load_all vx vr keys es db = (x, db1)" by fastforce
    note a = load_all_asks [OF x]
    show ?thesis using Suc.prems a only_asks_trans [OF a Suc.IH]
      by (auto simp: ViewMissing x split: sum.splits prod.splits if_splits)
  qed (use Suc.prems in auto)
qed simp

lemma read_functions_asks: "read_functions vx vr ledger contract ds fs md es db = (r, db') \<Longrightarrow> only_asks db db'"
proof (induction fs arbitrary: md es db)
  case (Cons f fs)
  show ?case
  proof (cases "f \<in> set ds")
    case True
    obtain x db1 where x: "run_rounds vx vr ledger contract f max_rounds es db = (x, db1)" by fastforce
    note a = run_rounds_asks [OF x]
    show ?thesis using Cons.prems a only_asks_trans [OF a Cons.IH] True
      by (auto simp: x split: sum.splits prod.splits round_end.splits option.splits)
  next
    case False
    then show ?thesis using Cons by simp
  qed
qed simp

lemma metadata_of_changed_asks:
  "metadata_of_changed vx vr ledger declares changed es ws db = (r, db') \<Longrightarrow> only_asks db db'"
proof (induction changed arbitrary: es ws db)
  case (Cons ch changed)
  obtain contract hash where ch: "ch = (contract, hash)" by (cases ch)
  show ?case
  proof (cases "opt_filter has_metadata (declares hash)")
    case None
    then show ?thesis using Cons by (simp add: ch)
  next
    case (Some declared)
    obtain x db1 where x: "read_metadata vx vr ledger contract declared es db = (x, db1)" by fastforce
    note a = read_functions_asks [OF x [unfolded read_metadata_def]]
    show ?thesis using Cons.prems a only_asks_trans [OF a Cons.IH]
      by (auto simp: ch Some x split: sum.splits prod.splits answer.splits)
  qed
qed simp

lemma contract_metadata_asks:
  assumes "contract_metadata_writes ix vx vr net po db = (r, db')"
  shows "only_asks db db'"
  using assms
  by (auto simp: contract_metadata_writes_def ledger_metadata_writes_def Let_def split: prod.splits sum.splits if_splits
      dest: metadata_of_changed_asks intro: only_asks_trans [OF only_asks_one])

subsection \<open>Writing a partition\<close>

text \<open>
  A ledger staged by the backfill: parsed, carried whole, with the metadata and the classic assets
  the database answered with and no verdicts of earlier ledgers.
\<close>

definition staged_by :: "ingest_ext \<Rightarrow> ledger_close_meta \<Rightarrow> staged_ledger \<Rightarrow> bool" where
  "staged_by g meta s \<longleftrightarrow>
     (\<exists>po inputs. parse_ledger (ig_parse g) (ig_network g) meta = Some po \<and> carries g po inputs \<and>
        (\<exists>db1 db2. contract_metadata_writes (ig_ids g) (ig_view g) (ig_view_reads g) (ig_network g) po db1 =
           (Inr (si_contract_metadata_writes inputs), db2)) \<and>
        (\<exists>db3 db4. fetch_sac_classic_map (ig_ids g) (ig_reads g)
           (sac_classic_map_needed (po_soroban_token_balances po) (po_events po) True True) db3 =
           (Inr (si_sac_classic inputs), db4)) \<and>
        si_prior_wasm_verdicts inputs = Map.empty \<and> si_prior_contract_verdicts inputs = Map.empty \<and>
        si_prior_contract_rows inputs = Map.empty \<and>
        prepare_with_sac_overrides (ig_ids g) (ig_codec g) inputs = Inr s)"

text \<open>The ledger a file of the archive holds: its one close meta, decompressed and decoded.\<close>

definition file_ledger :: "'w backfill_env \<Rightarrow> string list \<Rightarrow> ledger_close_meta \<Rightarrow> bool" where
  "file_ledger be path meta \<longleftrightarrow>
     (\<exists>w w' compressed xdr_bytes. be_read be path w = (Inr compressed, w') \<and>
        decompress_zstd (be_zstd be) compressed = Inr xdr_bytes \<and>
        deserialize_batch (be_from_xdr be) xdr_bytes = Inr [meta])"

definition staged_from :: "ingest_ext \<Rightarrow> 'w backfill_env \<Rightarrow> string list \<Rightarrow> staged_ledger \<Rightarrow> bool" where
  "staged_from g be path s \<longleftrightarrow> (\<exists>meta. file_ledger be path meta \<and> staged_by g meta s)"

definition no_marker :: "db_call list \<Rightarrow> bool" where
  "no_marker calls \<longleftrightarrow> (\<forall>c\<in>set calls. call_table c \<noteq> Some ''ledgers'')"

lemma no_marker_simps [simp]:
  "no_marker []" "no_marker (xs @ ys) \<longleftrightarrow> no_marker xs \<and> no_marker ys" "no_marker (map CallQuery q)"
  by (auto simp: no_marker_def)

lemma sink_write_written:
  assumes inv: "ledgers_written (ig_answers g) db0 ss w calls"
    and run: "sink_write_ledger g None meta (w, db0 @ calls) = (r, w', db')"
  shows "\<exists>calls'. db' = db0 @ calls @ calls' \<and> no_marker calls' \<and>
     (r = Inr () \<longrightarrow> (\<exists>s. staged_by g meta s \<and> ledgers_written (ig_answers g) db0 (ss @ [s]) w' (calls @ calls')))"
proof (cases "parse_ledger (ig_parse g) (ig_network g) meta")
  case None
  then show ?thesis using run by (intro exI [of _ "[]"]) (auto simp: sink_write_ledger_def)
next
  case (Some po)
  obtain mw db1 where mw: "contract_metadata_writes (ig_ids g) (ig_view g) (ig_view_reads g) (ig_network g) po (db0 @ calls) = (mw, db1)"
    by fastforce
  obtain q1 where q1: "db1 = (db0 @ calls) @ map CallQuery q1"
    using contract_metadata_asks [OF mw] by (auto simp: only_asks_def)
  obtain sac db2 where sac: "fetch_sac_classic_map (ig_ids g) (ig_reads g)
      (sac_classic_map_needed (po_soroban_token_balances po) (po_events po) True True) db1 = (sac, db2)"
    by fastforce
  obtain q2 where q2: "db2 = db1 @ map CallQuery q2" using fetch_logs(4) [OF sac] by blast
  have db2: "db2 = db0 @ calls @ map CallQuery (q1 @ q2)" and db1: "db1 = db0 @ calls @ map CallQuery q1"
    by (simp_all add: q1 q2)
  note run' = run [unfolded sink_write_ledger_def prod.case Some option.case none_or_contains_def if_True mw]
  show ?thesis
  proof (cases "\<exists>e. r = Inl e \<and> (db' = db1 \<or> db' = db2)")
    case True
    then show ?thesis unfolding db1 db2 by fastforce
  next
    case False
    then obtain mws sm s where st: "mw = Inr mws" "sac = Inr sm"
        "prepare_with_sac_overrides (ig_ids g) (ig_codec g) (inputs_of g po mws sm) = Inr s"
      using run' by (auto simp: sac split: sum.splits)
    obtain x w1 db3 where wl: "write_ledger (ig_answers g) s (w, db2) = (x, w1, db3)" using prod_cases3 by blast
    have r: "db' = db3" "w' = w1" "r = Inr () \<longleftrightarrow> x = Inr ()"
      using run' st wl by (auto simp: sac split: sum.splits)
    have "ledgers_written (ig_answers g) db0 ss w (calls @ map CallQuery (q1 @ q2))"
      by (rule ledgers_written_queries [OF inv])
    moreover have "write_ledger (ig_answers g) s (w, db0 @ calls @ map CallQuery (q1 @ q2)) = (x, w1, db3)"
      using wl by (simp only: db2)
    ultimately obtain calls' where c: "db3 = db0 @ (calls @ map CallQuery (q1 @ q2)) @ calls'" "no_marker calls'"
        "x = Inr () \<longrightarrow> ledgers_written (ig_answers g) db0 (ss @ [s]) w1 ((calls @ map CallQuery (q1 @ q2)) @ calls')"
      using write_ledger_written unfolding no_marker_def by blast
    have "staged_by g meta s"
      unfolding staged_by_def
    proof (intro exI [of _ po] exI [of _ "inputs_of g po mws sm"] conjI)
      show "\<exists>db1 db2. contract_metadata_writes (ig_ids g) (ig_view g) (ig_view_reads g) (ig_network g) po db1 =
              (Inr (si_contract_metadata_writes (inputs_of g po mws sm)), db2)"
        using mw st(1) by (auto simp: inputs_of_def)
      show "\<exists>db3 db4. fetch_sac_classic_map (ig_ids g) (ig_reads g)
              (sac_classic_map_needed (po_soroban_token_balances po) (po_events po) True True) db3 =
              (Inr (si_sac_classic (inputs_of g po mws sm)), db4)"
        using sac st(2) by (auto simp: inputs_of_def)
    qed (use Some st(3) in \<open>simp_all add: inputs_carry, simp_all add: inputs_of_def\<close>)
    then show ?thesis using c r by (intro exI [of _ "map CallQuery (q1 @ q2) @ calls'"]) (auto simp del: map_append)
  qed
qed

lemma ingest_file_written:
  assumes inv: "ledgers_written (ig_answers g) db0 ss w calls"
    and run: "ingest_ledger_from_file g be None path ((w, db0 @ calls), x) = (r, ((w', db'), x'))"
  shows "\<exists>calls'. db' = db0 @ calls @ calls' \<and> no_marker calls' \<and>
     (r \<in> range Inr \<longrightarrow> (\<exists>s. staged_from g be path s \<and> ledgers_written (ig_answers g) db0 (ss @ [s]) w' (calls @ calls')))"
proof -
  obtain rr x1 where rr: "be_read be path x = (rr, x1)" by fastforce
  note run1 = run [unfolded ingest_ledger_from_file_def prod.case rr]
  consider (bad) e where "r = Inl e" "db' = db0 @ calls"
    | (one) compressed xdr_bytes meta where "rr = Inr compressed" "decompress_zstd (be_zstd be) compressed = Inr xdr_bytes"
        "deserialize_batch (be_from_xdr be) xdr_bytes = Inr [meta]"
  proof (cases rr)
    case (Inl e)
    then show ?thesis using run1 bad [of "BfIo e"] by auto
  next
    case (Inr compressed)
    show ?thesis
    proof (cases "decompress_zstd (be_zstd be) compressed")
      case (Inl e)
      then show ?thesis using run1 bad [of "BfHandler (HeParse e)"] \<open>rr = Inr compressed\<close> by auto
    next
      case zip: (Inr xdr_bytes)
      show ?thesis
      proof (cases "\<exists>meta. deserialize_batch (be_from_xdr be) xdr_bytes = Inr [meta]")
        case True
        then show ?thesis using one [OF Inr zip] by blast
      next
        case False
        obtain e where "(r, ((w', db'), x')) = (Inl e, (w, db0 @ calls), x1)"
        proof (cases "deserialize_batch (be_from_xdr be) xdr_bytes")
          case (Inl e)
          then show ?thesis using run1 \<open>rr = Inr compressed\<close> zip that [of "BfHandler (HeParse e)"] by simp
        next
          case ds: (Inr metas)
          then have "(\<forall>m. metas \<noteq> [m])" using False by blast
          then have "metas = [] \<or> (\<exists>m n ms. metas = m # n # ms)" by (cases metas rule: remdups_adj.cases) auto
          then show ?thesis
            using run1 \<open>rr = Inr compressed\<close> zip ds
              that [of "BfPanic ''expected 1 ledger per file in public archive layout''"] by fastforce
        qed
        then show ?thesis using bad by simp
      qed
    qed
  qed
  then show ?thesis
  proof cases
    case bad
    then show ?thesis by (intro exI [of _ "[]"]) auto
  next
    case one
    obtain y w1 db1 where y: "sink_write_ledger g None meta (w, db0 @ calls) = (y, w1, db1)" using prod_cases3 by blast
    have "w' = w1" "db' = db1" "r \<in> range Inr \<longleftrightarrow> y = Inr ()"
      using run1 by (auto simp: one y split: sum.splits)
    moreover obtain calls' where "db1 = db0 @ calls @ calls'" "no_marker calls'"
        "y = Inr () \<longrightarrow> (\<exists>s. staged_by g meta s \<and> ledgers_written (ig_answers g) db0 (ss @ [s]) w1 (calls @ calls'))"
      using sink_write_written [OF inv y] by (elim exE conjE) (rule that)
    moreover have "staged_from g be path s" if "staged_by g meta s" for s
      using one rr that unfolding staged_from_def file_ledger_def by blast
    ultimately show ?thesis by (intro exI [of _ calls']) auto
  qed
qed

lemma index_ledgers_written:
  assumes "ledgers_written (ig_answers g) db0 ss w calls"
    and "index_ledgers g be None p temp_dir completed keep seqs stats ((w, db0 @ calls), x) = (r, ((w', db'), x'))"
  shows "\<exists>calls'. db' = db0 @ calls @ calls' \<and> no_marker calls' \<and>
     (\<forall>stats'. r = Inr stats' \<longrightarrow> (\<exists>ss'. ledgers_written (ig_answers g) db0 (ss @ ss') w' (calls @ calls') \<and>
        list_all2 (\<lambda>q s. staged_from g be (local_ledger_path p q temp_dir) s) (filter (\<lambda>q. q \<notin> set completed) seqs) ss' \<and>
        ps_indexed stats' = ps_indexed stats + length ss'))"
  using assms
proof (induction seqs arbitrary: stats ss w calls x)
  case Nil
  then show ?case by (intro exI [of _ "[]"]) (auto intro!: exI [of _ "[]"])
next
  case (Cons seq seqs)
  show ?case
  proof (cases "seq \<in> set completed")
    case True
    let ?stats = "stats\<lparr>ps_skipped_completed := ps_skipped_completed stats + 1\<rparr>"
    let ?x = "drop_indexed_file be (local_ledger_path p seq temp_dir) keep x"
    have "index_ledgers g be None p temp_dir completed keep seqs ?stats ((w, db0 @ calls), ?x) = (r, ((w', db'), x'))"
      using Cons.prems(2) True by (simp add: Let_def)
    from Cons.IH [OF Cons.prems(1) this] show ?thesis using True by simp
  next
    case False
    let ?path = "local_ledger_path p seq temp_dir"
    obtain found x1 where f: "be_exists be ?path x = (found, x1)" by fastforce
    show ?thesis
    proof (cases found)
      case False
      then show ?thesis using Cons.prems(2) f \<open>seq \<notin> set completed\<close> by (intro exI [of _ "[]"]) (auto simp: Let_def)
    next
      case True
      obtain y st where "ingest_ledger_from_file g be None ?path ((w, db0 @ calls), x1) = (y, st)" by (meson surj_pair)
      moreover obtain w1 db1 x2 where "st = ((w1, db1), x2)" by (metis prod.exhaust)
      ultimately have y: "ingest_ledger_from_file g be None ?path ((w, db0 @ calls), x1) = (y, ((w1, db1), x2))" by simp
      obtain calls1 where c1: "db1 = db0 @ calls @ calls1" "no_marker calls1"
          "y \<in> range Inr \<longrightarrow> (\<exists>s. staged_from g be ?path s \<and> ledgers_written (ig_answers g) db0 (ss @ [s]) w1 (calls @ calls1))"
        using ingest_file_written [OF Cons.prems(1) y] by (elim exE conjE) (rule that)
      show ?thesis
      proof (cases y)
        case (Inl e)
        then have "r = Inl e" "db' = db1" using Cons.prems(2) f True y \<open>seq \<notin> set completed\<close> by (simp_all add: Let_def)
        then show ?thesis using c1(1,2) by (intro exI [of _ calls1]) simp
      next
        case (Inr bytes)
        obtain s where s: "staged_from g be ?path s" "ledgers_written (ig_answers g) db0 (ss @ [s]) w1 (calls @ calls1)"
          using c1(3) Inr by blast
        let ?stats = "stats\<lparr>ps_indexed := ps_indexed stats + 1, ps_total_bytes := ps_total_bytes stats + bytes\<rparr>"
        have rest: "index_ledgers g be None p temp_dir completed keep seqs ?stats
            ((w1, db0 @ (calls @ calls1)), drop_indexed_file be ?path keep x2) = (r, ((w', db'), x'))"
          using Cons.prems(2) f True y Inr c1(1) \<open>seq \<notin> set completed\<close> by (simp add: Let_def)
        obtain calls2 where c2: "db' = db0 @ (calls @ calls1) @ calls2" "no_marker calls2"
            "\<forall>stats'. r = Inr stats' \<longrightarrow> (\<exists>ss'. ledgers_written (ig_answers g) db0 ((ss @ [s]) @ ss') w' ((calls @ calls1) @ calls2) \<and>
               list_all2 (\<lambda>q s. staged_from g be (local_ledger_path p q temp_dir) s) (filter (\<lambda>q. q \<notin> set completed) seqs) ss' \<and>
               ps_indexed stats' = ps_indexed ?stats + length ss')"
          using Cons.IH [OF s(2) rest] by (elim exE conjE) (rule that)
        show ?thesis
        proof (intro exI [of _ "calls1 @ calls2"] conjI allI impI)
          show "db' = db0 @ calls @ calls1 @ calls2" using c2(1) by simp
          show "no_marker (calls1 @ calls2)" using c1(2) c2(2) by simp
          fix stats' assume "r = Inr stats'"
          then obtain ss' where ss': "ledgers_written (ig_answers g) db0 ((ss @ [s]) @ ss') w' ((calls @ calls1) @ calls2)"
               "list_all2 (\<lambda>q s. staged_from g be (local_ledger_path p q temp_dir) s) (filter (\<lambda>q. q \<notin> set completed) seqs) ss'"
               "ps_indexed stats' = ps_indexed ?stats + length ss'"
            using c2(3) by blast
          show "\<exists>ss'. ledgers_written (ig_answers g) db0 (ss @ ss') w' (calls @ calls1 @ calls2) \<and>
               list_all2 (\<lambda>q s. staged_from g be (local_ledger_path p q temp_dir) s)
                 (filter (\<lambda>q. q \<notin> set completed) (seq # seqs)) ss' \<and>
               ps_indexed stats' = ps_indexed stats + length ss'"
            using ss' s(1) \<open>seq \<notin> set completed\<close> by (intro exI [of _ "s # ss'"]) simp
        qed
      qed
    qed
  qed
qed

text \<open>Committing makes the marker calls after the data calls: a list cut at a call on \<open>ledgers\<close>.\<close>

lemma no_rows: "(\<And>c. c \<in> set cs \<Longrightarrow> row_for name c = None) \<Longrightarrow> filter_map (row_for name) cs = []"
  by (induction cs) auto

lemma row_for_table: "row_for name c \<noteq> None \<Longrightarrow> call_table c = Some name"
  by (cases c) (auto simp: row_for_def split: if_splits)

lemma cut_at_marker:
  assumes "xs @ ys = pre @ c # post" and "call_table c = Some ''ledgers''"
    and "\<And>d. d \<in> set xs \<Longrightarrow> call_table d \<noteq> Some ''ledgers''"
    and "\<And>d. d \<in> set ys \<Longrightarrow> call_table d = Some ''ledgers''"
  obtains m where "pre = xs @ m" "\<forall>d\<in>set m. call_table d = Some ''ledgers''"
proof -
  have "\<exists>m. pre = xs @ m \<and> ys = m @ c # post"
  proof (cases "\<exists>m. pre = xs @ m")
    case True
    then show ?thesis using assms(1) by auto
  next
    case False
    then have "c \<in> set xs" using assms(1) by (auto simp: append_eq_append_conv2 append_eq_Cons_conv)
    then show ?thesis using assms(2,3) by blast
  qed
  then show ?thesis using that assms(4) by auto
qed

definition partition_stored :: "db_answers \<Rightarrow> db_log \<Rightarrow> staged_ledger list \<Rightarrow> db_call list \<Rightarrow> bool" where
  "partition_stored ans db ss calls \<longleftrightarrow>
     writes_accepted ans db calls \<and>
     (\<forall>t. stored_rows calls (table_name t) = concat (map (\<lambda>s. rows_of s t) ss))"

lemma writer_commit_written:
  assumes inv: "ledgers_written ans db ss w calls" and nm: "no_marker calls"
    and run: "writer_commit ans w (db @ calls) = (r, db')"
  obtains made where "db' = db @ calls @ made"
    "\<And>pre c post. calls @ made = pre @ c # post \<Longrightarrow> call_table c = Some ''ledgers'' \<Longrightarrow> partition_stored ans db ss pre"
    "r = Inr () \<Longrightarrow> partition_stored ans db ss (calls @ made) \<and>
       stored_rows (calls @ made) ''ledgers'' = map RowLedger (concat (map sg_ledger_rows ss))"
proof -
  let ?rows = "\<lambda>t. concat (map (\<lambda>s. rows_of s t) ss)"
  let ?ends = "concat (map (\<lambda>t. end_plan t (?rows t)) commit_order)"
  let ?marker = "marker_plan (pw_ledger_rows w)"
  have "writer_commit ans w (db @ calls) = run_calls ans (?ends @ ?marker) (db @ calls)"
    using inv by (intro writer_commit_calls) (simp add: ledgers_written_def)
  then have cut: "run_calls ans (?ends @ ?marker) (db @ calls) = (r, db')" using run by simp
  obtain made rest where t: "?ends @ ?marker = made @ rest" "db' = (db @ calls) @ made"
      "r = Inr () \<longleftrightarrow> accepted ans (db @ calls) (?ends @ ?marker)" "r = Inr () \<longrightarrow> rest = []"
      "\<And>pre c post. made = pre @ c # post \<Longrightarrow> accepted ans (db @ calls) pre"
    by (rule run_calls_trace [OF cut]) (rule that, assumption+)
  have ends: "row_for name d = None" if "d \<in> set ?ends" for d name
    using that by (auto simp: end_plan_def row_for_def split: if_splits)
  have end_table: "call_table d \<noteq> Some ''ledgers''" if "d \<in> set ?ends" for d
    using that table_name_ledgers by (auto simp: end_plan_def split: if_splits)
  have tabled: "call_table d \<noteq> Some ''ledgers''" if "d \<in> set (calls @ ?ends)" for d
    using that nm end_table [of d] unfolding no_marker_def set_append by blast
  have stored: "partition_stored ans db ss (calls @ ?ends @ m)"
    if "accepted ans (db @ calls) (?ends @ m)" "\<forall>d\<in>set m. call_table d = Some ''ledgers''" for m
  proof -
    have "filter_map (row_for (table_name t)) (?ends @ m) = []" for t
      using that(2) ends row_for_table table_name_ledgers by (intro no_rows) fastforce
    moreover have "CallEnd (handle_of (table_name t)) \<in> set ?ends" if "?rows t \<noteq> []" for t
      using that order_all(2) by (auto simp: end_plan_def intro!: bexI [of _ t])
    ultimately have "stored_rows (calls @ ?ends @ m) (table_name t) = ?rows t" for t
      using inv by (cases "?rows t = []") (simp_all add: stored_rows_def ledgers_written_def)
    then show ?thesis using inv accepted_writes [OF that(1)]
      by (simp add: partition_stored_def ledgers_written_def writes_accepted_append)
  qed
  show ?thesis
  proof
    show "db' = db @ calls @ made" using t(2) by simp
  next
    fix pre c post assume c: "calls @ made = pre @ c # post" "call_table c = Some ''ledgers''"
    have all: "(calls @ ?ends) @ ?marker = pre @ c # (post @ rest)"
      using arg_cong [OF c(1), of "\<lambda>l. l @ rest"] t(1) by simp
    obtain m where m: "pre = (calls @ ?ends) @ m" "\<forall>d\<in>set m. call_table d = Some ''ledgers''"
      by (rule cut_at_marker [OF all c(2) tabled marker_plan_table])
    have "made = (?ends @ m) @ c # post" using c(1) m(1) by simp
    from t(5) [OF this] show "partition_stored ans db ss pre" using stored [of m] m by simp
  next
    assume ok: "r = Inr ()"
    have made: "made = ?ends @ ?marker" using t(1,4) ok by simp
    have "partition_stored ans db ss (calls @ made)"
      using stored [of ?marker] t(3) ok marker_plan_table by (simp add: made)
    moreover have "filter_map (row_for ''ledgers'') (calls @ ?ends) = []"
      using tabled row_for_table by (intro no_rows) blast
    moreover have "filter_map (row_for ''ledgers'') (map (CallWrite (handle_of ''ledgers'') \<circ> RowLedger) rows) =
        map RowLedger rows" for rows
      by (induction rows) (auto simp: row_for_def)
    ultimately show "partition_stored ans db ss (calls @ made) \<and>
        stored_rows (calls @ made) ''ledgers'' = map RowLedger (concat (map sg_ledger_rows ss))"
      using inv by (cases "pw_ledger_rows w = []")
        (auto simp: stored_rows_def ledgers_written_def made marker_plan_def row_for_def)
  qed
qed

text \<open>
  The ledgers a partition indexes: one for each sequence of its part of the range that is not
  stored yet, in order, read from the file of that sequence.
\<close>

definition partition_indexes ::
  "ingest_ext \<Rightarrow> 'w backfill_env \<Rightarrow> partition \<Rightarrow> string list \<Rightarrow> int \<Rightarrow> int \<Rightarrow> int list \<Rightarrow> staged_ledger list \<Rightarrow> bool" where
  "partition_indexes g be p temp_dir lo hi completed ss \<longleftrightarrow>
     list_all2 (\<lambda>q s. staged_from g be (local_ledger_path p q temp_dir) s)
       (filter (\<lambda>q. q \<notin> set completed) (case clamped p lo hi of (first, final) \<Rightarrow> [first..final])) ss"

text \<open>C9. A partition marks its ledgers only once all of them are stored.  When the backfill indexes a
  partition, with no table selection, every call it makes on \<open>ledgers\<close>, whether the run succeeds or not,
  comes after the ledger of every sequence of the partition that was not stored yet was read from the
  file of that sequence, parsed, staged whole and written: all calls before it were
  accepted, and the rows stored by then are exactly the rows of all these ledgers, table by table.  When
  it succeeds, these rows and one marker row per ledger are stored and all of them are counted.\<close>

theorem partition_marker_last:
  assumes "index_partition g be \<lparr>sk_only = None\<rparr> p temp_dir lo hi completed keep (db, w) = (r, db', w')"
  shows "\<exists>calls. db' = db @ calls \<and>
     (\<forall>pre c post. calls = pre @ c # post \<and> call_table c = Some ''ledgers'' \<longrightarrow>
        (\<exists>ss. partition_indexes g be p temp_dir lo hi completed ss \<and> partition_stored (ig_answers g) db ss pre)) \<and>
     (\<forall>stats. r = Inr stats \<longrightarrow>
        (\<exists>ss. partition_indexes g be p temp_dir lo hi completed ss \<and> partition_stored (ig_answers g) db ss calls \<and>
              stored_rows calls ''ledgers'' = map RowLedger (concat (map sg_ledger_rows ss)) \<and>
              ps_indexed stats = length ss))"
proof -
  obtain first final where range: "clamped p lo hi = (first, final)" by fastforce
  obtain r1 st where "index_ledgers g be None p temp_dir completed keep [first..final] no_stats ((writer_open, db @ []), w) = (r1, st)"
    by (meson surj_pair)
  moreover obtain pw db1 w1 where "st = ((pw, db1), w1)" by (metis prod.exhaust)
  ultimately have ix: "index_ledgers g be None p temp_dir completed keep [first..final] no_stats ((writer_open, db @ []), w)
      = (r1, ((pw, db1), w1))" by simp
  obtain calls1 where c1: "db1 = db @ calls1" "no_marker calls1"
      "\<forall>stats'. r1 = Inr stats' \<longrightarrow> (\<exists>ss'. ledgers_written (ig_answers g) db ss' pw calls1 \<and>
        list_all2 (\<lambda>q s. staged_from g be (local_ledger_path p q temp_dir) s) (filter (\<lambda>q. q \<notin> set completed) [first..final]) ss' \<and>
        ps_indexed stats' = length ss')"
    using index_ledgers_written [OF ledgers_written_open ix] by (auto simp: no_stats_def)
  have quiet: "call_table c \<noteq> Some ''ledgers''" if "calls1 = pre @ c # post" for pre c post
    using c1(2) that by (auto simp: no_marker_def)
  note run = assms [unfolded index_partition_def prod.case range sink.select_convs]
  show ?thesis
  proof (cases r1)
    case (Inl e)
    then have "r = Inl e" "db' = db @ calls1" using run ix c1(1) by (simp_all add: writer_abort_def)
    then show ?thesis using quiet by (intro exI [of _ calls1]) blast
  next
    case (Inr stats)
    obtain ss where ss: "ledgers_written (ig_answers g) db ss pw calls1" "partition_indexes g be p temp_dir lo hi completed ss"
        "ps_indexed stats = length ss"
      using c1(3) Inr by (auto simp: partition_indexes_def range)
    obtain x db2 where x: "writer_commit (ig_answers g) pw (db @ calls1) = (x, db2)" by fastforce
    have r: "db' = db2" "r \<in> range Inr \<longleftrightarrow> x = Inr ()" "x = Inr () \<longrightarrow> r = Inr stats"
      using run ix x c1(1) Inr by (auto split: sum.splits)
    obtain made where m: "db2 = db @ calls1 @ made"
        "\<And>pre c post. calls1 @ made = pre @ c # post \<Longrightarrow> call_table c = Some ''ledgers'' \<Longrightarrow> partition_stored (ig_answers g) db ss pre"
        "x = Inr () \<Longrightarrow> partition_stored (ig_answers g) db ss (calls1 @ made) \<and>
           stored_rows (calls1 @ made) ''ledgers'' = map RowLedger (concat (map sg_ledger_rows ss))"
      by (rule writer_commit_written [OF ss(1) c1(2) x]) (rule that, assumption+)
    show ?thesis
    proof (intro exI [of _ "calls1 @ made"] conjI allI impI)
      show "db' = db @ calls1 @ made" using r(1) m(1) by simp
    next
      fix pre c post assume "calls1 @ made = pre @ c # post \<and> call_table c = Some ''ledgers''"
      then show "\<exists>ss. partition_indexes g be p temp_dir lo hi completed ss \<and> partition_stored (ig_answers g) db ss pre"
        using m(2) ss(2) by blast
    next
      fix stats' assume s: "r = Inr stats'"
      then have "x = Inr ()" "stats' = stats" using r(2,3) by auto
      then show "\<exists>ss. partition_indexes g be p temp_dir lo hi completed ss \<and> partition_stored (ig_answers g) db ss (calls1 @ made) \<and>
          stored_rows (calls1 @ made) ''ledgers'' = map RowLedger (concat (map sg_ledger_rows ss)) \<and>
          ps_indexed stats' = length ss"
        using m(3) ss(2,3) by blast
    qed
  qed
qed

text \<open>A partition of which one ledger is in the run; every file of the folder holds it.\<close>

definition demo_backfill :: "unit backfill_env" where
  "demo_backfill =
     \<lparr>be_create_dir = (\<lambda>d w. (Inr (), w)), be_read_dir = (\<lambda>d w. (Inr None, w)), be_aws_sync = (\<lambda>f d w. (Inr (0, []), w)),
      be_aws_ls = (\<lambda>f w. (Inr (0, []), w)), be_sleep = (\<lambda>n w. w), be_exists = (\<lambda>p w. (True, w)),
      be_read = (\<lambda>p w. (Inr ''z'', w)), be_remove_file = (\<lambda>p w. (Inr (), w)), be_remove_dir = (\<lambda>p w. (Inr True, w)),
      be_zstd = Inr, be_from_xdr = (\<lambda>b l. Inr [demo_ledger]), be_archive = None\<rparr>"

definition demo_partition :: partition where
  "demo_partition = \<lparr>pt_start = 0, pt_end = 63999, pt_hex = ''FFFFFFFF''\<rparr>"

lemma demo_indexed:
  "map_res ps_indexed (fst (index_partition demo_ingest demo_backfill \<lparr>sk_only = None\<rparr> demo_partition [] 7 7 [] False ([], ()))) = Inr 1"
proof -
  have range: "clamped demo_partition 7 7 = (7, 7)"
    by (simp add: clamped_def demo_partition_def first_ledger_def first_closed_ledger_def)
  obtain w db where sink: "sink_write_ledger demo_ingest None demo_ledger (writer_open, []) = (Inr (), w, db)"
    by (rule demo_sink)
  obtain calls s where written: "ledgers_written (ig_answers demo_ingest) [] [s] w db" "db = calls"
    using sink_write_written [OF ledgers_written_open [of _ "[]"], of demo_ingest demo_ledger "Inr ()" w db] sink by auto
  have "fst (writer_commit (\<lambda>db c. None) w db) = Inr ()"
    using written by (subst writer_commit_calls [where rows = "rows_of s"]) (simp_all add: ledgers_written_def run_calls_all)
  then obtain db' where commit: "writer_commit (\<lambda>db c. None) w db = (Inr (), db')" by (metis prod.collapse)
  have one: "ingest_ledger_from_file demo_ingest demo_backfill None path ((writer_open, []), ()) = (Inr 1, ((w, db), ()))" for path
    by (simp add: ingest_ledger_from_file_def demo_backfill_def decompress_zstd_def max_decompressed_size_def
        deserialize_batch_def sink)
  have "be_exists demo_backfill path () = (True, ())" for path by (simp add: demo_backfill_def)
  then show ?thesis
    by (simp add: index_partition_def range one Let_def no_stats_def map_res_def)
       (simp add: demo_ingest_def commit)
qed

theorem partition_marker_last_witness:
  "\<exists>stats calls w' ss. index_partition demo_ingest demo_backfill \<lparr>sk_only = None\<rparr> demo_partition [] 7 7 [] False ([], ())
       = (Inr stats, calls, w') \<and>
     length ss = 1 \<and> ps_indexed stats = 1 \<and> partition_stored (ig_answers demo_ingest) [] ss calls \<and>
     stored_rows calls ''ledgers'' = map RowLedger (concat (map sg_ledger_rows ss))"
proof -
  obtain stats db' w' where run: "index_partition demo_ingest demo_backfill \<lparr>sk_only = None\<rparr> demo_partition [] 7 7 [] False ([], ())
      = (Inr stats, db', w')" and one: "ps_indexed stats = 1"
    using demo_indexed by (cases "index_partition demo_ingest demo_backfill \<lparr>sk_only = None\<rparr> demo_partition [] 7 7 [] False ([], ())")
      (auto simp: map_res_Inr)
  show ?thesis using partition_marker_last [OF run] run one by auto
qed

end
