(* ===== verification/UriGuard.thy ===== *)
theory UriGuard
  imports Rows
begin

text \<open>
  What the enrichment fetchers will contact: the guard on token URIs
  (\<open>enrichment-shared/src/nft_token_uri/validate_uri.rs\<close>), the guard on home domains and redirects
  (\<open>sep1/client.rs\<close>), and which failures are worth a retry (\<open>http_transient.rs\<close>, \<open>errors.rs\<close>).  Base32
  and the public suffix list are third-party.
\<close>

subsection \<open>Text\<close>

text \<open>\<open>s.split([...]).next()\<close>: what stands before the first of the separators.\<close>

definition before_any :: "char list \<Rightarrow> string \<Rightarrow> string" where
  "before_any seps s = takeWhile (\<lambda>c. c \<notin> set seps) s"

definition host_char :: "char \<Rightarrow> bool" where
  "host_char c \<longleftrightarrow> ascii_alphanumeric c \<or> c = CHR ''.'' \<or> c = CHR ''-''"

text \<open>\<open>replace("%2e", ".")\<close>.\<close>

function unescape_dots :: "string \<Rightarrow> string" where
  "unescape_dots s =
     (case s of
        [] \<Rightarrow> []
      | c # r \<Rightarrow> if prefix ''%2e'' s then CHR ''.'' # unescape_dots (drop 3 s) else c # unescape_dots r)"
  by pat_completeness auto

termination
  by (relation "measure length") (auto simp: prefix_def)

declare unescape_dots.simps [simp del]

text \<open>
  \<open>parse::<IpAddr>().is_ok()\<close> on a host of letters, digits, dots and hyphens, where only an IPv4 address
  can stand: four numbers up to 255 without a leading zero.
\<close>

definition ipv4_octet :: "string \<Rightarrow> bool" where
  "ipv4_octet s \<longleftrightarrow>
     s \<noteq> [] \<and> length s \<le> 3 \<and> list_all is_ascii_digit s \<and> (length s = 1 \<or> hd s \<noteq> CHR ''0'') \<and> digits_value s \<le> 255"

definition parses_as_ip :: "string \<Rightarrow> bool" where
  "parses_as_ip host \<longleftrightarrow> (let parts = split_all (CHR ''.'') host in length parts = 4 \<and> list_all ipv4_octet parts)"

subsection \<open>Content ids\<close>

fun varint_from :: "nat list \<Rightarrow> nat \<Rightarrow> nat \<Rightarrow> (nat \<times> nat list) option" where
  "varint_from [] i acc = None"
| "varint_from (b # rest) i acc =
     (if 9 \<le> i then None
      else let acc' = acc + (b mod 128) * 2 ^ (7 * i)
           in if b < 128 then Some (acc', rest) else varint_from rest (i + 1) acc')"

definition read_varint :: "nat list \<Rightarrow> nat option \<times> nat list" where
  "read_varint rest = (case varint_from rest 0 0 of Some (v, rest') \<Rightarrow> (Some v, rest') | None \<Rightarrow> (None, rest))"

definition is_cid_v1 :: "nat list \<Rightarrow> bool" where
  "is_cid_v1 bytes =
     (case read_varint bytes of (version, r1) \<Rightarrow>
      case read_varint r1 of (codec, r2) \<Rightarrow>
      case read_varint r2 of (hash_code, r3) \<Rightarrow>
      case read_varint r3 of (digest_len, rest) \<Rightarrow>
        version = Some 1 \<and> codec \<noteq> None \<and> hash_code \<noteq> None \<and> digest_len = Some (length rest))"

definition base58 :: string where
  "base58 = ''123456789ABCDEFGHJKLMNPQRSTUVWXYZabcdefghijkmnopqrstuvwxyz''"

definition ascii_upper :: "char \<Rightarrow> char" where
  "ascii_upper c = (if CHR ''a'' \<le> c \<and> c \<le> CHR ''z'' then char_of (of_char c - (32::nat)) else c)"

definition cid_decodes :: "(string \<Rightarrow> nat list option) \<Rightarrow> string \<Rightarrow> bool" where
  "cid_decodes base32 cid =
     (case cid of
        [] \<Rightarrow> True
      | c # rest \<Rightarrow>
          if c = CHR ''Q'' then length cid = 46 \<and> prefix ''Qm'' cid \<and> list_all (\<lambda>ch. ch \<in> set base58) cid
          else if c = CHR ''b'' \<or> c = CHR ''B'' then
            (case base32 (map ascii_upper rest) of Some bytes \<Rightarrow> is_cid_v1 bytes | None \<Rightarrow> False)
          else True)"

subsection \<open>Token URIs\<close>

record reqwest_error =
  re_timeout :: bool
  re_connect :: bool
  re_redirect :: bool
  re_status :: "nat option"

datatype nft_error =
    NuRpc string
  | NuHttp string reqwest_error
  | NuHttpStatus string nat
  | NuBodyTooLarge nat
  | NuMalformedJson string
  | NuUnsupportedContentType string
  | NuUnsafeScheme string
  | NuMalformedUri string
  | NuMalformedInput string string
  | NuMalformedResponse string
  | NuXdr string

definition ipfs_guard :: "(string \<Rightarrow> nat list option) \<Rightarrow> string \<Rightarrow> bool" where
  "ipfs_guard base32 rest =
     (rest \<noteq> [] \<and>
      (let normalized = unescape_dots (to_ascii_lowercase rest)
       in list_all (\<lambda>seg. seg \<noteq> ''..'' \<and> seg \<noteq> ''.'') (split_all (CHR ''/'') normalized)) \<and>
      (let content = (case strip_prefix ''ipfs/'' rest of Some after \<Rightarrow> after | None \<Rightarrow> rest)
       in cid_decodes base32 (before_any [CHR ''/'', CHR ''?'', CHR 0x23, CHR ''%''] content)))"

definition https_guard :: "string \<Rightarrow> bool" where
  "https_guard rest =
     (let authority = before_any [CHR ''/'', CHR ''?'', CHR 0x23] rest;
          host_only = before_any [CHR '':''] authority
      in CHR ''@'' \<notin> set authority \<and> host_only \<noteq> [] \<and> list_all host_char host_only \<and>
         \<not> parses_as_ip host_only \<and> CHR ''.'' \<in> set host_only)"

definition validate_uri :: "(string \<Rightarrow> nat list option) \<Rightarrow> string \<Rightarrow> nft_error + unit" where
  "validate_uri base32 raw =
     (let uri = trim_ws raw
      in if uri = [] then Inl (NuMalformedUri uri)
         else
           (case strip_prefix ''https://'' uri of
              Some rest \<Rightarrow> if https_guard rest then Inr () else Inl (NuMalformedUri uri)
            | None \<Rightarrow>
                (case strip_prefix ''ipfs://'' uri of
                   Some rest \<Rightarrow> if ipfs_guard base32 rest then Inr () else Inl (NuMalformedUri uri)
                 | None \<Rightarrow> Inl (NuUnsafeScheme uri))))"

subsection \<open>Home domains and redirects\<close>

datatype sep1_error =
    SepMissingHomeDomain
  | SepMalformedHomeDomain string
  | SepHttp string reqwest_error
  | SepTimeout string
  | SepRedirectBlocked string string
  | SepBodyTooLarge nat
  | SepNonUtf8Body
  | SepMalformedToml string

definition validate_host :: "string \<Rightarrow> sep1_error + unit" where
  "validate_host host =
     (if host = [] then Inl (SepMalformedHomeDomain host)
      else if \<not> list_all host_char host then Inl (SepMalformedHomeDomain host)
      else if parses_as_ip host then Inl (SepMalformedHomeDomain host)
      else Inr ())"

definition redirect_allowed :: "(string \<Rightarrow> string option) \<Rightarrow> string \<Rightarrow> string \<Rightarrow> bool" where
  "redirect_allowed registrable origin_host target_host =
     (case validate_host target_host of
        Inl e \<Rightarrow> False
      | Inr u \<Rightarrow>
          (case (registrable origin_host, registrable target_host) of
             (Some a, Some b) \<Rightarrow> eq_ignore_ascii_case a b
           | _ \<Rightarrow> False))"

definition max_redirects :: nat where "max_redirects = 4"

text \<open>A URL of a redirect chain: its scheme and its host.\<close>

record url_parts =
  up_scheme :: string
  up_host :: "string option"

definition same_etld1_redirect_policy ::
  "(string \<Rightarrow> string option) \<Rightarrow> url_parts list \<Rightarrow> url_parts \<Rightarrow> bool" where
  "same_etld1_redirect_policy registrable previous target =
     (if max_redirects < length previous then False
      else if up_scheme target \<noteq> ''https'' then False
      else (case up_host target of
              None \<Rightarrow> False
            | Some target_host \<Rightarrow>
                (case Option.bind (nth_opt previous 0) up_host of
                   Some origin \<Rightarrow> redirect_allowed registrable origin target_host
                 | None \<Rightarrow> False)))"

subsection \<open>Retries\<close>

definition server_error :: "nat \<Rightarrow> bool" where "server_error s \<longleftrightarrow> 500 \<le> s \<and> s < 600"

definition is_transient_reqwest :: "reqwest_error \<Rightarrow> bool" where
  "is_transient_reqwest err =
     (if re_redirect err then False
      else (case re_status err of Some s \<Rightarrow> server_error s \<or> s = 429 | None \<Rightarrow> \<not> re_connect err))"

definition contains :: "string \<Rightarrow> string \<Rightarrow> bool" where
  "contains s p \<longleftrightarrow> sublist p s"

definition is_transient_soroban_rpc_pattern :: "string \<Rightarrow> bool" where
  "is_transient_soroban_rpc_pattern msg =
     (let m = to_ascii_lowercase msg
      in list_ex (contains m)
           [''-32603'', ''-32000'', ''rate limit'', ''try again'', ''overloaded'', ''unavailable'', ''bad gateway'',
            ''gateway timeout'', ''timeout'', ''deadline''])"

fun nft_is_transient :: "nft_error \<Rightarrow> bool" where
  "nft_is_transient (NuHttp host source) = is_transient_reqwest source"
| "nft_is_transient (NuHttpStatus host status) = (status = 429 \<or> server_error status)"
| "nft_is_transient (NuRpc msg) = is_transient_soroban_rpc_pattern msg"
| "nft_is_transient _ = False"

fun is_endpoint_fault :: "nft_error \<Rightarrow> bool" where
  "is_endpoint_fault (NuHttp host source) =
     (re_timeout source \<or> re_connect source \<or> re_redirect source \<or>
      (case re_status source of Some s \<Rightarrow> server_error s \<or> s = 429 | None \<Rightarrow> False))"
| "is_endpoint_fault (NuHttpStatus host status) =
     ((300 \<le> status \<and> status < 400) \<or> status = 429 \<or> server_error status)"
| "is_endpoint_fault (NuRpc msg) = is_transient_soroban_rpc_pattern msg"
| "is_endpoint_fault _ = False"

fun sep1_is_transient :: "sep1_error \<Rightarrow> bool" where
  "sep1_is_transient (SepTimeout host) = True"
| "sep1_is_transient (SepHttp host source) = is_transient_reqwest source"
| "sep1_is_transient _ = False"

end
