(* ===== verification/NftFetch.thy ===== *)
theory NftFetch
  imports UriGuard
begin

text \<open>
  The fetcher of NFT metadata (\<open>nft_token_uri/client.rs\<close>, \<open>inline_metadata.rs\<close>): simulate \<open>token_uri\<close> over
  the RPC endpoints, check the URI, fetch the JSON over the IPFS gateways.  The requests form a log and
  the answer to a request may depend on everything requested before.  The HTTP library sends a request
  under the redirect policy its client was built with and answers with the response and the calls it
  made, redirects followed included.  That library, the parsers of URLs, the public suffix list, the
  XDR codec, base64, base32, data URLs and the JSON parser are functions of \<open>net_ext\<close>; the cache is what
  it still holds.
\<close>

subsection \<open>Requests and responses\<close>

datatype net_call = NetGet string | NetPost string json

type_synonym net_log = "net_call list"

record http_response =
  hr_status :: nat
  hr_content_type :: "string option"
  hr_location :: "string option"
  hr_chunks :: "string list"
  hr_broken :: "reqwest_error option"

record data_url =
  du_type :: string
  du_subtype :: string
  du_body :: "string option"

type_synonym redirect_policy = "url_parts list \<Rightarrow> url_parts \<Rightarrow> bool"

record net_ext =
  nx_http :: "redirect_policy \<Rightarrow> net_log \<Rightarrow> net_call \<Rightarrow> (reqwest_error + http_response) \<times> net_call list"
  nx_url :: "string \<Rightarrow> url_parts option"
  nx_registrable :: "string \<Rightarrow> string option"
  nx_strkey :: "string \<Rightarrow> bytes option"
  nx_envelope :: "bytes \<Rightarrow> string \<Rightarrow> scval list \<Rightarrow> string + string"
  nx_b64 :: "string \<Rightarrow> string + bytes"
  nx_scval :: "bytes \<Rightarrow> string + scval"
  nx_debug :: "scval \<Rightarrow> string"
  nx_utf8_error :: "bytes \<Rightarrow> string"
  nx_json_slice :: "bytes \<Rightarrow> string + json"
  nx_decode_error :: "string \<Rightarrow> reqwest_error"
  nx_base32 :: "string \<Rightarrow> nat list option"
  nx_data_url :: "string \<Rightarrow> data_url option"

text \<open>The client is built with the redirect policy of SEP-1.\<close>

definition client_redirects :: "net_ext \<Rightarrow> redirect_policy" where
  "client_redirects nx = same_etld1_redirect_policy (nx_registrable nx)"

definition send :: "net_ext \<Rightarrow> net_call \<Rightarrow> net_log \<Rightarrow> (reqwest_error + http_response) \<times> net_log" where
  "send nx c net = (case nx_http nx (client_redirects nx) net c of (answer, calls) \<Rightarrow> (answer, net @ calls))"

definition success_status :: "nat \<Rightarrow> bool" where "success_status s \<longleftrightarrow> 200 \<le> s \<and> s < 300"

definition host_of :: "string \<Rightarrow> string option" where
  "host_of url =
     do { rest \<leftarrow> (case strip_prefix ''https://'' url of Some r \<Rightarrow> Some r | None \<Rightarrow> strip_prefix ''http://'' url);
          let host = before_any [CHR '':''] (before_any [CHR ''/'', CHR ''?'', CHR 0x23] rest)
          in if host = [] then None else Some host }"

text \<open>\<open>error_for_status\<close> flags 4xx and 5xx; anything else that is no success keeps only its status.\<close>

definition non_success_error :: "nat \<Rightarrow> string \<Rightarrow> nft_error" where
  "non_success_error status host =
     (if 400 \<le> status \<and> status < 600
      then NuHttp host \<lparr>re_timeout = False, re_connect = False, re_redirect = False, re_status = Some status\<rparr>
      else NuHttpStatus host status)"

definition max_body_bytes :: nat where "max_body_bytes = 256 * 1024"

fun read_body :: "nat \<Rightarrow> string \<Rightarrow> string list \<Rightarrow> reqwest_error option \<Rightarrow> string \<Rightarrow> nft_error + bytes" where
  "read_body limit host [] broken buf =
     (case broken of None \<Rightarrow> Inr buf | Some source \<Rightarrow> Inl (NuHttp host source))"
| "read_body limit host (chunk # chunks) broken buf =
     (if limit < length buf + length chunk then Inl (NuBodyTooLarge limit)
      else read_body limit host chunks broken (buf @ chunk))"

definition capped_body :: "http_response \<Rightarrow> string \<Rightarrow> nft_error + bytes" where
  "capped_body resp host = read_body max_body_bytes host (hr_chunks resp) (hr_broken resp) []"

subsection \<open>Simulating a call\<close>

definition build_simulate_envelope ::
  "net_ext \<Rightarrow> string \<Rightarrow> string \<Rightarrow> nat option \<Rightarrow> nft_error + string" where
  "build_simulate_envelope nx contract function_name token =
     (case nx_strkey nx contract of
        None \<Rightarrow> Inl (NuMalformedInput ''contract_id strkey'' contract)
      | Some hash \<Rightarrow>
          (let args = (case token of Some n \<Rightarrow> [ScU32 (word_of_nat n)] | None \<Rightarrow> [])
           in case nx_envelope nx hash function_name args of Inl e \<Rightarrow> Inl (NuXdr e) | Inr b64 \<Rightarrow> Inr b64))"

definition simulate_request :: "string \<Rightarrow> json" where
  "simulate_request envelope_b64 =
     JObj [(''jsonrpc'', JStr ''2.0''), (''id'', JNum 1), (''method'', JStr ''simulateTransaction''),
           (''params'', JObj [(''transaction'', JStr envelope_b64), (''xdrFormat'', JStr ''base64'')])]"

definition simulate_result :: "json \<Rightarrow> nft_error + string" where
  "simulate_result body =
     (case jget body ''error'' of
        Some err \<Rightarrow> Inl (NuRpc (json_text err))
      | None \<Rightarrow>
          try_res (ok_or (NuMalformedResponse ''missing result'') (jget body ''result'')) (\<lambda>result.
            case get_str result ''error'' of
              Some err \<Rightarrow> Inl (NuRpc err)
            | None \<Rightarrow>
                ok_or (NuMalformedResponse ''missing results[0].xdr'')
                  (do { rs \<leftarrow> jget result ''results''; a \<leftarrow> as_array rs; r \<leftarrow> nth_opt a 0; get_str r ''xdr'' })))"

definition simulate_transaction ::
  "net_ext \<Rightarrow> string \<Rightarrow> string \<Rightarrow> net_log \<Rightarrow> (nft_error + string) \<times> net_log" where
  "simulate_transaction nx rpc_url envelope_b64 net =
     (let host = unwrap_or (host_of rpc_url) rpc_url
      in case send nx (NetPost rpc_url (simulate_request envelope_b64)) net of
           (Inl source, net1) \<Rightarrow> (Inl (NuHttp host source), net1)
         | (Inr resp, net1) \<Rightarrow>
             if \<not> success_status (hr_status resp) then (Inl (non_success_error (hr_status resp) host), net1)
             else
               (case hr_broken resp of
                  Some source \<Rightarrow> (Inl (NuHttp host source), net1)
                | None \<Rightarrow>
                    (case nx_json_slice nx (concat (hr_chunks resp)) of
                       Inl e \<Rightarrow> (Inl (NuHttp host (nx_decode_error nx e)), net1)
                     | Inr body \<Rightarrow> (simulate_result body, net1))))"

definition is_token_uri_arity_mismatch :: "string \<Rightarrow> bool" where
  "is_token_uri_arity_mismatch rpc_error_msg \<longleftrightarrow> contains rpc_error_msg ''MismatchingParameterLen''"

definition simulate_token_uri_with_fallback ::
  "net_ext \<Rightarrow> string \<Rightarrow> string \<Rightarrow> nat \<Rightarrow> net_log \<Rightarrow> (nft_error + string) \<times> net_log" where
  "simulate_token_uri_with_fallback nx rpc_url contract token net =
     (case build_simulate_envelope nx contract ''token_uri'' (Some token) of
        Inl e \<Rightarrow> (Inl e, net)
      | Inr per_token \<Rightarrow>
          (case simulate_transaction nx rpc_url per_token net of
             (Inl (NuRpc msg), net1) \<Rightarrow>
               if is_token_uri_arity_mismatch msg then
                 (case build_simulate_envelope nx contract ''token_uri'' None of
                    Inl e \<Rightarrow> (Inl e, net1)
                  | Inr collection \<Rightarrow> simulate_transaction nx rpc_url collection net1)
               else (Inl (NuRpc msg), net1)
           | other \<Rightarrow> other))"

text \<open>
  Trying the endpoints in turn: the first answer, or the first error that is no fault of its endpoint.
  \<open>None\<close> is the panic of an empty pool.
\<close>

fun failover ::
  "('u \<Rightarrow> net_log \<Rightarrow> (nft_error + 'a) \<times> net_log) \<Rightarrow> 'u list \<Rightarrow> nft_error option \<Rightarrow> net_log \<Rightarrow>
   (nft_error + 'a) option \<times> net_log" where
  "failover f [] seen net = (map_option Inl seen, net)"
| "failover f (u # us) seen net =
     (case f u net of
        (Inr a, net1) \<Rightarrow> (Some (Inr a), net1)
      | (Inl e, net1) \<Rightarrow> if is_endpoint_fault e then failover f us (Some e) net1 else (Some (Inl e), net1))"

text \<open>The pool from position \<open>start\<close> on, around the end.\<close>

definition from_start :: "nat \<Rightarrow> 'a list \<Rightarrow> 'a list" where
  "from_start start pool = map (\<lambda>k. pool ! ((start + k) mod length pool)) [0..<length pool]"

definition simulate_with_failover ::
  "net_ext \<Rightarrow> string list \<Rightarrow> nat \<Rightarrow> string \<Rightarrow> nat \<Rightarrow> net_log \<Rightarrow> (nft_error + string) option \<times> net_log" where
  "simulate_with_failover nx rpc_urls start contract token net =
     failover (\<lambda>url. simulate_token_uri_with_fallback nx url contract token) (from_start start rpc_urls) None net"

definition simulate_name_with_failover ::
  "net_ext \<Rightarrow> string list \<Rightarrow> nat \<Rightarrow> string \<Rightarrow> net_log \<Rightarrow> (nft_error + string) option \<times> net_log" where
  "simulate_name_with_failover nx rpc_urls start contract net =
     (case build_simulate_envelope nx contract ''name'' None of
        Inl e \<Rightarrow> (Some (Inl e), net)
      | Inr envelope \<Rightarrow>
          failover (\<lambda>url. simulate_transaction nx url envelope) (from_start start rpc_urls) None net)"

definition decode_string_result :: "net_ext \<Rightarrow> string \<Rightarrow> string \<Rightarrow> nft_error + string" where
  "decode_string_result nx xdr_b64 function_name =
     (case nx_b64 nx xdr_b64 of
        Inl e \<Rightarrow> Inl (NuMalformedResponse (''xdr base64: '' @ e))
      | Inr raw \<Rightarrow>
          (case nx_scval nx raw of
             Inl e \<Rightarrow> Inl (NuXdr e)
           | Inr (ScString s) \<Rightarrow>
               (case from_utf8 s of
                  Some text \<Rightarrow> Inr text
                | None \<Rightarrow> Inl (NuMalformedResponse (function_name @ '' not UTF-8: '' @ nx_utf8_error nx s)))
           | Inr other \<Rightarrow>
               Inl (NuMalformedResponse (function_name @ '' returned non-String ScVal: '' @ nx_debug nx other))))"

subsection \<open>Fetching the metadata\<close>

definition default_ipfs_gateways :: "string list" where
  "default_ipfs_gateways = [''https://ipfs.filebase.io/ipfs/'', ''https://gateway.pinata.cloud/ipfs/'']"

definition resolve_ipfs_to_https :: "string \<Rightarrow> string" where
  "resolve_ipfs_to_https uri =
     (case strip_prefix ''ipfs://'' uri of Some rest \<Rightarrow> default_ipfs_gateways ! 0 @ rest | None \<Rightarrow> uri)"

definition ipfs_candidate_urls :: "string \<Rightarrow> string list \<Rightarrow> string list" where
  "ipfs_candidate_urls uri gateways =
     (case strip_prefix ''ipfs://'' uri of
        Some rest \<Rightarrow> if gateways \<noteq> [] then map (\<lambda>gateway. gateway @ rest) gateways else [uri]
      | None \<Rightarrow> [uri])"

definition fetch_one_metadata :: "net_ext \<Rightarrow> string \<Rightarrow> net_log \<Rightarrow> (nft_error + json) \<times> net_log" where
  "fetch_one_metadata nx url net =
     (let host = unwrap_or (host_of url) url
      in case send nx (NetGet url) net of
           (Inl source, net1) \<Rightarrow> (Inl (NuHttp host source), net1)
         | (Inr resp, net1) \<Rightarrow>
             if \<not> success_status (hr_status resp) then (Inl (non_success_error (hr_status resp) host), net1)
             else
               (let content_type = to_ascii_lowercase (unwrap_or (hr_content_type resp) [])
                in if contains content_type ''application/json'' \<or> contains content_type ''text/json'' then
                     (case capped_body resp host of
                        Inl e \<Rightarrow> (Inl e, net1)
                      | Inr bytes \<Rightarrow>
                          (case nx_json_slice nx bytes of
                             Inl e \<Rightarrow> (Inl (NuMalformedJson e), net1) | Inr v \<Rightarrow> (Inr v, net1)))
                   else if prefix ''image/'' content_type then (Inr (JObj [(''image'', JStr url)]), net1)
                   else (Inl (NuUnsupportedContentType content_type), net1)))"

definition fetch_metadata_with_failover ::
  "net_ext \<Rightarrow> string \<Rightarrow> string list \<Rightarrow> net_log \<Rightarrow> (nft_error + json) \<times> net_log" where
  "fetch_metadata_with_failover nx uri gateways net =
     (case failover (fetch_one_metadata nx) (ipfs_candidate_urls uri gateways) None net of
        (Some r, net1) \<Rightarrow> (r, net1)
      | (None, net1) \<Rightarrow> (Inl (NuMalformedUri uri), net1))"

text \<open>Metadata carried in the URI itself.\<close>

definition mime_matches :: "data_url \<Rightarrow> string \<Rightarrow> string \<Rightarrow> bool" where
  "mime_matches d ty subty \<longleftrightarrow> du_type d = ty \<and> du_subtype d = subty"

definition metadata_from_data_uri :: "net_ext \<Rightarrow> string \<Rightarrow> nft_error + json" where
  "metadata_from_data_uri nx uri =
     (if max_body_bytes < length uri then Inl (NuBodyTooLarge max_body_bytes)
      else
        (case nx_data_url nx uri of
           None \<Rightarrow> Inl (NuMalformedUri uri)
         | Some d \<Rightarrow>
             if du_type d = ''image'' then Inr (JObj [(''image'', JStr uri)])
             else if \<not> (mime_matches d ''application'' ''json'' \<or> mime_matches d ''text'' ''json'') then
               Inl (NuUnsupportedContentType (du_type d @ ''/'' @ du_subtype d))
             else
               (case du_body d of
                  None \<Rightarrow> Inl (NuMalformedUri uri)
                | Some body \<Rightarrow>
                    (case nx_json_slice nx body of Inl e \<Rightarrow> Inl (NuMalformedJson e) | Inr v \<Rightarrow> Inr v))))"

definition fetch_uncached ::
  "net_ext \<Rightarrow> string list \<Rightarrow> string list \<Rightarrow> nat \<Rightarrow> string \<Rightarrow> string \<Rightarrow> net_log \<Rightarrow>
   (nft_error + json) option \<times> net_log" where
  "fetch_uncached nx rpc_urls gateways start contract token_id net =
     (case parse_unsigned u32_max token_id of
        None \<Rightarrow> (Some (Inl (NuMalformedInput ''token_id (not u32)'' token_id)), net)
      | Some token \<Rightarrow>
          (case simulate_with_failover nx rpc_urls start contract (nat token) net of
             (None, net1) \<Rightarrow> (None, net1)
           | (Some (Inl e), net1) \<Rightarrow> (Some (Inl e), net1)
           | (Some (Inr xdr), net1) \<Rightarrow>
               (case decode_string_result nx xdr ''token_uri'' of
                  Inl e \<Rightarrow> (Some (Inl e), net1)
                | Inr uri \<Rightarrow>
                    if prefix ''data:'' (to_ascii_lowercase (strip_start white_space uri)) then
                      (Some (metadata_from_data_uri nx uri), net1)
                    else
                      (case validate_uri (nx_base32 nx) uri of
                         Inl e \<Rightarrow> (Some (Inl e), net1)
                       | Inr u \<Rightarrow>
                           (case fetch_metadata_with_failover nx uri gateways net1 of
                              (r, net2) \<Rightarrow> (Some r, net2))))))"

subsection \<open>The fetcher\<close>

record nft_fetcher =
  nf_rpc_urls :: "string list"
  nf_gateways :: "string list"
  nf_cursor :: nat
  nf_cache :: "string \<rightharpoonup> json"
  nf_name_cache :: "string \<rightharpoonup> string option"

definition fetcher_build :: "string list \<Rightarrow> string list \<Rightarrow> nft_fetcher" where
  "fetcher_build rpc_urls gateways =
     \<lparr>nf_rpc_urls = rpc_urls, nf_gateways = gateways, nf_cursor = 0, nf_cache = Map.empty, nf_name_cache = Map.empty\<rparr>"

definition comma_list :: "string \<Rightarrow> string list" where
  "comma_list raw = filter (\<lambda>s. s \<noteq> []) (map trim_ws (split_all (CHR '','') raw))"

definition env_list :: "string option \<Rightarrow> string list option" where
  "env_list raw = Option.bind raw (\<lambda>r. if comma_list r = [] then None else Some (comma_list r))"

definition parse_rpc_urls :: "string option \<Rightarrow> string + string list" where
  "parse_rpc_urls raw =
     (let urls = comma_list (unwrap_or raw [])
      in if urls = [] then
           Inl (''SOROBAN_RPC_URLS is unset or empty: give the comma-separated Soroban RPC '' @
                ''endpoints of the network this program serves (the deployed lists '' @
                ''are `sorobanRpcUrls` in infra/envs/<env>.json)'')
         else Inr urls)"

definition fetcher_new :: "string option \<Rightarrow> string option \<Rightarrow> string + nft_fetcher" where
  "fetcher_new rpc_env gateway_env =
     map_res (\<lambda>rpc_urls. fetcher_build rpc_urls (unwrap_or (env_list gateway_env) default_ipfs_gateways))
       (parse_rpc_urls rpc_env)"

definition nft_resolve ::
  "net_ext \<Rightarrow> string \<Rightarrow> string \<Rightarrow> nft_fetcher \<times> net_log \<Rightarrow> (nft_error + json) option \<times> nft_fetcher \<times> net_log" where
  "nft_resolve nx contract token_id s =
     (case s of (f, net) \<Rightarrow>
        let key = contract @ '':'' @ token_id;
            f1 = f\<lparr>nf_cursor := nf_cursor f + 1\<rparr>
        in case nf_cache f key of
             Some v \<Rightarrow> (Some (Inr v), f1, net)
           | None \<Rightarrow>
               (case fetch_uncached nx (nf_rpc_urls f) (nf_gateways f) (nf_cursor f) contract token_id net of
                  (Some (Inr v), net1) \<Rightarrow> (Some (Inr v), f1\<lparr>nf_cache := (nf_cache f)(key \<mapsto> v)\<rparr>, net1)
                | (r, net1) \<Rightarrow> (r, f1, net1)))"

text \<open>\<open>chars().count()\<close>: the bytes that start a character.\<close>

definition char_count :: "string \<Rightarrow> nat" where
  "char_count s = length (filter (\<lambda>c. \<not> cont_byte (of_char c)) s)"

definition usable_collection_name :: "string \<Rightarrow> string option" where
  "usable_collection_name raw =
     (let trimmed = trim_ws raw in if trimmed \<noteq> [] \<and> char_count trimmed \<le> 4096 then Some trimmed else None)"

definition name_answer :: "net_ext \<Rightarrow> nft_error + string \<Rightarrow> nft_error + string option" where
  "name_answer nx r =
     (case r of
        Inr xdr \<Rightarrow>
          (case decode_string_result nx xdr ''name'' of
             Inr name \<Rightarrow> Inr (usable_collection_name name) | Inl e \<Rightarrow> Inr None)
      | Inl e \<Rightarrow> if nft_is_transient e then Inl e else Inr None)"

definition resolve_collection_name ::
  "net_ext \<Rightarrow> string \<Rightarrow> nft_fetcher \<times> net_log \<Rightarrow>
   (nft_error + string option) option \<times> nft_fetcher \<times> net_log" where
  "resolve_collection_name nx contract s =
     (case s of (f, net) \<Rightarrow>
        let f1 = f\<lparr>nf_cursor := nf_cursor f + 1\<rparr>
        in case nf_name_cache f contract of
             Some n \<Rightarrow> (Some (Inr n), f1, net)
           | None \<Rightarrow>
               (case simulate_name_with_failover nx (nf_rpc_urls f) (nf_cursor f) contract net of
                  (None, net1) \<Rightarrow> (None, f1, net1)
                | (Some r, net1) \<Rightarrow>
                    (case name_answer nx r of
                       Inr n \<Rightarrow> (Some (Inr n), f1\<lparr>nf_name_cache := (nf_name_cache f)(contract \<mapsto> n)\<rparr>, net1)
                     | Inl e \<Rightarrow> (Some (Inl e), f1, net1))))"

end
