(* ===== verification/Enrich.thy ===== *)
theory Enrich
  imports NftFetch
begin

text \<open>
  Enrichment: the indexer publishes the keys of new assets and NFTs
  (\<open>indexer/src/handler/enrichment_publish.rs\<close>), the worker (\<open>enrichment-worker/src/main.rs\<close>) takes the
  messages and stores one row per key (\<open>enrichment-shared/src/enrich_and_persist\<close>).  The rows offered to
  ClickHouse form a log; the database, the fetchers and the clock answer from it.  Of an error only its
  kind is kept where the source logs its text.
\<close>

subsection \<open>Keys and messages\<close>

record asset_enrich_key =
  ak_asset_type :: int
  ak_asset_code :: string
  ak_issuer_id :: int
  ak_contract_id :: int

record nft_enrich_key =
  nk_contract_id :: int
  nk_token_id :: string

definition asset_key_text :: "asset_enrich_key \<Rightarrow> string" where
  "asset_key_text k =
     show_int (ak_asset_type k) @ ''-'' @ ak_asset_code k @ ''-'' @ show_int (ak_issuer_id k) @ ''-'' @
     show_int (ak_contract_id k)"

definition nft_key_text :: "nft_enrich_key \<Rightarrow> string" where
  "nft_key_text k = show_int (nk_contract_id k) @ ''-'' @ nk_token_id k"

datatype enrichment_message = Sep1Assets asset_enrich_key | NftTokenUri nft_enrich_key

definition message_fields :: "enrichment_message \<Rightarrow> (string \<times> json) list" where
  "message_fields m =
     (case m of
        Sep1Assets k \<Rightarrow>
          [(''kind'', JStr ''sep1_assets''), (''asset_type'', JNum (ak_asset_type k)), (''asset_code'', JStr (ak_asset_code k)),
           (''issuer_id'', JNum (ak_issuer_id k)), (''contract_id'', JNum (ak_contract_id k))]
      | NftTokenUri k \<Rightarrow>
          [(''kind'', JStr ''nft_token_uri''), (''contract_id'', JNum (nk_contract_id k)), (''token_id'', JStr (nk_token_id k))])"

text \<open>A struct is written in the order of its fields.\<close>

definition struct_text :: "(string \<times> json) list \<Rightarrow> string" where
  "struct_text fs = CHR ''{'' # join_comma (map (\<lambda>(k, v). quote_json k @ CHR '':'' # json_text v) fs) @ ''}''"

definition one_field :: "(string \<times> json) list \<Rightarrow> string \<Rightarrow> json option" where
  "one_field ms name = (case filter (\<lambda>m. fst m = name) ms of [m] \<Rightarrow> Some (snd m) | _ \<Rightarrow> None)"

text \<open>The message of a JSON object, the kind and every field once, other members ignored.\<close>

definition read_message :: "json \<Rightarrow> enrichment_message option" where
  "read_message v =
     (case v of
        JObj ms \<Rightarrow>
          do { kj \<leftarrow> one_field ms ''kind''; kind \<leftarrow> as_str kj;
               if kind = ''sep1_assets'' then
                 do { tj \<leftarrow> one_field ms ''asset_type''; ty \<leftarrow> opt_filter fits_i16 (as_i64 tj);
                      cj \<leftarrow> one_field ms ''asset_code''; asset_code \<leftarrow> as_str cj;
                      ij \<leftarrow> one_field ms ''issuer_id''; issuer \<leftarrow> as_i64 ij;
                      nj \<leftarrow> one_field ms ''contract_id''; contract \<leftarrow> as_i64 nj;
                      Some (Sep1Assets \<lparr>ak_asset_type = ty, ak_asset_code = asset_code, ak_issuer_id = issuer,
                                        ak_contract_id = contract\<rparr>) }
               else if kind = ''nft_token_uri'' then
                 do { nj \<leftarrow> one_field ms ''contract_id''; contract \<leftarrow> as_i64 nj;
                      tj \<leftarrow> one_field ms ''token_id''; token \<leftarrow> as_str tj;
                      Some (NftTokenUri \<lparr>nk_contract_id = contract, nk_token_id = token\<rparr>) }
               else None }
      | _ \<Rightarrow> None)"

subsection \<open>Publishing\<close>

definition sep1_candidate_keys :: "ids_ext \<Rightarrow> extracted_asset list \<Rightarrow> asset_enrich_key list" where
  "sep1_candidate_keys ix extracted =
     filter_map (\<lambda>t. let ty = asset_family_code (xa_asset_type t)
                     in if ty \<noteq> 1 then None
                        else Some \<lparr>ak_asset_type = ty, ak_asset_code = unwrap_or (xa_asset_code t) [],
                                   ak_issuer_id = unwrap_or (map_option (account_id ix) (xa_issuer_address t)) 0,
                                   ak_contract_id = unwrap_or (map_option (contract_id ix) (xa_contract_id t)) 0\<rparr>)
       extracted"

definition nft_candidate_keys :: "ids_ext \<Rightarrow> extracted_nft list \<Rightarrow> nft_enrich_key list" where
  "nft_candidate_keys ix minted =
     map (\<lambda>n. \<lparr>nk_contract_id = contract_id ix (xn_contract_id n), nk_token_id = xn_token_id n\<rparr>) minted"

text \<open>The distinct keys, in the order of their first occurrence, are asked for at once.\<close>

definition unenriched_keys :: "('k list \<Rightarrow> ch_error + 'k list) \<Rightarrow> 'k list \<Rightarrow> ch_error + 'k list" where
  "unenriched_keys ask candidates =
     (let unique = rev (remdups (rev candidates)) in if unique = [] then Inr [] else ask unique)"

record sqs_entry =
  se_id :: string
  se_body :: string

definition entry_of ::
  "('k \<Rightarrow> string) \<Rightarrow> string \<Rightarrow> ('k \<Rightarrow> enrichment_message) \<Rightarrow> nat \<times> 'k \<Rightarrow> sqs_entry" where
  "entry_of key_text id_prefix to_message ik =
     \<lparr>se_id = id_prefix @ ''-'' @ show_nat (fst ik) @ ''-'' @ key_text (snd ik),
      se_body = struct_text (message_fields (to_message (snd ik)))\<rparr>"

text \<open>The batches sent to the queue, one per ten keys; what the queue answers is only logged.\<close>

definition publish_messages ::
  "('k \<Rightarrow> string) \<Rightarrow> string \<Rightarrow> ('k \<Rightarrow> enrichment_message) \<Rightarrow> 'k list \<Rightarrow> sqs_entry list list" where
  "publish_messages key_text id_prefix to_message keys =
     map (\<lambda>chunk. map (entry_of key_text id_prefix to_message) (enumerate 0 chunk)) (slice_chunks 10 keys)"

definition publish_sep1_assets_messages :: "asset_enrich_key list \<Rightarrow> sqs_entry list list" where
  "publish_sep1_assets_messages keys = publish_messages asset_key_text ''msg'' Sep1Assets keys"

definition publish_nft_token_uri_messages :: "nft_enrich_key list \<Rightarrow> sqs_entry list list" where
  "publish_nft_token_uri_messages keys = publish_messages nft_key_text ''nft'' NftTokenUri keys"

text \<open>Fails open: when the filter fails every candidate is published.\<close>

definition publish_for_extracted_assets ::
  "ids_ext \<Rightarrow> (asset_enrich_key list \<Rightarrow> ch_error + asset_enrich_key list) \<Rightarrow> extracted_asset list \<Rightarrow>
   sqs_entry list list" where
  "publish_for_extracted_assets ix ask extracted =
     (let candidates = sep1_candidate_keys ix extracted
      in if candidates = [] then []
         else publish_sep1_assets_messages
                (case unenriched_keys ask candidates of Inr missing \<Rightarrow> missing | Inl e \<Rightarrow> candidates))"

definition publish_for_minted_nfts ::
  "ids_ext \<Rightarrow> (nft_enrich_key list \<Rightarrow> ch_error + nft_enrich_key list) \<Rightarrow> extracted_nft list \<Rightarrow> sqs_entry list list" where
  "publish_for_minted_nfts ix ask minted =
     (let candidates = nft_candidate_keys ix minted
      in if candidates = [] then []
         else publish_nft_token_uri_messages
                (case unenriched_keys ask candidates of Inr missing \<Rightarrow> missing | Inl e \<Rightarrow> candidates))"

subsection \<open>Rows\<close>

record asset_enrichment_row =
  aer_asset_type :: int
  aer_asset_code :: string
  aer_issuer_id :: int
  aer_contract_id :: int
  aer_icon_url :: "string option"
  aer_name :: "string option"
  aer_version :: int

record nft_enrichment_row =
  ner_contract_id :: int
  ner_token_id :: string
  ner_name :: "string option"
  ner_media_url :: "string option"
  ner_collection_name :: "string option"
  ner_version :: int

datatype enrich_row = EnAsset asset_enrichment_row | EnNft nft_enrichment_row

type_synonym enrich_log = "enrich_row list"

datatype enrich_error = EnDatabase ch_error | EnTransientSep1 sep1_error | EnTransientNft nft_error

datatype enrich_outcome = OutReal | OutSentinel

record issuer_lookup =
  il_issuer_strkey :: "string option"
  il_home_domain :: "string option"

record sep1_currency =
  sc_code :: "string option"
  sc_issuer :: "string option"
  sc_desc :: "string option"
  sc_image :: "string option"
  sc_name :: "string option"

record enrich_env =
  en_issuer :: "enrich_log \<Rightarrow> int \<Rightarrow> ch_error + issuer_lookup option"
  en_strkey :: "enrich_log \<Rightarrow> int \<Rightarrow> ch_error + string option option"
  en_sep1 :: "enrich_log \<Rightarrow> string \<Rightarrow> sep1_error + sep1_currency list"
  en_resolve :: "enrich_log \<Rightarrow> string \<Rightarrow> string \<Rightarrow> nft_error + json option"
  en_collection_name :: "enrich_log \<Rightarrow> string \<Rightarrow> nft_error + string option"
  en_data_url :: "string \<Rightarrow> data_url option"
  en_now_ms :: "enrich_log \<Rightarrow> int"
  en_insert :: "enrich_log \<Rightarrow> enrich_row \<Rightarrow> ch_error option"
  en_json :: "string \<Rightarrow> string + json"

text \<open>A row is in the log once ClickHouse has taken it.\<close>

definition insert_row :: "enrich_env \<Rightarrow> enrich_row \<Rightarrow> enrich_log \<Rightarrow> (enrich_error + unit) \<times> enrich_log" where
  "insert_row en row log =
     (case en_insert en log row of Some e \<Rightarrow> (Inl (EnDatabase e), log) | None \<Rightarrow> (Inr (), log @ [row]))"

definition insert_asset ::
  "enrich_env \<Rightarrow> asset_enrich_key \<Rightarrow> string \<Rightarrow> string option \<Rightarrow> enrich_log \<Rightarrow>
   (enrich_error + enrich_outcome) \<times> enrich_log" where
  "insert_asset en key icon_url name log =
     (let outcome = (if icon_url \<noteq> [] \<or> (\<exists>n\<in>set_option name. n \<noteq> []) then OutReal else OutSentinel);
          row = \<lparr>aer_asset_type = ak_asset_type key, aer_asset_code = ak_asset_code key, aer_issuer_id = ak_issuer_id key,
                 aer_contract_id = ak_contract_id key, aer_icon_url = Some icon_url, aer_name = name,
                 aer_version = en_now_ms en log\<rparr>
      in case insert_row en (EnAsset row) log of
           (Inl e, log1) \<Rightarrow> (Inl e, log1) | (Inr u, log1) \<Rightarrow> (Inr outcome, log1))"

definition nft_outcome :: "string \<Rightarrow> string \<Rightarrow> enrich_outcome" where
  "nft_outcome name media_url = (if name \<noteq> [] \<or> media_url \<noteq> [] then OutReal else OutSentinel)"

definition insert_nft ::
  "enrich_env \<Rightarrow> nft_enrich_key \<Rightarrow> string \<Rightarrow> string \<Rightarrow> string \<Rightarrow> enrich_log \<Rightarrow>
   (enrich_error + enrich_outcome) \<times> enrich_log" where
  "insert_nft en key name media_url collection_name log =
     (let row = \<lparr>ner_contract_id = nk_contract_id key, ner_token_id = nk_token_id key, ner_name = Some name,
                 ner_media_url = Some media_url, ner_collection_name = Some collection_name,
                 ner_version = en_now_ms en log\<rparr>
      in case insert_row en (EnNft row) log of
           (Inl e, log1) \<Rightarrow> (Inl e, log1) | (Inr u, log1) \<Rightarrow> (Inr (nft_outcome name media_url), log1))"

subsection \<open>Assets\<close>

definition is_safe_https_url :: "string \<Rightarrow> bool" where
  "is_safe_https_url url \<longleftrightarrow> prefix ''https://'' (to_ascii_lowercase (trim_ws url))"

definition non_empty_trimmed :: "string option \<Rightarrow> string option" where
  "non_empty_trimmed s = opt_filter (\<lambda>t. t \<noteq> []) (map_option trim_ws s)"

definition find_currency ::
  "sep1_currency list \<Rightarrow> string option \<Rightarrow> string option \<Rightarrow> sep1_currency option" where
  "find_currency currencies asset_code issuer =
     (case (asset_code, issuer) of
        (Some c, Some i) \<Rightarrow> find (\<lambda>e. sc_code e = Some c \<and> sc_issuer e = Some i) currencies
      | _ \<Rightarrow> None)"

definition resolve_icon :: "sep1_currency option \<Rightarrow> string" where
  "resolve_icon entry =
     (case non_empty_trimmed (Option.bind entry sc_image) of
        None \<Rightarrow> []
      | Some url \<Rightarrow> if \<not> is_safe_https_url url then [] else if 8192 < length url then [] else url)"

definition resolve_name :: "int \<Rightarrow> sep1_currency option \<Rightarrow> string option" where
  "resolve_name asset_type entry =
     (if asset_type \<noteq> 1 \<and> asset_type \<noteq> 2 then None
      else (case non_empty_trimmed (Option.bind entry sc_name) of
              None \<Rightarrow> Some []
            | Some name \<Rightarrow> if 4096 < length name then Some [] else Some name))"

definition resolve_currency_outcome ::
  "int \<Rightarrow> string option \<Rightarrow> string option \<Rightarrow> sep1_currency list \<Rightarrow> string \<times> string option" where
  "resolve_currency_outcome asset_type asset_code issuer currencies =
     (let entry = find_currency currencies asset_code issuer in (resolve_icon entry, resolve_name asset_type entry))"

definition sentinel_name :: "int \<Rightarrow> string option" where
  "sentinel_name asset_type = (if asset_type = 1 \<or> asset_type = 2 then Some [] else None)"

definition asset_sentinel :: "enrich_env \<Rightarrow> asset_enrich_key \<Rightarrow> enrich_log \<Rightarrow> (enrich_error + enrich_outcome) \<times> enrich_log" where
  "asset_sentinel en key log = insert_asset en key [] (sentinel_name (ak_asset_type key)) log"

definition enrich_asset_from_sep1 ::
  "enrich_env \<Rightarrow> asset_enrich_key \<Rightarrow> enrich_log \<Rightarrow> (enrich_error + enrich_outcome) \<times> enrich_log" where
  "enrich_asset_from_sep1 en key log =
     (case en_issuer en log (ak_issuer_id key) of
        Inl e \<Rightarrow> (Inl (EnDatabase e), log)
      | Inr None \<Rightarrow> asset_sentinel en key log
      | Inr (Some issuer) \<Rightarrow>
          (case non_empty_trimmed (il_home_domain issuer) of
             None \<Rightarrow> asset_sentinel en key log
           | Some home_domain \<Rightarrow>
               (case en_sep1 en log home_domain of
                  Inr currencies \<Rightarrow>
                    (case resolve_currency_outcome (ak_asset_type key) (Some (ak_asset_code key))
                            (il_issuer_strkey issuer) currencies of
                       (icon, name) \<Rightarrow> insert_asset en key icon name log)
                | Inl e \<Rightarrow>
                    if sep1_is_transient e then (Inl (EnTransientSep1 e), log) else asset_sentinel en key log)))"

subsection \<open>NFTs\<close>

definition trimmed_string :: "(string \<Rightarrow> bool) \<Rightarrow> json option \<Rightarrow> string" where
  "trimmed_string small v =
     (case Option.bind v as_str of
        None \<Rightarrow> []
      | Some s \<Rightarrow> let t = trim_ws s in if t = [] then [] else if small t then t else [])"

definition trimmed_string_chars :: "json option \<Rightarrow> nat \<Rightarrow> string" where
  "trimmed_string_chars v max_chars = trimmed_string (\<lambda>t. char_count t \<le> max_chars) v"

definition trimmed_string_bytes :: "json option \<Rightarrow> nat \<Rightarrow> string" where
  "trimmed_string_bytes v max_bytes = trimmed_string (\<lambda>t. length t \<le> max_bytes) v"

definition is_inline_image :: "(string \<Rightarrow> data_url option) \<Rightarrow> string \<Rightarrow> bool" where
  "is_inline_image parse_url url \<longleftrightarrow>
     (case parse_url url of
        None \<Rightarrow> False
      | Some d \<Rightarrow> du_type d = ''image'' \<and> du_subtype d \<in> {''png'', ''jpeg'', ''gif'', ''webp'', ''svg+xml''})"

definition extract_columns :: "(string \<Rightarrow> data_url option) \<Rightarrow> json \<Rightarrow> string \<times> string \<times> string" where
  "extract_columns parse_url v =
     (let name = trimmed_string_chars (jget v ''name'') 4096;
          image1 = trimmed_string_bytes (jget v ''image'') 8192;
          image_raw = (if image1 = [] then trimmed_string_bytes (jget v ''url'') 8192 else image1);
          image_resolved = resolve_ipfs_to_https image_raw;
          image = (if image_resolved = [] \<or> is_safe_https_url image_resolved \<or> is_inline_image parse_url image_resolved
                   then image_resolved else []);
          collection = trimmed_string_chars (jget v ''collection'') 4096
      in (name, image, collection))"

definition enrich_nft_token_uri ::
  "enrich_env \<Rightarrow> nft_enrich_key \<Rightarrow> enrich_log \<Rightarrow> (enrich_error + enrich_outcome) \<times> enrich_log" where
  "enrich_nft_token_uri en key log =
     (case en_strkey en log (nk_contract_id key) of
        Inl e \<Rightarrow> (Inl (EnDatabase e), log)
      | Inr lookup \<Rightarrow>
          (case Option.bind lookup (\<lambda>l. l) of
             None \<Rightarrow> insert_nft en key [] [] [] log
           | Some contract \<Rightarrow>
               (let columns = (case en_resolve en log contract (nk_token_id key) of
                      Inr (Some v) \<Rightarrow> Inr (extract_columns (en_data_url en) v)
                    | Inr None \<Rightarrow> Inr ([], [], [])
                    | Inl e \<Rightarrow> if nft_is_transient e then Inl e else Inr ([], [], []))
                in case columns of
                     Inl e \<Rightarrow> (Inl (EnTransientNft e), log)
                   | Inr (name, media_url, collection) \<Rightarrow>
                       if collection = [] then
                         (case en_collection_name en log contract of
                            Inr (Some n) \<Rightarrow> insert_nft en key name media_url n log
                          | Inr None \<Rightarrow> insert_nft en key name media_url [] log
                          | Inl e \<Rightarrow> (Inl (EnTransientNft e), log))
                       else insert_nft en key name media_url collection log)))"

subsection \<open>The worker\<close>

record sqs_message =
  sm_message_id :: "string option"
  sm_body :: "string option"

datatype record_error = RecPermanent string | RecTransient enrich_error

definition require_message_id :: "sqs_message \<Rightarrow> string + string" where
  "require_message_id rec = ok_or ''SQS record missing message_id'' (sm_message_id rec)"

definition parse_message :: "enrich_env \<Rightarrow> sqs_message \<Rightarrow> record_error + enrichment_message" where
  "parse_message en rec =
     (case sm_body rec of
        None \<Rightarrow> Inl (RecPermanent ''SQS record had no body'')
      | Some body \<Rightarrow>
          (case en_json en body of
             Inl e \<Rightarrow> Inl (RecPermanent (''malformed enrichment JSON: '' @ e))
           | Inr v \<Rightarrow> ok_or (RecPermanent ''malformed enrichment JSON: '') (read_message v)))"

definition handle_record :: "enrich_env \<Rightarrow> sqs_message \<Rightarrow> enrich_log \<Rightarrow> (record_error + unit) \<times> enrich_log" where
  "handle_record en rec log =
     (case parse_message en rec of
        Inl e \<Rightarrow> (Inl e, log)
      | Inr m \<Rightarrow>
          (case (case m of Sep1Assets key \<Rightarrow> enrich_asset_from_sep1 en key log
                         | NftTokenUri key \<Rightarrow> enrich_nft_token_uri en key log) of
             (Inl e, log1) \<Rightarrow> (Inl (RecTransient e), log1)
           | (Inr out, log1) \<Rightarrow> (Inr (), log1)))"

fun classify_outcome :: "string \<Rightarrow> record_error + unit \<Rightarrow> string option" where
  "classify_outcome message_id (Inr u) = None"
| "classify_outcome message_id (Inl (RecPermanent e)) = None"
| "classify_outcome message_id (Inl (RecTransient e)) = Some message_id"

text \<open>The failures reported for a batch; a record without an id fails the invocation.\<close>

fun handle_event ::
  "enrich_env \<Rightarrow> sqs_message list \<Rightarrow> string list \<Rightarrow> enrich_log \<Rightarrow> (string + string list) \<times> enrich_log" where
  "handle_event en [] failures log = (Inr failures, log)"
| "handle_event en (rec # recs) failures log =
     (case require_message_id rec of
        Inl e \<Rightarrow> (Inl e, log)
      | Inr message_id \<Rightarrow>
          (case handle_record en rec log of
             (outcome, log1) \<Rightarrow>
               handle_event en recs
                 (case classify_outcome message_id outcome of Some f \<Rightarrow> failures @ [f] | None \<Rightarrow> failures) log1))"

end
