(* ===== verification/EnrichFacts.thy ===== *)
theory EnrichFacts
  imports Enrich
begin

text \<open>
  What the enrichment path promises: whom the fetcher contacts for a token URI, redirects included, which rows the worker
  stores for a batch of messages, and that every message the indexer publishes is read back.
\<close>

subsection \<open>Redirects\<close>

fun call_url :: "net_call \<Rightarrow> string" where
  "call_url (NetGet url) = url"
| "call_url (NetPost url body) = url"

text \<open>The requests that may follow a request: a get, or a post of the same body.\<close>

fun repeats :: "net_call \<Rightarrow> net_call \<Rightarrow> bool" where
  "repeats c (NetGet url) = True"
| "repeats c (NetPost url body) = (\<exists>first. c = NetPost first body)"

text \<open>
  The HTTP library, as it is documented: a call is not sent at all or it is the first request, and every
  further one is a redirect that the policy of the client admitted, given the URLs requested so far (the
  first one included) and the URL of the redirect.  A redirected post is repeated or becomes a get.
\<close>

inductive followed :: "(string \<Rightarrow> url_parts option) \<Rightarrow> redirect_policy \<Rightarrow> net_call \<Rightarrow> net_call list \<Rightarrow> bool"
  for url :: "string \<Rightarrow> url_parts option" and policy :: redirect_policy and c :: net_call where
  unsent: "followed url policy c []"
| first: "followed url policy c [c]"
| hop: "followed url policy c calls \<Longrightarrow> calls \<noteq> [] \<Longrightarrow> map (\<lambda>k. url (call_url k)) calls = map Some previous \<Longrightarrow>
    url (call_url h) = Some target \<Longrightarrow> policy previous target \<Longrightarrow> repeats c h \<Longrightarrow> followed url policy c (calls @ [h])"

definition follows_policy :: "net_ext \<Rightarrow> bool" where
  "follows_policy nx \<longleftrightarrow> (\<forall>policy net c. followed (nx_url nx) policy c (snd (nx_http nx policy net c)))"

text \<open>A redirect of a request \<open>c\<close> that stays on its site: \<open>https\<close>, a host name that is no IP address, the
  registrable domain of the host first asked, and no other body than the one of \<open>c\<close>.\<close>

definition same_site_hop :: "net_ext \<Rightarrow> net_call \<Rightarrow> net_call \<Rightarrow> bool" where
  "same_site_hop nx c h \<longleftrightarrow> repeats c h \<and>
     (\<exists>u target. nx_url nx (call_url h) = Some u \<and> up_scheme u = ''https'' \<and> up_host u = Some target \<and>
        target \<noteq> [] \<and> list_all host_char target \<and> \<not> parses_as_ip target \<and>
        (\<exists>origin d e. Option.bind (nx_url nx (call_url c)) up_host = Some origin \<and>
           nx_registrable nx origin = Some d \<and> nx_registrable nx target = Some e \<and> eq_ignore_ascii_case d e))"

definition guarded_chain :: "net_ext \<Rightarrow> (net_call \<Rightarrow> bool) \<Rightarrow> net_call list \<Rightarrow> bool" where
  "guarded_chain nx P chain \<longleftrightarrow>
     (\<forall>c hops. chain = c # hops \<longrightarrow> P c \<and> length hops \<le> 4 \<and> list_all (same_site_hop nx c) hops)"

lemma policy_hop:
  assumes "client_redirects nx previous target" and "previous \<noteq> []" and "nx_url nx (call_url c) = Some (hd previous)"
    and "nx_url nx (call_url h) = Some target" and "repeats c h"
  shows "length previous \<le> 4 \<and> same_site_hop nx c h"
  using assms
  by (cases previous)
     (auto simp: client_redirects_def same_etld1_redirect_policy_def max_redirects_def redirect_allowed_def validate_host_def
       same_site_hop_def nth_opt_def split: if_splits option.splits sum.splits)

lemma followed_chain:
  "followed (nx_url nx) (client_redirects nx) c calls \<Longrightarrow>
     calls = [] \<or> (\<exists>hops. calls = c # hops \<and> length hops \<le> 4 \<and> list_all (same_site_hop nx c) hops)"
proof (induction rule: followed.induct)
  case (hop calls previous h target)
  then obtain hops where hops: "calls = c # hops" "list_all (same_site_hop nx c) hops" by blast
  have len: "length previous = length calls" using hop.hyps(3) by (metis length_map)
  have "previous \<noteq> []" "nx_url nx (call_url c) = Some (hd previous)"
    using hop.hyps(3) hops(1) by (cases previous; simp)+
  then have "length previous \<le> 4 \<and> same_site_hop nx c h"
    using policy_hop hop.hyps(4-6) by blast
  then show ?case using hops len by simp
qed auto

subsection \<open>Logs that only grow\<close>

text \<open>The log after an operation: chains of redirects, each behind a request with the property.\<close>

definition grows :: "net_ext \<Rightarrow> (net_call \<Rightarrow> bool) \<Rightarrow> net_log \<Rightarrow> net_log \<Rightarrow> bool" where
  "grows nx P net net' \<longleftrightarrow> (\<exists>chains. net' = net @ concat chains \<and> list_all (guarded_chain nx P) chains)"

lemma grows_refl [simp, intro]: "grows nx P net net"
  unfolding grows_def by (rule exI [of _ "[]"]) simp

lemma grows_trans [trans]: "grows nx P a b \<Longrightarrow> grows nx P b c \<Longrightarrow> grows nx P a c"
  unfolding grows_def
proof (elim exE conjE)
  fix xs ys
  assume "b = a @ concat xs" "c = b @ concat ys" "list_all (guarded_chain nx P) xs" "list_all (guarded_chain nx P) ys"
  then show "\<exists>zs. c = a @ concat zs \<and> list_all (guarded_chain nx P) zs" by (intro exI [of _ "xs @ ys"]) simp
qed

lemma grows_mono: "grows nx P a b \<Longrightarrow> (\<And>x. P x \<Longrightarrow> Q x) \<Longrightarrow> grows nx Q a b"
  by (auto simp: grows_def list_all_iff guarded_chain_def)

lemma send_log:
  assumes "follows_policy nx" and "send nx c net = (r, net')" and "P c"
  shows "grows nx P net net'"
proof -
  obtain calls where calls: "nx_http nx (client_redirects nx) net c = (r, calls)" "net' = net @ calls"
    using assms(2) by (auto simp: send_def split: prod.splits)
  have "followed (nx_url nx) (client_redirects nx) c calls"
    using assms(1) calls(1) by (metis follows_policy_def snd_conv)
  then have "guarded_chain nx P calls" using followed_chain assms(3) by (fastforce simp: guarded_chain_def)
  then show ?thesis unfolding grows_def calls(2) by (intro exI [of _ "[calls]"]) simp
qed

subsection \<open>What a guarded URI is\<close>

text \<open>A host of letters, digits, dots and hyphens with a dot in it that is no dotted quad, at the end or
  before a port, a path, a query or a fragment, without user information.\<close>

definition public_https :: "string \<Rightarrow> bool" where
  "public_https u \<longleftrightarrow>
     (\<exists>host rest. u = ''https://'' @ host @ rest \<and> (rest = [] \<or> hd rest \<in> {CHR '':'', CHR ''/'', CHR ''?'', CHR 0x23}) \<and>
        host \<noteq> [] \<and> list_all host_char host \<and> CHR ''.'' \<in> set host \<and> \<not> parses_as_ip host \<and>
        CHR ''@'' \<notin> set (before_any [CHR ''/'', CHR ''?'', CHR 0x23] (host @ rest)))"

lemma before_any_split:
  "\<exists>rest. s = before_any seps s @ rest \<and> (rest = [] \<or> hd rest \<in> set seps)"
proof (intro exI conjI)
  show "s = before_any seps s @ dropWhile (\<lambda>c. c \<notin> set seps) s" by (simp add: before_any_def)
  show "dropWhile (\<lambda>c. c \<notin> set seps) s = [] \<or> hd (dropWhile (\<lambda>c. c \<notin> set seps) s) \<in> set seps"
    using hd_dropWhile [of "\<lambda>c. c \<notin> set seps" s] by blast
qed

lemma https_guard_public:
  assumes "https_guard rest"
  shows "public_https (''https://'' @ rest)"
proof -
  let ?auth = "before_any [CHR ''/'', CHR ''?'', CHR 0x23] rest"
  let ?host = "before_any [CHR '':''] ?auth"
  note g = assms [unfolded https_guard_def Let_def]
  obtain r1 where r1: "rest = ?auth @ r1" "r1 = [] \<or> hd r1 \<in> set [CHR ''/'', CHR ''?'', CHR 0x23]"
    using before_any_split by blast
  obtain r2 where r2: "?auth = ?host @ r2" "r2 = [] \<or> hd r2 \<in> set [CHR '':'']"
    using before_any_split by blast
  have eq: "?host @ r2 @ r1 = rest"
    using r1(1) unfolding append_assoc [symmetric] r2(1) [symmetric] by (rule sym)
  have "r2 @ r1 = [] \<or> hd (r2 @ r1) \<in> {CHR '':'', CHR ''/'', CHR ''?'', CHR 0x23}"
    using r1(2) r2(2) by (cases r2) auto
  then show ?thesis
    unfolding public_https_def using g eq by (intro exI [of _ ?host] exI [of _ "r2 @ r1"]) simp
qed

lemma strip_scheme_Some: "strip_prefix p s = Some r \<longleftrightarrow> s = p @ r"
  by (auto simp: strip_prefix_def prefix_def)

lemma validate_uri_Inr:
  assumes "validate_uri base32 uri = Inr u"
  shows "public_https (trim_ws uri) \<or> (\<exists>rest. trim_ws uri = ''ipfs://'' @ rest \<and> ipfs_guard base32 rest)"
  using assms https_guard_public
  by (auto simp: validate_uri_def Let_def strip_scheme_Some split: if_splits option.splits)

lemma strip_start_suffix: "suffix (strip_start ws s) s"
proof (induction ws s rule: strip_start.induct)
  case (1 ws s)
  show ?case
  proof (cases "find (\<lambda>w. w \<noteq> [] \<and> prefix w s) ws")
    case None
    then show ?thesis by (simp add: strip_start.simps)
  next
    case (Some w)
    have "suffix (strip_start ws (drop (length w) s)) (drop (length w) s)" by (rule "1.IH" [OF Some])
    moreover have "suffix (drop (length w) s) s" by (rule suffix_drop)
    ultimately have "suffix (strip_start ws (drop (length w) s)) s" by (rule suffix_order.trans)
    then show ?thesis by (subst strip_start.simps) (simp add: Some)
  qed
qed

lemma blank_ends: "list_all (\<lambda>w. w \<noteq> [] \<and> hd w \<notin> set ''ih'' \<and> last w \<notin> set ''7/'') white_space"
  by code_simp

lemma strip_start_text: "list_all (\<lambda>w. hd w \<noteq> c) ws \<Longrightarrow> strip_start ws (c # s) = c # s"
proof -
  assume "list_all (\<lambda>w. hd w \<noteq> c) ws"
  then have "\<not> (w \<noteq> [] \<and> prefix w (c # s))" if "w \<in> set ws" for w
    using that by (cases w) (auto simp: list_all_iff)
  then have "find (\<lambda>w. w \<noteq> [] \<and> prefix w (c # s)) ws = None"
    by (simp add: find_None_iff)
  then show ?thesis by (subst strip_start.simps) simp
qed

lemma not_blank: "c \<in> set ''ih'' \<Longrightarrow> strip_start white_space (c # s) = c # s"
  using blank_ends by (intro strip_start_text) (auto simp: list_all_iff)

lemma not_blank_end: "c \<in> set ''7/'' \<Longrightarrow> strip_start (map rev white_space) (c # s) = c # s"
  using blank_ends by (intro strip_start_text) (auto simp: list_all_iff hd_rev)

lemma trim_ws_scheme: "\<not> public_https (trim_ws (''ipfs://'' @ s))"
proof -
  have "prefix (trim_ws (''ipfs://'' @ s)) (''ipfs://'' @ s)"
    using strip_start_suffix [of "map rev white_space" "rev (''ipfs://'' @ s)"]
    by (simp add: trim_ws_def not_blank suffix_to_prefix)
  then show ?thesis by (auto simp: public_https_def)
qed

subsection \<open>The requests of a fetch\<close>

definition posts_to :: "string list \<Rightarrow> net_call \<Rightarrow> bool" where
  "posts_to urls c \<longleftrightarrow> (\<exists>url body. c = NetPost url body \<and> url \<in> set urls)"

definition gets_from :: "string list \<Rightarrow> net_call \<Rightarrow> bool" where
  "gets_from urls c \<longleftrightarrow> (\<exists>url. c = NetGet url \<and> url \<in> set urls)"

lemma simulate_transaction_log:
  assumes "follows_policy nx" and "simulate_transaction nx url env net = (r, net')"
  shows "grows nx (posts_to [url]) net net'"
proof -
  obtain x net1 where x: "send nx (NetPost url (simulate_request env)) net = (x, net1)" by fastforce
  have "net' = net1"
    using assms(2) by (auto simp: simulate_transaction_def Let_def x split: sum.splits option.splits if_splits)
  then show ?thesis using send_log [OF assms(1) x] by (simp add: posts_to_def)
qed

lemma simulate_token_uri_log:
  assumes "follows_policy nx" and "simulate_token_uri_with_fallback nx url contract token net = (r, net')"
  shows "grows nx (posts_to [url]) net net'"
  using assms(2)
  by (auto simp: simulate_token_uri_with_fallback_def split: sum.splits prod.splits nft_error.splits if_splits
      dest!: simulate_transaction_log [OF assms(1)] intro: grows_trans)

lemma fetch_one_log:
  assumes "follows_policy nx" and "fetch_one_metadata nx url net = (r, net')"
  shows "grows nx (gets_from [url]) net net'"
proof -
  obtain x net1 where x: "send nx (NetGet url) net = (x, net1)" by fastforce
  have "net' = net1"
    using assms(2) by (auto simp: fetch_one_metadata_def Let_def x split: sum.splits if_splits)
  then show ?thesis using send_log [OF assms(1) x] by (simp add: gets_from_def)
qed

lemma failover_log:
  assumes "failover f us seen net = (r, net')"
    and "\<And>u net r net'. u \<in> set us \<Longrightarrow> f u net = (r, net') \<Longrightarrow> grows nx (P u) net net'"
    and "\<And>u c. u \<in> set us \<Longrightarrow> P u c \<Longrightarrow> Q c"
  shows "grows nx Q net net'"
  using assms
proof (induction us arbitrary: seen net)
  case Nil
  then show ?case by simp
next
  case (Cons u us)
  obtain x net1 where fu: "f u net = (x, net1)" by fastforce
  have g: "grows nx Q net net1"
  proof (rule grows_mono)
    show "grows nx (P u) net net1" using Cons.prems(2) [OF _ fu] by simp
    show "P u c \<Longrightarrow> Q c" for c using Cons.prems(3) [of u c] by simp
  qed
  have later: "grows nx Q net1 net'" if "failover f us seen' net1 = (r, net')" for seen'
  proof (rule Cons.IH [OF that])
    show "grows nx (P u) net net'" if "u \<in> set us" "f u net = (r, net')" for u net r net'
      using Cons.prems(2) [OF _ that(2)] that(1) by simp
    show "Q c" if "u \<in> set us" "P u c" for u c
      using Cons.prems(3) [OF _ that(2)] that(1) by simp
  qed
  show ?case
    using Cons.prems(1) g grows_trans [OF g later] by (auto simp: fu split: sum.splits if_splits)
qed

lemma failover_answers:
  "us \<noteq> [] \<or> seen \<noteq> None \<Longrightarrow> fst (failover f us seen net) \<noteq> None"
proof (induction us arbitrary: seen net)
  case (Cons u us)
  then show ?case by (cases "f u net"; cases "fst (f u net)") auto
qed auto

lemma from_start_set: "set (from_start start pool) \<subseteq> set pool"
  by (cases "pool = []") (auto simp: from_start_def)

lemma from_start_empty: "from_start start pool = [] \<longleftrightarrow> pool = []"
  by (simp add: from_start_def)

lemma simulate_with_failover_log:
  assumes "follows_policy nx" and "simulate_with_failover nx urls start contract token net = (r, net')"
  shows "grows nx (posts_to urls) net net'"
proof (rule failover_log [where P = "\<lambda>u. posts_to [u]"])
  show "failover (\<lambda>url. simulate_token_uri_with_fallback nx url contract token) (from_start start urls) None net = (r, net')"
    using assms(2) by (simp add: simulate_with_failover_def)
  show "grows nx (posts_to [u]) net net'"
    if "simulate_token_uri_with_fallback nx u contract token net = (r, net')" for u net r net'
    using simulate_token_uri_log [OF assms(1) that] .
  show "posts_to urls c" if "u \<in> set (from_start start urls)" "posts_to [u] c" for u c
    using that from_start_set by (fastforce simp: posts_to_def)
qed

lemma fetch_metadata_log:
  assumes "follows_policy nx" and "fetch_metadata_with_failover nx uri gateways net = (r, net')"
  shows "grows nx (gets_from (ipfs_candidate_urls uri gateways)) net net'"
proof -
  obtain x net1 where x: "failover (fetch_one_metadata nx) (ipfs_candidate_urls uri gateways) None net = (x, net1)"
    by fastforce
  have "net1 = net'" using assms(2) by (auto simp: fetch_metadata_with_failover_def x split: option.splits)
  moreover have "grows nx (gets_from (ipfs_candidate_urls uri gateways)) net net1"
    by (rule failover_log [OF x, where P = "\<lambda>u. gets_from [u]"])
      (auto intro: fetch_one_log [OF assms(1)] simp: gets_from_def)
  ultimately show ?thesis by simp
qed

text \<open>C17. An NFT contract cannot make the worker contact an internal host by name.  Whatever URI the contract
  returns and however the network answers, a fetch starts only posts to the configured RPC endpoints and
  gets of URLs of a guarded URI: \<open>https\<close> to a host with a dot that is no dotted quad and carries no user
  information, or IPFS content without dot segments whose CID decodes, which is asked of the configured
  gateways unless white space stands before the scheme.  Behind each of these the client follows at most
  four redirects, all \<open>https\<close> to host names that are no IP addresses and have the registrable domain of the
  host first asked, and nothing else is requested.  The HTTP library is assumed to follow only the
  redirects that the policy of its client admits.  With an endpoint configured the fetch does not panic.\<close>

theorem metadata_requests_guarded:
  assumes "follows_policy nx" and "fetch_uncached nx rpc_urls gateways start contract token_id net = (r, net')"
  shows "(rpc_urls \<noteq> [] \<longrightarrow> r \<noteq> None) \<and>
     grows nx (\<lambda>c. posts_to rpc_urls c \<or>
        (\<exists>url uri. c = NetGet url \<and> url \<in> set (ipfs_candidate_urls uri gateways) \<and>
           (public_https (trim_ws uri) \<and> url = uri \<or>
            (\<exists>rest. trim_ws uri = ''ipfs://'' @ rest \<and> ipfs_guard (nx_base32 nx) rest)))) net net'"
    (is "_ \<and> grows _ ?P net net'")
proof (cases "parse_unsigned u32_max token_id")
  case None
  then show ?thesis using assms(2) by (auto simp: fetch_uncached_def)
next
  case (Some token)
  obtain x net1 where x: "simulate_with_failover nx rpc_urls start contract (nat token) net = (x, net1)" by fastforce
  have post: "grows nx ?P net net1"
    by (rule grows_mono [OF simulate_with_failover_log [OF assms(1) x]]) simp
  have nopanic: "rpc_urls \<noteq> [] \<longrightarrow> x \<noteq> None"
    using failover_answers [of "from_start start rpc_urls" None "\<lambda>url. simulate_token_uri_with_fallback nx url contract (nat token)" net] x
    by (simp add: simulate_with_failover_def from_start_empty)
  show ?thesis
  proof (cases "\<exists>uri. (\<exists>xdr. x = Some (Inr xdr) \<and> decode_string_result nx xdr ''token_uri'' = Inr uri) \<and>
      \<not> prefix ''data:'' (to_ascii_lowercase (strip_start white_space uri)) \<and> (\<exists>u. validate_uri (nx_base32 nx) uri = Inr u)")
    case False
    then have "net' = net1 \<and> (x \<noteq> None \<longrightarrow> r \<noteq> None)"
      using assms(2) by (auto simp: fetch_uncached_def Some x split: option.splits sum.splits if_splits prod.splits)
    then show ?thesis using post nopanic by auto
  next
    case True
    then obtain uri u xdr where u: "x = Some (Inr xdr)" "decode_string_result nx xdr ''token_uri'' = Inr uri"
        "\<not> prefix ''data:'' (to_ascii_lowercase (strip_start white_space uri))" "validate_uri (nx_base32 nx) uri = Inr u"
      by blast
    obtain y net2 where y: "fetch_metadata_with_failover nx uri gateways net1 = (y, net2)" by fastforce
    have r: "r = Some y" "net' = net2"
      using assms(2) by (auto simp: fetch_uncached_def Some x u y)
    have "?P c" if c: "gets_from (ipfs_candidate_urls uri gateways) c" for c
    proof -
      obtain url where url: "c = NetGet url" "url \<in> set (ipfs_candidate_urls uri gateways)"
        using c by (auto simp: gets_from_def)
      have "url = uri" if "public_https (trim_ws uri)"
      proof -
        have "strip_prefix ''ipfs://'' uri = None"
          using that trim_ws_scheme by (cases "strip_prefix ''ipfs://'' uri") (auto simp: strip_scheme_Some)
        then show ?thesis using url(2) by (simp add: ipfs_candidate_urls_def)
      qed
      then show ?thesis using validate_uri_Inr [OF u(4)] url by blast
    qed
    then have "grows nx ?P net1 net2" by (rule grows_mono [OF fetch_metadata_log [OF assms(1) y]])
    then show ?thesis using grows_trans [OF post] r by blast
  qed
qed

text \<open>The guard reads a host as the standard library does, so a shortened address passes it.\<close>

lemma guards: "https_guard ''nft.example/7'' \<and> https_guard ''127.1/''"
  by code_simp

lemma short_address_passes: "validate_uri base32 ''https://127.1/'' = Inr ()"
  using guards by (simp add: validate_uri_def trim_ws_def not_blank not_blank_end strip_prefix_def)

text \<open>A fetch that simulates once and gets one image from the site the URI redirects to.\<close>

definition sample_url :: "string \<Rightarrow> url_parts" where
  "sample_url u = \<lparr>up_scheme = ''https'',
     up_host = Some (if u = ''https://cdn.nft.example/7'' then ''cdn.nft.example'' else ''nft.example'')\<rparr>"

definition sample_net :: net_ext where
  "sample_net =
     \<lparr>nx_http = (\<lambda>policy net c. (Inr \<lparr>hr_status = 200,
        hr_content_type = (case c of NetGet u \<Rightarrow> Some ''image/png'' | NetPost u b \<Rightarrow> Some ''application/json''),
        hr_location = None, hr_chunks = [], hr_broken = None\<rparr>,
        if (\<exists>u. c = NetGet u \<and> policy [sample_url u] (sample_url ''https://cdn.nft.example/7''))
        then [c, NetGet ''https://cdn.nft.example/7''] else [c])),
      nx_url = Some \<circ> sample_url, nx_registrable = (\<lambda>host. Some ''nft.example''),
      nx_strkey = Some, nx_envelope = (\<lambda>h f args. Inr f), nx_b64 = Inr, nx_scval = (\<lambda>b. Inr (ScString b)),
      nx_debug = (\<lambda>v. []), nx_utf8_error = (\<lambda>b. []),
      nx_json_slice = (\<lambda>b. Inr (JObj [(''result'', JObj [(''results'', JArr [JObj [(''xdr'', JStr ''https://nft.example/7'')]])])])),
      nx_decode_error = (\<lambda>e. \<lparr>re_timeout = False, re_connect = False, re_redirect = False, re_status = None\<rparr>),
      nx_base32 = (\<lambda>s. None), nx_data_url = (\<lambda>u. None)\<rparr>"

lemma sample_follows: "follows_policy sample_net"
proof -
  have "followed (nx_url sample_net) policy (NetGet u) ([NetGet u] @ [NetGet ''https://cdn.nft.example/7''])"
    if "policy [sample_url u] (sample_url ''https://cdn.nft.example/7'')" for policy u
    by (rule followed.hop [OF followed.first]) (use that in \<open>auto simp: sample_net_def\<close>)
  then show ?thesis by (auto simp: follows_policy_def sample_net_def intro: followed.first)
qed

lemma sample_redirect: "client_redirects sample_net [sample_url ''https://nft.example/7''] (sample_url ''https://cdn.nft.example/7'')"
proof -
  have "list_all host_char ''cdn.nft.example''" "\<not> parses_as_ip ''cdn.nft.example''"
      "eq_ignore_ascii_case ''nft.example'' ''nft.example''" by code_simp+
  then show ?thesis
    by (simp add: client_redirects_def same_etld1_redirect_policy_def max_redirects_def redirect_allowed_def
        validate_host_def nth_opt_def sample_net_def sample_url_def)
qed

lemma sample_send:
  "send sample_net (NetPost u b) net = (Inr \<lparr>hr_status = 200, hr_content_type = Some ''application/json'',
     hr_location = None, hr_chunks = [], hr_broken = None\<rparr>, net @ [NetPost u b])"
  "send sample_net (NetGet ''https://nft.example/7'') net = (Inr \<lparr>hr_status = 200, hr_content_type = Some ''image/png'',
     hr_location = None, hr_chunks = [], hr_broken = None\<rparr>,
     net @ [NetGet ''https://nft.example/7'', NetGet ''https://cdn.nft.example/7''])"
  using sample_redirect by (simp_all add: send_def sample_net_def)

theorem metadata_requests_guarded_witness:
  "\<exists>net'. fetch_uncached sample_net [''https://rpc.example''] [] 0 ''C'' ''7'' []
       = (Some (Inr (JObj [(''image'', JStr ''https://nft.example/7'')])), net') \<and> length net' = 3 \<and>
     grows sample_net (\<lambda>c. posts_to [''https://rpc.example''] c \<or>
        (\<exists>url uri. c = NetGet url \<and> url \<in> set (ipfs_candidate_urls uri []) \<and>
           (public_https (trim_ws uri) \<and> url = uri \<or>
            (\<exists>rest. trim_ws uri = ''ipfs://'' @ rest \<and> ipfs_guard (nx_base32 sample_net) rest)))) [] net'"
proof -
  have uri: "validate_uri (nx_base32 sample_net) ''https://nft.example/7'' = Inr ()"
    using guards by (simp add: validate_uri_def trim_ws_def not_blank not_blank_end strip_prefix_def)
  have utf8: "from_utf8 ''https://nft.example/7'' = Some ''https://nft.example/7''" by code_simp
  have nodata: "\<not> prefix ''data:'' (to_ascii_lowercase (strip_start white_space ''https://nft.example/7''))"
    by (simp add: not_blank to_ascii_lowercase_def ascii_lower_def less_eq_char_def)
  have png: "to_ascii_lowercase ''image/png'' = ''image/png''" by code_simp
  have token: "parse_unsigned u32_max ''7'' = Some 7" by code_simp
  have json: "nx_json_slice sample_net b = Inr (JObj [(''result'', JObj [(''results'', JArr [JObj [(''xdr'', JStr ''https://nft.example/7'')]])])])"
    "build_simulate_envelope sample_net h f tok = Inr f" for b h f tok
    by (simp_all add: sample_net_def build_simulate_envelope_def)
  have "simulate_with_failover sample_net [''https://rpc.example''] 0 ''C'' 7 [] =
      (Some (Inr ''https://nft.example/7''), [NetPost ''https://rpc.example'' (simulate_request ''token_uri'')])"
    by (simp add: simulate_with_failover_def from_start_def simulate_token_uri_with_fallback_def json
        simulate_transaction_def simulate_result_def sample_send success_status_def get_str_def jget_def Let_def)
  moreover have "fetch_metadata_with_failover sample_net ''https://nft.example/7'' [] net =
      (Inr (JObj [(''image'', JStr ''https://nft.example/7'')]),
       net @ [NetGet ''https://nft.example/7'', NetGet ''https://cdn.nft.example/7''])" for net
  proof -
    have "\<not> contains ''image/png'' ''application/json'' \<and> \<not> contains ''image/png'' ''text/json''" by code_simp
    then show ?thesis
      by (simp add: fetch_metadata_with_failover_def ipfs_candidate_urls_def strip_prefix_def fetch_one_metadata_def
          sample_send success_status_def png Let_def)
  qed
  ultimately have run: "fst (fetch_uncached sample_net [''https://rpc.example''] [] 0 ''C'' ''7'' [])
      = Some (Inr (JObj [(''image'', JStr ''https://nft.example/7'')]))
      \<and> length (snd (fetch_uncached sample_net [''https://rpc.example''] [] 0 ''C'' ''7'' [])) = 3"
    using uri nodata by (simp add: fetch_uncached_def token decode_string_result_def utf8) (simp add: sample_net_def utf8)
  obtain r net' where f: "fetch_uncached sample_net [''https://rpc.example''] [] 0 ''C'' ''7'' [] = (r, net')" by fastforce
  have r: "r = Some (Inr (JObj [(''image'', JStr ''https://nft.example/7'')]))" "length net' = 3"
    using run by (simp_all only: f fst_conv snd_conv)
  show ?thesis
  proof (intro exI [of _ net'] conjI)
    show "fetch_uncached sample_net [''https://rpc.example''] [] 0 ''C'' ''7'' []
       = (Some (Inr (JObj [(''image'', JStr ''https://nft.example/7'')])), net')" by (simp only: f r)
    show "length net' = 3" by (rule r)
  qed (rule conjunct2 [OF metadata_requests_guarded [OF sample_follows f]])
qed

subsection \<open>Messages\<close>

definition message_fits :: "enrichment_message \<Rightarrow> bool" where
  "message_fits m \<longleftrightarrow>
     (case m of
        Sep1Assets k \<Rightarrow> fits_i16 (ak_asset_type k) \<and> fits_i64 (ak_issuer_id k) \<and> fits_i64 (ak_contract_id k)
      | NftTokenUri k \<Rightarrow> fits_i64 (nk_contract_id k))"

lemma fits_i16_i64: "fits_i16 n \<Longrightarrow> fits_i64 n"
  by (simp add: fits_i16_def ranges)

text \<open>What the indexer publishes the worker reads back, in whatever order the members arrive.\<close>

lemma message_read_back:
  assumes "message_fits m" and "distinct (map fst fs)" and "set fs = set (message_fields m)"
  shows "read_message (JObj fs) = Some m"
proof -
  have one: "one_field fs k = Some v" if "(k, v) \<in> set fs" for k v
    using assms(2) that
  proof (induction fs)
    case (Cons f fs)
    have none: "filter (\<lambda>m. fst m = fst f) fs = []" if "fst f \<notin> set (map fst fs)" for f
      using that by (induction fs) auto
    show ?case
    proof (cases "f = (k, v)")
      case True
      then show ?thesis using Cons.prems(1) none [of f] by (simp add: one_field_def)
    next
      case False
      then have "(k, v) \<in> set fs" using Cons.prems(2) by simp
      then have "k \<in> set (map fst fs)" by force
      then have "fst f \<noteq> k" using Cons.prems(1) by auto
      then show ?thesis using Cons False by (simp add: one_field_def)
    qed
  qed simp
  show ?thesis
  proof (cases m)
    case (Sep1Assets k)
    then show ?thesis using assms(1,3) one by (simp add: read_message_def message_fields_def message_fits_def fits_i16_i64)
  next
    case (NftTokenUri k)
    then show ?thesis using assms(1,3) one by (simp add: read_message_def message_fields_def message_fits_def)
  qed
qed

text \<open>Every key that is published is one entry of one batch of at most ten.\<close>

lemma published_bodies:
  "map se_body (concat (publish_messages key_text id_prefix to_message keys)) =
     map (\<lambda>k. struct_text (message_fields (to_message k))) keys"
proof -
  have "map se_body (map (entry_of key_text id_prefix to_message) (enumerate i chunk)) =
      map (\<lambda>k. struct_text (message_fields (to_message k))) chunk" for chunk i
    by (induction chunk arbitrary: i) (simp_all add: entry_of_def)
  then have "map se_body (concat (publish_messages key_text id_prefix to_message keys)) =
      concat (map (map (\<lambda>k. struct_text (message_fields (to_message k)))) (slice_chunks 10 keys))"
    by (simp add: publish_messages_def map_concat o_def)
  then show ?thesis by (simp add: map_concat [symmetric] slice_chunks_concat)
qed

lemma digit_then: "i < 10 \<Longrightarrow> show_nat i = [digit_char i]"
  by (simp add: show_nat.simps)

lemma digit_inj: "i < 10 \<Longrightarrow> j < 10 \<Longrightarrow> digit_char i = digit_char j \<Longrightarrow> i = j"
  by (simp add: digit_char_def)

lemma published_batches:
  assumes "batch \<in> set (publish_messages key_text id_prefix to_message keys)"
  shows "length batch \<le> 10 \<and> distinct (map se_id batch)"
proof -
  obtain chunk where c: "chunk \<in> set (slice_chunks 10 keys)" "batch = map (entry_of key_text id_prefix to_message) (enumerate 0 chunk)"
    using assms by (auto simp: publish_messages_def)
  have len: "length chunk \<le> 10" by (rule slice_chunks_length [OF c(1)])
  have "inj_on (\<lambda>ik. se_id (entry_of key_text id_prefix to_message ik)) (set (enumerate 0 chunk))"
  proof (rule inj_onI)
    fix x y
    assume x: "x \<in> set (enumerate 0 chunk)" and y: "y \<in> set (enumerate 0 chunk)"
      and eq: "se_id (entry_of key_text id_prefix to_message x) = se_id (entry_of key_text id_prefix to_message y)"
    have "fst x < 10" "fst y < 10" using x y len by (auto simp: in_set_enumerate_eq)
    then have "fst x = fst y" using eq digit_inj by (simp add: entry_of_def digit_then)
    then show "x = y" using x y by (auto simp: in_set_enumerate_eq prod_eq_iff)
  qed
  then show ?thesis using c(2) len by (simp add: distinct_map o_def)
qed

text \<open>The id of an entry carries the token id as it is, so nothing bounds its length.\<close>

lemma entry_id_unbounded:
  "length (se_id (entry_of nft_key_text ''nft'' NftTokenUri (i, \<lparr>nk_contract_id = c, nk_token_id = t\<rparr>))) > length t"
  by (simp add: entry_of_def nft_key_text_def)

subsection \<open>The worker\<close>

fun row_message :: "enrich_row \<Rightarrow> enrichment_message" where
  "row_message (EnAsset r) =
     Sep1Assets \<lparr>ak_asset_type = aer_asset_type r, ak_asset_code = aer_asset_code r, ak_issuer_id = aer_issuer_id r,
                 ak_contract_id = aer_contract_id r\<rparr>"
| "row_message (EnNft r) = NftTokenUri \<lparr>nk_contract_id = ner_contract_id r, nk_token_id = ner_token_id r\<rparr>"

lemma insert_asset_row:
  "insert_asset en key icon name log = (r, log') \<Longrightarrow>
     (\<exists>row. r \<in> range Inr \<and> log' = log @ [row] \<and> row_message row = Sep1Assets key) \<or> (r \<in> range Inl \<and> log' = log)"
  by (auto simp: insert_asset_def insert_row_def Let_def split: option.splits if_splits)

lemma insert_nft_row:
  "insert_nft en key name media collection log = (r, log') \<Longrightarrow>
     (\<exists>row. r \<in> range Inr \<and> log' = log @ [row] \<and> row_message row = NftTokenUri key) \<or> (r \<in> range Inl \<and> log' = log)"
  by (auto simp: insert_nft_def insert_row_def Let_def split: option.splits)

lemma enrich_asset_row:
  "enrich_asset_from_sep1 en key log = (r, log') \<Longrightarrow>
     (\<exists>row. r \<in> range Inr \<and> log' = log @ [row] \<and> row_message row = Sep1Assets key) \<or> (r \<in> range Inl \<and> log' = log)"
  by (auto simp: enrich_asset_from_sep1_def asset_sentinel_def split: sum.splits option.splits if_splits prod.splits
      dest!: insert_asset_row)

lemma enrich_nft_row:
  "enrich_nft_token_uri en key log = (r, log') \<Longrightarrow>
     (\<exists>row. r \<in> range Inr \<and> log' = log @ [row] \<and> row_message row = NftTokenUri key) \<or> (r \<in> range Inl \<and> log' = log)"
  by (auto simp: enrich_nft_token_uri_def Let_def split: sum.splits option.splits if_splits prod.splits
      dest!: insert_nft_row)

text \<open>What one record does: the rows it stores and whether it is reported for a retry.\<close>

definition record_done :: "enrich_env \<Rightarrow> sqs_message \<Rightarrow> bool \<Rightarrow> enrich_row list \<Rightarrow> bool" where
  "record_done en rec failed rows \<longleftrightarrow>
     (case parse_message en rec of
        Inl e \<Rightarrow> \<not> failed \<and> rows = []
      | Inr m \<Rightarrow> (failed \<and> rows = []) \<or> (\<not> failed \<and> (\<exists>row. rows = [row] \<and> row_message row = m)))"

lemma handle_record_done:
  assumes "handle_record en rec log = (outcome, log')"
  shows "\<exists>failed rows. log' = log @ rows \<and> record_done en rec failed rows \<and>
     classify_outcome message_id outcome = (if failed then Some message_id else None)"
proof (cases "parse_message en rec")
  case (Inl e)
  then obtain t where "e = RecPermanent t"
    by (auto simp: parse_message_def split: option.splits sum.splits simp: ok_or_def)
  then show ?thesis using assms Inl
    by (intro exI [of _ False] exI [of _ "[]"]) (auto simp: handle_record_def record_done_def)
next
  case (Inr m)
  obtain r log1 where e: "(case m of Sep1Assets key \<Rightarrow> enrich_asset_from_sep1 en key log
      | NftTokenUri key \<Rightarrow> enrich_nft_token_uri en key log) = (r, log1)" by fastforce
  have step: "(\<exists>row. r \<in> range Inr \<and> log1 = log @ [row] \<and> row_message row = m) \<or> (r \<in> range Inl \<and> log1 = log)"
    using e enrich_asset_row enrich_nft_row by (cases m) auto
  then show ?thesis
  proof (elim disjE exE conjE)
    fix row assume "r \<in> range Inr" "log1 = log @ [row]" "row_message row = m"
    then show ?thesis using assms Inr e
      by (intro exI [of _ False] exI [of _ "[row]"]) (auto simp: handle_record_def record_done_def)
  next
    assume "r \<in> range Inl" "log1 = log"
    then show ?thesis using assms Inr e
      by (intro exI [of _ True] exI [of _ "[]"]) (auto simp: handle_record_def record_done_def)
  qed
qed

text \<open>A batch whose records all carry an id: every readable message either stores exactly one row, under its
  own key, or stores nothing and is reported for a retry; an unreadable one is dropped without a trace.\<close>

theorem worker_stores_or_retries:
  assumes "handle_event en recs failures log = (r, log')" and "\<forall>rec\<in>set recs. sm_message_id rec \<noteq> None"
  shows "\<exists>results. length results = length recs \<and>
     list_all2 (\<lambda>rec (failed, rows). record_done en rec failed rows) recs results \<and>
     log' = log @ concat (map snd results) \<and>
     r = Inr (failures @ filter_map (\<lambda>(rec, failed, rows). if failed then sm_message_id rec else None) (zip recs results))"
  using assms
proof (induction recs arbitrary: failures log)
  case Nil
  then show ?case by simp
next
  case (Cons rec recs)
  obtain message_id where mid: "sm_message_id rec = Some message_id" using Cons.prems(2) by auto
  obtain outcome log1 where h: "handle_record en rec log = (outcome, log1)" by fastforce
  obtain failed rows where d: "log1 = log @ rows" "record_done en rec failed rows"
      "classify_outcome message_id outcome = (if failed then Some message_id else None)"
    using handle_record_done [OF h] by blast
  let ?f = "if failed then failures @ [message_id] else failures"
  have rest: "handle_event en recs ?f log1 = (r, log')"
    using Cons.prems(1) by (simp add: require_message_id_def mid h d(3) split: if_splits)
  obtain results where res: "length results = length recs"
      "list_all2 (\<lambda>rec (failed, rows). record_done en rec failed rows) recs results"
      "log' = log1 @ concat (map snd results)"
      "r = Inr (?f @ filter_map (\<lambda>(rec, failed, rows). if failed then sm_message_id rec else None) (zip recs results))"
    using Cons.IH [OF rest] Cons.prems(2) by auto
  then show ?case using d mid by (intro exI [of _ "(failed, rows) # results"]) auto
qed

end
