(* ===== verification/Snapshot.thy ===== *)
theory Snapshot
  imports Ingest
begin

text \<open>
  The state of the network at a checkpoint, read from a history archive
  (\<open>backfill-runner/src/snapshot/archive.rs\<close>, \<open>network_state.rs\<close>), and the rule that compares a stored row
  with it (\<open>verdict.rs\<close>, \<open>slices.rs\<close>, \<open>entry_freshness.rs\<close>).  HTTP, gzip, SHA-256, the JSON parser and the
  framed XDR reader are functions of \<open>archive_ext\<close>; the file a bucket is spilled to is left out.  A hash
  map is the list of its entries in the order they were inserted.
\<close>

subsection \<open>The bucket list of a checkpoint\<close>

datatype snapshot_record = SnapLive int ledger_entry | SnapDead ledger_key

datatype bucket_entry =
    BkLive int ledger_entry
  | BkInit int ledger_entry
  | BkDead ledger_key
  | BkMeta

record archive_ext =
  ax_get :: "string \<Rightarrow> string + nat \<times> (string + bytes)"
  ax_json :: "bytes \<Rightarrow> string + json"
  ax_gunzip :: "bytes \<Rightarrow> string + bytes"
  ax_sha256_hex :: "bytes \<Rightarrow> string"
  ax_frames :: "bytes \<Rightarrow> (string + bucket_entry) list"

record bucket_list =
  bk_checkpoint_ledger :: int
  bk_hashes :: "string list"

definition pubnet_archive :: string where
  "pubnet_archive = ''https://history.stellar.org/prd/core-live/core_live_001''"

definition checkpoint_frequency :: int where "checkpoint_frequency = 64"

definition is_checkpoint :: "int \<Rightarrow> bool" where
  "is_checkpoint ledger \<longleftrightarrow> ledger mod checkpoint_frequency = checkpoint_frequency - 1"

definition bucket_url :: "string \<Rightarrow> string \<Rightarrow> string" where
  "bucket_url archive hash =
     archive @ ''/bucket/'' @ take 2 hash @ ''/'' @ take 2 (drop 2 hash) @ ''/'' @ take 2 (drop 4 hash) @
     ''/bucket-'' @ hash @ ''.xdr.gz''"

text \<open>A request whose answer has a success status, and its body.\<close>

definition archive_get :: "archive_ext \<Rightarrow> string \<Rightarrow> string \<Rightarrow> string \<Rightarrow> backfill_error + bytes" where
  "archive_get x what body_failed url =
     (case ax_get x url of
        Inl e \<Rightarrow> Inl (BfIncomplete (what @ '' fetch failed: '' @ e))
      | Inr (status, body) \<Rightarrow>
          if 400 \<le> status \<and> status < 600 then Inl (BfIncomplete (what @ '' HTTP status: '' @ show_nat status))
          else (case body of Inl e \<Rightarrow> Inl (BfIncomplete (body_failed @ e)) | Inr bytes \<Rightarrow> Inr bytes))"

definition empty_slot :: string where "empty_slot = replicate 64 CHR ''0''"

definition read_slot :: "json \<Rightarrow> string \<Rightarrow> backfill_error + string" where
  "read_slot level slot =
     try_res (ok_or (BfIncomplete (''manifest currentBuckets level is missing a string `'' @ slot @ ''`''))
                (get_str level slot)) (\<lambda>h.
       if length h \<noteq> 64 \<or> \<not> list_all is_ascii_hexdigit h
       then Inl (BfIncomplete (''manifest currentBuckets hash is not 64 hex chars: '' @ h)) else Inr h)"

definition slot_step :: "string list \<Rightarrow> json \<times> string \<Rightarrow> backfill_error + string list" where
  "slot_step hashes s =
     (case s of (level, slot) \<Rightarrow>
        try_res (read_slot level slot) (\<lambda>h. Inr (if h \<noteq> empty_slot then hashes @ [h] else hashes)))"

definition level_slots :: "json list \<Rightarrow> (json \<times> string) list" where
  "level_slots levels = concat (map (\<lambda>level. [(level, ''curr''), (level, ''snap'')]) levels)"

definition fetch_bucket_list :: "archive_ext \<Rightarrow> string \<Rightarrow> backfill_error + bucket_list" where
  "fetch_bucket_list x archive =
     try_res (archive_get x ''history manifest'' ''history manifest decode failed: ''
                (archive @ ''/.well-known/stellar-history.json'')) (\<lambda>bytes.
     try_res (case ax_json x bytes of Inl e \<Rightarrow> Inl (BfIncomplete (''history manifest decode failed: '' @ e))
                                    | Inr body \<Rightarrow> Inr body) (\<lambda>body.
     try_res (ok_or (BfIncomplete ''manifest has no currentLedger'')
                (Option.bind (jget body ''currentLedger'') as_u64)) (\<lambda>current.
     let checkpoint_ledger = wrap_u32 current in
     if \<not> is_checkpoint checkpoint_ledger then
       Inl (BfIncomplete (''manifest currentLedger '' @ show_int checkpoint_ledger @ '' is not a checkpoint''))
     else
       try_res (ok_or (BfIncomplete ''manifest has no currentBuckets'')
                  (Option.bind (jget body ''currentBuckets'') as_array)) (\<lambda>levels.
       try_res (fold_res slot_step [] (level_slots levels)) (\<lambda>hashes.
       Inr \<lparr>bk_checkpoint_ledger = checkpoint_ledger, bk_hashes = hashes\<rparr>)))))"

subsection \<open>The records of a bucket\<close>

fun stream_records ::
  "(snapshot_record \<Rightarrow> 's \<Rightarrow> backfill_error + 's) \<Rightarrow> nat \<Rightarrow> (string + bucket_entry) list \<Rightarrow> 's \<Rightarrow>
   backfill_error + nat \<times> 's" where
  "stream_records f count [] s = Inr (count, s)"
| "stream_records f count (Inl e # rest) s = Inl (BfIncomplete (''bucket XDR decode failed: '' @ e))"
| "stream_records f count (Inr entry # rest) s =
     (let count1 = count + 1 in
      case entry of
        BkLive at e \<Rightarrow> try_res (f (SnapLive at e) s) (stream_records f count1 rest)
      | BkInit at e \<Rightarrow> try_res (f (SnapLive at e) s) (stream_records f count1 rest)
      | BkDead k \<Rightarrow> try_res (f (SnapDead k) s) (stream_records f count1 rest)
      | BkMeta \<Rightarrow>
          if count1 \<noteq> 1 then
            Inl (BfIncomplete (''METAENTRY at record '' @ show_nat count1 @ '', expected only at record 1''))
          else stream_records f count1 rest s)"

definition stream_bucket ::
  "archive_ext \<Rightarrow> bytes \<Rightarrow> (snapshot_record \<Rightarrow> 's \<Rightarrow> backfill_error + 's) \<Rightarrow> 's \<Rightarrow> backfill_error + nat \<times> 's" where
  "stream_bucket x gz f s =
     (case ax_gunzip x gz of
        Inl e \<Rightarrow> Inl (BfIncomplete (''bucket XDR decode failed: '' @ e))
      | Inr bytes \<Rightarrow> stream_records f 0 (ax_frames x bytes) s)"

text \<open>The content is hashed, decompressed, before a record of it is used.\<close>

definition stream_bucket_from_url ::
  "archive_ext \<Rightarrow> string \<Rightarrow> string \<Rightarrow> (snapshot_record \<Rightarrow> 's \<Rightarrow> backfill_error + 's) \<Rightarrow> 's \<Rightarrow>
   backfill_error + nat \<times> 's" where
  "stream_bucket_from_url x url expect_hash f s =
     try_res (archive_get x ''bucket'' ''bucket body failed: '' url) (\<lambda>gz.
     try_res (case ax_gunzip x gz of Inl e \<Rightarrow> Inl (BfIncomplete (''bucket verify read: '' @ e))
                                   | Inr bytes \<Rightarrow> Inr bytes) (\<lambda>bytes.
     let got = ax_sha256_hex x bytes in
     if got \<noteq> expect_hash then
       Inl (BfIncomplete (''bucket content hash mismatch: manifest says '' @ expect_hash @
                          '', decompressed bytes hash to '' @ got))
     else map_res (\<lambda>r. (length gz, snd r)) (stream_bucket x gz f s)))"

subsection \<open>The facts of a record\<close>

type_synonym holding_key = "int \<times> int"

record net_holding =
  nh_live :: bool
  nh_ledger :: int
  nh_balance :: int
  nh_matched :: bool

definition live_holding :: "int \<Rightarrow> int \<Rightarrow> net_holding" where
  "live_holding ledger balance = \<lparr>nh_live = True, nh_ledger = ledger, nh_balance = balance, nh_matched = False\<rparr>"

definition dead_holding :: net_holding where
  "dead_holding = \<lparr>nh_live = False, nh_ledger = 0, nh_balance = 0, nh_matched = False\<rparr>"

record account_detail =
  ad_strkey :: string
  ad_seq_num :: int
  ad_home_domain :: string
  ad_thresholds :: bytes
  ad_flags :: int
  ad_num_sponsoring :: int
  ad_num_sponsored :: int
  ad_signers :: "(string \<times> int \<times> string) list"

type_synonym asset_identity = "string \<times> string"

datatype net_fact =
    FactAccount int net_holding "account_detail option"
  | FactTrustline holding_key net_holding
  | FactPoolShare int bytes net_holding
  | FactClaimableBalance int "(int \<times> asset_identity option) option" net_holding
  | FactPool bytes "(int \<times> ledger_entry) option"

definition claimable_holder_id :: "ids_ext \<Rightarrow> xdr_ext \<Rightarrow> bytes \<Rightarrow> int" where
  "claimable_holder_id ix x bid = address_id ix (x_address x (AddrClaimableBalance bid))"

fun snapshot_classic_asset :: "ids_ext \<Rightarrow> xdr_ext \<Rightarrow> asset \<Rightarrow> int \<times> asset_identity option" where
  "snapshot_classic_asset ix x AssetNative = (native_asset_id, None)"
| "snapshot_classic_asset ix x (AssetCredit4 code issuer) =
     (let c = asset_code_str x code; i = x_account x issuer in (credit_asset_id ix c i, Some (c, i)))"
| "snapshot_classic_asset ix x (AssetCredit12 code issuer) =
     (let c = asset_code_str x code; i = x_account x issuer in (credit_asset_id ix c i, Some (c, i)))"

fun is_native_trustline :: "snapshot_record \<Rightarrow> bool" where
  "is_native_trustline (SnapLive at e) =
     (case e of EntryTrustline acct asset balance limit flags \<Rightarrow> asset = TlNative | _ \<Rightarrow> False)"
| "is_native_trustline (SnapDead k) = (case k of KeyTrustline acct asset \<Rightarrow> asset = TlNative | _ \<Rightarrow> False)"

fun trustline_asset_id :: "ids_ext \<Rightarrow> xdr_ext \<Rightarrow> trustline_asset \<Rightarrow> int option" where
  "trustline_asset_id ix x TlNative = None"
| "trustline_asset_id ix x (TlCredit4 code issuer) =
     Some (credit_asset_id ix (asset_code_str x code) (x_account x issuer))"
| "trustline_asset_id ix x (TlCredit12 code issuer) =
     Some (credit_asset_id ix (asset_code_str x code) (x_account x issuer))"
| "trustline_asset_id ix x (TlPoolShare pool) = None"

fun trustline_identity :: "xdr_ext \<Rightarrow> snapshot_record \<Rightarrow> asset_identity option" where
  "trustline_identity x (SnapLive at e) =
     (case e of
        EntryTrustline acct asset balance limit flags \<Rightarrow>
          (case asset of
             TlCredit4 code issuer \<Rightarrow> Some (asset_code_str x code, x_account x issuer)
           | TlCredit12 code issuer \<Rightarrow> Some (asset_code_str x code, x_account x issuer)
           | TlNative \<Rightarrow> None
           | TlPoolShare pool \<Rightarrow> None)
      | _ \<Rightarrow> None)"
| "trustline_identity x (SnapDead k) = None"

definition account_detail_of :: "xdr_ext \<Rightarrow> entry_names \<Rightarrow> bytes \<Rightarrow> account_rest \<Rightarrow> account_detail" where
  "account_detail_of x n acct a =
     \<lparr>ad_strkey = x_account x acct, ad_seq_num = sint (ac_seq_num a),
      ad_home_domain = from_utf8_lossy (ac_home_domain a), ad_thresholds = ac_thresholds a,
      ad_flags = uint (ac_flags a), ad_num_sponsoring = num_sponsoring a, ad_num_sponsored = num_sponsored a,
      ad_signers = map (\<lambda>s. (en_signer n (fst s), uint (snd s), signer_type_name (fst s))) (ac_signers a)\<rparr>"

definition trustline_fact :: "ids_ext \<Rightarrow> xdr_ext \<Rightarrow> bytes \<Rightarrow> trustline_asset \<Rightarrow> net_holding \<Rightarrow> net_fact option" where
  "trustline_fact ix x acct asset entry =
     (let holder_id = address_id ix (x_account x acct) in
      case asset of
        TlPoolShare pool \<Rightarrow> Some (FactPoolShare holder_id pool entry)
      | _ \<Rightarrow> map_option (\<lambda>asset_id. FactTrustline (holder_id, asset_id) entry) (trustline_asset_id ix x asset))"

fun classify_record :: "ids_ext \<Rightarrow> xdr_ext \<Rightarrow> entry_names \<Rightarrow> snapshot_record \<Rightarrow> net_fact option" where
  "classify_record ix x n (SnapLive at e) =
     (case e of
        EntryAccount acct balance a \<Rightarrow>
          Some (FactAccount (address_id ix (x_account x acct)) (live_holding at (sint balance))
                  (Some (account_detail_of x n acct a)))
      | EntryTrustline acct asset balance limit flags \<Rightarrow>
          trustline_fact ix x acct asset (live_holding at (sint balance))
      | EntryClaimableBalance bid asset amount claimants \<Rightarrow>
          Some (FactClaimableBalance (claimable_holder_id ix x bid) (Some (snapshot_classic_asset ix x asset))
                  (live_holding at (sint amount)))
      | EntryLiquidityPool pool a b ra rb q \<Rightarrow> Some (FactPool pool (Some (at, e)))
      | _ \<Rightarrow> None)"
| "classify_record ix x n (SnapDead k) =
     (case k of
        KeyAccount acct \<Rightarrow> Some (FactAccount (address_id ix (x_account x acct)) dead_holding None)
      | KeyTrustline acct asset \<Rightarrow> trustline_fact ix x acct asset dead_holding
      | KeyClaimableBalance bid \<Rightarrow> Some (FactClaimableBalance (claimable_holder_id ix x bid) None dead_holding)
      | KeyLiquidityPool pool \<Rightarrow> Some (FactPool pool None)
      | _ \<Rightarrow> None)"

subsection \<open>The state they build\<close>

record network_state =
  ns_accounts :: "(int \<times> net_holding) list"
  ns_trustlines :: "(holding_key \<times> net_holding) list"
  ns_pool_shares :: "((int \<times> bytes) \<times> net_holding) list"
  ns_claimable_balances :: "(int \<times> net_holding \<times> int option) list"
  ns_pools :: "(bytes \<times> (int \<times> ledger_entry) option) list"
  ns_account_details :: "(int \<times> account_detail) list"
  ns_asset_registry :: "(int \<times> asset_identity) list"
  ns_unmodelled :: nat
  ns_native_trustlines :: nat
  ns_superseded :: nat

definition empty_network :: network_state where
  "empty_network =
     \<lparr>ns_accounts = [], ns_trustlines = [], ns_pool_shares = [], ns_claimable_balances = [], ns_pools = [],
      ns_account_details = [], ns_asset_registry = [], ns_unmodelled = 0, ns_native_trustlines = 0,
      ns_superseded = 0\<rparr>"

definition or_insert :: "'k \<Rightarrow> 'v \<Rightarrow> ('k \<times> 'v) list \<Rightarrow> ('k \<times> 'v) list" where
  "or_insert k v m = (if map_of m k = None then m @ [(k, v)] else m)"

definition superseding :: "'k \<Rightarrow> ('k \<times> 'v) list \<Rightarrow> nat \<Rightarrow> nat" where
  "superseding k m n = (if map_of m k = None then n else n + 1)"

definition first_wins :: "'k \<Rightarrow> 'v \<Rightarrow> ('k \<times> 'v) list \<Rightarrow> nat \<Rightarrow> ('k \<times> 'v) list \<times> nat" where
  "first_wins k v m superseded = (or_insert k v m, superseding k m superseded)"

fun absorb :: "net_fact \<Rightarrow> network_state \<Rightarrow> network_state" where
  "absorb (FactAccount holder_id entry detail) st =
     (let details = (case detail of
                       Some d \<Rightarrow> if map_of (ns_accounts st) holder_id = None
                                 then assoc_insert holder_id d (ns_account_details st) else ns_account_details st
                     | None \<Rightarrow> ns_account_details st);
          (m, sup) = first_wins holder_id entry (ns_accounts st) (ns_superseded st)
      in st\<lparr>ns_account_details := details, ns_accounts := m, ns_superseded := sup\<rparr>)"
| "absorb (FactTrustline key entry) st =
     (let (m, sup) = first_wins key entry (ns_trustlines st) (ns_superseded st)
      in st\<lparr>ns_trustlines := m, ns_superseded := sup\<rparr>)"
| "absorb (FactPoolShare holder_id pool entry) st =
     (let (m, sup) = first_wins (holder_id, pool) entry (ns_pool_shares st) (ns_superseded st)
      in st\<lparr>ns_pool_shares := m, ns_superseded := sup\<rparr>)"
| "absorb (FactClaimableBalance holder_id asset entry) st =
     (let registry = (case asset of
                        Some (aid, Some identity) \<Rightarrow> or_insert aid identity (ns_asset_registry st)
                      | _ \<Rightarrow> ns_asset_registry st);
          (m, sup) = first_wins holder_id (entry, map_option fst asset) (ns_claimable_balances st) (ns_superseded st)
      in st\<lparr>ns_asset_registry := registry, ns_claimable_balances := m, ns_superseded := sup\<rparr>)"
| "absorb (FactPool pool entry) st =
     (let (m, sup) = first_wins pool entry (ns_pools st) (ns_superseded st)
      in st\<lparr>ns_pools := m, ns_superseded := sup\<rparr>)"

definition register_trustline :: "xdr_ext \<Rightarrow> snapshot_record \<Rightarrow> net_fact \<Rightarrow> network_state \<Rightarrow> network_state" where
  "register_trustline x r item st =
     (case (item, trustline_identity x r) of
        (FactTrustline key entry, Some identity) \<Rightarrow>
          st\<lparr>ns_asset_registry := or_insert (snd key) identity (ns_asset_registry st)\<rparr>
      | _ \<Rightarrow> st)"

definition absorb_record :: "ids_ext \<Rightarrow> xdr_ext \<Rightarrow> entry_names \<Rightarrow> snapshot_record \<Rightarrow> network_state \<Rightarrow> network_state" where
  "absorb_record ix x n r st =
     (case classify_record ix x n r of
        Some item \<Rightarrow> absorb item (register_trustline x r item st)
      | None \<Rightarrow>
          if is_native_trustline r then st\<lparr>ns_native_trustlines := ns_native_trustlines st + 1\<rparr>
          else st\<lparr>ns_unmodelled := ns_unmodelled st + 1\<rparr>)"

definition bucket_step ::
  "archive_ext \<Rightarrow> ids_ext \<Rightarrow> xdr_ext \<Rightarrow> entry_names \<Rightarrow> network_state \<Rightarrow> string \<Rightarrow> backfill_error + network_state" where
  "bucket_step ax ix x n st hash =
     map_res snd (stream_bucket_from_url ax (bucket_url pubnet_archive hash) hash
                    (\<lambda>r st. Inr (absorb_record ix x n r st)) st)"

definition open_snapshot ::
  "archive_ext \<Rightarrow> ids_ext \<Rightarrow> xdr_ext \<Rightarrow> entry_names \<Rightarrow> bucket_list \<Rightarrow> backfill_error + network_state" where
  "open_snapshot ax ix x n bl = fold_res (bucket_step ax ix x n) empty_network (bk_hashes bl)"

subsection \<open>The verdict on a row\<close>

record our_row =
  our_holder_id :: int
  our_asset_id :: int
  our_amount :: int
  our_last_updated_ledger :: int
  our_closed_at_ledger :: int

datatype verdict =
    VdAlreadyClosed | VdClosedButLive | VdClosedButLiveConflict | VdAgree | VdHealFromSnapshot
  | VdDivergentOursNewer | VdDivergentSameLedger | VdStale | VdClosure | VdGhost | VdNewerThanCheckpoint

definition verdict_of :: "our_row \<Rightarrow> net_holding option \<Rightarrow> int \<Rightarrow> verdict" where
  "verdict_of row net checkpoint =
     (if our_last_updated_ledger row \<ge> checkpoint then VdNewerThanCheckpoint
      else if our_closed_at_ledger row \<noteq> 0 then
        (case opt_filter nh_live net of
           Some e \<Rightarrow> if nh_ledger e > our_last_updated_ledger row then VdClosedButLive else VdClosedButLiveConflict
         | None \<Rightarrow> VdAlreadyClosed)
      else
        (case opt_filter nh_live net of
           Some e \<Rightarrow>
             if nh_balance e \<noteq> our_amount row then
               (if nh_ledger e > our_last_updated_ledger row then VdHealFromSnapshot
                else if nh_ledger e < our_last_updated_ledger row then VdDivergentOursNewer
                else VdDivergentSameLedger)
             else if our_last_updated_ledger row < nh_ledger e then VdStale
             else VdAgree
         | None \<Rightarrow> if our_amount row = 0 then VdClosure else VdGhost))"

record correction =
  cn_amount :: int
  cn_last_updated_ledger :: int
  cn_closed_at_ledger :: int

fun correction_of :: "verdict \<Rightarrow> net_holding option \<Rightarrow> int \<Rightarrow> correction option" where
  "correction_of VdAlreadyClosed net checkpoint = None"
| "correction_of VdAgree net checkpoint = None"
| "correction_of VdDivergentOursNewer net checkpoint = None"
| "correction_of VdStale net checkpoint = None"
| "correction_of VdDivergentSameLedger net checkpoint = None"
| "correction_of VdClosedButLiveConflict net checkpoint = None"
| "correction_of VdNewerThanCheckpoint net checkpoint = None"
| "correction_of VdClosedButLive net checkpoint =
     map_option (\<lambda>e. \<lparr>cn_amount = nh_balance e, cn_last_updated_ledger = nh_ledger e, cn_closed_at_ledger = 0\<rparr>) net"
| "correction_of VdHealFromSnapshot net checkpoint =
     map_option (\<lambda>e. \<lparr>cn_amount = nh_balance e, cn_last_updated_ledger = nh_ledger e, cn_closed_at_ledger = 0\<rparr>) net"
| "correction_of VdClosure net checkpoint =
     Some \<lparr>cn_amount = 0, cn_last_updated_ledger = checkpoint, cn_closed_at_ledger = checkpoint\<rparr>"
| "correction_of VdGhost net checkpoint =
     Some \<lparr>cn_amount = 0, cn_last_updated_ledger = checkpoint, cn_closed_at_ledger = checkpoint\<rparr>"

definition holding_for :: "network_state \<Rightarrow> our_row \<Rightarrow> net_holding option" where
  "holding_for st row =
     (if our_asset_id row = native_asset_id then map_of (ns_accounts st) (our_holder_id row)
      else map_of (ns_trustlines st) (our_holder_id row, our_asset_id row))"

definition mark :: "('v \<Rightarrow> 'v) \<Rightarrow> 'k \<Rightarrow> ('k \<times> 'v) list \<Rightarrow> ('k \<times> 'v) list" where
  "mark f k m = map (\<lambda>(a, v). (a, if a = k then f v else v)) m"

definition matched :: "net_holding \<Rightarrow> net_holding" where "matched e = e\<lparr>nh_matched := True\<rparr>"

definition claim :: "our_row \<Rightarrow> network_state \<Rightarrow> net_holding option \<times> network_state" where
  "claim row st =
     (map_option matched (holding_for st row),
      if our_asset_id row = native_asset_id
      then st\<lparr>ns_accounts := mark matched (our_holder_id row) (ns_accounts st)\<rparr>
      else st\<lparr>ns_trustlines := mark matched (our_holder_id row, our_asset_id row) (ns_trustlines st)\<rparr>)"

subsection \<open>Slices of the key space and freshness\<close>

definition key_slice_count :: int where "key_slice_count = 64"

definition slice_step :: int where "slice_step = (i64_max - i64_min + 1) div key_slice_count"

definition key_slices :: "(int \<times> int) list" where
  "key_slices = map (\<lambda>s. (i64_min + s * slice_step,
                           if s = key_slice_count - 1 then i64_max else i64_min + (s + 1) * slice_step - 1))
                  [0..key_slice_count - 1]"

definition slice_sql :: "string \<Rightarrow> string \<Rightarrow> int \<Rightarrow> int \<Rightarrow> string" where
  "slice_sql table filt low high =
     ''SELECT holder_id, asset_id, tupleElement(best, 1) AS amount, led AS last_updated_ledger, '' @
     ''tupleElement(best, 2) AS closed_at_ledger FROM ( SELECT holder_id, asset_id, '' @
     ''argMax((amount, closed_at_ledger), last_updated_ledger) AS best, max(last_updated_ledger) AS led FROM '' @
     table @ '' WHERE holder_id BETWEEN '' @ show_int low @ '' AND '' @ show_int high @ '' '' @ filt @
     '' GROUP BY holder_id, asset_id )''"

datatype entry_need = NeedMissing | NeedStale | NeedCurrent

definition need_of :: "int option \<Rightarrow> int \<Rightarrow> entry_need" where
  "need_of our_newest entry_ledger =
     (case our_newest of
        None \<Rightarrow> NeedMissing
      | Some ours \<Rightarrow> if ours < entry_ledger then NeedStale else NeedCurrent)"

end
