(* ===== verification/SnapshotSeed.thy ===== *)
theory SnapshotSeed
  imports Snapshot "HOL-Library.Option_ord" "HOL-Library.Product_Lexorder"
begin

text \<open>
  The seed of \<open>backfill-runner/src/snapshot/\<close>: our rows are compared with a checkpoint of the network and
  the rows that correct them are inserted (\<open>balances.rs\<close>, \<open>claimable.rs\<close>, \<open>pools.rs\<close>, \<open>entry_state.rs\<close>,
  \<open>seed.rs\<close>), with the counts and samples of the report (\<open>report.rs\<close>).  A query is a call of the log and
  its rows are a parameter; the text of the summary and of the dumps is left out, and an artifact that
  cannot be written is an outcome of \<open>se_artifact\<close>.
\<close>

subsection \<open>The report\<close>

text \<open>A sample keeps the rows with the least hashes: a heap, here the ascending list of its elements.\<close>

type_synonym sample = "(int \<times> string \<times> string option) list"

definition sample_cap :: nat where "sample_cap = 1000"

definition sample_hash :: "int \<Rightarrow> int \<Rightarrow> int" where
  "sample_hash holder aid =
     (let x = xor (word_of_int holder) (word_of_int aid) :: 64 word;
          x = xor x (drop_bit 30 x) * 0xbf58476d1ce4e5b9;
          x = xor x (drop_bit 27 x) * 0x94d049bb133111eb
      in uint (xor x (drop_bit 31 x)))"

definition offer :: "nat \<Rightarrow> int \<Rightarrow> int \<Rightarrow> string \<Rightarrow> string option \<Rightarrow> sample \<Rightarrow> sample" where
  "offer cap holder aid line key s =
     (let h = sample_hash holder aid in
      if length s < cap then insort (h, line, key) s
      else (case last_opt s of
              Some worst \<Rightarrow> if h < fst worst then insort (h, line, key) (butlast s) else s
            | None \<Rightarrow> s))"

record tally =
  ty_missing :: nat
  ty_closure :: nat
  ty_ghost :: nat
  ty_heal :: nat
  ty_divergent_ours_newer :: nat
  ty_stale :: nat
  ty_agree :: nat
  ty_already_closed :: nat
  ty_closed_but_live :: nat
  ty_closed_but_live_conflict :: nat
  ty_divergent_same_ledger :: nat
  ty_newer_than_checkpoint :: nat
  ty_ghost_stroops :: int

definition empty_tally :: tally where
  "empty_tally =
     \<lparr>ty_missing = 0, ty_closure = 0, ty_ghost = 0, ty_heal = 0, ty_divergent_ours_newer = 0, ty_stale = 0,
      ty_agree = 0, ty_already_closed = 0, ty_closed_but_live = 0, ty_closed_but_live_conflict = 0,
      ty_divergent_same_ledger = 0, ty_newer_than_checkpoint = 0, ty_ghost_stroops = 0\<rparr>"

fun tally_observe :: "verdict \<Rightarrow> int \<Rightarrow> tally \<Rightarrow> tally" where
  "tally_observe VdAlreadyClosed amount t = t\<lparr>ty_already_closed := ty_already_closed t + 1\<rparr>"
| "tally_observe VdClosedButLive amount t = t\<lparr>ty_closed_but_live := ty_closed_but_live t + 1\<rparr>"
| "tally_observe VdClosedButLiveConflict amount t =
     t\<lparr>ty_closed_but_live_conflict := ty_closed_but_live_conflict t + 1\<rparr>"
| "tally_observe VdDivergentSameLedger amount t = t\<lparr>ty_divergent_same_ledger := ty_divergent_same_ledger t + 1\<rparr>"
| "tally_observe VdAgree amount t = t\<lparr>ty_agree := ty_agree t + 1\<rparr>"
| "tally_observe VdHealFromSnapshot amount t = t\<lparr>ty_heal := ty_heal t + 1\<rparr>"
| "tally_observe VdDivergentOursNewer amount t = t\<lparr>ty_divergent_ours_newer := ty_divergent_ours_newer t + 1\<rparr>"
| "tally_observe VdStale amount t = t\<lparr>ty_stale := ty_stale t + 1\<rparr>"
| "tally_observe VdClosure amount t = t\<lparr>ty_closure := ty_closure t + 1\<rparr>"
| "tally_observe VdGhost amount t =
     t\<lparr>ty_ghost := ty_ghost t + 1, ty_ghost_stroops := wrap_i128 (ty_ghost_stroops t + amount)\<rparr>"
| "tally_observe VdNewerThanCheckpoint amount t = t\<lparr>ty_newer_than_checkpoint := ty_newer_than_checkpoint t + 1\<rparr>"

definition key_line :: "network_state \<Rightarrow> int \<Rightarrow> int \<Rightarrow> bool \<Rightarrow> string option" where
  "key_line st holder aid is_native =
     do { d \<leftarrow> map_of (ns_account_details st) holder;
          if is_native then Some (''account'' @ CHR 0x09 # ad_strkey d)
          else do { (code, issuer) \<leftarrow> map_of (ns_asset_registry st) aid;
                    Some (join_with [CHR 0x09] [''trustline'', ad_strkey d, code, issuer]) } }"

record samples =
  sm_closure_classic :: sample
  sm_ghost_classic :: sample
  sm_ghost_native :: sample
  sm_divergent_classic :: sample
  sm_divergent_native :: sample
  sm_agree_classic :: sample
  sm_missing_classic :: sample
  sm_missing_native :: sample
  sm_closed_but_live :: sample
  sm_closed_but_live_conflict :: sample
  sm_divergent_same_ledger :: sample
  sm_missing_below_floor :: nat
  sm_missing_above_floor :: nat
  sm_missing_native_below_floor :: nat
  sm_missing_native_above_floor :: nat
  sm_missing_above_by_2m :: "(int \<times> nat) list"
  sm_missing_native_above_by_2m :: "(int \<times> nat) list"

definition no_samples :: samples where
  "no_samples =
     \<lparr>sm_closure_classic = [], sm_ghost_classic = [], sm_ghost_native = [], sm_divergent_classic = [],
      sm_divergent_native = [], sm_agree_classic = [], sm_missing_classic = [], sm_missing_native = [],
      sm_closed_but_live = [], sm_closed_but_live_conflict = [], sm_divergent_same_ledger = [],
      sm_missing_below_floor = 0, sm_missing_above_floor = 0, sm_missing_native_below_floor = 0,
      sm_missing_native_above_floor = 0, sm_missing_above_by_2m = [], sm_missing_native_above_by_2m = []\<rparr>"

record report =
  rp_classic :: tally
  rp_native :: tally
  rp_claimable :: tally
  rp_checkpoint :: int
  rp_samples :: samples

definition report_new :: "int \<Rightarrow> report" where
  "report_new checkpoint =
     \<lparr>rp_classic = empty_tally, rp_native = empty_tally, rp_claimable = empty_tally, rp_checkpoint = checkpoint,
      rp_samples = no_samples\<rparr>"

definition row_line :: "int \<Rightarrow> int \<Rightarrow> int \<Rightarrow> int \<Rightarrow> string" where
  "row_line holder aid amount ledger =
     join_with [CHR 0x09] [show_int holder, show_int aid, show_int amount, show_int ledger]"

definition our_line :: "our_row \<Rightarrow> string" where
  "our_line row = row_line (our_holder_id row) (our_asset_id row) (our_amount row) (our_last_updated_ledger row)"

definition sample_row :: "verdict \<Rightarrow> bool \<Rightarrow> (sample \<Rightarrow> sample) \<Rightarrow> samples \<Rightarrow> samples" where
  "sample_row v is_native f s =
     (case v of
        VdGhost \<Rightarrow> if is_native then s\<lparr>sm_ghost_native := f (sm_ghost_native s)\<rparr>
                    else s\<lparr>sm_ghost_classic := f (sm_ghost_classic s)\<rparr>
      | VdHealFromSnapshot \<Rightarrow> if is_native then s\<lparr>sm_divergent_native := f (sm_divergent_native s)\<rparr>
                               else s\<lparr>sm_divergent_classic := f (sm_divergent_classic s)\<rparr>
      | VdDivergentOursNewer \<Rightarrow> if is_native then s\<lparr>sm_divergent_native := f (sm_divergent_native s)\<rparr>
                                 else s\<lparr>sm_divergent_classic := f (sm_divergent_classic s)\<rparr>
      | VdClosedButLive \<Rightarrow> s\<lparr>sm_closed_but_live := f (sm_closed_but_live s)\<rparr>
      | VdClosedButLiveConflict \<Rightarrow> s\<lparr>sm_closed_but_live_conflict := f (sm_closed_but_live_conflict s)\<rparr>
      | VdDivergentSameLedger \<Rightarrow> s\<lparr>sm_divergent_same_ledger := f (sm_divergent_same_ledger s)\<rparr>
      | VdClosure \<Rightarrow> if is_native then s else s\<lparr>sm_closure_classic := f (sm_closure_classic s)\<rparr>
      | VdAgree \<Rightarrow> if is_native then s else s\<lparr>sm_agree_classic := f (sm_agree_classic s)\<rparr>
      | _ \<Rightarrow> s)"

definition observe :: "our_row \<Rightarrow> report \<Rightarrow> network_state \<Rightarrow> (verdict \<times> net_holding option) \<times> report \<times> network_state" where
  "observe row rep st =
     (let is_native = (our_asset_id row = native_asset_id);
          (net, st1) = claim row st;
          v = verdict_of row net (rp_checkpoint rep);
          rep1 = (if is_native then rep\<lparr>rp_native := tally_observe v (our_amount row) (rp_native rep)\<rparr>
                  else rep\<lparr>rp_classic := tally_observe v (our_amount row) (rp_classic rep)\<rparr>);
          take_row = offer sample_cap (our_holder_id row) (our_asset_id row) (our_line row)
                       (key_line st1 (our_holder_id row) (our_asset_id row) is_native)
      in ((v, net), rep1\<lparr>rp_samples := sample_row v is_native take_row (rp_samples rep1)\<rparr>, st1))"

definition ledger_floor :: int where "ledger_floor = 50457424"

definition band_of :: "int \<Rightarrow> int" where "band_of ledger = ledger div 2000000 * 2000000"

definition observe_missing_trustline :: "holding_key \<Rightarrow> net_holding \<Rightarrow> network_state \<Rightarrow> report \<Rightarrow> report" where
  "observe_missing_trustline key e st rep =
     (let s = rp_samples rep;
          s1 = (if nh_ledger e < ledger_floor then s\<lparr>sm_missing_below_floor := sm_missing_below_floor s + 1\<rparr>
                else s\<lparr>sm_missing_above_floor := sm_missing_above_floor s + 1,
                       sm_missing_above_by_2m :=
                         ord_entry (band_of (nh_ledger e)) 0 Suc (sm_missing_above_by_2m s)\<rparr>)
      in rep\<lparr>rp_classic := (rp_classic rep)\<lparr>ty_missing := ty_missing (rp_classic rep) + 1\<rparr>,
             rp_samples := s1\<lparr>sm_missing_classic :=
               offer sample_cap (fst key) (snd key) (row_line (fst key) (snd key) (nh_balance e) (nh_ledger e))
                 (key_line st (fst key) (snd key) False) (sm_missing_classic s1)\<rparr>\<rparr>)"

definition observe_missing_account :: "int \<Rightarrow> net_holding \<Rightarrow> network_state \<Rightarrow> report \<Rightarrow> report" where
  "observe_missing_account holder e st rep =
     (let s = rp_samples rep;
          s1 = (if nh_ledger e < ledger_floor
                then s\<lparr>sm_missing_native_below_floor := sm_missing_native_below_floor s + 1\<rparr>
                else s\<lparr>sm_missing_native_above_floor := sm_missing_native_above_floor s + 1,
                       sm_missing_native_above_by_2m :=
                         ord_entry (band_of (nh_ledger e)) 0 Suc (sm_missing_native_above_by_2m s)\<rparr>)
      in rep\<lparr>rp_native := (rp_native rep)\<lparr>ty_missing := ty_missing (rp_native rep) + 1\<rparr>,
             rp_samples := s1\<lparr>sm_missing_native :=
               offer sample_cap holder native_asset_id (row_line holder native_asset_id (nh_balance e) (nh_ledger e))
                 (key_line st holder native_asset_id True) (sm_missing_native s1)\<rparr>\<rparr>)"

subsection \<open>Queries\<close>

record our_entry_state =
  oe_account_id :: int
  oe_ledger :: int
  oe_num_sponsoring :: int
  oe_num_sponsored :: int

record our_newest =
  on_pool_id :: bytes
  on_ledger :: int
  on_has_reserves :: int

record seed_reads =
  sd_holdings :: "db_log \<Rightarrow> string \<Rightarrow> ch_error + our_row list"
  sd_ids :: "db_log \<Rightarrow> string \<Rightarrow> ch_error + int list"
  sd_entry_states :: "db_log \<Rightarrow> string \<Rightarrow> ch_error + our_entry_state list"
  sd_pools :: "db_log \<Rightarrow> string \<Rightarrow> ch_error + our_newest list"
  sd_tombstone :: "db_log \<Rightarrow> string \<Rightarrow> ch_error + int \<times> int"
  sd_readonly :: "db_log \<Rightarrow> string \<Rightarrow> ch_error + string \<times> int"
  sd_silent_modes :: "db_log \<Rightarrow> string \<Rightarrow> ch_error + (string \<times> string) list"
  sd_count :: "db_log \<Rightarrow> string \<Rightarrow> ch_error + int"

definition ask :: "(db_log \<Rightarrow> string \<Rightarrow> ch_error + 'r) \<Rightarrow> string \<Rightarrow> db_log \<Rightarrow> (backfill_error + 'r) \<times> db_log" where
  "ask q sql db = ((case q db sql of Inl e \<Rightarrow> Inl (BfCh e) | Inr r \<Rightarrow> Inr r), db @ [CallQuery sql])"

text \<open>The \<open>?\<close> operator on a state: the rest runs on the value and the state, an error keeps the state.\<close>

definition and_then :: "('e + 'a) \<times> 's \<Rightarrow> ('a \<Rightarrow> 's \<Rightarrow> ('e + 'b) \<times> 's) \<Rightarrow> ('e + 'b) \<times> 's" where
  "and_then r f = (case r of (Inl e, s) \<Rightarrow> (Inl e, s) | (Inr a, s) \<Rightarrow> f a s)"

fun stream_slices ::
  "(db_log \<Rightarrow> string \<Rightarrow> ch_error + 'r list) \<Rightarrow> (int \<Rightarrow> int \<Rightarrow> string) \<Rightarrow> ('r \<Rightarrow> 's \<Rightarrow> 's) \<Rightarrow> (int \<times> int) list \<Rightarrow>
   's \<Rightarrow> db_log \<Rightarrow> (backfill_error + 's) \<times> db_log" where
  "stream_slices q sql f [] s db = (Inr s, db)"
| "stream_slices q sql f ((low, high) # slices) s db =
     and_then (ask q (sql low high) db) (\<lambda>rows. stream_slices q sql f slices (fold f rows s))"

subsection \<open>Balances\<close>

record balance_corrections =
  bx_rows :: "balance_row list"
  bx_ghosts :: "string list"

definition corrected_row :: "our_row \<Rightarrow> correction \<Rightarrow> balance_row" where
  "corrected_row row c =
     \<lparr>brow_holder_id = our_holder_id row, brow_asset_id = our_asset_id row, brow_amount = cn_amount c,
      brow_last_updated_ledger = cn_last_updated_ledger c, brow_closed_at_ledger = cn_closed_at_ledger c\<rparr>"

definition missing_row :: "int \<Rightarrow> int \<Rightarrow> net_holding \<Rightarrow> balance_row" where
  "missing_row holder aid e =
     \<lparr>brow_holder_id = holder, brow_asset_id = aid, brow_amount = nh_balance e,
      brow_last_updated_ledger = nh_ledger e, brow_closed_at_ledger = 0\<rparr>"

definition fold_our_row ::
  "our_row \<Rightarrow> verdict \<Rightarrow> net_holding option \<Rightarrow> int \<Rightarrow> balance_corrections \<Rightarrow> balance_corrections" where
  "fold_our_row row v net checkpoint out =
     (let out1 = (if v = VdGhost then out\<lparr>bx_ghosts := bx_ghosts out @ [our_line row]\<rparr> else out) in
      case correction_of v net checkpoint of
        None \<Rightarrow> out1
      | Some c \<Rightarrow> out1\<lparr>bx_rows := bx_rows out1 @ [corrected_row row c]\<rparr>)"

definition balances_filter :: string where
  "balances_filter =
     ''AND asset_id IN (SELECT id FROM assets WHERE asset_type IN (0, 1)) '' @
     ''AND holder_id NOT IN (SELECT id FROM soroban_contracts)''"

type_synonym comparison = "network_state \<times> report \<times> balance_corrections"

definition balance_step :: "int \<Rightarrow> our_row \<Rightarrow> comparison \<Rightarrow> comparison" where
  "balance_step checkpoint row s =
     (case s of (st, rep, out) \<Rightarrow>
        (case observe row rep st of ((v, net), rep1, st1) \<Rightarrow> (st1, rep1, fold_our_row row v net checkpoint out)))"

record missing_acc =
  ms_report :: report
  ms_rows :: "balance_row list"
  ms_assets :: "int list"
  ms_holders :: "int list"

definition missing_trustline :: "network_state \<Rightarrow> holding_key \<times> net_holding \<Rightarrow> missing_acc \<Rightarrow> missing_acc" where
  "missing_trustline st ke m =
     (case ke of (key, e) \<Rightarrow>
        if nh_live e \<and> \<not> nh_matched e then
          m\<lparr>ms_report := observe_missing_trustline key e st (ms_report m),
            ms_rows := ms_rows m @ [missing_row (fst key) (snd key) e],
            ms_assets := set_insert (snd key) (ms_assets m), ms_holders := set_insert (fst key) (ms_holders m)\<rparr>
        else m)"

definition missing_account :: "network_state \<Rightarrow> int \<times> net_holding \<Rightarrow> missing_acc \<Rightarrow> missing_acc" where
  "missing_account st ke m =
     (case ke of (holder, e) \<Rightarrow>
        if nh_live e \<and> \<not> nh_matched e then
          m\<lparr>ms_report := observe_missing_account holder e st (ms_report m),
            ms_rows := ms_rows m @ [missing_row holder native_asset_id e],
            ms_holders := set_insert holder (ms_holders m)\<rparr>
        else m)"

definition balance_corrections_of ::
  "seed_reads \<Rightarrow> network_state \<Rightarrow> int \<Rightarrow> report \<Rightarrow> db_log \<Rightarrow>
   (backfill_error + network_state \<times> balance_corrections \<times> missing_acc) \<times> db_log" where
  "balance_corrections_of sd st checkpoint rep db =
     and_then (stream_slices (sd_holdings sd) (slice_sql ''balances'' balances_filter) (balance_step checkpoint)
                 key_slices (st, rep, \<lparr>bx_rows = [], bx_ghosts = []\<rparr>) db) (\<lambda>(st1, rep1, out) db1.
       let m = fold (missing_account st1) (ns_accounts st1)
                 (fold (missing_trustline st1) (ns_trustlines st1)
                   \<lparr>ms_report = rep1, ms_rows = bx_rows out, ms_assets = [], ms_holders = []\<rparr>)
       in (Inr (st1, out\<lparr>bx_rows := ms_rows m\<rparr>, m), db1))"

subsection \<open>Claimable balances\<close>

definition claimable_table :: string where "claimable_table = ''claimable_balance_holdings''"

definition writer_coverage :: "int option \<Rightarrow> int \<Rightarrow> string + unit" where
  "writer_coverage first_tombstone checkpoint =
     (case first_tombstone of
        None \<Rightarrow> Inl (claimable_table @ '' holds no closed balance'')
      | Some first \<Rightarrow>
          if first > checkpoint then
            Inl (''checkpoint '' @ show_int checkpoint @ '' predates the writer's first recorded claim at ledger '' @
                 show_int first)
          else Inr ())"

definition first_writer_tombstone :: "seed_reads \<Rightarrow> db_log \<Rightarrow> (backfill_error + int option) \<times> db_log" where
  "first_writer_tombstone sd db =
     and_then (ask (sd_tombstone sd)
         (''SELECT count(), min(closed_at_ledger) FROM '' @ claimable_table @ '' WHERE closed_at_ledger > 0'') db)
       (\<lambda>(closed, first) db1. (Inr (if closed > 0 then Some first else None), db1))"

definition claim_claimable :: "our_row \<Rightarrow> network_state \<Rightarrow> net_holding option \<times> network_state" where
  "claim_claimable row st =
     (case map_of (ns_claimable_balances st) (our_holder_id row) of
        None \<Rightarrow> (None, st)
      | Some (entry, network_asset) \<Rightarrow>
          if nh_live entry \<and> network_asset \<noteq> Some (our_asset_id row) then (None, st)
          else (Some (matched entry),
                st\<lparr>ns_claimable_balances :=
                     mark (\<lambda>(e, a). (matched e, a)) (our_holder_id row) (ns_claimable_balances st)\<rparr>))"

definition claimable_step :: "int \<Rightarrow> our_row \<Rightarrow> comparison \<Rightarrow> comparison" where
  "claimable_step checkpoint row s =
     (case s of (st, rep, out) \<Rightarrow>
        (case claim_claimable row st of (net, st1) \<Rightarrow>
           let v = verdict_of row net checkpoint
           in (st1, rep\<lparr>rp_claimable := tally_observe v (our_amount row) (rp_claimable rep)\<rparr>,
               fold_our_row row v net checkpoint out)))"

definition missing_claimable :: "int \<times> net_holding \<times> int option \<Rightarrow> missing_acc \<Rightarrow> missing_acc" where
  "missing_claimable ke m =
     (case ke of (holder, e, network_asset) \<Rightarrow>
        (case (nh_live e, nh_matched e, network_asset) of
           (True, False, Some aid) \<Rightarrow>
             let rep = ms_report m
             in m\<lparr>ms_report := rep\<lparr>rp_claimable := (rp_claimable rep)\<lparr>ty_missing := ty_missing (rp_claimable rep) + 1\<rparr>\<rparr>,
                  ms_rows := ms_rows m @ [missing_row holder aid e], ms_assets := set_insert aid (ms_assets m)\<rparr>
         | _ \<Rightarrow> m))"

definition claimable_corrections_of ::
  "seed_reads \<Rightarrow> network_state \<Rightarrow> int \<Rightarrow> report \<Rightarrow> int list \<Rightarrow> db_log \<Rightarrow>
   (backfill_error + network_state \<times> balance_corrections \<times> missing_acc) \<times> db_log" where
  "claimable_corrections_of sd st checkpoint rep assets db =
     and_then (stream_slices (sd_holdings sd) (slice_sql claimable_table []) (claimable_step checkpoint)
                 key_slices (st, rep, \<lparr>bx_rows = [], bx_ghosts = []\<rparr>) db) (\<lambda>(st1, rep1, out) db1.
       let m = fold missing_claimable (ns_claimable_balances st1)
                 \<lparr>ms_report = rep1, ms_rows = bx_rows out, ms_assets = assets, ms_holders = []\<rparr>
       in (Inr (st1, out\<lparr>bx_rows := ms_rows m\<rparr>, m), db1))"

subsection \<open>Classic pools\<close>

record pool_corrections =
  pcx_pool_rows :: "liquidity_pool_row list"
  pcx_snapshot_rows :: "pool_snapshot_row list"
  pcx_missing :: nat
  pcx_stale :: nat
  pcx_gone_with_reserves :: "string list"

definition staging_incomplete :: "stage_error \<Rightarrow> backfill_error" where
  "staging_incomplete e =
     (case e of
        StageErr (SchemaQuery q) \<Rightarrow> BfIncomplete ''clickhouse query failed''
      | StageErr (SchemaStaging m) \<Rightarrow> BfIncomplete (''clickhouse staging failed: '' @ m)
      | StagePanic \<Rightarrow> BfPanic ''staging'')"

definition map_err :: "('e \<Rightarrow> 'f) \<Rightarrow> 'e + 'a \<Rightarrow> 'f + 'a" where
  "map_err f r = (case r of Inl e \<Rightarrow> Inl (f e) | Inr a \<Rightarrow> Inr a)"

definition rows_for_entry ::
  "ids_ext \<Rightarrow> xdr_ext \<Rightarrow> entry_names \<Rightarrow> int \<Rightarrow> ledger_entry \<Rightarrow>
   backfill_error + liquidity_pool_row list \<times> pool_snapshot_row list" where
  "rows_for_entry ix x n at e =
     try_res (ok_or (BfIncomplete ''pool entry did not decode'') (entry_as_current_change x n at e)) (\<lambda>change.
     let (pools, snapshots) = extract_liquidity_pools [change] in
     try_res (map_err staging_incomplete (build_pool_rows ix pools)) (\<lambda>pool_rows.
     try_res (map_err staging_incomplete (build_snapshot_rows ix snapshots Map.empty)) (\<lambda>snapshot_rows.
     Inr (pool_rows, snapshot_rows))))"

definition gone_with_reserves :: "bool \<Rightarrow> bool \<Rightarrow> int \<Rightarrow> int \<Rightarrow> bool" where
  "gone_with_reserves has_reserves live our_ledger checkpoint \<longleftrightarrow> has_reserves \<and> \<not> live \<and> our_ledger < checkpoint"

definition pools_sql :: string where
  "pools_sql =
     ''SELECT pool_id, max(ledger_sequence) AS ledger, toUInt8(argMax(reserve_a, ledger_sequence) > 0 '' @
     ''OR argMax(reserve_b, ledger_sequence) > 0) AS has_reserves FROM liquidity_pool_snapshots '' @
     ''WHERE pool_id IN (SELECT pool_id FROM liquidity_pools WHERE pool_kind = 0) GROUP BY pool_id''"

type_synonym pool_acc = "pool_corrections \<times> (int \<times> asset_identity option) list"

definition pool_legs_of_entry :: "ids_ext \<Rightarrow> xdr_ext \<Rightarrow> ledger_entry \<Rightarrow> (int \<times> asset_identity option) list" where
  "pool_legs_of_entry ix x e =
     (case e of
        EntryLiquidityPool pool a b ra rb q \<Rightarrow> [snapshot_classic_asset ix x a, snapshot_classic_asset ix x b]
      | _ \<Rightarrow> [])"

definition seed_pool_step ::
  "ids_ext \<Rightarrow> xdr_ext \<Rightarrow> entry_names \<Rightarrow> (bytes \<times> our_newest) list \<Rightarrow> pool_acc \<Rightarrow>
   bytes \<times> (int \<times> ledger_entry) option \<Rightarrow> backfill_error + pool_acc" where
  "seed_pool_step ix x n ours s p =
     (case (s, p) of ((out, new_assets), (pool_id, slot)) \<Rightarrow>
        (case slot of
           None \<Rightarrow> Inr s
         | Some (at, e) \<Rightarrow>
             (let kind = need_of (map_option on_ledger (map_of ours pool_id)) at in
              if kind = NeedCurrent then Inr s
              else
                let out1 = (if kind = NeedMissing then out\<lparr>pcx_missing := pcx_missing out + 1\<rparr>
                            else out\<lparr>pcx_stale := pcx_stale out + 1\<rparr>)
                in map_res (\<lambda>(pool_rows, snapshot_rows).
                        (out1\<lparr>pcx_pool_rows := pcx_pool_rows out1 @ pool_rows,
                              pcx_snapshot_rows := pcx_snapshot_rows out1 @ snapshot_rows\<rparr>,
                         new_assets @ pool_legs_of_entry ix x e))
                     (rows_for_entry ix x n at e))))"

definition define_leg ::
  "int \<times> asset_identity option \<Rightarrow> network_state \<times> int list \<Rightarrow> network_state \<times> int list" where
  "define_leg leg s =
     (case (leg, s) of ((aid, identity), (st, assets)) \<Rightarrow>
        if aid = native_asset_id then s
        else
          (case identity of
             Some i \<Rightarrow> st\<lparr>ns_asset_registry := or_insert aid i (ns_asset_registry st)\<rparr>
           | None \<Rightarrow> st,
           set_insert aid assets))"

definition pool_gone :: "network_state \<Rightarrow> int \<Rightarrow> our_newest \<Rightarrow> bool" where
  "pool_gone st checkpoint o' =
     gone_with_reserves (on_has_reserves o' = 1)
       (case map_of (ns_pools st) (on_pool_id o') of Some (Some e) \<Rightarrow> True | _ \<Rightarrow> False) (on_ledger o') checkpoint"

definition gone_line :: "xdr_ext \<Rightarrow> our_newest \<Rightarrow> string" where
  "gone_line x o' = x_hex x (on_pool_id o') @ CHR 0x09 # show_int (on_ledger o')"

definition pool_corrections_of ::
  "ids_ext \<Rightarrow> xdr_ext \<Rightarrow> entry_names \<Rightarrow> seed_reads \<Rightarrow> network_state \<Rightarrow> int \<Rightarrow> int list \<Rightarrow> db_log \<Rightarrow>
   (backfill_error + network_state \<times> pool_corrections \<times> int list) \<times> db_log" where
  "pool_corrections_of ix x n sd st checkpoint assets db =
     and_then (ask (sd_pools sd) pools_sql db) (\<lambda>rows db1.
       let ours = fold (\<lambda>r. assoc_insert (on_pool_id r) r) rows [] in
       (map_res (\<lambda>(out, new_assets).
            let (st1, assets1) = fold define_leg new_assets (st, assets)
            in (st1, out\<lparr>pcx_gone_with_reserves :=
                  map (gone_line x) (filter (pool_gone st1 checkpoint) (map snd ours))\<rparr>, assets1))
          (fold_res (seed_pool_step ix x n ours)
             (\<lparr>pcx_pool_rows = [], pcx_snapshot_rows = [], pcx_missing = 0, pcx_stale = 0,
               pcx_gone_with_reserves = []\<rparr>, [])
             (ns_pools st)), db1))"

subsection \<open>Entry states\<close>

record entry_states =
  et_rows :: "account_entry_state_row list"
  et_missing :: nat
  et_stale :: nat
  et_same_ledger_counters_differ :: nat
  et_same_ledger_counters_equal :: nat
  et_ours_newer :: nat

definition entry_state_sql :: "int \<Rightarrow> int \<Rightarrow> string" where
  "entry_state_sql low high =
     ''SELECT account_id, last_updated_ledger AS ledger, num_sponsoring, num_sponsored '' @
     ''FROM account_entry_state FINAL WHERE account_id BETWEEN '' @ show_int low @ '' AND '' @ show_int high"

definition our_entry_states :: "seed_reads \<Rightarrow> db_log \<Rightarrow> (backfill_error + (int \<rightharpoonup> our_entry_state)) \<times> db_log" where
  "our_entry_states sd db =
     stream_slices (sd_entry_states sd) entry_state_sql (\<lambda>r m. m(oe_account_id r \<mapsto> r)) key_slices Map.empty db"

definition threshold_byte :: "bytes \<Rightarrow> nat \<Rightarrow> int" where
  "threshold_byte b i = (case nth_opt b i of Some c \<Rightarrow> of_char c | None \<Rightarrow> 0)"

definition count_entry_state :: "our_entry_state option \<Rightarrow> net_holding \<Rightarrow> account_detail \<Rightarrow> entry_states \<Rightarrow> entry_states" where
  "count_entry_state ours e d out =
     (case ours of
        None \<Rightarrow> out\<lparr>et_missing := et_missing out + 1\<rparr>
      | Some r \<Rightarrow>
          if oe_ledger r < nh_ledger e then out\<lparr>et_stale := et_stale out + 1\<rparr>
          else if oe_ledger r > nh_ledger e then out\<lparr>et_ours_newer := et_ours_newer out + 1\<rparr>
          else if oe_num_sponsoring r = ad_num_sponsoring d \<and> oe_num_sponsored r = ad_num_sponsored d then
            out\<lparr>et_same_ledger_counters_equal := et_same_ledger_counters_equal out + 1\<rparr>
          else out\<lparr>et_same_ledger_counters_differ := et_same_ledger_counters_differ out + 1\<rparr>)"

definition snapshot_entry_row :: "int \<Rightarrow> net_holding \<Rightarrow> account_detail \<Rightarrow> account_entry_state_row" where
  "snapshot_entry_row holder e d =
     \<lparr>esrow_account_id = holder, esrow_signer_keys = map fst (ad_signers d),
      esrow_signer_weights = map (\<lambda>s. fst (snd s)) (ad_signers d),
      esrow_signer_types = map (\<lambda>s. snd (snd s)) (ad_signers d),
      esrow_master_weight = threshold_byte (ad_thresholds d) 0, esrow_threshold_low = threshold_byte (ad_thresholds d) 1,
      esrow_threshold_med = threshold_byte (ad_thresholds d) 2, esrow_threshold_high = threshold_byte (ad_thresholds d) 3,
      esrow_flags = ad_flags d, esrow_num_sponsoring = ad_num_sponsoring d, esrow_num_sponsored = ad_num_sponsored d,
      esrow_last_updated_ledger = nh_ledger e\<rparr>"

definition entry_state_step ::
  "network_state \<Rightarrow> (int \<rightharpoonup> our_entry_state) \<Rightarrow> int \<times> net_holding \<Rightarrow> entry_states \<Rightarrow> entry_states" where
  "entry_state_step st ours a out =
     (case a of (holder, e) \<Rightarrow>
        if \<not> nh_live e then out
        else
          (case map_of (ns_account_details st) holder of
             None \<Rightarrow> out
           | Some d \<Rightarrow>
               let out1 = count_entry_state (ours holder) e d out
               in out1\<lparr>et_rows := et_rows out1 @ [snapshot_entry_row holder e d]\<rparr>))"

definition classify_and_write :: "network_state \<Rightarrow> (int \<rightharpoonup> our_entry_state) \<Rightarrow> entry_states" where
  "classify_and_write st ours =
     fold (entry_state_step st ours) (ns_accounts st)
       \<lparr>et_rows = [], et_missing = 0, et_stale = 0, et_same_ledger_counters_differ = 0,
        et_same_ledger_counters_equal = 0, et_ours_newer = 0\<rparr>"

subsection \<open>Stubs for the rows a seeded balance refers to\<close>

record dangling =
  dg_assets :: nat
  dg_holders :: nat
  dg_issuers :: nat

record stubs =
  sb_assets :: "asset_row list"
  sb_accounts :: "accounts_row list"
  sb_issuers :: "int list"
  sb_dangling :: dangling

definition no_stubs :: stubs where
  "no_stubs = \<lparr>sb_assets = [], sb_accounts = [], sb_issuers = [],
               sb_dangling = \<lparr>dg_assets = 0, dg_holders = 0, dg_issuers = 0\<rparr>\<rparr>"

definition dangling_asset :: "stubs \<Rightarrow> stubs" where
  "dangling_asset s = s\<lparr>sb_dangling := (sb_dangling s)\<lparr>dg_assets := dg_assets (sb_dangling s) + 1\<rparr>\<rparr>"

definition asset_stub_step :: "ids_ext \<Rightarrow> network_state \<Rightarrow> int list \<Rightarrow> int \<Rightarrow> stubs \<Rightarrow> stubs" where
  "asset_stub_step ix st known aid s =
     (if aid \<in> set known then s
      else
        (case map_of (ns_asset_registry st) aid of
           None \<Rightarrow> dangling_asset s
         | Some (code, issuer) \<Rightarrow>
             let issuer_id = account_id ix issuer; stub = asset_row_staged ix 1 code issuer_id 0
             in if asrow_id stub \<noteq> aid then dangling_asset s
                else s\<lparr>sb_assets := sb_assets s @ [stub], sb_issuers := set_insert issuer_id (sb_issuers s)\<rparr>))"

definition unresolved_holder :: "bool \<Rightarrow> stubs \<Rightarrow> stubs" where
  "unresolved_holder is_balance_holder s =
     s\<lparr>sb_dangling :=
        (let d = sb_dangling s
         in if is_balance_holder then d\<lparr>dg_holders := dg_holders d + 1\<rparr> else d\<lparr>dg_issuers := dg_issuers d + 1\<rparr>)\<rparr>"

definition account_stub :: "int \<Rightarrow> account_detail \<Rightarrow> net_holding \<Rightarrow> accounts_row" where
  "account_stub holder d e =
     \<lparr>arow_id = holder, arow_account_id = ad_strkey d, arow_first_seen_ledger = nh_ledger e,
      arow_last_seen_ledger = nh_ledger e, arow_sequence_number = ad_seq_num d,
      arow_home_domain = (if ad_home_domain d = [] then None else Some (ad_home_domain d))\<rparr>"

definition account_stub_step :: "network_state \<Rightarrow> int list \<Rightarrow> int list \<Rightarrow> int \<Rightarrow> stubs \<Rightarrow> stubs" where
  "account_stub_step st known holders holder s =
     (if holder \<in> set known then s
      else
        (case (map_of (ns_account_details st) holder, map_of (ns_accounts st) holder) of
           (Some d, Some e) \<Rightarrow> s\<lparr>sb_accounts := sb_accounts s @ [account_stub holder d e]\<rparr>
         | _ \<Rightarrow> unresolved_holder (holder \<in> set holders) s))"

definition stubs_of ::
  "ids_ext \<Rightarrow> network_state \<Rightarrow> int list \<Rightarrow> int list \<Rightarrow> int list \<Rightarrow> int list \<Rightarrow> stubs" where
  "stubs_of ix st known_assets known_accounts assets holders =
     (let s = fold (asset_stub_step ix st known_assets) assets no_stubs
      in fold (account_stub_step st known_accounts holders)
           (holders @ filter (\<lambda>i. i \<notin> set holders) (sb_issuers s)) s)"

subsection \<open>The corrections of a run\<close>

record corrections =
  co_balances :: balance_corrections
  co_claimable :: balance_corrections
  co_pools :: pool_corrections
  co_stubs :: stubs
  co_entry_states :: entry_states

definition fetch_id_set :: "seed_reads \<Rightarrow> string \<Rightarrow> db_log \<Rightarrow> (backfill_error + int list) \<times> db_log" where
  "fetch_id_set sd table db =
     stream_slices (sd_ids sd)
       (\<lambda>low high. ''SELECT id FROM '' @ table @ '' WHERE id BETWEEN '' @ show_int low @ '' AND '' @
                    show_int high @ '' GROUP BY id'') set_insert key_slices [] db"

definition corrections_of ::
  "ids_ext \<Rightarrow> xdr_ext \<Rightarrow> entry_names \<Rightarrow> seed_reads \<Rightarrow> network_state \<Rightarrow> int list \<Rightarrow> int list \<Rightarrow> int \<Rightarrow> report \<Rightarrow> db_log \<Rightarrow>
   (backfill_error + corrections) \<times> db_log" where
  "corrections_of ix x n sd st known_assets known_accounts checkpoint rep db =
     and_then (balance_corrections_of sd st checkpoint rep db) (\<lambda>(st1, balances, m) db1.
     and_then (claimable_corrections_of sd st1 checkpoint (ms_report m) (ms_assets m) db1) (\<lambda>(st2, claimable, m2) db2.
     and_then (pool_corrections_of ix x n sd st2 checkpoint (ms_assets m2) db2) (\<lambda>(st3, pools, assets) db3.
     and_then (our_entry_states sd db3) (\<lambda>ours db4.
       (Inr \<lparr>co_balances = balances, co_claimable = claimable, co_pools = pools,
             co_stubs = stubs_of ix st3 known_assets known_accounts assets (ms_holders m),
             co_entry_states = classify_and_write st3 ours\<rparr>, db4)))))"

subsection \<open>The command\<close>

datatype artifact =
    ArtDirectory int
  | ArtManifest bucket_list
  | ArtLines string "string list"
  | ArtReportDumps
  | ArtCorrectionDumps
  | ArtSummary

record seed_env =
  se_ids :: ids_ext
  se_xdr :: xdr_ext
  se_names :: entry_names
  se_archive :: archive_ext
  se_reads :: seed_reads
  se_answers :: db_answers
  se_artifact :: "artifact \<Rightarrow> string option"

definition put_artifact :: "seed_env \<Rightarrow> artifact \<Rightarrow> db_log \<Rightarrow> (backfill_error + unit) \<times> db_log" where
  "put_artifact env a db =
     ((case se_artifact env a of Some e \<Rightarrow> Inl (BfIncomplete e) | None \<Rightarrow> Inr ()), db)"

definition insert_call :: "db_answers \<Rightarrow> db_call \<Rightarrow> db_log \<Rightarrow> (backfill_error + unit) \<times> db_log" where
  "insert_call ans c db = ((case ans db c of Some e \<Rightarrow> Inl (BfCh e) | None \<Rightarrow> Inr ()), db @ [c])"

definition insert_rows :: "db_answers \<Rightarrow> string \<Rightarrow> table_row list \<Rightarrow> db_log \<Rightarrow> (backfill_error + unit) \<times> db_log" where
  "insert_rows ans table rows db =
     (if rows = [] then (Inr (), db)
      else
        (let h = \<lparr>in_table = table, in_settings = []\<rparr>
         in then_do (insert_call ans (CallOpen table) db) (\<lambda>db1.
            then_do (for_each (\<lambda>row. insert_call ans (CallWrite h row)) rows db1) (insert_call ans (CallEnd h)))))"

definition insert_chunk :: nat where "insert_chunk = 500000"

definition insert_chunked :: "db_answers \<Rightarrow> string \<times> table_row list \<Rightarrow> db_log \<Rightarrow> (backfill_error + unit) \<times> db_log" where
  "insert_chunked ans tr db =
     for_each (insert_rows ans (fst tr)) (slice_chunks insert_chunk (snd tr)) db"

definition refuse_if_read_only :: "seed_reads \<Rightarrow> db_log \<Rightarrow> (backfill_error + unit) \<times> db_log" where
  "refuse_if_read_only sd db =
     and_then (ask (sd_readonly sd) ''SELECT currentUser(), toUInt8(getSetting('readonly'))'' db) (\<lambda>(user, readonly) db1.
       (if readonly \<noteq> 0 then Inl (BfIncomplete (''refusing --execute: connected as `'' @ user @ ''` with readonly''))
        else Inr (), db1))"

definition refuse_if_reads_can_truncate :: "seed_reads \<Rightarrow> db_log \<Rightarrow> (backfill_error + unit) \<times> db_log" where
  "refuse_if_reads_can_truncate sd db =
     and_then (ask (sd_silent_modes sd)
         (''SELECT name, value FROM system.settings WHERE name LIKE '%overflow_mode%' AND value != 'throw'' @
          [CHR 0x27]) db) (\<lambda>silent db1.
       (if silent \<noteq> [] then Inl (BfIncomplete ''refusing to run: this profile returns a partial result'')
        else Inr (), db1))"

definition excluded_counts :: "seed_reads \<Rightarrow> db_log \<Rightarrow> (backfill_error + int \<times> int) \<times> db_log" where
  "excluded_counts sd db =
     and_then (ask (sd_count sd)
         (''SELECT uniqExact((holder_id, asset_id)) FROM balances '' @
          ''WHERE asset_id IN (SELECT id FROM assets WHERE asset_type IN (0, 1)) '' @
          ''AND holder_id IN (SELECT id FROM soroban_contracts)'') db) (\<lambda>held db1.
     and_then (ask (sd_count sd)
         (''SELECT uniqExact((holder_id, asset_id)) FROM balances '' @
          ''WHERE asset_id IN (SELECT id FROM assets WHERE asset_type = 3)'') db1) (\<lambda>type3 db2.
       (Inr (held, type3), db2)))"

definition seed_tables :: "corrections \<Rightarrow> (string \<times> table_row list) list" where
  "seed_tables c =
     [(''assets'', map RowAssets (sb_assets (co_stubs c))),
      (''accounts'', map RowAccounts (sb_accounts (co_stubs c))),
      (''liquidity_pools'', map RowPools (pcx_pool_rows (co_pools c))),
      (''liquidity_pool_snapshots'', map RowSnapshots (pcx_snapshot_rows (co_pools c))),
      (''balances'', map RowBalances (bx_rows (co_balances c))),
      (claimable_table, map RowBalances (bx_rows (co_claimable c))),
      (''account_entry_state'', map RowAccountEntryState (et_rows (co_entry_states c)))]"

definition insert_corrections :: "db_answers \<Rightarrow> corrections \<Rightarrow> db_log \<Rightarrow> (backfill_error + unit) \<times> db_log" where
  "insert_corrections ans c db =
     (let d = sb_dangling (co_stubs c) in
      if dg_assets d > 0 \<or> dg_holders d > 0 then
        (Inl (BfIncomplete (''refusing to insert: '' @ show_nat (dg_assets d) @
                            '' seeded balances point at an undefined asset and '' @ show_nat (dg_holders d) @
                            '' at an undefined holder'')), db)
      else for_each (insert_chunked ans) (seed_tables c) db)"

text \<open>What is done before the snapshot is opened, and what follows it.\<close>

definition seed_gate :: "seed_env \<Rightarrow> bool \<Rightarrow> db_log \<Rightarrow> (backfill_error + bucket_list) \<times> db_log" where
  "seed_gate env execute db =
     and_then (if execute then refuse_if_read_only (se_reads env) db else (Inr (), db)) (\<lambda>_ db1.
     and_then (refuse_if_reads_can_truncate (se_reads env) db1) (\<lambda>_ db2.
     and_then (fetch_bucket_list (se_archive env) pubnet_archive, db2) (\<lambda>bl db3.
     and_then (first_writer_tombstone (se_reads env) db3) (\<lambda>tombstone db4.
       (case writer_coverage tombstone (bk_checkpoint_ledger bl) of
          Inl why \<Rightarrow> if execute then (Inl (BfIncomplete (''refusing --execute: '' @ why)), db4) else (Inr bl, db4)
        | Inr u \<Rightarrow> (Inr bl, db4))))))"

definition seed_artifacts :: "seed_env \<Rightarrow> corrections \<Rightarrow> db_log \<Rightarrow> (backfill_error + unit) \<times> db_log" where
  "seed_artifacts env c db =
     and_then (for_each (put_artifact env)
         [ArtLines ''ghosts.tsv'' (bx_ghosts (co_balances c)),
          ArtLines ''claimable_ghosts.tsv'' (bx_ghosts (co_claimable c)),
          ArtLines ''pools_gone.tsv'' (pcx_gone_with_reserves (co_pools c)), ArtReportDumps, ArtCorrectionDumps] db)
       (\<lambda>_ db1. and_then (excluded_counts (se_reads env) db1) (\<lambda>_. put_artifact env ArtSummary))"

definition seed_command :: "seed_env \<Rightarrow> bool \<Rightarrow> db_log \<Rightarrow> (backfill_error + unit) \<times> db_log" where
  "seed_command env execute db =
     and_then (seed_gate env execute db) (\<lambda>bl db1.
     and_then (fetch_id_set (se_reads env) ''assets'' db1) (\<lambda>known_assets db2.
     and_then (fetch_id_set (se_reads env) ''accounts'' db2) (\<lambda>known_accounts db3.
     and_then (for_each (put_artifact env) [ArtDirectory (bk_checkpoint_ledger bl), ArtManifest bl] db3) (\<lambda>_ db4.
     and_then (open_snapshot (se_archive env) (se_ids env) (se_xdr env) (se_names env) bl, db4) (\<lambda>st db5.
     and_then (corrections_of (se_ids env) (se_xdr env) (se_names env) (se_reads env) st known_assets known_accounts
                 (bk_checkpoint_ledger bl) (report_new (bk_checkpoint_ledger bl)) db5) (\<lambda>c db6.
     and_then (seed_artifacts env c db6) (\<lambda>_ db7.
       if execute then insert_corrections (se_answers env) c db7 else (Inr (), db7))))))))"

end
