(* ===== verification/SnapshotFacts.thy ===== *)
theory SnapshotFacts
  imports SnapshotSeed "HOL-Library.Multiset"
begin

text \<open>
  A snapshot is the ledger as of the checkpoint: the first record of a key, newest bucket first, is what
  replaying the buckets oldest first leaves; and reading a table slice by slice reads each row once.
\<close>

lemma filter_map_empty: "\<forall>x \<in> set xs. f x = None \<Longrightarrow> filter_map f xs = []"
  by (induction xs) simp_all

subsection \<open>Slices\<close>

definition in_slice :: "int \<Rightarrow> int \<times> int \<Rightarrow> bool" where
  "in_slice h s \<longleftrightarrow> fst s \<le> h \<and> h \<le> snd s"

definition slice_at :: "int \<Rightarrow> int \<times> int" where
  "slice_at s = (i64_min + s * slice_step,
                 if s = key_slice_count - 1 then i64_max else i64_min + (s + 1) * slice_step - 1)"

lemma key_slices_at: "key_slices = map slice_at [0..63]"
  by (simp add: key_slices_def slice_at_def key_slice_count_def)

lemma slice_step_value: "slice_step = 288230376151711744"
  by (simp add: slice_step_def key_slice_count_def)

lemma div_bounds_iff:
  fixes d x s :: int
  assumes "0 < d"
  shows "s * d \<le> x \<and> x < (s + 1) * d \<longleftrightarrow> s = x div d"
proof
  assume "s * d \<le> x \<and> x < (s + 1) * d"
  then show "s = x div d" by (intro int_div_pos_eq [symmetric, of x d s "x - s * d"]) (auto simp: algebra_simps)
next
  assume "s = x div d"
  then have "s * d = x - x mod d" by (simp add: minus_mod_eq_div_mult)
  moreover have "0 \<le> x mod d" "x mod d < d" using assms by simp_all
  ultimately show "s * d \<le> x \<and> x < (s + 1) * d" by (simp add: distrib_right)
qed

lemma in_slice_div:
  assumes "0 \<le> s" "s < 64"
  shows "in_slice h (slice_at s) \<longleftrightarrow> s = (h - i64_min) div slice_step"
proof -
  have "in_slice h (slice_at s) \<longleftrightarrow> s * slice_step \<le> h - i64_min \<and> h - i64_min < (s + 1) * slice_step"
    using assms by (auto simp: in_slice_def slice_at_def key_slice_count_def slice_step_value)
  also have "\<dots> \<longleftrightarrow> s = (h - i64_min) div slice_step"
    by (rule div_bounds_iff) (simp add: slice_step_value)
  finally show ?thesis .
qed

lemma filter_single: "distinct xs \<Longrightarrow> c \<in> set xs \<Longrightarrow> filter (\<lambda>s. s = c) xs = [c]"
proof (induction xs)
  case (Cons x xs)
  show ?case
  proof (cases "x = c")
    case True
    then have "filter (\<lambda>s. s = c) xs = []" using Cons.prems(1) by (auto simp: filter_empty_conv)
    then show ?thesis using True by simp
  next
    case False
    then show ?thesis using Cons by simp
  qed
qed simp

lemma slice_of_key:
  assumes "fits_i64 h"
  shows "filter (in_slice h) key_slices = [slice_at ((h - i64_min) div slice_step)]"
proof -
  let ?c = "(h - i64_min) div slice_step"
  have "?c * slice_step \<le> h - i64_min \<and> h - i64_min < (?c + 1) * slice_step"
    by (subst div_bounds_iff) (simp_all add: slice_step_value)
  then have c: "0 \<le> ?c" "?c < 64" using assms by (simp_all add: ranges slice_step_value)
  have "filter (in_slice h) key_slices = map slice_at (filter (in_slice h \<circ> slice_at) [0..63])"
    by (simp only: key_slices_at filter_map o_def)
  also have "filter (in_slice h \<circ> slice_at) [0..63] = filter (\<lambda>s. s = ?c) [0..63]"
    by (rule filter_cong) (auto simp: in_slice_div)
  also have "\<dots> = [?c]" using c by (intro filter_single) auto
  finally show ?thesis by simp
qed

lemma slices_in_range:
  assumes "s \<in> set key_slices"
  shows "fits_i64 (fst s)" "fits_i64 (snd s)" "fst s \<le> snd s"
  using assms by (auto simp: key_slices_at slice_at_def ranges slice_step_value key_slice_count_def)

text \<open>Reading a table slice by slice reads each of its rows once.\<close>

lemma mset_slices_Cons:
  "mset (concat (map (\<lambda>s. filter (P s) (x # xs)) S)) =
     replicate_mset (length (filter (\<lambda>s. P s x) S)) x + mset (concat (map (\<lambda>s. filter (P s) xs) S))"
  by (induction S) (auto simp: ac_simps)

lemma mset_slices:
  "(\<And>x. x \<in> set xs \<Longrightarrow> length (filter (\<lambda>s. P s x) S) = 1) \<Longrightarrow>
   mset (concat (map (\<lambda>s. filter (P s) xs) S)) = mset xs"
proof (induction xs)
  case Nil
  then show ?case by (induction S) auto
next
  case (Cons x xs)
  have "length (filter (\<lambda>s. P s x) S) = 1" by (rule Cons.prems) simp
  moreover have "mset (concat (map (\<lambda>s. filter (P s) xs) S)) = mset xs"
    by (rule Cons.IH) (rule Cons.prems, simp)
  ultimately show ?case by (simp only: mset_slices_Cons) simp
qed

definition rows_in_slice :: "our_row list \<Rightarrow> int \<times> int \<Rightarrow> our_row list" where
  "rows_in_slice t s = filter (\<lambda>r. in_slice (our_holder_id r) s) t"

definition sliced :: "our_row list \<Rightarrow> our_row list" where
  "sliced t = concat (map (rows_in_slice t) key_slices)"

lemma mset_sliced:
  assumes "\<forall>r \<in> set t. fits_i64 (our_holder_id r)"
  shows "mset (sliced t) = mset t"
  unfolding sliced_def rows_in_slice_def
  by (rule mset_slices) (use assms in \<open>simp add: slice_of_key\<close>)

lemma set_sliced: "\<forall>r \<in> set t. fits_i64 (our_holder_id r) \<Longrightarrow> set (sliced t) = set t"
  by (rule mset_eq_setD) (rule mset_sliced)

lemma distinct_sliced:
  assumes "\<forall>r \<in> set t. fits_i64 (our_holder_id r)" "distinct (map f t)"
  shows "distinct (map f (sliced t))"
proof -
  have "mset (map f (sliced t)) = mset (map f t)" using mset_sliced [OF assms(1)] by simp
  then show ?thesis using assms(2) by (metis mset_eq_imp_distinct_iff)
qed

lemma stream_slices_rows:
  assumes "\<And>db s. s \<in> set slices \<Longrightarrow> q db (sql (fst s) (snd s)) = Inr (rows s)"
  shows "\<exists>db1. stream_slices q sql f slices s0 db = (Inr (fold f (concat (map rows slices)) s0), db1)"
  using assms
proof (induction slices arbitrary: s0 db)
  case (Cons s slices)
  obtain low high where s: "s = (low, high)" by (cases s)
  have "q db (sql low high) = Inr (rows s)" using Cons.prems [of s db] by (simp add: s)
  moreover obtain db1 where
    "stream_slices q sql f slices (fold f (rows s) s0) (db @ [CallQuery (sql low high)]) =
       (Inr (fold f (concat (map rows slices)) (fold f (rows s) s0)), db1)"
    using Cons.IH Cons.prems by (metis list.set_intros(2))
  ultimately show ?case by (simp add: s and_then_def ask_def)
qed simp

subsection \<open>The state of a snapshot\<close>

definition absorbed :: "ids_ext \<Rightarrow> xdr_ext \<Rightarrow> entry_names \<Rightarrow> snapshot_record list \<Rightarrow> network_state" where
  "absorbed ix x n recs = fold (absorb_record ix x n) recs empty_network"

text \<open>No holding is claimed yet, and a key occurs once.\<close>

definition fresh :: "network_state \<Rightarrow> bool" where
  "fresh st \<longleftrightarrow>
     distinct (map fst (ns_accounts st)) \<and> distinct (map fst (ns_trustlines st)) \<and>
     distinct (map fst (ns_claimable_balances st)) \<and>
     (\<forall>(h, e) \<in> set (ns_accounts st). \<not> nh_matched e \<and> fits_i64 h) \<and>
     (\<forall>((h, a), e) \<in> set (ns_trustlines st). \<not> nh_matched e \<and> fits_i64 h) \<and>
     (\<forall>(h, e, a) \<in> set (ns_claimable_balances st). \<not> nh_matched e \<and> fits_i64 h)"

fun fresh_fact :: "net_fact \<Rightarrow> bool" where
  "fresh_fact (FactAccount h e d) \<longleftrightarrow> \<not> nh_matched e \<and> fits_i64 h"
| "fresh_fact (FactTrustline k e) \<longleftrightarrow> \<not> nh_matched e \<and> fits_i64 (fst k)"
| "fresh_fact (FactClaimableBalance h a e) \<longleftrightarrow> \<not> nh_matched e \<and> fits_i64 h"
| "fresh_fact _ \<longleftrightarrow> True"

lemma distinct_or_insert: "distinct (map fst m) \<Longrightarrow> distinct (map fst (or_insert k v m))"
  by (simp add: or_insert_def map_of_eq_None_iff)

lemma set_or_insert: "set (or_insert k v m) \<subseteq> insert (k, v) (set m)"
  by (auto simp: or_insert_def)

lemma map_of_or_insert: "map_of (or_insert k v m) a = (case map_of m a of Some w \<Rightarrow> Some w | None \<Rightarrow> if a = k then Some v else None)"
  by (auto simp: or_insert_def map_add_def split: option.splits)

lemma ball_or_insert: "P (k, v) \<Longrightarrow> \<forall>p \<in> set m. P p \<Longrightarrow> \<forall>p \<in> set (or_insert k v m). P p"
  using set_or_insert [of k v m] by auto

lemma unmatched_holdings [simp]: "\<not> nh_matched (live_holding l b)" "\<not> nh_matched dead_holding"
  by (simp_all add: live_holding_def dead_holding_def)

lemma fits_ids [simp]: "fits_i64 (address_id ix s)" "fits_i64 (claimable_holder_id ix x b)"
  by (simp_all add: address_id_def claimable_holder_id_def hash64_def wrap_i64_fits)

lemma fresh_trustline_fact: "trustline_fact ix x acct asset e = Some item \<Longrightarrow> \<not> nh_matched e \<Longrightarrow> fresh_fact item"
  by (cases asset) (auto simp: trustline_fact_def)

lemma fresh_classified: "classify_record ix x n r = Some item \<Longrightarrow> fresh_fact item"
proof (cases r)
  case (SnapLive at e)
  then show "classify_record ix x n r = Some item \<Longrightarrow> ?thesis"
    by (cases e) (auto dest: fresh_trustline_fact)
next
  case (SnapDead k)
  then show "classify_record ix x n r = Some item \<Longrightarrow> ?thesis"
    by (cases k) (auto dest: fresh_trustline_fact)
qed

lemma fresh_absorb:
  assumes "fresh_fact item" "fresh st"
  shows "fresh (absorb item st)"
proof (cases item)
  case (FactAccount h e d)
  then show ?thesis using assms
    by (simp add: fresh_def first_wins_def Let_def distinct_or_insert)
      (rule ball_or_insert, simp_all)
next
  case (FactTrustline k e)
  then show ?thesis using assms
    by (cases k) (simp add: fresh_def first_wins_def Let_def distinct_or_insert, rule ball_or_insert, simp_all)
next
  case (FactClaimableBalance h a e)
  then show ?thesis using assms
    by (simp add: fresh_def first_wins_def Let_def distinct_or_insert)
      (rule ball_or_insert, simp_all)
qed (use assms in \<open>simp_all add: fresh_def first_wins_def Let_def\<close>)

lemma fresh_register: "fresh (register_trustline x r item st) \<longleftrightarrow> fresh st"
  by (auto simp: register_trustline_def fresh_def split: net_fact.splits option.splits)

lemma fresh_counts [simp]:
  "fresh (st\<lparr>ns_native_trustlines := i\<rparr>) \<longleftrightarrow> fresh st" "fresh (st\<lparr>ns_unmodelled := i\<rparr>) \<longleftrightarrow> fresh st"
  by (simp_all add: fresh_def)

lemma fresh_absorb_record:
  assumes "fresh st"
  shows "fresh (absorb_record ix x n r st)"
proof (cases "classify_record ix x n r")
  case (Some item)
  have "fresh (absorb item (register_trustline x r item st))"
    by (rule fresh_absorb [OF fresh_classified [OF Some]]) (simp only: fresh_register assms)
  then show ?thesis by (simp only: absorb_record_def Some option.case)
qed (simp add: absorb_record_def assms)

lemma fresh_absorbed: "fresh (absorbed ix x n recs)"
proof -
  have "fresh st \<Longrightarrow> fresh (fold (absorb_record ix x n) recs st)" for st
    by (induction recs arbitrary: st) (simp_all add: fresh_absorb_record)
  moreover have "fresh empty_network" by (simp add: fresh_def empty_network_def)
  ultimately show ?thesis by (simp only: absorbed_def)
qed

subsection \<open>A snapshot is the ledger replayed\<close>

text \<open>The facts of the records, and what each one writes: the key, and its value or a deletion.\<close>

definition facts_of :: "ids_ext \<Rightarrow> xdr_ext \<Rightarrow> entry_names \<Rightarrow> snapshot_record list \<Rightarrow> net_fact list" where
  "facts_of ix x n recs = filter_map (classify_record ix x n) recs"

fun account_slot :: "net_fact \<Rightarrow> (int \<times> net_holding) option" where
  "account_slot (FactAccount h e d) = Some (h, e)" | "account_slot _ = None"

fun trustline_slot :: "net_fact \<Rightarrow> (holding_key \<times> net_holding) option" where
  "trustline_slot (FactTrustline k e) = Some (k, e)" | "trustline_slot _ = None"

fun share_slot :: "net_fact \<Rightarrow> ((int \<times> bytes) \<times> net_holding) option" where
  "share_slot (FactPoolShare h pool e) = Some ((h, pool), e)" | "share_slot _ = None"

fun claimable_slot :: "net_fact \<Rightarrow> (int \<times> net_holding \<times> int option) option" where
  "claimable_slot (FactClaimableBalance h a e) = Some (h, e, map_option fst a)" | "claimable_slot _ = None"

fun pool_slot :: "net_fact \<Rightarrow> (bytes \<times> (int \<times> ledger_entry) option) option" where
  "pool_slot (FactPool pool e) = Some (pool, e)" | "pool_slot _ = None"

fun detail_slot :: "net_fact \<Rightarrow> (int \<times> account_detail option) option" where
  "detail_slot (FactAccount h e d) = Some (h, d)" | "detail_slot _ = None"

definition holding_value :: "net_holding \<Rightarrow> (int \<times> int) option" where
  "holding_value e = (if nh_live e then Some (nh_ledger e, nh_balance e) else None)"

definition claimable_value :: "net_holding \<times> int option \<Rightarrow> (int \<times> int \<times> int option) option" where
  "claimable_value v = (if nh_live (fst v) then Some (nh_ledger (fst v), nh_balance (fst v), snd v) else None)"

text \<open>Replaying: each write or deletion replaces what was there.\<close>

definition replay :: "('f \<Rightarrow> ('k \<times> 's) option) \<Rightarrow> ('s \<Rightarrow> 'v option) \<Rightarrow> 'f list \<Rightarrow> 'k \<rightharpoonup> 'v" where
  "replay slot val facts = foldl (\<lambda>m f. case slot f of Some (k, s) \<Rightarrow> m(k := val s) | None \<Rightarrow> m) Map.empty facts"

definition slot_for :: "('f \<Rightarrow> ('k \<times> 's) option) \<Rightarrow> 'k \<Rightarrow> 'f \<Rightarrow> 's option" where
  "slot_for slot k f = (case slot f of Some (a, s) \<Rightarrow> if a = k then Some s else None | None \<Rightarrow> None)"

lemma replay_newest: "replay slot val (rev facts) k = Option.bind (find_map (slot_for slot k) facts) val"
proof (induction facts)
  case (Cons f facts)
  have "replay slot val (rev (f # facts)) =
      (case slot f of Some (a, s) \<Rightarrow> (replay slot val (rev facts))(a := val s) | None \<Rightarrow> replay slot val (rev facts))"
    by (cases "slot f") (simp_all add: replay_def)
  then show ?case using Cons.IH by (cases "slot f") (auto simp: slot_for_def)
qed (simp add: replay_def)

definition keep_first :: "('f \<Rightarrow> ('k \<times> 's) option) \<Rightarrow> 'f \<Rightarrow> ('k \<times> 's) list \<Rightarrow> ('k \<times> 's) list" where
  "keep_first slot f m = (case slot f of Some (k, s) \<Rightarrow> or_insert k s m | None \<Rightarrow> m)"

lemma keep_first_lookup:
  "map_of (fold (keep_first slot) facts m) k = opt_or (map_of m k) (find_map (slot_for slot k) facts)"
proof (induction facts arbitrary: m)
  case Nil
  show ?case by (cases "map_of m k") simp_all
next
  case (Cons f facts)
  have "map_of (keep_first slot f m) k = opt_or (map_of m k) (slot_for slot k f)"
    by (auto simp: keep_first_def slot_for_def map_of_or_insert split: option.splits)
  then show ?case using Cons.IH by (cases "map_of m k"; cases "slot_for slot k f") simp_all
qed

lemma absorb_slots:
  "ns_accounts (absorb f st) = keep_first account_slot f (ns_accounts st)"
  "ns_trustlines (absorb f st) = keep_first trustline_slot f (ns_trustlines st)"
  "ns_pool_shares (absorb f st) = keep_first share_slot f (ns_pool_shares st)"
  "ns_claimable_balances (absorb f st) = keep_first claimable_slot f (ns_claimable_balances st)"
  "ns_pools (absorb f st) = keep_first pool_slot f (ns_pools st)"
  by (cases f; simp add: first_wins_def keep_first_def)+

lemma register_slots [simp]:
  "ns_accounts (register_trustline x r f st) = ns_accounts st"
  "ns_trustlines (register_trustline x r f st) = ns_trustlines st"
  "ns_pool_shares (register_trustline x r f st) = ns_pool_shares st"
  "ns_claimable_balances (register_trustline x r f st) = ns_claimable_balances st"
  "ns_pools (register_trustline x r f st) = ns_pools st"
  "ns_account_details (register_trustline x r f st) = ns_account_details st"
  by (auto simp: register_trustline_def split: net_fact.split option.split)

lemma absorbed_field:
  assumes "\<And>f st. field (absorb f st) = keep_first slot f (field st)"
    and "\<And>x r f st. field (register_trustline x r f st) = field st"
    and "\<And>st i. field (st\<lparr>ns_native_trustlines := i\<rparr>) = field st" "\<And>st i. field (st\<lparr>ns_unmodelled := i\<rparr>) = field st"
  shows "field (fold (absorb_record ix x n) recs st) = fold (keep_first slot) (facts_of ix x n recs) (field st)"
proof (induction recs arbitrary: st)
  case (Cons r recs)
  then show ?case
    by (cases "classify_record ix x n r") (simp_all add: facts_of_def absorb_record_def assms)
qed (simp add: facts_of_def)

text \<open>The details of an account are those of its first record, none when that is a deletion.\<close>

lemma assoc_insert_lookup:
  fixes m :: "('a \<times> 'b) list"
  shows "map_of (assoc_insert k v m) a = (if a = k then Some v else map_of m a)"
  by (induction k v "\<lambda>_::'b. v" m rule: entry_or_insert.induct) (auto simp: assoc_insert_def)

lemma absorb_details:
  assumes "\<And>h. map_of (ns_accounts st) h = None \<Longrightarrow> map_of (ns_account_details st) h = None"
  shows "map_of (ns_account_details (absorb f st)) h =
           (if map_of (ns_accounts st) h = None then Option.bind (slot_for detail_slot h f) (\<lambda>d. d)
            else map_of (ns_account_details st) h)"
  using assms
  by (cases f) (auto simp: first_wins_def slot_for_def assoc_insert_lookup Let_def split: option.splits if_splits)

lemma absorb_record_Some:
  "classify_record ix x n r = Some f \<Longrightarrow> absorb_record ix x n r st = absorb f (register_trustline x r f st)"
  by (simp add: absorb_record_def)

lemma absorb_record_None:
  "classify_record ix x n r = None \<Longrightarrow>
   ns_accounts (absorb_record ix x n r st) = ns_accounts st \<and>
   ns_account_details (absorb_record ix x n r st) = ns_account_details st"
  by (simp add: absorb_record_def)

lemma facts_of_Cons:
  "facts_of ix x n (r # recs) = (case classify_record ix x n r of Some f \<Rightarrow> [f] | None \<Rightarrow> []) @ facts_of ix x n recs"
  by (simp add: facts_of_def split: option.split)

lemma opt_or_None: "opt_or a b = None \<longleftrightarrow> a = None \<and> b = None"
  by (cases a) simp_all

lemma details_replayed:
  assumes "\<And>h. map_of (ns_accounts st) h = None \<Longrightarrow> map_of (ns_account_details st) h = None"
  shows "map_of (ns_account_details (fold (absorb_record ix x n) recs st)) h =
           (if map_of (ns_accounts st) h = None
            then Option.bind (find_map (slot_for detail_slot h) (facts_of ix x n recs)) (\<lambda>d. d)
            else map_of (ns_account_details st) h)"
  using assms
proof (induction recs arbitrary: st)
  case Nil
  then show ?case by (simp add: facts_of_def)
next
  case (Cons r recs)
  show ?case
  proof (cases "classify_record ix x n r")
    case None
    then show ?thesis using Cons.IH [of "absorb_record ix x n r st"] Cons.prems
      by (simp add: facts_of_Cons absorb_record_None)
  next
    case (Some f)
    let ?st = "absorb f (register_trustline x r f st)"
    have accounts: "map_of (ns_accounts ?st) a = opt_or (map_of (ns_accounts st) a) (slot_for account_slot a f)" for a
      by (auto simp: absorb_slots keep_first_def slot_for_def map_of_or_insert split: option.splits)
    have details: "map_of (ns_account_details ?st) a =
        (if map_of (ns_accounts st) a = None then Option.bind (slot_for detail_slot a f) (\<lambda>d. d)
         else map_of (ns_account_details st) a)" for a
      using absorb_details [of "register_trustline x r f st" f a] Cons.prems by simp
    have slots: "slot_for account_slot a f = None \<longleftrightarrow> slot_for detail_slot a f = None" for a
      by (cases f) (simp_all add: slot_for_def)
    have "map_of (ns_account_details (fold (absorb_record ix x n) recs ?st)) h =
        (if map_of (ns_accounts ?st) h = None
         then Option.bind (find_map (slot_for detail_slot h) (facts_of ix x n recs)) (\<lambda>d. d)
         else map_of (ns_account_details ?st) h)"
    proof (rule Cons.IH)
      fix a assume "map_of (ns_accounts ?st) a = None"
      then have "map_of (ns_accounts st) a = None" "slot_for account_slot a f = None"
        by (simp_all add: accounts opt_or_def split: option.splits)
      then show "map_of (ns_account_details ?st) a = None" using slots [of a] by (simp add: details)
    qed
    then show ?thesis
      using slots [of h] by (simp add: facts_of_Cons absorb_record_Some Some accounts details opt_or_None split: option.split)
  qed
qed

text \<open>
  The view the state gives of the network: what is live, with the ledger and the balance of the entry.
\<close>

definition views_ledger :: "network_state \<Rightarrow> net_fact list \<Rightarrow> bool" where
  "views_ledger st history \<longleftrightarrow>
     (\<forall>h. Option.bind (map_of (ns_accounts st) h) holding_value = replay account_slot holding_value history h) \<and>
     (\<forall>k. Option.bind (map_of (ns_trustlines st) k) holding_value = replay trustline_slot holding_value history k) \<and>
     (\<forall>k. Option.bind (map_of (ns_pool_shares st) k) holding_value = replay share_slot holding_value history k) \<and>
     (\<forall>h. Option.bind (map_of (ns_claimable_balances st) h) claimable_value =
            replay claimable_slot claimable_value history h) \<and>
     (\<forall>p. Option.bind (map_of (ns_pools st) p) (\<lambda>e. e) = replay pool_slot (\<lambda>e. e) history p) \<and>
     (\<forall>h. map_of (ns_account_details st) h = replay detail_slot (\<lambda>d. d) history h)"

lemma absorbed_views_ledger: "views_ledger (absorbed ix x n recs) (rev (facts_of ix x n recs))"
  unfolding views_ledger_def replay_newest absorbed_def
  by (intro conjI allI; (subst absorbed_field [OF absorb_slots(1) register_slots(1)]
        | subst absorbed_field [OF absorb_slots(2) register_slots(2)]
        | subst absorbed_field [OF absorb_slots(3) register_slots(3)]
        | subst absorbed_field [OF absorb_slots(4) register_slots(4)]
        | subst absorbed_field [OF absorb_slots(5) register_slots(5)]
        | subst details_replayed))
    (simp_all add: keep_first_lookup empty_network_def)

subsection \<open>Reading the buckets\<close>

fun record_of_entry :: "string + bucket_entry \<Rightarrow> snapshot_record option" where
  "record_of_entry (Inr (BkLive at e)) = Some (SnapLive at e)"
| "record_of_entry (Inr (BkInit at e)) = Some (SnapLive at e)"
| "record_of_entry (Inr (BkDead k)) = Some (SnapDead k)"
| "record_of_entry _ = None"

fun frames_ok :: "bool \<Rightarrow> (string + bucket_entry) list \<Rightarrow> bool" where
  "frames_ok first [] \<longleftrightarrow> True"
| "frames_ok first (Inl e # fs) \<longleftrightarrow> False"
| "frames_ok first (Inr entry # fs) \<longleftrightarrow> (entry = BkMeta \<longrightarrow> first) \<and> frames_ok False fs"

lemma stream_records_cases:
  "case stream_records (\<lambda>r s. Inr (g r s)) n fs s of
     Inl e \<Rightarrow> \<not> frames_ok (n = 0) fs
   | Inr (c, s') \<Rightarrow> frames_ok (n = 0) fs \<and> s' = fold g (filter_map record_of_entry fs) s"
proof (induction fs arbitrary: n s)
  case (Cons f fs)
  show ?case
  proof (cases f)
    case (Inr entry)
    show ?thesis
    proof (cases entry)
      case (BkLive at e)
      then show ?thesis using Cons.IH [of "Suc n" "g (SnapLive at e) s"] by (simp add: Inr BkLive split: sum.splits prod.splits)
    next
      case (BkInit at e)
      then show ?thesis using Cons.IH [of "Suc n" "g (SnapLive at e) s"] by (simp add: Inr BkInit split: sum.splits prod.splits)
    next
      case (BkDead k)
      then show ?thesis using Cons.IH [of "Suc n" "g (SnapDead k) s"] by (simp add: Inr BkDead split: sum.splits prod.splits)
    next
      case BkMeta
      then show ?thesis using Cons.IH [of "Suc n" s] by (cases n) (simp_all add: Inr BkMeta split: sum.splits prod.splits)
    qed
  qed simp
qed simp

definition content_of :: "archive_ext \<Rightarrow> string \<Rightarrow> (bytes \<times> bytes) option" where
  "content_of ax hash =
     (case ax_get ax (bucket_url pubnet_archive hash) of
        Inr (status, Inr gz) \<Rightarrow>
          if 400 \<le> status \<and> status < 600 then None
          else (case ax_gunzip ax gz of Inr bytes \<Rightarrow> Some (gz, bytes) | Inl e \<Rightarrow> None)
      | _ \<Rightarrow> None)"

definition bucket_verified :: "archive_ext \<Rightarrow> string \<Rightarrow> bool" where
  "bucket_verified ax hash \<longleftrightarrow>
     (case content_of ax hash of
        Some (gz, bytes) \<Rightarrow> ax_sha256_hex ax bytes = hash \<and> frames_ok True (ax_frames ax bytes)
      | None \<Rightarrow> False)"

definition bucket_records :: "archive_ext \<Rightarrow> string \<Rightarrow> snapshot_record list" where
  "bucket_records ax hash =
     (case content_of ax hash of Some (gz, bytes) \<Rightarrow> filter_map record_of_entry (ax_frames ax bytes) | None \<Rightarrow> [])"

lemma bucket_step_cases:
  "case bucket_step ax ix x n st hash of
     Inl e \<Rightarrow> \<not> bucket_verified ax hash
   | Inr st' \<Rightarrow> bucket_verified ax hash \<and> st' = fold (absorb_record ix x n) (bucket_records ax hash) st"
proof (cases "content_of ax hash")
  case None
  then show ?thesis
    by (auto simp: bucket_step_def stream_bucket_from_url_def archive_get_def content_of_def bucket_verified_def
        split: sum.splits prod.splits if_splits)
next
  case (Some c)
  obtain gz bytes where c: "c = (gz, bytes)" by (cases c)
  have get: "archive_get ax ''bucket'' ''bucket body failed: '' (bucket_url pubnet_archive hash) = Inr gz"
    and unzip: "ax_gunzip ax gz = Inr bytes"
    using Some by (auto simp: c archive_get_def content_of_def split: sum.splits prod.splits if_splits)
  show ?thesis
    using stream_records_cases [where g = "absorb_record ix x n" and n = 0 and fs = "ax_frames ax bytes" and s = st]
    by (auto simp: bucket_step_def stream_bucket_from_url_def stream_bucket_def get unzip Let_def bucket_verified_def
        bucket_records_def Some c split: sum.splits prod.splits)
qed

lemma open_snapshot_cases:
  "case open_snapshot ax ix x n bl of
     Inl e \<Rightarrow> \<not> list_all (bucket_verified ax) (bk_hashes bl)
   | Inr st \<Rightarrow> list_all (bucket_verified ax) (bk_hashes bl) \<and>
               st = absorbed ix x n (concat (map (bucket_records ax) (bk_hashes bl)))"
proof -
  have main: "case fold_res (bucket_step ax ix x n) st hs of
     Inl e \<Rightarrow> \<not> list_all (bucket_verified ax) hs
   | Inr st' \<Rightarrow> list_all (bucket_verified ax) hs \<and>
                st' = fold (absorb_record ix x n) (concat (map (bucket_records ax) hs)) st" for hs st
  proof (induction hs arbitrary: st)
    case (Cons h hs)
    show ?case
      using bucket_step_cases [where ix = ix and x = x and n = n and st = st and hash = h and ax = ax]
        Cons.IH [of "fold (absorb_record ix x n) (bucket_records ax h) st"]
      by (cases "bucket_step ax ix x n st h") (auto split: sum.splits)
  qed simp
  show ?thesis unfolding open_snapshot_def absorbed_def by (rule main)
qed

text \<open>C12. The comparison sees the ledger as of the checkpoint: opening a snapshot fails exactly when a bucket of
  the list does not come, does not have the hash that names it or does not decode, and otherwise gives
  the accounts with their details, trustlines, pool shares, claimable balances and pools that replaying
  all records from the oldest to the newest leaves.  A deleted entry is not live, whatever older
  records say.
\<close>

theorem open_snapshot_replays:
  "case open_snapshot ax ix x n bl of
     Inl e \<Rightarrow> \<not> list_all (bucket_verified ax) (bk_hashes bl)
   | Inr st \<Rightarrow> list_all (bucket_verified ax) (bk_hashes bl) \<and>
               views_ledger st (rev (facts_of ix x n (concat (map (bucket_records ax) (bk_hashes bl)))))"
  using open_snapshot_cases [where ix = ix and x = x and n = n and bl = bl and ax = ax] absorbed_views_ledger by (auto split: sum.splits)

end
