(* ===== verification/Reconciliation.thy ===== *)
theory Reconciliation
  imports SnapshotFacts
begin

text \<open>
  Comparing a table of ours with the network: a row is judged and corrected on its own, corrections are
  merged into the table by version, and the locale \<open>reconciliation\<close> shows for any network side that one
  round of corrections leaves nothing to correct.
\<close>

subsection \<open>One row\<close>

definition row_key :: "our_row \<Rightarrow> int \<times> int" where
  "row_key r = (our_holder_id r, our_asset_id r)"

definition brow_key :: "balance_row \<Rightarrow> int \<times> int" where
  "brow_key b = (brow_holder_id b, brow_asset_id b)"

definition stored :: "balance_row \<Rightarrow> our_row" where
  "stored b = \<lparr>our_holder_id = brow_holder_id b, our_asset_id = brow_asset_id b, our_amount = brow_amount b,
               our_last_updated_ledger = brow_last_updated_ledger b, our_closed_at_ledger = brow_closed_at_ledger b\<rparr>"

lemma row_key_simps [simp]:
  "row_key (stored b) = brow_key b" "brow_key (corrected_row r c) = row_key r" "brow_key (missing_row h a e) = (h, a)"
  by (simp_all add: row_key_def brow_key_def stored_def corrected_row_def missing_row_def)

definition fix_of :: "our_row \<Rightarrow> net_holding option \<Rightarrow> int \<Rightarrow> balance_row option" where
  "fix_of r net cp = map_option (corrected_row r) (correction_of (verdict_of r net cp) net cp)"

lemma verdict_matched [simp]: "verdict_of r (map_option matched net) cp = verdict_of r net cp"
  by (cases net) (simp_all add: verdict_of_def matched_def)

lemma correction_matched [simp]: "correction_of v (map_option matched net) cp = correction_of v net cp"
  by (cases net; cases v) (simp_all add: matched_def)

lemma fix_matched [simp]: "fix_of r (map_option matched net) cp = fix_of r net cp"
  by (simp add: fix_of_def)

text \<open>A correction is newer than the row it corrects, and leaves nothing to correct.\<close>

lemma fix_of_key: "fix_of r net cp = Some b \<Longrightarrow> brow_key b = row_key r"
  by (auto simp: fix_of_def)

lemma fix_of_newer: "fix_of r net cp = Some b \<Longrightarrow> our_last_updated_ledger r < brow_last_updated_ledger b"
  by (cases net)
    (auto simp: fix_of_def verdict_of_def corrected_row_def split: if_splits)

lemma fix_of_settles: "fix_of r net cp = Some b \<Longrightarrow> fix_of (stored b) net cp = None"
  by (cases net)
    (auto simp: fix_of_def verdict_of_def corrected_row_def stored_def split: if_splits)

lemma missing_settled: "nh_live e \<Longrightarrow> fix_of (stored (missing_row h a e)) (Some e) cp = None"
  by (simp add: fix_of_def verdict_of_def stored_def missing_row_def)

subsection \<open>Merging corrections into a table\<close>

text \<open>
  ClickHouse's \<open>ReplacingMergeTree\<close> keeps, under a key, the row of the greatest version; an equal version
  is left open there, and no correction meets one.
\<close>

definition merge_row :: "balance_row \<Rightarrow> our_row list \<Rightarrow> our_row list" where
  "merge_row b t =
     (if brow_key b \<in> row_key ` set t
      then map (\<lambda>r. if row_key r = brow_key b \<and> our_last_updated_ledger r < brow_last_updated_ledger b
                     then stored b else r) t
      else t @ [stored b])"

definition merged :: "our_row list \<Rightarrow> balance_row list \<Rightarrow> our_row list" where
  "merged t bs = fold merge_row bs t"

lemma merge_row_same_keys: "brow_key b \<in> row_key ` set t \<Longrightarrow> map row_key (merge_row b t) = map row_key t"
  by (simp add: merge_row_def o_def)

lemma merge_row_new_key: "brow_key b \<notin> row_key ` set t \<Longrightarrow> merge_row b t = t @ [stored b]"
  by (simp add: merge_row_def)

lemma merge_row_keys: "row_key ` set (merge_row b t) = insert (brow_key b) (row_key ` set t)"
proof (cases "brow_key b \<in> row_key ` set t")
  case True
  then have "set (map row_key (merge_row b t)) = set (map row_key t)" by (simp only: merge_row_same_keys)
  then show ?thesis using True by (simp add: insert_absorb)
next
  case False
  then show ?thesis by (simp add: merge_row_new_key)
qed

lemma merge_row_distinct: "distinct (map row_key t) \<Longrightarrow> distinct (map row_key (merge_row b t))"
  by (cases "brow_key b \<in> row_key ` set t") (simp_all only: merge_row_same_keys, simp add: merge_row_new_key)

lemma merge_row_mem:
  "r \<in> set (merge_row b t) \<Longrightarrow>
   r = stored b \<or> r \<in> set t \<and> (row_key r = brow_key b \<longrightarrow> brow_last_updated_ledger b \<le> our_last_updated_ledger r)"
  by (cases "brow_key b \<in> row_key ` set t") (auto simp: merge_row_def, metis image_eqI)

definition older :: "our_row list \<Rightarrow> balance_row list \<Rightarrow> bool" where
  "older t bs \<longleftrightarrow>
     (\<forall>b \<in> set bs. \<forall>r \<in> set t. row_key r = brow_key b \<longrightarrow> our_last_updated_ledger r < brow_last_updated_ledger b)"

lemma merged_keys: "row_key ` set (merged t bs) = row_key ` set t \<union> brow_key ` set bs"
  by (induction bs arbitrary: t) (simp_all add: merged_def merge_row_keys)

lemma merged_distinct: "distinct (map row_key t) \<Longrightarrow> distinct (map row_key (merged t bs))"
  by (induction bs arbitrary: t) (simp_all add: merged_def merge_row_distinct)

lemma older_merge_row:
  assumes "older t (b # bs)" "brow_key b \<notin> brow_key ` set bs"
  shows "older (merge_row b t) bs"
  using assms by (fastforce simp: older_def dest!: merge_row_mem)

lemma merged_mem:
  assumes "older t bs" "distinct (map brow_key bs)" "r \<in> set (merged t bs)"
  shows "r \<in> stored ` set bs \<or> r \<in> set t \<and> row_key r \<notin> brow_key ` set bs"
  using assms
proof (induction bs arbitrary: t)
  case (Cons b bs)
  have "r \<in> stored ` set bs \<or> r \<in> set (merge_row b t) \<and> row_key r \<notin> brow_key ` set bs"
    by (rule Cons.IH) (use Cons.prems older_merge_row in \<open>auto simp: merged_def\<close>)
  then show ?case using Cons.prems(1) by (fastforce simp: older_def dest!: merge_row_mem)
qed (simp add: merged_def)

lemma merged_fits:
  assumes "\<forall>r \<in> set t. fits_i64 (our_holder_id r)" "row_key ` set t' = row_key ` set t \<union> set ks" "\<forall>k \<in> set ks. fits_i64 (fst k)"
  shows "\<forall>r \<in> set t'. fits_i64 (our_holder_id r)"
proof
  fix r assume "r \<in> set t'"
  then have "row_key r \<in> row_key ` set t \<union> set ks" using assms(2) by blast
  then have "fits_i64 (fst (row_key r))" using assms(1,3) by (auto simp: row_key_def)
  then show "fits_i64 (our_holder_id r)" by (simp add: row_key_def)
qed

subsection \<open>The interface of a comparison\<close>

text \<open>
  What the network holds under a key of ours, and the keys it holds live.  The corrections of a table
  are the fixes of its rows and an insert for every listed key it lacks.
\<close>

locale reconciliation =
  fixes net :: "int \<times> int \<Rightarrow> net_holding option"
    and listed :: "(int \<times> int) list"
  assumes listed_live: "k \<in> set listed \<Longrightarrow> \<exists>e. net k = Some e \<and> nh_live e"
    and distinct_listed: "distinct listed"
begin

definition repairs :: "int \<Rightarrow> our_row list \<Rightarrow> balance_row list" where
  "repairs cp t = filter_map (\<lambda>r. fix_of r (net (row_key r)) cp) t"

definition inserts :: "our_row list \<Rightarrow> balance_row list" where
  "inserts t = map (\<lambda>k. missing_row (fst k) (snd k) (the (net k))) (filter (\<lambda>k. k \<notin> row_key ` set t) listed)"

definition corrected :: "int \<Rightarrow> our_row list \<Rightarrow> balance_row list" where
  "corrected cp t = repairs cp t @ inserts t"

lemma repairs_keys:
  "map brow_key (repairs cp t) = map row_key (filter (\<lambda>r. fix_of r (net (row_key r)) cp \<noteq> None) t)"
  unfolding repairs_def by (induction t) (auto split: option.splits dest: fix_of_key)

lemma inserts_keys: "map brow_key (inserts t) = filter (\<lambda>k. k \<notin> row_key ` set t) listed"
  by (simp add: inserts_def o_def)

lemma corrected_distinct:
  assumes "distinct (map row_key t)"
  shows "distinct (map brow_key (corrected cp t))"
proof -
  have "set (map brow_key (repairs cp t)) \<subseteq> row_key ` set t" unfolding repairs_keys by auto
  moreover have "set (map brow_key (inserts t)) \<inter> row_key ` set t = {}" unfolding inserts_keys by auto
  moreover have "distinct (map brow_key (repairs cp t))" unfolding repairs_keys by (rule distinct_map_filter [OF assms])
  moreover have "distinct (map brow_key (inserts t))" unfolding inserts_keys by (simp add: distinct_listed)
  ultimately show ?thesis unfolding corrected_def map_append distinct_append by blast
qed

lemma repairs_mem: "b \<in> set (repairs cp t) \<Longrightarrow> \<exists>r \<in> set t. fix_of r (net (row_key r)) cp = Some b"
  by (auto simp: repairs_def set_filter_map)

lemma inserts_mem:
  assumes "b \<in> set (inserts t)"
  shows "\<exists>k e. net k = Some e \<and> nh_live e \<and> b = missing_row (fst k) (snd k) e \<and> k \<notin> row_key ` set t"
  using assms listed_live by (fastforce simp: inserts_def)

lemma row_key_unique: "distinct (map row_key t) \<Longrightarrow> r \<in> set t \<Longrightarrow> r' \<in> set t \<Longrightarrow> row_key r = row_key r' \<Longrightarrow> r = r'"
  by (auto simp: distinct_map dest: inj_onD)

lemma corrected_newer:
  assumes "distinct (map row_key t)"
  shows "older t (corrected cp t)"
  unfolding older_def
proof (intro ballI impI)
  fix b r
  assume b: "b \<in> set (corrected cp t)" and r: "r \<in> set t" "row_key r = brow_key b"
  from b consider "b \<in> set (repairs cp t)" | "b \<in> set (inserts t)" by (auto simp: corrected_def)
  then show "our_last_updated_ledger r < brow_last_updated_ledger b"
  proof cases
    case 1
    then obtain r' where r': "r' \<in> set t" "fix_of r' (net (row_key r')) cp = Some b" by (auto dest: repairs_mem)
    then have "r = r'" using row_key_unique [OF assms r(1) r'(1)] r(2) fix_of_key by metis
    then show ?thesis using fix_of_newer r'(2) by blast
  next
    case 2
    then have "brow_key b \<notin> row_key ` set t" by (auto dest!: inserts_mem)
    then show ?thesis using r by (metis image_eqI)
  qed
qed

lemma older_cong: "set t = set t' \<Longrightarrow> older t bs \<longleftrightarrow> older t' bs"
  by (simp add: older_def)

lemma settled_row:
  assumes "distinct (map row_key t)" "distinct (map row_key t1)" "set t1 = set t"
    and "r \<in> set (merged t (corrected cp t1))"
  shows "fix_of r (net (row_key r)) cp = None"
proof -
  have "older t (corrected cp t1)" using corrected_newer [OF assms(2)] older_cong [OF assms(3)] by simp
  from merged_mem [OF this corrected_distinct [OF assms(2)] assms(4)]
  consider b where "b \<in> set (repairs cp t1)" "r = stored b" | b where "b \<in> set (inserts t1)" "r = stored b"
    | "r \<in> set t" "row_key r \<notin> brow_key ` set (corrected cp t1)"
    by (auto simp: corrected_def)
  then show ?thesis
  proof cases
    case 1
    then obtain r' where "fix_of r' (net (row_key r')) cp = Some b" by (auto dest: repairs_mem)
    then show ?thesis using fix_of_settles fix_of_key 1(2) by fastforce
  next
    case 2
    then show ?thesis using missing_settled by (fastforce dest: inserts_mem)
  next
    case 3
    show ?thesis
    proof (rule ccontr)
      assume "fix_of r (net (row_key r)) cp \<noteq> None"
      then obtain b where b: "fix_of r (net (row_key r)) cp = Some b" by blast
      then have "b \<in> set (corrected cp t1)" using 3(1) assms(3) by (auto simp: corrected_def repairs_def set_filter_map)
      then show False using 3(2) fix_of_key [OF b] by (metis image_eqI)
    qed
  qed
qed

text \<open>A second run over the corrected table finds nothing.\<close>

lemma converges:
  assumes "distinct (map row_key t)" "distinct (map row_key t1)" "set t1 = set t"
    and "set t2 = set (merged t (corrected cp t1))"
  shows "corrected cp t2 = []"
proof -
  have "repairs cp t2 = []"
    using settled_row [OF assms(1-3)] assms(4) unfolding repairs_def by (simp add: filter_map_empty)
  moreover have "set listed \<subseteq> row_key ` set t2"
  proof
    fix k assume "k \<in> set listed"
    then have "k \<in> row_key ` set t1 \<or> k \<in> set (map brow_key (inserts t1))" unfolding inserts_keys by simp
    then show "k \<in> row_key ` set t2"
      unfolding assms(4) merged_keys using assms(3) by (auto simp: corrected_def)
  qed
  ultimately show ?thesis by (auto simp: corrected_def inserts_def filter_empty_conv)
qed

text \<open>The same over a table that is read slice by slice.\<close>

lemma sliced_newer:
  assumes "distinct (map row_key t)" "\<forall>r \<in> set t. fits_i64 (our_holder_id r)"
  shows "older t (corrected cp (sliced t))"
  using corrected_newer [OF distinct_sliced [OF assms(2,1)]] older_cong [OF set_sliced [OF assms(2)]] by blast

lemma sliced_distinct:
  assumes "distinct (map row_key t)" "\<forall>r \<in> set t. fits_i64 (our_holder_id r)"
  shows "distinct (map brow_key (corrected cp (sliced t)))"
  by (rule corrected_distinct) (rule distinct_sliced [OF assms(2,1)])

lemma sliced_converges:
  assumes "distinct (map row_key t)" "\<forall>r \<in> set t. fits_i64 (our_holder_id r)"
    and "\<And>k. k \<in> set listed \<Longrightarrow> fits_i64 (fst k)"
  shows "corrected cp (sliced (merged t (corrected cp (sliced t)))) = []"
proof -
  let ?c = "corrected cp (sliced t)"
  have t1: "distinct (map row_key (sliced t))" "set (sliced t) = set t"
    by (rule distinct_sliced [OF assms(2,1)]) (rule set_sliced [OF assms(2)])
  have "set (map brow_key ?c) \<subseteq> row_key ` set t \<union> set listed"
    unfolding corrected_def map_append set_append repairs_keys inserts_keys using t1(2) by auto
  then have "\<forall>k \<in> set (map brow_key ?c). fits_i64 (fst k)"
    using assms(2,3) by (fastforce simp: row_key_def)
  then have "\<forall>r \<in> set (merged t ?c). fits_i64 (our_holder_id r)"
    by (intro merged_fits [OF assms(2), where ks = "map brow_key ?c"]) (simp_all add: merged_keys)
  then show ?thesis by (intro converges [OF assms(1) t1]) (rule set_sliced)
qed

end

end
