(* ===== verification/SeedFacts.thy ===== *)
theory SeedFacts
  imports Reconciliation
begin

text \<open>
  What a run of the seed guarantees: a correction is newer than what it corrects and leaves nothing to
  correct, so a second run finds nothing; no seeded balance refers to an asset or holder that is not
  defined before it; the samples of the report keep the least hashes.  The comparison of our rows with
  the network is the locale \<open>reconciliation\<close>, interpreted on the balances and on the claimable balances.
\<close>

subsection \<open>Balances against accounts and trustlines\<close>

definition balance_net :: "network_state \<Rightarrow> int \<times> int \<Rightarrow> net_holding option" where
  "balance_net st k = (if snd k = native_asset_id then map_of (ns_accounts st) (fst k) else map_of (ns_trustlines st) k)"

definition live_keys :: "('k \<times> net_holding) list \<Rightarrow> 'k list" where
  "live_keys m = map fst (filter (\<lambda>(k, e). nh_live e) m)"

definition balance_listed :: "network_state \<Rightarrow> (int \<times> int) list" where
  "balance_listed st =
     filter (\<lambda>k. snd k \<noteq> native_asset_id) (live_keys (ns_trustlines st)) @
     map (\<lambda>h. (h, native_asset_id)) (live_keys (ns_accounts st))"

lemma live_keys_mem: "distinct (map fst m) \<Longrightarrow> k \<in> set (live_keys m) \<Longrightarrow> \<exists>e. map_of m k = Some e \<and> nh_live e"
  by (auto simp: live_keys_def)

lemma distinct_live_keys: "distinct (map fst m) \<Longrightarrow> distinct (live_keys m)"
  by (simp add: live_keys_def distinct_map_filter)

lemma reconciliation_balances: "fresh st \<Longrightarrow> reconciliation (balance_net st) (balance_listed st)"
proof
  fix k assume st: "fresh st" and "k \<in> set (balance_listed st)"
  then show "\<exists>e. balance_net st k = Some e \<and> nh_live e"
    using live_keys_mem [of "ns_accounts st"] live_keys_mem [of "ns_trustlines st" k]
    by (auto simp: balance_listed_def balance_net_def fresh_def simp del: map_of_eq_Some_iff)
next
  assume "fresh st"
  then show "distinct (balance_listed st)"
    by (auto simp: balance_listed_def fresh_def distinct_live_keys distinct_map inj_on_def)
qed

interpretation bal: reconciliation "balance_net (absorbed ix x n recs)" "balance_listed (absorbed ix x n recs)"
  for ix x n recs
  by (rule reconciliation_balances) (rule fresh_absorbed)

subsection \<open>Claims\<close>

definition claimed :: "bool \<Rightarrow> net_holding \<Rightarrow> net_holding" where
  "claimed b e = (if b then matched e else e)"

lemma claimed_simps [simp]: "claimed False = (\<lambda>e. e)" "matched (matched e) = matched e" "nh_live (claimed b e) = nh_live e"
  by (auto simp: claimed_def matched_def fun_eq_iff)

definition claim_all :: "('k \<Rightarrow> bool) \<Rightarrow> ('k \<times> net_holding) list \<Rightarrow> ('k \<times> net_holding) list" where
  "claim_all p m = map (\<lambda>(k, e). (k, claimed (p k) e)) m"

lemma claim_all_none: "claim_all (\<lambda>k. False) m = m"
  by (simp add: claim_all_def)

lemma mark_claim_all: "mark matched a (claim_all p m) = claim_all (\<lambda>k. k = a \<or> p k) m"
  by (auto simp: mark_def claim_all_def claimed_def)

lemma claim_all_or: "claim_all (\<lambda>k. p k \<or> q k) m = claim_all (\<lambda>k. q k \<or> p k) m"
  by (simp add: disj_commute)

lemma map_of_claim_all: "map_of (claim_all p m) k = map_option (claimed (p k)) (map_of m k)"
  by (induction m) (auto simp: claim_all_def)

lemma map_option_claimed: "fix_of r (map_option (claimed b) net) cp = fix_of r net cp"
  by (cases b; cases net) (use fix_matched [of r net cp] in \<open>simp_all add: claimed_def\<close>)

text \<open>What is left to insert: the live holdings nothing claimed.\<close>

definition unclaimed :: "('k \<times> net_holding) list \<Rightarrow> ('k \<times> net_holding) list" where
  "unclaimed m = filter (\<lambda>(k, e). nh_live e \<and> \<not> nh_matched e) m"

lemma unclaimed_rows:
  assumes "\<forall>(k, e) \<in> set m. \<not> nh_matched e \<and> g k = Some e"
  shows "map (\<lambda>(k, e). F k e) (unclaimed (claim_all p m)) = map (\<lambda>k. F k (the (g k))) (filter (\<lambda>k. \<not> p k) (live_keys m))"
  using assms
  by (induction m) (auto simp: unclaimed_def claim_all_def live_keys_def claimed_def matched_def)

definition balances_claimed :: "(int \<times> int) set \<Rightarrow> network_state \<Rightarrow> network_state" where
  "balances_claimed ks st =
     st\<lparr>ns_accounts := claim_all (\<lambda>h. (h, native_asset_id) \<in> ks) (ns_accounts st),
        ns_trustlines := claim_all (\<lambda>k. snd k \<noteq> native_asset_id \<and> k \<in> ks) (ns_trustlines st)\<rparr>"

lemma balances_claimed_none: "balances_claimed {} st = st"
  by (simp add: balances_claimed_def claim_all_none)

lemma matched_claimed: "map_option matched (map_option (claimed b) net) = map_option matched net"
  by (cases net) (simp_all add: claimed_def)

lemma holding_claimed: "map_option matched (holding_for (balances_claimed ks st) r) = map_option matched (balance_net st (row_key r))"
  by (simp add: holding_for_def balances_claimed_def balance_net_def row_key_def map_of_claim_all matched_claimed
      del: map_option_eq_Some option.map_comp)

lemma mark_balances:
  "(balances_claimed ks st)\<lparr>ns_accounts := mark matched h (ns_accounts (balances_claimed ks st))\<rparr> =
     st\<lparr>ns_accounts := claim_all (\<lambda>a. a = h \<or> (a, native_asset_id) \<in> ks) (ns_accounts st),
        ns_trustlines := claim_all (\<lambda>k. snd k \<noteq> native_asset_id \<and> k \<in> ks) (ns_trustlines st)\<rparr>"
  "(balances_claimed ks st)\<lparr>ns_trustlines := mark matched q (ns_trustlines (balances_claimed ks st))\<rparr> =
     st\<lparr>ns_accounts := claim_all (\<lambda>a. (a, native_asset_id) \<in> ks) (ns_accounts st),
        ns_trustlines := claim_all (\<lambda>k. k = q \<or> snd k \<noteq> native_asset_id \<and> k \<in> ks) (ns_trustlines st)\<rparr>"
  by (simp_all add: balances_claimed_def mark_claim_all)

lemma claim_balances:
  "claim r (balances_claimed ks st) =
     (map_option matched (balance_net st (row_key r)), balances_claimed (insert (row_key r) ks) st)"
proof (cases "our_asset_id r = native_asset_id")
  case True
  then have "(\<lambda>h. h = our_holder_id r \<or> (h, native_asset_id) \<in> ks) = (\<lambda>h. (h, native_asset_id) \<in> insert (row_key r) ks)"
    and "(\<lambda>k. snd k \<noteq> native_asset_id \<and> k \<in> ks) = (\<lambda>k. snd k \<noteq> native_asset_id \<and> k \<in> insert (row_key r) ks)"
    by (auto simp: row_key_def)
  note keys = this
  show ?thesis
    unfolding claim_def holding_claimed if_P [OF True] prod.inject
    by (intro conjI refl) (simp only: mark_balances keys balances_claimed_def [of "insert (row_key r) ks"])
next
  case False
  then have "(\<lambda>k. k = (our_holder_id r, our_asset_id r) \<or> snd k \<noteq> native_asset_id \<and> k \<in> ks) =
      (\<lambda>k. snd k \<noteq> native_asset_id \<and> k \<in> insert (row_key r) ks)"
    and "(\<lambda>h. (h, native_asset_id) \<in> ks) = (\<lambda>h. (h, native_asset_id) \<in> insert (row_key r) ks)"
    by (auto simp: row_key_def)
  note keys = this
  show ?thesis
    unfolding claim_def holding_claimed if_not_P [OF False] prod.inject
    by (intro conjI refl) (simp only: mark_balances keys balances_claimed_def [of "insert (row_key r) ks"])
qed

subsection \<open>The pass over balances\<close>

lemma observe_claimed:
  assumes "rp_checkpoint rep = cp"
  shows "\<exists>rep1. observe r rep (balances_claimed ks st) =
           ((verdict_of r (balance_net st (row_key r)) cp, map_option matched (balance_net st (row_key r))), rep1,
            balances_claimed (insert (row_key r) ks) st) \<and> rp_checkpoint rep1 = cp"
  using assms by (simp add: observe_def claim_balances Let_def)

lemma fold_our_row_rows:
  "bx_rows (fold_our_row r (verdict_of r net cp) (map_option matched net) cp out) =
     bx_rows out @ (case fix_of r net cp of None \<Rightarrow> [] | Some b \<Rightarrow> [b])"
  by (simp add: fold_our_row_def fix_of_def Let_def split: option.split)

lemma balances_pass:
  assumes "rp_checkpoint rep = cp"
  shows "\<exists>rep1 out1. fold (balance_step cp) rows (balances_claimed ks st, rep, out) =
           (balances_claimed (ks \<union> row_key ` set rows) st, rep1, out1) \<and> rp_checkpoint rep1 = cp \<and>
           bx_rows out1 = bx_rows out @ filter_map (\<lambda>r. fix_of r (balance_net st (row_key r)) cp) rows"
  using assms
proof (induction rows arbitrary: ks rep out)
  case (Cons r rows)
  let ?net = "balance_net st (row_key r)"
  let ?out = "fold_our_row r (verdict_of r ?net cp) (map_option matched ?net) cp out"
  obtain rep1 where rep1: "observe r rep (balances_claimed ks st) =
      ((verdict_of r ?net cp, map_option matched ?net), rep1, balances_claimed (insert (row_key r) ks) st)"
    "rp_checkpoint rep1 = cp"
    using observe_claimed [OF Cons.prems, of r ks st] by blast
  obtain rep2 out2 where "fold (balance_step cp) rows (balances_claimed (insert (row_key r) ks) st, rep1, ?out) =
      (balances_claimed (insert (row_key r) ks \<union> row_key ` set rows) st, rep2, out2)" "rp_checkpoint rep2 = cp"
    "bx_rows out2 = bx_rows ?out @ filter_map (\<lambda>r. fix_of r (balance_net st (row_key r)) cp) rows"
    using Cons.IH [OF rep1(2)] by blast
  moreover have "balance_step cp r (balances_claimed ks st, rep, out) = (balances_claimed (insert (row_key r) ks) st, rep1, ?out)"
    by (simp add: balance_step_def rep1)
  ultimately show ?case
    by (simp add: fold_our_row_rows split: option.split)
qed simp

lemma unclaimed_Cons:
  "unclaimed ((k, e) # m) = (if nh_live e \<and> \<not> nh_matched e then [(k, e)] else []) @ unclaimed m"
  by (simp add: unclaimed_def)

lemma missing_trustline_rows:
  "ms_rows (missing_trustline st (k, e) m) =
     ms_rows m @ (if nh_live e \<and> \<not> nh_matched e then [missing_row (fst k) (snd k) e] else [])"
  by (simp add: missing_trustline_def)

lemma missing_trustlines_rows:
  "ms_rows (fold (missing_trustline st) xs m) =
     ms_rows m @ map (\<lambda>(k, e). missing_row (fst k) (snd k) e) (unclaimed xs)"
proof (induction xs arbitrary: m)
  case (Cons p xs)
  then show ?case by (cases p) (simp add: missing_trustline_rows unclaimed_Cons)
qed (simp add: unclaimed_def)

lemma missing_account_rows:
  "ms_rows (missing_account st (h, e) m) =
     ms_rows m @ (if nh_live e \<and> \<not> nh_matched e then [missing_row h native_asset_id e] else [])"
  by (simp add: missing_account_def)

lemma missing_accounts_rows:
  "ms_rows (fold (missing_account st) xs m) =
     ms_rows m @ map (\<lambda>(h, e). missing_row h native_asset_id e) (unclaimed xs)"
proof (induction xs arbitrary: m)
  case (Cons p xs)
  then show ?case by (cases p) (simp add: missing_account_rows unclaimed_Cons)
qed (simp add: unclaimed_def)

text \<open>No credit asset has the id of the native one.\<close>

definition no_native_collision :: "network_state \<Rightarrow> bool" where
  "no_native_collision st \<longleftrightarrow> (\<forall>k \<in> fst ` set (ns_trustlines st). snd k \<noteq> native_asset_id)"

lemma balance_net_mem:
  assumes "fresh st" "no_native_collision st"
  shows "\<forall>(k, e) \<in> set (ns_trustlines st). \<not> nh_matched e \<and> balance_net st k = Some e"
    and "\<forall>(h, e) \<in> set (ns_accounts st). \<not> nh_matched e \<and> balance_net st (h, native_asset_id) = Some e"
  using assms by (force simp: fresh_def balance_net_def no_native_collision_def)+

lemma missing_balances:
  assumes "fresh st" "no_native_collision st"
  shows "map (\<lambda>(k, e). missing_row (fst k) (snd k) e) (unclaimed (ns_trustlines (balances_claimed ks st))) @
         map (\<lambda>(h, e). missing_row h native_asset_id e) (unclaimed (ns_accounts (balances_claimed ks st))) =
         map (\<lambda>k. missing_row (fst k) (snd k) (the (balance_net st k))) (filter (\<lambda>k. k \<notin> ks) (balance_listed st))"
proof -
  have native: "k \<in> set (live_keys (ns_trustlines st)) \<Longrightarrow> snd k \<noteq> native_asset_id" for k
    using assms(2) by (auto simp: live_keys_def no_native_collision_def)
  have "map (\<lambda>(k, e). missing_row (fst k) (snd k) e) (unclaimed (ns_trustlines (balances_claimed ks st))) =
        map (\<lambda>k. missing_row (fst k) (snd k) (the (balance_net st k)))
          (filter (\<lambda>k. \<not> (snd k \<noteq> native_asset_id \<and> k \<in> ks)) (live_keys (ns_trustlines st)))"
    using unclaimed_rows [OF balance_net_mem(1) [OF assms], of "\<lambda>k. missing_row (fst k) (snd k)"]
    by (simp add: balances_claimed_def)
  moreover have "filter (\<lambda>k. \<not> (snd k \<noteq> native_asset_id \<and> k \<in> ks)) (live_keys (ns_trustlines st)) =
             filter (\<lambda>k. k \<notin> ks) (filter (\<lambda>k. snd k \<noteq> native_asset_id) (live_keys (ns_trustlines st)))"
    unfolding filter_filter by (rule filter_cong) (use native in auto)
  ultimately have trustlines: "map (\<lambda>(k, e). missing_row (fst k) (snd k) e) (unclaimed (ns_trustlines (balances_claimed ks st))) =
      map (\<lambda>k. missing_row (fst k) (snd k) (the (balance_net st k)))
        (filter (\<lambda>k. k \<notin> ks) (filter (\<lambda>k. snd k \<noteq> native_asset_id) (live_keys (ns_trustlines st))))"
    by (simp only:)
  have "map (\<lambda>(h, e). missing_row h native_asset_id e) (unclaimed (ns_accounts (balances_claimed ks st))) =
        map (\<lambda>h. missing_row h native_asset_id (the (balance_net st (h, native_asset_id))))
          (filter (\<lambda>h. (h, native_asset_id) \<notin> ks) (live_keys (ns_accounts st)))"
    using unclaimed_rows [OF balance_net_mem(2) [OF assms], of "\<lambda>h. missing_row h native_asset_id"]
    by (simp add: balances_claimed_def)
  then show ?thesis
    unfolding trustlines balance_listed_def filter_append map_append by (simp add: filter_map o_def)
qed

definition answers_balances :: "seed_reads \<Rightarrow> our_row list \<Rightarrow> bool" where
  "answers_balances sd t \<longleftrightarrow>
     (\<forall>db. \<forall>s \<in> set key_slices.
        sd_holdings sd db (slice_sql ''balances'' balances_filter (fst s) (snd s)) = Inr (rows_in_slice t s))"

lemma balance_corrections_rows:
  assumes "answers_balances sd t" "no_native_collision (absorbed ix x n recs)"
  shows "\<exists>st1 out m db1. balance_corrections_of sd (absorbed ix x n recs) cp (report_new cp) db = (Inr (st1, out, m), db1) \<and>
           bx_rows out = reconciliation.corrected (balance_net (absorbed ix x n recs))
                           (balance_listed (absorbed ix x n recs)) cp (sliced t)"
proof -
  let ?st = "absorbed ix x n recs"
  let ?s0 = "(?st, report_new cp, \<lparr>bx_rows = [], bx_ghosts = []\<rparr>)"
  have "\<exists>db1. stream_slices (sd_holdings sd) (slice_sql ''balances'' balances_filter) (balance_step cp)
      key_slices ?s0 db = (Inr (fold (balance_step cp) (sliced t) ?s0), db1)"
    unfolding sliced_def by (rule stream_slices_rows) (use assms(1) in \<open>simp add: answers_balances_def\<close>)
  then obtain db1 where db1: "stream_slices (sd_holdings sd) (slice_sql ''balances'' balances_filter) (balance_step cp)
      key_slices ?s0 db = (Inr (fold (balance_step cp) (sliced t) ?s0), db1)" ..
  obtain rep1 out1 where pass: "fold (balance_step cp) (sliced t) ?s0 =
      (balances_claimed (row_key ` set (sliced t)) ?st, rep1, out1)"
    "bx_rows out1 = filter_map (\<lambda>r. fix_of r (balance_net ?st (row_key r)) cp) (sliced t)"
    using balances_pass [of "report_new cp" cp "sliced t" "{}" ?st "\<lparr>bx_rows = [], bx_ghosts = []\<rparr>"]
    by (auto simp: balances_claimed_none report_new_def)
  show ?thesis
    unfolding balance_corrections_of_def db1 pass(1) and_then_def bal.corrected_def bal.repairs_def bal.inserts_def
    by (simp add: Let_def missing_trustlines_rows missing_accounts_rows pass(2)
        missing_balances [OF fresh_absorbed assms(2)] del: filter_append)
qed

lemma absorbed_listed_fits:
  assumes "k \<in> set (balance_listed (absorbed ix x n recs))"
  shows "fits_i64 (fst k)"
  using assms fresh_absorbed [of ix x n recs]
  by (force simp: balance_listed_def live_keys_def fresh_def)

subsection \<open>One run settles the comparison\<close>

text \<open>C11. One run of the comparison settles the balances.  For a snapshot that opened, a table with one row per
  key, read slice by slice, and no credit asset with the id of the native one: the pass over balances
  returns; every correction is strictly newer than the row it replaces, so ClickHouse keeps the
  correction, and no key is corrected twice; and once the corrections are merged into the table, a
  second run over the same checkpoint finds nothing to correct or insert.
\<close>

theorem seed_balances_converge:
  assumes "open_snapshot ax ix x n bl = Inr st" and "no_native_collision st"
    and "distinct (map row_key t)" and "\<forall>r \<in> set t. fits_i64 (our_holder_id r)" and "answers_balances sd t"
  shows "\<exists>st1 out m db1. balance_corrections_of sd st cp (report_new cp) db = (Inr (st1, out, m), db1) \<and>
           older t (bx_rows out) \<and> distinct (map brow_key (bx_rows out)) \<and>
           (\<forall>sd2 db2. answers_balances sd2 (merged t (bx_rows out)) \<longrightarrow>
              (\<exists>st2 out2 m2 db3. balance_corrections_of sd2 st cp (report_new cp) db2 = (Inr (st2, out2, m2), db3) \<and>
                 bx_rows out2 = []))"
proof -
  define recs where "recs = concat (map (bucket_records ax) (bk_hashes bl))"
  have st: "st = absorbed ix x n recs"
    using open_snapshot_cases [where ix = ix and x = x and n = n and bl = bl and ax = ax] by (simp add: assms(1) recs_def)
  note collision = assms(2) [unfolded st]
  obtain st1 out m db1 where run: "balance_corrections_of sd st cp (report_new cp) db = (Inr (st1, out, m), db1)"
    and rows: "bx_rows out = reconciliation.corrected (balance_net (absorbed ix x n recs))
                 (balance_listed (absorbed ix x n recs)) cp (sliced t)"
    using balance_corrections_rows [OF assms(5) collision] unfolding st by blast
  have "older t (bx_rows out)" "distinct (map brow_key (bx_rows out))"
    unfolding rows by (rule bal.sliced_newer [OF assms(3,4)], rule bal.sliced_distinct [OF assms(3,4)])
  moreover have "\<exists>st2 out2 m2 db3. balance_corrections_of sd2 st cp (report_new cp) db2 = (Inr (st2, out2, m2), db3) \<and>
      bx_rows out2 = []" if "answers_balances sd2 (merged t (bx_rows out))" for sd2 db2
    using balance_corrections_rows [OF that collision, of cp db2]
      bal.sliced_converges [OF assms(3,4) absorbed_listed_fits, where cp = cp] unfolding st rows by simp
  ultimately show ?thesis using run by blast
qed

subsection \<open>A run\<close>

text \<open>A table that answers the queries of the slices.\<close>

definition reads_table :: "our_row list \<Rightarrow> seed_reads" where
  "reads_table t =
     \<lparr>sd_holdings = (\<lambda>db sql. Inr (filter (\<lambda>r. list_ex (\<lambda>s. sql = slice_sql ''balances'' balances_filter (fst s) (snd s) \<and>
                                                          in_slice (our_holder_id r) s) key_slices) t)),
      sd_ids = (\<lambda>db sql. Inr []), sd_entry_states = (\<lambda>db sql. Inr []), sd_pools = (\<lambda>db sql. Inr []),
      sd_tombstone = (\<lambda>db sql. Inr (0, 0)), sd_readonly = (\<lambda>db sql. Inr ([], 0)),
      sd_silent_modes = (\<lambda>db sql. Inr []), sd_count = (\<lambda>db sql. Inr 0)\<rparr>"

lemma takeWhile_to: "c \<notin> set a \<Longrightarrow> takeWhile (\<lambda>x. x \<noteq> c) (a @ c # u) = a"
  by (induction a) auto

lemma split_at_space:
  assumes "a @ CHR '' '' # u = b @ CHR '' '' # v" "CHR '' '' \<notin> set a" "CHR '' '' \<notin> set b"
  shows "a = b"
  using takeWhile_to [OF assms(2), of u] takeWhile_to [OF assms(3), of v] by (simp add: assms(1))

lemma show_int_no_space: "CHR '' '' \<notin> set (show_int i)"
proof -
  have "CHR '' '' \<notin> set (show_nat n)" for n
    using show_nat_digits [of n] by (auto simp: list_all_iff is_ascii_digit_def)
  then show ?thesis by (simp add: show_int_def)
qed

lemma slice_sql_inject: "slice_sql table filt l h = slice_sql table filt l' h' \<Longrightarrow> l = l'"
proof -
  assume "slice_sql table filt l h = slice_sql table filt l' h'"
  then have "show_int l @ '' AND '' @ show_int h @ '' '' @ filt @ '' GROUP BY holder_id, asset_id )'' =
      show_int l' @ '' AND '' @ show_int h' @ '' '' @ filt @ '' GROUP BY holder_id, asset_id )''"
    unfolding slice_sql_def by (simp only: append_assoc same_append_eq)
  then have "show_int l = show_int l'"
    by (intro split_at_space [OF _ show_int_no_space show_int_no_space]) (simp only: append_Cons)
  then show "l = l'" by (simp add: show_int_inject)
qed

lemma slice_low_inject: "s \<in> set key_slices \<Longrightarrow> s' \<in> set key_slices \<Longrightarrow> fst s = fst s' \<Longrightarrow> s = s'"
  by (auto simp: key_slices_at slice_at_def slice_step_value)

lemma sql_in_slice:
  assumes "s \<in> set key_slices"
  shows "list_ex (\<lambda>s'. slice_sql table filt (fst s) (snd s) = slice_sql table filt (fst s') (snd s') \<and> in_slice h s') key_slices
           \<longleftrightarrow> in_slice h s"
proof
  assume "list_ex (\<lambda>s'. slice_sql table filt (fst s) (snd s) = slice_sql table filt (fst s') (snd s') \<and> in_slice h s') key_slices"
  then obtain s' where s': "s' \<in> set key_slices" "slice_sql table filt (fst s) (snd s) = slice_sql table filt (fst s') (snd s')"
    "in_slice h s'" unfolding list_ex_iff by blast
  have "s = s'" by (rule slice_low_inject [OF assms s'(1) slice_sql_inject [OF s'(2)]])
  then show "in_slice h s" using s'(3) by simp
next
  assume "in_slice h s"
  then show "list_ex (\<lambda>s'. slice_sql table filt (fst s) (snd s) = slice_sql table filt (fst s') (snd s') \<and> in_slice h s') key_slices"
    unfolding list_ex_iff using assms by blast
qed

lemma reads_table_answers: "answers_balances (reads_table t) t"
  unfolding answers_balances_def reads_table_def rows_in_slice_def seed_reads.simps
  by (intro allI ballI arg_cong [of _ _ Inr] filter_cong refl sql_in_slice)

definition demo_names :: entry_names where
  "demo_names = \<lparr>en_signer = (\<lambda>k. []), en_setting_debug = (\<lambda>i. [])\<rparr>"

definition demo_ids :: ids_ext where
  "demo_ids = \<lparr>ix_city = (\<lambda>b. int (length b)), ix_contract = Some, ix_contract_strkey = (\<lambda>b. b),
               ix_hex = (\<lambda>s. Inl []), ix_json = (\<lambda>s. None)\<rparr>"

definition demo_entry :: ledger_entry where
  "demo_entry = EntryAccount ''A'' 5
     \<lparr>ac_seq_num = 0, ac_num_sub_entries = 0, ac_home_domain = [], ac_thresholds = [], ac_flags = 0,
      ac_ext = AccExtV0, ac_signers = []\<rparr>"

definition demo_archive :: archive_ext where
  "demo_archive =
     \<lparr>ax_get = (\<lambda>url. Inr (200, Inr ''gz'')), ax_json = (\<lambda>b. Inl []), ax_gunzip = (\<lambda>b. Inr ''xdr''),
      ax_sha256_hex = (\<lambda>b. ''ab''), ax_frames = (\<lambda>b. [Inr BkMeta, Inr (BkLive 100 demo_entry)])\<rparr>"

text \<open>One account differs from ours and is newer, one of ours is gone: both are corrected.\<close>

definition demo_table :: "our_row list" where
  "demo_table =
     [\<lparr>our_holder_id = 2, our_asset_id = native_asset_id, our_amount = 9, our_last_updated_ledger = 50, our_closed_at_ledger = 0\<rparr>,
      \<lparr>our_holder_id = 3, our_asset_id = native_asset_id, our_amount = 4, our_last_updated_ledger = 60, our_closed_at_ledger = 0\<rparr>]"

definition demo_buckets :: bucket_list where
  "demo_buckets = \<lparr>bk_checkpoint_ledger = 127, bk_hashes = [''ab'']\<rparr>"

definition demo_state :: network_state where
  "demo_state = absorbed demo_ids demo_ext demo_names [SnapLive 100 demo_entry]"

lemma demo_opens: "open_snapshot demo_archive demo_ids demo_ext demo_names demo_buckets = Inr demo_state"
proof -
  have "content_of demo_archive ''ab'' = Some (''gz'', ''xdr'')" by (simp add: content_of_def demo_archive_def)
  then have "bucket_verified demo_archive ''ab''" "bucket_records demo_archive ''ab'' = [SnapLive 100 demo_entry]"
    by (simp_all add: bucket_verified_def bucket_records_def demo_archive_def)
  then show ?thesis
    using open_snapshot_cases [where ix = demo_ids and x = demo_ext and n = demo_names and bl = demo_buckets and ax = demo_archive]
    by (auto simp: demo_buckets_def demo_state_def split: sum.splits)
qed

lemma demo_no_collision: "no_native_collision demo_state"
  by (simp add: demo_state_def absorbed_def absorb_record_def demo_entry_def no_native_collision_def register_trustline_def
      empty_network_def first_wins_def)

theorem seed_balances_converge_witness:
  "\<exists>st1 out m db1. balance_corrections_of (reads_table demo_table) demo_state 127 (report_new 127) [] =
       (Inr (st1, out, m), db1) \<and> older demo_table (bx_rows out) \<and> distinct (map brow_key (bx_rows out))"
proof -
  have "distinct (map row_key demo_table)" "\<forall>r \<in> set demo_table. fits_i64 (our_holder_id r)"
    by (simp_all add: demo_table_def row_key_def ranges)
  from seed_balances_converge [OF demo_opens demo_no_collision this reads_table_answers, of 127 "[]"]
  show ?thesis by blast
qed

subsection \<open>Claimable balances\<close>

text \<open>A claimable balance of another asset is not the one our row names.\<close>

definition claimable_net :: "network_state \<Rightarrow> int \<times> int \<Rightarrow> net_holding option" where
  "claimable_net st k =
     (case map_of (ns_claimable_balances st) (fst k) of
        Some (e, a) \<Rightarrow> if nh_live e \<and> a \<noteq> Some (snd k) then None else Some e
      | None \<Rightarrow> None)"

definition claimable_key :: "int \<times> net_holding \<times> int option \<Rightarrow> (int \<times> int) option" where
  "claimable_key p = (if nh_live (fst (snd p)) then map_option (\<lambda>a. (fst p, a)) (snd (snd p)) else None)"

definition claimable_listed :: "network_state \<Rightarrow> (int \<times> int) list" where
  "claimable_listed st = filter_map claimable_key (ns_claimable_balances st)"

lemma claimable_key_fst: "claimable_key p = Some k \<Longrightarrow> fst k = fst p"
  by (auto simp: claimable_key_def split: if_splits)

lemma distinct_filter_map:
  assumes "distinct (map f xs)" "\<And>x y. g x = Some y \<Longrightarrow> h y = f x"
  shows "distinct (map h (filter_map g xs))"
proof -
  have "set (map h (filter_map g ys)) \<subseteq> set (map f ys)" for ys
    using assms(2) by (fastforce simp: set_filter_map)
  then show ?thesis using assms(1)
    by (induction xs) (fastforce dest: assms(2) split: option.splits)+
qed

lemma reconciliation_claimable: "fresh st \<Longrightarrow> reconciliation (claimable_net st) (claimable_listed st)"
proof
  fix k assume "fresh st" and k: "k \<in> set (claimable_listed st)"
  then have "distinct (map fst (ns_claimable_balances st))" by (simp add: fresh_def)
  moreover obtain h e a where "(h, e, a) \<in> set (ns_claimable_balances st)" "claimable_key (h, e, a) = Some k"
    using k by (auto simp: claimable_listed_def set_filter_map)
  ultimately show "\<exists>e. claimable_net st k = Some e \<and> nh_live e"
    by (auto simp: claimable_net_def claimable_key_def split: if_splits)
next
  assume "fresh st"
  then have "distinct (map fst (claimable_listed st))"
    unfolding claimable_listed_def by (intro distinct_filter_map [OF _ claimable_key_fst]) (auto simp: fresh_def)
  then show "distinct (claimable_listed st)" by (simp add: distinct_map)
qed

interpretation cb: reconciliation "claimable_net (absorbed ix x n recs)" "claimable_listed (absorbed ix x n recs)"
  for ix x n recs
  by (rule reconciliation_claimable) (rule fresh_absorbed)

text \<open>An entry is claimed when a row names it: any row of a deleted one, the row of its asset of a live one.\<close>

definition names_entry :: "(int \<times> int) set \<Rightarrow> int \<Rightarrow> net_holding \<Rightarrow> int option \<Rightarrow> bool" where
  "names_entry ks h e a \<longleftrightarrow> (\<exists>b. (h, b) \<in> ks \<and> (nh_live e \<longrightarrow> a = Some b))"

definition claimable_claimed :: "(int \<times> int) set \<Rightarrow> network_state \<Rightarrow> network_state" where
  "claimable_claimed ks st =
     st\<lparr>ns_claimable_balances := map (\<lambda>(h, e, a). (h, claimed (names_entry ks h e a) e, a)) (ns_claimable_balances st)\<rparr>"

lemma claimable_claimed_none: "claimable_claimed {} st = st"
  by (simp add: claimable_claimed_def names_entry_def case_prod_unfold)

lemma map_of_claimable_claimed:
  "map_of (map (\<lambda>(h, e, a). (h, claimed (p h e a) e, a)) m) h = map_option (\<lambda>(e, a). (claimed (p h e a) e, a)) (map_of m h)"
  by (induction m) auto

lemma claim_claimable_claimed:
  assumes "distinct (map fst (ns_claimable_balances st))"
  shows "claim_claimable r (claimable_claimed ks st) =
           (map_option matched (claimable_net st (row_key r)), claimable_claimed (insert (row_key r) ks) st)"
proof (cases "claimable_net st (row_key r)")
  case None
  then have unnamed: "names_entry (insert (row_key r) ks) h e a = names_entry ks h e a"
    if "(h, e, a) \<in> set (ns_claimable_balances st)" for h e a
    using map_of_is_SomeI [OF assms that]
    by (auto simp: claimable_net_def names_entry_def row_key_def split: if_splits)
  have "claimable_claimed (insert (row_key r) ks) st = claimable_claimed ks st"
    unfolding claimable_claimed_def
    by (rule arg_cong [of _ _ "\<lambda>m. st\<lparr>ns_claimable_balances := m\<rparr>"], rule map_cong) (auto simp: unnamed)
  then show ?thesis
    using None
    by (auto simp: claim_claimable_def claimable_claimed_def map_of_claimable_claimed claimable_net_def row_key_def
        split: option.splits if_splits)
next
  case (Some e)
  then obtain a where e: "map_of (ns_claimable_balances st) (our_holder_id r) = Some (e, a)"
    and a: "nh_live e \<Longrightarrow> a = Some (our_asset_id r)"
    by (auto simp: claimable_net_def row_key_def split: option.splits if_splits)
  have step: "(if h = our_holder_id r then matched (claimed (names_entry ks h e' a') e') else claimed (names_entry ks h e' a') e') =
      claimed (names_entry (insert (row_key r) ks) h e' a') e'"
    if "(h, e', a') \<in> set (ns_claimable_balances st)" for h e' a'
    using map_of_is_SomeI [OF assms that] e a
    by (auto simp: claimed_def names_entry_def row_key_def)
  have "mark (\<lambda>(e, a). (matched e, a)) (our_holder_id r)
          (map (\<lambda>(h, e, a). (h, claimed (names_entry ks h e a) e, a)) (ns_claimable_balances st)) =
        map (\<lambda>(h, e, a). (h, claimed (names_entry (insert (row_key r) ks) h e a) e, a)) (ns_claimable_balances st)"
    unfolding mark_def map_map by (rule map_cong) (auto simp: step [symmetric])
  then show ?thesis
    using e a Some
    by (simp add: claim_claimable_def claimable_claimed_def map_of_claimable_claimed matched_claimed [of _ "Some e", simplified])
qed

lemma claimable_pass:
  assumes "distinct (map fst (ns_claimable_balances st))"
  shows "\<exists>rep1 out1. fold (claimable_step cp) rows (claimable_claimed ks st, rep, out) =
           (claimable_claimed (ks \<union> row_key ` set rows) st, rep1, out1) \<and>
           bx_rows out1 = bx_rows out @ filter_map (\<lambda>r. fix_of r (claimable_net st (row_key r)) cp) rows"
proof (induction rows arbitrary: ks rep out)
  case (Cons r rows)
  let ?net = "claimable_net st (row_key r)"
  let ?out = "fold_our_row r (verdict_of r ?net cp) (map_option matched ?net) cp out"
  obtain rep1 where step: "claimable_step cp r (claimable_claimed ks st, rep, out) =
      (claimable_claimed (insert (row_key r) ks) st, rep1, ?out)"
    by (simp add: claimable_step_def claim_claimable_claimed [OF assms] Let_def)
  obtain rep2 out2 where "fold (claimable_step cp) rows (claimable_claimed (insert (row_key r) ks) st, rep1, ?out) =
      (claimable_claimed (insert (row_key r) ks \<union> row_key ` set rows) st, rep2, out2)"
    "bx_rows out2 = bx_rows ?out @ filter_map (\<lambda>r. fix_of r (claimable_net st (row_key r)) cp) rows"
    using Cons.IH by blast
  then show ?case by (simp add: step fold_our_row_rows split: option.split)
qed simp

definition missing_cb :: "int \<times> net_holding \<times> int option \<Rightarrow> balance_row list" where
  "missing_cb p =
     (if nh_live (fst (snd p)) \<and> \<not> nh_matched (fst (snd p))
      then (case snd (snd p) of Some aid \<Rightarrow> [missing_row (fst p) aid (fst (snd p))] | None \<Rightarrow> []) else [])"

lemma missing_claimable_rows: "ms_rows (missing_claimable p m) = ms_rows m @ missing_cb p"
  by (cases p) (auto simp: missing_claimable_def missing_cb_def Let_def split: bool.split option.split)

lemma missing_claimables_rows: "ms_rows (fold missing_claimable xs m) = ms_rows m @ concat (map missing_cb xs)"
  by (induction xs arbitrary: m) (simp_all add: missing_claimable_rows)

lemma missing_claimables:
  assumes "\<forall>(h, e, a) \<in> set m. \<not> nh_matched e \<and> (\<forall>aid. nh_live e \<longrightarrow> a = Some aid \<longrightarrow> net (h, aid) = Some e)"
  shows "concat (map missing_cb (map (\<lambda>(h, e, a). (h, claimed (names_entry ks h e a) e, a)) m)) =
         map (\<lambda>k. missing_row (fst k) (snd k) (the (net k))) (filter (\<lambda>k. k \<notin> ks) (filter_map claimable_key m))"
  using assms
proof (induction m)
  case (Cons p m)
  obtain h e a where p: "p = (h, e, a)" by (cases p)
  then show ?case
    using Cons
    by (cases a) (auto simp: missing_cb_def claimable_key_def names_entry_def claimed_def matched_def)
qed simp

definition answers_claimables :: "seed_reads \<Rightarrow> our_row list \<Rightarrow> bool" where
  "answers_claimables sd t \<longleftrightarrow>
     (\<forall>db. \<forall>s \<in> set key_slices. sd_holdings sd db (slice_sql claimable_table [] (fst s) (snd s)) = Inr (rows_in_slice t s))"

lemma claimable_corrections_rows:
  assumes "answers_claimables sd t" "fresh st"
  shows "\<exists>st1 out m db1. claimable_corrections_of sd st cp rep assets db = (Inr (st1, out, m), db1) \<and>
           bx_rows out = reconciliation.corrected (claimable_net st) (claimable_listed st) cp (sliced t)"
proof -
  let ?s0 = "(st, rep, \<lparr>bx_rows = [], bx_ghosts = []\<rparr>)"
  have keys: "distinct (map fst (ns_claimable_balances st))" using assms(2) by (simp add: fresh_def)
  have "\<exists>db1. stream_slices (sd_holdings sd) (slice_sql claimable_table []) (claimable_step cp) key_slices ?s0 db =
      (Inr (fold (claimable_step cp) (sliced t) ?s0), db1)"
    unfolding sliced_def by (rule stream_slices_rows) (use assms(1) in \<open>simp add: answers_claimables_def\<close>)
  then obtain db1 where db1: "stream_slices (sd_holdings sd) (slice_sql claimable_table []) (claimable_step cp) key_slices ?s0 db =
      (Inr (fold (claimable_step cp) (sliced t) ?s0), db1)" ..
  obtain rep1 out1 where pass: "fold (claimable_step cp) (sliced t) ?s0 =
      (claimable_claimed (row_key ` set (sliced t)) st, rep1, out1)"
    "bx_rows out1 = filter_map (\<lambda>r. fix_of r (claimable_net st (row_key r)) cp) (sliced t)"
    using claimable_pass [OF keys, of cp "sliced t" "{}" rep "\<lparr>bx_rows = [], bx_ghosts = []\<rparr>"]
    by (auto simp: claimable_claimed_none)
  have "\<forall>(h, e, a) \<in> set (ns_claimable_balances st).
      \<not> nh_matched e \<and> (\<forall>aid. nh_live e \<longrightarrow> a = Some aid \<longrightarrow> claimable_net st (h, aid) = Some e)"
    using assms(2) by (fastforce simp: fresh_def claimable_net_def)
  note missing = missing_claimables [OF this, of "row_key ` set (sliced t)"]
  note defs = reconciliation.corrected_def reconciliation.repairs_def reconciliation.inserts_def
  show ?thesis
    unfolding claimable_corrections_of_def db1 pass(1) and_then_def defs [OF reconciliation_claimable [OF assms(2)]]
    by (simp add: Let_def missing_claimables_rows pass(2) claimable_claimed_def missing claimable_listed_def del: map_map)
qed

lemma claimable_listed_fits: "fresh st \<Longrightarrow> k \<in> set (claimable_listed st) \<Longrightarrow> fits_i64 (fst k)"
  by (fastforce simp: claimable_listed_def set_filter_map fresh_def dest: claimable_key_fst)

text \<open>The claimable balances settle in one run as well.\<close>

lemma seed_claimables_converge:
  assumes "fresh st" "distinct (map row_key t)" "\<forall>r \<in> set t. fits_i64 (our_holder_id r)" "answers_claimables sd t"
  shows "\<exists>st1 out m db1. claimable_corrections_of sd st cp rep assets db = (Inr (st1, out, m), db1) \<and>
           older t (bx_rows out) \<and> distinct (map brow_key (bx_rows out)) \<and>
           (\<forall>sd2 rep2 assets2 db2. answers_claimables sd2 (merged t (bx_rows out)) \<longrightarrow>
              (\<exists>st2 out2 m2 db3. claimable_corrections_of sd2 st cp rep2 assets2 db2 = (Inr (st2, out2, m2), db3) \<and>
                 bx_rows out2 = []))"
proof -
  note loc = reconciliation_claimable [OF assms(1)]
  obtain st1 out m db1 where run: "claimable_corrections_of sd st cp rep assets db = (Inr (st1, out, m), db1)"
    and rows: "bx_rows out = reconciliation.corrected (claimable_net st) (claimable_listed st) cp (sliced t)"
    using claimable_corrections_rows [OF assms(4,1)] by blast
  have "older t (bx_rows out)" "distinct (map brow_key (bx_rows out))"
    unfolding rows by (rule reconciliation.sliced_newer [OF loc assms(2,3)], rule reconciliation.sliced_distinct [OF loc assms(2,3)])
  moreover have "\<exists>st2 out2 m2 db3. claimable_corrections_of sd2 st cp rep2 assets2 db2 = (Inr (st2, out2, m2), db3) \<and>
      bx_rows out2 = []" if "answers_claimables sd2 (merged t (bx_rows out))" for sd2 rep2 assets2 db2
    using claimable_corrections_rows [OF that assms(1), where cp = cp and rep = rep2 and assets = assets2 and db = db2]
      reconciliation.sliced_converges [OF loc assms(2,3) claimable_listed_fits [OF assms(1)], of cp] unfolding rows by simp
  ultimately show ?thesis using run by blast
qed

subsection \<open>What a seeded balance refers to\<close>

lemma asset_stub_counts:
  "dg_assets (sb_dangling s) \<le> dg_assets (sb_dangling (asset_stub_step ix st known a s))"
  "set (sb_assets s) \<subseteq> set (sb_assets (asset_stub_step ix st known a s))"
  by (auto simp: asset_stub_step_def dangling_asset_def Let_def split: option.split)

lemma asset_stubs_grow:
  "dg_assets (sb_dangling s) \<le> dg_assets (sb_dangling (fold (asset_stub_step ix st known) assets s))"
  "set (sb_assets s) \<subseteq> set (sb_assets (fold (asset_stub_step ix st known) assets s))"
proof (induction assets arbitrary: s)
  case (Cons a assets)
  { case 1 show ?case using asset_stub_counts(1) [of s ix st known a] Cons(1) [of "asset_stub_step ix st known a s"] by simp }
  { case 2 show ?case using asset_stub_counts(2) [of s ix st known a] Cons(2) [of "asset_stub_step ix st known a s"] by auto }
qed simp_all

lemma asset_stub_defines:
  "a \<in> set known \<or> a \<in> asrow_id ` set (sb_assets (asset_stub_step ix st known a s)) \<or>
   dg_assets (sb_dangling s) < dg_assets (sb_dangling (asset_stub_step ix st known a s))"
  by (auto simp: asset_stub_step_def dangling_asset_def Let_def split: option.split)

lemma asset_stubs_define:
  assumes "dg_assets (sb_dangling (fold (asset_stub_step ix st known) assets s)) = 0" "a \<in> set assets"
  shows "a \<in> set known \<or> a \<in> asrow_id ` set (sb_assets (fold (asset_stub_step ix st known) assets s))"
  using assms
proof (induction assets arbitrary: s)
  case (Cons b assets)
  let ?s = "asset_stub_step ix st known b s"
  have "dg_assets (sb_dangling ?s) = 0"
    using Cons.prems(1) asset_stubs_grow(1) [of ?s ix st known assets] by simp
  then have "b \<in> set known \<or> b \<in> asrow_id ` set (sb_assets ?s)" using asset_stub_defines [of b known ix st s] by auto
  then show ?case using Cons asset_stubs_grow(2) [of ?s ix st known assets] by auto
qed simp

lemma account_stub_counts:
  "sb_assets (account_stub_step st known holders h s) = sb_assets s"
  "dg_assets (sb_dangling (account_stub_step st known holders h s)) = dg_assets (sb_dangling s)"
  "dg_holders (sb_dangling s) \<le> dg_holders (sb_dangling (account_stub_step st known holders h s))"
  "set (sb_accounts s) \<subseteq> set (sb_accounts (account_stub_step st known holders h s))"
  by (auto simp: account_stub_step_def unresolved_holder_def Let_def split: option.split)

lemma account_stubs_keep:
  "sb_assets (fold (account_stub_step st known holders) hs s) = sb_assets s"
  "dg_assets (sb_dangling (fold (account_stub_step st known holders) hs s)) = dg_assets (sb_dangling s)"
  by (induction hs arbitrary: s) (simp_all add: account_stub_counts)

lemma account_stubs_grow:
  "dg_holders (sb_dangling s) \<le> dg_holders (sb_dangling (fold (account_stub_step st known holders) hs s)) \<and>
   set (sb_accounts s) \<subseteq> set (sb_accounts (fold (account_stub_step st known holders) hs s))"
proof (induction hs arbitrary: s)
  case (Cons h hs)
  show ?case
    using Cons.IH [of "account_stub_step st known holders h s"]
      account_stub_counts(3,4) [where st = st and known = known and holders = holders and h = h and s = s]
    by auto
qed simp

lemma account_stub_defines:
  "h \<in> set holders \<Longrightarrow>
   h \<in> set known \<or> h \<in> arow_id ` set (sb_accounts (account_stub_step st known holders h s)) \<or>
   dg_holders (sb_dangling s) < dg_holders (sb_dangling (account_stub_step st known holders h s))"
  by (auto simp: account_stub_step_def unresolved_holder_def account_stub_def Let_def split: option.split)

lemma account_stubs_define:
  assumes "dg_holders (sb_dangling (fold (account_stub_step st known holders) hs s)) = 0" "h \<in> set hs" "h \<in> set holders"
  shows "h \<in> set known \<or> h \<in> arow_id ` set (sb_accounts (fold (account_stub_step st known holders) hs s))"
  using assms
proof (induction hs arbitrary: s)
  case (Cons b hs)
  let ?s = "account_stub_step st known holders b s"
  show ?case
  proof (cases "h = b")
    case True
    have "dg_holders (sb_dangling ?s) = 0"
      using Cons.prems(1) account_stubs_grow [of ?s st known holders hs] by simp
    then have "h \<in> set known \<or> h \<in> arow_id ` set (sb_accounts ?s)"
      using account_stub_defines [OF Cons.prems(3), of known st s] True by auto
    then show ?thesis using account_stubs_grow [of ?s st known holders hs] by auto
  next
    case False
    then show ?thesis using Cons by simp
  qed
qed simp

lemma stubs_complete:
  assumes "dg_assets (sb_dangling (stubs_of ix st known_assets known_accounts assets holders)) = 0"
    and "dg_holders (sb_dangling (stubs_of ix st known_assets known_accounts assets holders)) = 0"
  shows "a \<in> set assets \<Longrightarrow> a \<in> set known_assets \<or>
           a \<in> asrow_id ` set (sb_assets (stubs_of ix st known_assets known_accounts assets holders))"
    and "h \<in> set holders \<Longrightarrow> h \<in> set known_accounts \<or>
           h \<in> arow_id ` set (sb_accounts (stubs_of ix st known_assets known_accounts assets holders))"
  using assms asset_stubs_define [where ix = ix and st = st and known = known_assets and assets = assets and s = no_stubs and a = a]
    account_stubs_define [where st = st and known = known_accounts and holders = holders and h = h]
  by (simp_all add: stubs_of_def Let_def account_stubs_keep del: fold_append)

subsection \<open>The inserts of a run\<close>

fun call_on :: "string \<Rightarrow> db_call \<Rightarrow> bool" where
  "call_on t (CallOpen t') \<longleftrightarrow> t' = t"
| "call_on t (CallWrite h row) \<longleftrightarrow> in_table h = t"
| "call_on t (CallEnd h) \<longleftrightarrow> in_table h = t"
| "call_on t (CallQuery sql) \<longleftrightarrow> False"

text \<open>The calls a statement adds to the log: it writes these rows, and touches no other table.\<close>

definition added :: "string \<Rightarrow> table_row list \<Rightarrow> db_log \<Rightarrow> db_log \<Rightarrow> bool" where
  "added t rows db db' \<longleftrightarrow>
     (\<exists>calls. db' = db @ calls \<and> (\<forall>row \<in> set rows. CallWrite \<lparr>in_table = t, in_settings = []\<rparr> row \<in> set calls) \<and>
              list_all (call_on t) calls)"

lemma added_trans: "added t rows db db1 \<Longrightarrow> added t rows' db1 db2 \<Longrightarrow> added t (rows @ rows') db db2"
  unfolding added_def by (elim exE conjE) (rule exI, rule conjI, simp, auto)

lemma added_none: "added t [] db db"
  by (simp add: added_def)

lemma then_do_Inr: "then_do r f = (Inr u, s') \<longleftrightarrow> (\<exists>s. r = (Inr (), s) \<and> f s = (Inr u, s'))"
  by (auto simp: then_do_def split: prod.splits sum.splits)

lemma insert_call_Inr: "insert_call ans c db = (Inr u, db') \<Longrightarrow> db' = db @ [c]"
  by (auto simp: insert_call_def split: option.splits)

lemma for_each_added:
  assumes "\<And>x db db' u. f x db = (Inr u, db') \<Longrightarrow> added t (g x) db db'"
    and "for_each f xs db = (Inr u, db')"
  shows "added t (concat (map g xs)) db db'"
  using assms(2)
proof (induction xs arbitrary: db)
  case (Cons x xs)
  then obtain db1 where "f x db = (Inr (), db1)" "for_each f xs db1 = (Inr u, db')" by (auto simp: then_do_Inr)
  then show ?case using assms(1) Cons.IH added_trans by fastforce
qed (simp add: added_none)

lemma insert_rows_added:
  assumes "insert_rows ans t rows db = (Inr u, db')"
  shows "added t rows db db'"
proof (cases "rows = []")
  case True
  then show ?thesis using assms by (simp add: insert_rows_def added_none)
next
  case False
  let ?h = "\<lparr>in_table = t, in_settings = []\<rparr>"
  obtain db1 db2 where calls: "insert_call ans (CallOpen t) db = (Inr (), db1)"
    "for_each (\<lambda>row. insert_call ans (CallWrite ?h row)) rows db1 = (Inr (), db2)"
    "insert_call ans (CallEnd ?h) db2 = (Inr u, db')"
    using assms False by (auto simp: insert_rows_def then_do_Inr Let_def)
  have "added t (concat (map (\<lambda>row. [row]) rows)) db1 db2"
    by (rule for_each_added [OF _ calls(2)]) (auto simp: added_def dest: insert_call_Inr)
  then have "added t rows db1 db2" by simp
  moreover have "added t [] db db1" "added t [] db2 db'"
    using insert_call_Inr [OF calls(1)] insert_call_Inr [OF calls(3)] by (auto simp: added_def)
  ultimately have "added t (([] @ rows) @ []) db db'" by (intro added_trans)
  then show ?thesis by simp
qed

lemma insert_chunked_added: "insert_chunked ans (t, rows) db = (Inr u, db') \<Longrightarrow> added t rows db db'"
proof -
  assume "insert_chunked ans (t, rows) db = (Inr u, db')"
  then have "added t (concat (map (\<lambda>c. c) (slice_chunks insert_chunk rows))) db db'"
    unfolding insert_chunked_def fst_conv snd_conv by (intro for_each_added [OF insert_rows_added])
  then show ?thesis by (simp add: slice_chunks_concat insert_chunk_def)
qed

subsection \<open>Where the rows of a run come from\<close>

text \<open>A pair of holder and asset a query of our table answered with.\<close>

definition was_read :: "seed_reads \<Rightarrow> (int \<Rightarrow> int \<Rightarrow> string) \<Rightarrow> balance_row \<Rightarrow> bool" where
  "was_read sd sql b \<longleftrightarrow>
     (\<exists>db low high rows. sd_holdings sd db (sql low high) = Inr rows \<and> brow_key b \<in> row_key ` set rows)"

lemma stream_slices_inv:
  assumes "stream_slices q sql f slices s db = (Inr s', db')" and "P s"
    and "\<And>db low high rows r s. q db (sql low high) = Inr rows \<Longrightarrow> r \<in> set rows \<Longrightarrow> P s \<Longrightarrow> P (f r s)"
  shows "P s'"
  using assms(1,2)
proof (induction slices arbitrary: s db)
  case (Cons lh slices)
  obtain low high where lh: "lh = (low, high)" by (cases lh)
  obtain rows where rows: "q db (sql low high) = Inr rows"
    and rest: "stream_slices q sql f slices (fold f rows s) (db @ [CallQuery (sql low high)]) = (Inr s', db')"
    using Cons.prems(1) by (auto simp: lh and_then_def ask_def split: sum.splits)
  have "P (fold f rows' s)" if "set rows' \<subseteq> set rows" "P s" for rows' s
    using that by (induction rows' arbitrary: s) (auto intro: assms(3) [OF rows])
  from Cons.IH [OF rest this [OF _ Cons.prems(2)]] show ?case by simp
qed simp

lemma fold_inv: "P s \<Longrightarrow> (\<And>y s. y \<in> set ys \<Longrightarrow> P s \<Longrightarrow> P (f y s)) \<Longrightarrow> P (fold f ys s)"
  by (induction ys arbitrary: s) auto

lemma set_set_insert [simp]: "set (set_insert y ys) = insert y (set ys)"
  by (auto simp: set_insert_def)

lemma fold_our_row_keys:
  "b \<in> set (bx_rows (fold_our_row r v net cp out)) \<Longrightarrow> b \<in> set (bx_rows out) \<or> brow_key b = row_key r"
  by (auto simp: fold_our_row_def Let_def corrected_row_def brow_key_def row_key_def split: option.splits if_splits)

definition all_read :: "seed_reads \<Rightarrow> (int \<Rightarrow> int \<Rightarrow> string) \<Rightarrow> comparison \<Rightarrow> bool" where
  "all_read sd sql s \<longleftrightarrow> (\<forall>b \<in> set (bx_rows (snd (snd s))). was_read sd sql b)"

lemma pass_reads:
  assumes "stream_slices (sd_holdings sd) sql f slices (st, rep, \<lparr>bx_rows = [], bx_ghosts = []\<rparr>) db = (Inr s', db')"
    and "\<And>r s. \<exists>v net. snd (snd (f r s)) = fold_our_row r v net cp (snd (snd s))"
  shows "all_read sd sql s'"
proof (rule stream_slices_inv [OF assms(1)])
  show "all_read sd sql (st, rep, \<lparr>bx_rows = [], bx_ghosts = []\<rparr>)" by (simp add: all_read_def)
  fix db low high rows r s assume "sd_holdings sd db (sql low high) = Inr rows" "r \<in> set rows" "all_read sd sql s"
  then show "all_read sd sql (f r s)"
    using assms(2) [of r s] unfolding all_read_def by (metis fold_our_row_keys image_eqI was_read_def)
qed

text \<open>
  A row inserted for the network: its asset is collected, unless it is the native one, and so is
  its holder.
\<close>

definition collected :: "missing_acc \<Rightarrow> balance_row \<Rightarrow> bool" where
  "collected m b \<longleftrightarrow>
     (brow_asset_id b = native_asset_id \<or> brow_asset_id b \<in> set (ms_assets m)) \<and> brow_holder_id b \<in> set (ms_holders m)"

lemma missing_trustline_keeps:
  "\<forall>b \<in> set (ms_rows m). Q b \<or> collected m b \<Longrightarrow>
   \<forall>b \<in> set (ms_rows (missing_trustline st ke m)). Q b \<or> collected (missing_trustline st ke m) b"
  by (cases ke) (auto simp: missing_trustline_def collected_def missing_row_def)

lemma missing_account_keeps:
  "\<forall>b \<in> set (ms_rows m). Q b \<or> collected m b \<Longrightarrow>
   \<forall>b \<in> set (ms_rows (missing_account st ke m)). Q b \<or> collected (missing_account st ke m) b"
  by (cases ke) (auto simp: missing_account_def collected_def missing_row_def)

lemma balance_rows_origin:
  assumes "balance_corrections_of sd st cp rep db = (Inr (st1, out, m), db1)" and "b \<in> set (bx_rows out)"
  shows "was_read sd (slice_sql ''balances'' balances_filter) b \<or> collected m b"
proof -
  let ?sql = "slice_sql ''balances'' balances_filter"
  let ?P = "\<lambda>m. \<forall>b \<in> set (ms_rows m). was_read sd ?sql b \<or> collected m b"
  obtain rep1 out1 db2 where pass: "stream_slices (sd_holdings sd) ?sql (balance_step cp) key_slices
        (st, rep, \<lparr>bx_rows = [], bx_ghosts = []\<rparr>) db = (Inr (st1, rep1, out1), db2)"
    and m: "m = fold (missing_account st1) (ns_accounts st1) (fold (missing_trustline st1) (ns_trustlines st1)
                  \<lparr>ms_report = rep1, ms_rows = bx_rows out1, ms_assets = [], ms_holders = []\<rparr>)"
    and out: "bx_rows out = ms_rows m"
    using assms(1) by (auto simp: balance_corrections_of_def and_then_def Let_def split: prod.splits sum.splits)
  have "all_read sd ?sql (st1, rep1, out1)"
    by (rule pass_reads [OF pass]) (auto simp: balance_step_def split: prod.splits)
  then have "?P \<lparr>ms_report = rep1, ms_rows = bx_rows out1, ms_assets = [], ms_holders = []\<rparr>"
    by (simp add: all_read_def)
  then have "?P (fold (missing_trustline st1) (ns_trustlines st1)
                  \<lparr>ms_report = rep1, ms_rows = bx_rows out1, ms_assets = [], ms_holders = []\<rparr>)"
    by (rule fold_inv [where P = ?P]) (rule missing_trustline_keeps)
  then have "?P m"
    unfolding m by (rule fold_inv [where P = ?P]) (rule missing_account_keeps)
  then show ?thesis using assms(2) out by simp
qed

lemma claimable_rows_origin:
  assumes "claimable_corrections_of sd st cp rep assets db = (Inr (st1, out, m), db1)"
  shows "b \<in> set (bx_rows out) \<Longrightarrow> was_read sd (slice_sql claimable_table []) b \<or> brow_asset_id b \<in> set (ms_assets m)"
    and "set assets \<subseteq> set (ms_assets m)"
proof -
  let ?sql = "slice_sql claimable_table []"
  let ?P = "\<lambda>m. set assets \<subseteq> set (ms_assets m) \<and> (\<forall>b \<in> set (ms_rows m). was_read sd ?sql b \<or> brow_asset_id b \<in> set (ms_assets m))"
  obtain rep1 out1 db2 where pass: "stream_slices (sd_holdings sd) ?sql (claimable_step cp) key_slices
        (st, rep, \<lparr>bx_rows = [], bx_ghosts = []\<rparr>) db = (Inr (st1, rep1, out1), db2)"
    and m: "m = fold missing_claimable (ns_claimable_balances st1)
                  \<lparr>ms_report = rep1, ms_rows = bx_rows out1, ms_assets = assets, ms_holders = []\<rparr>"
    and out: "bx_rows out = ms_rows m"
    using assms(1) by (auto simp: claimable_corrections_of_def and_then_def Let_def split: prod.splits sum.splits)
  have "all_read sd ?sql (st1, rep1, out1)"
    by (rule pass_reads [OF pass]) (auto simp: claimable_step_def Let_def split: prod.splits)
  then have "?P \<lparr>ms_report = rep1, ms_rows = bx_rows out1, ms_assets = assets, ms_holders = []\<rparr>"
    by (simp add: all_read_def)
  then have "?P m"
    unfolding m by (rule fold_inv [where P = ?P]) (auto simp: missing_claimable_def missing_row_def Let_def split: prod.splits bool.splits option.splits)
  then show "b \<in> set (bx_rows out) \<Longrightarrow> was_read sd ?sql b \<or> brow_asset_id b \<in> set (ms_assets m)"
    and "set assets \<subseteq> set (ms_assets m)" using out by simp_all
qed

lemma define_legs_grow: "set (snd s) \<subseteq> set (snd (fold define_leg legs s))"
proof (induction legs arbitrary: s)
  case (Cons leg legs)
  have "set (snd s) \<subseteq> set (snd (define_leg leg s))" by (auto simp: define_leg_def split: prod.splits)
  with Cons.IH [of "define_leg leg s"] show ?case by auto
qed simp

lemma pool_assets_grow:
  assumes "pool_corrections_of ix x n sd st cp assets db = (Inr (st1, out, assets1), db1)"
  shows "set assets \<subseteq> set assets1"
proof -
  obtain legs where "assets1 = snd (fold define_leg legs (st, assets))"
    using assms
    by (auto simp: pool_corrections_of_def and_then_def ask_def Let_def map_res_Inr case_prod_unfold split: sum.splits)
  then show ?thesis using define_legs_grow [of "(st, assets)" legs] by simp
qed

text \<open>The stubs of a run define what its balances refer to.\<close>

lemma corrections_stubs:
  assumes "corrections_of ix x n sd st known_assets known_accounts cp rep db = (Inr c, db')"
  obtains st' assets holders where "co_stubs c = stubs_of ix st' known_assets known_accounts assets holders"
    and "\<And>b. b \<in> set (bx_rows (co_balances c)) \<Longrightarrow> was_read sd (slice_sql ''balances'' balances_filter) b \<or>
           (brow_asset_id b = native_asset_id \<or> brow_asset_id b \<in> set assets) \<and> brow_holder_id b \<in> set holders"
    and "\<And>b. b \<in> set (bx_rows (co_claimable c)) \<Longrightarrow> was_read sd (slice_sql claimable_table []) b \<or> brow_asset_id b \<in> set assets"
proof -
  obtain st1 bal m db1 where 1: "balance_corrections_of sd st cp rep db = (Inr (st1, bal, m), db1)"
    using assms by (auto simp: corrections_of_def and_then_def split: prod.splits sum.splits)
  obtain st2 cl m2 db2 where 2: "claimable_corrections_of sd st1 cp (ms_report m) (ms_assets m) db1 = (Inr (st2, cl, m2), db2)"
    using assms by (auto simp: corrections_of_def and_then_def 1 split: prod.splits sum.splits)
  obtain st3 pools assets db3 where 3: "pool_corrections_of ix x n sd st2 cp (ms_assets m2) db2 = (Inr (st3, pools, assets), db3)"
    using assms by (auto simp: corrections_of_def and_then_def 1 2 split: prod.splits sum.splits)
  have c: "co_balances c = bal" "co_claimable c = cl" "co_stubs c = stubs_of ix st3 known_assets known_accounts assets (ms_holders m)"
    using assms by (auto simp: corrections_of_def and_then_def 1 2 3 split: prod.splits sum.splits)
  show ?thesis
  proof
    show "co_stubs c = stubs_of ix st3 known_assets known_accounts assets (ms_holders m)" by (rule c(3))
    have grow: "set (ms_assets m) \<subseteq> set assets" "set (ms_assets m2) \<subseteq> set assets"
      using claimable_rows_origin(2) [OF 2] pool_assets_grow [OF 3] by auto
    show "was_read sd (slice_sql ''balances'' balances_filter) b \<or>
        (brow_asset_id b = native_asset_id \<or> brow_asset_id b \<in> set assets) \<and> brow_holder_id b \<in> set (ms_holders m)"
      if "b \<in> set (bx_rows (co_balances c))" for b
      using balance_rows_origin [OF 1, of b] that grow(1) by (auto simp: c collected_def)
    show "was_read sd (slice_sql claimable_table []) b \<or> brow_asset_id b \<in> set assets"
      if "b \<in> set (bx_rows (co_claimable c))" for b
      using claimable_rows_origin(1) [OF 2, of b] that grow(2) by (auto simp: c)
  qed
qed

definition asset_defined :: "int list \<Rightarrow> db_call list \<Rightarrow> int \<Rightarrow> bool" where
  "asset_defined known calls a \<longleftrightarrow> a \<in> set known \<or>
     (\<exists>row. CallWrite \<lparr>in_table = ''assets'', in_settings = []\<rparr> (RowAssets row) \<in> set calls \<and> asrow_id row = a)"

definition account_defined :: "int list \<Rightarrow> db_call list \<Rightarrow> int \<Rightarrow> bool" where
  "account_defined known calls h \<longleftrightarrow> h \<in> set known \<or>
     (\<exists>row. CallWrite \<lparr>in_table = ''accounts'', in_settings = []\<rparr> (RowAccounts row) \<in> set calls \<and> arow_id row = h)"

text \<open>C13. Nothing seeded dangles.  When the corrections a run computed are inserted, every balance among them
  either corrects a row our own table answered with, or is new, and then its asset (unless it is the
  native one) and its holder were known before the run or have their rows written; a claimable balance
  corrects a row of ours or has its asset known or written.  These writes come before the first write of
  a balance or of a claimable balance.
\<close>

theorem seed_defines_references:
  assumes "corrections_of ix x n sd st known_assets known_accounts cp rep db0 = (Inr c, db1)"
    and "insert_corrections ans c db = (Inr u, db')"
  shows "\<exists>pre post. db' = db @ pre @ post \<and> list_all (\<lambda>call. \<not> call_on ''balances'' call \<and> \<not> call_on claimable_table call) pre \<and>
           (\<forall>b \<in> set (bx_rows (co_balances c)). was_read sd (slice_sql ''balances'' balances_filter) b \<or>
              (brow_asset_id b = native_asset_id \<or> asset_defined known_assets pre (brow_asset_id b)) \<and>
              account_defined known_accounts pre (brow_holder_id b)) \<and>
           (\<forall>b \<in> set (bx_rows (co_claimable c)). was_read sd (slice_sql claimable_table []) b \<or>
              asset_defined known_assets pre (brow_asset_id b))"
proof -
  obtain st' assets holders where stubs: "co_stubs c = stubs_of ix st' known_assets known_accounts assets holders"
    and bal: "\<And>b. b \<in> set (bx_rows (co_balances c)) \<Longrightarrow> was_read sd (slice_sql ''balances'' balances_filter) b \<or>
           (brow_asset_id b = native_asset_id \<or> brow_asset_id b \<in> set assets) \<and> brow_holder_id b \<in> set holders"
    and cl: "\<And>b. b \<in> set (bx_rows (co_claimable c)) \<Longrightarrow> was_read sd (slice_sql claimable_table []) b \<or> brow_asset_id b \<in> set assets"
    by (rule corrections_stubs [OF assms(1)]) (rule that, assumption+)
  let ?s = "stubs_of ix st' known_assets known_accounts assets holders"
  have none: "dg_assets (sb_dangling ?s) = 0" "dg_holders (sb_dangling ?s) = 0"
    and inserts: "for_each (insert_chunked ans) (seed_tables c) db = (Inr u, db')"
    using assms(2) stubs by (auto simp: insert_corrections_def Let_def split: if_splits)
  obtain dba dbb where steps: "insert_chunked ans (''assets'', map RowAssets (sb_assets ?s)) db = (Inr (), dba)"
      "insert_chunked ans (''accounts'', map RowAccounts (sb_accounts ?s)) dba = (Inr (), dbb)"
    and rest: "for_each (insert_chunked ans) (drop 2 (seed_tables c)) dbb = (Inr u, db')"
    using inserts stubs by (auto simp: seed_tables_def then_do_Inr)
  obtain c1 where c1: "dba = db @ c1" "list_all (call_on ''assets'') c1"
    "\<forall>row \<in> set (sb_assets ?s). CallWrite \<lparr>in_table = ''assets'', in_settings = []\<rparr> (RowAssets row) \<in> set c1"
    using insert_chunked_added [OF steps(1)] by (auto simp: added_def)
  obtain c2 where c2: "dbb = dba @ c2" "list_all (call_on ''accounts'') c2"
    "\<forall>row \<in> set (sb_accounts ?s). CallWrite \<lparr>in_table = ''accounts'', in_settings = []\<rparr> (RowAccounts row) \<in> set c2"
    using insert_chunked_added [OF steps(2)] by (auto simp: added_def)
  have other: "call_on t call \<Longrightarrow> t \<noteq> t' \<Longrightarrow> \<not> call_on t' call" for t t' call by (cases call) auto
  have pre: "list_all (\<lambda>call. \<not> call_on ''balances'' call \<and> \<not> call_on claimable_table call) (c1 @ c2)"
    using c1(2) c2(2) other by (fastforce simp: list_all_iff claimable_table_def)
  obtain post where post: "db' = dbb @ post"
    using rest by (auto simp: seed_tables_def then_do_Inr added_def dest!: insert_chunked_added)
  have assets: "asset_defined known_assets (c1 @ c2) a" if "a \<in> set assets" for a
    using stubs_complete(1) [OF none that] c1(3) by (fastforce simp: asset_defined_def)
  have accounts: "account_defined known_accounts (c1 @ c2) h" if "h \<in> set holders" for h
    using stubs_complete(2) [OF none that] c2(3) by (fastforce simp: account_defined_def)
  have "db' = db @ (c1 @ c2) @ post" by (simp add: post c1(1) c2(1))
  with pre show ?thesis using bal cl assets accounts by blast
qed

text \<open>A run against an empty table: the network's one account is inserted, after its account row.\<close>

lemma stream_slices_empty:
  "(\<And>db low high. q db (sql low high) = Inr []) \<Longrightarrow> \<exists>db'. stream_slices q sql f slices s db = (Inr s, db')"
  by (induction slices arbitrary: db) (auto simp: and_then_def ask_def)

lemma reads_nothing:
  "\<exists>db'. stream_slices (sd_holdings (reads_table [])) sql f slices s db = (Inr s, db')"
  "\<exists>db'. stream_slices (sd_entry_states (reads_table [])) sql g slices s' db = (Inr s', db')"
  by (rule stream_slices_empty, simp add: reads_table_def)+

definition demo_new_row :: balance_row where
  "demo_new_row = missing_row 2 native_asset_id (live_holding 100 5)"

lemma demo_state_parts:
  "ns_accounts demo_state = [(2, live_holding 100 5)]" "ns_trustlines demo_state = []"
  "ns_claimable_balances demo_state = []" "ns_pools demo_state = []"
  by (simp_all add: demo_state_def absorbed_def absorb_record_def demo_entry_def register_trustline_def empty_network_def
      first_wins_def or_insert_def assoc_insert_def address_id_def hash64_def demo_ids_def demo_ext_def wrap_i64_def)

lemma demo_corrections_run:
  "\<exists>c db1. corrections_of demo_ids demo_ext demo_names (reads_table []) demo_state [] [] 127 (report_new 127) [] = (Inr c, db1) \<and>
     bx_rows (co_balances c) = [demo_new_row] \<and> co_stubs c = stubs_of demo_ids demo_state [] [] [] [2]"
proof -
  note holdings = reads_nothing(1) and states = reads_nothing(2)
  let ?none = "\<lparr>bx_rows = [], bx_ghosts = []\<rparr>"
  obtain db1 where 1: "stream_slices (sd_holdings (reads_table [])) (slice_sql ''balances'' balances_filter) (balance_step 127)
      key_slices (demo_state, report_new 127, ?none) [] = (Inr (demo_state, report_new 127, ?none), db1)"
    by (rule exE [OF holdings]) (rule that)
  obtain m where bal: "balance_corrections_of (reads_table []) demo_state 127 (report_new 127) [] =
        (Inr (demo_state, ?none\<lparr>bx_rows := [demo_new_row]\<rparr>, m), db1)" and m: "ms_assets m = []" "ms_holders m = [2]"
    by (simp add: balance_corrections_of_def 1 and_then_def Let_def demo_state_parts missing_account_def live_holding_def
        demo_new_row_def set_insert_def)
  obtain db2 where 2: "stream_slices (sd_holdings (reads_table [])) (slice_sql claimable_table []) (claimable_step 127)
      key_slices (demo_state, ms_report m, ?none) db1 = (Inr (demo_state, ms_report m, ?none), db2)"
    by (rule exE [OF holdings]) (rule that)
  obtain m2 where cl: "claimable_corrections_of (reads_table []) demo_state 127 (ms_report m) [] db1 =
        (Inr (demo_state, ?none, m2), db2)" and m2: "ms_assets m2 = []"
    by (simp add: claimable_corrections_of_def 2 and_then_def Let_def demo_state_parts)
  obtain pools db3 where pools: "pool_corrections_of demo_ids demo_ext demo_names (reads_table []) demo_state 127 [] db2 =
        (Inr (demo_state, pools, []), db3)"
    by (simp add: pool_corrections_of_def and_then_def ask_def Let_def demo_state_parts reads_table_def map_res_def)
  obtain ours db4 where ours: "our_entry_states (reads_table []) db3 = (Inr ours, db4)"
    using states [of entry_state_sql "\<lambda>r m. m(oe_account_id r \<mapsto> r)" key_slices Map.empty db3]
    unfolding our_entry_states_def by blast
  show ?thesis
    by (simp add: corrections_of_def and_then_def bal m cl m2 pools ours)
qed

lemma demo_stubs:
  "sb_dangling (stubs_of demo_ids demo_state [] [] [] [2]) = \<lparr>dg_assets = 0, dg_holders = 0, dg_issuers = 0\<rparr>"
  by (simp add: stubs_of_def no_stubs_def account_stub_step_def demo_state_def absorbed_def absorb_record_def demo_entry_def
      register_trustline_def empty_network_def first_wins_def or_insert_def assoc_insert_def address_id_def hash64_def
      demo_ids_def demo_ext_def wrap_i64_def)

lemma for_each_succeeds: "(\<And>x s. \<exists>s'. f x s = (Inr (), s')) \<Longrightarrow> \<exists>s'. for_each f xs s = (Inr (), s')"
proof (induction xs arbitrary: s)
  case (Cons x xs)
  obtain s1 where "f x s = (Inr (), s1)" using Cons.prems [of x s] by blast
  then show ?case using Cons by (simp add: then_do_Inr)
qed simp

lemma insert_chunked_succeeds: "\<exists>db'. insert_chunked (\<lambda>db c. None) tr db = (Inr (), db')"
proof -
  have call: "\<exists>db'. insert_call (\<lambda>db c. None) c db = (Inr (), db')" for c db by (simp add: insert_call_def)
  have "\<exists>db'. insert_rows (\<lambda>db c. None) t rows db = (Inr (), db')" for t rows db
    using for_each_succeeds [of "\<lambda>row. insert_call (\<lambda>db c. None) (CallWrite \<lparr>in_table = t, in_settings = []\<rparr> row)" rows] call
    by (simp add: insert_rows_def then_do_Inr Let_def) metis
  then show ?thesis unfolding insert_chunked_def by (rule for_each_succeeds)
qed

theorem seed_defines_references_witness:
  "\<exists>c db1 db' pre post.
     corrections_of demo_ids demo_ext demo_names (reads_table []) demo_state [] [] 127 (report_new 127) [] = (Inr c, db1) \<and>
     insert_corrections (\<lambda>db c. None) c [] = (Inr (), db') \<and> db' = pre @ post \<and>
     list_all (\<lambda>call. \<not> call_on ''balances'' call) pre \<and> account_defined [] pre 2"
proof -
  obtain c db1 where c: "corrections_of demo_ids demo_ext demo_names (reads_table []) demo_state [] [] 127 (report_new 127) [] = (Inr c, db1)"
      "bx_rows (co_balances c) = [demo_new_row]" "co_stubs c = stubs_of demo_ids demo_state [] [] [] [2]"
    using demo_corrections_run by blast
  have "\<exists>db'. for_each (insert_chunked (\<lambda>db c. None)) (seed_tables c) [] = (Inr (), db')"
    by (rule for_each_succeeds) (rule insert_chunked_succeeds)
  then obtain db' where "for_each (insert_chunked (\<lambda>db c. None)) (seed_tables c) [] = (Inr (), db')" ..
  then have run: "insert_corrections (\<lambda>db c. None) c [] = (Inr (), db')"
    by (simp add: insert_corrections_def c(3) demo_stubs)
  have "\<not> was_read (reads_table []) sql b" for sql b by (simp add: was_read_def reads_table_def)
  moreover have "brow_holder_id demo_new_row = 2" by (simp add: demo_new_row_def missing_row_def)
  ultimately obtain pre post where "db' = pre @ post" "list_all (\<lambda>call. \<not> call_on ''balances'' call \<and> \<not> call_on claimable_table call) pre"
    "account_defined [] pre 2"
    using seed_defines_references [OF c(1) run] c(2) by auto
  moreover from this(2) have "list_all (\<lambda>call. \<not> call_on ''balances'' call) pre" by (auto simp: list_all_iff)
  ultimately show ?thesis using c(1) run by blast
qed

subsection \<open>The samples of the report\<close>

type_synonym offered = "(int \<times> int) \<times> string \<times> string option"

definition offer_all :: "nat \<Rightarrow> offered list \<Rightarrow> sample \<Rightarrow> sample" where
  "offer_all cap os s = fold (\<lambda>((h, a), line, key). offer cap h a line key) os s"

definition offered_hash :: "offered \<Rightarrow> int" where
  "offered_hash o' = sample_hash (fst (fst o')) (snd (fst o'))"

lemma map_fst_insort: "sorted s \<Longrightarrow> map fst (insort (h, v) s) = insort h (map fst s)"
  for s :: "sample"
proof (induction s)
  case (Cons p s)
  obtain h1 v1 where p: "p = (h1, v1)" by (cases p)
  show ?case
  proof (cases "(h, v) \<le> p")
    case True
    then show ?thesis by (auto simp: p less_eq_prod_def)
  next
    case False
    have ih: "map fst (insort (h, v) s) = insort h (map fst s)" using Cons by simp
    show ?thesis
    proof (cases "h = h1")
      case True
      have "\<forall>q \<in> set s. h1 \<le> fst q" using Cons.prems by (auto simp: p less_eq_prod_def)
      then have "insort h (map fst s) = h # map fst s" using True by (cases s) auto
      then show ?thesis using False ih True by (simp add: p)
    next
      case False
      then show ?thesis using \<open>\<not> (h, v) \<le> p\<close> ih by (auto simp: p less_eq_prod_def)
    qed
  qed
qed simp

lemma take_Cons_take: "take n (y # take n ys) = take n (y # ys)"
  by (cases n) simp_all

lemma take_insort_take: "sorted ys \<Longrightarrow> take n (insort x (take n ys)) = take n (insort x ys)"
  for ys :: "int list"
proof (induction ys arbitrary: n)
  case (Cons y ys)
  then show ?case by (cases n) (auto simp: take_Cons_take)
qed simp

lemma insort_eqI: "sorted xs \<Longrightarrow> sorted ys \<Longrightarrow> mset ys = add_mset h (mset xs) \<Longrightarrow> insort h xs = ys"
  for xs :: "int list"
  using properties_for_sort [of ys "h # xs"] by (simp add: sorted_sort_id)

lemma take_insort_last:
  fixes xs :: "int list"
  assumes "sorted xs" "xs \<noteq> []" "length xs = n"
  shows "take n (insort h xs) = (if h < last xs then insort h (butlast xs) else xs)"
proof (cases "h < last xs")
  case True
  have xs: "xs = butlast xs @ [last xs]" using assms(2) by simp
  have "\<forall>x \<in> set (butlast xs). x \<le> last xs" using assms(1) by (subst (asm) xs) (simp add: sorted_append)
  moreover have "mset xs = add_mset (last xs) (mset (butlast xs))" by (subst xs) simp
  ultimately have "insort h xs = insort h (butlast xs) @ [last xs]"
    using True assms(1) by (intro insort_eqI) (auto simp: sorted_append sorted_insort sorted_butlast set_insort_key)
  moreover have "length (insort h (butlast xs)) = n" using assms(2,3) by (cases xs) auto
  ultimately show ?thesis using True by simp
next
  case False
  have "\<forall>x \<in> set xs. x \<le> last xs"
    using assms(1,2) by (metis append_butlast_last_id in_set_conv_decomp in_set_butlast_appendI last_ConsL last_appendR
        le_cases list.distinct(1) sorted_append rotate1.simps(2) set_ConsD set_rotate1)
  then have "insort h xs = xs @ [h]" using False assms(1) by (intro insort_eqI) (fastforce simp: sorted_append)+
  then show ?thesis using False assms(3) by simp
qed

lemma offer_sorted: "sorted s \<Longrightarrow> sorted (offer cap h a line key s)"
  for s :: "sample"
  by (auto simp: offer_def Let_def sorted_insort sorted_butlast split: option.split)

lemma offer_hashes:
  assumes "sorted s" "length s \<le> cap" "0 < cap"
  shows "map fst (offer cap h a line key s) = take cap (insort (sample_hash h a) (map fst s))"
    and "length (offer cap h a line key s) \<le> cap"
proof -
  have sorted_fst: "sorted (map fst s)"
    using assms(1) by (induction s) (auto simp: less_eq_prod_def)
  show "map fst (offer cap h a line key s) = take cap (insort (sample_hash h a) (map fst s))"
  proof (cases "length s < cap")
    case True
    then show ?thesis by (simp add: offer_def Let_def map_fst_insort [OF assms(1)])
  next
    case False
    then have s: "s \<noteq> []" "length s = cap" using assms(2,3) by auto
    have "map fst (insort (sample_hash h a, line, key) (butlast s)) = insort (sample_hash h a) (map fst (butlast s))"
      by (rule map_fst_insort) (rule sorted_butlast [OF assms(1)])
    moreover have "take cap (insort (sample_hash h a) (map fst s)) =
        (if sample_hash h a < last (map fst s) then insort (sample_hash h a) (butlast (map fst s)) else map fst s)"
      by (rule take_insort_last [OF sorted_fst]) (use s in simp_all)
    ultimately show ?thesis
      using s by (simp add: offer_def Let_def last_opt_def last_map map_butlast)
  qed
  then show "length (offer cap h a line key s) \<le> cap"
    by (metis length_map length_take min.cobounded2)
qed

text \<open>The hashes kept are the least of all that were offered, whatever the order.\<close>

lemma offered_hashes:
  assumes "0 < cap"
  shows "map fst (offer_all cap os []) = take cap (sort (map offered_hash os)) \<and> sorted (offer_all cap os []) \<and>
         length (offer_all cap os []) \<le> cap"
proof (induction os rule: rev_induct)
  case (snoc o' os)
  obtain h a line key where o': "o' = ((h, a), line, key)" by (metis prod.collapse)
  let ?s = "offer_all cap os []"
  have hash: "offered_hash o' = sample_hash h a" by (simp add: offered_hash_def o')
  have step: "offer_all cap (os @ [o']) [] = offer cap h a line key ?s" by (simp add: offer_all_def o')
  have "insort (offered_hash o') (take cap (sort (map offered_hash os))) =
        insort (sample_hash h a) (map fst ?s)" using snoc by (simp add: hash)
  then have "take cap (insort (sample_hash h a) (map fst ?s)) = take cap (insort (offered_hash o') (sort (map offered_hash os)))"
    using take_insort_take [of "sort (map offered_hash os)" cap "offered_hash o'"] by simp
  moreover have "sort (map offered_hash (os @ [o'])) = insort (offered_hash o') (sort (map offered_hash os))"
    by (rule properties_for_sort) (simp_all add: sorted_insort)
  ultimately show ?case
    using snoc assms offer_hashes [of ?s cap h a line key] offer_sorted [of ?s cap h a line key] by (simp add: step)
qed (simp add: offer_all_def)

text \<open>The rows are not: keys of the same hash compete, and the first one offered stays.\<close>

lemma sample_depends_on_order:
  "\<exists>p q. offer_all 1 [p, q] [] \<noteq> offer_all 1 [q, p] [] \<and> fst p \<noteq> fst q"
proof -
  have "sample_hash 1 2 = sample_hash 2 1" by (simp add: sample_hash_def xor.commute)
  then have "offer_all 1 [((1, 2), ''a'', None), ((2, 1), ''b'', None)] [] \<noteq>
             offer_all 1 [((2, 1), ''b'', None), ((1, 2), ''a'', None)] []"
    by (simp add: offer_all_def offer_def Let_def last_opt_def)
  then show ?thesis
    by (intro exI [of _ "((1, 2), ''a'', None)"] exI [of _ "((2, 1), ''b'', None)"] conjI) simp_all
qed

end
