(* ===== verification/ApiHttp.thy ===== *)
theory ApiHttp
  imports JsonText "HOL-Library.Word"
begin

unbundle bit_operations_syntax

text \<open>
  The HTTP layer of the API: \<open>crates/api/src/main.rs\<close> (\<open>app\<close>), \<open>config.rs\<close>, \<open>auth/\<close> and
  \<open>common/{errors,cache_control,conditional,edge_lock,request_id}.rs\<close>.  A handler is a function from a
  request to a response, a middleware wraps one, and the application is the handlers inside their
  middlewares in the order the code adds them.  The token library, the Turnstile service, header
  decoding and the CORS layer are third-party code: the fields of \<open>http_ext\<close>.
\<close>

subsection \<open>Requests and responses\<close>

text \<open>A header map: names are in lower case, \<open>get\<close> yields the first value of a name and \<open>insert\<close> replaces
  all of them.\<close>

type_synonym headers = "(string \<times> string) list"

datatype body = NoBody | TextBody string | JsonBody json

record request =
  rq_method :: string
  rq_path :: string
  rq_headers :: headers
  rq_body :: string

record response =
  rs_status :: nat
  rs_headers :: headers
  rs_body :: body

type_synonym handler = "request \<Rightarrow> response"

record session_claims =
  cl_iat :: nat
  cl_exp :: nat
  cl_tier :: string

text \<open>What the application asks of the CORS layer.\<close>

record cors_config =
  co_origins :: "string list"
  co_methods :: "string list"
  co_headers :: "string list"

record http_ext =
  hx_to_str :: "string \<Rightarrow> string option"
  hx_from_str :: "string \<Rightarrow> string option"
  hx_post_form :: "string \<Rightarrow> headers \<Rightarrow> string option"
  hx_success :: "string \<Rightarrow> bool option"
  hx_encode :: "string \<Rightarrow> session_claims \<Rightarrow> string option"
  hx_decode :: "nat \<Rightarrow> string \<Rightarrow> string \<Rightarrow> session_claims option"
  hx_session_token :: "request \<Rightarrow> response + string"
  hx_cors :: "cors_config \<Rightarrow> handler \<Rightarrow> handler"

definition header_get :: "headers \<Rightarrow> string \<Rightarrow> string option" where
  "header_get hs name = map_of hs name"

definition header_insert :: "string \<Rightarrow> string \<Rightarrow> headers \<Rightarrow> headers" where
  "header_insert name v hs = (name, v) # filter (\<lambda>h. fst h \<noteq> name) hs"

definition set_header :: "string \<Rightarrow> string \<Rightarrow> response \<Rightarrow> response" where
  "set_header name v resp = resp\<lparr>rs_headers := header_insert name v (rs_headers resp)\<rparr>"

definition reply :: "nat \<Rightarrow> body \<Rightarrow> response" where
  "reply status b = \<lparr>rs_status = status, rs_headers = [], rs_body = b\<rparr>"

definition is_success :: "nat \<Rightarrow> bool" where
  "is_success status \<longleftrightarrow> 200 \<le> status \<and> status < 300"

lemma header_get_insert [simp]:
  "header_get (header_insert name v hs) n = (if n = name then Some v else header_get hs n)"
proof -
  have "n \<noteq> name \<Longrightarrow> map_of (filter (\<lambda>h. fst h \<noteq> name) hs) n = map_of hs n"
    by (induction hs) auto
  then show ?thesis by (simp add: header_get_def header_insert_def)
qed

lemma set_header_simps [simp]:
  "rs_status (set_header name v resp) = rs_status resp"
  "rs_body (set_header name v resp) = rs_body resp"
  "rs_headers (set_header name v resp) = header_insert name v (rs_headers resp)"
  by (simp_all add: set_header_def)

lemma reply_simps [simp]:
  "rs_status (reply status b) = status" "rs_body (reply status b) = b" "rs_headers (reply status b) = []"
  by (simp_all add: reply_def)

subsection \<open>The error envelope\<close>

text \<open>\<open>details\<close> is left out of the JSON when there is none.\<close>

definition error_envelope :: "string \<Rightarrow> string \<Rightarrow> json option \<Rightarrow> json" where
  "error_envelope code message details =
     JObj ([(''code'', JStr code), (''message'', JStr message)] @
           (case details of None \<Rightarrow> [] | Some d \<Rightarrow> [(''details'', d)]))"

definition envelope :: "nat \<Rightarrow> string \<Rightarrow> string \<Rightarrow> json option \<Rightarrow> response" where
  "envelope status code message details = reply status (JsonBody (error_envelope code message details))"

definition bad_request :: "string \<Rightarrow> string \<Rightarrow> response" where
  "bad_request code message = envelope 400 code message None"

definition bad_request_with_details :: "string \<Rightarrow> string \<Rightarrow> json \<Rightarrow> response" where
  "bad_request_with_details code message details = envelope 400 code message (Some details)"

definition not_found_response :: "string \<Rightarrow> response" where
  "not_found_response message = envelope 404 ''not_found'' message None"

definition internal_error :: "string \<Rightarrow> string \<Rightarrow> response" where
  "internal_error code message = envelope 500 code message None"

subsection \<open>Cache-Control\<close>

definition cc_live :: string where "cc_live = ''public, max-age=0, must-revalidate''"
definition cc_short :: string where "cc_short = ''public, max-age=10''"
definition cc_medium :: string where "cc_medium = ''public, max-age=60''"
definition cc_long :: string where "cc_long = ''public, max-age=300''"
definition cc_no_store :: string where "cc_no_store = ''no-store''"

definition attach_cache :: "string \<Rightarrow> response \<Rightarrow> response" where
  "attach_cache v resp = set_header ''cache-control'' v resp"

definition enforce_no_store_on_errors :: "handler \<Rightarrow> handler" where
  "enforce_no_store_on_errors handle req =
     (let resp = handle req in
      if \<not> is_success (rs_status resp) \<and> rs_status resp \<noteq> 304
      then set_header ''cache-control'' cc_no_store resp else resp)"

subsection \<open>Conditional requests\<close>

definition quote_mark :: string where "quote_mark = [char_of (34 :: nat)]"

definition etag_for :: "int \<Rightarrow> string" where
  "etag_for head = quote_mark @ show_int head @ quote_mark"

definition weak_etag_for :: "int \<Rightarrow> string" where
  "weak_etag_for head = ''W/'' @ quote_mark @ show_int head @ quote_mark"

definition tag_matches :: "string \<Rightarrow> string \<Rightarrow> bool" where
  "tag_matches current raw =
     (let tag = trim_ws raw in
      if tag = ''*'' then True
      else let bare = unwrap_or (strip_prefix ''W/'' tag) tag
           in (case strip_prefix quote_mark bare of
                 None \<Rightarrow> False
               | Some t \<Rightarrow> strip_suffix quote_mark t = Some current))"

definition if_none_match_satisfied :: "http_ext \<Rightarrow> headers \<Rightarrow> int \<Rightarrow> bool" where
  "if_none_match_satisfied hx hs head =
     (case Option.bind (header_get hs ''if-none-match'') (hx_to_str hx) of
        None \<Rightarrow> False
      | Some raw \<Rightarrow> list_ex (tag_matches (show_int head)) (split_all CHR '','' raw))"

definition not_modified_with :: "string \<Rightarrow> response" where
  "not_modified_with etag =
     set_header ''cache-control'' cc_live (set_header ''etag'' etag (reply 304 NoBody))"

definition not_modified :: "int \<Rightarrow> response" where
  "not_modified head = not_modified_with (etag_for head)"

definition not_modified_weak :: "int \<Rightarrow> response" where
  "not_modified_weak head = not_modified_with (weak_etag_for head)"

definition attach_etag :: "int \<Rightarrow> response \<Rightarrow> response" where
  "attach_etag head resp = set_header ''etag'' (etag_for head) resp"

definition attach_weak_etag :: "int \<Rightarrow> response \<Rightarrow> response" where
  "attach_weak_etag head resp = set_header ''etag'' (weak_etag_for head) resp"

subsection \<open>Comparison of secrets\<close>

text \<open>\<open>ct_eq\<close> and \<open>secret_matches\<close> are the same loop over the bytes: no early exit on a difference.\<close>

definition byte :: "char \<Rightarrow> 8 word" where "byte c = of_char c"

definition ct_diff :: "string \<Rightarrow> string \<Rightarrow> 8 word" where
  "ct_diff a b = foldl (\<lambda>diff (x, y). diff OR (byte x XOR byte y)) 0 (zip a b)"

definition ct_eq :: "string \<Rightarrow> string \<Rightarrow> bool" where
  "ct_eq a b = (if length a \<noteq> length b then False else ct_diff a b = 0)"

definition secret_matches :: "string \<Rightarrow> string \<Rightarrow> bool" where
  "secret_matches provided expected =
     (if length provided \<noteq> length expected then False else ct_diff provided expected = 0)"

subsection \<open>The edge lock\<close>

definition require_edge_secret :: "string \<Rightarrow> handler \<Rightarrow> handler" where
  "require_edge_secret expected handle req =
     (if rq_path req = ''/health'' then handle req
      else if unwrap_or (map_option (\<lambda>v. secret_matches v expected) (header_get (rq_headers req) ''x-edge-secret'')) False
      then handle req
      else set_header ''cache-control'' ''no-store'' (reply 403 (TextBody ''forbidden'')))"

subsection \<open>Sessions\<close>

record auth_config =
  au_jwt_secret :: string
  au_turnstile_secret :: "string option"
  au_api_keys :: "string list"

definition session_ttl_secs :: nat where "session_ttl_secs = 15 * 60"

definition issue :: "http_ext \<Rightarrow> string \<Rightarrow> nat \<Rightarrow> string option" where
  "issue hx secret now_secs =
     hx_encode hx secret \<lparr>cl_iat = now_secs, cl_exp = now_secs + session_ttl_secs, cl_tier = ''free''\<rparr>"

text \<open>The library checks the signature and the expiry against its own clock, \<open>now\<close>.\<close>

definition verify_token :: "http_ext \<Rightarrow> nat \<Rightarrow> string \<Rightarrow> string \<Rightarrow> bool" where
  "verify_token hx now secret token = (hx_decode hx now secret token \<noteq> None)"

definition turnstile_verify :: "http_ext \<Rightarrow> string \<Rightarrow> string \<Rightarrow> bool" where
  "turnstile_verify hx secret token =
     (case hx_post_form hx ''https://challenges.cloudflare.com/turnstile/v0/siteverify''
             [(''secret'', secret), (''response'', token)] of
        Some r \<Rightarrow> unwrap_or (hx_success hx r) False
      | None \<Rightarrow> False)"

definition no_store :: "response \<Rightarrow> response" where
  "no_store resp = set_header ''cache-control'' ''no-store'' resp"

definition session :: "http_ext \<Rightarrow> nat \<Rightarrow> auth_config \<Rightarrow> string \<Rightarrow> response" where
  "session hx now auth token =
     (case au_turnstile_secret auth of
        None \<Rightarrow> reply 503 (TextBody ''turnstile not configured'')
      | Some ts_secret \<Rightarrow>
          if \<not> turnstile_verify hx ts_secret token
          then reply 403 (TextBody ''turnstile verification failed'')
          else case issue hx (au_jwt_secret auth) now of
                 Some t \<Rightarrow> no_store (reply 200 (JsonBody (JObj
                             [(''token'', JStr t), (''expires_in'', JNum (int session_ttl_secs))])))
               | None \<Rightarrow> reply 500 (TextBody ''token issue failed''))"

definition is_exempt :: "string \<Rightarrow> bool" where
  "is_exempt path \<longleftrightarrow> path = ''/health'' \<or> path = ''/auth/session'' \<or> prefix ''/api-docs'' path"

definition paid_request :: "http_ext \<Rightarrow> auth_config \<Rightarrow> request \<Rightarrow> bool" where
  "paid_request hx auth req =
     (case Option.bind (header_get (rq_headers req) ''x-api-key'') (hx_to_str hx) of
        None \<Rightarrow> False
      | Some key \<Rightarrow> list_ex (\<lambda>valid. ct_eq valid key) (au_api_keys auth))"

definition bearer_token :: "http_ext \<Rightarrow> request \<Rightarrow> string option" where
  "bearer_token hx req =
     map_option (\<lambda>(_, tok). trim_ws tok)
       (opt_filter (\<lambda>(scheme, _). eq_ignore_ascii_case scheme ''bearer'')
         (Option.bind (Option.bind (header_get (rq_headers req) ''authorization'') (hx_to_str hx))
           (split_once CHR '' '')))"

definition free_request :: "http_ext \<Rightarrow> nat \<Rightarrow> auth_config \<Rightarrow> request \<Rightarrow> bool" where
  "free_request hx now auth req =
     (case bearer_token hx req of
        None \<Rightarrow> False
      | Some tok \<Rightarrow> verify_token hx now (au_jwt_secret auth) tok)"

definition require_auth :: "http_ext \<Rightarrow> nat \<Rightarrow> auth_config \<Rightarrow> handler \<Rightarrow> handler" where
  "require_auth hx now auth handle req =
     (if is_exempt (rq_path req) then handle req
      else if paid_request hx auth req then handle req
      else if free_request hx now auth req then handle req
      else no_store (reply 401 (TextBody ''authentication required'')))"

subsection \<open>Request ids\<close>

definition sanitize :: "string \<Rightarrow> string" where
  "sanitize raw = take 64 (filter (\<lambda>c. ascii_alphanumeric c \<or> c = CHR ''-'') raw)"

text \<open>The handlers run inside the scope of the id: they take it as an argument.\<close>

definition capture :: "http_ext \<Rightarrow> (string option \<Rightarrow> handler) \<Rightarrow> handler" where
  "capture hx handle req =
     handle (opt_filter (\<lambda>s. s \<noteq> [])
       (map_option sanitize (Option.bind (header_get (rq_headers req) ''x-request-id'') (hx_to_str hx)))) req"

text \<open>\<open>AppState::ch\<close>: the settings of the client a handler queries with.\<close>

definition ch_settings :: "headers \<Rightarrow> string option \<Rightarrow> headers" where
  "ch_settings settings current =
     (case current of Some i \<Rightarrow> header_insert ''log_comment'' i settings | None \<Rightarrow> settings)"

subsection \<open>Configuration and the application\<close>

record app_config =
  ac_base_url :: string
  ac_edge_secret :: "string option"
  ac_jwt_secret :: "string option"
  ac_turnstile_secret :: "string option"
  ac_api_keys :: "string list"
  ac_cors_allow_origin :: "string option"
  ac_load_testing :: bool

definition set_variable :: "(string \<Rightarrow> string option) \<Rightarrow> string \<Rightarrow> string option" where
  "set_variable env name = opt_filter (\<lambda>s. trim_ws s \<noteq> []) (env name)"

definition config_from_env :: "(string \<Rightarrow> string option) \<Rightarrow> app_config" where
  "config_from_env env =
     \<lparr>ac_base_url = unwrap_or (env ''API_BASE_URL'') ''http://localhost:9000'',
      ac_edge_secret = set_variable env ''EDGE_SECRET'',
      ac_jwt_secret = set_variable env ''JWT_SECRET'',
      ac_turnstile_secret = set_variable env ''TURNSTILE_SECRET'',
      ac_api_keys = unwrap_or (map_option (\<lambda>s. filter (\<lambda>k. k \<noteq> []) (map trim_ws (split_all CHR '','' s)))
                                (env ''API_KEYS'')) [],
      ac_cors_allow_origin = set_variable env ''CORS_ALLOW_ORIGIN'',
      ac_load_testing = (env ''LOAD_TESTING'' = Some ''true'')\<rparr>"

definition auth_of_config :: "app_config \<Rightarrow> auth_config option" where
  "auth_of_config config =
     map_option (\<lambda>s. \<lparr>au_jwt_secret = s, au_turnstile_secret = ac_turnstile_secret config,
                      au_api_keys = ac_api_keys config\<rparr>) (ac_jwt_secret config)"

text \<open>The routes are the registered ones and the documents, which a request is dispatched to; the session
  route is added when the access layer is armed.  Its method and the body of its request are checked by
  the framework, which answers a request it rejects.\<close>

definition session_route :: "http_ext \<Rightarrow> nat \<Rightarrow> auth_config \<Rightarrow> handler \<Rightarrow> handler" where
  "session_route hx now auth routes req =
     (if rq_path req = ''/auth/session''
      then case hx_session_token hx req of Inl rejection \<Rightarrow> rejection | Inr token \<Rightarrow> session hx now auth token
      else routes req)"

definition cors_origins :: "http_ext \<Rightarrow> app_config \<Rightarrow> string list" where
  "cors_origins hx config =
     filter (\<lambda>s. s \<noteq> [])
       (filter_map (\<lambda>s. hx_from_str hx (trim_ws s))
         (split_all CHR '','' (unwrap_or (ac_cors_allow_origin config) [])))"

definition app :: "http_ext \<Rightarrow> nat \<Rightarrow> app_config \<Rightarrow> (string option \<Rightarrow> handler) \<Rightarrow> handler" where
  "app hx now config routes =
     (let router0 = (if ac_load_testing config then capture hx routes else routes None);
          router1 = (case auth_of_config config of None \<Rightarrow> router0 | Some a \<Rightarrow> session_route hx now a router0);
          router2 = (case auth_of_config config of None \<Rightarrow> router1 | Some a \<Rightarrow> require_auth hx now a router1);
          router3 = (case ac_edge_secret config of None \<Rightarrow> router2 | Some s \<Rightarrow> require_edge_secret s router2);
          origins = cors_origins hx config
      in if origins = [] then router3
         else hx_cors hx \<lparr>co_origins = origins, co_methods = [''GET'', ''POST''],
                co_headers = [''authorization'', ''content-type'', ''accept'', ''x-api-key'']\<rparr> router3)"

end
