(* ===== verification/ApiHttpFacts.thy ===== *)
theory ApiHttpFacts
  imports ApiHttp
begin

unbundle bit_operations_syntax

text \<open>
  What the HTTP layer promises: a comparison of secrets is equality, a gate lets exactly the allowed
  requests through and answers the others the same way whatever is behind it, also under a CORS layer, a session
  token opens the gate until it expires, and a client that repeats an entity tag is told \<open>304\<close> exactly when the head has
  not moved.
\<close>

subsection \<open>Secrets\<close>

lemma byte_inject: "byte x = byte y \<longleftrightarrow> x = y"
proof -
  have byte: "byte c = of_nat (of_char c)" for c
    by (simp only: byte_def of_nat_of_char)
  have "of_char c < (256 :: nat)" for c
    by simp
  then have "take_bit 8 (of_char c) = (of_char c :: nat)" for c
    by (simp add: take_bit_nat_eq_self_iff)
  then show ?thesis
    by (simp add: byte word_of_nat_eq_iff)
qed

lemma xor_eq_0: "a XOR b = 0 \<longleftrightarrow> a = b" for a b :: "8 word"
proof
  assume eq: "a XOR b = 0"
  have "a = a XOR (b XOR b)" by simp
  also have "\<dots> = (a XOR b) XOR b" by (simp only: xor.assoc)
  also have "\<dots> = b" by (simp only: eq xor.left_neutral)
  finally show "a = b" .
qed simp

lemma foldl_or: "foldl (\<lambda>d p. d OR f p) d ps = 0 \<longleftrightarrow> d = 0 \<and> list_all (\<lambda>p. f p = 0) ps"
  for d :: "8 word"
proof (induction ps arbitrary: d)
  case (Cons p ps)
  have "d OR f p = 0 \<longleftrightarrow> d = 0 \<and> f p = 0" by (rule or_eq_0_iff)
  then show ?case by (simp only: foldl_Cons Cons.IH list.pred_inject conj_assoc)
qed (simp only: foldl_Nil list.pred_inject simp_thms)

lemma ct_diff_0: "ct_diff a b = 0 \<longleftrightarrow> list_all (\<lambda>(x, y). x = y) (zip a b)"
  by (simp only: ct_diff_def split_def foldl_or xor_eq_0 byte_inject simp_thms)

lemma zip_all_eq: "length a = length b \<Longrightarrow> list_all (\<lambda>(x, y). x = y) (zip a b) \<longleftrightarrow> a = b"
  by (induction rule: list_induct2) auto

lemma ct_eq_iff: "ct_eq a b \<longleftrightarrow> a = b" and secret_matches_iff: "secret_matches a b \<longleftrightarrow> a = b"
  by (auto simp: ct_eq_def secret_matches_def ct_diff_0 zip_all_eq)

subsection \<open>Gates\<close>

text \<open>A gate: what it allows reaches the handler, anything else gets one refusal that no cache keeps.\<close>

locale gate =
  fixes pass :: "handler \<Rightarrow> handler" and allowed :: "request \<Rightarrow> bool" and refusal :: response
  assumes admits: "allowed r \<Longrightarrow> pass h r = h r"
    and refuses: "\<not> allowed r \<Longrightarrow> pass h r = refusal"
    and refused: "\<not> is_success (rs_status refusal)"
    and uncached: "header_get (rs_headers refusal) ''cache-control'' = Some ''no-store''"
begin

lemma pass_eq: "pass h r = (if allowed r then h r else refusal)"
  using admits refuses by simp

lemma hides: "\<not> allowed r \<Longrightarrow> pass h r = pass h' r"
  by (simp add: refuses)

lemma served: "is_success (rs_status (pass h r)) \<Longrightarrow> allowed r"
  using refused refuses [of r h] by auto

lemma locked: "(\<forall>h h'. pass h r = pass h' r) \<longleftrightarrow> \<not> allowed r"
proof
  assume same: "\<forall>h h'. pass h r = pass h' r"
  show "\<not> allowed r"
  proof
    assume "allowed r"
    with same [rule_format, of "\<lambda>_. reply 200 NoBody" "\<lambda>_. reply 404 NoBody"] show False
      by (simp add: admits reply_def)
  qed
qed (blast intro: hides)

end

locale nested_gates = outer: gate out_pass out_allowed out_refusal + inner: gate in_pass in_allowed in_refusal
  for out_pass out_allowed out_refusal in_pass in_allowed in_refusal
begin

lemma nested: "out_pass (in_pass h) r =
  (if \<not> out_allowed r then out_refusal else if \<not> in_allowed r then in_refusal else h r)"
  by (simp add: outer.pass_eq inner.pass_eq)

lemma nested_served: "is_success (rs_status (out_pass (in_pass h) r)) \<Longrightarrow> out_allowed r \<and> in_allowed r"
  using outer.served inner.served by (metis outer.admits)

end

definition edge_allowed :: "string \<Rightarrow> request \<Rightarrow> bool" where
  "edge_allowed expected req \<longleftrightarrow>
     rq_path req = ''/health'' \<or> header_get (rq_headers req) ''x-edge-secret'' = Some expected"

definition forbidden :: response where
  "forbidden = no_store (reply 403 (TextBody ''forbidden''))"

definition auth_allowed :: "http_ext \<Rightarrow> nat \<Rightarrow> auth_config \<Rightarrow> request \<Rightarrow> bool" where
  "auth_allowed hx now auth req \<longleftrightarrow>
     is_exempt (rq_path req) \<or>
     (\<exists>key \<in> set (au_api_keys auth). Option.bind (header_get (rq_headers req) ''x-api-key'') (hx_to_str hx) = Some key) \<or>
     (\<exists>tok. bearer_token hx req = Some tok \<and> hx_decode hx now (au_jwt_secret auth) tok \<noteq> None)"

definition unauthorized :: response where
  "unauthorized = no_store (reply 401 (TextBody ''authentication required''))"

lemma paid_iff: "paid_request hx auth req \<longleftrightarrow>
  (\<exists>key \<in> set (au_api_keys auth). Option.bind (header_get (rq_headers req) ''x-api-key'') (hx_to_str hx) = Some key)"
  by (auto simp: paid_request_def list_ex_iff ct_eq_iff split: option.splits)

lemma free_iff: "free_request hx now auth req \<longleftrightarrow>
  (\<exists>tok. bearer_token hx req = Some tok \<and> hx_decode hx now (au_jwt_secret auth) tok \<noteq> None)"
  by (auto simp: free_request_def verify_token_def split: option.splits)

interpretation edge: gate "require_edge_secret expected" "edge_allowed expected" forbidden for expected
  by unfold_locales
     (auto simp: require_edge_secret_def edge_allowed_def forbidden_def no_store_def is_success_def
        secret_matches_iff unwrap_or_def split: option.splits)

interpretation access: gate "require_auth hx now auth" "auth_allowed hx now auth" unauthorized for hx now auth
  by unfold_locales
     (auto simp: require_auth_def auth_allowed_def unauthorized_def no_store_def is_success_def paid_iff free_iff)

interpretation layers: nested_gates "require_edge_secret expected" "edge_allowed expected" forbidden
  "require_auth hx now auth" "auth_allowed hx now auth" unauthorized for expected hx now auth
  by unfold_locales

text \<open>
  The CORS layer, as it is documented: a preflight (\<open>OPTIONS\<close>) is answered by the layer itself, empty and
  whatever is behind it; any other request goes to the handler, and only headers are added to its answer:
  those of the CORS protocol, in particular the origin of the request when it is listed.
\<close>

definition cors_header :: "string \<Rightarrow> bool" where
  "cors_header name \<longleftrightarrow> prefix ''access-control-'' name \<or> name = ''vary''"

definition cors_layer :: "(cors_config \<Rightarrow> handler \<Rightarrow> handler) \<Rightarrow> bool" where
  "cors_layer layer \<longleftrightarrow>
     (\<forall>c h r. rq_method r = ''OPTIONS'' \<longrightarrow>
        rs_status (layer c h r) = 200 \<and> rs_body (layer c h r) = NoBody \<and> (\<forall>h'. layer c h' r = layer c h r)) \<and>
     (\<forall>c h r. rq_method r \<noteq> ''OPTIONS'' \<longrightarrow>
        rs_status (layer c h r) = rs_status (h r) \<and> rs_body (layer c h r) = rs_body (h r) \<and>
        (\<forall>name. \<not> cors_header name \<longrightarrow> header_get (rs_headers (layer c h r)) name = header_get (rs_headers (h r)) name) \<and>
        (\<forall>origin \<in> set (co_origins c). header_get (rq_headers r) ''origin'' = Some origin \<longrightarrow>
           header_get (rs_headers (layer c h r)) ''access-control-allow-origin'' = Some origin))"

text \<open>The answer without the CORS layer, for a request that the two gates let in or refuse.\<close>

definition gated :: "http_ext \<Rightarrow> nat \<Rightarrow> string \<Rightarrow> auth_config \<Rightarrow> handler \<Rightarrow> handler" where
  "gated hx now secret auth h req =
     (if \<not> edge_allowed secret req then forbidden
      else if \<not> auth_allowed hx now auth req then unauthorized
      else h req)"

lemma app_eq:
  assumes "auth_of_config config = Some auth" and "ac_edge_secret config = Some secret"
  shows "app hx now config routes =
    (let h = gated hx now secret auth (session_route hx now auth (if ac_load_testing config then capture hx routes else routes None))
     in if cors_origins hx config = [] then h
        else hx_cors hx \<lparr>co_origins = cors_origins hx config, co_methods = [''GET'', ''POST''],
          co_headers = [''authorization'', ''content-type'', ''accept'', ''x-api-key'']\<rparr> h)"
proof -
  have "require_edge_secret secret (require_auth hx now auth h) = gated hx now secret auth h" for h
    by (rule ext) (simp add: gated_def layers.nested)
  then show ?thesis by (simp add: app_def assms Let_def)
qed

text \<open>C37. The armed application lets in what both gates allow and nothing else: with a session secret and an
  edge secret configured, a request without the edge secret (except a health probe) is answered 403, one
  that came through the edge with neither a listed API key nor a valid session (and is not exempt) 401,
  both marked as not to be stored and both the same whatever the routes would answer; every other request
  gets the answer of its route.  With CORS origins configured the status, the body and every header outside
  the CORS protocol of these answers are the same, an answer (also a refusal) to a listed origin names it,
  and an \<open>OPTIONS\<close> request gets an empty answer that is the same whatever the routes would answer.  The CORS
  layer of the HTTP library is assumed to behave as documented.\<close>

theorem armed_app:
  assumes "auth_of_config config = Some auth" and "ac_edge_secret config = Some secret"
    and "cors_layer (hx_cors hx)"
  shows "let answer =
           (if \<not> edge_allowed secret req then forbidden
            else if \<not> auth_allowed hx now auth req then unauthorized
            else session_route hx now auth (if ac_load_testing config then capture hx routes else routes None) req);
         resp = app hx now config routes req
     in if cors_origins hx config = [] then resp = answer
        else if rq_method req = ''OPTIONS''
        then rs_status resp = 200 \<and> rs_body resp = NoBody \<and> (\<forall>routes'. app hx now config routes' req = resp)
        else rs_status resp = rs_status answer \<and> rs_body resp = rs_body answer \<and>
          (\<forall>name. \<not> cors_header name \<longrightarrow> header_get (rs_headers resp) name = header_get (rs_headers answer) name) \<and>
          (\<forall>origin \<in> set (cors_origins hx config). header_get (rq_headers req) ''origin'' = Some origin \<longrightarrow>
             header_get (rs_headers resp) ''access-control-allow-origin'' = Some origin)"
proof -
  let ?h = "\<lambda>routes. gated hx now secret auth (session_route hx now auth (if ac_load_testing config then capture hx routes else routes None))"
  let ?c = "\<lparr>co_origins = cors_origins hx config, co_methods = [''GET'', ''POST''],
          co_headers = [''authorization'', ''content-type'', ''accept'', ''x-api-key'']\<rparr>"
  have app: "app hx now config routes = (if cors_origins hx config = [] then ?h routes else hx_cors hx ?c (?h routes))" for routes
    using app_eq [OF assms(1,2)] by (simp add: Let_def)
  show ?thesis
    using assms(3) [unfolded cors_layer_def] by (simp add: app gated_def Let_def)
qed

definition demo_cors :: "cors_config \<Rightarrow> handler \<Rightarrow> handler" where
  "demo_cors c h r =
     (if rq_method r = ''OPTIONS'' then reply 200 NoBody
      else (case header_get (rq_headers r) ''origin'' of
              Some origin \<Rightarrow> if origin \<in> set (co_origins c) then set_header ''access-control-allow-origin'' origin (h r) else h r
            | None \<Rightarrow> h r))"

lemma demo_cors_layer: "cors_layer demo_cors"
  by (auto simp: cors_layer_def demo_cors_def cors_header_def split: option.splits)

definition demo_http :: http_ext where
  "demo_http =
     \<lparr>hx_to_str = Some, hx_from_str = Some, hx_post_form = (\<lambda>_ fields. map_of fields ''response''),
      hx_success = (\<lambda>answer. Some (answer = ''human'')),
      hx_encode = (\<lambda>secret claims. Some (secret @ '':'' @ show_nat (cl_exp claims))),
      hx_decode = (\<lambda>now secret token. if token = secret @ '':'' @ show_nat 907 \<and> now \<le> 907
                     then Some \<lparr>cl_iat = 7, cl_exp = 907, cl_tier = ''free''\<rparr> else None),
      hx_session_token = (\<lambda>r. Inr (rq_body r)), hx_cors = demo_cors\<rparr>"

definition demo_config :: app_config where
  "demo_config =
     \<lparr>ac_base_url = [], ac_edge_secret = Some ''edge'', ac_jwt_secret = Some ''jwt'',
      ac_turnstile_secret = Some ''ts'', ac_api_keys = [''paid''], ac_cors_allow_origin = Some ''https://spa.example'',
      ac_load_testing = False\<rparr>"

definition demo_request :: "headers \<Rightarrow> request" where
  "demo_request hs = \<lparr>rq_method = ''GET'', rq_path = ''/v1/ledgers'', rq_headers = hs, rq_body = []\<rparr>"

theorem armed_app_witness:
  "let resp = app demo_http 7 demo_config (\<lambda>_ _. reply 200 NoBody)
       (demo_request [(''x-edge-secret'', ''edge''), (''origin'', ''https://spa.example'')])
   in rs_status resp = 401 \<and> rs_body resp = TextBody ''authentication required'' \<and>
      header_get (rs_headers resp) ''access-control-allow-origin'' = Some ''https://spa.example'' \<and>
      header_get (rs_headers resp) ''cache-control'' = Some ''no-store''"
proof -
  let ?req = "demo_request [(''x-edge-secret'', ''edge''), (''origin'', ''https://spa.example'')]"
  have origins: "cors_origins demo_http demo_config = [''https://spa.example'']"
  proof -
    have "split_all CHR '','' ''https://spa.example'' = [''https://spa.example'']"
      "trim_ws ''https://spa.example'' = ''https://spa.example''" by code_simp+
    then show ?thesis by (simp add: demo_http_def demo_config_def cors_origins_def)
  qed
  have auth: "auth_of_config demo_config =
      Some \<lparr>au_jwt_secret = ''jwt'', au_turnstile_secret = Some ''ts'', au_api_keys = [''paid'']\<rparr>"
    by (simp add: demo_config_def auth_of_config_def)
  have secret: "ac_edge_secret demo_config = Some ''edge''" by (simp add: demo_config_def)
  have cors: "cors_layer (hx_cors demo_http)" using demo_cors_layer by (simp add: demo_http_def)
  have "edge_allowed ''edge'' ?req" "rq_method ?req \<noteq> ''OPTIONS''" "header_get (rq_headers ?req) ''origin'' = Some ''https://spa.example''"
    "\<not> auth_allowed demo_http 7 \<lparr>au_jwt_secret = ''jwt'', au_turnstile_secret = Some ''ts'', au_api_keys = [''paid'']\<rparr> ?req"
    "\<not> cors_header ''cache-control''"
    by (simp_all add: demo_request_def edge_allowed_def auth_allowed_def is_exempt_def bearer_token_def header_get_def cors_header_def)
  then show ?thesis
    using armed_app [OF auth secret cors, of ?req 7 "\<lambda>_ _. reply 200 NoBody"]
    by (simp add: origins Let_def unauthorized_def no_store_def)
qed

subsection \<open>Sessions\<close>

lemma session_minted:
  assumes "is_success (rs_status (session hx now auth token))"
  shows "\<exists>ts t. au_turnstile_secret auth = Some ts \<and> turnstile_verify hx ts token \<and>
    issue hx (au_jwt_secret auth) now = Some t \<and>
    rs_body (session hx now auth token) =
      JsonBody (JObj [(''token'', JStr t), (''expires_in'', JNum (int session_ttl_secs))])"
  using assms by (auto simp: session_def no_store_def is_success_def split: option.splits if_splits)

lemma bearer_scheme: "eq_ignore_ascii_case ''Bearer'' ''bearer''"
  by code_simp

text \<open>C38. A session token opens the access gate until it expires: if \<open>POST /auth/session\<close> answered with a
  token, a request that carries it as \<open>Authorization: Bearer\<close> within \<open>SESSION_TTL_SECS\<close> of the minting
  reaches its handler.  The token library is assumed to accept what it signed with the same secret up to
  the expiry of the claims.\<close>

theorem session_opens_gate:
  assumes minted: "rs_body (session hx now auth turnstile) = JsonBody doc"
    and token: "jget doc ''token'' = Some (JStr t)" "trim_ws t = t"
    and sent: "Option.bind (header_get (rq_headers req) ''authorization'') (hx_to_str hx) = Some (''Bearer '' @ t)"
    and library: "\<forall>claims n. hx_encode hx (au_jwt_secret auth) claims = Some t \<longrightarrow> n \<le> cl_exp claims \<longrightarrow>
      hx_decode hx n (au_jwt_secret auth) t \<noteq> None"
    and unexpired: "later \<le> now + session_ttl_secs"
  shows "require_auth hx later auth h req = h req"
proof -
  have "is_success (rs_status (session hx now auth turnstile))"
    using minted by (auto simp: session_def no_store_def is_success_def split: option.splits if_splits)
  then obtain u where "issue hx (au_jwt_secret auth) now = Some u" and
    "rs_body (session hx now auth turnstile) =
      JsonBody (JObj [(''token'', JStr u), (''expires_in'', JNum (int session_ttl_secs))])"
    using session_minted by blast
  with minted token have "issue hx (au_jwt_secret auth) now = Some t" by auto
  with library unexpired have "hx_decode hx later (au_jwt_secret auth) t \<noteq> None"
    by (force simp: issue_def)
  moreover have "bearer_token hx req = Some t"
    by (simp add: bearer_token_def sent token bearer_scheme)
  ultimately show ?thesis by (intro access.admits) (auto simp: auth_allowed_def)
qed

theorem session_opens_gate_witness:
  "require_auth demo_http 900 \<lparr>au_jwt_secret = ''jwt'', au_turnstile_secret = Some ''ts'', au_api_keys = []\<rparr>
     (\<lambda>_. reply 200 NoBody) (demo_request [(''authorization'', ''Bearer jwt:907'')]) = reply 200 NoBody"
proof (rule session_opens_gate [where now = 7 and turnstile = "''human''" and t = "''jwt:907''" and
      doc = "JObj [(''token'', JStr ''jwt:907''), (''expires_in'', JNum 900)]"])
  have digits: "show_nat 907 = ''907''" by code_simp
  show "rs_body (session demo_http 7 \<lparr>au_jwt_secret = ''jwt'', au_turnstile_secret = Some ''ts'', au_api_keys = []\<rparr>
      ''human'') = JsonBody (JObj [(''token'', JStr ''jwt:907''), (''expires_in'', JNum 900)])"
    by (simp add: demo_http_def session_def turnstile_verify_def issue_def no_store_def session_ttl_secs_def digits)
  show "trim_ws ''jwt:907'' = ''jwt:907''" by code_simp
  show "\<forall>claims n. hx_encode demo_http (au_jwt_secret \<lparr>au_jwt_secret = ''jwt'', au_turnstile_secret = Some ''ts'',
      au_api_keys = []\<rparr>) claims = Some ''jwt:907'' \<longrightarrow> n \<le> cl_exp claims \<longrightarrow>
      hx_decode demo_http n (au_jwt_secret \<lparr>au_jwt_secret = ''jwt'', au_turnstile_secret = Some ''ts'',
      au_api_keys = []\<rparr>) ''jwt:907'' \<noteq> None"
    using show_nat_inject [of _ 907] by (auto simp: demo_http_def digits)
qed (simp_all add: demo_request_def demo_http_def header_get_def session_ttl_secs_def)

subsection \<open>Entity tags\<close>

lemma white_space_no_mark:
  "\<forall>w \<in> set white_space. hd w \<noteq> char_of (34 :: nat) \<and> hd w \<noteq> CHR ''W'' \<and> last w \<noteq> char_of (34 :: nat)"
  by code_simp

lemma mark_other: "char_of (34 :: nat) \<noteq> CHR '',''" "char_of (34 :: nat) \<noteq> CHR ''W''" "char_of (34 :: nat) \<noteq> CHR ''*''"
  by code_simp+

lemma show_nat_chars: "c \<in> set (show_nat n) \<Longrightarrow> is_ascii_digit c"
  using show_nat_digits by (auto simp: list_all_iff)

lemma show_int_chars: "c \<in> set (show_int i) \<Longrightarrow> is_ascii_digit c \<or> c = CHR ''-''"
  by (auto simp: show_int_def dest: show_nat_chars split: if_splits)

lemma etag_plain:
  "trim_ws (etag_for i) = etag_for i" "trim_ws (weak_etag_for i) = weak_etag_for i"
  using white_space_no_mark
  by (auto simp: etag_for_def weak_etag_for_def quote_mark_def intro!: trim_ws_plain)

lemma etag_single:
  "split_all CHR '','' (etag_for i) = [etag_for i]" "split_all CHR '','' (weak_etag_for i) = [weak_etag_for i]"
  using mark_other by (auto simp: etag_for_def weak_etag_for_def quote_mark_def is_ascii_digit_def
      intro!: split_all_single dest!: show_int_chars)

lemma quoted: "strip_prefix quote_mark (quote_mark @ t @ quote_mark) = Some (t @ quote_mark)"
  by (simp add: strip_prefix_Some)

lemma weak_prefix: "strip_prefix ''W/'' (etag_for i) = None" "strip_prefix ''W/'' (weak_etag_for i) = Some (etag_for i)"
  using mark_other by (auto simp: strip_prefix_def etag_for_def weak_etag_for_def quote_mark_def)

lemma tag_matches_etag:
  "tag_matches (show_int head) (etag_for i) \<longleftrightarrow> i = head"
  "tag_matches (show_int head) (weak_etag_for i) \<longleftrightarrow> i = head"
proof -
  have "etag_for i \<noteq> ''*''" "weak_etag_for i \<noteq> ''*''"
    using mark_other by (auto simp: etag_for_def weak_etag_for_def quote_mark_def)
  then show "tag_matches (show_int head) (etag_for i) \<longleftrightarrow> i = head"
    "tag_matches (show_int head) (weak_etag_for i) \<longleftrightarrow> i = head"
    by (simp_all add: tag_matches_def etag_plain weak_prefix Let_def)
       (simp_all add: etag_for_def quoted strip_suffix_append show_int_inject)
qed

theorem etag_revalidates:
  assumes sent: "header_get hs ''if-none-match'' = Some tag" and "hx_to_str hx tag = Some tag"
    and "tag = etag_for seen \<or> tag = weak_etag_for seen"
  shows "if_none_match_satisfied hx hs head \<longleftrightarrow> head = seen"
  using assms by (auto simp: if_none_match_satisfied_def etag_single tag_matches_etag)

subsection \<open>Errors are not cached\<close>

theorem errors_not_stored:
  "let resp = enforce_no_store_on_errors h req in
     rs_status resp = rs_status (h req) \<and> rs_body resp = rs_body (h req) \<and>
     (if is_success (rs_status (h req)) \<or> rs_status (h req) = 304 then resp = h req
      else header_get (rs_headers resp) ''cache-control'' = Some cc_no_store)"
  by (auto simp: enforce_no_store_on_errors_def Let_def)

lemma not_modified_kept: "enforce_no_store_on_errors (\<lambda>_. not_modified head) req = not_modified head"
  by (simp add: enforce_no_store_on_errors_def not_modified_def not_modified_with_def)

subsection \<open>Request ids\<close>

lemma sanitize_bounds: "length (sanitize raw) \<le> 64 \<and> (\<forall>c \<in> set (sanitize raw). ascii_alphanumeric c \<or> c = CHR ''-'')"
  by (auto simp: sanitize_def dest: in_set_takeD)

lemma sanitize_idem: "sanitize (sanitize raw) = sanitize raw"
proof -
  have "filter P (take n (filter P xs)) = take n (filter P xs)" for P n and xs :: string
    by (rule filter_True) (auto dest: in_set_takeD)
  then show ?thesis by (simp add: sanitize_def)
qed

end
