(* ===== verification/Spec2Isabelle.thy ===== *)
theory Spec2Isabelle
  imports NetSettled LedgerRefine EventIds TransferFacts Nft OperationFacts InvocationFacts Fold Pagination ReconcileFacts ProcessFacts StageFacts Decimals PersistFacts IngestFacts
    EnrichFacts SeedFacts ApiHttpFacts
begin

text \<open>
  A verification development for the Stellar block explorer: an indexer that parses every ledger's
  close meta (\<open>crates/xdr-parser\<close>), stages it as rows (\<open>crates/db-clickhouse\<close>), writes them to
  ClickHouse from a live Lambda (\<open>crates/indexer\<close>) or a backfill (\<open>crates/backfill-runner\<close>), and serves
  them through an API (\<open>crates/api\<close>).

  \<^bold>\<open>Theories.\<close>
  \<^item> Foundations.  \<open>Prelude\<close>: machine integers as ranges over \<open>int\<close>, checked and wrapping operations,
    options and lists.  \<open>Results\<close>: Rust's \<open>Result\<close> and loops that end at the first error.  \<open>OrdMap\<close>:
    \<open>BTreeMap\<close>, with a locale of ordered maps and its interpretation.  \<open>RustStr\<close>: strings as lists of
    UTF-8 bytes with the operations used.  \<open>Json\<close>, \<open>JsonText\<close>: \<open>serde_json::Value\<close>, its accessors and
    its text.  \<open>Xdr\<close>, \<open>Meta\<close>, \<open>Tx\<close>: the Stellar schema as far as the sources read it.
  \<^item> The parser.  \<open>ScVal\<close> (\<open>scval.rs\<close>), \<open>Sac\<close> (\<open>sac.rs\<close>, \<open>event_filters.rs\<close>), \<open>Events\<close> (\<open>event.rs\<close>),
    \<open>AssetTransfers\<close>, \<open>Nft\<close>, \<open>Operation\<close> (with \<open>asset_appearances.rs\<close>, \<open>op_participants.rs\<close>),
    \<open>Invocation\<close> (with \<open>op_source.rs\<close>), \<open>LedgerValue\<close> and \<open>NetSettled\<close> (the value a transaction
    settles), \<open>EntryChanges\<close>, \<open>Wasm\<close> (\<open>contract.rs\<close>, \<open>classification.rs\<close>), \<open>Contracts\<close>, \<open>Accounts\<close>,
    \<open>PoolFamilies\<close>, \<open>Fold\<close>, and \<open>Process\<close>, the parse of a whole ledger
    (\<open>indexer/src/handler/process.rs\<close>).
  \<^item> Staging.  \<open>Domain\<close> (\<open>crates/domain/src/enums\<close>), \<open>Rows\<close> (\<open>persist/rows.rs\<close>, \<open>ids.rs\<close>),
    \<open>StageEntities\<close>, \<open>StageOps\<close>, \<open>SorobanPools\<close>, \<open>PoolAmounts\<close> and \<open>Stage\<close>, which is
    \<open>prepare_with_sac_overrides\<close>.
  \<^item> Storing.  \<open>Writer\<close> (\<open>persist/writer.rs\<close>, the inserts of a partition and the marker row),
    \<open>Persist\<close> (\<open>persist.rs\<close>, what is read back before staging), \<open>ContractView\<close>
    (\<open>contract-executor\<close>, \<open>contract_state.rs\<close>, \<open>contract_metadata.rs\<close>) and \<open>Ingest\<close>: the live path of a
    ledger and the backfill's download, indexing and run.  A state is the log of calls made to
    ClickHouse so far, with the writer's open inserts and the files of the backfill's world.
  \<^item> Enrichment.  \<open>UriGuard\<close>, \<open>NftFetch\<close> and \<open>Enrich\<close> (\<open>crates/enrichment-shared\<close>,
    \<open>enrichment_publish.rs\<close>, \<open>crates/enrichment-worker\<close>); requests are a log with their responses.
  \<^item> The checkpoint comparison (\<open>backfill-runner/src/snapshot\<close>).  \<open>Snapshot\<close>: the network's state from
    the buckets of a history archive and the verdict on a stored row; \<open>SnapshotSeed\<close>: the passes over
    balances, claimable balances, pools and accounts, the stubs they need and the inserts.
  \<^item> Services.  \<open>LakeKeys\<close> (archive keys and backfill partitions), \<open>Reconcile\<close> (doorbells, the reconcile
    loop, retries, pacing), \<open>Pagination\<close> (keyset pages and cursors), \<open>ApiHttp\<close> (\<open>api/src/main.rs\<close>,
    \<open>auth\<close> and the error, cache and gate modules of \<open>common\<close>): a handler maps a request to a response,
    a middleware wraps it, and \<open>ApiHttpFacts\<close> has the locale of gates with its two interpretations.

  \<^bold>\<open>What is shown.\<close>  Theories ending in \<open>Facts\<close>, with \<open>LedgerRefine\<close>, \<open>EventIds\<close> and \<open>PoolClaims\<close>, hold
  the theorems that need more than one component: the deltas read from a meta are those of a
  ledger of entries whose balances independent rules name (\<open>holds\<close>); every event id is unique; every
  transaction of a ledger contributes what its own envelope, meta and result yield; labelled
  transfers come from the contract of their asset; the explicit-stack walks equal their
  recursions; a staged Soroban pool is exactly a registration its own storage corroborates; a pass
  of the live indexer leaves no gap; pages show every row once; a marker row is written after all
  rows it vouches for, for a ledger and for a partition, and a ledger reported as stored is stored
  whole, with everything the parser found in its own meta or file (\<open>PersistFacts\<close>, \<open>IngestFacts\<close>);
  metadata is requested from guarded addresses and from redirects that stay on their site only
  (\<open>EnrichFacts\<close>); a snapshot is the ledger its buckets replay to (\<open>SnapshotFacts\<close>), and one run of
  the comparison with it leaves nothing to correct (\<open>Reconciliation\<close>, a locale of comparisons, and
  \<open>SeedFacts\<close>, its interpretations on balances and claimable balances); the API answers what its two
  gates allow and nothing else, behind a CORS layer that only adds headers, and a session token opens them until it expires (\<open>ApiHttpFacts\<close>).

  \<^bold>\<open>Conventions.\<close>  An integer of the sources is an \<open>int\<close> whose range is stated where it matters;
  arithmetic that can wrap or panic in the release profile is written out.  A \<open>Result\<close> is a sum with
  the error on the left; a panic is \<open>None\<close> or a constructor of the error type.  A hash map that is
  only looked up is a partial map, one that is listed is an association list in the order of first
  insertion.  Loops over an explicit stack and the byte readers are total functions with a measure;
  the loops of the live indexer carry the deadline of the source as their bound.  Third-party
  code (XDR codec, StrKey, base64, hexadecimal, SHA-256, CityHash, the JSON parser, the Soroban
  host, the HTTP client and its redirects, the CORS layer, S3, SQS, ClickHouse) is a record of functions passed as a parameter, and what is assumed of it is a
  hypothesis of the theorem that needs it.

  \<^bold>\<open>Not modelled.\<close>  SQL text and the handlers that only forward it, network clients, logging,
  metrics and deployment code; the components list of the manifest names each part.
\<close>

end
